(* ===== verification/Prelude.thy ===== *)
theory Prelude
  imports
    Main
    "HOL-Library.Word"
    "HOL-Library.Monad_Syntax"
    "HOL-Library.Char_ord"
    "HOL-Library.List_Lexorder"
begin

text \<open>
  Shared vocabulary of the development: machine integers, byte strings, the pieces of Rust's
  standard library that the modelled modules call (string searching and splitting, decimal and
  octal formatting, the \<open>Option\<close> predicates), and the generic lemmas and fact collections on
  them that the component theories use.

  A Rust \<open>String\<close>, \<open>&str\<close> or \<open>&[u8]\<close> is a \<^typ>\<open>string\<close>: HOL characters are
  bytes, so a list of them is exactly a byte sequence.  \<open>Result<T, E>\<close> with a unit error is
  \<open>'a option\<close>; with an informative error it is a sum.
\<close>

section \<open>Types\<close>

type_synonym u32 = "32 word"
type_synonym u64 = "64 word"
type_synonym bytes = string

named_theorems serde_simps \<open>decoding what was encoded, object by object\<close>
named_theorems guard_defs \<open>the guards the record validator is composed of\<close>
named_theorems transition_defs \<open>the transitions of the Ownership Record\<close>

section \<open>Option and list helpers of the standard library\<close>

definition is_some_and :: "('a \<Rightarrow> bool) \<Rightarrow> 'a option \<Rightarrow> bool" where
  "is_some_and p x = (case x of None \<Rightarrow> False | Some v \<Rightarrow> p v)"

definition is_none_or :: "('a \<Rightarrow> bool) \<Rightarrow> 'a option \<Rightarrow> bool" where
  "is_none_or p x = (case x of None \<Rightarrow> True | Some v \<Rightarrow> p v)"

definition ok_or_guard :: "bool \<Rightarrow> 'a \<Rightarrow> 'a option" where
  "ok_or_guard b x = (if b then Some x else None)"

lemma is_some_and_simps [simp]:
  "is_some_and p None = False" "is_some_and p (Some x) = p x"
  by (simp_all add: is_some_and_def)

lemma is_none_or_simps [simp]:
  "is_none_or p None = True" "is_none_or p (Some x) = p x"
  by (simp_all add: is_none_or_def)

lemma is_some_and_iff: "is_some_and p x \<longleftrightarrow> (\<exists>v. x = Some v \<and> p v)"
  by (cases x) simp_all

lemma is_none_or_iff: "is_none_or p x \<longleftrightarrow> (\<forall>v. x = Some v \<longrightarrow> p v)"
  by (cases x) simp_all

lemma ok_or_guard_Some [simp]: "ok_or_guard b x = Some y \<longleftrightarrow> b \<and> x = y"
  by (simp add: ok_or_guard_def)

lemma ok_or_guard_True [simp]: "ok_or_guard True x = Some x"
  by (simp add: ok_or_guard_def)

text \<open>\<open>Iterator::position\<close>: the index of the first element that satisfies the predicate.\<close>

fun position :: "('a \<Rightarrow> bool) \<Rightarrow> 'a list \<Rightarrow> nat option" where
  "position p [] = None"
| "position p (x # xs) = (if p x then Some 0 else map_option Suc (position p xs))"

lemma position_Some_nth:
  "position p xs = Some i \<Longrightarrow> i < length xs \<and> p (xs ! i)"
  by (induction xs arbitrary: i) (auto split: if_splits)

lemma position_None: "position p xs = None \<longleftrightarrow> (\<forall>x\<in>set xs. \<not> p x)"
  by (induction xs) auto

text \<open>\<open>slice::get\<close>: an element, or nothing when the index is out of range.\<close>

definition nth_opt :: "'a list \<Rightarrow> nat \<Rightarrow> 'a option" where
  "nth_opt xs i = (if i < length xs then Some (xs ! i) else None)"

lemma nth_opt_Some [simp]: "nth_opt xs i = Some x \<longleftrightarrow> i < length xs \<and> xs ! i = x"
  by (auto simp: nth_opt_def)

section \<open>Bytes\<close>

definition is_ascii_digit :: "char \<Rightarrow> bool" where
  "is_ascii_digit c = (CHR ''0'' \<le> c \<and> c \<le> CHR ''9'')"

definition is_ascii_lowercase :: "char \<Rightarrow> bool" where
  "is_ascii_lowercase c = (CHR ''a'' \<le> c \<and> c \<le> CHR ''z'')"

definition is_ascii_uppercase :: "char \<Rightarrow> bool" where
  "is_ascii_uppercase c = (CHR ''A'' \<le> c \<and> c \<le> CHR ''Z'')"

definition is_ascii_alphanumeric :: "char \<Rightarrow> bool" where
  "is_ascii_alphanumeric c = (is_ascii_digit c \<or> is_ascii_lowercase c \<or> is_ascii_uppercase c)"

definition is_ascii_hexdigit :: "char \<Rightarrow> bool" where
  "is_ascii_hexdigit c =
     (is_ascii_digit c \<or> CHR ''a'' \<le> c \<and> c \<le> CHR ''f'' \<or> CHR ''A'' \<le> c \<and> c \<le> CHR ''F'')"

definition newline :: char where
  "newline = CHR 0x0A"

text \<open>The lines of a file, each ended by a newline.\<close>

definition unlines :: "string list \<Rightarrow> string" where
  "unlines ls = concat (map (\<lambda>l. l @ [newline]) ls)"

section \<open>Formatting of integers\<close>

fun digits_in :: "nat \<Rightarrow> nat \<Rightarrow> nat \<Rightarrow> string" where
  "digits_in base 0 n = []"
| "digits_in base (Suc fuel) n =
     (if n < base then [char_of (48 + n)]
      else digits_in base fuel (n div base) @ [char_of (48 + n mod base)])"

text \<open>
  \<open>format!("{}", n)\<close> and \<open>format!("{:o}", n)\<close>: a 32-bit value has at most ten decimal and
  eleven octal digits, so the fuel below is never exhausted.
\<close>

definition show_u32 :: "u32 \<Rightarrow> string" where
  "show_u32 n = digits_in 10 11 (unat n)"

definition show_octal_u32 :: "u32 \<Rightarrow> string" where
  "show_octal_u32 n = digits_in 8 12 (unat n)"

definition show_u8 :: "nat \<Rightarrow> string" where
  "show_u8 n = digits_in 10 4 n"

section \<open>String searching and splitting\<close>

fun starts_with :: "string \<Rightarrow> string \<Rightarrow> bool" where
  "starts_with [] s = True"
| "starts_with (p # ps) [] = False"
| "starts_with (p # ps) (c # cs) = (p = c \<and> starts_with ps cs)"

definition strip_prefix :: "string \<Rightarrow> string \<Rightarrow> string option" where
  "strip_prefix p s = (if starts_with p s then Some (drop (length p) s) else None)"

fun str_contains :: "string \<Rightarrow> string \<Rightarrow> bool" where
  "str_contains p [] = (p = [])"
| "str_contains p (c # cs) = (starts_with p (c # cs) \<or> str_contains p cs)"

text \<open>
  \<open>str::replace\<close> with a non-empty pattern: non-overlapping matches, from the left.  The first
  argument counts the bytes still to be skipped inside a match.
\<close>

fun replace_from :: "nat \<Rightarrow> string \<Rightarrow> string \<Rightarrow> string \<Rightarrow> string" where
  "replace_from k p r [] = []"
| "replace_from (Suc k) p r (c # cs) = replace_from k p r cs"
| "replace_from 0 p r (c # cs) =
     (if starts_with p (c # cs) then r @ replace_from (length p - 1) p r cs
      else c # replace_from 0 p r cs)"

definition str_replace :: "string \<Rightarrow> string \<Rightarrow> string \<Rightarrow> string" where
  "str_replace p r s = replace_from 0 p r s"

text \<open>\<open>str::split_once\<close> and \<open>str::split\<close> on one byte.\<close>

fun split_once :: "char \<Rightarrow> string \<Rightarrow> (string \<times> string) option" where
  "split_once d [] = None"
| "split_once d (c # cs) =
     (if c = d then Some ([], cs)
      else map_option (\<lambda>(a, b). (c # a, b)) (split_once d cs))"

fun split_char :: "char \<Rightarrow> string \<Rightarrow> string list" where
  "split_char d [] = [[]]"
| "split_char d (c # cs) =
     (if c = d then [] # split_char d cs
      else (case split_char d cs of [] \<Rightarrow> [[c]] | x # xs \<Rightarrow> (c # x) # xs))"

lemma starts_with_append [simp]: "starts_with p (p @ s)"
  by (induction p) simp_all

lemma starts_with_iff: "starts_with p s \<longleftrightarrow> (\<exists>t. s = p @ t)"
  by (induction p s rule: starts_with.induct) auto

lemma split_once_Some:
  "split_once d s = Some (a, b) \<Longrightarrow> s = a @ d # b \<and> d \<notin> set a"
  by (induction s arbitrary: a b) (auto split: if_splits)

lemma split_char_ne [simp]: "split_char d s \<noteq> []"
  by (induction s) (auto split: list.splits)

section \<open>Generic lemmas on lists and association lists\<close>

lemma list_update_Cons_0 [simp]: "xs \<noteq> [] \<Longrightarrow> (xs @ ys)[0 := v] = xs[0 := v] @ ys"
  by (cases xs) simp_all

lemma map_of_eq_None_fst: "map_of kvs k = None \<longleftrightarrow> k \<notin> fst ` set kvs"
  by (simp add: map_of_eq_None_iff)

lemma map_of_map_snd: "map_of (map (map_prod id f) kvs) k = map_option f (map_of kvs k)"
  by (induction kvs) auto

end
