(* ===== verification/Json.thy ===== *)
theory Json
  imports Prelude
begin

text \<open>
  The JSON layer under the record codecs.  A document is a tree whose objects keep every member in
  document order, duplicates included, because the typed decoders of \<open>serde\<close> see them.
  \<open>serde_json::Value\<close> is the same tree with objects as \<open>BTreeMap\<close>s: members sorted by key,
  the last duplicate kept.

  The text layer (\<open>serde_json::to_vec\<close>, \<open>from_slice\<close>) and SHA-256 (\<open>sha2\<close>) are code outside the
  repository: the record \<^emph>\<open>lib\<close> passes them to the definitions that use them, and the locale
  \<^emph>\<open>json_text\<close> names what the codecs rely on.
\<close>

section \<open>Documents\<close>

datatype json =
    JNull
  | JBool bool
  | JNum int
  | JStr string
  | JArr "json list"
  | JObj "(string \<times> json) list"

record lib =
  to_vec :: "json \<Rightarrow> bytes"
  from_slice :: "bytes \<Rightarrow> json option"
  sha256_hex :: "bytes \<Rightarrow> string"

section \<open>Values: objects as ordered maps\<close>

fun bt_insert :: "string \<Rightarrow> 'v \<Rightarrow> (string \<times> 'v) list \<Rightarrow> (string \<times> 'v) list" where
  "bt_insert k v [] = [(k, v)]"
| "bt_insert k v ((k', v') # m) =
     (if k = k' then (k, v) # m
      else if k < k' then (k, v) # (k', v') # m
      else (k', v') # bt_insert k v m)"

definition bt_of :: "(string \<times> 'v) list \<Rightarrow> (string \<times> 'v) list" where
  "bt_of kvs = fold (\<lambda>(k, v). bt_insert k v) kvs []"

primrec value_of :: "json \<Rightarrow> json" where
  "value_of JNull = JNull"
| "value_of (JBool b) = JBool b"
| "value_of (JNum n) = JNum n"
| "value_of (JStr s) = JStr s"
| "value_of (JArr xs) = JArr (map value_of xs)"
| "value_of (JObj kvs) = JObj (bt_of (map (map_prod id value_of) kvs))"

text \<open>\<open>Value::get(key)\<close>, and \<open>value[key]\<close> which reads \<open>Null\<close> where \<open>get\<close> has nothing.\<close>

definition jget :: "string \<Rightarrow> json \<Rightarrow> json option" where
  "jget k j = (case j of JObj kvs \<Rightarrow> map_of kvs k | _ \<Rightarrow> None)"

definition jindex :: "string \<Rightarrow> json \<Rightarrow> json" where
  "jindex k j = (case jget k j of None \<Rightarrow> JNull | Some v \<Rightarrow> v)"

text \<open>
  \<open>value[key] = v\<close> on an object inserts or replaces; on anything else but \<open>Null\<close> it panics, which
  no caller can reach because every caller holds an object (the lemmas of the callers say so).
\<close>

definition jset :: "string \<Rightarrow> json \<Rightarrow> json \<Rightarrow> json" where
  "jset k v j = (case j of JObj kvs \<Rightarrow> JObj (bt_insert k v kvs) | JNull \<Rightarrow> JObj [(k, v)] | _ \<Rightarrow> j)"

text \<open>\<open>value[i] = v\<close> on an array.\<close>

definition jset_nth :: "nat \<Rightarrow> json \<Rightarrow> json \<Rightarrow> json" where
  "jset_nth i v j = (case j of JArr xs \<Rightarrow> JArr (xs[i := v]) | _ \<Rightarrow> j)"

definition key_sorted :: "(string \<times> 'v) list \<Rightarrow> bool" where
  "key_sorted m = sorted_wrt (<) (map fst m)"

lemma map_of_bt_insert: "map_of (bt_insert k v m) = (map_of m)(k \<mapsto> v)"
  by (induction k v m rule: bt_insert.induct) (auto simp: fun_eq_iff)

lemma fst_bt_insert: "fst ` set (bt_insert k v m) = insert k (fst ` set m)"
  by (induction k v m rule: bt_insert.induct) auto

lemma key_sorted_bt_insert: "key_sorted m \<Longrightarrow> key_sorted (bt_insert k v m)"
proof (induction k v m rule: bt_insert.induct)
  case (2 k v k' v' m)
  show ?case
  proof (cases "k' < k")
    case True
    with 2 have "key_sorted (bt_insert k v m)" and "\<forall>x\<in>fst ` set m. k' < x"
      by (auto simp: key_sorted_def)
    then have "\<forall>x\<in>fst ` set (bt_insert k v m). k' < x"
      using True by (simp add: fst_bt_insert)
    moreover have "k \<noteq> k'" and "\<not> k < k'"
      using True by auto
    ultimately show ?thesis
      using \<open>key_sorted (bt_insert k v m)\<close> by (simp add: key_sorted_def)
  next
    case False
    with 2(2) show ?thesis
      by (auto simp: key_sorted_def intro: order.strict_trans)
  qed
qed (simp add: key_sorted_def)

lemma key_sorted_distinct: "key_sorted m \<Longrightarrow> distinct (map fst m)"
  by (auto simp: key_sorted_def strict_sorted_iff)

lemma bt_of_fold:
  assumes "key_sorted m"
  shows "key_sorted (fold (\<lambda>(k, v). bt_insert k v) kvs m)
    \<and> fst ` set (fold (\<lambda>(k, v). bt_insert k v) kvs m) = fst ` set kvs \<union> fst ` set m
    \<and> map_of (fold (\<lambda>(k, v). bt_insert k v) kvs m) = map_of m ++ map_of (rev kvs)"
  using assms
proof (induction kvs arbitrary: m)
  case (Cons kv kvs)
  obtain k v where "kv = (k, v)" by (cases kv)
  with Cons.IH [OF key_sorted_bt_insert [OF Cons.prems]] show ?case
    by (auto simp: fst_bt_insert map_of_bt_insert map_add_def fun_eq_iff split: option.splits)
qed simp

lemma bt_of_sorted: "key_sorted (bt_of kvs)"
  and fst_bt_of: "fst ` set (bt_of kvs) = fst ` set kvs"
  and map_of_bt_of_rev: "map_of (bt_of kvs) = map_of (rev kvs)"
  using bt_of_fold [of "[]" kvs] by (auto simp: bt_of_def key_sorted_def)

lemma map_of_rev_distinct: "distinct (map fst kvs) \<Longrightarrow> map_of (rev kvs) = map_of kvs"
  by (rule map_of_eqI) (auto simp: rev_map [symmetric] intro!: map_of_is_SomeI)

lemma map_of_bt_of: "distinct (map fst kvs) \<Longrightarrow> map_of (bt_of kvs) = map_of kvs"
  by (simp add: map_of_bt_of_rev map_of_rev_distinct)

section \<open>Objects of typed structs\<close>

text \<open>
  \<open>#[derive(Serialize)]\<close> writes the fields in declaration order; a field that
  \<open>skip_serializing_if\<close> skips is \<open>None\<close> here.
\<close>

fun present :: "(string \<times> json option) list \<Rightarrow> (string \<times> json) list" where
  "present [] = []"
| "present ((k, None) # fs) = present fs"
| "present ((k, Some v) # fs) = (k, v) # present fs"

definition mk_obj :: "(string \<times> json option) list \<Rightarrow> json" where
  "mk_obj fs = JObj (present fs)"

text \<open>
  \<open>#[derive(Deserialize)] #[serde(deny_unknown_fields)]\<close> read through \<open>records::object\<close>: only an
  object is accepted, a duplicate or unknown member is an error, and the members are then read by
  name.
\<close>

definition de_object :: "string list \<Rightarrow> json \<Rightarrow> (string \<rightharpoonup> json) option" where
  "de_object names j =
     (case j of
        JObj kvs \<Rightarrow> if distinct (map fst kvs) \<and> fst ` set kvs \<subseteq> set names
                    then Some (map_of kvs) else None
      | _ \<Rightarrow> None)"

definition de_req :: "(string \<rightharpoonup> json) \<Rightarrow> string \<Rightarrow> (json \<Rightarrow> 'a option) \<Rightarrow> 'a option" where
  "de_req m k de = (case m k of None \<Rightarrow> None | Some v \<Rightarrow> de v)"

text \<open>\<open>default\<close> with \<open>optional_object\<close>: absent is \<open>None\<close>, and null is not an object.\<close>

definition de_opt :: "(string \<rightharpoonup> json) \<Rightarrow> string \<Rightarrow> (json \<Rightarrow> 'a option) \<Rightarrow> 'a option option" where
  "de_opt m k de = (case m k of None \<Rightarrow> Some None | Some v \<Rightarrow> map_option Some (de v))"

text \<open>A plain \<open>Option\<close> field: absent and null are both \<open>None\<close>.\<close>

definition de_nullable :: "(string \<rightharpoonup> json) \<Rightarrow> string \<Rightarrow> (json \<Rightarrow> 'a option) \<Rightarrow> 'a option option" where
  "de_nullable m k de =
     (case m k of None \<Rightarrow> Some None | Some JNull \<Rightarrow> Some None | Some v \<Rightarrow> map_option Some (de v))"

definition de_default :: "(string \<rightharpoonup> json) \<Rightarrow> string \<Rightarrow> 'a \<Rightarrow> (json \<Rightarrow> 'a option) \<Rightarrow> 'a option" where
  "de_default m k d de = (case m k of None \<Rightarrow> Some d | Some v \<Rightarrow> de v)"

definition de_str :: "json \<Rightarrow> string option" where
  "de_str j = (case j of JStr s \<Rightarrow> Some s | _ \<Rightarrow> None)"

definition de_bool :: "json \<Rightarrow> bool option" where
  "de_bool j = (case j of JBool b \<Rightarrow> Some b | _ \<Rightarrow> None)"

definition de_u32 :: "json \<Rightarrow> u32 option" where
  "de_u32 j = (case j of JNum n \<Rightarrow> if 0 \<le> n \<and> n < 2 ^ 32 then Some (word_of_int n) else None
                       | _ \<Rightarrow> None)"

definition de_u64 :: "json \<Rightarrow> u64 option" where
  "de_u64 j = (case j of JNum n \<Rightarrow> if 0 \<le> n \<and> n < 2 ^ 64 then Some (word_of_int n) else None
                       | _ \<Rightarrow> None)"

definition de_list :: "(json \<Rightarrow> 'a option) \<Rightarrow> json \<Rightarrow> 'a list option" where
  "de_list de j = (case j of JArr xs \<Rightarrow> those (map de xs) | _ \<Rightarrow> None)"

definition ser_u32 :: "u32 \<Rightarrow> json" where
  "ser_u32 n = JNum (uint n)"

definition ser_u64 :: "u64 \<Rightarrow> json" where
  "ser_u64 n = JNum (uint n)"

definition ser_strs :: "string list \<Rightarrow> json" where
  "ser_strs xs = JArr (map JStr xs)"

definition skip_false :: "bool \<Rightarrow> json option" where
  "skip_false b = (if b then Some (JBool True) else None)"

lemma present_fst: "fst ` set (present fs) \<subseteq> fst ` set fs"
  by (induction fs rule: present.induct) auto

lemma distinct_present: "distinct (map fst fs) \<Longrightarrow> distinct (map fst (present fs))"
proof (induction fs rule: present.induct)
  case (3 k v fs)
  then have "k \<notin> fst ` set (present fs)"
    using present_fst [of fs] by auto
  with 3 show ?case by simp
qed simp_all

definition field_of :: "(string \<times> json option) list \<Rightarrow> string \<rightharpoonup> json" where
  "field_of fs k = (case map_of fs k of None \<Rightarrow> None | Some v \<Rightarrow> v)"

lemma map_of_present: "distinct (map fst fs) \<Longrightarrow> map_of (present fs) k = field_of fs k"
proof (induction fs rule: present.induct)
  case (2 k' fs)
  have "k' \<notin> fst ` set (present fs)"
    using 2(2) present_fst [of fs] by auto
  then have "map_of (present fs) k' = None"
    by (simp add: map_of_eq_None_iff)
  with 2 show ?case by (auto simp: field_of_def)
qed (auto simp: field_of_def)

lemma de_object_mk_obj:
  assumes "distinct (map fst fs)" and "fst ` set fs \<subseteq> set names"
  shows "de_object names (mk_obj fs) = Some (field_of fs)"
proof -
  have "map_of (present fs) = field_of fs"
    using map_of_present [OF assms(1)] by (rule ext)
  then show ?thesis
    using assms distinct_present [OF assms(1)] present_fst [of fs]
    by (auto simp: de_object_def mk_obj_def)
qed

text \<open>The same object seen as a \<open>Value\<close>: the members are the same, each as a \<open>Value\<close>.\<close>

definition vfield_of :: "(string \<times> json option) list \<Rightarrow> string \<rightharpoonup> json" where
  "vfield_of fs k = map_option value_of (field_of fs k)"

lemma value_of_mk_obj:
  assumes "distinct (map fst fs)"
  obtains kvs where "value_of (mk_obj fs) = JObj kvs" "key_sorted kvs"
    "map_of kvs = vfield_of fs" "fst ` set kvs \<subseteq> fst ` set fs"
proof -
  let ?m = "map (map_prod id value_of) (present fs)"
  have "map fst ?m = map fst (present fs)" by simp
  then have d: "distinct (map fst ?m)"
    using distinct_present [OF assms] by simp
  have "map_of (bt_of ?m) = vfield_of fs"
    by (rule ext) (simp add: map_of_bt_of [OF d] map_of_map_snd vfield_of_def
        map_of_present [OF assms])
  moreover have "fst ` set (bt_of ?m) \<subseteq> fst ` set fs"
    using present_fst [of fs] by (simp add: fst_bt_of image_image)
  ultimately show ?thesis
    by (intro that [of "bt_of ?m"]) (simp_all add: mk_obj_def bt_of_sorted)
qed

lemma de_object_value_of:
  assumes "distinct (map fst fs)" and "fst ` set fs \<subseteq> set names"
  shows "de_object names (value_of (mk_obj fs)) = Some (vfield_of fs)"
proof -
  obtain kvs where "value_of (mk_obj fs) = JObj kvs" "key_sorted kvs"
    "map_of kvs = vfield_of fs" "fst ` set kvs \<subseteq> fst ` set fs"
    by (rule value_of_mk_obj [OF assms(1)])
  with assms show ?thesis
    by (auto simp: de_object_def key_sorted_distinct)
qed

lemma de_scalars [simp, serde_simps]:
  "de_str (JStr s) = Some s" "de_bool (JBool b) = Some b"
  "de_u32 (ser_u32 n) = Some n" "de_u64 (ser_u64 m) = Some m"
  "value_of (ser_u32 n) = ser_u32 n" "value_of (ser_u64 m) = ser_u64 m"
  "value_of (ser_strs xs) = ser_strs xs"
  using uint_lt2p [of n] uint_lt2p [of m]
  by (simp_all add: de_str_def de_bool_def de_u32_def de_u64_def ser_u32_def ser_u64_def
      ser_strs_def)

lemma those_map_Some: "(\<And>x. x \<in> set xs \<Longrightarrow> f (g x) = Some (h x)) \<Longrightarrow>
    those (map f (map g xs)) = Some (map h xs)"
  by (induction xs) auto

lemma de_list_strs [simp, serde_simps]: "de_list de_str (ser_strs xs) = Some xs"
  using those_map_Some [of xs de_str JStr id] by (simp add: de_list_def ser_strs_def comp_def)

lemma field_of_simps [serde_simps]:
  "field_of [] k = None"
  "field_of ((k', v) # fs) k = (if k = k' then v else field_of fs k)"
  by (auto simp: field_of_def)

lemma vfield_of_simps [serde_simps]:
  "vfield_of [] k = None"
  "vfield_of ((k', v) # fs) k = (if k = k' then map_option value_of v else vfield_of fs k)"
  by (auto simp: vfield_of_def field_of_simps)

text \<open>Converting a document to a \<open>Value\<close> twice is converting it once.\<close>

lemma key_sorted_unique:
  assumes "key_sorted a" "key_sorted b" "map_of a = map_of b"
  shows "a = b"
proof (rule map_sorted_distinct_set_unique [of fst])
  have d: "distinct (map fst a)" "distinct (map fst b)" using assms(1,2) key_sorted_distinct by auto
  then have s: "set a = set b"
    using assms(3) by (metis map_of_inject_set)
  show "inj_on fst (set a \<union> set b)" using d s by (simp add: distinct_map)
  show "sorted (map fst a)" "sorted (map fst b)"
    using assms(1,2) by (simp_all add: key_sorted_def strict_sorted_iff)
  show "set a = set b" by (rule s)
qed (use assms key_sorted_distinct in auto)

lemma bt_of_id: "key_sorted m \<Longrightarrow> bt_of m = m"
  by (rule key_sorted_unique) (simp_all add: bt_of_sorted map_of_bt_of key_sorted_distinct)

lemma set_bt_insert: "set (bt_insert k v m) \<subseteq> insert (k, v) (set m)"
  by (induction k v m rule: bt_insert.induct) auto

lemma set_bt_of: "set (bt_of kvs) \<subseteq> set kvs"
proof -
  have "set (fold (\<lambda>(k, v). bt_insert k v) kvs m) \<subseteq> set kvs \<union> set m" for m
  proof (induction kvs arbitrary: m)
    case (Cons kv kvs)
    then show ?case using set_bt_insert [of "fst kv" "snd kv" m] by (fastforce simp: split_beta)
  qed simp
  from this [of "[]"] show ?thesis by (simp add: bt_of_def)
qed

lemma value_of_idem [simp]: "value_of (value_of j) = value_of j"
proof (induction j)
  case (JObj kvs)
  let ?m = "bt_of (map (map_prod id value_of) kvs)"
  have "map (map_prod id value_of) ?m = ?m"
  proof (rule map_idI)
    fix kv assume "kv \<in> set ?m"
    then have "kv \<in> set (map (map_prod id value_of) kvs)" using set_bt_of by blast
    then show "map_prod id value_of kv = kv" using JObj by (force simp: prod_set_defs)
  qed
  then show ?case by (simp add: bt_of_id bt_of_sorted)
qed auto

text \<open>The bytes of the strings and member names of a document.\<close>

primrec json_chars :: "json \<Rightarrow> char set" where
  "json_chars JNull = {}"
| "json_chars (JBool b) = {}"
| "json_chars (JNum n) = {}"
| "json_chars (JStr s) = set s"
| "json_chars (JArr xs) = \<Union> (set (map json_chars xs))"
| "json_chars (JObj kvs) = (\<Union>k \<in> fst ` set kvs. set k) \<union> \<Union> (set (map snd (map (map_prod id json_chars) kvs)))"

end
