(* ===== verification/Release_Identity.thy ===== *)
theory Release_Identity
  imports Json
begin

text \<open>
  \<open>src/records.rs\<close> and \<open>src/records/identity.rs\<close>: the bounded strict codec that every record
  shares, the release identity that binds a record to one released build, and the Installed
  Record.  \<open>Err(RecordError)\<close> is \<open>None\<close>.
\<close>

section \<open>The shared codec\<close>

definition MAX_RECORD_BYTES :: nat where
  "MAX_RECORD_BYTES = 64 * 1024"

definition lower_hex_byte :: "char \<Rightarrow> bool" where
  "lower_hex_byte b = (is_ascii_digit b \<or> CHR ''a'' \<le> b \<and> b \<le> CHR ''f'')"

definition lower_hex :: "string \<Rightarrow> nat \<Rightarrow> bool" where
  "lower_hex v len = (length v = len \<and> list_all lower_hex_byte v)"

definition decode :: "lib \<Rightarrow> (json \<Rightarrow> 'a option) \<Rightarrow> bytes \<Rightarrow> 'a option" where
  "decode L de bs =
     (if bs = [] \<or> length bs > MAX_RECORD_BYTES then None
      else case from_slice L bs of None \<Rightarrow> None | Some j \<Rightarrow> de j)"

definition encode :: "lib \<Rightarrow> json \<Rightarrow> bytes option" where
  "encode L j =
     (let bs = to_vec L j @ [newline] in
      if length bs > MAX_RECORD_BYTES then None else Some bs)"

text \<open>\<open>true_only\<close>: the only accepted value is \<open>true\<close>.\<close>

definition true_only :: "json \<Rightarrow> bool option" where
  "true_only j = (case de_bool j of Some True \<Rightarrow> Some True | _ \<Rightarrow> None)"

lemma true_only_True [simp, serde_simps]: "true_only (JBool True) = Some True"
  by (simp add: true_only_def)

section \<open>What the codec relies on\<close>

text \<open>
  The documented behaviour of the text layer: a tree that was written reads back as the same tree,
  also when the newline that \<open>encode\<close> appends follows it, and no document is the empty text.
\<close>

locale json_text =
  fixes L :: lib
  assumes from_to: "from_slice L (to_vec L j) = Some j"
    and from_to_newline: "from_slice L (to_vec L j @ [newline]) = Some j"
    and to_vec_nonempty: "to_vec L j \<noteq> []"
begin

lemma decode_encode: "encode L j = Some bs \<Longrightarrow> decode L de bs = de j"
  by (auto simp: encode_def decode_def Let_def from_to_newline split: if_splits)

lemma decode_to_vec: "length (to_vec L j) \<le> MAX_RECORD_BYTES \<Longrightarrow> decode L de (to_vec L j) = de j"
  by (simp add: decode_def from_to to_vec_nonempty)

lemma to_vec_inj: "to_vec L i = to_vec L j \<Longrightarrow> i = j"
  by (metis from_to option.inject)

lemma encode_inj: "encode L i = Some bs \<Longrightarrow> encode L j = Some bs \<Longrightarrow> i = j"
  by (auto simp: encode_def Let_def split: if_splits dest: to_vec_inj)

end

text \<open>
  The bytes that \<open>encoding/json\<close> of Go escapes for HTML (the first byte of U+2028 stands for that character)
  are none of JSON's own: the text of a document has them only where one of its strings has them.
\<close>

definition markup :: "char set" where
  "markup = {CHR ''<'', CHR ''>'', CHR ''&'', CHR 0xE2}"

locale json_markup = json_text +
  assumes to_vec_markup: "set (to_vec L j) \<inter> markup \<subseteq> json_chars j"

section \<open>Release identities\<close>

definition REPOSITORY :: string where
  "REPOSITORY = ''albertloky/SBXR''"

record release_identity =
  ri_repository :: string
  ri_tag :: string
  ri_commit :: string
  ri_index_sha256 :: string

definition tag_part_ok :: "bool \<Rightarrow> string \<Rightarrow> bool" where
  "tag_part_ok is_stable s =
     (s \<noteq> [] \<and> list_all is_ascii_digit s
      \<and> (\<not> is_stable \<or> length s = 1 \<or> \<not> starts_with ''0'' s))"

definition tag_suffix_bad :: "bool \<Rightarrow> string \<Rightarrow> bool" where
  "tag_suffix_bad is_stable suffix =
     (is_stable \<or> suffix = []
      \<or> \<not> list_all (\<lambda>b. is_ascii_alphanumeric b \<or> b = CHR ''.'' \<or> b = CHR ''-'') suffix)"

definition valid_tag :: "string \<Rightarrow> bool \<Rightarrow> bool" where
  "valid_tag tag is_stable =
     (case strip_prefix ''v'' tag of
        None \<Rightarrow> False
      | Some version \<Rightarrow>
          (case (case split_once CHR ''-'' version of
                   None \<Rightarrow> (version, None) | Some (v, s) \<Rightarrow> (v, Some s)) of
             (v, suffix) \<Rightarrow>
               if is_some_and (tag_suffix_bad is_stable) suffix then False
               else let parts = split_char CHR ''.'' v in
                 length parts = 3 \<and> list_all (tag_part_ok is_stable) parts
                 \<and> (is_stable \<or> \<not> starts_with ''0'' (hd parts))))"

definition valid_release :: "release_identity \<Rightarrow> bool" where
  "valid_release r =
     (ri_repository r = REPOSITORY \<and> valid_tag (ri_tag r) False
      \<and> lower_hex (ri_commit r) 40 \<and> lower_hex (ri_index_sha256 r) 64)"

text \<open>\<open>ReleaseIdentity::new\<close>.\<close>

definition new_release :: "string \<Rightarrow> string \<Rightarrow> string \<Rightarrow> release_identity option" where
  "new_release tag commit index =
     (let w = \<lparr>ri_repository = REPOSITORY, ri_tag = tag, ri_commit = commit,
               ri_index_sha256 = index\<rparr>
      in if \<not> valid_release w then None else Some w)"

definition release_names :: "string list" where
  "release_names = [''Repository'', ''Tag'', ''Commit'', ''IndexSHA256'']"

definition release_fields :: "release_identity \<Rightarrow> (string \<times> json option) list" where
  "release_fields r =
     [(''Repository'', Some (JStr (ri_repository r))), (''Tag'', Some (JStr (ri_tag r))),
      (''Commit'', Some (JStr (ri_commit r))), (''IndexSHA256'', Some (JStr (ri_index_sha256 r)))]"

definition ser_release :: "release_identity \<Rightarrow> json" where
  "ser_release r = mk_obj (release_fields r)"

definition de_release :: "json \<Rightarrow> release_identity option" where
  "de_release j = do {
     m \<leftarrow> de_object release_names j;
     repository \<leftarrow> de_req m ''Repository'' de_str;
     tag \<leftarrow> de_req m ''Tag'' de_str;
     commit \<leftarrow> de_req m ''Commit'' de_str;
     index \<leftarrow> de_req m ''IndexSHA256'' de_str;
     Some \<lparr>ri_repository = repository, ri_tag = tag, ri_commit = commit, ri_index_sha256 = index\<rparr>
   }"

section \<open>The Installed Record\<close>

record installed_record =
  ir_schema :: u32
  ir_repository :: string
  ir_tag :: string
  ir_commit :: string
  ir_release_index_sha256 :: string
  ir_sequence :: u64
  ir_architecture :: string
  ir_executable_sha256 :: string

definition installed_names :: "string list" where
  "installed_names =
     [''schema'', ''repository'', ''tag'', ''commit'', ''release_index_sha256'', ''sequence'',
      ''architecture'', ''executable_sha256'']"

definition installed_fields :: "installed_record \<Rightarrow> (string \<times> json option) list" where
  "installed_fields r =
     [(''schema'', Some (ser_u32 (ir_schema r))), (''repository'', Some (JStr (ir_repository r))),
      (''tag'', Some (JStr (ir_tag r))), (''commit'', Some (JStr (ir_commit r))),
      (''release_index_sha256'', Some (JStr (ir_release_index_sha256 r))),
      (''sequence'', Some (ser_u64 (ir_sequence r))),
      (''architecture'', Some (JStr (ir_architecture r))),
      (''executable_sha256'', Some (JStr (ir_executable_sha256 r)))]"

definition ser_installed :: "installed_record \<Rightarrow> json" where
  "ser_installed r = mk_obj (installed_fields r)"

definition de_installed :: "json \<Rightarrow> installed_record option" where
  "de_installed j = do {
     m \<leftarrow> de_object installed_names j;
     schema \<leftarrow> de_req m ''schema'' de_u32;
     repository \<leftarrow> de_req m ''repository'' de_str;
     tag \<leftarrow> de_req m ''tag'' de_str;
     commit \<leftarrow> de_req m ''commit'' de_str;
     index \<leftarrow> de_req m ''release_index_sha256'' de_str;
     sequence \<leftarrow> de_req m ''sequence'' de_u64;
     architecture \<leftarrow> de_req m ''architecture'' de_str;
     executable \<leftarrow> de_req m ''executable_sha256'' de_str;
     Some \<lparr>ir_schema = schema, ir_repository = repository, ir_tag = tag, ir_commit = commit,
       ir_release_index_sha256 = index, ir_sequence = sequence, ir_architecture = architecture,
       ir_executable_sha256 = executable\<rparr>
   }"

definition valid_installed :: "installed_record \<Rightarrow> bool" where
  "valid_installed w =
     (\<not> (ir_schema w \<noteq> 1 \<or> ir_repository w \<noteq> REPOSITORY \<or> \<not> valid_tag (ir_tag w) True
         \<or> \<not> lower_hex (ir_commit w) 40 \<or> \<not> lower_hex (ir_release_index_sha256 w) 64
         \<or> ir_sequence w = 0
         \<or> \<not> (ir_architecture w = ''amd64'' \<or> ir_architecture w = ''arm64'')
         \<or> \<not> lower_hex (ir_executable_sha256 w) 64))"

definition decode_installed :: "lib \<Rightarrow> bytes \<Rightarrow> installed_record option" where
  "decode_installed L bs =
     (if length bs > 4 * 1024 then None
      else case decode L de_installed bs of
             None \<Rightarrow> None
           | Some w \<Rightarrow> if \<not> valid_installed w then None else Some w)"

definition encode_installed :: "lib \<Rightarrow> installed_record \<Rightarrow> bytes option" where
  "encode_installed L r =
     (case encode L (ser_installed r) of
        None \<Rightarrow> None
      | Some bs \<Rightarrow> if length bs > 4 * 1024 then None else Some bs)"

text \<open>\<open>InstalledRecord::new\<close> encodes the fields and decodes them back.\<close>

definition new_installed ::
  "lib \<Rightarrow> release_identity \<Rightarrow> u64 \<Rightarrow> string \<Rightarrow> string \<Rightarrow> installed_record option" where
  "new_installed L release sequence architecture executable =
     (let w = \<lparr>ir_schema = 1, ir_repository = ri_repository release, ir_tag = ri_tag release,
        ir_commit = ri_commit release, ir_release_index_sha256 = ri_index_sha256 release,
        ir_sequence = sequence, ir_architecture = architecture,
        ir_executable_sha256 = executable\<rparr>
      in case encode L (ser_installed w) of
           None \<Rightarrow> None
         | Some bs \<Rightarrow> decode_installed L bs)"

definition installed_release_identity :: "installed_record \<Rightarrow> release_identity" where
  "installed_release_identity r =
     \<lparr>ri_repository = ir_repository r, ri_tag = ir_tag r, ri_commit = ir_commit r,
      ri_index_sha256 = ir_release_index_sha256 r\<rparr>"

section \<open>Lemmas\<close>

lemma release_fields_wf:
  "distinct (map fst (release_fields r))" "fst ` set (release_fields r) \<subseteq> set release_names"
  by (simp_all add: release_fields_def release_names_def)

lemma installed_fields_wf:
  "distinct (map fst (installed_fields r))" "fst ` set (installed_fields r) \<subseteq> set installed_names"
  by (simp_all add: installed_fields_def installed_names_def)

lemma de_ser_release [simp, serde_simps]:
  "de_release (ser_release r) = Some r" "de_release (value_of (ser_release r)) = Some r"
  by (simp_all add: de_release_def ser_release_def de_object_mk_obj de_object_value_of
      release_fields_wf, simp_all add: release_fields_def serde_simps de_req_def)

lemma de_ser_installed: "de_installed (ser_installed r) = Some r"
  by (simp add: de_installed_def ser_installed_def de_object_mk_obj installed_fields_wf)
    (simp add: installed_fields_def serde_simps de_req_def)

lemma de_list_releases [simp, serde_simps]:
  "de_list de_release (JArr (map ser_release rs)) = Some rs"
  "de_list de_release (value_of (JArr (map ser_release rs))) = Some rs"
  using those_map_Some [of rs de_release ser_release id]
    those_map_Some [of rs de_release "value_of \<circ> ser_release" id]
  by (simp_all add: de_list_def comp_def)

lemma new_release_Some: "new_release t c i = Some r \<longleftrightarrow>
    valid_release r \<and> ri_tag r = t \<and> ri_commit r = c \<and> ri_index_sha256 r = i"
  by (auto simp: new_release_def Let_def valid_release_def)

lemma valid_tag_stable_parts:
  assumes "valid_tag t True"
  shows "CHR ''-'' \<notin> set t \<or> t = []"
proof -
  from assms obtain v where v: "strip_prefix ''v'' t = Some v"
    by (auto simp: valid_tag_def split: option.splits)
  then have t: "t = CHR ''v'' # v"
    by (auto simp: strip_prefix_def starts_with_iff split: if_splits)
  have "split_once CHR ''-'' v = None"
    using assms v by (auto simp: valid_tag_def tag_suffix_bad_def split: option.splits if_splits)
  moreover have "split_once d s = None \<Longrightarrow> d \<notin> set s" for d s
    by (induction s) (auto split: if_splits)
  ultimately show ?thesis using t by auto
qed

lemma split_char_head: "starts_with ''0'' (hd (split_char CHR ''.'' s)) \<longleftrightarrow> starts_with ''0'' s"
  by (cases s) (auto split: list.splits)

lemma stable_tag_release:
  assumes "valid_tag t True"
  shows "valid_tag t False \<longleftrightarrow> \<not> starts_with ''v0'' t"
proof -
  from assms obtain v where v: "strip_prefix ''v'' t = Some v"
    by (auto simp: valid_tag_def split: option.splits)
  then have t: "t = CHR ''v'' # v"
    by (auto simp: strip_prefix_def starts_with_iff split: if_splits)
  have n: "split_once CHR ''-'' v = None"
    using assms v by (auto simp: valid_tag_def tag_suffix_bad_def split: option.splits if_splits)
  have p: "length (split_char CHR ''.'' v) = 3" "list_all (tag_part_ok True) (split_char CHR ''.'' v)"
    using assms v n by (auto simp: valid_tag_def Let_def)
  have "list_all (tag_part_ok False) (split_char CHR ''.'' v)"
    using p(2) by (auto simp: list_all_iff tag_part_ok_def)
  then show ?thesis using p(1) v n split_char_head [of v] by (simp add: valid_tag_def t)
qed

end
