(* ===== verification/Net_Addr.thy ===== *)
theory Net_Addr
  imports Prelude
begin

text \<open>
  Address texts as the Rust standard library reads and writes them (\<open>core::net::parser\<close>): the
  recursive-descent readers of \<open>Ipv4Addr\<close>, \<open>Ipv6Addr\<close> and \<open>IpAddr\<close>, on which the record validator
  and the subscription components rest, and the two address predicates of the repository,
  \<open>records::authority::canonical_ipv4\<close> and \<open>records::ownership::public_ipv4\<close>.
\<close>

section \<open>Readers\<close>

type_synonym 'a reader = "string \<Rightarrow> ('a \<times> string) option"

definition digit_value :: "char \<Rightarrow> nat option" where
  "digit_value c =
     (if is_ascii_digit c then Some (of_char c - 48)
      else if CHR ''a'' \<le> c \<and> c \<le> CHR ''f'' then Some (of_char c - 87)
      else if CHR ''A'' \<le> c \<and> c \<le> CHR ''F'' then Some (of_char c - 55)
      else None)"

definition to_digit :: "nat \<Rightarrow> char \<Rightarrow> nat option" where
  "to_digit radix c = (case digit_value c of None \<Rightarrow> None
     | Some d \<Rightarrow> if d < radix then Some d else None)"

definition digits_value :: "nat \<Rightarrow> string \<Rightarrow> nat" where
  "digits_value radix ds =
     foldl (\<lambda>n c. n * radix + (case to_digit radix c of None \<Rightarrow> 0 | Some d \<Rightarrow> d)) 0 ds"

text \<open>
  \<open>Parser::read_number\<close> with a digit bound: every digit is consumed, more than \<open>max_digits\<close> fail,
  no digit fails, a leading zero fails where it is not allowed, and the value has to fit its type.
\<close>

definition read_number :: "nat \<Rightarrow> nat \<Rightarrow> bool \<Rightarrow> nat \<Rightarrow> nat reader" where
  "read_number radix max_digits allow_zero_prefix limit s =
     (let ds = takeWhile (\<lambda>c. to_digit radix c \<noteq> None) s; n = length ds in
      if n = 0 \<or> n > max_digits \<or> (\<not> allow_zero_prefix \<and> hd ds = CHR ''0'' \<and> n > 1) then None
      else let v = digits_value radix ds in if v \<le> limit then Some (v, drop n s) else None)"

definition read_given_char :: "char \<Rightarrow> unit reader" where
  "read_given_char c s = (case s of x # xs \<Rightarrow> if x = c then Some ((), xs) else None | [] \<Rightarrow> None)"

definition read_separator :: "char \<Rightarrow> nat \<Rightarrow> 'a reader \<Rightarrow> 'a reader" where
  "read_separator sep i inner s =
     (if i > 0 then (case read_given_char sep s of None \<Rightarrow> None | Some (_, s') \<Rightarrow> inner s')
      else inner s)"

fun read_octets :: "nat \<Rightarrow> nat \<Rightarrow> nat list reader" where
  "read_octets 0 i s = Some ([], s)"
| "read_octets (Suc n) i s =
     (case read_separator CHR ''.'' i (read_number 10 3 False 255) s of
        None \<Rightarrow> None
      | Some (g, s') \<Rightarrow> map_option (\<lambda>(gs, t). (g # gs, t)) (read_octets n (Suc i) s'))"

definition read_ipv4_addr :: "nat list reader" where
  "read_ipv4_addr = read_octets 4 0"

text \<open>
  The groups of an IPv6 text, at most \<open>n\<close> more of them: an embedded IPv4 address is tried where two
  groups are left, and reading stops at the first group that does not parse.
\<close>

fun read_groups :: "nat \<Rightarrow> nat \<Rightarrow> string \<Rightarrow> nat list \<times> bool \<times> string" where
  "read_groups 0 i s = ([], False, s)"
| "read_groups (Suc n) i s =
     (case (if n > 0 then read_separator CHR '':'' i read_ipv4_addr s else None) of
        Some (os, s') \<Rightarrow> ([os ! 0 * 256 + os ! 1, os ! 2 * 256 + os ! 3], True, s')
      | None \<Rightarrow>
          (case read_separator CHR '':'' i (read_number 16 4 True 65535) s of
             None \<Rightarrow> ([], False, s)
           | Some (g, s') \<Rightarrow>
               (case read_groups n (Suc i) s' of (gs, v4, t) \<Rightarrow> (g # gs, v4, t))))"

definition read_ipv6_addr :: "nat list reader" where
  "read_ipv6_addr s =
     (case read_groups 8 0 s of (head, head_ipv4, s1) \<Rightarrow>
        if length head = 8 then Some (head, s1)
        else if head_ipv4 then None
        else case read_given_char CHR '':'' s1 of None \<Rightarrow> None | Some (_, s2) \<Rightarrow>
             case read_given_char CHR '':'' s2 of None \<Rightarrow> None | Some (_, s3) \<Rightarrow>
             (case read_groups (8 - (length head + 1)) 0 s3 of (tail, _, s4) \<Rightarrow>
                Some (head @ replicate (8 - length head - length tail) 0 @ tail, s4)))"

datatype ip_addr = V4 "nat list" | V6 "nat list"

definition parse_ip_addr :: "string \<Rightarrow> ip_addr option" where
  "parse_ip_addr s =
     (case (case read_ipv4_addr s of
              Some (os, t) \<Rightarrow> Some (V4 os, t)
            | None \<Rightarrow> map_option (\<lambda>(gs, t). (V6 gs, t)) (read_ipv6_addr s)) of
        Some (a, []) \<Rightarrow> Some a
      | _ \<Rightarrow> None)"

definition parse_ipv4 :: "string \<Rightarrow> nat list option" where
  "parse_ipv4 s =
     (if length s > 15 then None
      else case read_ipv4_addr s of Some (os, []) \<Rightarrow> Some os | _ \<Rightarrow> None)"

definition show_ipv4 :: "nat list \<Rightarrow> string" where
  "show_ipv4 os =
     show_u8 (os ! 0) @ ''.'' @ show_u8 (os ! 1) @ ''.'' @ show_u8 (os ! 2) @ ''.'' @ show_u8 (os ! 3)"

definition to_ipv4_mapped :: "nat list \<Rightarrow> nat list option" where
  "to_ipv4_mapped gs =
     (case gs of
        [a, b, c, d, e, f, g, h] \<Rightarrow>
          if a = 0 \<and> b = 0 \<and> c = 0 \<and> d = 0 \<and> e = 0 \<and> f = 65535
          then Some [g div 256, g mod 256, h div 256, h mod 256] else None
      | _ \<Rightarrow> None)"

section \<open>The predicates of the repository\<close>

definition canonical_ipv4 :: "string \<Rightarrow> bool" where
  "canonical_ipv4 v = (case parse_ipv4 v of None \<Rightarrow> False | Some ip \<Rightarrow> show_ipv4 ip = v)"

text \<open>The blocks that \<open>public_ipv4\<close> refuses, by octets.\<close>

definition reserved_octets :: "nat \<Rightarrow> nat \<Rightarrow> nat \<Rightarrow> bool" where
  "reserved_octets a b c =
     (a = 0 \<or> a = 10 \<or> a = 127 \<or> (224 \<le> a \<and> a \<le> 255)
      \<or> a = 100 \<and> 64 \<le> b \<and> b \<le> 127
      \<or> a = 169 \<and> b = 254
      \<or> a = 172 \<and> 16 \<le> b \<and> b \<le> 31
      \<or> a = 192 \<and> (b = 0 \<and> (c = 0 \<or> c = 2) \<or> b = 88 \<and> c = 99 \<or> b = 168)
      \<or> a = 198 \<and> (18 \<le> b \<and> b \<le> 19 \<or> b = 51 \<and> c = 100)
      \<or> a = 203 \<and> b = 0 \<and> c = 113)"

definition public_ipv4 :: "string \<Rightarrow> bool" where
  "public_ipv4 v =
     (case parse_ip_addr v of
        None \<Rightarrow> False
      | Some addr \<Rightarrow>
          (case (case addr of V4 os \<Rightarrow> Some os | V6 gs \<Rightarrow> to_ipv4_mapped gs) of
             None \<Rightarrow> False
           | Some os \<Rightarrow> \<not> reserved_octets (os ! 0) (os ! 1) (os ! 2)))"

section \<open>Laws of the readers\<close>

lemma read_number_bound: "read_number r d z m s = Some (v, t) \<Longrightarrow> v \<le> m"
  by (auto simp: read_number_def Let_def split: if_splits)

lemma read_separator_number_bound:
  "read_separator c i (read_number r d z m) s = Some (v, t) \<Longrightarrow> v \<le> m"
  by (auto simp: read_separator_def dest: read_number_bound split: if_splits option.splits)

lemma read_octets_shape:
  "read_octets n i s = Some (os, t) \<Longrightarrow> length os = n \<and> (\<forall>x\<in>set os. x \<le> 255)"
proof (induction n i s arbitrary: os t rule: read_octets.induct)
  case (2 n i s)
  then show ?case
    by (fastforce dest: read_separator_number_bound split: option.splits)
qed simp

lemma parse_ipv4_shape: "parse_ipv4 s = Some os \<Longrightarrow> length os = 4 \<and> (\<forall>x\<in>set os. x \<le> 255)"
  by (auto simp: parse_ipv4_def read_ipv4_addr_def dest: read_octets_shape
      split: if_splits option.splits list.splits)

lemma parse_ipv4_imp_parse_ip_addr: "parse_ipv4 s = Some os \<Longrightarrow> parse_ip_addr s = Some (V4 os)"
  by (auto simp: parse_ipv4_def parse_ip_addr_def split: if_splits option.splits list.splits)

text \<open>Writing an address and reading it back.\<close>

lemma digit_chars:
  assumes "d < 10"
  shows "to_digit 10 (char_of (48 + d)) = Some d"
    and "(char_of (48 + d) :: char) = CHR ''0'' \<longleftrightarrow> d = 0"
proof -
  have code: "of_char (char_of (48 + d) :: char) = 48 + d"
    using assms by simp
  then have "is_ascii_digit (char_of (48 + d))"
    using assms by (simp add: is_ascii_digit_def less_eq_char_def)
  then show "to_digit 10 (char_of (48 + d)) = Some d"
    using assms code by (simp add: to_digit_def digit_value_def)
  have "(char_of (48 + d) :: char) = CHR ''0'' \<longleftrightarrow> of_char (char_of (48 + d) :: char) = (48 :: nat)"
    by (simp add: char_of_eq_iff take_bit_eq_mod)
  then show "(char_of (48 + d) :: char) = CHR ''0'' \<longleftrightarrow> d = 0"
    using assms by simp
qed

lemma takeWhile_sep:
  "\<forall>c\<in>set ds. P c \<Longrightarrow> t = [] \<or> \<not> P (hd t) \<Longrightarrow> takeWhile P (ds @ t) = ds"
  by (induction ds) (auto, cases t, auto)

lemma show_u8_cases:
  "n < 10 \<Longrightarrow> show_u8 n = [char_of (48 + n)]"
  "10 \<le> n \<Longrightarrow> n < 100 \<Longrightarrow> show_u8 n = [char_of (48 + n div 10), char_of (48 + n mod 10)]"
  "100 \<le> n \<Longrightarrow> n < 1000 \<Longrightarrow> show_u8 n =
     [char_of (48 + n div 100), char_of (48 + n div 10 mod 10), char_of (48 + n mod 10)]"
proof -
  have f: "(4 :: nat) = Suc (Suc (Suc (Suc 0)))" by simp
  show "n < 10 \<Longrightarrow> show_u8 n = [char_of (48 + n)]"
    by (simp add: show_u8_def f)
  show "10 \<le> n \<Longrightarrow> n < 100 \<Longrightarrow> show_u8 n = [char_of (48 + n div 10), char_of (48 + n mod 10)]"
    by (simp add: show_u8_def f)
  assume n: "100 \<le> n" "n < 1000"
  then have "\<not> n < 10" "\<not> n div 10 < 10" "n div 10 div 10 < 10" "n div 10 div 10 = n div 100"
    by (auto simp: div_mult2_eq [symmetric])
  then show "show_u8 n =
     [char_of (48 + n div 100), char_of (48 + n div 10 mod 10), char_of (48 + n mod 10)]"
    by (simp add: show_u8_def f)
qed

lemma read_number_digits:
  assumes "ds \<noteq> []" and "length ds \<le> 3" and "length ds > 1 \<longrightarrow> hd ds \<noteq> CHR ''0''"
    and "\<forall>c\<in>set ds. to_digit 10 c \<noteq> None" and "t = [] \<or> to_digit 10 (hd t) = None"
    and "digits_value 10 ds \<le> 255"
  shows "read_number 10 3 False 255 (ds @ t) = Some (digits_value 10 ds, t)"
proof -
  have "takeWhile (\<lambda>c. to_digit 10 c \<noteq> None) (ds @ t) = ds"
    by (rule takeWhile_sep) (use assms(4,5) in auto)
  then show ?thesis
    using assms by (auto simp: read_number_def Let_def)
qed

lemma show_u8_digits:
  assumes "n \<le> 255"
  shows "show_u8 n \<noteq> []" and "length (show_u8 n) \<le> 3"
    and "length (show_u8 n) > 1 \<longrightarrow> hd (show_u8 n) \<noteq> CHR ''0''"
    and "\<forall>c\<in>set (show_u8 n). to_digit 10 c \<noteq> None"
    and "digits_value 10 (show_u8 n) = n"
proof -
  have "show_u8 n \<noteq> [] \<and> length (show_u8 n) \<le> 3
    \<and> (length (show_u8 n) > 1 \<longrightarrow> hd (show_u8 n) \<noteq> CHR ''0'')
    \<and> (\<forall>c\<in>set (show_u8 n). to_digit 10 c \<noteq> None) \<and> digits_value 10 (show_u8 n) = n"
  proof -
    consider "n < 10" | "10 \<le> n" "n < 100" | "100 \<le> n" "n < 1000"
      using assms by linarith
    then show ?thesis
    proof cases
      case 1
      then show ?thesis
        by (simp add: show_u8_cases(1) digits_value_def digit_chars del: char_of_eq_iff)
    next
      case 2
      then have "n div 10 < 10" "n mod 10 < 10" "n div 10 \<noteq> 0" "n div 10 * 10 + n mod 10 = n"
        by auto
      with 2 show ?thesis
        by (simp add: show_u8_cases(2) digits_value_def digit_chars)
    next
      case 3
      then have "n div 100 < 10" "n div 10 mod 10 < 10" "n mod 10 < 10" "n div 100 \<noteq> 0"
        by auto
      moreover have "(n div 100 * 10 + n div 10 mod 10) * 10 + n mod 10 = n"
      proof -
        have "n div 100 = n div 10 div 10" by (simp add: div_mult2_eq [symmetric])
        then show ?thesis by simp
      qed
      ultimately show ?thesis
        using 3 by (simp add: show_u8_cases(3) digits_value_def digit_chars)
    qed
  qed
  then show "show_u8 n \<noteq> []" and "length (show_u8 n) \<le> 3"
    and "length (show_u8 n) > 1 \<longrightarrow> hd (show_u8 n) \<noteq> CHR ''0''"
    and "\<forall>c\<in>set (show_u8 n). to_digit 10 c \<noteq> None"
    and "digits_value 10 (show_u8 n) = n"
    by blast+
qed

lemma read_number_show_u8:
  assumes "n \<le> 255" and "t = [] \<or> to_digit 10 (hd t) = None"
  shows "read_number 10 3 False 255 (show_u8 n @ t) = Some (n, t)"
  using read_number_digits [of "show_u8 n" t] show_u8_digits [OF assms(1)] assms by simp

lemma dot_not_digit [simp]: "to_digit 10 CHR ''.'' = None"
  by (simp add: to_digit_def digit_value_def is_ascii_digit_def)

lemma read_ipv4_show:
  assumes "a \<le> 255" "b \<le> 255" "c \<le> 255" "d \<le> 255"
  shows "read_ipv4_addr (show_ipv4 [a, b, c, d]) = Some ([a, b, c, d], [])"
proof -
  have four: "(4 :: nat) = Suc (Suc (Suc (Suc 0)))" by simp
  show ?thesis
    using assms read_number_show_u8 [of d "[]"]
    by (simp add: read_ipv4_addr_def four show_ipv4_def read_separator_def read_given_char_def
        read_number_show_u8)
qed

lemma canonical_show_ipv4:
  assumes "a \<le> 255" "b \<le> 255" "c \<le> 255" "d \<le> 255"
  shows "canonical_ipv4 (show_ipv4 [a, b, c, d])"
proof -
  have "length (show_ipv4 [a, b, c, d]) \<le> 15"
    using assms [THEN show_u8_digits(2)] by (simp add: show_ipv4_def)
  then show ?thesis
    using read_ipv4_show [OF assms] by (simp add: canonical_ipv4_def parse_ipv4_def)
qed

lemma read_numeral:
  "read_octets (numeral k) i s =
     (case read_separator CHR ''.'' i (read_number 10 3 False 255) s of
        None \<Rightarrow> None
      | Some (g, s') \<Rightarrow> map_option (\<lambda>(gs, t). (g # gs, t)) (read_octets (pred_numeral k) (Suc i) s'))"
  "read_groups (numeral k) i s =
     (case (if pred_numeral k > 0 then read_separator CHR '':'' i read_ipv4_addr s else None) of
        Some (os, s') \<Rightarrow> ([os ! 0 * 256 + os ! 1, os ! 2 * 256 + os ! 3], True, s')
      | None \<Rightarrow>
          (case read_separator CHR '':'' i (read_number 16 4 True 65535) s of
             None \<Rightarrow> ([], False, s)
           | Some (g, s') \<Rightarrow>
               (case read_groups (pred_numeral k) (Suc i) s' of (gs, ipv4, t) \<Rightarrow> (g # gs, ipv4, t))))"
  by (simp_all only: numeral_eq_Suc read_octets.simps read_groups.simps)

lemma mapped_address_parses: "parse_ip_addr ''::ffff:8.8.8.8'' = Some (V6 [0, 0, 0, 0, 0, 65535, 2056, 2056])"
proof -
  note defs = read_separator_def read_given_char_def read_number_def to_digit_def digit_value_def is_ascii_digit_def
    digits_value_def Let_def
  have four: "read_ipv4_addr ''8.8.8.8'' = Some ([8, 8, 8, 8], [])"
    by (simp add: read_ipv4_addr_def read_numeral defs)
  have none: "read_ipv4_addr ''::ffff:8.8.8.8'' = None" "read_ipv4_addr ''ffff:8.8.8.8'' = None"
    by (simp_all add: read_ipv4_addr_def read_numeral defs)
  have h: "read_groups 8 0 ''::ffff:8.8.8.8'' = ([], False, ''::ffff:8.8.8.8'')"
    using none by (simp add: read_numeral defs)
  have t: "read_groups 7 0 ''ffff:8.8.8.8'' = ([65535, 2056, 2056], True, [])"
    using none four by (simp add: read_numeral defs)
  have "replicate 5 (0 :: nat) = [0, 0, 0, 0, 0]" by (simp add: numeral_eq_Suc)
  then show ?thesis
    using h t none by (simp add: parse_ip_addr_def read_ipv6_addr_def read_given_char_def)
qed

end
