(* ===== verification/Authority.thy ===== *)
theory Authority
  imports Release_Identity Net_Addr
begin

text \<open>
  \<open>src/records/authority.rs\<close> and \<open>src/records/retirement.rs\<close>: the secret-free parts of the
  Ownership Record.  Each struct is a record with its validity predicate, the list of host
  resources it authorises, and its codec.  The \<open>[String; 4]\<close> of certificate digests is a 4-tuple.
\<close>

unbundle bit_operations_syntax

definition nonzero_hex :: "string \<Rightarrow> nat \<Rightarrow> bool" where
  "nonzero_hex v len = (lower_hex v len \<and> list_ex (\<lambda>b. b \<noteq> CHR ''0'') v)"

section \<open>Subscription serving\<close>

type_synonym string4 = "string \<times> string \<times> string \<times> string"

fun list4 :: "'a \<times> 'a \<times> 'a \<times> 'a \<Rightarrow> 'a list" where
  "list4 (a, b, c, d) = [a, b, c, d]"

record wire_serving =
  sv_http :: bool
  sv_link_id :: string
  sv_credential_sha256 :: string
  sv_certificate_generation :: u32
  sv_certificate_sha256 :: string4

definition valid_serving :: "wire_serving \<Rightarrow> bool" where
  "valid_serving s =
     (nonzero_hex (sv_link_id s) 32 \<and> nonzero_hex (sv_credential_sha256 s) 64
      \<and> (if sv_http s
         then sv_certificate_generation s = 0
              \<and> list_all (\<lambda>v. v = []) (list4 (sv_certificate_sha256 s))
         else 1 \<le> sv_certificate_generation s \<and> sv_certificate_generation s \<le> 1000000
              \<and> list_all (\<lambda>v. nonzero_hex v 64) (list4 (sv_certificate_sha256 s))))"

definition compatible_target :: "wire_serving \<Rightarrow> wire_serving \<Rightarrow> bool" where
  "compatible_target s t =
     (valid_serving s \<and> valid_serving t \<and> sv_http s = sv_http t \<and> sv_link_id s = sv_link_id t
      \<and> sv_credential_sha256 s = sv_credential_sha256 t
      \<and> (s = t \<or> sv_certificate_generation t > sv_certificate_generation s))"

definition serving_base_resources :: "string list" where
  "serving_base_resources =
     [''/etc/systemd/system/sbxr-subscription.service root:root 0644 one-link fixed-serving-v1'',
      ''/etc/systemd/system/multi-user.target.wants/sbxr-subscription.service root-owned symlink ../sbxr-subscription.service'',
      ''/var/lib/sbxr/subscription-token root:root 0600 one-link credential'',
      ''/var/lib/sbxr/subscription-serving.json root:root 0600 immutable serving state'',
      ''/var/lib/sbxr/subscription-staging root:root 0700 empty-directory'']"

definition certificate_resources :: "u32 \<Rightarrow> string \<Rightarrow> string \<Rightarrow> string list" where
  "certificate_resources generation name digest =
     (let file = name @ show_u32 generation @ ''.pem'';
          mode = (if name = ''privkey'' then ''0600'' else ''0644'')
      in [''/etc/letsencrypt/archive/sbxr-subscription/'' @ file @ '' root:root '' @ mode
            @ '' one-link '' @ digest,
          ''/etc/letsencrypt/live/sbxr-subscription/'' @ name
            @ ''.pem root:root symlink ../../archive/sbxr-subscription/'' @ file])"

definition serving_resources :: "wire_serving \<Rightarrow> string list" where
  "serving_resources s =
     (if sv_http s then serving_base_resources
      else serving_base_resources
        @ [''/etc/letsencrypt/archive/sbxr-subscription root:root 0700 directory'',
           ''/etc/letsencrypt/live/sbxr-subscription root:root 0700 directory'']
        @ concat (map (\<lambda>(name, digest). certificate_resources (sv_certificate_generation s) name digest)
            (zip [''cert'', ''chain'', ''fullchain'', ''privkey''] (list4 (sv_certificate_sha256 s)))))"

definition serving_names :: "string list" where
  "serving_names = [''http'', ''link_id'', ''credential_sha256'', ''certificate_generation'',
     ''certificate_sha256'']"

definition serving_fields :: "wire_serving \<Rightarrow> (string \<times> json option) list" where
  "serving_fields s =
     [(''http'', skip_false (sv_http s)), (''link_id'', Some (JStr (sv_link_id s))),
      (''credential_sha256'', Some (JStr (sv_credential_sha256 s))),
      (''certificate_generation'', Some (ser_u32 (sv_certificate_generation s))),
      (''certificate_sha256'', Some (ser_strs (list4 (sv_certificate_sha256 s))))]"

definition ser_serving :: "wire_serving \<Rightarrow> json" where
  "ser_serving s = mk_obj (serving_fields s)"

definition de_string4 :: "json \<Rightarrow> string4 option" where
  "de_string4 j =
     (case de_list de_str j of Some [a, b, c, d] \<Rightarrow> Some (a, b, c, d) | _ \<Rightarrow> None)"

definition de_serving :: "json \<Rightarrow> wire_serving option" where
  "de_serving j = do {
     m \<leftarrow> de_object serving_names j;
     http \<leftarrow> de_default m ''http'' False de_bool;
     link_id \<leftarrow> de_req m ''link_id'' de_str;
     credential \<leftarrow> de_req m ''credential_sha256'' de_str;
     generation \<leftarrow> de_req m ''certificate_generation'' de_u32;
     hashes \<leftarrow> de_req m ''certificate_sha256'' de_string4;
     Some \<lparr>sv_http = http, sv_link_id = link_id, sv_credential_sha256 = credential,
       sv_certificate_generation = generation, sv_certificate_sha256 = hashes\<rparr>
   }"

text \<open>
  Without the \<open>object\<close> wrapper the derived decoder also takes the fields as a sequence, in order;
  \<open>ServingAuthority::decode_state\<close> reads its nested struct that way.
\<close>

definition de_serving_any :: "json \<Rightarrow> wire_serving option" where
  "de_serving_any j =
     (case j of
        JArr [h, l, c, g, d] \<Rightarrow> do {
          http \<leftarrow> de_bool h; link_id \<leftarrow> de_str l; credential \<leftarrow> de_str c;
          generation \<leftarrow> de_u32 g; hashes \<leftarrow> de_string4 d;
          Some \<lparr>sv_http = http, sv_link_id = link_id, sv_credential_sha256 = credential,
            sv_certificate_generation = generation, sv_certificate_sha256 = hashes\<rparr>
        }
      | _ \<Rightarrow> de_serving j)"

text \<open>\<open>ServingAuthority::http_digest\<close>, \<open>http\<close> and \<open>https_digest\<close>.\<close>

definition http_digest :: "string \<Rightarrow> string \<Rightarrow> wire_serving option" where
  "http_digest link_id digest =
     (let w = \<lparr>sv_http = True, sv_link_id = link_id, sv_credential_sha256 = digest,
        sv_certificate_generation = 0, sv_certificate_sha256 = ([], [], [], [])\<rparr>
      in if \<not> valid_serving w then None else Some w)"

definition serving_http :: "lib \<Rightarrow> string \<Rightarrow> string \<Rightarrow> wire_serving option" where
  "serving_http L link_id credential = http_digest link_id (sha256_hex L credential)"

definition https_digest :: "string \<Rightarrow> string \<Rightarrow> u32 \<Rightarrow> string4 \<Rightarrow> wire_serving option" where
  "https_digest link_id digest generation hashes =
     (let w = \<lparr>sv_http = False, sv_link_id = link_id, sv_credential_sha256 = digest,
        sv_certificate_generation = generation, sv_certificate_sha256 = hashes\<rparr>
      in if \<not> valid_serving w then None else Some w)"

text \<open>\<open>ServingAuthority::state_bytes\<close> and \<open>decode_state\<close>: the immutable serving state file.\<close>

definition state_bytes :: "lib \<Rightarrow> wire_serving \<Rightarrow> bytes option" where
  "state_bytes L s =
     encode L (mk_obj [(''schema'', Some (ser_u32 1)), (''serving'', Some (ser_serving s))])"

definition de_state :: "json \<Rightarrow> (u32 \<times> wire_serving) option" where
  "de_state j = do {
     m \<leftarrow> de_object [''schema'', ''serving''] j;
     schema \<leftarrow> de_req m ''schema'' de_u32;
     serving \<leftarrow> de_req m ''serving'' de_serving_any;
     Some (schema, serving)
   }"

definition decode_state :: "lib \<Rightarrow> bytes \<Rightarrow> wire_serving option" where
  "decode_state L bs =
     (case decode L de_state bs of
        None \<Rightarrow> None
      | Some (schema, s) \<Rightarrow>
          if schema \<noteq> 1 \<or> \<not> valid_serving s then None
          else (case state_bytes L s of
                  None \<Rightarrow> None
                | Some canonical \<Rightarrow> if canonical \<noteq> bs then None else Some s))"

section \<open>Subscription resources\<close>

record wire_subscription_resources =
  sr_http :: bool
  sr_public_ipv4 :: string
  sr_firewall_sha256 :: string
  sr_snapd_created :: bool
  sr_certbot_created :: bool
  sr_recorder_directory_created :: bool

definition valid_subscription_resources :: "wire_subscription_resources \<Rightarrow> bool" where
  "valid_subscription_resources r =
     (canonical_ipv4 (sr_public_ipv4 r) \<and> lower_hex (sr_firewall_sha256 r) 64
      \<and> \<not> (sr_http r \<and> (sr_snapd_created r \<or> sr_certbot_created r
             \<or> sr_recorder_directory_created r)))"

definition firewall_rule :: "string \<Rightarrow> string \<Rightarrow> string" where
  "firewall_rule ip port =
     ''iptables filter INPUT '' @ ip @ ''/32 tcp/'' @ port @ '' comment=sbxr-subscription exact-owned''"

definition created_text :: "bool \<Rightarrow> string" where
  "created_text b = (if b then ''created'' else ''reused'')"

definition subscription_resource_lines :: "wire_subscription_resources \<Rightarrow> string list" where
  "subscription_resource_lines r =
     (let unit = ''/etc/systemd/system/sbxr-subscription-firewall.service root:root 0644 one-link sha256:''
                   @ sr_firewall_sha256 r
      in if sr_http r then [unit, firewall_rule (sr_public_ipv4 r) ''8443'']
         else [unit, firewall_rule (sr_public_ipv4 r) ''80'', firewall_rule (sr_public_ipv4 r) ''8443'',
               ''snapd dependency '' @ created_text (sr_snapd_created r),
               ''official Certbot snap dependency '' @ created_text (sr_certbot_created r)]
              @ (if sr_recorder_directory_created r
                 then [''/etc/systemd/system/snap.certbot.renew.service.d root:root 0755 SBXR-created empty-after-drop-in-removal'']
                 else []))"

definition subres_names :: "string list" where
  "subres_names = [''http'', ''public_ipv4'', ''firewall_sha256'', ''snapd_created'',
     ''certbot_created'', ''recorder_directory_created'']"

definition subres_fields :: "wire_subscription_resources \<Rightarrow> (string \<times> json option) list" where
  "subres_fields r =
     [(''http'', skip_false (sr_http r)), (''public_ipv4'', Some (JStr (sr_public_ipv4 r))),
      (''firewall_sha256'', Some (JStr (sr_firewall_sha256 r))),
      (''snapd_created'', Some (JBool (sr_snapd_created r))),
      (''certbot_created'', Some (JBool (sr_certbot_created r))),
      (''recorder_directory_created'', skip_false (sr_recorder_directory_created r))]"

definition ser_subres :: "wire_subscription_resources \<Rightarrow> json" where
  "ser_subres r = mk_obj (subres_fields r)"

definition de_subres :: "json \<Rightarrow> wire_subscription_resources option" where
  "de_subres j = do {
     m \<leftarrow> de_object subres_names j;
     http \<leftarrow> de_default m ''http'' False de_bool;
     ip \<leftarrow> de_req m ''public_ipv4'' de_str;
     firewall \<leftarrow> de_req m ''firewall_sha256'' de_str;
     snapd \<leftarrow> de_req m ''snapd_created'' de_bool;
     certbot \<leftarrow> de_req m ''certbot_created'' de_bool;
     recorder \<leftarrow> de_default m ''recorder_directory_created'' False de_bool;
     Some \<lparr>sr_http = http, sr_public_ipv4 = ip, sr_firewall_sha256 = firewall,
       sr_snapd_created = snapd, sr_certbot_created = certbot,
       sr_recorder_directory_created = recorder\<rparr>
   }"

text \<open>\<open>SubscriptionResources::http\<close>.\<close>

definition resources_http :: "string \<Rightarrow> string \<Rightarrow> wire_subscription_resources option" where
  "resources_http ipv4 firewall =
     (let w = \<lparr>sr_http = True, sr_public_ipv4 = ipv4, sr_firewall_sha256 = firewall,
        sr_snapd_created = False, sr_certbot_created = False,
        sr_recorder_directory_created = False\<rparr>
      in if \<not> valid_subscription_resources w then None else Some w)"

section \<open>Renewal, startup, tunnel\<close>

record wire_renewal =
  rn_recorder_id :: string
  rn_lineage :: string
  rn_public_ipv4 :: string
  rn_invocation :: string

definition valid_renewal :: "wire_renewal \<Rightarrow> bool" where
  "valid_renewal r =
     (nonzero_hex (rn_recorder_id r) 32 \<and> rn_lineage r = ''sbxr-subscription''
      \<and> canonical_ipv4 (rn_public_ipv4 r) \<and> rn_invocation r = ''snap-certbot-renew-v1'')"

definition renewal_resources :: "string list" where
  "renewal_resources =
     [''/etc/systemd/system/snap.certbot.renew.service.d/50-sbxr-recorder.conf root:root 0644 one-link recorder-v1'',
      ''/etc/letsencrypt/renewal-hooks/deploy/sbxr-subscription root:root 0700 one-link deploy-writer-v1'',
      ''/etc/letsencrypt/renewal-hooks/post/sbxr-subscription root:root 0700 one-link post-writer-v1'',
      ''/var/lib/sbxr/renewal-attempts.json root:root 0600 one-link bounded-evidence-v1'',
      ''/var/lib/sbxr/renewal-admission.lock root:root 0600 one-link admission-v1'',
      ''/var/lib/sbxr/renewal-writer.lock root:root 0600 one-link writer-v1'']"

definition renewal_names :: "string list" where
  "renewal_names = [''recorder_id'', ''lineage'', ''public_ipv4'', ''invocation'']"

definition renewal_fields :: "wire_renewal \<Rightarrow> (string \<times> json option) list" where
  "renewal_fields r =
     [(''recorder_id'', Some (JStr (rn_recorder_id r))), (''lineage'', Some (JStr (rn_lineage r))),
      (''public_ipv4'', Some (JStr (rn_public_ipv4 r))),
      (''invocation'', Some (JStr (rn_invocation r)))]"

definition ser_renewal :: "wire_renewal \<Rightarrow> json" where
  "ser_renewal r = mk_obj (renewal_fields r)"

definition de_renewal :: "json \<Rightarrow> wire_renewal option" where
  "de_renewal j = do {
     m \<leftarrow> de_object renewal_names j;
     recorder \<leftarrow> de_req m ''recorder_id'' de_str;
     lineage \<leftarrow> de_req m ''lineage'' de_str;
     ip \<leftarrow> de_req m ''public_ipv4'' de_str;
     invocation \<leftarrow> de_req m ''invocation'' de_str;
     Some \<lparr>rn_recorder_id = recorder, rn_lineage = lineage, rn_public_ipv4 = ip,
       rn_invocation = invocation\<rparr>
   }"

record wire_startup =
  su_drop_in_sha256 :: string
  su_directory_created :: bool

definition valid_startup :: "wire_startup \<Rightarrow> bool" where
  "valid_startup s = nonzero_hex (su_drop_in_sha256 s) 64"

definition startup_resources :: "wire_startup \<Rightarrow> string list" where
  "startup_resources s =
     (''/etc/systemd/system/sing-box.service.d/sbxr-client-identity.conf root:root 0644 one-link sha256:''
        @ su_drop_in_sha256 s)
     # (if su_directory_created s
        then [''/etc/systemd/system/sing-box.service.d root:root 0755 SBXR-created empty-after-drop-in-removal'']
        else [])"

definition startup_names :: "string list" where
  "startup_names = [''drop_in_sha256'', ''directory_created'']"

definition startup_fields :: "wire_startup \<Rightarrow> (string \<times> json option) list" where
  "startup_fields s =
     [(''drop_in_sha256'', Some (JStr (su_drop_in_sha256 s))),
      (''directory_created'', Some (JBool (su_directory_created s)))]"

definition ser_startup :: "wire_startup \<Rightarrow> json" where
  "ser_startup s = mk_obj (startup_fields s)"

definition de_startup :: "json \<Rightarrow> wire_startup option" where
  "de_startup j = do {
     m \<leftarrow> de_object startup_names j;
     digest \<leftarrow> de_req m ''drop_in_sha256'' de_str;
     created \<leftarrow> de_req m ''directory_created'' de_bool;
     Some \<lparr>su_drop_in_sha256 = digest, su_directory_created = created\<rparr>
   }"

record wire_tunnel =
  tn_tunnel_id :: string
  tn_token_sha256 :: string
  tn_binary_sha256 :: string

definition valid_tunnel :: "wire_tunnel \<Rightarrow> bool" where
  "valid_tunnel t =
     (length (tn_tunnel_id t) = 36
      \<and> list_all (\<lambda>(i, c). if i = 8 \<or> i = 13 \<or> i = 18 \<or> i = (23 :: nat) then c = CHR ''-''
                           else lower_hex_byte c) (zip [0 ..< 36] (tn_tunnel_id t))
      \<and> lower_hex (tn_token_sha256 t) 64 \<and> lower_hex (tn_binary_sha256 t) 64)"

text \<open>\<open>include_bytes!("tunnel-authority.service")\<close>.\<close>

definition tunnel_authority_service :: bytes where
  "tunnel_authority_service = unlines
     [''[Unit]'', ''Description=SBXR dedicated Cloudflare Tunnel connector'',
      ''Wants=network-online.target'', ''After=network-online.target sing-box.service'', [],
      ''[Service]'', ''Type=simple'', ''DynamicUser=yes'',
      ''LoadCredential=tunnel-token:/etc/cloudflared/sbxr.token'',
      ''ExecStart=/usr/bin/cloudflared --config /dev/null --no-autoupdate tunnel --metrics 127.0.0.1:0 run --token-file %d/tunnel-token'',
      ''Restart=on-failure'', ''RestartSec=5s'', ''TimeoutStopSec=15s'', ''KillMode=control-group'',
      ''NoNewPrivileges=yes'', ''ProtectSystem=strict'', ''ProtectHome=yes'', ''PrivateTmp=yes'',
      ''UMask=0077'', ''StandardInput=null'', ''StandardOutput=null'', ''StandardError=null'', [],
      ''[Install]'', ''WantedBy=multi-user.target'']"

definition tunnel_unit_sha256 :: "lib \<Rightarrow> string" where
  "tunnel_unit_sha256 L = sha256_hex L tunnel_authority_service"

definition tunnel_resources :: "lib \<Rightarrow> string list" where
  "tunnel_resources L =
     [''/etc/systemd/system/sbxr-tunnel.service root:root 0644 one-link sha256:'' @ tunnel_unit_sha256 L,
      ''/etc/systemd/system/sbxr-tunnel.service.sbxr-next root-owned synchronized no-replace publication'',
      ''/etc/systemd/system/multi-user.target.wants/sbxr-tunnel.service root-owned symlink ../sbxr-tunnel.service'']"

text \<open>\<open>TunnelAuthority::new\<close>.\<close>

definition new_tunnel :: "string \<Rightarrow> string \<Rightarrow> string \<Rightarrow> wire_tunnel option" where
  "new_tunnel tunnel_id token binary =
     (let w = \<lparr>tn_tunnel_id = tunnel_id, tn_token_sha256 = token, tn_binary_sha256 = binary\<rparr>
      in if \<not> valid_tunnel w then None else Some w)"

definition tunnel_names :: "string list" where
  "tunnel_names = [''tunnel_id'', ''token_sha256'', ''binary_sha256'']"

definition tunnel_fields :: "wire_tunnel \<Rightarrow> (string \<times> json option) list" where
  "tunnel_fields t =
     [(''tunnel_id'', Some (JStr (tn_tunnel_id t))),
      (''token_sha256'', Some (JStr (tn_token_sha256 t))),
      (''binary_sha256'', Some (JStr (tn_binary_sha256 t)))]"

definition ser_tunnel :: "wire_tunnel \<Rightarrow> json" where
  "ser_tunnel t = mk_obj (tunnel_fields t)"

definition de_tunnel :: "json \<Rightarrow> wire_tunnel option" where
  "de_tunnel j = do {
     m \<leftarrow> de_object tunnel_names j;
     tunnel_id \<leftarrow> de_req m ''tunnel_id'' de_str;
     token \<leftarrow> de_req m ''token_sha256'' de_str;
     binary \<leftarrow> de_req m ''binary_sha256'' de_str;
     Some \<lparr>tn_tunnel_id = tunnel_id, tn_token_sha256 = token, tn_binary_sha256 = binary\<rparr>
   }"

section \<open>Retired HTTPS authority\<close>

text \<open>The mode masks of the source are octal: \<open>0o777 = 511\<close>, \<open>0o133 = 91\<close>, \<open>0o400 = 256\<close>.\<close>

record wire_retirement =
  rt_serving :: wire_serving
  rt_renewal :: wire_renewal
  rt_resources :: wire_subscription_resources
  rt_configuration_mode :: u32
  rt_configuration_sha256 :: string
  rt_evidence_sha256 :: string

definition valid_retirement :: "wire_retirement \<Rightarrow> bool" where
  "valid_retirement r =
     (valid_serving (rt_serving r) \<and> \<not> sv_http (rt_serving r) \<and> valid_renewal (rt_renewal r)
      \<and> valid_subscription_resources (rt_resources r) \<and> \<not> sr_http (rt_resources r)
      \<and> sr_public_ipv4 (rt_resources r) = rn_public_ipv4 (rt_renewal r)
      \<and> rt_configuration_mode r AND NOT 511 = 0
      \<and> rt_configuration_mode r AND 91 = 0
      \<and> rt_configuration_mode r AND 256 \<noteq> 0
      \<and> nonzero_hex (rt_configuration_sha256 r) 64 \<and> nonzero_hex (rt_evidence_sha256 r) 64)"

definition retirement_resources :: "wire_retirement \<Rightarrow> string list" where
  "retirement_resources r =
     [''/var/lib/sbxr/subscription-https-retired root:root 0700 retained-https-v1'',
      ''/var/lib/sbxr/subscription-https-retired/renewal.conf root:root 0''
        @ show_octal_u32 (rt_configuration_mode r) @ '' one-link sha256:'' @ rt_configuration_sha256 r,
      ''/var/lib/sbxr/subscription-https-retired/recorder.conf root:root 0644 one-link recorder-v1'',
      ''/var/lib/sbxr/subscription-https-retired/deploy-hook root:root 0700 one-link deploy-writer-v1'',
      ''/var/lib/sbxr/subscription-https-retired/post-hook root:root 0700 one-link post-writer-v1'',
      ''/var/lib/sbxr/renewal-attempts.json root:root 0600 one-link retired-evidence-sha256:''
        @ rt_evidence_sha256 r,
      ''/var/lib/sbxr/renewal-admission.lock root:root 0600 one-link admission-v1'',
      ''/var/lib/sbxr/renewal-writer.lock root:root 0600 one-link writer-v1'']
     @ drop 5 (serving_resources (rt_serving r))
     @ drop 3 (subscription_resource_lines (rt_resources r))"

definition retirement_names :: "string list" where
  "retirement_names = [''serving'', ''renewal'', ''resources'', ''configuration_mode'',
     ''configuration_sha256'', ''evidence_sha256'']"

definition retirement_fields :: "wire_retirement \<Rightarrow> (string \<times> json option) list" where
  "retirement_fields r =
     [(''serving'', Some (ser_serving (rt_serving r))),
      (''renewal'', Some (ser_renewal (rt_renewal r))),
      (''resources'', Some (ser_subres (rt_resources r))),
      (''configuration_mode'', Some (ser_u32 (rt_configuration_mode r))),
      (''configuration_sha256'', Some (JStr (rt_configuration_sha256 r))),
      (''evidence_sha256'', Some (JStr (rt_evidence_sha256 r)))]"

definition ser_retirement :: "wire_retirement \<Rightarrow> json" where
  "ser_retirement r = mk_obj (retirement_fields r)"

definition de_retirement :: "json \<Rightarrow> wire_retirement option" where
  "de_retirement j = do {
     m \<leftarrow> de_object retirement_names j;
     serving \<leftarrow> de_req m ''serving'' de_serving;
     renewal \<leftarrow> de_req m ''renewal'' de_renewal;
     res \<leftarrow> de_req m ''resources'' de_subres;
     mode \<leftarrow> de_req m ''configuration_mode'' de_u32;
     digest \<leftarrow> de_req m ''configuration_sha256'' de_str;
     evidence \<leftarrow> de_req m ''evidence_sha256'' de_str;
     Some \<lparr>rt_serving = serving, rt_renewal = renewal, rt_resources = res,
       rt_configuration_mode = mode, rt_configuration_sha256 = digest,
       rt_evidence_sha256 = evidence\<rparr>
   }"

section \<open>Lemmas\<close>

lemma serving_fields_wf:
  "distinct (map fst (serving_fields s))" "fst ` set (serving_fields s) \<subseteq> set serving_names"
  by (simp_all add: serving_fields_def serving_names_def)

lemma subres_fields_wf:
  "distinct (map fst (subres_fields s))" "fst ` set (subres_fields s) \<subseteq> set subres_names"
  by (simp_all add: subres_fields_def subres_names_def)

lemma renewal_fields_wf:
  "distinct (map fst (renewal_fields s))" "fst ` set (renewal_fields s) \<subseteq> set renewal_names"
  by (simp_all add: renewal_fields_def renewal_names_def)

lemma startup_fields_wf:
  "distinct (map fst (startup_fields s))" "fst ` set (startup_fields s) \<subseteq> set startup_names"
  by (simp_all add: startup_fields_def startup_names_def)

lemma tunnel_fields_wf:
  "distinct (map fst (tunnel_fields s))" "fst ` set (tunnel_fields s) \<subseteq> set tunnel_names"
  by (simp_all add: tunnel_fields_def tunnel_names_def)

lemma retirement_fields_wf:
  "distinct (map fst (retirement_fields s))" "fst ` set (retirement_fields s) \<subseteq> set retirement_names"
  by (simp_all add: retirement_fields_def retirement_names_def)

lemma de_string4_strs [simp, serde_simps]: "de_string4 (ser_strs (list4 q)) = Some q"
  by (cases q) (simp add: de_string4_def)

lemma skip_false_cases:
  "de_default m k False de_bool = Some b"
  if "m k = map_option f (skip_false b)" and "\<And>x. f (JBool x) = JBool x"
  using that by (cases b) (simp_all add: de_default_def skip_false_def)

lemma de_ser_serving [simp, serde_simps]:
  "de_serving (ser_serving s) = Some s" "de_serving (value_of (ser_serving s)) = Some s"
  by (simp_all add: de_serving_def ser_serving_def de_object_mk_obj de_object_value_of
      serving_fields_wf, simp_all add: serving_fields_def serde_simps de_req_def de_default_def
      skip_false_def)

lemma de_ser_subres [simp, serde_simps]:
  "de_subres (ser_subres s) = Some s" "de_subres (value_of (ser_subres s)) = Some s"
  by (simp_all add: de_subres_def ser_subres_def de_object_mk_obj de_object_value_of
      subres_fields_wf, simp_all add: subres_fields_def serde_simps de_req_def de_default_def
      skip_false_def)

lemma de_ser_renewal [simp, serde_simps]:
  "de_renewal (ser_renewal s) = Some s" "de_renewal (value_of (ser_renewal s)) = Some s"
  by (simp_all add: de_renewal_def ser_renewal_def de_object_mk_obj de_object_value_of
      renewal_fields_wf, simp_all add: renewal_fields_def serde_simps de_req_def)

lemma de_ser_startup [simp, serde_simps]:
  "de_startup (ser_startup s) = Some s" "de_startup (value_of (ser_startup s)) = Some s"
  by (simp_all add: de_startup_def ser_startup_def de_object_mk_obj de_object_value_of
      startup_fields_wf, simp_all add: startup_fields_def serde_simps de_req_def)

lemma de_ser_tunnel [simp, serde_simps]:
  "de_tunnel (ser_tunnel s) = Some s" "de_tunnel (value_of (ser_tunnel s)) = Some s"
  by (simp_all add: de_tunnel_def ser_tunnel_def de_object_mk_obj de_object_value_of
      tunnel_fields_wf, simp_all add: tunnel_fields_def serde_simps de_req_def)

lemma de_ser_retirement [simp, serde_simps]:
  "de_retirement (ser_retirement s) = Some s" "de_retirement (value_of (ser_retirement s)) = Some s"
  by (simp_all add: de_retirement_def ser_retirement_def de_object_mk_obj de_object_value_of
      retirement_fields_wf, simp_all add: retirement_fields_def serde_simps de_req_def)

lemma http_digest_Some: "http_digest l d = Some s \<longleftrightarrow>
    s = \<lparr>sv_http = True, sv_link_id = l, sv_credential_sha256 = d, sv_certificate_generation = 0,
         sv_certificate_sha256 = ([], [], [], [])\<rparr>
    \<and> nonzero_hex l 32 \<and> nonzero_hex d 64"
  by (auto simp: http_digest_def Let_def valid_serving_def)

text \<open>A valid HTTP authority is determined by its link and credential digest.\<close>

lemma valid_http_serving: "valid_serving s \<Longrightarrow> sv_http s \<Longrightarrow>
    http_digest (sv_link_id s) (sv_credential_sha256 s) = Some s"
  by (cases s) (auto simp: http_digest_Some valid_serving_def)

lemma valid_serving_http_digest: "http_digest l d = Some s \<Longrightarrow> valid_serving s \<and> sv_http s"
  by (simp add: http_digest_Some valid_serving_def)

lemma compatible_target_http:
  "compatible_target s t \<Longrightarrow> sv_http s \<Longrightarrow> s = t"
  by (cases s; cases t) (auto simp: compatible_target_def valid_serving_def)

lemma compatible_target_refl: "valid_serving s \<Longrightarrow> compatible_target s s"
  by (simp add: compatible_target_def)

lemma resources_http_Some: "resources_http ip fw = Some w \<longleftrightarrow>
    w = \<lparr>sr_http = True, sr_public_ipv4 = ip, sr_firewall_sha256 = fw, sr_snapd_created = False,
         sr_certbot_created = False, sr_recorder_directory_created = False\<rparr>
    \<and> canonical_ipv4 ip \<and> lower_hex fw 64"
  by (auto simp: resources_http_def Let_def valid_subscription_resources_def)

lemma serving_base_length: "length serving_base_resources = 5"
  by (simp add: serving_base_resources_def)

lemma serving_resources_length: "5 \<le> length (serving_resources s)"
  by (simp add: serving_resources_def serving_base_length)

end
