(* ===== verification/Operations.thy ===== *)
theory Operations
  imports Authority
begin

text \<open>
  \<open>src/records/operations.rs\<close>: the operation metadata of the Ownership Record (HTTP enablement, link
  rotation, certificate activation, repair, Client Identity rotation), each with its validity
  predicate and codec.  Checkpoints, directions and effects are strings, as in the source.
\<close>

definition ROTATION_EFFECTS :: "string list" where
  "ROTATION_EFFECTS = [''prepare target'', ''stop source'', ''publish target'', ''activate target'']"

definition CLIENT_EFFECTS :: "string list" where
  "CLIENT_EFFECTS =
     [''prepare target'', ''publish startup integration'', ''reload systemd'',
      ''verify startup route'', ''establish cutover gate'', ''stop source'',
      ''prove source quiescence'', ''revoke source'', ''publish target'', ''start target'',
      ''verify target'', ''clean staging'']"

definition CLIENT_CHECKPOINTS :: "string list" where
  "CLIENT_CHECKPOINTS =
     [''rotation authorized'', ''target prepared'', ''startup integration published'',
      ''systemd reloaded'', ''startup route verified'', ''cutover gated'', ''source stopped'',
      ''source quiescent'', ''source revoked'', ''target published'', ''target started'']"

text \<open>\<open>equal\<close>: an absent effect list counts as the empty one.\<close>

definition equal_effects :: "string list option \<Rightarrow> string list \<Rightarrow> bool" where
  "equal_effects completed expected =
     ((case completed of None \<Rightarrow> [] | Some v \<Rightarrow> v) = expected)"

section \<open>Enablement\<close>

record wire_enablement =
  en_checkpoint :: u32
  en_link_id :: string
  en_credential_sha256 :: string
  en_recorder_id :: string
  en_serving :: "wire_serving option"
  en_renewal :: "wire_renewal option"
  en_resources :: "wire_subscription_resources option"

definition enablement_https_tail :: "wire_enablement \<Rightarrow> bool" where
  "enablement_https_tail e =
     (if (en_serving e \<noteq> None) \<noteq> (en_renewal e \<noteq> None)
         \<or> en_serving e \<noteq> None \<and> en_resources e = None then False
      else case en_serving e of
             None \<Rightarrow> True
           | Some s \<Rightarrow>
               (case en_renewal e of
                  None \<Rightarrow> False
                | Some r \<Rightarrow>
                    valid_serving s \<and> valid_renewal r \<and> sv_link_id s = en_link_id e
                    \<and> sv_credential_sha256 s = en_credential_sha256 e
                    \<and> rn_recorder_id r = en_recorder_id e
                    \<and> is_some_and (\<lambda>res. sr_public_ipv4 res = rn_public_ipv4 r) (en_resources e)))"

definition valid_enablement :: "wire_enablement \<Rightarrow> bool" where
  "valid_enablement e =
     (if en_checkpoint e > 23 \<or> \<not> nonzero_hex (en_link_id e) 32
         \<or> \<not> nonzero_hex (en_credential_sha256 e) 64 \<or> \<not> nonzero_hex (en_recorder_id e) 32
      then False
      else case en_resources e of
             None \<Rightarrow> enablement_https_tail e
           | Some res \<Rightarrow>
               if \<not> valid_subscription_resources res then False
               else if sr_http res then
                 en_renewal e = None
                 \<and> (case en_serving e of
                      None \<Rightarrow> en_checkpoint e < 8
                    | Some s \<Rightarrow> sv_http s \<and> valid_serving s \<and> sv_link_id s = en_link_id e
                        \<and> sv_credential_sha256 s = en_credential_sha256 e)
               else enablement_https_tail e)"

section \<open>Link rotation\<close>

record wire_rotation =
  ro_operation_id :: string
  ro_kind :: string
  ro_direction :: string
  ro_effects :: "string list"
  ro_completed_effects :: "string list option"
  ro_source :: wire_serving
  ro_target :: wire_serving
  ro_checkpoint :: string

definition rotation_expected :: "string \<Rightarrow> (string list \<times> string) option" where
  "rotation_expected checkpoint =
     (if checkpoint = ''target authorized'' then Some ([], ''cleanup'')
      else if checkpoint = ''stop authorized'' then Some ([''target prepared''], ''cleanup'')
      else if checkpoint = ''committed''
           then Some ([''target prepared'', ''source stopped''], ''forward'')
      else None)"

definition valid_rotation :: "wire_rotation \<Rightarrow> bool" where
  "valid_rotation r =
     (case rotation_expected (ro_checkpoint r) of
        None \<Rightarrow> False
      | Some (completed, direction) \<Rightarrow>
          nonzero_hex (ro_operation_id r) 32 \<and> ro_kind r = ''rotate subscription link''
          \<and> ro_direction r = direction \<and> ro_effects r = ROTATION_EFFECTS
          \<and> equal_effects (ro_completed_effects r) completed
          \<and> valid_serving (ro_source r) \<and> valid_serving (ro_target r)
          \<and> sv_link_id (ro_source r) \<noteq> sv_link_id (ro_target r)
          \<and> sv_credential_sha256 (ro_source r) \<noteq> sv_credential_sha256 (ro_target r)
          \<and> sv_http (ro_source r) = sv_http (ro_target r)
          \<and> sv_certificate_generation (ro_source r) = sv_certificate_generation (ro_target r)
          \<and> sv_certificate_sha256 (ro_source r) = sv_certificate_sha256 (ro_target r))"

section \<open>Certificate activation\<close>

record wire_activation =
  ac_source :: wire_serving
  ac_target :: wire_serving
  ac_checkpoint :: string

definition valid_activation :: "wire_activation \<Rightarrow> bool" where
  "valid_activation a =
     ((ac_checkpoint a = ''target recorded'' \<or> ac_checkpoint a = ''target accepted'')
      \<and> compatible_target (ac_source a) (ac_target a))"

section \<open>Repair\<close>

record wire_repair =
  rp_operation_id :: string
  rp_kind :: string
  rp_direction :: string
  rp_correction :: string
  rp_effects :: "string list"
  rp_completed_effects :: "string list option"
  rp_checkpoint :: string
  rp_source :: wire_serving
  rp_target :: "wire_serving option"

definition RESTART :: string where
  "RESTART = ''restart owned serving runtime''"

definition RENEW :: string where
  "RENEW = ''renew owned certificate''"

definition repair_effects :: "string \<Rightarrow> string list option" where
  "repair_effects correction =
     (if correction = RESTART then Some [RESTART]
      else if correction = RENEW
           then Some [RENEW, ''activate published certificate'', ''resolve renewal evidence'']
      else None)"

definition valid_repair :: "wire_repair \<Rightarrow> bool" where
  "valid_repair r =
     (if \<not> nonzero_hex (rp_operation_id r) 32 \<or> rp_kind r \<noteq> ''repair subscription''
         \<or> \<not> valid_serving (rp_source r)
         \<or> \<not> (rp_checkpoint r = ''prepared'' \<or> rp_checkpoint r = ''committed''
               \<or> rp_checkpoint r = ''accepted'') then False
      else case repair_effects (rp_correction r) of
             None \<Rightarrow> False
           | Some effects \<Rightarrow>
               let completed =
                 (if rp_checkpoint r = ''accepted'' then effects
                  else if rp_correction r = RENEW \<and> rp_target r \<noteq> None
                       then [''certificate published''] else [])
               in rp_effects r = effects
                  \<and> equal_effects (rp_completed_effects r) completed
                  \<and> rp_direction r =
                      (if rp_checkpoint r = ''prepared'' then ''cleanup'' else ''forward'')
                  \<and> \<not> (rp_checkpoint r = ''prepared'' \<and> rp_target r \<noteq> None
                        \<or> rp_checkpoint r = ''accepted'' \<and> rp_target r = None)
                  \<and> is_none_or (\<lambda>t. compatible_target (rp_source r) t
                      \<and> (rp_correction r = RESTART \<and> t = rp_source r
                         \<or> rp_correction r = RENEW
                           \<and> sv_certificate_generation t > sv_certificate_generation (rp_source r)))
                      (rp_target r))"

section \<open>Client Identity rotation\<close>

record wire_client_subscription =
  cs_source :: wire_serving
  cs_target :: wire_serving
  cs_source_artifact_sha256 :: string
  cs_target_artifact_sha256 :: string

definition valid_client_subscription :: "wire_client_subscription \<Rightarrow> bool" where
  "valid_client_subscription s =
     (compatible_target (cs_source s) (cs_target s)
      \<and> nonzero_hex (cs_source_artifact_sha256 s) 64
      \<and> nonzero_hex (cs_target_artifact_sha256 s) 64
      \<and> cs_source_artifact_sha256 s \<noteq> cs_target_artifact_sha256 s)"

record wire_client_rotation =
  cr_operation_id :: string
  cr_direction :: string
  cr_effects :: "string list"
  cr_completed_effects :: "string list"
  cr_source_configuration_sha256 :: string
  cr_target_configuration_sha256 :: string
  cr_checkpoint :: string
  cr_subscription :: "wire_client_subscription option"

definition client_index :: "wire_client_rotation \<Rightarrow> nat option" where
  "client_index r = position (\<lambda>p. p = cr_checkpoint r) CLIENT_CHECKPOINTS"

definition valid_client_rotation :: "wire_client_rotation \<Rightarrow> wire_startup option \<Rightarrow> string \<Rightarrow> bool" where
  "valid_client_rotation r startup configuration =
     (case client_index r of
        None \<Rightarrow> False
      | Some i \<Rightarrow>
          length (cr_operation_id r) = 32
          \<and> list_all is_ascii_hexdigit (cr_operation_id r)
          \<and> list_ex (\<lambda>b. b \<noteq> CHR ''0'') (cr_operation_id r)
          \<and> lower_hex (cr_source_configuration_sha256 r) 64
          \<and> lower_hex (cr_target_configuration_sha256 r) 64
          \<and> cr_source_configuration_sha256 r \<noteq> cr_target_configuration_sha256 r
          \<and> cr_effects r = CLIENT_EFFECTS
          \<and> cr_completed_effects r = take i CLIENT_EFFECTS
          \<and> cr_direction r = (if i < 8 then ''cleanup'' else ''forward'')
          \<and> startup \<noteq> None
          \<and> configuration =
              (if i \<ge> 9 then cr_target_configuration_sha256 r else cr_source_configuration_sha256 r))"

section \<open>Codecs\<close>

definition enablement_names :: "string list" where
  "enablement_names = [''checkpoint'', ''link_id'', ''credential_sha256'', ''recorder_id'',
     ''serving'', ''renewal'', ''resources'']"

definition enablement_fields :: "wire_enablement \<Rightarrow> (string \<times> json option) list" where
  "enablement_fields e =
     [(''checkpoint'', Some (ser_u32 (en_checkpoint e))), (''link_id'', Some (JStr (en_link_id e))),
      (''credential_sha256'', Some (JStr (en_credential_sha256 e))),
      (''recorder_id'', Some (JStr (en_recorder_id e))),
      (''serving'', map_option ser_serving (en_serving e)),
      (''renewal'', map_option ser_renewal (en_renewal e)),
      (''resources'', map_option ser_subres (en_resources e))]"

definition ser_enablement :: "wire_enablement \<Rightarrow> json" where
  "ser_enablement e = mk_obj (enablement_fields e)"

definition de_enablement :: "json \<Rightarrow> wire_enablement option" where
  "de_enablement j = do {
     m \<leftarrow> de_object enablement_names j;
     checkpoint \<leftarrow> de_req m ''checkpoint'' de_u32;
     link_id \<leftarrow> de_req m ''link_id'' de_str;
     credential \<leftarrow> de_req m ''credential_sha256'' de_str;
     recorder \<leftarrow> de_req m ''recorder_id'' de_str;
     serving \<leftarrow> de_opt m ''serving'' de_serving;
     renewal \<leftarrow> de_opt m ''renewal'' de_renewal;
     res \<leftarrow> de_opt m ''resources'' de_subres;
     Some \<lparr>en_checkpoint = checkpoint, en_link_id = link_id, en_credential_sha256 = credential,
       en_recorder_id = recorder, en_serving = serving, en_renewal = renewal, en_resources = res\<rparr>
   }"

definition ser_nullable_strs :: "string list option \<Rightarrow> json" where
  "ser_nullable_strs x = (case x of None \<Rightarrow> JNull | Some v \<Rightarrow> ser_strs v)"

definition rotation_names :: "string list" where
  "rotation_names = [''operation_id'', ''kind'', ''direction'', ''effects'', ''completed_effects'',
     ''source'', ''target'', ''checkpoint'']"

definition rotation_fields :: "wire_rotation \<Rightarrow> (string \<times> json option) list" where
  "rotation_fields r =
     [(''operation_id'', Some (JStr (ro_operation_id r))), (''kind'', Some (JStr (ro_kind r))),
      (''direction'', Some (JStr (ro_direction r))), (''effects'', Some (ser_strs (ro_effects r))),
      (''completed_effects'', Some (ser_nullable_strs (ro_completed_effects r))),
      (''source'', Some (ser_serving (ro_source r))), (''target'', Some (ser_serving (ro_target r))),
      (''checkpoint'', Some (JStr (ro_checkpoint r)))]"

definition ser_rotation :: "wire_rotation \<Rightarrow> json" where
  "ser_rotation r = mk_obj (rotation_fields r)"

definition de_rotation :: "json \<Rightarrow> wire_rotation option" where
  "de_rotation j = do {
     m \<leftarrow> de_object rotation_names j;
     operation_id \<leftarrow> de_req m ''operation_id'' de_str;
     kind \<leftarrow> de_req m ''kind'' de_str;
     direction \<leftarrow> de_req m ''direction'' de_str;
     effects \<leftarrow> de_req m ''effects'' (de_list de_str);
     completed \<leftarrow> de_nullable m ''completed_effects'' (de_list de_str);
     source \<leftarrow> de_req m ''source'' de_serving;
     target \<leftarrow> de_req m ''target'' de_serving;
     checkpoint \<leftarrow> de_req m ''checkpoint'' de_str;
     Some \<lparr>ro_operation_id = operation_id, ro_kind = kind, ro_direction = direction,
       ro_effects = effects, ro_completed_effects = completed, ro_source = source,
       ro_target = target, ro_checkpoint = checkpoint\<rparr>
   }"

definition activation_names :: "string list" where
  "activation_names = [''source'', ''target'', ''checkpoint'']"

definition activation_fields :: "wire_activation \<Rightarrow> (string \<times> json option) list" where
  "activation_fields a =
     [(''source'', Some (ser_serving (ac_source a))), (''target'', Some (ser_serving (ac_target a))),
      (''checkpoint'', Some (JStr (ac_checkpoint a)))]"

definition ser_activation :: "wire_activation \<Rightarrow> json" where
  "ser_activation a = mk_obj (activation_fields a)"

definition de_activation :: "json \<Rightarrow> wire_activation option" where
  "de_activation j = do {
     m \<leftarrow> de_object activation_names j;
     source \<leftarrow> de_req m ''source'' de_serving;
     target \<leftarrow> de_req m ''target'' de_serving;
     checkpoint \<leftarrow> de_req m ''checkpoint'' de_str;
     Some \<lparr>ac_source = source, ac_target = target, ac_checkpoint = checkpoint\<rparr>
   }"

definition repair_names :: "string list" where
  "repair_names = [''operation_id'', ''kind'', ''direction'', ''correction'', ''effects'',
     ''completed_effects'', ''checkpoint'', ''source'', ''target'']"

definition repair_fields :: "wire_repair \<Rightarrow> (string \<times> json option) list" where
  "repair_fields r =
     [(''operation_id'', Some (JStr (rp_operation_id r))), (''kind'', Some (JStr (rp_kind r))),
      (''direction'', Some (JStr (rp_direction r))),
      (''correction'', Some (JStr (rp_correction r))),
      (''effects'', Some (ser_strs (rp_effects r))),
      (''completed_effects'', Some (ser_nullable_strs (rp_completed_effects r))),
      (''checkpoint'', Some (JStr (rp_checkpoint r))),
      (''source'', Some (ser_serving (rp_source r))),
      (''target'', map_option ser_serving (rp_target r))]"

definition ser_repair :: "wire_repair \<Rightarrow> json" where
  "ser_repair r = mk_obj (repair_fields r)"

definition de_repair :: "json \<Rightarrow> wire_repair option" where
  "de_repair j = do {
     m \<leftarrow> de_object repair_names j;
     operation_id \<leftarrow> de_req m ''operation_id'' de_str;
     kind \<leftarrow> de_req m ''kind'' de_str;
     direction \<leftarrow> de_req m ''direction'' de_str;
     correction \<leftarrow> de_req m ''correction'' de_str;
     effects \<leftarrow> de_req m ''effects'' (de_list de_str);
     completed \<leftarrow> de_nullable m ''completed_effects'' (de_list de_str);
     checkpoint \<leftarrow> de_req m ''checkpoint'' de_str;
     source \<leftarrow> de_req m ''source'' de_serving;
     target \<leftarrow> de_opt m ''target'' de_serving;
     Some \<lparr>rp_operation_id = operation_id, rp_kind = kind, rp_direction = direction,
       rp_correction = correction, rp_effects = effects, rp_completed_effects = completed,
       rp_checkpoint = checkpoint, rp_source = source, rp_target = target\<rparr>
   }"

definition client_subscription_names :: "string list" where
  "client_subscription_names =
     [''source'', ''target'', ''source_artifact_sha256'', ''target_artifact_sha256'']"

definition client_subscription_fields :: "wire_client_subscription \<Rightarrow> (string \<times> json option) list" where
  "client_subscription_fields s =
     [(''source'', Some (ser_serving (cs_source s))), (''target'', Some (ser_serving (cs_target s))),
      (''source_artifact_sha256'', Some (JStr (cs_source_artifact_sha256 s))),
      (''target_artifact_sha256'', Some (JStr (cs_target_artifact_sha256 s)))]"

definition ser_client_subscription :: "wire_client_subscription \<Rightarrow> json" where
  "ser_client_subscription s = mk_obj (client_subscription_fields s)"

definition de_client_subscription :: "json \<Rightarrow> wire_client_subscription option" where
  "de_client_subscription j = do {
     m \<leftarrow> de_object client_subscription_names j;
     source \<leftarrow> de_req m ''source'' de_serving;
     target \<leftarrow> de_req m ''target'' de_serving;
     sa \<leftarrow> de_req m ''source_artifact_sha256'' de_str;
     ta \<leftarrow> de_req m ''target_artifact_sha256'' de_str;
     Some \<lparr>cs_source = source, cs_target = target, cs_source_artifact_sha256 = sa,
       cs_target_artifact_sha256 = ta\<rparr>
   }"

definition client_rotation_names :: "string list" where
  "client_rotation_names = [''operation_id'', ''direction'', ''effects'', ''completed_effects'',
     ''source_configuration_sha256'', ''target_configuration_sha256'', ''checkpoint'', ''subscription'']"

definition client_rotation_fields :: "wire_client_rotation \<Rightarrow> (string \<times> json option) list" where
  "client_rotation_fields r =
     [(''operation_id'', Some (JStr (cr_operation_id r))),
      (''direction'', Some (JStr (cr_direction r))),
      (''effects'', Some (ser_strs (cr_effects r))),
      (''completed_effects'', Some (ser_strs (cr_completed_effects r))),
      (''source_configuration_sha256'', Some (JStr (cr_source_configuration_sha256 r))),
      (''target_configuration_sha256'', Some (JStr (cr_target_configuration_sha256 r))),
      (''checkpoint'', Some (JStr (cr_checkpoint r))),
      (''subscription'', map_option ser_client_subscription (cr_subscription r))]"

definition ser_client_rotation :: "wire_client_rotation \<Rightarrow> json" where
  "ser_client_rotation r = mk_obj (client_rotation_fields r)"

definition de_client_rotation :: "json \<Rightarrow> wire_client_rotation option" where
  "de_client_rotation j = do {
     m \<leftarrow> de_object client_rotation_names j;
     operation_id \<leftarrow> de_req m ''operation_id'' de_str;
     direction \<leftarrow> de_req m ''direction'' de_str;
     effects \<leftarrow> de_req m ''effects'' (de_list de_str);
     completed \<leftarrow> de_req m ''completed_effects'' (de_list de_str);
     source \<leftarrow> de_req m ''source_configuration_sha256'' de_str;
     target \<leftarrow> de_req m ''target_configuration_sha256'' de_str;
     checkpoint \<leftarrow> de_req m ''checkpoint'' de_str;
     subscription \<leftarrow> de_opt m ''subscription'' de_client_subscription;
     Some \<lparr>cr_operation_id = operation_id, cr_direction = direction, cr_effects = effects,
       cr_completed_effects = completed, cr_source_configuration_sha256 = source,
       cr_target_configuration_sha256 = target, cr_checkpoint = checkpoint,
       cr_subscription = subscription\<rparr>
   }"

section \<open>Lemmas\<close>

lemma operation_fields_wf:
  "distinct (map fst (enablement_fields e))" "fst ` set (enablement_fields e) \<subseteq> set enablement_names"
  "distinct (map fst (rotation_fields r))" "fst ` set (rotation_fields r) \<subseteq> set rotation_names"
  "distinct (map fst (activation_fields a))" "fst ` set (activation_fields a) \<subseteq> set activation_names"
  "distinct (map fst (repair_fields p))" "fst ` set (repair_fields p) \<subseteq> set repair_names"
  "distinct (map fst (client_subscription_fields s))"
  "fst ` set (client_subscription_fields s) \<subseteq> set client_subscription_names"
  "distinct (map fst (client_rotation_fields c))"
  "fst ` set (client_rotation_fields c) \<subseteq> set client_rotation_names"
  by (simp_all add: enablement_fields_def enablement_names_def rotation_fields_def
      rotation_names_def activation_fields_def activation_names_def repair_fields_def
      repair_names_def client_subscription_fields_def client_subscription_names_def
      client_rotation_fields_def client_rotation_names_def)

lemma de_opt_ser [serde_simps]:
  assumes "m k = map_option f x" and "\<And>y. de (f y) = Some y"
  shows "de_opt m k de = Some x"
  using assms by (cases x) (simp_all add: de_opt_def)

lemma de_nullable_strs [serde_simps]:
  assumes "m k = Some (ser_nullable_strs x)"
  shows "de_nullable m k (de_list de_str) = Some x"
  using assms by (cases x) (simp_all add: de_nullable_def ser_nullable_strs_def, simp add: ser_strs_def
      de_list_strs [unfolded ser_strs_def])

lemma value_of_nullable_strs [simp]: "value_of (ser_nullable_strs x) = ser_nullable_strs x"
  by (cases x) (simp_all add: ser_nullable_strs_def)

lemma de_ser_enablement [simp, serde_simps]:
  "de_enablement (ser_enablement e) = Some e" "de_enablement (value_of (ser_enablement e)) = Some e"
  by (simp_all add: de_enablement_def ser_enablement_def de_object_mk_obj de_object_value_of
      operation_fields_wf)
    (simp_all add: enablement_fields_def serde_simps de_req_def option.map_comp comp_def
      de_opt_ser [where f = ser_serving] de_opt_ser [where f = ser_renewal]
      de_opt_ser [where f = ser_subres] de_opt_ser [where f = "\<lambda>x. value_of (ser_serving x)"]
      de_opt_ser [where f = "\<lambda>x. value_of (ser_renewal x)"]
      de_opt_ser [where f = "\<lambda>x. value_of (ser_subres x)"])

lemma de_ser_rotation [simp, serde_simps]:
  "de_rotation (ser_rotation r) = Some r" "de_rotation (value_of (ser_rotation r)) = Some r"
  by (simp_all add: de_rotation_def ser_rotation_def de_object_mk_obj de_object_value_of
      operation_fields_wf)
    (simp_all add: rotation_fields_def serde_simps de_req_def)

lemma de_ser_activation [simp, serde_simps]:
  "de_activation (ser_activation r) = Some r" "de_activation (value_of (ser_activation r)) = Some r"
  by (simp_all add: de_activation_def ser_activation_def de_object_mk_obj de_object_value_of
      operation_fields_wf)
    (simp_all add: activation_fields_def serde_simps de_req_def)

lemma de_ser_repair [simp, serde_simps]:
  "de_repair (ser_repair r) = Some r" "de_repair (value_of (ser_repair r)) = Some r"
  by (simp_all add: de_repair_def ser_repair_def de_object_mk_obj de_object_value_of
      operation_fields_wf)
    (simp_all add: repair_fields_def serde_simps de_req_def option.map_comp comp_def
      de_opt_ser [where f = ser_serving] de_opt_ser [where f = "\<lambda>x. value_of (ser_serving x)"])

lemma de_ser_client_subscription [simp, serde_simps]:
  "de_client_subscription (ser_client_subscription r) = Some r"
  "de_client_subscription (value_of (ser_client_subscription r)) = Some r"
  by (simp_all add: de_client_subscription_def ser_client_subscription_def de_object_mk_obj
      de_object_value_of operation_fields_wf)
    (simp_all add: client_subscription_fields_def serde_simps de_req_def)

lemma de_ser_client_rotation [simp, serde_simps]:
  "de_client_rotation (ser_client_rotation r) = Some r"
  "de_client_rotation (value_of (ser_client_rotation r)) = Some r"
  by (simp_all add: de_client_rotation_def ser_client_rotation_def de_object_mk_obj
      de_object_value_of operation_fields_wf)
    (simp_all add: client_rotation_fields_def serde_simps de_req_def option.map_comp comp_def
      de_opt_ser [where f = ser_client_subscription]
      de_opt_ser [where f = "\<lambda>x. value_of (ser_client_subscription x)"])

lemma valid_rotation_cases:
  assumes "valid_rotation r"
  obtains "ro_checkpoint r = ''target authorized''" "ro_direction r = ''cleanup''"
  | "ro_checkpoint r = ''stop authorized''" "ro_direction r = ''cleanup''"
  | "ro_checkpoint r = ''committed''" "ro_direction r = ''forward''"
  using assms by (auto simp: valid_rotation_def rotation_expected_def split: option.splits if_splits)

lemma client_checkpoints_length: "length CLIENT_CHECKPOINTS = 11"
  by (simp add: CLIENT_CHECKPOINTS_def)

lemma client_index_bound: "client_index r = Some i \<Longrightarrow> i < 11 \<and> CLIENT_CHECKPOINTS ! i = cr_checkpoint r"
  using position_Some_nth [of "\<lambda>p. p = cr_checkpoint r" CLIENT_CHECKPOINTS i]
  by (simp add: client_index_def client_checkpoints_length)

end
