(* ===== verification/Ownership.thy ===== *)
theory Ownership
  imports Operations
begin

text \<open>
  \<open>src/records/ownership.rs\<close>, \<open>resources.rs\<close> and \<open>validation.rs\<close>: the Ownership Record, the exact
  list of host resources it permits, and the validator that every decoded or constructed record
  passes.  \<open>OwnershipRecord\<close> is a newtype around the wire struct whose constructor is private, so a
  value of it is a wire record for which \<open>valid\<close> holds.
\<close>

section \<open>Setup phases\<close>

datatype setup_phase =
    OwnershipRecorded | AptKeyInstalled | AptSourceInstalled | ServiceMasked | PackageInstalled
  | PackageHeld | StateDirectoryCreated | ConfigurationInstalled | ConfigurationValidated
  | ServiceUnmasked | ActivationCommitted | ServiceEnabled | ServiceStarted | Running
  | RemovalCommitted

datatype recovery_dir = Cleanup | FinishSetup | Idle | Removal

definition PHASES :: "setup_phase list" where
  "PHASES = [OwnershipRecorded, AptKeyInstalled, AptSourceInstalled, ServiceMasked,
     PackageInstalled, PackageHeld, StateDirectoryCreated, ConfigurationInstalled,
     ConfigurationValidated, ServiceUnmasked, ActivationCommitted, ServiceEnabled, ServiceStarted,
     Running]"

fun recovery_direction :: "setup_phase \<Rightarrow> recovery_dir" where
  "recovery_direction Running = Idle"
| "recovery_direction RemovalCommitted = Removal"
| "recovery_direction ActivationCommitted = FinishSetup"
| "recovery_direction ServiceEnabled = FinishSetup"
| "recovery_direction ServiceStarted = FinishSetup"
| "recovery_direction _ = Cleanup"

definition next_phase :: "setup_phase \<Rightarrow> setup_phase option" where
  "next_phase p = Option.bind (position (\<lambda>q. q = p) PHASES) (\<lambda>i. nth_opt PHASES (i + 1))"

text \<open>The strings that \<open>#[serde(rename)]\<close> gives the two enums.\<close>

fun phase_name :: "setup_phase \<Rightarrow> string" where
  "phase_name OwnershipRecorded = ''Ownership recorded''"
| "phase_name AptKeyInstalled = ''APT key installed''"
| "phase_name AptSourceInstalled = ''APT source installed''"
| "phase_name ServiceMasked = ''Service masked''"
| "phase_name PackageInstalled = ''Package installed''"
| "phase_name PackageHeld = ''Package held''"
| "phase_name StateDirectoryCreated = ''State directory created''"
| "phase_name ConfigurationInstalled = ''Configuration installed''"
| "phase_name ConfigurationValidated = ''Configuration validated''"
| "phase_name ServiceUnmasked = ''Service unmasked''"
| "phase_name ActivationCommitted = ''Activation committed''"
| "phase_name ServiceEnabled = ''Service enabled''"
| "phase_name ServiceStarted = ''Service started''"
| "phase_name Running = ''Running''"
| "phase_name RemovalCommitted = ''Removal committed''"

fun direction_name :: "recovery_dir \<Rightarrow> string" where
  "direction_name Cleanup = ''cleanup required''"
| "direction_name FinishSetup = ''setup required''"
| "direction_name Idle = ''none''"
| "direction_name Removal = ''removal required''"

section \<open>The record\<close>

record wire_ownership =
  schema :: u32
  phase :: setup_phase
  unfinished_direction :: recovery_dir
  release_identity :: release_identity
  proxy_package_identity :: string
  public_ipv4_of :: string
  destination_address :: string
  destination_server_name :: string
  configuration_sha256 :: string
  permitted_resources :: "string list"
  cleanup_checkpoint :: u32
  removal_checkpoint :: u32
  resource_creating_releases :: "release_identity list option"
  finishing_release_identity :: "release_identity option"
  serving :: "wire_serving option"
  renewal :: "wire_renewal option"
  certificate_activation :: "wire_activation option"
  subscription_enablement :: "wire_enablement option"
  subscription_rotation :: "wire_rotation option"
  subscription_repair :: "wire_repair option"
  subscription_compromised :: bool
  subscription_resources :: "wire_subscription_resources option"
  proxy_startup :: "wire_startup option"
  lock_provisioning :: "string option"
  tunnel :: "wire_tunnel option"
  client_identity_rotation :: "wire_client_rotation option"
  https_retirement :: "wire_retirement option"
  subscription_transport_migration :: bool

text \<open>\<open>LockProvisioning\<close> has one field, its unit digest; the record holds that digest.\<close>

definition PACKAGE_IDENTITY :: string where
  "PACKAGE_IDENTITY = ''https://deb.sagernet.org/ sing-box 1.14.3 amd64 32297878 ed7feaa6c2083d58a7195866bf25a2693abc2beaf5c0d192c9370ffa39e0fd6e''"

text \<open>\<open>include_bytes!("lock-provision.service")\<close>.\<close>

definition lock_provision_service :: bytes where
  "lock_provision_service = unlines
     [''[Unit]'', ''Description=Provision the SBXR whole-host mutation lock'',
      ''DefaultDependencies=no'', ''After=local-fs.target systemd-tmpfiles-setup.service'',
      ''Before=basic.target'', [], ''[Service]'', ''Type=oneshot'', ''RemainAfterExit=yes'',
      ''ExecStart=/usr/local/bin/sbxr --provision-mutation-lock'', ''User=root'', ''Group=root'',
      ''UMask=0077'', ''NoNewPrivileges=yes'', ''CapabilityBoundingSet='', ''AmbientCapabilities='',
      ''ProtectSystem=strict'', ''ProtectHome=yes'', ''PrivateTmp=yes'', ''PrivateDevices=yes'',
      ''ProtectKernelTunables=yes'', ''ProtectKernelModules=yes'', ''ProtectControlGroups=yes'',
      ''RestrictNamespaces=yes'', ''RestrictSUIDSGID=yes'', ''LockPersonality=yes'',
      ''RestrictAddressFamilies=AF_UNIX'', ''ReadWritePaths=/run/lock'',
      ''InaccessiblePaths=/run/dbus'', ''StandardInput=null'', ''StandardOutput=null'',
      ''StandardError=journal'', [], ''[Install]'', ''WantedBy=multi-user.target'']"

definition lock_digest :: "lib \<Rightarrow> string" where
  "lock_digest L = sha256_hex L lock_provision_service"

section \<open>Permitted resources\<close>

definition ownership_line :: "u32 \<Rightarrow> string" where
  "ownership_line n =
     ''/var/lib/sbxr/proxy-ownership.json root:root 0600 one-link schema-'' @ (if n = 2 then ''2'' else ''1'')"

definition removal_line :: string where
  "removal_line = ''/var/lib/.sbxr-removal.json root:root 0600 one-link finalization authority''"

definition base_lines :: "string list" where
  "base_lines =
     [removal_line,
      ''/var/lib/sbxr/.proxy-ownership.json.next root:root 0600 one-link transaction material'',
      ''/var/lib/sbxr/sing-box_1.14.3_amd64.deb root-owned one-link verified package artifact'',
      ''/etc/apt/keyrings/sagernet.asc sha256:803d5a2f09fe9d360008161aa2684e7f49a211d48a4116d0651b08bdd90bdea1'',
      ''/etc/apt/keyrings/sagernet.asc.sbxr-next root-owned transaction material'',
      ''/etc/apt/sources.list.d/sagernet.sources https://deb.sagernet.org/ signed-by sagernet.asc'',
      ''/etc/apt/sources.list.d/sagernet.sources.sbxr-next root-owned transaction material'',
      ''sing-box package 1.14.3 amd64 deb-sha256:ed7feaa6c2083d58a7195866bf25a2693abc2beaf5c0d192c9370ffa39e0fd6e'',
      ''sing-box package hold'']"

definition base_tail_lines :: "string list" where
  "base_tail_lines =
     [''/var/lib/sing-box package state'',
      ''sing-box.service package provenance stopped-disabled-before-commit'',
      ''sing-box package-created user and group'',
      ''tcp/443 local listener'']"

definition lock_lines :: "string \<Rightarrow> string list" where
  "lock_lines digest =
     [''/etc/systemd/system/sbxr-mutation-lock.service root:root 0644 one-link sha256:'' @ digest,
      ''/etc/systemd/system/sbxr-mutation-lock.service.sbxr-next root-owned synchronized no-replace publication'',
      ''/etc/systemd/system/multi-user.target.wants/sbxr-mutation-lock.service root-owned symlink ../sbxr-mutation-lock.service'']"

definition base_resources :: "wire_ownership \<Rightarrow> string list" where
  "base_resources w =
     [ownership_line 1] @ base_lines
     @ [''/etc/sing-box/config.json sha256:'' @ configuration_sha256 w]
     @ base_tail_lines
     @ (case lock_provisioning w of None \<Rightarrow> [] | Some digest \<Rightarrow> lock_lines digest)"

definition lifecycle_resources :: "string list" where
  "lifecycle_resources =
     [ownership_line 1, removal_line,
      ''/usr/local/bin/sbxr exact committed Release Identity'',
      ''/var/lib/sbxr/installed.json exact committed Release Identity'']"

definition identity_path :: "string \<Rightarrow> string" where
  "identity_path v = (case split_once CHR '' '' v of None \<Rightarrow> v | Some (p, _) \<Rightarrow> p)"

definition migration_lines :: "string list" where
  "migration_lines =
     map (\<lambda>path. path @ ''.sbxr-next root-owned retained-https migration publication'')
       [''/var/lib/sbxr/subscription-https-retired/renewal.conf'',
        ''/var/lib/sbxr/subscription-https-retired/recorder.conf'',
        ''/var/lib/sbxr/subscription-https-retired/deploy-hook'',
        ''/var/lib/sbxr/subscription-https-retired/post-hook'',
        ''/var/lib/sbxr/subscription-serving.json'',
        ''/etc/systemd/system/sbxr-subscription-firewall.service'']"

definition opt_lines :: "('a \<Rightarrow> string list) \<Rightarrow> 'a option \<Rightarrow> string list" where
  "opt_lines f x = (case x of None \<Rightarrow> [] | Some v \<Rightarrow> f v)"

text \<open>One resource of the repair's other authority: an entry for the same path is replaced or kept.\<close>

definition merge_resource :: "bool \<Rightarrow> string list \<Rightarrow> string \<Rightarrow> string list" where
  "merge_resource replace_shared out resource =
     (case position (\<lambda>old. identity_path old = identity_path resource) out of
        Some index \<Rightarrow> if replace_shared then out[index := resource] else out
      | None \<Rightarrow> out @ [resource])"

definition add_new_path :: "string list \<Rightarrow> string \<Rightarrow> string list" where
  "add_new_path out resource =
     (if list_ex (\<lambda>old. identity_path old = identity_path resource) out then out else out @ [resource])"

text \<open>
  The repair part.  The source expects a serving authority here and would panic without one; the
  lemma \<open>resources_no_panic\<close> shows that no caller gets there.
\<close>

definition repair_lines :: "wire_ownership \<Rightarrow> wire_repair \<Rightarrow> string list \<Rightarrow> string list" where
  "repair_lines r repair out =
     (case serving r of
        None \<Rightarrow> out
      | Some s \<Rightarrow>
          let replace_shared = (rp_target repair \<noteq> None \<and> s = rp_source repair);
              additional = (if s \<noteq> rp_source repair then Some (rp_source repair) else rp_target repair)
          in (case additional of
                None \<Rightarrow> out
              | Some a \<Rightarrow> if a \<noteq> s then foldl (merge_resource replace_shared) out (serving_resources a)
                          else out))"

definition provisional_lines :: "string list" where
  "provisional_lines =
     [''/var/lib/sbxr/subscription-token root:root 0600 one-link provisional credential'',
      ''/var/lib/sbxr/subscription-staging root:root 0700 provisional material'',
      ''/etc/systemd/system/sbxr-subscription.service root:root 0644 one-link fixed-serving-v1'',
      ''/etc/systemd/system/multi-user.target.wants/sbxr-subscription.service root-owned provisional enablement symlink'',
      ''/etc/letsencrypt/archive/sbxr-subscription owned provisional lineage'',
      ''/etc/letsencrypt/live/sbxr-subscription owned provisional lineage'',
      ''/etc/letsencrypt/renewal/sbxr-subscription.conf owned provisional lineage'',
      ''/etc/systemd/system/snap.certbot.renew.service.d/50-sbxr-recorder.conf root:root 0644 provisional recorder route'',
      ''/etc/letsencrypt/renewal-hooks/deploy/sbxr-subscription root:root 0700 provisional hook'',
      ''/etc/letsencrypt/renewal-hooks/post/sbxr-subscription root:root 0700 provisional hook'',
      ''/var/lib/sbxr/renewal-attempts.json root:root 0600 provisional evidence'']"

definition publication_lines :: "string list" where
  "publication_lines =
     map (\<lambda>path. path @ ''.sbxr-next root-owned synchronized no-replace publication'')
       [''/var/lib/sbxr/subscription-staging/credential'',
        ''/var/lib/sbxr/subscription-staging/serving.json'',
        ''/var/lib/sbxr/subscription-token'',
        ''/var/lib/sbxr/subscription-serving.json'',
        ''/etc/systemd/system/sbxr-subscription.service'',
        ''/etc/systemd/system/sbxr-subscription-firewall.service'',
        ''/etc/systemd/system/snap.certbot.renew.service.d/50-sbxr-recorder.conf'',
        ''/etc/letsencrypt/renewal-hooks/deploy/sbxr-subscription'',
        ''/etc/letsencrypt/renewal-hooks/post/sbxr-subscription'',
        ''/var/lib/sbxr/renewal-admission.lock'',
        ''/var/lib/sbxr/renewal-writer.lock'',
        ''/var/lib/sbxr/renewal-attempts.json'']"

definition enablement_lines :: "wire_enablement \<Rightarrow> string list" where
  "enablement_lines e =
     (case en_serving e of Some v \<Rightarrow> serving_resources v | None \<Rightarrow> provisional_lines)
     @ opt_lines (\<lambda>_. renewal_resources) (en_renewal e)
     @ opt_lines subscription_resource_lines (en_resources e)
     @ (if 8 \<le> en_checkpoint e \<and> en_checkpoint e \<le> 14
        then [''/var/lib/sbxr/subscription-staging/credential root:root 0600 one-link provisional credential'']
        else [])
     @ (if 8 \<le> en_checkpoint e \<and> en_checkpoint e \<le> 15
        then [''/var/lib/sbxr/subscription-staging/serving.json root:root 0600 immutable provisional serving state'']
        else [])
     @ publication_lines"

definition rotation_lines :: "string list" where
  "rotation_lines =
     [''/var/lib/sbxr/subscription-staging/credential root:root 0600 one-link replacement credential'',
      ''/var/lib/sbxr/subscription-staging/serving.json root:root 0600 immutable replacement serving state'']"

definition client_lines :: "wire_client_rotation \<Rightarrow> string list" where
  "client_lines c =
     [''/var/lib/sbxr/client-identity-target.json root:root 0600 one-link sha256:''
        @ cr_target_configuration_sha256 c,
      ''/var/lib/sbxr/client-identity-target.json.sbxr-next root-owned Client Identity target publication'',
      ''/etc/sing-box/.config.json.sbxr-next root:sing-box 0640 one-link sha256:''
        @ cr_target_configuration_sha256 c,
      ''/etc/systemd/system/sing-box.service.d/sbxr-client-identity.conf.sbxr-next root-owned Client Identity startup publication'']"

definition client_subscription_lines :: "wire_client_subscription \<Rightarrow> string list" where
  "client_subscription_lines s =
     [''/var/lib/sbxr/subscription-staging/client-artifact root:root 0600 one-link sha256:''
        @ cs_target_artifact_sha256 s,
      ''/var/lib/sbxr/subscription-staging/serving.json root:root 0600 immutable Client Identity serving state'',
      ''/var/lib/sbxr/subscription-staging/client-artifact.sbxr-next root-owned Client Identity artifact publication'',
      ''/var/lib/sbxr/subscription-staging/serving.json.sbxr-next root-owned Client Identity state publication'',
      ''/etc/systemd/system/sbxr-subscription.service.sbxr-next root-owned Client Identity serving startup publication'',
      ''/etc/systemd/system/sbxr-subscription.service.sbxr-next.sbxr-next root-owned Client Identity serving startup publication'']"

definition client_rotation_part :: "wire_client_rotation \<Rightarrow> string list \<Rightarrow> string list" where
  "client_rotation_part c out =
     (let out' = out @ client_lines c in
      case cr_subscription c of
        None \<Rightarrow> out'
      | Some s \<Rightarrow>
          foldl add_new_path out' (serving_resources (cs_source s) @ serving_resources (cs_target s))
          @ client_subscription_lines s)"

definition https_only :: "string \<Rightarrow> bool" where
  "https_only v =
     (str_contains ''letsencrypt'' v \<or> str_contains ''certbot'' v \<or> str_contains ''renewal-'' v)"

text \<open>The list before the enablement part and after it, in the order in which the source extends it.\<close>

definition resources_head :: "lib \<Rightarrow> wire_ownership \<Rightarrow> string list" where
  "resources_head L r =
     (let out = (if proxy_package_identity r = [] then lifecycle_resources else base_resources r);
          out = (if schema r = 2 then out[0 := ownership_line 2] else out)
      in out @ opt_lines (\<lambda>_. tunnel_resources L) (tunnel r)
             @ opt_lines serving_resources (serving r)
             @ opt_lines (\<lambda>_. renewal_resources) (renewal r)
             @ opt_lines subscription_resource_lines (subscription_resources r)
             @ opt_lines (\<lambda>v. retirement_resources v
                 @ (if subscription_transport_migration r then migration_lines else []))
                 (https_retirement r))"

definition repair_part :: "wire_ownership \<Rightarrow> string list \<Rightarrow> string list" where
  "repair_part r out =
     (case subscription_repair r of None \<Rightarrow> out | Some repair \<Rightarrow> repair_lines r repair out)"

definition resources :: "lib \<Rightarrow> wire_ownership \<Rightarrow> string list" where
  "resources L r =
     (let out = repair_part r (resources_head L r)
                    @ opt_lines enablement_lines (subscription_enablement r)
                    @ (if subscription_rotation r \<noteq> None then rotation_lines else [])
                    @ opt_lines startup_resources (proxy_startup r);
          out = (case client_identity_rotation r of
                   None \<Rightarrow> out | Some c \<Rightarrow> client_rotation_part c out)
      in if is_some_and (\<lambda>e. is_some_and sr_http (en_resources e)) (subscription_enablement r)
         then filter (\<lambda>v. \<not> https_only v) out else out)"

definition creator_identity :: "string \<Rightarrow> string" where
  "creator_identity v =
     (if starts_with ''/var/lib/sbxr/renewal-attempts.json '' v
      then ''/var/lib/sbxr/renewal-attempts.json''
      else if starts_with ''/etc/sing-box/config.json '' v then ''/etc/sing-box/config.json''
      else str_replace ''schema-2'' ''schema'' (str_replace ''schema-1'' ''schema'' v))"

end
