(* ===== verification/Validation.thy ===== *)
theory Validation
  imports Ownership
begin

text \<open>
  \<open>src/records/validation.rs\<close>: the validator of the Ownership Record, one guard definition per
  rejecting block of the source, in the source's order, and what a valid record guarantees.
\<close>

section \<open>Guards\<close>

definition is_Some :: "'a option \<Rightarrow> bool" where
  "is_Some x = (x \<noteq> None)"

lemma is_Some_simps [simp]: "is_Some (Some x)" "\<not> is_Some None"
  by (simp_all add: is_Some_def)

definition guard_identity :: "wire_ownership \<Rightarrow> bool" where
  "guard_identity r = ((schema r = 1 \<or> schema r = 2) \<and> valid_release (release_identity r))"

text \<open>A schema-1 record has none of the fields that schema 2 added.\<close>

definition guard_schema1 :: "wire_ownership \<Rightarrow> bool" where
  "guard_schema1 r =
     (\<not> (is_Some (resource_creating_releases r) \<or> is_Some (finishing_release_identity r)
         \<or> is_Some (serving r) \<or> is_Some (renewal r) \<or> is_Some (certificate_activation r)
         \<or> is_Some (subscription_enablement r) \<or> is_Some (subscription_rotation r)
         \<or> is_Some (subscription_repair r) \<or> is_Some (subscription_resources r)
         \<or> is_Some (proxy_startup r) \<or> is_Some (client_identity_rotation r)
         \<or> is_Some (https_retirement r) \<or> subscription_transport_migration r))"

definition guard_schema2 :: "wire_ownership \<Rightarrow> bool" where
  "guard_schema2 r =
     (is_some_and (\<lambda>v. length v = length (permitted_resources r) \<and> list_all valid_release v)
        (resource_creating_releases r)
      \<and> (if unfinished_direction r = Removal
         then is_some_and valid_release (finishing_release_identity r)
         else \<not> (phase r \<noteq> Running \<or> unfinished_direction r \<noteq> Idle
                 \<or> is_Some (finishing_release_identity r))))"

definition guard_schema :: "wire_ownership \<Rightarrow> bool" where
  "guard_schema r = (if schema r = 1 then guard_schema1 r else guard_schema2 r)"

definition operation_context :: "wire_ownership \<Rightarrow> bool" where
  "operation_context r =
     (phase r = Running \<and> unfinished_direction r = Idle
      \<or> phase r = RemovalCommitted \<and> unfinished_direction r = Removal)"

definition guard_retirement :: "wire_ownership \<Rightarrow> bool" where
  "guard_retirement r =
     (\<not> is_some_and (\<lambda>v. schema r \<noteq> 2 \<or> \<not> valid_retirement v
          \<or> rn_public_ipv4 (rt_renewal v) \<noteq> public_ipv4_of r
          \<or> \<not> is_some_and sv_http (serving r) \<or> is_Some (renewal r)) (https_retirement r))"

definition guard_migration :: "wire_ownership \<Rightarrow> bool" where
  "guard_migration r =
     (\<not> (subscription_transport_migration r
         \<and> (\<not> is_some_and (\<lambda>v. is_some_and (\<lambda>s. sv_link_id s = sv_link_id (rt_serving v)
                \<and> sv_credential_sha256 s = sv_credential_sha256 (rt_serving v)) (serving r))
                (https_retirement r)
            \<or> phase r \<noteq> Running \<or> unfinished_direction r \<noteq> Idle
            \<or> is_Some (subscription_enablement r) \<or> is_Some (subscription_rotation r)
            \<or> is_Some (subscription_repair r) \<or> is_Some (client_identity_rotation r)
            \<or> is_Some (certificate_activation r))))"

definition guard_serving :: "wire_ownership \<Rightarrow> bool" where
  "guard_serving r =
     is_none_or (\<lambda>s.
        \<not> (\<not> valid_serving s \<or> proxy_package_identity r = []
           \<or> \<not> (phase r = Running \<or> phase r = RemovalCommitted))
        \<and> \<not> (sv_http s
             \<and> (is_Some (renewal r) \<or> \<not> is_some_and sr_http (subscription_resources r)
                \<or> is_Some (certificate_activation r)
                \<or> is_some_and (\<lambda>v. rp_correction v \<noteq> RESTART) (subscription_repair r))))
       (serving r)"

definition guard_renewal :: "wire_ownership \<Rightarrow> bool" where
  "guard_renewal r =
     (\<not> is_some_and (\<lambda>v. is_none_or sv_http (serving r) \<or> \<not> valid_renewal v
          \<or> rn_public_ipv4 v \<noteq> public_ipv4_of r
          \<or> \<not> (phase r = Running \<or> phase r = RemovalCommitted)) (renewal r))"

definition guard_activation :: "wire_ownership \<Rightarrow> bool" where
  "guard_activation r =
     is_none_or (\<lambda>v. \<not> (schema r \<noteq> 2 \<or> renewal r = None \<or> \<not> operation_context r
          \<or> \<not> valid_activation v
          \<or> \<not> is_some_and (\<lambda>s. if ac_checkpoint v = ''target recorded'' then s = ac_source v
                                else s = ac_target v) (serving r)))
       (certificate_activation r)"

definition guard_enablement :: "wire_ownership \<Rightarrow> bool" where
  "guard_enablement r =
     is_none_or (\<lambda>v. \<not> (schema r \<noteq> 2 \<or> is_Some (serving r) \<or> is_Some (renewal r)
          \<or> is_Some (certificate_activation r) \<or> \<not> operation_context r \<or> \<not> valid_enablement v))
       (subscription_enablement r)"

definition guard_rotation :: "wire_ownership \<Rightarrow> bool" where
  "guard_rotation r =
     is_none_or (\<lambda>v. \<not> (schema r \<noteq> 2 \<or> is_Some (subscription_enablement r)
          \<or> is_Some (certificate_activation r) \<or> \<not> operation_context r \<or> \<not> valid_rotation v
          \<or> \<not> is_some_and (\<lambda>s. (sv_http s \<or> is_Some (renewal r))
                \<and> (if ro_checkpoint v = ''committed'' then s = ro_target v else s = ro_source v))
                (serving r)))
       (subscription_rotation r)"

definition guard_repair :: "wire_ownership \<Rightarrow> bool" where
  "guard_repair r =
     is_none_or (\<lambda>v. \<not> (schema r \<noteq> 2 \<or> is_Some (subscription_enablement r)
          \<or> is_Some (subscription_rotation r) \<or> is_Some (certificate_activation r)
          \<or> \<not> operation_context r \<or> \<not> valid_repair v
          \<or> \<not> is_some_and (\<lambda>s. (sv_http s \<or> is_Some (renewal r))
                \<and> (if rp_checkpoint v = ''accepted'' then rp_target v = Some s else s = rp_source v))
                (serving r)))
       (subscription_repair r)"

definition guard_compromised :: "wire_ownership \<Rightarrow> bool" where
  "guard_compromised r =
     (\<not> (subscription_compromised r \<and> (schema r \<noteq> 2 \<or> serving r = None)))"

definition guard_subscription_resources :: "wire_ownership \<Rightarrow> bool" where
  "guard_subscription_resources r =
     (\<not> is_some_and (\<lambda>v. schema r \<noteq> 2 \<or> \<not> valid_subscription_resources v
          \<or> sr_public_ipv4 v \<noteq> public_ipv4_of r
          \<or> \<not> is_some_and (\<lambda>s. (sv_http s \<or> is_Some (renewal r)) \<and> sv_http s = sr_http v) (serving r))
        (subscription_resources r))"

definition guard_startup :: "wire_ownership \<Rightarrow> bool" where
  "guard_startup r =
     (\<not> is_some_and (\<lambda>v. schema r \<noteq> 2 \<or> \<not> valid_startup v
          \<or> \<not> (phase r = Running \<or> phase r = RemovalCommitted)) (proxy_startup r))"

definition guard_lock :: "lib \<Rightarrow> wire_ownership \<Rightarrow> bool" where
  "guard_lock L r =
     (\<not> is_some_and (\<lambda>v. v \<noteq> lock_digest L \<or> proxy_package_identity r = []) (lock_provisioning r))"

definition guard_tunnel :: "wire_ownership \<Rightarrow> bool" where
  "guard_tunnel r =
     (\<not> is_some_and (\<lambda>v. \<not> valid_tunnel v \<or> proxy_package_identity r = [] \<or> lock_provisioning r = None)
        (tunnel r))"

definition guard_client :: "wire_ownership \<Rightarrow> bool" where
  "guard_client r =
     is_none_or (\<lambda>v.
        \<not> (schema r \<noteq> 2 \<or> is_Some (subscription_enablement r) \<or> is_Some (subscription_rotation r)
           \<or> is_Some (subscription_repair r) \<or> is_Some (certificate_activation r)
           \<or> \<not> operation_context r
           \<or> \<not> valid_client_rotation v (proxy_startup r) (configuration_sha256 r)
           \<or> (cr_subscription v = None) \<noteq> (serving r = None))
        \<and> \<not> is_some_and (\<lambda>s. \<not> valid_client_subscription s
             \<or> \<not> sv_http (cs_source s) \<and> renewal r = None
             \<or> \<not> is_some_and (\<lambda>x. x = cs_source s \<or> x = cs_target s) (serving r))
             (cr_subscription v))
       (client_identity_rotation r)"

definition removal_limit :: "wire_ownership \<Rightarrow> u32" where
  "removal_limit r = (if proxy_package_identity r = [] then 3 else 11)"

definition guard_direction :: "wire_ownership \<Rightarrow> bool" where
  "guard_direction r =
     (if unfinished_direction r = Removal
      then \<not> (phase r \<noteq> RemovalCommitted \<or> cleanup_checkpoint r \<noteq> 0
              \<or> removal_checkpoint r > removal_limit r)
      else \<not> (phase r = RemovalCommitted \<or> unfinished_direction r \<noteq> recovery_direction (phase r)
              \<or> cleanup_checkpoint r > 8 \<or> removal_checkpoint r \<noteq> 0
              \<or> unfinished_direction r \<noteq> Cleanup \<and> cleanup_checkpoint r \<noteq> 0))"

text \<open>The last checks: a removal without a proxy has empty proxy facts, anything else the fixed ones.\<close>

definition guard_proxy_facts :: "lib \<Rightarrow> wire_ownership \<Rightarrow> bool" where
  "guard_proxy_facts L r =
     (if unfinished_direction r = Removal \<and> proxy_package_identity r = []
      then public_ipv4_of r = [] \<and> destination_address r = [] \<and> destination_server_name r = []
           \<and> configuration_sha256 r = [] \<and> permitted_resources r = resources L r
      else proxy_package_identity r = PACKAGE_IDENTITY
           \<and> lower_hex (configuration_sha256 r) 64 \<and> public_ipv4 (public_ipv4_of r)
           \<and> destination_address r = ''google.com:443'' \<and> destination_server_name r = ''google.com''
           \<and> permitted_resources r = resources L r)"

definition valid :: "lib \<Rightarrow> wire_ownership \<Rightarrow> bool" where
  "valid L r =
     (guard_identity r \<and> guard_schema r \<and> guard_retirement r \<and> guard_migration r
      \<and> guard_serving r \<and> guard_renewal r \<and> guard_activation r \<and> guard_enablement r
      \<and> guard_rotation r \<and> guard_repair r \<and> guard_compromised r \<and> guard_subscription_resources r
      \<and> guard_startup r \<and> guard_lock L r \<and> guard_tunnel r \<and> guard_client r
      \<and> guard_direction r \<and> guard_proxy_facts L r)"

lemmas all_guards = guard_identity_def guard_schema_def guard_schema1_def guard_schema2_def
  guard_retirement_def guard_migration_def guard_serving_def guard_renewal_def
  guard_activation_def guard_enablement_def guard_rotation_def guard_repair_def
  guard_compromised_def guard_subscription_resources_def guard_startup_def guard_lock_def
  guard_tunnel_def guard_client_def guard_direction_def guard_proxy_facts_def

declare all_guards [guard_defs]

lemma validD:
  assumes "valid L r"
  shows "guard_identity r" "guard_schema r" "guard_retirement r" "guard_migration r"
    "guard_serving r" "guard_renewal r" "guard_activation r" "guard_enablement r"
    "guard_rotation r" "guard_repair r" "guard_compromised r" "guard_subscription_resources r"
    "guard_startup r" "guard_lock L r" "guard_tunnel r" "guard_client r"
    "guard_direction r" "guard_proxy_facts L r"
  using assms by (simp_all add: valid_def)

text \<open>\<open>OwnershipRecord::validated\<close>.\<close>

definition validated :: "lib \<Rightarrow> wire_ownership \<Rightarrow> wire_ownership option" where
  "validated L w = (if \<not> valid L w then None else Some w)"

lemma validated_Some [simp]: "validated L w = Some x \<longleftrightarrow> valid L w \<and> x = w"
  by (auto simp: validated_def)

section \<open>What validity gives\<close>

lemma valid_resources: "valid L r \<Longrightarrow> permitted_resources r = resources L r"
  by (auto simp: valid_def guard_proxy_facts_def split: if_splits)

lemma valid_schema: "valid L r \<Longrightarrow> schema r = 1 \<or> schema r = 2"
  by (simp add: valid_def guard_identity_def)

lemma valid_release_identity: "valid L r \<Longrightarrow> valid_release (release_identity r)"
  by (simp add: valid_def guard_identity_def)

lemma valid_direction_phase:
  "valid L r \<Longrightarrow> unfinished_direction r = recovery_direction (phase r)"
  by (auto simp: valid_def guard_direction_def split: if_splits)

lemma valid_removal_phase:
  "valid L r \<Longrightarrow> unfinished_direction r = Removal \<longleftrightarrow> phase r = RemovalCommitted"
  by (auto simp: valid_def guard_direction_def split: if_splits)

lemma valid_package_nonempty:
  "valid L r \<Longrightarrow> unfinished_direction r \<noteq> Removal \<Longrightarrow> proxy_package_identity r = PACKAGE_IDENTITY"
  by (auto simp: valid_def guard_proxy_facts_def split: if_splits)

text \<open>
  Outside removal, a schema-1 record carries no schema-2 field, and a schema-2 record is a Running
  one.
\<close>

lemma valid_schema1_plain:
  assumes "valid L r" and "schema r = 1"
  shows "resource_creating_releases r = None" "finishing_release_identity r = None"
    "serving r = None" "renewal r = None" "certificate_activation r = None"
    "subscription_enablement r = None" "subscription_rotation r = None"
    "subscription_repair r = None" "subscription_resources r = None" "proxy_startup r = None"
    "client_identity_rotation r = None" "https_retirement r = None"
    "\<not> subscription_transport_migration r" "\<not> subscription_compromised r"
proof -
  from assms have g: "guard_schema1 r" "guard_compromised r"
    by (auto simp: valid_def guard_schema_def)
  show "resource_creating_releases r = None" "finishing_release_identity r = None"
    "serving r = None" "renewal r = None" "certificate_activation r = None"
    "subscription_enablement r = None" "subscription_rotation r = None"
    "subscription_repair r = None" "subscription_resources r = None" "proxy_startup r = None"
    "client_identity_rotation r = None" "https_retirement r = None"
    "\<not> subscription_transport_migration r"
    using g(1) by (simp_all add: guard_schema1_def is_Some_def)
  show "\<not> subscription_compromised r"
    using g(2) assms(2) by (simp add: guard_compromised_def)
qed

lemma valid_schema2_running:
  assumes "valid L r" and "schema r = 2" and "unfinished_direction r \<noteq> Removal"
  shows "phase r = Running" "unfinished_direction r = Idle" "finishing_release_identity r = None"
  using assms by (auto simp: valid_def guard_schema_def guard_schema2_def is_Some_def split: if_splits)

lemma valid_creators:
  assumes "valid L r" and "schema r = 2"
  obtains v where "resource_creating_releases r = Some v" "length v = length (permitted_resources r)"
    "list_all valid_release v"
  using assms by (auto simp: valid_def guard_schema_def guard_schema2_def is_some_and_iff)

text \<open>The panic of \<open>resources\<close> on a repair without a serving authority is out of reach.\<close>

definition resources_panics :: "wire_ownership \<Rightarrow> bool" where
  "resources_panics r = (subscription_repair r \<noteq> None \<and> serving r = None)"

lemma guard_repair_no_panic: "guard_repair r \<Longrightarrow> \<not> resources_panics r"
  by (auto simp: guard_repair_def resources_panics_def is_none_or_iff is_some_and_iff)

end
