(* ===== verification/Codec.thy ===== *)
theory Codec
  imports Validation
begin

text \<open>
  The codec of the Ownership Record: the \<open>serde\<close> attributes of \<open>WireOwnershipRecord\<close>
  (\<open>src/records/ownership.rs\<close>), the shape check \<open>valid_shapes\<close> (\<open>src/records/validation.rs\<close>), and
  \<open>OwnershipRecord::decode\<close> and \<open>encode\<close>.  The lemmas show that a record written as a document, or
  turned into a \<open>serde_json::Value\<close>, decodes to itself.
\<close>

section \<open>Enums and the lock record\<close>

definition ALL_PHASES :: "setup_phase list" where
  "ALL_PHASES = PHASES @ [RemovalCommitted]"

text \<open>\<open>string_enum\<close>: only a string, and only one of the renamed variants.\<close>

definition de_phase :: "json \<Rightarrow> setup_phase option" where
  "de_phase j =
     (case de_str j of None \<Rightarrow> None | Some s \<Rightarrow> find (\<lambda>p. phase_name p = s) ALL_PHASES)"

definition de_direction :: "json \<Rightarrow> recovery_dir option" where
  "de_direction j =
     (case de_str j of None \<Rightarrow> None
      | Some s \<Rightarrow> find (\<lambda>d. direction_name d = s) [Cleanup, FinishSetup, Idle, Removal])"

definition lock_fields :: "string \<Rightarrow> (string \<times> json option) list" where
  "lock_fields digest = [(''unit_sha256'', Some (JStr digest))]"

definition ser_lock :: "string \<Rightarrow> json" where
  "ser_lock digest = mk_obj (lock_fields digest)"

definition de_lock :: "json \<Rightarrow> string option" where
  "de_lock j = do { m \<leftarrow> de_object [''unit_sha256''] j; de_req m ''unit_sha256'' de_str }"

section \<open>The record\<close>

definition ownership_names :: "string list" where
  "ownership_names =
     [''schema'', ''phase'', ''unfinished_direction'', ''release_identity'',
      ''proxy_package_identity'', ''public_ipv4'', ''destination_address'',
      ''destination_server_name'', ''configuration_sha256'', ''permitted_resources'',
      ''cleanup_checkpoint'', ''removal_checkpoint'', ''resource_creating_releases'',
      ''finishing_release_identity'', ''serving'', ''renewal'', ''certificate_activation'',
      ''subscription_enablement'', ''subscription_rotation'', ''subscription_repair'',
      ''subscription_compromised'', ''subscription_resources'', ''proxy_startup'',
      ''lock_provisioning'', ''tunnel'', ''client_identity_rotation'', ''https_retirement'',
      ''subscription_transport_migration'']"

definition ser_releases :: "release_identity list \<Rightarrow> json" where
  "ser_releases rs = JArr (map ser_release rs)"

definition ownership_fields :: "wire_ownership \<Rightarrow> (string \<times> json option) list" where
  "ownership_fields r =
     [(''schema'', Some (ser_u32 (schema r))),
      (''phase'', Some (JStr (phase_name (phase r)))),
      (''unfinished_direction'', Some (JStr (direction_name (unfinished_direction r)))),
      (''release_identity'', Some (ser_release (release_identity r))),
      (''proxy_package_identity'', Some (JStr (proxy_package_identity r))),
      (''public_ipv4'', Some (JStr (public_ipv4_of r))),
      (''destination_address'', Some (JStr (destination_address r))),
      (''destination_server_name'', Some (JStr (destination_server_name r))),
      (''configuration_sha256'', Some (JStr (configuration_sha256 r))),
      (''permitted_resources'', Some (ser_strs (permitted_resources r))),
      (''cleanup_checkpoint'', Some (ser_u32 (cleanup_checkpoint r))),
      (''removal_checkpoint'', Some (ser_u32 (removal_checkpoint r))),
      (''resource_creating_releases'', map_option ser_releases (resource_creating_releases r)),
      (''finishing_release_identity'', map_option ser_release (finishing_release_identity r)),
      (''serving'', map_option ser_serving (serving r)),
      (''renewal'', map_option ser_renewal (renewal r)),
      (''certificate_activation'', map_option ser_activation (certificate_activation r)),
      (''subscription_enablement'', map_option ser_enablement (subscription_enablement r)),
      (''subscription_rotation'', map_option ser_rotation (subscription_rotation r)),
      (''subscription_repair'', map_option ser_repair (subscription_repair r)),
      (''subscription_compromised'', skip_false (subscription_compromised r)),
      (''subscription_resources'', map_option ser_subres (subscription_resources r)),
      (''proxy_startup'', map_option ser_startup (proxy_startup r)),
      (''lock_provisioning'', map_option ser_lock (lock_provisioning r)),
      (''tunnel'', map_option ser_tunnel (tunnel r)),
      (''client_identity_rotation'', map_option ser_client_rotation (client_identity_rotation r)),
      (''https_retirement'', map_option ser_retirement (https_retirement r)),
      (''subscription_transport_migration'', skip_false (subscription_transport_migration r))]"

definition ser_ownership :: "wire_ownership \<Rightarrow> json" where
  "ser_ownership r = mk_obj (ownership_fields r)"

definition de_ownership_members :: "(string \<rightharpoonup> json) \<Rightarrow> wire_ownership option" where
  "de_ownership_members m = do {
     sc \<leftarrow> de_req m ''schema'' de_u32;
     ph \<leftarrow> de_req m ''phase'' de_phase;
     di \<leftarrow> de_req m ''unfinished_direction'' de_direction;
     re \<leftarrow> de_req m ''release_identity'' de_release;
     pk \<leftarrow> de_req m ''proxy_package_identity'' de_str;
     ip \<leftarrow> de_req m ''public_ipv4'' de_str;
     da \<leftarrow> de_req m ''destination_address'' de_str;
     ds \<leftarrow> de_req m ''destination_server_name'' de_str;
     cf \<leftarrow> de_req m ''configuration_sha256'' de_str;
     pr \<leftarrow> de_req m ''permitted_resources'' (de_list de_str);
     cc \<leftarrow> de_req m ''cleanup_checkpoint'' de_u32;
     rc \<leftarrow> de_req m ''removal_checkpoint'' de_u32;
     cr \<leftarrow> de_opt m ''resource_creating_releases'' (de_list de_release);
     fi \<leftarrow> de_opt m ''finishing_release_identity'' de_release;
     sv \<leftarrow> de_opt m ''serving'' de_serving;
     rn \<leftarrow> de_opt m ''renewal'' de_renewal;
     ca \<leftarrow> de_opt m ''certificate_activation'' de_activation;
     en \<leftarrow> de_opt m ''subscription_enablement'' de_enablement;
     ro \<leftarrow> de_opt m ''subscription_rotation'' de_rotation;
     rp \<leftarrow> de_opt m ''subscription_repair'' de_repair;
     co \<leftarrow> de_default m ''subscription_compromised'' False de_bool;
     sr \<leftarrow> de_opt m ''subscription_resources'' de_subres;
     st \<leftarrow> de_opt m ''proxy_startup'' de_startup;
     lo \<leftarrow> de_opt m ''lock_provisioning'' de_lock;
     tu \<leftarrow> de_opt m ''tunnel'' de_tunnel;
     ci \<leftarrow> de_opt m ''client_identity_rotation'' de_client_rotation;
     ht \<leftarrow> de_opt m ''https_retirement'' de_retirement;
     tm \<leftarrow> de_default m ''subscription_transport_migration'' False true_only;
     Some \<lparr>schema = sc, phase = ph, unfinished_direction = di, release_identity = re,
       proxy_package_identity = pk, public_ipv4_of = ip, destination_address = da,
       destination_server_name = ds, configuration_sha256 = cf, permitted_resources = pr,
       cleanup_checkpoint = cc, removal_checkpoint = rc, resource_creating_releases = cr,
       finishing_release_identity = fi, serving = sv, renewal = rn, certificate_activation = ca,
       subscription_enablement = en, subscription_rotation = ro, subscription_repair = rp,
       subscription_compromised = co, subscription_resources = sr, proxy_startup = st,
       lock_provisioning = lo, tunnel = tu, client_identity_rotation = ci, https_retirement = ht,
       subscription_transport_migration = tm\<rparr>
   }"

definition de_ownership :: "json \<Rightarrow> wire_ownership option" where
  "de_ownership j = Option.bind (de_object ownership_names j) de_ownership_members"

text \<open>\<open>valid_shapes\<close>, on the document read as a \<open>Value\<close>.\<close>

definition not_true :: "string \<Rightarrow> json \<Rightarrow> bool" where
  "not_true flag j = is_some_and (\<lambda>v. v \<noteq> JBool True) (jget flag j)"

definition shapes :: "json \<Rightarrow> bool" where
  "shapes v =
     (\<not> is_some_and (not_true ''http'') (jget ''serving'' v)
      \<and> \<not> is_some_and (\<lambda>res. not_true ''http'' res \<or> not_true ''recorder_directory_created'' res)
            (jget ''subscription_resources'' v)
      \<and> \<not> is_some_and (\<lambda>t. is_Some (jget ''http'' (jindex ''serving'' t))
              \<or> is_Some (jget ''http'' (jindex ''resources'' t))
              \<or> not_true ''recorder_directory_created'' (jindex ''resources'' t))
            (jget ''https_retirement'' v)
      \<and> \<not> is_some_and (\<lambda>p. jget ''effects'' p = None \<or> jget ''completed_effects'' p = None)
            (jget ''subscription_repair'' v))"

definition valid_shapes :: "lib \<Rightarrow> bytes \<Rightarrow> bool" where
  "valid_shapes L bs = (case from_slice L bs of None \<Rightarrow> False | Some j \<Rightarrow> shapes (value_of j))"

definition decode_record :: "lib \<Rightarrow> bytes \<Rightarrow> wire_ownership option" where
  "decode_record L bs =
     (case decode L de_ownership bs of
        None \<Rightarrow> None
      | Some w \<Rightarrow> if \<not> valid_shapes L bs then None else validated L w)"

definition encode_record :: "lib \<Rightarrow> wire_ownership \<Rightarrow> bytes option" where
  "encode_record L r = encode L (ser_ownership r)"

section \<open>Decoding what was encoded\<close>

lemma de_phase_name [simp, serde_simps]: "de_phase (JStr (phase_name p)) = Some p"
  by (cases p) (simp_all add: de_phase_def ALL_PHASES_def PHASES_def)

lemma de_direction_name [simp, serde_simps]: "de_direction (JStr (direction_name d)) = Some d"
  by (cases d) (simp_all add: de_direction_def)

lemma de_ser_lock [simp, serde_simps]:
  "de_lock (ser_lock d) = Some d" "de_lock (value_of (ser_lock d)) = Some d"
proof -
  have wf: "distinct (map fst (lock_fields d))" "fst ` set (lock_fields d) \<subseteq> set [''unit_sha256'']"
    by (simp_all add: lock_fields_def)
  show "de_lock (ser_lock d) = Some d" "de_lock (value_of (ser_lock d)) = Some d"
    by (simp_all only: de_lock_def ser_lock_def de_object_mk_obj [OF wf] de_object_value_of [OF wf])
      (simp_all add: lock_fields_def serde_simps de_req_def)
qed

lemma de_ser_releases [simp, serde_simps]:
  "de_list de_release (ser_releases rs) = Some rs"
  "de_list de_release (value_of (ser_releases rs)) = Some rs"
  unfolding ser_releases_def by (rule de_list_releases)+

lemma ownership_names_eq: "map fst (ownership_fields r) = ownership_names"
  by (simp add: ownership_fields_def ownership_names_def)

lemma ownership_names_distinct: "distinct ownership_names"
  by (simp add: ownership_names_def)

lemma ownership_fields_wf:
  "distinct (map fst (ownership_fields r))" "fst ` set (ownership_fields r) \<subseteq> set ownership_names"
  using ownership_names_eq [of r] ownership_names_distinct
  by (simp, metis image_set order_refl)

text \<open>
  The members of a record as a map of optional documents, with \<open>f\<close> the view through which they are
  read: the identity for a document, \<open>value_of\<close> for a \<open>Value\<close>.
\<close>

definition reads_record :: "(string \<rightharpoonup> json) \<Rightarrow> (json \<Rightarrow> json) \<Rightarrow> wire_ownership \<Rightarrow> bool" where
  "reads_record m f r = (\<forall>(k, v) \<in> set (ownership_fields r). m k = map_option f v)"

lemma de_req_ser: "m k = Some v \<Longrightarrow> de v = Some x \<Longrightarrow> de_req m k de = Some x"
  by (simp add: de_req_def)

lemma de_default_skip:
  assumes "m k = map_option f (skip_false b)" and "f (JBool True) = JBool True"
    and "de (JBool True) = Some True"
  shows "de_default m k False de = Some b"
  using assms by (cases b) (simp_all add: de_default_def skip_false_def)

lemma reads_record_conj:
  assumes "reads_record m f r"
  shows "m ''schema'' = Some (f (ser_u32 (schema r))) \<and>
     m ''phase'' = Some (f (JStr (phase_name (phase r)))) \<and>
     m ''unfinished_direction'' = Some (f (JStr (direction_name (unfinished_direction r)))) \<and>
     m ''release_identity'' = Some (f (ser_release (release_identity r))) \<and>
     m ''proxy_package_identity'' = Some (f (JStr (proxy_package_identity r))) \<and>
     m ''public_ipv4'' = Some (f (JStr (public_ipv4_of r))) \<and>
     m ''destination_address'' = Some (f (JStr (destination_address r))) \<and>
     m ''destination_server_name'' = Some (f (JStr (destination_server_name r))) \<and>
     m ''configuration_sha256'' = Some (f (JStr (configuration_sha256 r))) \<and>
     m ''permitted_resources'' = Some (f (ser_strs (permitted_resources r))) \<and>
     m ''cleanup_checkpoint'' = Some (f (ser_u32 (cleanup_checkpoint r))) \<and>
     m ''removal_checkpoint'' = Some (f (ser_u32 (removal_checkpoint r))) \<and>
     m ''resource_creating_releases'' = map_option (f \<circ> ser_releases) (resource_creating_releases r) \<and>
     m ''finishing_release_identity'' = map_option (f \<circ> ser_release) (finishing_release_identity r) \<and>
     m ''serving'' = map_option (f \<circ> ser_serving) (serving r) \<and>
     m ''renewal'' = map_option (f \<circ> ser_renewal) (renewal r) \<and>
     m ''certificate_activation'' = map_option (f \<circ> ser_activation) (certificate_activation r) \<and>
     m ''subscription_enablement'' = map_option (f \<circ> ser_enablement) (subscription_enablement r) \<and>
     m ''subscription_rotation'' = map_option (f \<circ> ser_rotation) (subscription_rotation r) \<and>
     m ''subscription_repair'' = map_option (f \<circ> ser_repair) (subscription_repair r) \<and>
     m ''subscription_compromised'' = map_option f (skip_false (subscription_compromised r)) \<and>
     m ''subscription_resources'' = map_option (f \<circ> ser_subres) (subscription_resources r) \<and>
     m ''proxy_startup'' = map_option (f \<circ> ser_startup) (proxy_startup r) \<and>
     m ''lock_provisioning'' = map_option (f \<circ> ser_lock) (lock_provisioning r) \<and>
     m ''tunnel'' = map_option (f \<circ> ser_tunnel) (tunnel r) \<and>
     m ''client_identity_rotation'' = map_option (f \<circ> ser_client_rotation) (client_identity_rotation r) \<and>
     m ''https_retirement'' = map_option (f \<circ> ser_retirement) (https_retirement r) \<and>
     m ''subscription_transport_migration'' =
       map_option f (skip_false (subscription_transport_migration r))"
  using assms unfolding reads_record_def ownership_fields_def
  by (simp only: list.set ball_simps prod.case option.map option.map_comp simp_thms)

lemma reads_record_fields:
  assumes "reads_record m f r"
  shows "m ''schema'' = Some (f (ser_u32 (schema r)))"
    "m ''phase'' = Some (f (JStr (phase_name (phase r))))"
    "m ''unfinished_direction'' = Some (f (JStr (direction_name (unfinished_direction r))))"
    "m ''release_identity'' = Some (f (ser_release (release_identity r)))"
    "m ''proxy_package_identity'' = Some (f (JStr (proxy_package_identity r)))"
    "m ''public_ipv4'' = Some (f (JStr (public_ipv4_of r)))"
    "m ''destination_address'' = Some (f (JStr (destination_address r)))"
    "m ''destination_server_name'' = Some (f (JStr (destination_server_name r)))"
    "m ''configuration_sha256'' = Some (f (JStr (configuration_sha256 r)))"
    "m ''permitted_resources'' = Some (f (ser_strs (permitted_resources r)))"
    "m ''cleanup_checkpoint'' = Some (f (ser_u32 (cleanup_checkpoint r)))"
    "m ''removal_checkpoint'' = Some (f (ser_u32 (removal_checkpoint r)))"
    "m ''resource_creating_releases'' = map_option (f \<circ> ser_releases) (resource_creating_releases r)"
    "m ''finishing_release_identity'' = map_option (f \<circ> ser_release) (finishing_release_identity r)"
    "m ''serving'' = map_option (f \<circ> ser_serving) (serving r)"
    "m ''renewal'' = map_option (f \<circ> ser_renewal) (renewal r)"
    "m ''certificate_activation'' = map_option (f \<circ> ser_activation) (certificate_activation r)"
    "m ''subscription_enablement'' = map_option (f \<circ> ser_enablement) (subscription_enablement r)"
    "m ''subscription_rotation'' = map_option (f \<circ> ser_rotation) (subscription_rotation r)"
    "m ''subscription_repair'' = map_option (f \<circ> ser_repair) (subscription_repair r)"
    "m ''subscription_compromised'' = map_option f (skip_false (subscription_compromised r))"
    "m ''subscription_resources'' = map_option (f \<circ> ser_subres) (subscription_resources r)"
    "m ''proxy_startup'' = map_option (f \<circ> ser_startup) (proxy_startup r)"
    "m ''lock_provisioning'' = map_option (f \<circ> ser_lock) (lock_provisioning r)"
    "m ''tunnel'' = map_option (f \<circ> ser_tunnel) (tunnel r)"
    "m ''client_identity_rotation'' = map_option (f \<circ> ser_client_rotation) (client_identity_rotation r)"
    "m ''https_retirement'' = map_option (f \<circ> ser_retirement) (https_retirement r)"
    "m ''subscription_transport_migration'' =
       map_option f (skip_false (subscription_transport_migration r))"
  using reads_record_conj [OF assms] by - (elim conjE, assumption)+

definition view_ok :: "(json \<Rightarrow> json) \<Rightarrow> bool" where
  "view_ok f = (f = id \<or> f = value_of)"

lemma view_ok_de:
  assumes "view_ok f"
  shows "f (JStr s) = JStr s" "f (JBool b) = JBool b" "f (ser_u32 n) = ser_u32 n"
    "f (ser_strs xs) = ser_strs xs"
    "de_release (f (ser_release a)) = Some a" "de_list de_release (f (ser_releases as)) = Some as"
    "de_serving (f (ser_serving c)) = Some c" "de_renewal (f (ser_renewal d)) = Some d"
    "de_activation (f (ser_activation e)) = Some e" "de_enablement (f (ser_enablement g)) = Some g"
    "de_rotation (f (ser_rotation h)) = Some h" "de_repair (f (ser_repair i)) = Some i"
    "de_subres (f (ser_subres j)) = Some j" "de_startup (f (ser_startup k)) = Some k"
    "de_lock (f (ser_lock l)) = Some l" "de_tunnel (f (ser_tunnel o')) = Some o'"
    "de_client_rotation (f (ser_client_rotation p)) = Some p"
    "de_retirement (f (ser_retirement q)) = Some q"
  using assms unfolding view_ok_def by (elim disjE; simp)+

lemma de_opt_reads: "m k = map_option (f \<circ> s) x \<Longrightarrow> (\<And>y. de (f (s y)) = Some y) \<Longrightarrow>
    de_opt m k de = Some x"
  by (cases x) (simp_all add: de_opt_def)

lemma de_ownership_members_reads:
  assumes "reads_record m f r" and "view_ok f"
  shows "de_ownership_members m = Some r"
proof -
  note R = reads_record_fields [OF assms(1)] and V = view_ok_de [OF assms(2)]
  have "de_default m ''subscription_compromised'' False de_bool = Some (subscription_compromised r)"
    and "de_default m ''subscription_transport_migration'' False true_only
       = Some (subscription_transport_migration r)"
    by (rule de_default_skip, rule R, simp add: V, simp)+
  moreover have
    "de_req m ''schema'' de_u32 = Some (schema r)"
    "de_req m ''phase'' de_phase = Some (phase r)"
    "de_req m ''unfinished_direction'' de_direction = Some (unfinished_direction r)"
    "de_req m ''release_identity'' de_release = Some (release_identity r)"
    "de_req m ''proxy_package_identity'' de_str = Some (proxy_package_identity r)"
    "de_req m ''public_ipv4'' de_str = Some (public_ipv4_of r)"
    "de_req m ''destination_address'' de_str = Some (destination_address r)"
    "de_req m ''destination_server_name'' de_str = Some (destination_server_name r)"
    "de_req m ''configuration_sha256'' de_str = Some (configuration_sha256 r)"
    "de_req m ''permitted_resources'' (de_list de_str) = Some (permitted_resources r)"
    "de_req m ''cleanup_checkpoint'' de_u32 = Some (cleanup_checkpoint r)"
    "de_req m ''removal_checkpoint'' de_u32 = Some (removal_checkpoint r)"
    by (rule de_req_ser, rule R, simp add: V)+
  moreover have
    "de_opt m ''resource_creating_releases'' (de_list de_release) = Some (resource_creating_releases r)"
    "de_opt m ''finishing_release_identity'' de_release = Some (finishing_release_identity r)"
    "de_opt m ''serving'' de_serving = Some (serving r)"
    "de_opt m ''renewal'' de_renewal = Some (renewal r)"
    "de_opt m ''certificate_activation'' de_activation = Some (certificate_activation r)"
    "de_opt m ''subscription_enablement'' de_enablement = Some (subscription_enablement r)"
    "de_opt m ''subscription_rotation'' de_rotation = Some (subscription_rotation r)"
    "de_opt m ''subscription_repair'' de_repair = Some (subscription_repair r)"
    "de_opt m ''subscription_resources'' de_subres = Some (subscription_resources r)"
    "de_opt m ''proxy_startup'' de_startup = Some (proxy_startup r)"
    "de_opt m ''lock_provisioning'' de_lock = Some (lock_provisioning r)"
    "de_opt m ''tunnel'' de_tunnel = Some (tunnel r)"
    "de_opt m ''client_identity_rotation'' de_client_rotation = Some (client_identity_rotation r)"
    "de_opt m ''https_retirement'' de_retirement = Some (https_retirement r)"
    by (rule de_opt_reads, rule R, rule V)+
  ultimately show ?thesis
    by (simp add: de_ownership_members_def)
qed

lemma reads_field_of: "reads_record (field_of (ownership_fields r)) id r"
  using ownership_fields_wf(1) [of r]
  by (auto simp: reads_record_def field_of_def option.map_id map_of_eq_Some_iff
      simp del: map_of_eq_Some_iff dest!: map_of_is_SomeI)

lemma reads_vfield_of: "reads_record (vfield_of (ownership_fields r)) value_of r"
  using reads_field_of [of r] by (auto simp: reads_record_def vfield_of_def option.map_id)

lemma de_ser_ownership: "de_ownership (ser_ownership r) = Some r"
  by (simp add: de_ownership_def ser_ownership_def de_object_mk_obj ownership_fields_wf
      de_ownership_members_reads [OF reads_field_of] view_ok_def)

text \<open>Reading a member of a struct's \<open>Value\<close>.\<close>

lemma jget_value_of: "distinct (map fst fs) \<Longrightarrow> jget k (value_of (mk_obj fs)) = vfield_of fs k"
  by (rule value_of_mk_obj [of fs]) (simp_all add: jget_def)

lemma jget_ownership:
  "jget ''serving'' (value_of (ser_ownership r)) = map_option (value_of \<circ> ser_serving) (serving r)"
  "jget ''renewal'' (value_of (ser_ownership r)) = map_option (value_of \<circ> ser_renewal) (renewal r)"
  "jget ''tunnel'' (value_of (ser_ownership r)) = map_option (value_of \<circ> ser_tunnel) (tunnel r)"
  "jget ''proxy_startup'' (value_of (ser_ownership r)) = map_option (value_of \<circ> ser_startup) (proxy_startup r)"
  "jget ''subscription_enablement'' (value_of (ser_ownership r))
     = map_option (value_of \<circ> ser_enablement) (subscription_enablement r)"
  "jget ''subscription_rotation'' (value_of (ser_ownership r))
     = map_option (value_of \<circ> ser_rotation) (subscription_rotation r)"
  "jget ''subscription_repair'' (value_of (ser_ownership r))
     = map_option (value_of \<circ> ser_repair) (subscription_repair r)"
  "jget ''client_identity_rotation'' (value_of (ser_ownership r))
     = map_option (value_of \<circ> ser_client_rotation) (client_identity_rotation r)"
  "jget ''subscription_resources'' (value_of (ser_ownership r))
     = map_option (value_of \<circ> ser_subres) (subscription_resources r)"
  "jget ''https_retirement'' (value_of (ser_ownership r))
     = map_option (value_of \<circ> ser_retirement) (https_retirement r)"
  "jget ''subscription_transport_migration'' (value_of (ser_ownership r))
     = map_option value_of (skip_false (subscription_transport_migration r))"
  "jget ''removal_checkpoint'' (value_of (ser_ownership r)) = Some (ser_u32 (removal_checkpoint r))"
  "jget ''proxy_package_identity'' (value_of (ser_ownership r)) = Some (JStr (proxy_package_identity r))"
  "jget ''permitted_resources'' (value_of (ser_ownership r)) = Some (ser_strs (permitted_resources r))"
  "jget ''finishing_release_identity'' (value_of (ser_ownership r))
     = map_option (value_of \<circ> ser_release) (finishing_release_identity r)"
  unfolding ser_ownership_def jget_value_of [OF ownership_fields_wf(1)]
  by (simp_all add: reads_record_fields [OF reads_vfield_of])

lemma jget_flags:
  "jget ''http'' (value_of (ser_serving s)) = map_option value_of (skip_false (sv_http s))"
  "jget ''http'' (value_of (ser_subres u)) = map_option value_of (skip_false (sr_http u))"
  "jget ''recorder_directory_created'' (value_of (ser_subres u))
     = map_option value_of (skip_false (sr_recorder_directory_created u))"
  by (simp_all add: ser_serving_def ser_subres_def jget_value_of serving_fields_wf subres_fields_wf)
    (simp_all add: serving_fields_def subres_fields_def serde_simps)

lemma jget_nested:
  "jget ''serving'' (value_of (ser_retirement t)) = Some (value_of (ser_serving (rt_serving t)))"
  "jget ''resources'' (value_of (ser_retirement t)) = Some (value_of (ser_subres (rt_resources t)))"
  "jget ''effects'' (value_of (ser_repair p)) = Some (ser_strs (rp_effects p))"
  "jget ''completed_effects'' (value_of (ser_repair p))
     = Some (ser_nullable_strs (rp_completed_effects p))"
  "jget ''target'' (value_of (ser_repair p)) = map_option (value_of \<circ> ser_serving) (rp_target p)"
  "jget ''subscription'' (value_of (ser_client_rotation c))
     = map_option (value_of \<circ> ser_client_subscription) (cr_subscription c)"
  by (simp_all add: ser_retirement_def ser_repair_def
      ser_client_rotation_def jget_value_of retirement_fields_wf operation_fields_wf)
    (simp_all add: retirement_fields_def repair_fields_def
      client_rotation_fields_def serde_simps option.map_comp)

lemma not_true_skip_false:
  "jget k j = map_option value_of (skip_false b) \<Longrightarrow> \<not> not_true k j"
  by (cases b) (simp_all add: not_true_def skip_false_def)

text \<open>
  A record that passes the retirement guard also passes the shape check when it is written out:
  flags appear only when they are true, and repairs always carry both effect lists.
\<close>

lemma shapes_ser:
  assumes "guard_retirement r"
  shows "shapes (value_of (ser_ownership r))"
proof -
  have flags: "\<not> not_true ''http'' (value_of (ser_serving s))"
    "\<not> not_true ''http'' (value_of (ser_subres u))"
    "\<not> not_true ''recorder_directory_created'' (value_of (ser_subres u))" for s u
    by (rule not_true_skip_false, rule jget_flags)+
  have "\<not> sv_http (rt_serving t)" "\<not> sr_http (rt_resources t)"
    if "https_retirement r = Some t" for t
    using assms that by (auto simp: guard_retirement_def valid_retirement_def)
  then have "\<not> is_some_and (\<lambda>t. is_Some (jget ''http'' (jindex ''serving'' t))
              \<or> is_Some (jget ''http'' (jindex ''resources'' t))
              \<or> not_true ''recorder_directory_created'' (jindex ''resources'' t))
            (jget ''https_retirement'' (value_of (ser_ownership r)))"
    by (cases "https_retirement r")
      (simp_all add: jget_ownership jindex_def jget_nested jget_flags flags skip_false_def)
  moreover have "\<not> is_some_and (not_true ''http'') (jget ''serving'' (value_of (ser_ownership r)))"
    by (cases "serving r") (simp_all add: jget_ownership flags)
  moreover have "\<not> is_some_and (\<lambda>res. not_true ''http'' res \<or> not_true ''recorder_directory_created'' res)
            (jget ''subscription_resources'' (value_of (ser_ownership r)))"
    by (cases "subscription_resources r") (simp_all add: jget_ownership flags)
  moreover have "\<not> is_some_and (\<lambda>p. jget ''effects'' p = None \<or> jget ''completed_effects'' p = None)
            (jget ''subscription_repair'' (value_of (ser_ownership r)))"
    by (cases "subscription_repair r") (simp_all add: jget_ownership jget_nested)
  ultimately show ?thesis
    by (simp add: shapes_def)
qed

section \<open>Round trip\<close>

context json_text
begin

lemma valid_shapes_encode:
  assumes "guard_retirement r" and "encode_record L r = Some bs"
  shows "valid_shapes L bs"
proof -
  have "from_slice L bs = Some (ser_ownership r)"
    using assms(2) by (auto simp: encode_record_def encode_def Let_def from_to_newline
        split: if_splits)
  then show ?thesis
    using shapes_ser [OF assms(1)] by (simp add: valid_shapes_def)
qed

lemma decode_encode_record:
  assumes "valid L r" and "encode_record L r = Some bs"
  shows "decode_record L bs = Some r"
  using assms valid_shapes_encode [OF validD(3) [OF assms(1)] assms(2)]
    decode_encode [of "ser_ownership r" bs de_ownership]
  by (simp add: decode_record_def encode_record_def de_ser_ownership validated_def)

lemma encode_record_inj:
  assumes "encode_record L r = Some bs" and "encode_record L s = Some bs"
  shows "r = s"
proof -
  have "ser_ownership r = ser_ownership s"
    by (rule encode_inj [OF assms [unfolded encode_record_def]])
  then have "de_ownership (ser_ownership r) = de_ownership (ser_ownership s)"
    by (rule arg_cong)
  then show ?thesis
    unfolding de_ser_ownership by (rule option.inject [THEN iffD1])
qed

end

lemma decode_record_valid: "decode_record L bs = Some r \<Longrightarrow> valid L r"
  by (auto simp: decode_record_def split: option.splits if_splits)

end
