(* ===== verification/Transitions.thy ===== *)
theory Transitions
  imports Codec
begin

text \<open>
  \<open>src/records/transitions.rs\<close>, \<open>src/records/http.rs\<close> and the constructors and checkpoints of
  \<open>src/records/ownership.rs\<close>: the pure transitions of the Ownership Record.  Every transition
  revalidates its result, so each returns an optional record, \<open>None\<close> being \<open>Err(RecordError)\<close>.
\<close>

section \<open>Construction and setup checkpoints\<close>

definition standard_wire :: "lib \<Rightarrow> release_identity \<Rightarrow> string \<Rightarrow> string \<Rightarrow> wire_ownership" where
  "standard_wire L release ipv4 configuration =
     \<lparr>schema = 1, phase = OwnershipRecorded, unfinished_direction = Cleanup,
      release_identity = release, proxy_package_identity = PACKAGE_IDENTITY,
      public_ipv4_of = ipv4, destination_address = ''google.com:443'',
      destination_server_name = ''google.com'', configuration_sha256 = configuration,
      permitted_resources = [], cleanup_checkpoint = 0, removal_checkpoint = 0,
      resource_creating_releases = None, finishing_release_identity = None, serving = None,
      renewal = None, certificate_activation = None, subscription_enablement = None,
      subscription_rotation = None, subscription_repair = None, subscription_compromised = False,
      subscription_resources = None, proxy_startup = None,
      lock_provisioning = Some (lock_digest L), tunnel = None, client_identity_rotation = None,
      https_retirement = None, subscription_transport_migration = False\<rparr>"

definition new_standard :: "lib \<Rightarrow> release_identity \<Rightarrow> string \<Rightarrow> string \<Rightarrow> wire_ownership option" where
  "new_standard L release ipv4 configuration =
     (let wire = standard_wire L release ipv4 configuration
      in validated L (wire\<lparr>permitted_resources := resources L wire\<rparr>))"

definition next_setup_checkpoint :: "lib \<Rightarrow> wire_ownership \<Rightarrow> wire_ownership option" where
  "next_setup_checkpoint L r =
     (if cleanup_checkpoint r \<noteq> 0 then None
      else case next_phase (phase r) of
             None \<Rightarrow> None
           | Some p \<Rightarrow>
               validated L (r\<lparr>phase := p, unfinished_direction := recovery_direction p\<rparr>))"

definition next_cleanup_checkpoint :: "lib \<Rightarrow> wire_ownership \<Rightarrow> wire_ownership option" where
  "next_cleanup_checkpoint L r =
     (if unfinished_direction r \<noteq> Cleanup \<or> cleanup_checkpoint r \<ge> 8 then None
      else validated L (r\<lparr>cleanup_checkpoint := cleanup_checkpoint r + 1\<rparr>))"

section \<open>Pending changes\<close>

datatype change_direction = ChangeCleanup | ChangeForward

datatype pending_kind =
    PEnablement u32
  | PLinkRotation string change_direction
  | PRepair string string change_direction
  | PClientIdentityRotation string change_direction
  | PCertificateActivation string
  | PTransportMigration
  | PRemoval u32

fun pending_direction :: "pending_kind \<Rightarrow> change_direction option" where
  "pending_direction (PEnablement c) = Some ChangeCleanup"
| "pending_direction (PLinkRotation c d) = Some d"
| "pending_direction (PRepair c k d) = Some d"
| "pending_direction (PClientIdentityRotation c d) = Some d"
| "pending_direction (PRemoval c) = Some ChangeForward"
| "pending_direction (PCertificateActivation c) = None"
| "pending_direction PTransportMigration = None"

definition direction_of :: "string \<Rightarrow> change_direction" where
  "direction_of v = (if v = ''forward'' then ChangeForward else ChangeCleanup)"

definition pending_change :: "wire_ownership \<Rightarrow> pending_kind option" where
  "pending_change r =
     (if unfinished_direction r = Removal then Some (PRemoval (removal_checkpoint r))
      else if subscription_transport_migration r then Some PTransportMigration
      else case subscription_enablement r of
        Some v \<Rightarrow> Some (PEnablement (en_checkpoint v))
      | None \<Rightarrow> (case subscription_rotation r of
        Some v \<Rightarrow> Some (PLinkRotation (ro_checkpoint v) (direction_of (ro_direction v)))
      | None \<Rightarrow> (case subscription_repair r of
        Some v \<Rightarrow> Some (PRepair (rp_checkpoint v) (rp_correction v) (direction_of (rp_direction v)))
      | None \<Rightarrow> (case client_identity_rotation r of
        Some v \<Rightarrow> Some (PClientIdentityRotation (cr_checkpoint v) (direction_of (cr_direction v)))
      | None \<Rightarrow> map_option (\<lambda>v. PCertificateActivation (ac_checkpoint v))
                  (certificate_activation r)))))"

text \<open>\<open>ordinary_proxy_start_sha256\<close>: a private start never chooses a pending transition.\<close>

definition ordinary_proxy_start_sha256 :: "wire_ownership \<Rightarrow> string option" where
  "ordinary_proxy_start_sha256 r =
     (if phase r \<noteq> Running \<or> unfinished_direction r \<noteq> Idle \<or> is_Some (pending_change r)
         \<or> subscription_transport_migration r then None
      else map_option su_drop_in_sha256 (proxy_startup r))"

definition new_tunnel_setup ::
  "lib \<Rightarrow> release_identity \<Rightarrow> string \<Rightarrow> string \<Rightarrow> wire_tunnel \<Rightarrow> wire_ownership option" where
  "new_tunnel_setup L release ipv4 configuration t =
     (case new_standard L release ipv4 configuration of
        None \<Rightarrow> None
      | Some record \<Rightarrow>
          let w = record\<lparr>tunnel := Some t\<rparr>
          in validated L (w\<lparr>permitted_resources := resources L w\<rparr>))"

section \<open>Provenance\<close>

definition creator_at :: "wire_ownership \<Rightarrow> nat \<Rightarrow> release_identity" where
  "creator_at r i =
     (case Option.bind (resource_creating_releases r) (\<lambda>v. nth_opt v i) of
        Some c \<Rightarrow> c | None \<Rightarrow> release_identity r)"

definition old_creators :: "wire_ownership \<Rightarrow> (string \<times> release_identity) list" where
  "old_creators r =
     map (\<lambda>(i, res). (creator_identity res, creator_at r i)) (enumerate 0 (permitted_resources r))"

text \<open>Collecting into a \<open>BTreeMap\<close> keeps the last entry of a key.\<close>

definition creator_for :: "wire_ownership \<Rightarrow> string \<Rightarrow> release_identity" where
  "creator_for r res =
     (case map_of (rev (old_creators r)) (creator_identity res) of
        Some c \<Rightarrow> c | None \<Rightarrow> release_identity r)"

definition with_resources :: "lib \<Rightarrow> wire_ownership \<Rightarrow> wire_ownership \<Rightarrow> wire_ownership option" where
  "with_resources L self next =
     (let res = resources L next
      in validated L (next\<lparr>permitted_resources := res,
           resource_creating_releases := Some (map (creator_for self) res)\<rparr>))"

section \<open>HTTP enablement\<close>

definition HTTP_ENABLEMENT_CHECKPOINTS :: "u32 list" where
  "HTTP_ENABLEMENT_CHECKPOINTS = [0, 1, 2, 3, 8, 9, 10, 11, 12, 13, 14, 15, 22, 23]"

definition current_running :: "wire_ownership \<Rightarrow> bool" where
  "current_running r =
     (phase r = Running \<and> unfinished_direction r = Idle \<and> \<not> subscription_transport_migration r
      \<and> finishing_release_identity r = None \<and> client_identity_rotation r = None
      \<and> certificate_activation r = None)"

definition idle_http :: "wire_ownership \<Rightarrow> bool" where
  "idle_http r =
     (current_running r \<and> schema r = 2 \<and> pending_change r = None
      \<and> is_some_and sv_http (serving r))"

definition begin_http_enablement ::
  "lib \<Rightarrow> wire_ownership \<Rightarrow> string \<Rightarrow> string \<Rightarrow> string \<Rightarrow> string \<Rightarrow> wire_ownership option" where
  "begin_http_enablement L r link_id credential recorder_id firewall =
     (if \<not> current_running r \<or> is_Some (pending_change r) \<or> is_Some (serving r)
         \<or> is_Some (renewal r) \<or> is_Some (subscription_resources r) \<or> is_Some (https_retirement r)
      then None
      else do {
        s \<leftarrow> serving_http L link_id credential;
        res \<leftarrow> resources_http (public_ipv4_of r) firewall;
        with_resources L r (r\<lparr>schema := 2, subscription_enablement := Some
          \<lparr>en_checkpoint = 0, en_link_id = sv_link_id s,
           en_credential_sha256 = sv_credential_sha256 s, en_recorder_id = recorder_id,
           en_serving = None, en_renewal = None, en_resources = Some res\<rparr>\<rparr>)
      })"

definition enablement_is_http :: "wire_enablement \<Rightarrow> bool" where
  "enablement_is_http e = is_some_and sr_http (en_resources e)"

definition next_enablement_checkpoint :: "u32 \<Rightarrow> u32 option" where
  "next_enablement_checkpoint c =
     Option.bind (position (\<lambda>cp. cp = c) HTTP_ENABLEMENT_CHECKPOINTS)
       (\<lambda>i. nth_opt HTTP_ENABLEMENT_CHECKPOINTS (i + 1))"

definition advance_http_enablement :: "lib \<Rightarrow> wire_ownership \<Rightarrow> wire_ownership option" where
  "advance_http_enablement L r =
     (if \<not> current_running r then None
      else do {
        e \<leftarrow> subscription_enablement r;
        (if \<not> enablement_is_http e then None
         else do {
           c \<leftarrow> next_enablement_checkpoint (en_checkpoint e);
           e' \<leftarrow> (if c \<ge> 8
                  then do { s \<leftarrow> http_digest (en_link_id e) (en_credential_sha256 e);
                            Some (e\<lparr>en_checkpoint := c, en_serving := Some s\<rparr>) }
                  else Some (e\<lparr>en_checkpoint := c\<rparr>));
           with_resources L r (r\<lparr>subscription_enablement := Some e'\<rparr>)
         })
      })"

definition commit_http_enablement :: "lib \<Rightarrow> wire_ownership \<Rightarrow> wire_ownership option" where
  "commit_http_enablement L r =
     (if \<not> current_running r then None
      else do {
        e \<leftarrow> subscription_enablement r;
        (if en_checkpoint e \<noteq> 23 \<or> \<not> is_some_and sv_http (en_serving e) \<or> \<not> enablement_is_http e
         then None
         else with_resources L r (r\<lparr>serving := en_serving e,
                subscription_resources := en_resources e, subscription_enablement := None\<rparr>))
      })"

definition cleanup_http_enablement :: "lib \<Rightarrow> wire_ownership \<Rightarrow> wire_ownership option" where
  "cleanup_http_enablement L r =
     (if \<not> current_running r \<or> \<not> is_some_and enablement_is_http (subscription_enablement r)
      then None
      else with_resources L r (r\<lparr>subscription_enablement := None\<rparr>))"

section \<open>Link rotation\<close>

definition begin_http_link_rotation ::
  "lib \<Rightarrow> wire_ownership \<Rightarrow> string \<Rightarrow> string \<Rightarrow> string \<Rightarrow> wire_ownership option" where
  "begin_http_link_rotation L r operation_id new_link_id credential =
     (if \<not> idle_http r then None
      else do {
        source \<leftarrow> serving r;
        target \<leftarrow> serving_http L new_link_id credential;
        with_resources L r (r\<lparr>subscription_rotation := Some
          \<lparr>ro_operation_id = operation_id, ro_kind = ''rotate subscription link'',
           ro_direction = ''cleanup'', ro_effects = ROTATION_EFFECTS, ro_completed_effects = None,
           ro_source = source, ro_target = target, ro_checkpoint = ''target authorized''\<rparr>\<rparr>)
      })"

definition advance_http_link_rotation :: "lib \<Rightarrow> wire_ownership \<Rightarrow> wire_ownership option" where
  "advance_http_link_rotation L r =
     (if \<not> current_running r then None
      else do {
        old \<leftarrow> subscription_rotation r;
        (if \<not> sv_http (ro_source old) then None
         else if ro_checkpoint old = ''target authorized'' then
           with_resources L r (r\<lparr>subscription_rotation := Some (old
             \<lparr>ro_checkpoint := ''stop authorized'',
              ro_completed_effects := Some [''target prepared'']\<rparr>)\<rparr>)
         else if ro_checkpoint old = ''stop authorized'' then
           with_resources L r (r\<lparr>subscription_rotation := Some (old
             \<lparr>ro_checkpoint := ''committed'', ro_direction := ''forward'',
              ro_completed_effects := Some [''target prepared'', ''source stopped'']\<rparr>),
             serving := Some (ro_target old)\<rparr>)
         else None)
      })"

definition cleanup_http_link_rotation :: "lib \<Rightarrow> wire_ownership \<Rightarrow> wire_ownership option" where
  "cleanup_http_link_rotation L r =
     (if \<not> current_running r
         \<or> \<not> is_some_and (\<lambda>v. sv_http (ro_source v) \<and> ro_checkpoint v \<noteq> ''committed'')
             (subscription_rotation r) then None
      else with_resources L r (r\<lparr>subscription_rotation := None\<rparr>))"

definition complete_http_link_rotation :: "lib \<Rightarrow> wire_ownership \<Rightarrow> wire_ownership option" where
  "complete_http_link_rotation L r =
     (if \<not> current_running r
         \<or> \<not> is_some_and (\<lambda>v. sv_http (ro_target v) \<and> ro_checkpoint v = ''committed'')
             (subscription_rotation r) then None
      else with_resources L r (r\<lparr>subscription_rotation := None, subscription_compromised := False\<rparr>))"

definition mark_subscription_compromised :: "lib \<Rightarrow> wire_ownership \<Rightarrow> wire_ownership option" where
  "mark_subscription_compromised L r =
     (if \<not> current_running r \<or> \<not> is_some_and sv_http (serving r) then None
      else with_resources L r (r\<lparr>subscription_compromised := True\<rparr>))"

section \<open>Runtime repair\<close>

definition begin_http_runtime_repair :: "lib \<Rightarrow> wire_ownership \<Rightarrow> string \<Rightarrow> wire_ownership option" where
  "begin_http_runtime_repair L r operation_id =
     (if \<not> idle_http r then None
      else do {
        source \<leftarrow> serving r;
        with_resources L r (r\<lparr>subscription_repair := Some
          \<lparr>rp_operation_id = operation_id, rp_kind = ''repair subscription'',
           rp_direction = ''cleanup'', rp_correction = RESTART, rp_effects = [RESTART],
           rp_completed_effects = None, rp_checkpoint = ''prepared'', rp_source = source,
           rp_target = None\<rparr>\<rparr>)
      })"

definition advance_http_runtime_repair :: "lib \<Rightarrow> wire_ownership \<Rightarrow> wire_ownership option" where
  "advance_http_runtime_repair L r =
     (if \<not> current_running r then None
      else do {
        old \<leftarrow> subscription_repair r;
        (if \<not> sv_http (rp_source old) \<or> rp_correction old \<noteq> RESTART then None
         else if rp_checkpoint old = ''prepared'' then
           with_resources L r (r\<lparr>subscription_repair := Some (old
             \<lparr>rp_checkpoint := ''committed'', rp_direction := ''forward''\<rparr>)\<rparr>)
         else if rp_checkpoint old = ''committed'' then
           (if rp_target old = None
            then with_resources L r (r\<lparr>subscription_repair := Some (old
                   \<lparr>rp_target := Some (rp_source old)\<rparr>)\<rparr>)
            else with_resources L r (r\<lparr>subscription_repair := Some (old
                   \<lparr>rp_checkpoint := ''accepted'', rp_completed_effects := Some (rp_effects old)\<rparr>),
                   serving := rp_target old\<rparr>))
         else None)
      })"

definition repair_at :: "string \<Rightarrow> wire_repair \<Rightarrow> bool" where
  "repair_at checkpoint v =
     (sv_http (rp_source v) \<and> rp_correction v = RESTART \<and> rp_checkpoint v = checkpoint)"

definition cleanup_http_runtime_repair :: "lib \<Rightarrow> wire_ownership \<Rightarrow> wire_ownership option" where
  "cleanup_http_runtime_repair L r =
     (if \<not> current_running r \<or> \<not> is_some_and (repair_at ''prepared'') (subscription_repair r)
      then None
      else with_resources L r (r\<lparr>subscription_repair := None\<rparr>))"

definition complete_http_runtime_repair :: "lib \<Rightarrow> wire_ownership \<Rightarrow> wire_ownership option" where
  "complete_http_runtime_repair L r =
     (if \<not> current_running r \<or> \<not> is_some_and (repair_at ''accepted'') (subscription_repair r)
      then None
      else with_resources L r (r\<lparr>subscription_repair := None\<rparr>))"

section \<open>Successors\<close>

definition successor_begins_enablement :: "lib \<Rightarrow> wire_ownership \<Rightarrow> wire_ownership \<Rightarrow> bool" where
  "successor_begins_enablement L r next =
     (case subscription_enablement next of
        None \<Rightarrow> False
      | Some e \<Rightarrow>
          subscription_enablement r = None \<and> en_checkpoint e = 0
          \<and> is_some_and (\<lambda>x. sr_http x \<and> sr_public_ipv4 x = public_ipv4_of r) (en_resources e)
          \<and> en_serving e = None \<and> en_renewal e = None
          \<and> current_running r \<and> pending_change r = None \<and> serving r = None \<and> renewal r = None
          \<and> subscription_resources r = None \<and> https_retirement r = None
          \<and> with_resources L r (r\<lparr>schema := 2, subscription_enablement := Some e\<rparr>) = Some next)"

definition successor_begins_rotation :: "lib \<Rightarrow> wire_ownership \<Rightarrow> wire_ownership \<Rightarrow> bool" where
  "successor_begins_rotation L r next =
     (case subscription_rotation next of
        None \<Rightarrow> False
      | Some v \<Rightarrow>
          subscription_rotation r = None \<and> idle_http r \<and> sv_http (ro_source v)
          \<and> ro_checkpoint v = ''target authorized'' \<and> ro_completed_effects v = None
          \<and> serving r = Some (ro_source v)
          \<and> with_resources L r (r\<lparr>subscription_rotation := Some v\<rparr>) = Some next)"

definition successor_begins_repair :: "lib \<Rightarrow> wire_ownership \<Rightarrow> wire_ownership \<Rightarrow> bool" where
  "successor_begins_repair L r next =
     (case subscription_repair next of
        None \<Rightarrow> False
      | Some v \<Rightarrow>
          subscription_repair r = None \<and> idle_http r \<and> sv_http (rp_source v)
          \<and> rp_correction v = RESTART \<and> rp_checkpoint v = ''prepared''
          \<and> rp_completed_effects v = None \<and> serving r = Some (rp_source v)
          \<and> with_resources L r (r\<lparr>subscription_repair := Some v\<rparr>) = Some next)"

definition http_successor :: "lib \<Rightarrow> wire_ownership \<Rightarrow> wire_ownership \<Rightarrow> bool" where
  "http_successor L r next =
     (successor_begins_enablement L r next
      \<or> subscription_enablement r \<noteq> None
        \<and> (advance_http_enablement L r = Some next \<or> commit_http_enablement L r = Some next
           \<or> cleanup_http_enablement L r = Some next)
      \<or> successor_begins_rotation L r next
      \<or> subscription_rotation r \<noteq> None
        \<and> (advance_http_link_rotation L r = Some next \<or> cleanup_http_link_rotation L r = Some next
           \<or> complete_http_link_rotation L r = Some next)
      \<or> successor_begins_repair L r next
      \<or> subscription_repair r \<noteq> None
        \<and> (advance_http_runtime_repair L r = Some next \<or> cleanup_http_runtime_repair L r = Some next
           \<or> complete_http_runtime_repair L r = Some next)
      \<or> \<not> subscription_compromised r \<and> mark_subscription_compromised L r = Some next)"

definition permits_successor :: "lib \<Rightarrow> wire_ownership \<Rightarrow> wire_ownership \<Rightarrow> bool" where
  "permits_successor L r next =
     (r = next \<or> next_setup_checkpoint L r = Some next \<or> next_cleanup_checkpoint L r = Some next
      \<or> http_successor L r next)"

section \<open>Views of the current HTTP operation\<close>

datatype http_op =
    HttpEnablement u32 wire_serving
  | HttpRotation string change_direction wire_serving wire_serving
  | HttpRepair string change_direction wire_serving "wire_serving option"

text \<open>\<open>Result<Option<HttpOperation>, RecordError>\<close>: the outer \<open>None\<close> is the error.\<close>

definition http_operation :: "wire_ownership \<Rightarrow> http_op option option" where
  "http_operation r =
     (case subscription_enablement r of
        Some e \<Rightarrow>
          if \<not> enablement_is_http e then None
          else map_option (\<lambda>t. Some (HttpEnablement (en_checkpoint e) t))
                 (http_digest (en_link_id e) (en_credential_sha256 e))
      | None \<Rightarrow> (case subscription_rotation r of
        Some v \<Rightarrow>
          if \<not> sv_http (ro_source v) \<or> \<not> sv_http (ro_target v) then None
          else Some (Some (HttpRotation (ro_checkpoint v) (direction_of (ro_direction v))
                 (ro_source v) (ro_target v)))
      | None \<Rightarrow> (case subscription_repair r of
        Some v \<Rightarrow>
          if \<not> sv_http (rp_source v) \<or> rp_correction v \<noteq> RESTART then None
          else Some (Some (HttpRepair (rp_checkpoint v) (direction_of (rp_direction v))
                 (rp_source v) (rp_target v)))
      | None \<Rightarrow> if pending_change r \<noteq> None then None else Some None)))"

declare begin_http_enablement_def [transition_defs] advance_http_enablement_def [transition_defs]
  commit_http_enablement_def [transition_defs] cleanup_http_enablement_def [transition_defs]
  begin_http_link_rotation_def [transition_defs] advance_http_link_rotation_def [transition_defs]
  cleanup_http_link_rotation_def [transition_defs] complete_http_link_rotation_def [transition_defs]
  mark_subscription_compromised_def [transition_defs] begin_http_runtime_repair_def [transition_defs]
  advance_http_runtime_repair_def [transition_defs] cleanup_http_runtime_repair_def [transition_defs]
  complete_http_runtime_repair_def [transition_defs] with_resources_def [transition_defs]
  next_setup_checkpoint_def [transition_defs] next_cleanup_checkpoint_def [transition_defs]

end
