(* ===== verification/Record_Laws.thy ===== *)
theory Record_Laws
  imports Transitions
begin

text \<open>
  Laws of the Ownership Record that every transition proof rests on: which fields the resource list
  and each validation guard read (frame lemmas), when a record of schema 1 is valid, that recomputing
  the resource list of a change to a valid record keeps the creators valid, and that such a change is
  accepted as soon as the guards of the changed fields hold.
\<close>

section \<open>Frames of the resource list\<close>

lemma base_resources_frame [simp]:
  "base_resources (r\<lparr>phase := p\<rparr>) = base_resources r"
  "base_resources (r\<lparr>unfinished_direction := d\<rparr>) = base_resources r"
  "base_resources (r\<lparr>cleanup_checkpoint := c\<rparr>) = base_resources r"
  "base_resources (r\<lparr>removal_checkpoint := c\<rparr>) = base_resources r"
  "base_resources (r\<lparr>permitted_resources := ps\<rparr>) = base_resources r"
  "base_resources (r\<lparr>resource_creating_releases := cs\<rparr>) = base_resources r"
  "base_resources (r\<lparr>finishing_release_identity := f\<rparr>) = base_resources r"
  "base_resources (r\<lparr>subscription_compromised := b\<rparr>) = base_resources r"
  "base_resources (r\<lparr>certificate_activation := a\<rparr>) = base_resources r"
  by (simp_all add: base_resources_def)

lemma resources_head_frame [simp]:
  "resources_head L (r\<lparr>phase := p\<rparr>) = resources_head L r"
  "resources_head L (r\<lparr>unfinished_direction := d\<rparr>) = resources_head L r"
  "resources_head L (r\<lparr>cleanup_checkpoint := c\<rparr>) = resources_head L r"
  "resources_head L (r\<lparr>removal_checkpoint := c\<rparr>) = resources_head L r"
  "resources_head L (r\<lparr>permitted_resources := ps\<rparr>) = resources_head L r"
  "resources_head L (r\<lparr>resource_creating_releases := cs\<rparr>) = resources_head L r"
  "resources_head L (r\<lparr>finishing_release_identity := f\<rparr>) = resources_head L r"
  "resources_head L (r\<lparr>subscription_compromised := b\<rparr>) = resources_head L r"
  "resources_head L (r\<lparr>certificate_activation := a\<rparr>) = resources_head L r"
  by (simp_all add: resources_head_def)

lemma repair_lines_frame [simp]:
  "repair_lines (r\<lparr>phase := p\<rparr>) rp out = repair_lines r rp out"
  "repair_lines (r\<lparr>unfinished_direction := d\<rparr>) rp out = repair_lines r rp out"
  "repair_lines (r\<lparr>cleanup_checkpoint := c\<rparr>) rp out = repair_lines r rp out"
  "repair_lines (r\<lparr>removal_checkpoint := c\<rparr>) rp out = repair_lines r rp out"
  "repair_lines (r\<lparr>permitted_resources := ps\<rparr>) rp out = repair_lines r rp out"
  "repair_lines (r\<lparr>resource_creating_releases := cs\<rparr>) rp out = repair_lines r rp out"
  "repair_lines (r\<lparr>finishing_release_identity := f\<rparr>) rp out = repair_lines r rp out"
  "repair_lines (r\<lparr>subscription_compromised := b\<rparr>) rp out = repair_lines r rp out"
  "repair_lines (r\<lparr>certificate_activation := a\<rparr>) rp out = repair_lines r rp out"
  by (simp_all add: repair_lines_def)

lemma repair_part_frame [simp]:
  "repair_part (r\<lparr>phase := p\<rparr>) out = repair_part r out"
  "repair_part (r\<lparr>unfinished_direction := d\<rparr>) out = repair_part r out"
  "repair_part (r\<lparr>cleanup_checkpoint := c\<rparr>) out = repair_part r out"
  "repair_part (r\<lparr>removal_checkpoint := c\<rparr>) out = repair_part r out"
  "repair_part (r\<lparr>permitted_resources := ps\<rparr>) out = repair_part r out"
  "repair_part (r\<lparr>resource_creating_releases := cs\<rparr>) out = repair_part r out"
  "repair_part (r\<lparr>finishing_release_identity := f\<rparr>) out = repair_part r out"
  "repair_part (r\<lparr>subscription_compromised := b\<rparr>) out = repair_part r out"
  "repair_part (r\<lparr>certificate_activation := a\<rparr>) out = repair_part r out"
  by (simp_all add: repair_part_def split: option.split)

lemma resources_frame [simp]:
  "resources L (r\<lparr>phase := p\<rparr>) = resources L r"
  "resources L (r\<lparr>unfinished_direction := d\<rparr>) = resources L r"
  "resources L (r\<lparr>cleanup_checkpoint := c\<rparr>) = resources L r"
  "resources L (r\<lparr>removal_checkpoint := c\<rparr>) = resources L r"
  "resources L (r\<lparr>permitted_resources := ps\<rparr>) = resources L r"
  "resources L (r\<lparr>resource_creating_releases := cs\<rparr>) = resources L r"
  "resources L (r\<lparr>finishing_release_identity := f\<rparr>) = resources L r"
  "resources L (r\<lparr>subscription_compromised := b\<rparr>) = resources L r"
  "resources L (r\<lparr>certificate_activation := a\<rparr>) = resources L r"
  by (simp_all add: resources_def)

lemma PACKAGE_IDENTITY_ne [simp]: "PACKAGE_IDENTITY \<noteq> []"
  by (simp add: PACKAGE_IDENTITY_def)

section \<open>Frames of the guards\<close>

lemma guard_frame_retirement [simp]:
  "guard_retirement (r\<lparr>phase := x0\<rparr>) = guard_retirement r"
  "guard_retirement (r\<lparr>unfinished_direction := x1\<rparr>) = guard_retirement r"
  "guard_retirement (r\<lparr>cleanup_checkpoint := x2\<rparr>) = guard_retirement r"
  "guard_retirement (r\<lparr>removal_checkpoint := x3\<rparr>) = guard_retirement r"
  "guard_retirement (r\<lparr>permitted_resources := x4\<rparr>) = guard_retirement r"
  "guard_retirement (r\<lparr>resource_creating_releases := x5\<rparr>) = guard_retirement r"
  "guard_retirement (r\<lparr>finishing_release_identity := x6\<rparr>) = guard_retirement r"
  "guard_retirement (r\<lparr>subscription_enablement := x7\<rparr>) = guard_retirement r"
  "guard_retirement (r\<lparr>subscription_rotation := x8\<rparr>) = guard_retirement r"
  "guard_retirement (r\<lparr>subscription_repair := x9\<rparr>) = guard_retirement r"
  "guard_retirement (r\<lparr>subscription_compromised := x10\<rparr>) = guard_retirement r"
  "guard_retirement (r\<lparr>subscription_resources := x11\<rparr>) = guard_retirement r"
  by (simp_all add: guard_retirement_def operation_context_def)

lemma guard_frame_migration [simp]:
  "guard_migration (r\<lparr>schema := x0\<rparr>) = guard_migration r"
  "guard_migration (r\<lparr>cleanup_checkpoint := x1\<rparr>) = guard_migration r"
  "guard_migration (r\<lparr>removal_checkpoint := x2\<rparr>) = guard_migration r"
  "guard_migration (r\<lparr>permitted_resources := x3\<rparr>) = guard_migration r"
  "guard_migration (r\<lparr>resource_creating_releases := x4\<rparr>) = guard_migration r"
  "guard_migration (r\<lparr>finishing_release_identity := x5\<rparr>) = guard_migration r"
  "guard_migration (r\<lparr>subscription_compromised := x6\<rparr>) = guard_migration r"
  "guard_migration (r\<lparr>subscription_resources := x7\<rparr>) = guard_migration r"
  by (simp_all add: guard_migration_def operation_context_def)

lemma guard_frame_serving [simp]:
  "guard_serving (r\<lparr>schema := x0\<rparr>) = guard_serving r"
  "guard_serving (r\<lparr>unfinished_direction := x1\<rparr>) = guard_serving r"
  "guard_serving (r\<lparr>cleanup_checkpoint := x2\<rparr>) = guard_serving r"
  "guard_serving (r\<lparr>removal_checkpoint := x3\<rparr>) = guard_serving r"
  "guard_serving (r\<lparr>permitted_resources := x4\<rparr>) = guard_serving r"
  "guard_serving (r\<lparr>resource_creating_releases := x5\<rparr>) = guard_serving r"
  "guard_serving (r\<lparr>finishing_release_identity := x6\<rparr>) = guard_serving r"
  "guard_serving (r\<lparr>subscription_enablement := x7\<rparr>) = guard_serving r"
  "guard_serving (r\<lparr>subscription_rotation := x8\<rparr>) = guard_serving r"
  "guard_serving (r\<lparr>subscription_compromised := x9\<rparr>) = guard_serving r"
  by (simp_all add: guard_serving_def operation_context_def)

lemma guard_frame_renewal [simp]:
  "guard_renewal (r\<lparr>schema := x0\<rparr>) = guard_renewal r"
  "guard_renewal (r\<lparr>unfinished_direction := x1\<rparr>) = guard_renewal r"
  "guard_renewal (r\<lparr>cleanup_checkpoint := x2\<rparr>) = guard_renewal r"
  "guard_renewal (r\<lparr>removal_checkpoint := x3\<rparr>) = guard_renewal r"
  "guard_renewal (r\<lparr>permitted_resources := x4\<rparr>) = guard_renewal r"
  "guard_renewal (r\<lparr>resource_creating_releases := x5\<rparr>) = guard_renewal r"
  "guard_renewal (r\<lparr>finishing_release_identity := x6\<rparr>) = guard_renewal r"
  "guard_renewal (r\<lparr>subscription_enablement := x7\<rparr>) = guard_renewal r"
  "guard_renewal (r\<lparr>subscription_rotation := x8\<rparr>) = guard_renewal r"
  "guard_renewal (r\<lparr>subscription_repair := x9\<rparr>) = guard_renewal r"
  "guard_renewal (r\<lparr>subscription_compromised := x10\<rparr>) = guard_renewal r"
  "guard_renewal (r\<lparr>subscription_resources := x11\<rparr>) = guard_renewal r"
  by (simp_all add: guard_renewal_def operation_context_def)

lemma guard_frame_activation [simp]:
  "guard_activation (r\<lparr>cleanup_checkpoint := x0\<rparr>) = guard_activation r"
  "guard_activation (r\<lparr>removal_checkpoint := x1\<rparr>) = guard_activation r"
  "guard_activation (r\<lparr>permitted_resources := x2\<rparr>) = guard_activation r"
  "guard_activation (r\<lparr>resource_creating_releases := x3\<rparr>) = guard_activation r"
  "guard_activation (r\<lparr>finishing_release_identity := x4\<rparr>) = guard_activation r"
  "guard_activation (r\<lparr>subscription_enablement := x5\<rparr>) = guard_activation r"
  "guard_activation (r\<lparr>subscription_rotation := x6\<rparr>) = guard_activation r"
  "guard_activation (r\<lparr>subscription_repair := x7\<rparr>) = guard_activation r"
  "guard_activation (r\<lparr>subscription_compromised := x8\<rparr>) = guard_activation r"
  "guard_activation (r\<lparr>subscription_resources := x9\<rparr>) = guard_activation r"
  by (simp_all add: guard_activation_def operation_context_def)

lemma guard_frame_enablement [simp]:
  "guard_enablement (r\<lparr>cleanup_checkpoint := x0\<rparr>) = guard_enablement r"
  "guard_enablement (r\<lparr>removal_checkpoint := x1\<rparr>) = guard_enablement r"
  "guard_enablement (r\<lparr>permitted_resources := x2\<rparr>) = guard_enablement r"
  "guard_enablement (r\<lparr>resource_creating_releases := x3\<rparr>) = guard_enablement r"
  "guard_enablement (r\<lparr>finishing_release_identity := x4\<rparr>) = guard_enablement r"
  "guard_enablement (r\<lparr>subscription_rotation := x5\<rparr>) = guard_enablement r"
  "guard_enablement (r\<lparr>subscription_repair := x6\<rparr>) = guard_enablement r"
  "guard_enablement (r\<lparr>subscription_compromised := x7\<rparr>) = guard_enablement r"
  "guard_enablement (r\<lparr>subscription_resources := x8\<rparr>) = guard_enablement r"
  by (simp_all add: guard_enablement_def operation_context_def)

lemma guard_frame_rotation [simp]:
  "guard_rotation (r\<lparr>cleanup_checkpoint := x0\<rparr>) = guard_rotation r"
  "guard_rotation (r\<lparr>removal_checkpoint := x1\<rparr>) = guard_rotation r"
  "guard_rotation (r\<lparr>permitted_resources := x2\<rparr>) = guard_rotation r"
  "guard_rotation (r\<lparr>resource_creating_releases := x3\<rparr>) = guard_rotation r"
  "guard_rotation (r\<lparr>finishing_release_identity := x4\<rparr>) = guard_rotation r"
  "guard_rotation (r\<lparr>subscription_repair := x5\<rparr>) = guard_rotation r"
  "guard_rotation (r\<lparr>subscription_compromised := x6\<rparr>) = guard_rotation r"
  "guard_rotation (r\<lparr>subscription_resources := x7\<rparr>) = guard_rotation r"
  by (simp_all add: guard_rotation_def operation_context_def)

lemma guard_frame_repair [simp]:
  "guard_repair (r\<lparr>cleanup_checkpoint := x0\<rparr>) = guard_repair r"
  "guard_repair (r\<lparr>removal_checkpoint := x1\<rparr>) = guard_repair r"
  "guard_repair (r\<lparr>permitted_resources := x2\<rparr>) = guard_repair r"
  "guard_repair (r\<lparr>resource_creating_releases := x3\<rparr>) = guard_repair r"
  "guard_repair (r\<lparr>finishing_release_identity := x4\<rparr>) = guard_repair r"
  "guard_repair (r\<lparr>subscription_compromised := x5\<rparr>) = guard_repair r"
  "guard_repair (r\<lparr>subscription_resources := x6\<rparr>) = guard_repair r"
  by (simp_all add: guard_repair_def operation_context_def)

lemma guard_frame_compromised [simp]:
  "guard_compromised (r\<lparr>phase := x0\<rparr>) = guard_compromised r"
  "guard_compromised (r\<lparr>unfinished_direction := x1\<rparr>) = guard_compromised r"
  "guard_compromised (r\<lparr>cleanup_checkpoint := x2\<rparr>) = guard_compromised r"
  "guard_compromised (r\<lparr>removal_checkpoint := x3\<rparr>) = guard_compromised r"
  "guard_compromised (r\<lparr>permitted_resources := x4\<rparr>) = guard_compromised r"
  "guard_compromised (r\<lparr>resource_creating_releases := x5\<rparr>) = guard_compromised r"
  "guard_compromised (r\<lparr>finishing_release_identity := x6\<rparr>) = guard_compromised r"
  "guard_compromised (r\<lparr>subscription_enablement := x7\<rparr>) = guard_compromised r"
  "guard_compromised (r\<lparr>subscription_rotation := x8\<rparr>) = guard_compromised r"
  "guard_compromised (r\<lparr>subscription_repair := x9\<rparr>) = guard_compromised r"
  "guard_compromised (r\<lparr>subscription_resources := x10\<rparr>) = guard_compromised r"
  by (simp_all add: guard_compromised_def operation_context_def)

lemma guard_frame_subscription_resources [simp]:
  "guard_subscription_resources (r\<lparr>phase := x0\<rparr>) = guard_subscription_resources r"
  "guard_subscription_resources (r\<lparr>unfinished_direction := x1\<rparr>) = guard_subscription_resources r"
  "guard_subscription_resources (r\<lparr>cleanup_checkpoint := x2\<rparr>) = guard_subscription_resources r"
  "guard_subscription_resources (r\<lparr>removal_checkpoint := x3\<rparr>) = guard_subscription_resources r"
  "guard_subscription_resources (r\<lparr>permitted_resources := x4\<rparr>) = guard_subscription_resources r"
  "guard_subscription_resources (r\<lparr>resource_creating_releases := x5\<rparr>) = guard_subscription_resources r"
  "guard_subscription_resources (r\<lparr>finishing_release_identity := x6\<rparr>) = guard_subscription_resources r"
  "guard_subscription_resources (r\<lparr>subscription_enablement := x7\<rparr>) = guard_subscription_resources r"
  "guard_subscription_resources (r\<lparr>subscription_rotation := x8\<rparr>) = guard_subscription_resources r"
  "guard_subscription_resources (r\<lparr>subscription_repair := x9\<rparr>) = guard_subscription_resources r"
  "guard_subscription_resources (r\<lparr>subscription_compromised := x10\<rparr>) = guard_subscription_resources r"
  by (simp_all add: guard_subscription_resources_def operation_context_def)

lemma guard_frame_startup [simp]:
  "guard_startup (r\<lparr>unfinished_direction := x0\<rparr>) = guard_startup r"
  "guard_startup (r\<lparr>cleanup_checkpoint := x1\<rparr>) = guard_startup r"
  "guard_startup (r\<lparr>removal_checkpoint := x2\<rparr>) = guard_startup r"
  "guard_startup (r\<lparr>permitted_resources := x3\<rparr>) = guard_startup r"
  "guard_startup (r\<lparr>resource_creating_releases := x4\<rparr>) = guard_startup r"
  "guard_startup (r\<lparr>finishing_release_identity := x5\<rparr>) = guard_startup r"
  "guard_startup (r\<lparr>serving := x6\<rparr>) = guard_startup r"
  "guard_startup (r\<lparr>subscription_enablement := x7\<rparr>) = guard_startup r"
  "guard_startup (r\<lparr>subscription_rotation := x8\<rparr>) = guard_startup r"
  "guard_startup (r\<lparr>subscription_repair := x9\<rparr>) = guard_startup r"
  "guard_startup (r\<lparr>subscription_compromised := x10\<rparr>) = guard_startup r"
  "guard_startup (r\<lparr>subscription_resources := x11\<rparr>) = guard_startup r"
  by (simp_all add: guard_startup_def operation_context_def)

lemma guard_frame_client [simp]:
  "guard_client (r\<lparr>cleanup_checkpoint := x0\<rparr>) = guard_client r"
  "guard_client (r\<lparr>removal_checkpoint := x1\<rparr>) = guard_client r"
  "guard_client (r\<lparr>permitted_resources := x2\<rparr>) = guard_client r"
  "guard_client (r\<lparr>resource_creating_releases := x3\<rparr>) = guard_client r"
  "guard_client (r\<lparr>finishing_release_identity := x4\<rparr>) = guard_client r"
  "guard_client (r\<lparr>subscription_compromised := x5\<rparr>) = guard_client r"
  "guard_client (r\<lparr>subscription_resources := x6\<rparr>) = guard_client r"
  by (simp_all add: guard_client_def operation_context_def)

lemma guard_frame_direction [simp]:
  "guard_direction (r\<lparr>schema := x0\<rparr>) = guard_direction r"
  "guard_direction (r\<lparr>permitted_resources := x1\<rparr>) = guard_direction r"
  "guard_direction (r\<lparr>resource_creating_releases := x2\<rparr>) = guard_direction r"
  "guard_direction (r\<lparr>finishing_release_identity := x3\<rparr>) = guard_direction r"
  "guard_direction (r\<lparr>serving := x4\<rparr>) = guard_direction r"
  "guard_direction (r\<lparr>subscription_enablement := x5\<rparr>) = guard_direction r"
  "guard_direction (r\<lparr>subscription_rotation := x6\<rparr>) = guard_direction r"
  "guard_direction (r\<lparr>subscription_repair := x7\<rparr>) = guard_direction r"
  "guard_direction (r\<lparr>subscription_compromised := x8\<rparr>) = guard_direction r"
  "guard_direction (r\<lparr>subscription_resources := x9\<rparr>) = guard_direction r"
  by (simp_all add: guard_direction_def removal_limit_def)

lemma guard_frame_lock [simp]:
  "guard_lock L (r\<lparr>schema := x0\<rparr>) = guard_lock L r"
  "guard_lock L (r\<lparr>phase := x1\<rparr>) = guard_lock L r"
  "guard_lock L (r\<lparr>unfinished_direction := x2\<rparr>) = guard_lock L r"
  "guard_lock L (r\<lparr>cleanup_checkpoint := x3\<rparr>) = guard_lock L r"
  "guard_lock L (r\<lparr>removal_checkpoint := x4\<rparr>) = guard_lock L r"
  "guard_lock L (r\<lparr>permitted_resources := x5\<rparr>) = guard_lock L r"
  "guard_lock L (r\<lparr>resource_creating_releases := x6\<rparr>) = guard_lock L r"
  "guard_lock L (r\<lparr>finishing_release_identity := x7\<rparr>) = guard_lock L r"
  "guard_lock L (r\<lparr>serving := x8\<rparr>) = guard_lock L r"
  "guard_lock L (r\<lparr>subscription_enablement := x9\<rparr>) = guard_lock L r"
  "guard_lock L (r\<lparr>subscription_rotation := x10\<rparr>) = guard_lock L r"
  "guard_lock L (r\<lparr>subscription_repair := x11\<rparr>) = guard_lock L r"
  "guard_lock L (r\<lparr>subscription_compromised := x12\<rparr>) = guard_lock L r"
  "guard_lock L (r\<lparr>subscription_resources := x13\<rparr>) = guard_lock L r"
  by (simp_all add: guard_lock_def operation_context_def)

lemma guard_frame_tunnel [simp]:
  "guard_tunnel (r\<lparr>schema := x0\<rparr>) = guard_tunnel r"
  "guard_tunnel (r\<lparr>phase := x1\<rparr>) = guard_tunnel r"
  "guard_tunnel (r\<lparr>unfinished_direction := x2\<rparr>) = guard_tunnel r"
  "guard_tunnel (r\<lparr>cleanup_checkpoint := x3\<rparr>) = guard_tunnel r"
  "guard_tunnel (r\<lparr>removal_checkpoint := x4\<rparr>) = guard_tunnel r"
  "guard_tunnel (r\<lparr>permitted_resources := x5\<rparr>) = guard_tunnel r"
  "guard_tunnel (r\<lparr>resource_creating_releases := x6\<rparr>) = guard_tunnel r"
  "guard_tunnel (r\<lparr>finishing_release_identity := x7\<rparr>) = guard_tunnel r"
  "guard_tunnel (r\<lparr>serving := x8\<rparr>) = guard_tunnel r"
  "guard_tunnel (r\<lparr>subscription_enablement := x9\<rparr>) = guard_tunnel r"
  "guard_tunnel (r\<lparr>subscription_rotation := x10\<rparr>) = guard_tunnel r"
  "guard_tunnel (r\<lparr>subscription_repair := x11\<rparr>) = guard_tunnel r"
  "guard_tunnel (r\<lparr>subscription_compromised := x12\<rparr>) = guard_tunnel r"
  "guard_tunnel (r\<lparr>subscription_resources := x13\<rparr>) = guard_tunnel r"
  by (simp_all add: guard_tunnel_def operation_context_def)

lemma guard_frame_identity [simp]:
  "guard_identity (r\<lparr>phase := x0\<rparr>) = guard_identity r"
  "guard_identity (r\<lparr>unfinished_direction := x1\<rparr>) = guard_identity r"
  "guard_identity (r\<lparr>cleanup_checkpoint := x2\<rparr>) = guard_identity r"
  "guard_identity (r\<lparr>removal_checkpoint := x3\<rparr>) = guard_identity r"
  "guard_identity (r\<lparr>permitted_resources := x4\<rparr>) = guard_identity r"
  "guard_identity (r\<lparr>resource_creating_releases := x5\<rparr>) = guard_identity r"
  "guard_identity (r\<lparr>finishing_release_identity := x6\<rparr>) = guard_identity r"
  "guard_identity (r\<lparr>serving := x7\<rparr>) = guard_identity r"
  "guard_identity (r\<lparr>subscription_enablement := x8\<rparr>) = guard_identity r"
  "guard_identity (r\<lparr>subscription_rotation := x9\<rparr>) = guard_identity r"
  "guard_identity (r\<lparr>subscription_repair := x10\<rparr>) = guard_identity r"
  "guard_identity (r\<lparr>subscription_compromised := x11\<rparr>) = guard_identity r"
  "guard_identity (r\<lparr>subscription_resources := x12\<rparr>) = guard_identity r"
  by (simp_all add: guard_identity_def operation_context_def)

section \<open>Records of schema 1 and setup\<close>

lemma valid_schema1_iff:
  assumes "schema r = 1"
  shows "valid L r \<longleftrightarrow> valid_release (release_identity r) \<and> guard_schema1 r
    \<and> \<not> subscription_compromised r \<and> guard_lock L r \<and> guard_tunnel r \<and> guard_direction r
    \<and> guard_proxy_facts L r"
proof
  assume v: "valid L r"
  then show "valid_release (release_identity r) \<and> guard_schema1 r
    \<and> \<not> subscription_compromised r \<and> guard_lock L r \<and> guard_tunnel r \<and> guard_direction r
    \<and> guard_proxy_facts L r"
    using valid_schema1_plain(14) [OF v assms] assms
    by (simp add: valid_def guard_identity_def guard_schema_def)
next
  assume *: "valid_release (release_identity r) \<and> guard_schema1 r
    \<and> \<not> subscription_compromised r \<and> guard_lock L r \<and> guard_tunnel r \<and> guard_direction r
    \<and> guard_proxy_facts L r"
  then have "resource_creating_releases r = None" "serving r = None" "renewal r = None"
    "certificate_activation r = None"
    "subscription_enablement r = None" "subscription_rotation r = None"
    "subscription_repair r = None" "subscription_resources r = None" "proxy_startup r = None"
    "client_identity_rotation r = None" "https_retirement r = None"
    "\<not> subscription_transport_migration r"
    by (auto simp: guard_schema1_def is_Some_def)
  with * assms show "valid L r"
    by (simp add: valid_def guard_identity_def guard_schema_def guard_retirement_def
        guard_migration_def guard_serving_def guard_renewal_def guard_activation_def
        guard_enablement_def guard_rotation_def guard_repair_def guard_compromised_def
        guard_subscription_resources_def guard_startup_def guard_client_def)
qed

lemma next_phase_simps [simp]:
  "next_phase OwnershipRecorded = Some AptKeyInstalled"
  "next_phase AptKeyInstalled = Some AptSourceInstalled"
  "next_phase AptSourceInstalled = Some ServiceMasked"
  "next_phase ServiceMasked = Some PackageInstalled"
  "next_phase PackageInstalled = Some PackageHeld"
  "next_phase PackageHeld = Some StateDirectoryCreated"
  "next_phase StateDirectoryCreated = Some ConfigurationInstalled"
  "next_phase ConfigurationInstalled = Some ConfigurationValidated"
  "next_phase ConfigurationValidated = Some ServiceUnmasked"
  "next_phase ServiceUnmasked = Some ActivationCommitted"
  "next_phase ActivationCommitted = Some ServiceEnabled"
  "next_phase ServiceEnabled = Some ServiceStarted"
  "next_phase ServiceStarted = Some Running"
  "next_phase Running = None"
  "next_phase RemovalCommitted = None"
  by (simp_all add: next_phase_def PHASES_def nth_opt_def)

lemma next_phase_not_removal: "next_phase p = Some q \<Longrightarrow> q \<noteq> RemovalCommitted \<and> p \<noteq> Running \<and> p \<noteq> RemovalCommitted"
  by (cases p) auto

lemma next_setup_checkpoint_eq:
  assumes v: "valid L r" and c: "cleanup_checkpoint r = 0" and n: "next_phase (phase r) = Some p"
  shows "next_setup_checkpoint L r = Some (r\<lparr>phase := p, unfinished_direction := recovery_direction p\<rparr>)"
proof -
  from next_phase_not_removal [OF n] have p: "p \<noteq> RemovalCommitted" "phase r \<noteq> Running"
    "phase r \<noteq> RemovalCommitted" by auto
  then have d: "unfinished_direction r \<noteq> Removal"
    using valid_removal_phase [OF v] by simp
  have s: "schema r = 1"
    using valid_schema [OF v] valid_schema2_running [OF v _ d] p by auto
  have pr: "recovery_direction p \<noteq> Removal"
    using p by (cases p) auto
  have "valid L (r\<lparr>phase := p, unfinished_direction := recovery_direction p\<rparr>)"
    using v c d p pr s
    by (simp add: valid_schema1_iff guard_schema1_def
        guard_direction_def guard_proxy_facts_def)
  with c n show ?thesis
    by (simp add: next_setup_checkpoint_def validated_def)
qed


section \<open>Recomputed resources\<close>

lemma with_resources_Some:
  "with_resources L r n = Some x \<longleftrightarrow>
     x = n\<lparr>permitted_resources := resources L n,
            resource_creating_releases := Some (map (creator_for r) (resources L n))\<rparr> \<and> valid L x"
  by (auto simp: with_resources_def Let_def)

lemma creator_at_valid:
  assumes "valid L r"
  shows "valid_release (creator_at r i)"
proof (cases "schema r = 2")
  case True
  then obtain v where "resource_creating_releases r = Some v" "list_all valid_release v"
    using valid_creators [OF assms] by blast
  then show ?thesis
    using valid_release_identity [OF assms] by (auto simp: creator_at_def nth_opt_def list_all_length)
next
  case False
  then have "schema r = 1" using valid_schema [OF assms] by simp
  then show ?thesis
    using valid_release_identity [OF assms] valid_schema1_plain(1) [OF assms]
    by (simp add: creator_at_def)
qed

lemma creator_for_valid:
  assumes "valid L r"
  shows "valid_release (creator_for r res)"
proof (cases "map_of (rev (old_creators r)) (creator_identity res)")
  case None
  then show ?thesis using valid_release_identity [OF assms] by (simp add: creator_for_def)
next
  case (Some c)
  then have "(creator_identity res, c) \<in> set (old_creators r)"
    by (auto dest: map_of_SomeD)
  then obtain i where "c = creator_at r i"
    by (auto simp: old_creators_def)
  with Some show ?thesis using creator_at_valid [OF assms] by (simp add: creator_for_def)
qed

text \<open>The guards that a change of the HTTP operation fields has to re-establish.\<close>

lemma idle_http_facts:
  assumes "valid L r" and "idle_http r" and s: "serving r = Some s"
  shows "valid_serving s" "sv_http s" "renewal r = None"
    "schema r = 2" "phase r = Running" "unfinished_direction r = Idle"
    "finishing_release_identity r = None" "client_identity_rotation r = None"
    "certificate_activation r = None" "\<not> subscription_transport_migration r"
    "subscription_enablement r = None" "subscription_rotation r = None" "subscription_repair r = None"
    "proxy_package_identity r = PACKAGE_IDENTITY"
proof -
  from assms(2) s have h: "sv_http s" and cr: "current_running r"
    and sch: "schema r = 2" and p: "pending_change r = None"
    by (auto simp: idle_http_def)
  show "phase r = Running" "unfinished_direction r = Idle"
    "finishing_release_identity r = None" "client_identity_rotation r = None"
    "certificate_activation r = None" "\<not> subscription_transport_migration r"
    using cr by (simp_all add: current_running_def)
  have g: "guard_serving r" using assms(1) by (rule validD)
  show "valid_serving s" "renewal r = None"
    using g s h by (auto simp: guard_serving_def is_Some_def)
  show "subscription_enablement r = None" "subscription_rotation r = None"
    "subscription_repair r = None"
    using p by (auto simp: pending_change_def split: if_splits option.splits)
  show "proxy_package_identity r = PACKAGE_IDENTITY"
    using valid_package_nonempty [OF assms(1)] cr by (simp add: current_running_def)
qed (use assms in \<open>simp_all add: idle_http_def\<close>)

lemma valid_resources_refresh:
  assumes v: "valid L r"
    and same: "release_identity n = release_identity r" "proxy_package_identity n = PACKAGE_IDENTITY"
      "public_ipv4_of n = public_ipv4_of r" "destination_address n = destination_address r"
      "destination_server_name n = destination_server_name r"
      "configuration_sha256 n = configuration_sha256 r"
    and run: "schema n = 2" "phase n = Running" "unfinished_direction n = Idle"
      "finishing_release_identity n = None" "unfinished_direction r = Idle"
    and guards: "guard_retirement n" "guard_migration n" "guard_serving n" "guard_renewal n"
      "guard_activation n" "guard_enablement n" "guard_rotation n" "guard_repair n"
      "guard_compromised n" "guard_subscription_resources n" "guard_startup n" "guard_lock L n"
      "guard_tunnel n" "guard_client n" "guard_direction n"
  shows "with_resources L r n = Some (n\<lparr>permitted_resources := resources L n,
            resource_creating_releases := Some (map (creator_for r) (resources L n))\<rparr>)"
proof -
  let ?x = "n\<lparr>permitted_resources := resources L n,
            resource_creating_releases := Some (map (creator_for r) (resources L n))\<rparr>"
  have "guard_identity ?x"
    using run same valid_release_identity [OF v] by (simp add: guard_identity_def)
  moreover have "guard_schema ?x"
    using run creator_for_valid [OF v]
    by (simp add: guard_schema_def guard_schema2_def list_all_iff)
  moreover have "guard_proxy_facts L ?x"
    using run same validD(18) [OF v] by (simp add: guard_proxy_facts_def)
  ultimately have "valid L ?x"
    using guards by (simp add: valid_def)
  then show ?thesis by (simp add: with_resources_Some)
qed

lemma valid_http_empty:
  assumes "valid_serving s" "sv_http s"
  shows "sv_certificate_generation s = 0" "sv_certificate_sha256 s = ([], [], [], [])"
  using valid_http_serving [OF assms] unfolding http_digest_Some
  by (auto dest: arg_cong [where f = sv_certificate_generation] arg_cong [where f = sv_certificate_sha256])

end
