(* ===== verification/Staged.thy ===== *)
theory Staged
  imports Prelude
begin

text \<open>
  The contract that every checkpointed operation of the record shares.  Setup, setup cleanup, HTTP
  enablement, link rotation, runtime repair and removal each record a stage, each advance by exactly
  one stage at a time, never refuse before their last stage, and are over at the last one.
\<close>

text \<open>Repeating a fallible step.\<close>

fun iter_opt :: "nat \<Rightarrow> ('r \<Rightarrow> 'r option) \<Rightarrow> 'r \<Rightarrow> 'r option" where
  "iter_opt 0 f r = Some r"
| "iter_opt (Suc n) f r = Option.bind (f r) (iter_opt n f)"

lemma iter_opt_add: "iter_opt (m + n) f r = Option.bind (iter_opt m f r) (iter_opt n f)"
  by (induction m arbitrary: r) (auto split: bind_split)

locale staged =
  fixes running :: "'r \<Rightarrow> bool"
    and stage :: "'r \<Rightarrow> nat"
    and last_stage :: "'r \<Rightarrow> nat"
    and advance :: "'r \<Rightarrow> 'r option"
  assumes stage_bound: "running r \<Longrightarrow> stage r \<le> last_stage r"
    and advance_some: "running r \<Longrightarrow> stage r < last_stage r \<Longrightarrow> \<exists>s. advance r = Some s"
    and advance_step: "running r \<Longrightarrow> advance r = Some s \<Longrightarrow>
      running s \<and> stage s = Suc (stage r) \<and> last_stage s = last_stage r"
begin

lemma advance_last:
  assumes "running r" and "stage r = last_stage r"
  shows "advance r = None"
proof (cases "advance r")
  case (Some s)
  then have "Suc (last_stage r) \<le> last_stage r"
    using advance_step [OF assms(1) Some] stage_bound [of s] assms(2) by simp
  then show ?thesis by simp
qed

lemma advance_iff: "running r \<Longrightarrow> advance r \<noteq> None \<longleftrightarrow> stage r < last_stage r"
  using advance_last advance_some stage_bound by (metis le_neq_implies_less nat_neq_iff option.distinct(1))

lemma iter_step:
  "running r \<Longrightarrow> iter_opt n advance r = Some s \<Longrightarrow>
     running s \<and> stage s = stage r + n \<and> last_stage s = last_stage r"
proof (induction n arbitrary: r)
  case (Suc n)
  then obtain t where "advance r = Some t" "iter_opt n advance t = Some s"
    by (auto simp: bind_eq_Some_conv)
  then show ?case using Suc.IH [of t] advance_step [OF Suc.prems(1)] by auto
qed simp

text \<open>Any number of steps up to the last stage succeeds, and no more than that.\<close>

lemma iter_some_iff:
  "running r \<Longrightarrow> (\<exists>s. iter_opt n advance r = Some s) \<longleftrightarrow> stage r + n \<le> last_stage r"
proof (induction n arbitrary: r)
  case 0
  then show ?case using stage_bound by simp
next
  case (Suc n)
  show ?case
  proof (cases "advance r")
    case None
    then show ?thesis using advance_iff [OF Suc.prems] by simp
  next
    case (Some t)
    then show ?thesis using Suc.IH [of t] advance_step [OF Suc.prems Some] by simp
  qed
qed

lemma completes:
  assumes "running r"
  obtains s where "iter_opt (last_stage r - stage r) advance r = Some s" "running s"
    "stage s = last_stage s" "last_stage s = last_stage r"
proof -
  obtain s where s: "iter_opt (last_stage r - stage r) advance r = Some s"
    using iter_some_iff [OF assms, of "last_stage r - stage r"] stage_bound [OF assms] by auto
  with iter_step [OF assms s] stage_bound [OF assms] that show thesis by auto
qed

end

end
