(* ===== verification/Http_Operations.thy ===== *)
theory Http_Operations
  imports Record_Laws Staged
begin

text \<open>
  Progress of the three HTTP operations on the record (\<open>src/records/transitions.rs\<close>): enablement,
  link rotation and runtime repair.  For each there is a predicate for a record in the middle of it
  and the stage it has reached, and the operation is shown to be a \<open>staged\<close> one: from a valid
  record it can always move to the next stage, the successor is valid, and it ends at the last stage.
\<close>

section \<open>Changing one operation field\<close>

lemma pending_change_frame [simp]:
  "pending_change (r\<lparr>permitted_resources := ps\<rparr>) = pending_change r"
  "pending_change (r\<lparr>resource_creating_releases := cs\<rparr>) = pending_change r"
  "pending_change (r\<lparr>schema := n\<rparr>) = pending_change r"
  "pending_change (r\<lparr>subscription_compromised := b\<rparr>) = pending_change r"
  by (simp_all add: pending_change_def cong: option.case_cong)

lemma with_resources_keeps:
  assumes "with_resources L r n = Some x"
  shows "valid L x"
    and "current_running x = current_running n"
    and "subscription_enablement x = subscription_enablement n"
    and "subscription_rotation x = subscription_rotation n"
    and "subscription_repair x = subscription_repair n"
    and "serving x = serving n" "subscription_resources x = subscription_resources n"
    and "subscription_compromised x = subscription_compromised n"
    and "pending_change x = pending_change n" "schema x = schema n"
    and "permitted_resources x = resources L x"
proof -
  from assms have x: "valid L x" "x = n\<lparr>permitted_resources := resources L n,
      resource_creating_releases := Some (map (creator_for r) (resources L n))\<rparr>"
    unfolding with_resources_Some by blast+
  show "valid L x" "permitted_resources x = resources L x"
    using x(1) valid_resources by blast+
  show "current_running x = current_running n"
    "subscription_enablement x = subscription_enablement n"
    "subscription_rotation x = subscription_rotation n"
    "subscription_repair x = subscription_repair n"
    "serving x = serving n" "subscription_resources x = subscription_resources n"
    "subscription_compromised x = subscription_compromised n"
    "pending_change x = pending_change n" "schema x = schema n"
    unfolding x(2) by (simp_all add: current_running_def)
qed

lemma running_facts:
  assumes v: "valid L r" and c: "current_running r"
  shows "phase r = Running" "unfinished_direction r = Idle" "finishing_release_identity r = None"
    "client_identity_rotation r = None" "certificate_activation r = None"
    "\<not> subscription_transport_migration r" "proxy_package_identity r = PACKAGE_IDENTITY"
    "operation_context r" "cleanup_checkpoint r = 0" "removal_checkpoint r = 0"
  using c valid_package_nonempty [OF v] validD(17) [OF v]
  by (simp_all add: current_running_def operation_context_def guard_direction_def split: if_splits)

lemma schema2_of:
  assumes "valid L r" and "subscription_enablement r \<noteq> None \<or> subscription_rotation r \<noteq> None
    \<or> subscription_repair r \<noteq> None \<or> subscription_resources r \<noteq> None
    \<or> is_some_and sv_http (serving r)"
  shows "schema r = 2"
  using valid_schema [OF assms(1)] valid_schema1_plain [OF assms(1)] assms(2) by auto

lemma enablement_facts:
  assumes v: "valid L r" and c: "current_running r" and e: "subscription_enablement r = Some e"
  shows "schema r = 2" "serving r = None" "renewal r = None" "subscription_rotation r = None"
    "subscription_repair r = None" "subscription_resources r = None" "https_retirement r = None"
    "\<not> subscription_compromised r" "valid_enablement e"
proof -
  show 2: "schema r = 2" using schema2_of [OF v] e by simp
  show s: "serving r = None" and "renewal r = None" and "valid_enablement e"
    using validD(8) [OF v] e by (auto simp: guard_enablement_def is_Some_def)
  show "subscription_rotation r = None"
    using validD(9) [OF v] s by (cases "subscription_rotation r") (auto simp: guard_rotation_def)
  show "subscription_repair r = None"
    using validD(10) [OF v] s by (cases "subscription_repair r") (auto simp: guard_repair_def)
  show "subscription_resources r = None"
    using validD(12) [OF v] s
    by (cases "subscription_resources r") (auto simp: guard_subscription_resources_def)
  show "https_retirement r = None"
    using validD(3) [OF v] s by (cases "https_retirement r") (auto simp: guard_retirement_def)
  show "\<not> subscription_compromised r"
    using validD(11) [OF v] s by (auto simp: guard_compromised_def)
qed

lemma enablement_update:
  assumes v: "valid L r" and c: "current_running r"
    and idle: "serving r = None" "renewal r = None" "subscription_rotation r = None"
      "subscription_repair r = None" "subscription_resources r = None" "https_retirement r = None"
      "\<not> subscription_compromised r"
    and e': "is_none_or valid_enablement oe"
  shows "\<exists>x. with_resources L r (r\<lparr>schema := 2, subscription_enablement := oe\<rparr>) = Some x"
proof -
  note F = running_facts [OF v c]
  have "guard_enablement (r\<lparr>schema := 2, subscription_enablement := oe\<rparr>)"
    using F idle e' by (cases oe) (simp_all add: guard_enablement_def operation_context_def)
  moreover have "proxy_startup r = None \<or> schema r = 2"
    using valid_schema [OF v] valid_schema1_plain(10) [OF v] by blast
  then have "guard_startup (r\<lparr>schema := 2, subscription_enablement := oe\<rparr>)"
    using validD(13) [OF v] by (auto simp: guard_startup_def)
  ultimately show ?thesis
    by (subst valid_resources_refresh [OF v])
      (use F idle validD [OF v] in \<open>simp_all add: guard_retirement_def guard_migration_def
         guard_serving_def guard_renewal_def guard_activation_def guard_rotation_def
         guard_repair_def guard_compromised_def guard_subscription_resources_def guard_client_def\<close>)
qed


section \<open>HTTP enablement\<close>

definition enabling :: "lib \<Rightarrow> wire_ownership \<Rightarrow> bool" where
  "enabling L r =
     (valid L r \<and> current_running r
      \<and> is_some_and (\<lambda>e. is_some_and (\<lambda>x. sr_http x \<and> sr_public_ipv4 x = public_ipv4_of r) (en_resources e)
          \<and> en_checkpoint e \<in> set HTTP_ENABLEMENT_CHECKPOINTS) (subscription_enablement r))"

definition enabling_stage :: "wire_ownership \<Rightarrow> nat" where
  "enabling_stage r =
     (case subscription_enablement r of
        None \<Rightarrow> 0
      | Some e \<Rightarrow> (case position (\<lambda>c. c = en_checkpoint e) HTTP_ENABLEMENT_CHECKPOINTS of
                    None \<Rightarrow> 0 | Some i \<Rightarrow> i))"

lemma checkpoints_cases:
  assumes "c \<in> set HTTP_ENABLEMENT_CHECKPOINTS"
  obtains i where "i \<le> 13" "position (\<lambda>x. x = c) HTTP_ENABLEMENT_CHECKPOINTS = Some i"
    "HTTP_ENABLEMENT_CHECKPOINTS ! i = c"
proof -
  from assms obtain i where i: "position (\<lambda>x. x = c) HTTP_ENABLEMENT_CHECKPOINTS = Some i"
    using position_None [of "\<lambda>x. x = c"] by (cases "position (\<lambda>x. x = c) HTTP_ENABLEMENT_CHECKPOINTS") auto
  with position_Some_nth [OF i] that [of i] show thesis
    by (simp add: HTTP_ENABLEMENT_CHECKPOINTS_def)
qed

lemma checkpoints_length: "length HTTP_ENABLEMENT_CHECKPOINTS = 14"
  by (simp add: HTTP_ENABLEMENT_CHECKPOINTS_def)

lemma checkpoints_distinct: "distinct HTTP_ENABLEMENT_CHECKPOINTS"
  by (simp add: HTTP_ENABLEMENT_CHECKPOINTS_def)

lemma position_nth_distinct:
  "distinct xs \<Longrightarrow> i < length xs \<Longrightarrow> position (\<lambda>x. x = xs ! i) xs = Some i"
  by (induction xs arbitrary: i) (auto simp: less_Suc_eq_0_disj)

lemma checkpoints_bound: "c \<in> set HTTP_ENABLEMENT_CHECKPOINTS \<Longrightarrow> c \<le> 23"
  by (auto simp: HTTP_ENABLEMENT_CHECKPOINTS_def)

lemma schema_update_same: "schema r = n \<Longrightarrow> r\<lparr>schema := n\<rparr> = r"
  by (cases r) simp

text \<open>The record of an enablement that was moved to another checkpoint.\<close>

definition at_checkpoint :: "u32 \<Rightarrow> wire_serving \<Rightarrow> wire_enablement \<Rightarrow> wire_enablement" where
  "at_checkpoint c t e =
     (if 8 \<le> c then e\<lparr>en_checkpoint := c, en_serving := Some t\<rparr> else e\<lparr>en_checkpoint := c\<rparr>)"

lemma at_checkpoint_fields [simp]:
  "en_checkpoint (at_checkpoint c t e) = c" "en_resources (at_checkpoint c t e) = en_resources e"
  "en_link_id (at_checkpoint c t e) = en_link_id e" "en_renewal (at_checkpoint c t e) = en_renewal e"
  "en_credential_sha256 (at_checkpoint c t e) = en_credential_sha256 e"
  "en_recorder_id (at_checkpoint c t e) = en_recorder_id e"
  "en_serving (at_checkpoint c t e) = (if 8 \<le> c then Some t else en_serving e)"
  by (simp_all add: at_checkpoint_def)

lemma at_checkpoint_valid:
  assumes "valid_enablement e" and "en_resources e = Some res" and "sr_http res"
    and "http_digest (en_link_id e) (en_credential_sha256 e) = Some t" and "c \<le> 23"
  shows "valid_enablement (at_checkpoint c t e)"
  using assms valid_serving_http_digest [OF assms(4)]
  by (auto simp: valid_enablement_def http_digest_Some not_le split: if_splits option.splits)

lemma enabling_parts:
  assumes "enabling L r"
  obtains e res i t where "valid L r" "current_running r" "subscription_enablement r = Some e"
    "en_resources e = Some res" "sr_http res" "sr_public_ipv4 res = public_ipv4_of r"
    "i \<le> 13" "enabling_stage r = i" "HTTP_ENABLEMENT_CHECKPOINTS ! i = en_checkpoint e"
    "http_digest (en_link_id e) (en_credential_sha256 e) = Some t"
    "advance_http_enablement L r = (if i < 13 then with_resources L r
        (r\<lparr>subscription_enablement := Some (at_checkpoint (HTTP_ENABLEMENT_CHECKPOINTS ! Suc i) t e)\<rparr>)
      else None)"
proof -
  from assms obtain e res where v: "valid L r" and c: "current_running r"
    and s: "subscription_enablement r = Some e" and res: "en_resources e = Some res" "sr_http res"
      "sr_public_ipv4 res = public_ipv4_of r"
    and cp: "en_checkpoint e \<in> set HTTP_ENABLEMENT_CHECKPOINTS"
    unfolding enabling_def is_some_and_iff by blast
  from checkpoints_cases [OF cp] obtain i where i: "i \<le> 13"
    "position (\<lambda>x. x = en_checkpoint e) HTTP_ENABLEMENT_CHECKPOINTS = Some i"
    "HTTP_ENABLEMENT_CHECKPOINTS ! i = en_checkpoint e" .
  obtain t where t: "http_digest (en_link_id e) (en_credential_sha256 e) = Some t"
    using enablement_facts(9) [OF v c s]
    by (auto simp: http_digest_Some valid_enablement_def split: if_splits)
  have "next_enablement_checkpoint (en_checkpoint e) =
      (if i < 13 then Some (HTTP_ENABLEMENT_CHECKPOINTS ! Suc i) else None)"
    using i by (simp add: next_enablement_checkpoint_def nth_opt_def checkpoints_length)
  then have "advance_http_enablement L r = (if i < 13 then with_resources L r
        (r\<lparr>subscription_enablement := Some (at_checkpoint (HTTP_ENABLEMENT_CHECKPOINTS ! Suc i) t e)\<rparr>)
      else None)"
    using c s res t
    by (simp add: advance_http_enablement_def enablement_is_http_def at_checkpoint_def)
  moreover have "enabling_stage r = i" using s i by (simp add: enabling_stage_def)
  ultimately show thesis using that v c s res i t by blast
qed

lemma enabling_advances:
  assumes "enabling L r" and "enabling_stage r < 13"
  shows "\<exists>x. advance_http_enablement L r = Some x"
proof -
  from assms(1) obtain e res i t where p: "valid L r" "current_running r"
    "subscription_enablement r = Some e" "en_resources e = Some res" "sr_http res"
    "i \<le> 13" "enabling_stage r = i"
    "http_digest (en_link_id e) (en_credential_sha256 e) = Some t"
    "advance_http_enablement L r = (if i < 13 then with_resources L r
        (r\<lparr>subscription_enablement := Some (at_checkpoint (HTTP_ENABLEMENT_CHECKPOINTS ! Suc i) t e)\<rparr>)
      else None)"
    by (rule enabling_parts)
  note F = enablement_facts [OF p(1,2,3)]
  have "valid_enablement (at_checkpoint (HTTP_ENABLEMENT_CHECKPOINTS ! Suc i) t e)"
    using at_checkpoint_valid [OF F(9) p(4,5,8)] checkpoints_bound p(7) assms(2)
    by (simp add: checkpoints_length)
  then have "\<exists>x. with_resources L r (r\<lparr>schema := 2, subscription_enablement :=
      Some (at_checkpoint (HTTP_ENABLEMENT_CHECKPOINTS ! Suc i) t e)\<rparr>) = Some x"
    by (intro enablement_update [OF p(1,2)]) (use F in simp_all)
  then show ?thesis using p(7,9) assms(2) by (simp add: schema_update_same [OF F(1)])
qed

lemma enabling_step:
  assumes "enabling L r" and x: "advance_http_enablement L r = Some x"
  shows "enabling L x \<and> enabling_stage x = Suc (enabling_stage r)"
proof -
  from assms(1) obtain e res i t where p: "valid L r" "current_running r"
    "subscription_enablement r = Some e" "en_resources e = Some res" "sr_http res"
    "sr_public_ipv4 res = public_ipv4_of r" "i \<le> 13" "enabling_stage r = i"
    "advance_http_enablement L r = (if i < 13 then with_resources L r
        (r\<lparr>subscription_enablement := Some (at_checkpoint (HTTP_ENABLEMENT_CHECKPOINTS ! Suc i) t e)\<rparr>)
      else None)"
    by (rule enabling_parts)
  let ?e = "at_checkpoint (HTTP_ENABLEMENT_CHECKPOINTS ! Suc i) t e"
  from x p(9) have i: "i < 13" and w: "with_resources L r (r\<lparr>subscription_enablement := Some ?e\<rparr>) = Some x"
    by (auto split: if_splits)
  note K = with_resources_keeps [OF w]
  have "public_ipv4_of x = public_ipv4_of r" using w by (auto simp: with_resources_Some)
  moreover have "current_running x" using K(2) p(2) by (simp add: current_running_def)
  ultimately have "enabling L x"
    using K(1,3) p i by (simp add: enabling_def checkpoints_length)
  moreover have "enabling_stage x = Suc i"
    using K(3) position_nth_distinct [OF checkpoints_distinct, of "Suc i"] i
    by (simp add: enabling_stage_def checkpoints_length)
  ultimately show ?thesis using p(8) by simp
qed

interpretation enablement: staged "enabling L" enabling_stage "\<lambda>_. 13" "advance_http_enablement L" for L
proof (unfold_locales, goal_cases)
  case (1 r)
  then show ?case using enabling_parts by metis
next
  case (2 r)
  then show ?case by (rule enabling_advances)
next
  case (3 r s)
  then show ?case using enabling_step by simp
qed

lemma no_pending_facts:
  assumes "pending_change r = None"
  shows "subscription_enablement r = None" "subscription_rotation r = None"
    "subscription_repair r = None" "client_identity_rotation r = None"
    "certificate_activation r = None" "unfinished_direction r \<noteq> Removal"
    "\<not> subscription_transport_migration r"
  using assms by (auto simp: pending_change_def split: if_splits option.splits)

lemma begin_enablement_ok:
  assumes v: "valid L r" and c: "current_running r" and p: "pending_change r = None"
    and n: "serving r = None"
    and s: "nonzero_hex l 32" "nonzero_hex (sha256_hex L k) 64"
    and ip: "canonical_ipv4 (public_ipv4_of r)" and fw: "lower_hex fw 64"
    and rec: "nonzero_hex rid 32"
  shows "\<exists>x. begin_http_enablement L r l k rid fw = Some x \<and> enabling L x \<and> enabling_stage x = 0"
proof -
  note P = no_pending_facts [OF p]
  have N: "renewal r = None" "subscription_resources r = None" "https_retirement r = None"
    "\<not> subscription_compromised r"
  proof -
    show "renewal r = None"
      using validD(6) [OF v] n by (cases "renewal r") (auto simp: guard_renewal_def)
    show "subscription_resources r = None"
      using validD(12) [OF v] n
      by (cases "subscription_resources r") (auto simp: guard_subscription_resources_def)
    show "https_retirement r = None"
      using validD(3) [OF v] n by (cases "https_retirement r") (auto simp: guard_retirement_def)
    show "\<not> subscription_compromised r"
      using validD(11) [OF v] n by (auto simp: guard_compromised_def)
  qed
  obtain t where t: "serving_http L l k = Some t" "sv_link_id t = l" "sv_credential_sha256 t = sha256_hex L k"
    using s by (simp add: serving_http_def http_digest_Some)
  obtain res where res: "resources_http (public_ipv4_of r) fw = Some res"
    "sr_public_ipv4 res = public_ipv4_of r" "sr_http res" "valid_subscription_resources res"
    using ip fw by (simp add: resources_http_Some valid_subscription_resources_def)
  let ?e = "\<lparr>en_checkpoint = 0, en_link_id = sv_link_id t,
           en_credential_sha256 = sv_credential_sha256 t, en_recorder_id = rid,
           en_serving = None, en_renewal = None, en_resources = Some res\<rparr>"
  have "valid_enablement ?e" using s t rec res by (simp add: valid_enablement_def)
  then obtain x where x: "with_resources L r (r\<lparr>schema := 2, subscription_enablement := Some ?e\<rparr>) = Some x"
    using enablement_update [OF v c n N(1) P(2,3) N(2,3,4), of "Some ?e"] by auto
  note K = with_resources_keeps [OF x]
  have ip_x: "public_ipv4_of x = public_ipv4_of r" using x by (auto simp: with_resources_Some)
  have "enabling L x"
    using K(1,2,3) c ip_x res by (simp add: enabling_def current_running_def HTTP_ENABLEMENT_CHECKPOINTS_def)
  moreover have "enabling_stage x = 0"
    using K(3) by (simp add: enabling_stage_def HTTP_ENABLEMENT_CHECKPOINTS_def)
  moreover have "begin_http_enablement L r l k rid fw = Some x"
    using c p n N t res x by (simp add: begin_http_enablement_def)
  ultimately show ?thesis by blast
qed

lemma serving_update:
  assumes v: "valid L r" and c: "current_running r" and r: "renewal r = None" "https_retirement r = None"
      "\<not> subscription_compromised r" "subscription_rotation r = None" "subscription_repair r = None"
    and s: "valid_serving s" "sv_http s" and res: "valid_subscription_resources res" "sr_http res"
      "sr_public_ipv4 res = public_ipv4_of r" and 2: "schema r = 2"
  shows "\<exists>x. with_resources L r (r\<lparr>serving := Some s, subscription_resources := Some res,
      subscription_enablement := None\<rparr>) = Some x"
proof -
  note F = running_facts [OF v c]
  show ?thesis
    by (subst valid_resources_refresh [OF v])
      (use F r s res 2 validD [OF v] in \<open>simp_all add: guard_retirement_def guard_migration_def
         guard_serving_def guard_renewal_def guard_activation_def guard_rotation_def
         guard_enablement_def guard_repair_def guard_compromised_def
         guard_subscription_resources_def guard_client_def\<close>)
qed

lemma commit_enablement_ok:
  assumes en: "enabling L r" and last: "enabling_stage r = 13"
    and e: "subscription_enablement r = Some e"
  shows "\<exists>x. commit_http_enablement L r = Some x \<and> valid L x \<and> idle_http x
    \<and> serving x = http_digest (en_link_id e) (en_credential_sha256 e)
    \<and> subscription_resources x = en_resources e"
proof -
  from en obtain e' res i t where p: "valid L r" "current_running r"
    "subscription_enablement r = Some e'" "en_resources e' = Some res" "sr_http res"
    "sr_public_ipv4 res = public_ipv4_of r" "enabling_stage r = i"
    "HTTP_ENABLEMENT_CHECKPOINTS ! i = en_checkpoint e'"
    "http_digest (en_link_id e') (en_credential_sha256 e') = Some t"
    by (rule enabling_parts)
  have e': "e' = e" using p(3) e by simp
  have cp: "en_checkpoint e = 23" using p(7,8) last e' by (simp add: HTTP_ENABLEMENT_CHECKPOINTS_def)
  note F = enablement_facts [OF p(1,2) e]
  have ve: "valid_subscription_resources res \<and> (\<exists>s. en_serving e = Some s \<and> sv_http s \<and> valid_serving s
      \<and> sv_link_id s = en_link_id e \<and> sv_credential_sha256 s = en_credential_sha256 e)"
    using F(9) cp p(4,5) e' by (auto simp: valid_enablement_def split: if_splits option.splits)
  then obtain s where s: "en_serving e = Some s" "sv_http s" "valid_serving s"
      "sv_link_id s = en_link_id e" "sv_credential_sha256 s = en_credential_sha256 e" by blast
  have st: "http_digest (en_link_id e) (en_credential_sha256 e) = Some s"
    using valid_http_serving [OF s(3,2)] s(4,5) by simp
  obtain x where x: "with_resources L r (r\<lparr>serving := Some s, subscription_resources := Some res,
      subscription_enablement := None\<rparr>) = Some x"
    using serving_update [OF p(1,2) F(3,7,8,4,5) s(3,2) _ p(5,6) F(1)] ve by blast
  note K = with_resources_keeps [OF x]
  have "commit_http_enablement L r = Some x"
    using p(2,4,5) e e' cp s x by (simp add: commit_http_enablement_def enablement_is_http_def)
  moreover have "idle_http x"
    using K(2,3,4,5,6,9,10) running_facts [OF p(1,2)] F s(2)
    by (simp add: idle_http_def current_running_def pending_change_def)
  ultimately show ?thesis using K(1,6,7) st p(4) e' by auto
qed

text \<open>Enablement as a whole: accepted, thirteen checkpoints, one commit.\<close>

lemma iter_enablement_link:
  "enabling L r \<Longrightarrow> iter_opt n (advance_http_enablement L) r = Some x \<Longrightarrow>
     map_option (\<lambda>e. (en_link_id e, en_credential_sha256 e, en_resources e)) (subscription_enablement x)
     = map_option (\<lambda>e. (en_link_id e, en_credential_sha256 e, en_resources e)) (subscription_enablement r)"
proof (induction n arbitrary: r)
  case (Suc n)
  then obtain y where y: "advance_http_enablement L r = Some y" "iter_opt n (advance_http_enablement L) y = Some x"
    by (auto simp: bind_eq_Some_conv)
  from Suc.prems(1) obtain e i t where p: "subscription_enablement r = Some e"
    "advance_http_enablement L r = (if i < 13 then with_resources L r
        (r\<lparr>subscription_enablement := Some (at_checkpoint (HTTP_ENABLEMENT_CHECKPOINTS ! Suc i) t e)\<rparr>)
      else None)"
    by (rule enabling_parts)
  then have w: "with_resources L r (r\<lparr>subscription_enablement :=
      Some (at_checkpoint (HTTP_ENABLEMENT_CHECKPOINTS ! Suc i) t e)\<rparr>) = Some y"
    using y(1) by (auto split: if_splits)
  show ?case
    using Suc.IH [of y] enabling_step [OF Suc.prems(1) y(1)] y(2) with_resources_keeps(3) [OF w] p(1)
    by simp
qed simp

lemma enablement_completes:
  assumes v: "valid L r" and c: "current_running r" and p: "pending_change r = None"
    and n: "serving r = None"
    and s: "http_digest l (sha256_hex L k) = Some t"
    and res: "resources_http (public_ipv4_of r) fw = Some res"
    and rid: "nonzero_hex rid 32"
  shows "\<exists>b m x. begin_http_enablement L r l k rid fw = Some b
    \<and> iter_opt 13 (advance_http_enablement L) b = Some m
    \<and> commit_http_enablement L m = Some x
    \<and> valid L x \<and> idle_http x \<and> serving x = Some t \<and> subscription_resources x = Some res"
proof -
  from s have h: "nonzero_hex l 32" "nonzero_hex (sha256_hex L k) 64" by (simp_all add: http_digest_Some)
  from res have ip: "canonical_ipv4 (public_ipv4_of r)" "lower_hex fw 64" by (simp_all add: resources_http_Some)
  obtain b where b: "begin_http_enablement L r l k rid fw = Some b" "enabling L b" "enabling_stage b = 0"
    using begin_enablement_ok [OF v c p n h ip rid] by blast
  obtain m where m: "iter_opt 13 (advance_http_enablement L) b = Some m" "enabling L m" "enabling_stage m = 13"
    using enablement.completes [OF b(2)] b(3) by auto
  have eb: "map_option (\<lambda>e. (en_link_id e, en_credential_sha256 e, en_resources e)) (subscription_enablement b)
    = Some (l, sha256_hex L k, Some res)"
    using b(1) s res
    by (auto simp: begin_http_enablement_def serving_http_def http_digest_Some bind_eq_Some_conv
        with_resources_Some split: if_splits)
  then obtain e where e: "subscription_enablement m = Some e" "en_link_id e = l"
    "en_credential_sha256 e = sha256_hex L k" "en_resources e = Some res"
    using iter_enablement_link [OF b(2) m(1)] by auto
  from commit_enablement_ok [OF m(2,3) e(1)] show ?thesis using b m e s by auto
qed

section \<open>Operations on a serving subscription\<close>

definition rotation_at :: "wire_serving \<Rightarrow> wire_rotation \<Rightarrow> bool" where
  "rotation_at s v =
     (valid_rotation v \<and> (if ro_checkpoint v = ''committed'' then s = ro_target v else s = ro_source v))"

definition repair_fits :: "wire_serving \<Rightarrow> wire_repair \<Rightarrow> bool" where
  "repair_fits s v =
     (valid_repair v \<and> rp_correction v = RESTART
      \<and> (if rp_checkpoint v = ''accepted'' then rp_target v = Some s else s = rp_source v))"

lemma serving_facts:
  assumes v: "valid L r" and c: "current_running r" and s: "serving r = Some s" and h: "sv_http s"
  shows "schema r = 2" "renewal r = None" "valid_serving s" "subscription_enablement r = None"
    "\<exists>v. subscription_resources r = Some v \<and> sr_http v"
    "is_none_or (rotation_at s) (subscription_rotation r)"
    "is_none_or (repair_fits s) (subscription_repair r)"
    "subscription_rotation r = None \<or> subscription_repair r = None"
proof -
  show "schema r = 2" using schema2_of [OF v] s h by simp
  have g: "guard_serving r" using v by (rule validD)
  show "renewal r = None" "valid_serving s" "\<exists>v. subscription_resources r = Some v \<and> sr_http v"
    using g s h by (auto simp: guard_serving_def is_Some_def is_some_and_iff)
  show "subscription_enablement r = None"
    using validD(8) [OF v] s by (cases "subscription_enablement r") (auto simp: guard_enablement_def)
  show "is_none_or (rotation_at s) (subscription_rotation r)"
    using validD(9) [OF v] s by (cases "subscription_rotation r") (auto simp: guard_rotation_def rotation_at_def)
  have "rp_correction w = RESTART" if "subscription_repair r = Some w" for w
    using g s h that by (auto simp: guard_serving_def)
  then show "is_none_or (repair_fits s) (subscription_repair r)"
    using validD(10) [OF v] s by (cases "subscription_repair r") (auto simp: guard_repair_def repair_fits_def)
  show "subscription_rotation r = None \<or> subscription_repair r = None"
    using validD(10) [OF v] by (cases "subscription_repair r") (auto simp: guard_repair_def is_Some_def)
qed

lemma operation_update:
  assumes v: "valid L r" and c: "current_running r" and s: "serving r = Some s" and h: "sv_http s"
    and s': "valid_serving s'" "sv_http s'"
    and ro: "is_none_or (rotation_at s') oro" and rp: "is_none_or (repair_fits s') orp"
    and one: "oro = None \<or> orp = None"
  shows "\<exists>x. with_resources L r (r\<lparr>serving := Some s', subscription_rotation := oro,
      subscription_repair := orp, subscription_compromised := b\<rparr>) = Some x"
proof -
  let ?n = "r\<lparr>serving := Some s', subscription_rotation := oro,
      subscription_repair := orp, subscription_compromised := b\<rparr>"
  note F = running_facts [OF v c] and S = serving_facts [OF v c s h]
  obtain res where res: "subscription_resources r = Some res" "sr_http res" using S(5) by blast
  have "guard_retirement ?n"
    using validD(3) [OF v] S s' by (cases "https_retirement r") (auto simp: guard_retirement_def)
  moreover have "guard_serving ?n"
    using F S s' rp res by (cases orp) (auto simp: guard_serving_def repair_fits_def)
  moreover have "guard_rotation ?n"
    using F S s' ro by (cases oro) (auto simp: guard_rotation_def rotation_at_def operation_context_def)
  moreover have "guard_repair ?n"
    using F S s' rp one by (cases orp) (auto simp: guard_repair_def repair_fits_def operation_context_def)
  moreover have "guard_subscription_resources ?n"
    using validD(12) [OF v] s h s' res by (auto simp: guard_subscription_resources_def)
  ultimately show ?thesis
    by (subst valid_resources_refresh [OF v])
      (use F S s' validD [OF v] in \<open>simp_all add: guard_migration_def
         guard_renewal_def guard_activation_def guard_enablement_def guard_compromised_def
         guard_client_def\<close>)
qed

lemma operation_forms:
  assumes "serving r = Some s"
  shows "subscription_repair r = None \<Longrightarrow> r\<lparr>subscription_rotation := a\<rparr>
      = r\<lparr>serving := Some s, subscription_rotation := a, subscription_repair := None,
          subscription_compromised := subscription_compromised r\<rparr>"
    and "subscription_repair r = None \<Longrightarrow> r\<lparr>subscription_rotation := a, serving := t\<rparr>
      = r\<lparr>serving := t, subscription_rotation := a, subscription_repair := None,
          subscription_compromised := subscription_compromised r\<rparr>"
    and "subscription_repair r = None \<Longrightarrow> r\<lparr>subscription_rotation := a, subscription_compromised := b\<rparr>
      = r\<lparr>serving := Some s, subscription_rotation := a, subscription_repair := None,
          subscription_compromised := b\<rparr>"
    and "subscription_rotation r = None \<Longrightarrow> r\<lparr>subscription_repair := p\<rparr>
      = r\<lparr>serving := Some s, subscription_rotation := None, subscription_repair := p,
          subscription_compromised := subscription_compromised r\<rparr>"
    and "subscription_rotation r = None \<Longrightarrow> r\<lparr>subscription_repair := p, serving := t\<rparr>
      = r\<lparr>serving := t, subscription_rotation := None, subscription_repair := p,
          subscription_compromised := subscription_compromised r\<rparr>"
    and "r\<lparr>subscription_compromised := b\<rparr>
      = r\<lparr>serving := Some s, subscription_rotation := subscription_rotation r,
          subscription_repair := subscription_repair r, subscription_compromised := b\<rparr>"
  using assms by (cases r; simp)+

definition serves_http :: "wire_ownership \<Rightarrow> bool" where
  "serves_http r = (current_running r \<and> is_some_and sv_http (serving r))"

definition rotating :: "lib \<Rightarrow> wire_ownership \<Rightarrow> bool" where
  "rotating L r = (valid L r \<and> serves_http r \<and> subscription_rotation r \<noteq> None)"

definition rotation_stage :: "wire_ownership \<Rightarrow> nat" where
  "rotation_stage r =
     (case subscription_rotation r of
        None \<Rightarrow> 0
      | Some v \<Rightarrow> if ro_checkpoint v = ''target authorized'' then 0
                  else if ro_checkpoint v = ''stop authorized'' then 1 else 2)"

lemma rotating_parts:
  assumes "rotating L r"
  obtains v s where "valid L r" "current_running r" "serving r = Some s" "sv_http s"
    "subscription_rotation r = Some v" "valid_rotation v" "rotation_at s v" "subscription_repair r = None"
    "sv_http (ro_source v)" "sv_http (ro_target v)"
proof -
  from assms obtain v s where p: "valid L r" "current_running r" "serving r = Some s" "sv_http s"
    "subscription_rotation r = Some v"
    unfolding rotating_def serves_http_def is_some_and_iff by blast
  note S = serving_facts [OF p(1-4)]
  from S(6) p(5) have a: "rotation_at s v" by simp
  then have w: "valid_rotation v" by (simp add: rotation_at_def)
  then have "sv_http (ro_source v) = sv_http (ro_target v)"
    by (auto simp: valid_rotation_def split: option.splits)
  then have "sv_http (ro_source v)" "sv_http (ro_target v)"
    using a p(4) by (auto simp: rotation_at_def split: if_splits)
  then show thesis using that [OF p(1-5) w a] S(8) p(5) by simp
qed

definition rotation_next :: "wire_rotation \<Rightarrow> wire_rotation" where
  "rotation_next v =
     (if ro_checkpoint v = ''target authorized''
      then v\<lparr>ro_checkpoint := ''stop authorized'', ro_completed_effects := Some [''target prepared'']\<rparr>
      else v\<lparr>ro_checkpoint := ''committed'', ro_direction := ''forward'',
             ro_completed_effects := Some [''target prepared'', ''source stopped'']\<rparr>)"

lemma rotation_next_valid:
  "valid_rotation v \<Longrightarrow> ro_checkpoint v \<noteq> ''committed'' \<Longrightarrow> valid_rotation (rotation_next v)"
  by (auto simp: valid_rotation_def rotation_expected_def rotation_next_def equal_effects_def
      split: if_splits)

lemma advance_rotation_eq:
  assumes "current_running r" "serving r = Some s" "subscription_repair r = None"
    and "subscription_rotation r = Some v" "valid_rotation v" "rotation_at s v" "sv_http (ro_source v)"
  shows "advance_http_link_rotation L r =
     (if ro_checkpoint v = ''committed'' then None
      else with_resources L r (r\<lparr>serving := Some (if ro_checkpoint v = ''stop authorized'' then ro_target v else s),
        subscription_rotation := Some (rotation_next v), subscription_repair := None,
        subscription_compromised := subscription_compromised r\<rparr>))"
proof -
  have "ro_checkpoint v = ''target authorized'' \<or> ro_checkpoint v = ''stop authorized''
      \<or> ro_checkpoint v = ''committed''"
    using assms(5) by (auto simp: valid_rotation_def rotation_expected_def split: if_splits)
  then show ?thesis
  proof (elim disjE)
    assume c: "ro_checkpoint v = ''target authorized''"
    have "advance_http_link_rotation L r = with_resources L r (r\<lparr>subscription_rotation := Some (rotation_next v)\<rparr>)"
      using assms c by (simp add: advance_http_link_rotation_def rotation_next_def)
    then show ?thesis unfolding operation_forms(1) [OF assms(2,3)] using c by simp
  next
    assume c: "ro_checkpoint v = ''stop authorized''"
    have "advance_http_link_rotation L r = with_resources L r
        (r\<lparr>subscription_rotation := Some (rotation_next v), serving := Some (ro_target v)\<rparr>)"
      using assms c by (simp add: advance_http_link_rotation_def rotation_next_def)
    then show ?thesis unfolding operation_forms(2) [OF assms(2,3)] using c by simp
  next
    assume c: "ro_checkpoint v = ''committed''"
    then show ?thesis using assms by (simp add: advance_http_link_rotation_def)
  qed
qed

lemma rotation_next_checkpoint:
  "ro_checkpoint (rotation_next v) = (if ro_checkpoint v = ''target authorized'' then ''stop authorized''
     else ''committed'')"
  "ro_source (rotation_next v) = ro_source v" "ro_target (rotation_next v) = ro_target v"
  by (simp_all add: rotation_next_def)

lemma serves_after:
  assumes w: "with_resources L r n = Some x" and n: "current_running n" "serving n = Some s" "sv_http s"
  shows "valid L x" "serves_http x" "subscription_rotation x = subscription_rotation n"
    "subscription_repair x = subscription_repair n" "serving x = serving n"
  using with_resources_keeps [OF w] n by (simp_all add: serves_http_def)

lemma rotation_checkpoint_cases:
  "valid_rotation v \<Longrightarrow> ro_checkpoint v = ''target authorized'' \<or> ro_checkpoint v = ''stop authorized''
     \<or> ro_checkpoint v = ''committed''"
  by (auto simp: valid_rotation_def rotation_expected_def split: if_splits)

interpretation rotation: staged "rotating L" rotation_stage "\<lambda>_. 2" "advance_http_link_rotation L" for L
proof (unfold_locales, goal_cases)
  case (1 r)
  then show ?case by (simp add: rotation_stage_def split: option.splits)
next
  case (2 r)
  from 2(1) obtain v s where p: "valid L r" "current_running r" "serving r = Some s" "sv_http s"
    "subscription_rotation r = Some v" "valid_rotation v" "rotation_at s v" "subscription_repair r = None"
    "sv_http (ro_source v)" "sv_http (ro_target v)" by (rule rotating_parts)
  from 2(2) p(5) have n: "ro_checkpoint v \<noteq> ''committed''" by (auto simp: rotation_stage_def split: if_splits)
  let ?s = "if ro_checkpoint v = ''stop authorized'' then ro_target v else s"
  have "valid_serving ?s" "sv_http ?s"
    using p(4,6,7,10) n serving_facts(3) [OF p(1-4)]
    by (auto simp: valid_rotation_def split: option.splits)
  moreover have "rotation_at ?s (rotation_next v)"
    using rotation_next_valid [OF p(6) n] rotation_checkpoint_cases [OF p(6)] n p(7)
    by (auto simp: rotation_at_def rotation_next_checkpoint)
  ultimately show ?case
    using operation_update [OF p(1-4), of ?s "Some (rotation_next v)" None "subscription_compromised r"]
      advance_rotation_eq [OF p(2,3,8,5,6,7,9)] n by simp
next
  case (3 r x)
  from 3(1) obtain v s where p: "valid L r" "current_running r" "serving r = Some s" "sv_http s"
    "subscription_rotation r = Some v" "valid_rotation v" "rotation_at s v" "subscription_repair r = None"
    "sv_http (ro_source v)" "sv_http (ro_target v)" by (rule rotating_parts)
  let ?n = "r\<lparr>serving := Some (if ro_checkpoint v = ''stop authorized'' then ro_target v else s),
        subscription_rotation := Some (rotation_next v), subscription_repair := None,
        subscription_compromised := subscription_compromised r\<rparr>"
  from 3(2) have n: "ro_checkpoint v \<noteq> ''committed''" and w: "with_resources L r ?n = Some x"
    unfolding advance_rotation_eq [OF p(2,3,8,5,6,7,9)] by (auto split: if_splits)
  have "current_running ?n" using p(2) by (simp add: current_running_def)
  note A = serves_after [OF w this]
  have "valid L x" "serves_http x" "subscription_rotation x = Some (rotation_next v)"
    using A p(4,10) by simp_all
  then show ?case
    using p(5) n rotation_checkpoint_cases [OF p(6)]
    by (auto simp: rotating_def rotation_stage_def rotation_next_checkpoint)
qed


text \<open>Runtime repair.\<close>

definition repairing :: "lib \<Rightarrow> wire_ownership \<Rightarrow> bool" where
  "repairing L r = (valid L r \<and> serves_http r \<and> subscription_repair r \<noteq> None)"

definition repair_stage :: "wire_ownership \<Rightarrow> nat" where
  "repair_stage r =
     (case subscription_repair r of
        None \<Rightarrow> 0
      | Some v \<Rightarrow> if rp_checkpoint v = ''prepared'' then 0
                  else if rp_checkpoint v = ''committed'' then (if rp_target v = None then 1 else 2)
                  else 3)"

definition repair_next :: "wire_repair \<Rightarrow> wire_repair" where
  "repair_next v =
     (if rp_checkpoint v = ''prepared'' then v\<lparr>rp_checkpoint := ''committed'', rp_direction := ''forward''\<rparr>
      else if rp_target v = None then v\<lparr>rp_target := Some (rp_source v)\<rparr>
      else v\<lparr>rp_checkpoint := ''accepted'', rp_completed_effects := Some (rp_effects v)\<rparr>)"

lemma valid_restart_iff:
  assumes c: "rp_correction v = RESTART"
  shows "valid_repair v \<longleftrightarrow> nonzero_hex (rp_operation_id v) 32 \<and> rp_kind v = ''repair subscription''
    \<and> valid_serving (rp_source v) \<and> rp_effects v = [RESTART]
    \<and> (rp_checkpoint v = ''prepared'' \<and> rp_direction v = ''cleanup'' \<and> rp_target v = None
         \<and> equal_effects (rp_completed_effects v) []
       \<or> rp_checkpoint v = ''committed'' \<and> rp_direction v = ''forward''
         \<and> (rp_target v = None \<or> rp_target v = Some (rp_source v))
         \<and> equal_effects (rp_completed_effects v) []
       \<or> rp_checkpoint v = ''accepted'' \<and> rp_direction v = ''forward''
         \<and> rp_target v = Some (rp_source v) \<and> equal_effects (rp_completed_effects v) [RESTART])"
proof -
  have ne: "RESTART \<noteq> RENEW" by (simp add: RESTART_def RENEW_def)
  consider "rp_checkpoint v = ''prepared''" | "rp_checkpoint v = ''committed''"
    | "rp_checkpoint v = ''accepted''"
    | "rp_checkpoint v \<notin> {''prepared'', ''committed'', ''accepted''}" by blast
  then show ?thesis
    by cases (cases "rp_target v"; use c ne compatible_target_refl in
        \<open>auto simp: valid_repair_def repair_effects_def Let_def\<close>)+
qed

lemma repair_fits_iff:
  "repair_fits s v \<longleftrightarrow> rp_correction v = RESTART \<and> valid_repair v \<and> rp_source v = s"
  by (auto simp: repair_fits_def valid_restart_iff)

lemma repairing_parts:
  assumes "repairing L r"
  obtains v s where "valid L r" "current_running r" "serving r = Some s" "sv_http s"
    "subscription_repair r = Some v" "repair_fits s v" "subscription_rotation r = None"
    "rp_source v = s"
proof -
  from assms obtain v s where p: "valid L r" "current_running r" "serving r = Some s" "sv_http s"
    "subscription_repair r = Some v"
    unfolding repairing_def serves_http_def is_some_and_iff by blast
  note S = serving_facts [OF p(1-4)]
  from S(7) p(5) have a: "repair_fits s v" by simp
  then show thesis using that [OF p(1-5) a] S(8) p(5) by (simp add: repair_fits_iff)
qed

lemma repair_cases:
  assumes "repair_fits s v"
  shows "rp_checkpoint v = ''prepared'' \<and> rp_target v = None \<or> rp_checkpoint v = ''committed''
      \<and> (rp_target v = None \<or> rp_target v = Some s) \<or> rp_checkpoint v = ''accepted'' \<and> rp_target v = Some s"
  using assms by (auto simp: repair_fits_iff valid_restart_iff)

lemma repair_next_fits:
  assumes "repair_fits s v" "rp_checkpoint v \<noteq> ''accepted''"
  shows "repair_fits s (repair_next v)"
  using assms by (auto simp: repair_fits_iff valid_restart_iff repair_next_def equal_effects_def)

lemma repair_target: "repair_fits s v \<Longrightarrow> rp_target v \<noteq> None \<Longrightarrow> rp_target v = Some s"
  using repair_cases by fastforce

lemma advance_repair_eq:
  assumes p: "current_running r" "serving r = Some s" "subscription_rotation r = None"
    and v: "subscription_repair r = Some v" "repair_fits s v" "rp_source v = s" "sv_http s"
  shows "advance_http_runtime_repair L r =
     (if rp_checkpoint v = ''accepted'' then None
      else with_resources L r (r\<lparr>serving := Some s, subscription_rotation := None,
        subscription_repair := Some (repair_next v),
        subscription_compromised := subscription_compromised r\<rparr>))"
proof -
  have c: "rp_correction v = RESTART" using v(2) by (simp add: repair_fits_def)
  have k: "rp_checkpoint v = ''prepared'' \<or> rp_checkpoint v = ''committed'' \<or> rp_checkpoint v = ''accepted''"
    using repair_cases [OF v(2)] by blast
  show ?thesis
  proof (cases "rp_checkpoint v = ''committed'' \<and> rp_target v \<noteq> None")
    case True
    have "advance_http_runtime_repair L r = with_resources L r
        (r\<lparr>subscription_repair := Some (repair_next v), serving := Some s\<rparr>)"
      using p v c True repair_target [OF v(2)]
      by (simp add: advance_http_runtime_repair_def repair_next_def)
    then show ?thesis unfolding operation_forms(5) [OF p(2,3)] using True by simp
  next
    case False
    have "advance_http_runtime_repair L r = (if rp_checkpoint v = ''accepted'' then None
        else with_resources L r (r\<lparr>subscription_repair := Some (repair_next v)\<rparr>))"
      using p v c False k by (auto simp: advance_http_runtime_repair_def repair_next_def)
    then show ?thesis unfolding operation_forms(4) [OF p(2,3)] .
  qed
qed

interpretation repair: staged "repairing L" repair_stage "\<lambda>_. 3" "advance_http_runtime_repair L" for L
proof (unfold_locales, goal_cases)
  case (1 r)
  then show ?case by (simp add: repair_stage_def split: option.splits)
next
  case (2 r)
  from 2(1) obtain v s where p: "valid L r" "current_running r" "serving r = Some s" "sv_http s"
    "subscription_repair r = Some v" "repair_fits s v" "subscription_rotation r = None"
    "rp_source v = s" by (rule repairing_parts)
  from 2(2) p(5) have n: "rp_checkpoint v \<noteq> ''accepted''" by (auto simp: repair_stage_def split: if_splits)
  show ?case
    using operation_update [OF p(1-4) serving_facts(3) [OF p(1-4)] p(4), of None "Some (repair_next v)"
        "subscription_compromised r"] repair_next_fits [OF p(6) n]
      advance_repair_eq [OF p(2,3,7,5,6,8,4)] n by simp
next
  case (3 r x)
  from 3(1) obtain v s where p: "valid L r" "current_running r" "serving r = Some s" "sv_http s"
    "subscription_repair r = Some v" "repair_fits s v" "subscription_rotation r = None"
    "rp_source v = s" by (rule repairing_parts)
  let ?n = "r\<lparr>serving := Some s, subscription_rotation := None,
        subscription_repair := Some (repair_next v),
        subscription_compromised := subscription_compromised r\<rparr>"
  from 3(2) have n: "rp_checkpoint v \<noteq> ''accepted''" and w: "with_resources L r ?n = Some x"
    unfolding advance_repair_eq [OF p(2,3,7,5,6,8,4)] by (auto split: if_splits)
  have "current_running ?n" using p(2) by (simp add: current_running_def)
  note A = serves_after [OF w this]
  have a: "valid L x" "serves_http x" "subscription_repair x = Some (repair_next v)"
    using A p(4) by simp_all
  have "rp_checkpoint v = ''prepared'' \<and> rp_target v = None \<or> rp_checkpoint v = ''committed''"
    using repair_cases [OF p(6)] n by blast
  then show ?case
    using p(5) a by (auto simp: repairing_def repair_stage_def repair_next_def)
qed

lemma rotation_committed:
  assumes "rotating L r" "rotation_stage r = 2" "subscription_rotation r = Some v"
  shows "ro_checkpoint v = ''committed''"
proof -
  obtain u where u: "valid_rotation u" "subscription_rotation r = Some u"
    using assms(1) by (rule rotating_parts)
  show ?thesis
    using u assms by (auto simp: rotation_stage_def valid_rotation_def rotation_expected_def split: if_splits option.splits)
qed

end
