(* ===== verification/Setup_Progress.thy ===== *)
theory Setup_Progress
  imports Record_Laws Staged
begin

text \<open>
  Progress of setup and of setup cleanup on the record (\<open>src/records/ownership.rs\<close>): the
  constructors accept exactly the arguments they should, setup advances through its fourteen phases
  one at a time, and cleanup through its eight checkpoints.
\<close>

section \<open>Setup and setup cleanup\<close>

definition setting_up :: "lib \<Rightarrow> wire_ownership \<Rightarrow> bool" where
  "setting_up L r = (valid L r \<and> cleanup_checkpoint r = 0 \<and> phase r \<noteq> RemovalCommitted)"

definition setup_stage :: "wire_ownership \<Rightarrow> nat" where
  "setup_stage r = (case position (\<lambda>p. p = phase r) PHASES of None \<Rightarrow> 0 | Some i \<Rightarrow> i)"

lemma next_phase_stage:
  "p \<noteq> RemovalCommitted \<Longrightarrow> next_phase p = (case position (\<lambda>q. q = p) PHASES of
      None \<Rightarrow> None | Some i \<Rightarrow> if i < 13 then Some (PHASES ! Suc i) else None)"
  by (cases p) (simp_all add: PHASES_def)

lemma setup_stage_bound: "phase r \<noteq> RemovalCommitted \<Longrightarrow> setup_stage r \<le> 13"
  by (cases "phase r") (simp_all add: setup_stage_def PHASES_def)

lemma setup_stage_Running: "setup_stage r = 13 \<longleftrightarrow> phase r = Running"
  by (cases "phase r") (simp_all add: setup_stage_def PHASES_def)

lemma setup_stage_next:
  assumes "next_phase (phase r) = Some q" "phase s = q"
  shows "setup_stage s = Suc (setup_stage r)"
  using assms by (cases "phase r") (auto simp: setup_stage_def PHASES_def)

lemma next_phase_some: "phase r \<noteq> RemovalCommitted \<Longrightarrow> setup_stage r < 13 \<Longrightarrow> \<exists>q. next_phase (phase r) = Some q"
  by (cases "phase r") (simp_all add: setup_stage_def PHASES_def)

lemma next_setup_checkpoint_Some:
  assumes "next_setup_checkpoint L r = Some s"
  obtains q where "next_phase (phase r) = Some q" "cleanup_checkpoint r = 0" "valid L s"
    "s = r\<lparr>phase := q, unfinished_direction := recovery_direction q\<rparr>"
  using assms by (auto simp: next_setup_checkpoint_def split: if_splits option.splits)

interpretation setup_progress: staged "setting_up L" setup_stage "\<lambda>_. 13" "next_setup_checkpoint L" for L
proof (unfold_locales, goal_cases)
  case (1 r)
  then show ?case using setup_stage_bound by (simp add: setting_up_def)
next
  case (2 r)
  then obtain q where "next_phase (phase r) = Some q"
    using next_phase_some unfolding setting_up_def by blast
  with 2 show ?case using next_setup_checkpoint_eq by (auto simp: setting_up_def)
next
  case (3 r s)
  from 3(2) obtain q where q: "next_phase (phase r) = Some q" "cleanup_checkpoint r = 0" "valid L s"
    "s = r\<lparr>phase := q, unfinished_direction := recovery_direction q\<rparr>"
    by (rule next_setup_checkpoint_Some)
  then show ?case
    using setup_stage_next [OF q(1), of s] next_phase_not_removal [OF q(1)]
    by (simp add: setting_up_def)
qed

definition cleaning :: "lib \<Rightarrow> wire_ownership \<Rightarrow> bool" where
  "cleaning L r = (valid L r \<and> unfinished_direction r = Cleanup)"

definition cleanup_stage :: "wire_ownership \<Rightarrow> nat" where
  "cleanup_stage r = unat (cleanup_checkpoint r)"

lemma next_cleanup_checkpoint_eq:
  assumes v: "valid L r" and d: "unfinished_direction r = Cleanup" and c: "cleanup_checkpoint r < 8"
  shows "next_cleanup_checkpoint L r = Some (r\<lparr>cleanup_checkpoint := cleanup_checkpoint r + 1\<rparr>)"
proof -
  have s: "schema r = 1"
    using valid_schema [OF v] valid_schema2_running [OF v _] d by auto
  have "cleanup_checkpoint r + 1 \<le> 8"
    using c by (simp add: word_less_nat_alt word_le_nat_alt unat_word_ariths)
  then have "valid L (r\<lparr>cleanup_checkpoint := cleanup_checkpoint r + 1\<rparr>)"
    using v s d by (simp add: valid_schema1_iff guard_schema1_def guard_direction_def
        guard_proxy_facts_def not_less)
  then show ?thesis using c d by (simp add: next_cleanup_checkpoint_def validated_def not_le)
qed

interpretation cleanup_progress: staged "cleaning L" cleanup_stage "\<lambda>_. 8" "next_cleanup_checkpoint L" for L
proof (unfold_locales, goal_cases)
  case (1 r)
  then show ?case using validD(17) [of L r]
    by (simp add: cleaning_def cleanup_stage_def guard_direction_def word_le_nat_alt not_less)
next
  case (2 r)
  then show ?case using next_cleanup_checkpoint_eq [of L r]
    by (simp add: cleaning_def cleanup_stage_def word_less_nat_alt)
next
  case (3 r s)
  then have c: "cleanup_checkpoint r < 8" and s: "valid L s"
    "s = r\<lparr>cleanup_checkpoint := cleanup_checkpoint r + 1\<rparr>"
    by (auto simp: next_cleanup_checkpoint_def not_le split: if_splits)
  have "unat (cleanup_checkpoint r + 1) = Suc (unat (cleanup_checkpoint r))"
    using c by (simp add: word_less_nat_alt unat_word_ariths)
  with 3(1) s show ?case by (simp add: cleaning_def cleanup_stage_def)
qed

lemma standard_wire_fields [simp]:
  "schema (standard_wire L rel ip conf) = 1" "phase (standard_wire L rel ip conf) = OwnershipRecorded"
  "unfinished_direction (standard_wire L rel ip conf) = Cleanup"
  "release_identity (standard_wire L rel ip conf) = rel"
  "proxy_package_identity (standard_wire L rel ip conf) = PACKAGE_IDENTITY"
  "public_ipv4_of (standard_wire L rel ip conf) = ip"
  "destination_address (standard_wire L rel ip conf) = ''google.com:443''"
  "destination_server_name (standard_wire L rel ip conf) = ''google.com''"
  "configuration_sha256 (standard_wire L rel ip conf) = conf"
  "cleanup_checkpoint (standard_wire L rel ip conf) = 0"
  "removal_checkpoint (standard_wire L rel ip conf) = 0"
  "guard_schema1 (standard_wire L rel ip conf)" "guard_lock L (standard_wire L rel ip conf)"
  "guard_tunnel (standard_wire L rel ip conf)" "guard_direction (standard_wire L rel ip conf)"
  "\<not> subscription_compromised (standard_wire L rel ip conf)"
  "lock_provisioning (standard_wire L rel ip conf) = Some (lock_digest L)"
  "serving (standard_wire L rel ip conf) = None"
  "tunnel (standard_wire L rel ip conf) = None"
  by (simp_all add: standard_wire_def guard_schema1_def guard_lock_def guard_tunnel_def guard_direction_def)

lemma guard_schema1_frame [simp]:
  "guard_schema1 (r\<lparr>permitted_resources := ps\<rparr>) = guard_schema1 r"
  "guard_schema1 (r\<lparr>phase := p\<rparr>) = guard_schema1 r"
  "guard_schema1 (r\<lparr>unfinished_direction := d\<rparr>) = guard_schema1 r"
  "guard_schema1 (r\<lparr>cleanup_checkpoint := c\<rparr>) = guard_schema1 r"
  "guard_schema1 (r\<lparr>tunnel := t\<rparr>) = guard_schema1 r"
  by (simp_all add: guard_schema1_def)

lemma new_standard_iff:
  "new_standard L rel ip conf = Some r \<longleftrightarrow>
     r = (standard_wire L rel ip conf)\<lparr>permitted_resources := resources L (standard_wire L rel ip conf)\<rparr>
     \<and> valid_release rel \<and> lower_hex conf 64 \<and> public_ipv4 ip"
proof -
  let ?w = "standard_wire L rel ip conf"
  have "valid L (?w\<lparr>permitted_resources := resources L ?w\<rparr>) \<longleftrightarrow>
      valid_release rel \<and> lower_hex conf 64 \<and> public_ipv4 ip"
    by (auto simp: valid_schema1_iff guard_proxy_facts_def)
  then show ?thesis unfolding new_standard_def Let_def validated_Some by blast
qed


text \<open>The lifetime of a standard setup: thirteen checkpoints to a Running installation.\<close>

lemma iter_setup_identity:
  "iter_opt n (next_setup_checkpoint L) r = Some s \<Longrightarrow>
     s = r\<lparr>phase := phase s, unfinished_direction := unfinished_direction s\<rparr>"
proof (induction n arbitrary: r)
  case (Suc n)
  then obtain t where t: "next_setup_checkpoint L r = Some t" "iter_opt n (next_setup_checkpoint L) t = Some s"
    by (auto simp: bind_eq_Some_conv)
  from t(1) obtain q where q: "t = r\<lparr>phase := q, unfinished_direction := recovery_direction q\<rparr>"
    by (rule next_setup_checkpoint_Some)
  have "t\<lparr>phase := phase s, unfinished_direction := unfinished_direction s\<rparr>
      = r\<lparr>phase := phase s, unfinished_direction := unfinished_direction s\<rparr>"
    unfolding q by simp
  with Suc.IH [OF t(2)] show ?case by (rule trans)
qed simp

lemma setup_completes:
  assumes "new_standard L rel ip conf = Some r"
  shows "\<exists>s. iter_opt 13 (next_setup_checkpoint L) r = Some s \<and> valid L s
     \<and> s = r\<lparr>phase := Running, unfinished_direction := Idle\<rparr>"
proof -
  have "setting_up L r" and 0: "setup_stage r = 0"
    using assms by (auto simp: new_standard_def Let_def setting_up_def setup_stage_def PHASES_def)
  then obtain s where s: "iter_opt 13 (next_setup_checkpoint L) r = Some s" "setting_up L s" "setup_stage s = 13"
    using setup_progress.completes [of L r] by auto
  then have "phase s = Running" "valid L s" using setup_stage_Running by (auto simp: setting_up_def)
  then show ?thesis using s iter_setup_identity [OF s(1)] valid_direction_phase [of L s] by auto
qed

lemma permitted_tunnel_commute:
  "r\<lparr>permitted_resources := ps, tunnel := t\<rparr> = r\<lparr>tunnel := t, permitted_resources := ps\<rparr>"
  by simp

lemma new_tunnel_setup_iff:
  "new_tunnel_setup L rel ip conf t \<noteq> None \<longleftrightarrow>
     valid_release rel \<and> lower_hex conf 64 \<and> public_ipv4 ip \<and> valid_tunnel t"
proof (cases "new_standard L rel ip conf")
  case None
  then show ?thesis using new_standard_iff [of L rel ip conf] by (auto simp: new_tunnel_setup_def)
next
  case (Some r)
  then have r: "r = (standard_wire L rel ip conf)\<lparr>permitted_resources := resources L (standard_wire L rel ip conf)\<rparr>"
    "valid_release rel" "lower_hex conf 64" "public_ipv4 ip" unfolding new_standard_iff by blast+
  let ?w = "r\<lparr>tunnel := Some t\<rparr>"
  have "valid L (?w\<lparr>permitted_resources := resources L ?w\<rparr>) \<longleftrightarrow> valid_tunnel t"
    unfolding r(1) unfolding permitted_tunnel_commute using r(2-4)
    by (auto simp: valid_schema1_iff guard_proxy_facts_def guard_lock_def guard_tunnel_def guard_direction_def)
  then show ?thesis
    using r(2-4) Some by (simp add: new_tunnel_setup_def Let_def validated_def)
qed
end
