(* ===== verification/Successors.thy ===== *)
theory Successors
  imports Http_Operations Setup_Progress
begin

text \<open>
  What an authorized successor of a record can be (\<open>permits_successor\<close> in
  \<open>src/records/transitions.rs\<close>), and the HTTP operations from beginning to end.  Every successor is
  valid and belongs to the same installation, phases never go back, a valid record has at most one
  open operation, a committed rotation never returns to its source, and a removal record has no
  successor but itself.
\<close>

section \<open>What a successor keeps\<close>

definition same_installation :: "wire_ownership \<Rightarrow> wire_ownership \<Rightarrow> bool" where
  "same_installation r s =
     (release_identity s = release_identity r \<and> proxy_package_identity s = proxy_package_identity r
      \<and> public_ipv4_of s = public_ipv4_of r \<and> destination_address s = destination_address r
      \<and> destination_server_name s = destination_server_name r
      \<and> configuration_sha256 s = configuration_sha256 r \<and> lock_provisioning s = lock_provisioning r
      \<and> tunnel s = tunnel r \<and> proxy_startup s = proxy_startup r
      \<and> https_retirement s = https_retirement r
      \<and> finishing_release_identity s = finishing_release_identity r \<and> renewal s = renewal r
      \<and> certificate_activation s = certificate_activation r
      \<and> client_identity_rotation s = client_identity_rotation r
      \<and> subscription_transport_migration s = subscription_transport_migration r
      \<and> removal_checkpoint s = removal_checkpoint r)"

text \<open>What a transition of the HTTP operations changes.\<close>

definition http_change :: "lib \<Rightarrow> wire_ownership \<Rightarrow> wire_ownership \<Rightarrow> bool" where
  "http_change L r x =
     (valid L x \<and> same_installation r x \<and> phase x = phase r \<and> current_running r
      \<and> unfinished_direction x = unfinished_direction r \<and> cleanup_checkpoint x = cleanup_checkpoint r)"

lemma http_change_with_resources:
  assumes "with_resources L r n = Some x" and "same_installation r n" and "current_running r"
    and "phase n = phase r" "unfinished_direction n = unfinished_direction r"
    and "cleanup_checkpoint n = cleanup_checkpoint r"
  shows "http_change L r x"
proof -
  from assms(1) have x: "x = n\<lparr>permitted_resources := resources L n,
      resource_creating_releases := Some (map (creator_for r) (resources L n))\<rparr>" "valid L x"
    unfolding with_resources_Some by blast+
  then have "same_installation r x" using assms(2) unfolding x(1) by (simp add: same_installation_def)
  then show ?thesis using assms(3-) x(2) unfolding http_change_def by (simp add: x(1))
qed

lemmas change_intros = bind_eq_Some_conv same_installation_def

lemma transition_changes:
  "begin_http_enablement L r l k i f = Some x \<Longrightarrow> http_change L r x"
  "advance_http_enablement L r = Some x \<Longrightarrow> http_change L r x"
  "commit_http_enablement L r = Some x \<Longrightarrow> http_change L r x"
  "cleanup_http_enablement L r = Some x \<Longrightarrow> http_change L r x"
  "begin_http_link_rotation L r i l k = Some x \<Longrightarrow> http_change L r x"
  "advance_http_link_rotation L r = Some x \<Longrightarrow> http_change L r x"
  "cleanup_http_link_rotation L r = Some x \<Longrightarrow> http_change L r x"
  "complete_http_link_rotation L r = Some x \<Longrightarrow> http_change L r x"
  "begin_http_runtime_repair L r i = Some x \<Longrightarrow> http_change L r x"
  "advance_http_runtime_repair L r = Some x \<Longrightarrow> http_change L r x"
  "cleanup_http_runtime_repair L r = Some x \<Longrightarrow> http_change L r x"
  "complete_http_runtime_repair L r = Some x \<Longrightarrow> http_change L r x"
  "mark_subscription_compromised L r = Some x \<Longrightarrow> http_change L r x"
  unfolding begin_http_enablement_def advance_http_enablement_def commit_http_enablement_def
    cleanup_http_enablement_def begin_http_link_rotation_def advance_http_link_rotation_def
    cleanup_http_link_rotation_def complete_http_link_rotation_def begin_http_runtime_repair_def
    advance_http_runtime_repair_def cleanup_http_runtime_repair_def complete_http_runtime_repair_def
    mark_subscription_compromised_def
  by (auto simp: change_intros idle_http_def split: if_splits elim!: http_change_with_resources)

lemma begins_change:
  "successor_begins_enablement L r x \<Longrightarrow> http_change L r x"
  "successor_begins_rotation L r x \<Longrightarrow> http_change L r x"
  "successor_begins_repair L r x \<Longrightarrow> http_change L r x"
  unfolding successor_begins_enablement_def successor_begins_rotation_def successor_begins_repair_def
  by (auto simp: change_intros idle_http_def split: option.splits elim!: http_change_with_resources)

lemma http_successor_change: "http_successor L r x \<Longrightarrow> http_change L r x"
  unfolding http_successor_def by (elim disjE conjE transition_changes begins_change)

text \<open>The four kinds of successor.\<close>

lemma permits_successor_cases:
  assumes "permits_successor L r s"
  obtains "r = s" | "next_setup_checkpoint L r = Some s" | "next_cleanup_checkpoint L r = Some s"
    | "http_successor L r s"
  using assms unfolding permits_successor_def by blast

lemma permits_successor_valid:
  assumes "permits_successor L r s" and "valid L r"
  shows "valid L s"
  using assms(1)
proof (cases rule: permits_successor_cases)
  case 1 then show ?thesis using assms(2) by (rule subst)
next
  case 2 then show ?thesis by (rule next_setup_checkpoint_Some)
next
  case 3 then show ?thesis by (auto simp: next_cleanup_checkpoint_def split: if_splits)
next
  case 4 then show ?thesis using http_successor_change http_change_def by blast
qed

lemma same_installation_refl: "same_installation r r"
  by (simp add: same_installation_def)

lemma permits_successor_same:
  assumes "permits_successor L r s"
  shows "same_installation r s"
  using assms
proof (cases rule: permits_successor_cases)
  case 1 then show ?thesis using same_installation_refl by (rule subst)
next
  case 2
  then obtain q where "s = r\<lparr>phase := q, unfinished_direction := recovery_direction q\<rparr>"
    by (rule next_setup_checkpoint_Some)
  then show ?thesis by (simp add: same_installation_def)
next
  case 3
  then have "s = r\<lparr>cleanup_checkpoint := cleanup_checkpoint r + 1\<rparr>"
    by (auto simp: next_cleanup_checkpoint_def split: if_splits)
  then show ?thesis by (simp add: same_installation_def)
next
  case 4 then show ?thesis using http_successor_change http_change_def by blast
qed

lemma permits_successor_phase:
  assumes "permits_successor L r s" and v: "valid L r"
  shows "phase s = phase r \<or> next_phase (phase r) = Some (phase s) \<and> cleanup_checkpoint r = 0"
  using assms(1)
proof (cases rule: permits_successor_cases)
  case 1 then show ?thesis by (rule subst) simp
next
  case 2 then show ?thesis by (rule next_setup_checkpoint_Some) simp
next
  case 3 then show ?thesis by (auto simp: next_cleanup_checkpoint_def split: if_splits)
next
  case 4 then show ?thesis using http_successor_change http_change_def by blast
qed

inductive authorized :: "lib \<Rightarrow> wire_ownership \<Rightarrow> wire_ownership \<Rightarrow> bool" for L where
  authorized_refl: "authorized L r r"
| authorized_step: "authorized L r s \<Longrightarrow> permits_successor L s t \<Longrightarrow> authorized L r t"

lemma authorized_valid: "authorized L r s \<Longrightarrow> valid L r \<Longrightarrow> valid L s"
  by (induction rule: authorized.induct) (use permits_successor_valid in blast)+

lemma authorized_same: "authorized L r s \<Longrightarrow> same_installation r s"
proof (induction rule: authorized.induct)
  case (authorized_step r s t)
  then show ?case using permits_successor_same [of L s t] by (simp add: same_installation_def)
qed (rule same_installation_refl)

lemma phase_stage_mono:
  "phase s = phase r \<or> next_phase (phase r) = Some (phase s) \<Longrightarrow> setup_stage r \<le> setup_stage s"
  using setup_stage_next [of r "phase s" s] by (auto simp: setup_stage_def)

lemma authorized_stage: "authorized L r s \<Longrightarrow> valid L r \<Longrightarrow> setup_stage r \<le> setup_stage s"
proof (induction rule: authorized.induct)
  case (authorized_step r s t)
  then show ?case
    using permits_successor_phase [of L s t] authorized_valid phase_stage_mono [where r = s and s = t]
    by (meson order_trans)
qed simp

lemma recovery_direction_stage:
  "phase r \<noteq> RemovalCommitted \<Longrightarrow> recovery_direction (phase r) =
     (if setup_stage r < 10 then Cleanup else if setup_stage r < 13 then FinishSetup else Idle)"
  by (cases "phase r") (simp_all add: setup_stage_def PHASES_def)

lemma authorized_not_removal:
  "authorized L r s \<Longrightarrow> valid L r \<Longrightarrow> phase r \<noteq> RemovalCommitted \<longleftrightarrow> phase s \<noteq> RemovalCommitted"
proof (induction rule: authorized.induct)
  case (authorized_step r s t)
  then show ?case
    using permits_successor_phase [of L s t] authorized_valid next_phase_not_removal by metis
qed simp

section \<open>One operation at a time\<close>

definition open_operations :: "wire_ownership \<Rightarrow> nat" where
  "open_operations r =
     of_bool (subscription_enablement r \<noteq> None) + of_bool (subscription_rotation r \<noteq> None)
     + of_bool (subscription_repair r \<noteq> None) + of_bool (client_identity_rotation r \<noteq> None)
     + of_bool (certificate_activation r \<noteq> None) + of_bool (subscription_transport_migration r)"

lemma valid_one_operation:
  assumes "valid L r"
  shows "open_operations r \<le> 1"
proof -
  have e: "subscription_enablement r \<noteq> None \<Longrightarrow> certificate_activation r = None"
    using validD(8) [OF assms] by (auto simp: guard_enablement_def is_Some_def)
  have ro: "subscription_rotation r \<noteq> None \<Longrightarrow> subscription_enablement r = None
      \<and> certificate_activation r = None"
    using validD(9) [OF assms] by (auto simp: guard_rotation_def is_Some_def)
  have rp: "subscription_repair r \<noteq> None \<Longrightarrow> subscription_enablement r = None
      \<and> subscription_rotation r = None \<and> certificate_activation r = None"
    using validD(10) [OF assms] by (auto simp: guard_repair_def is_Some_def)
  have cl: "client_identity_rotation r \<noteq> None \<Longrightarrow> subscription_enablement r = None
      \<and> subscription_rotation r = None \<and> subscription_repair r = None \<and> certificate_activation r = None"
    using validD(16) [OF assms] by (auto simp: guard_client_def is_Some_def)
  have mg: "subscription_transport_migration r \<Longrightarrow> subscription_enablement r = None
      \<and> subscription_rotation r = None \<and> subscription_repair r = None
      \<and> client_identity_rotation r = None \<and> certificate_activation r = None"
    using validD(4) [OF assms] by (auto simp: guard_migration_def is_Some_def)
  show ?thesis
    using e ro rp cl mg by (auto simp: open_operations_def)
qed

lemma pending_iff_open:
  assumes "unfinished_direction r \<noteq> Removal"
  shows "pending_change r = None \<longleftrightarrow> open_operations r = 0"
  using assms by (auto simp: pending_change_def open_operations_def split: option.splits)

section \<open>Link rotation and repair as a whole\<close>

lemma begin_rotation_ok:
  assumes v: "valid L r" and i: "idle_http r" and s: "serving r = Some s"
    and t: "http_digest l (sha256_hex L c) = Some t"
    and op: "nonzero_hex oid 32"
    and ne: "sv_link_id s \<noteq> l" "sv_credential_sha256 s \<noteq> sha256_hex L c"
  shows "\<exists>x v. begin_http_link_rotation L r oid l c = Some x \<and> rotating L x \<and> rotation_stage x = 0
    \<and> serving x = Some s \<and> subscription_rotation x = Some v \<and> ro_source v = s \<and> ro_target v = t"
proof -
  let ?v = "\<lparr>ro_operation_id = oid, ro_kind = ''rotate subscription link'',
           ro_direction = ''cleanup'', ro_effects = ROTATION_EFFECTS, ro_completed_effects = None,
           ro_source = s, ro_target = t, ro_checkpoint = ''target authorized''\<rparr>"
  note F = idle_http_facts [OF v i s]
  have c: "current_running r" using i by (simp add: idle_http_def)
  have "rotation_at s ?v"
    using t ne op F valid_http_empty [OF F(1,2)] valid_serving_http_digest [OF t]
    by (simp add: rotation_at_def valid_rotation_def rotation_expected_def equal_effects_def http_digest_Some)
  then obtain x where x: "with_resources L r (r\<lparr>subscription_rotation := Some ?v\<rparr>) = Some x"
    using operation_update [OF v c s F(2,1,2), of "Some ?v" None "subscription_compromised r"]
    unfolding operation_forms(1) [OF s F(13)] by auto
  have "current_running (r\<lparr>subscription_rotation := Some ?v\<rparr>)" using c by (simp add: current_running_def)
  note A = serves_after [OF x this]
  have "rotating L x" "rotation_stage x = 0" "serving x = Some s" "subscription_rotation x = Some ?v"
    using A s F(2) by (simp_all add: rotating_def rotation_stage_def)
  moreover have "begin_http_link_rotation L r oid l c = Some x"
    using i s t x by (simp add: begin_http_link_rotation_def serving_http_def)
  ultimately show ?thesis by auto
qed

lemma rotation_advance_keeps:
  assumes "rotating L r" and "advance_http_link_rotation L r = Some x"
    and "subscription_rotation r = Some v"
  shows "\<exists>w. subscription_rotation x = Some w \<and> ro_source w = ro_source v \<and> ro_target w = ro_target v
    \<and> ro_checkpoint w \<noteq> ''target authorized''"
proof -
  from assms(1) obtain v' s where p: "current_running r" "serving r = Some s"
    "subscription_rotation r = Some v'" "valid_rotation v'" "rotation_at s v'" "subscription_repair r = None"
    "sv_http (ro_source v')" by (rule rotating_parts)
  have "with_resources L r (r\<lparr>serving := Some (if ro_checkpoint v' = ''stop authorized'' then ro_target v' else s),
        subscription_rotation := Some (rotation_next v'), subscription_repair := None,
        subscription_compromised := subscription_compromised r\<rparr>) = Some x"
    using assms(2) unfolding advance_rotation_eq [OF p(1,2,6,3,4,5,7)] by (simp split: if_splits)
  from with_resources_keeps(4) [OF this] show ?thesis
    using assms(3) p(3) by (simp add: rotation_next_checkpoint)
qed

lemma complete_rotation_ok:
  assumes r: "rotating L r" and st: "rotation_stage r = 2" and v: "subscription_rotation r = Some v"
  shows "\<exists>x. complete_http_link_rotation L r = Some x \<and> valid L x \<and> idle_http x
    \<and> serving x = Some (ro_target v) \<and> \<not> subscription_compromised x"
proof -
  from r obtain v' s where p: "valid L r" "current_running r" "serving r = Some s" "sv_http s"
    "subscription_rotation r = Some v'" "valid_rotation v'" "rotation_at s v'" "subscription_repair r = None"
    "sv_http (ro_source v')" "sv_http (ro_target v')" by (rule rotating_parts)
  have v': "v' = v" using p(5) v by simp
  have k: "ro_checkpoint v = ''committed''"
    using st v rotation_checkpoint_cases [OF p(6)] v' by (auto simp: rotation_stage_def split: if_splits)
  then have s: "s = ro_target v" using p(7) v' by (simp add: rotation_at_def)
  note S = serving_facts [OF p(1-4)]
  obtain x where x: "with_resources L r (r\<lparr>subscription_rotation := None, subscription_compromised := False\<rparr>) = Some x"
    using operation_update [OF p(1-4) S(3) p(4), of None None False]
    unfolding operation_forms(3) [OF p(3,8)] by auto
  note K = with_resources_keeps [OF x]
  have "complete_http_link_rotation L r = Some x"
    using p(2,10) v v' k x by (simp add: complete_http_link_rotation_def)
  moreover have "idle_http x"
    using K(2,3,4,5,6,9,10) running_facts [OF p(1,2)] S p(3,4,8)
    by (simp add: idle_http_def current_running_def pending_change_def)
  ultimately show ?thesis using K(1,6,8) s p(3) by auto
qed

lemma cleanup_rotation_ok:
  assumes r: "rotating L r" and st: "rotation_stage r < 2" and v: "subscription_rotation r = Some v"
  shows "\<exists>x. cleanup_http_link_rotation L r = Some x \<and> valid L x \<and> idle_http x
    \<and> serving x = Some (ro_source v)"
proof -
  from r obtain v' s where p: "valid L r" "current_running r" "serving r = Some s" "sv_http s"
    "subscription_rotation r = Some v'" "valid_rotation v'" "rotation_at s v'" "subscription_repair r = None"
    "sv_http (ro_source v')" "sv_http (ro_target v')" by (rule rotating_parts)
  have v': "v' = v" using p(5) v by simp
  have k: "ro_checkpoint v \<noteq> ''committed''"
    using st v by (auto simp: rotation_stage_def split: if_splits)
  then have s: "s = ro_source v" using p(7) v' by (simp add: rotation_at_def)
  note S = serving_facts [OF p(1-4)]
  obtain x where x: "with_resources L r (r\<lparr>subscription_rotation := None\<rparr>) = Some x"
    using operation_update [OF p(1-4) S(3) p(4), of None None "subscription_compromised r"]
    unfolding operation_forms(1) [OF p(3,8)] by auto
  note K = with_resources_keeps [OF x]
  have "cleanup_http_link_rotation L r = Some x"
    using p(2,9) v v' k x by (simp add: cleanup_http_link_rotation_def)
  moreover have "idle_http x"
    using K(2,3,4,5,6,9,10) running_facts [OF p(1,2)] S p(3,4,8)
    by (simp add: idle_http_def current_running_def pending_change_def)
  ultimately show ?thesis using K(1,6) s p(3) by auto
qed

lemma rotation_completes:
  assumes v: "valid L r" and i: "idle_http r" and s: "serving r = Some s"
    and t: "http_digest l (sha256_hex L c) = Some t" and op: "nonzero_hex oid 32"
    and ne: "sv_link_id s \<noteq> l" "sv_credential_sha256 s \<noteq> sha256_hex L c"
  shows "\<exists>b m x. begin_http_link_rotation L r oid l c = Some b
    \<and> iter_opt 2 (advance_http_link_rotation L) b = Some m \<and> complete_http_link_rotation L m = Some x
    \<and> valid L x \<and> idle_http x \<and> serving x = Some t \<and> \<not> subscription_compromised x"
proof -
  obtain b w where b: "begin_http_link_rotation L r oid l c = Some b" "rotating L b" "rotation_stage b = 0"
    "subscription_rotation b = Some w" "ro_target w = t"
    using begin_rotation_ok [OF v i s t op ne] by blast
  obtain m where m: "iter_opt 2 (advance_http_link_rotation L) b = Some m" "rotating L m" "rotation_stage m = 2"
    using rotation.completes [OF b(2)] b(3) by auto
  then obtain y where y: "advance_http_link_rotation L b = Some y" "advance_http_link_rotation L y = Some m"
    by (auto simp: numeral_2_eq_2 bind_eq_Some_conv)
  obtain w1 where w1: "subscription_rotation y = Some w1" "ro_target w1 = t"
    using rotation_advance_keeps [OF b(2) y(1) b(4)] b(5) by auto
  have "rotating L y" using rotation.advance_step [OF b(2) y(1)] by simp
  then obtain w2 where "subscription_rotation m = Some w2" "ro_target w2 = t"
    using rotation_advance_keeps [OF _ y(2) w1(1)] w1(2) by auto
  then show ?thesis using complete_rotation_ok [OF m(2,3)] b(1) m(1) by blast
qed


lemma operation_schema2:
  assumes "valid L r" and "subscription_rotation r = Some v"
  shows "subscription_enablement r = None" "subscription_repair r = None"
    "phase r = Running \<or> phase r = RemovalCommitted" "unfinished_direction r \<noteq> Cleanup"
  using validD(9,10) [OF assms(1)] assms(2)
  by (auto simp: guard_rotation_def guard_repair_def is_Some_def operation_context_def is_none_or_iff)

lemma committed_rotation_successor:
  assumes v: "valid L r" and w: "subscription_rotation r = Some v" and k: "ro_checkpoint v = ''committed''"
    and p: "permits_successor L r s"
  shows "serving s = Some (ro_target v) \<and> (subscription_rotation s = Some v \<or> subscription_rotation s = None)"
proof -
  note O = operation_schema2 [OF v w]
  have t: "serving r = Some (ro_target v)"
    using validD(9) [OF v] w k by (auto simp: guard_rotation_def is_some_and_iff)
  from p show ?thesis
  proof (cases rule: permits_successor_cases)
    case 1 then show ?thesis using t w by simp
  next
    case 2 then show ?thesis using O(3) by (auto elim: next_setup_checkpoint_Some)
  next
    case 3 then show ?thesis using O(4) by (simp add: next_cleanup_checkpoint_def split: if_splits)
  next
    case 4
    have pend: "pending_change r \<noteq> None" using w by (simp add: pending_change_def split: option.splits)
    have no: "\<not> successor_begins_enablement L r s" "\<not> successor_begins_rotation L r s"
      "\<not> successor_begins_repair L r s"
      using pend by (auto simp: successor_begins_enablement_def successor_begins_rotation_def
          successor_begins_repair_def idle_http_def split: option.splits)
    have "advance_http_link_rotation L r \<noteq> Some s" "cleanup_http_link_rotation L r \<noteq> Some s"
      using w k by (auto simp: advance_http_link_rotation_def cleanup_http_link_rotation_def)
    with 4 no O have "complete_http_link_rotation L r = Some s \<or> mark_subscription_compromised L r = Some s"
      unfolding http_successor_def by blast
    then obtain n where "with_resources L r n = Some s" "serving n = serving r"
      "subscription_rotation n = Some v \<or> subscription_rotation n = None"
      using w by (auto simp: complete_http_link_rotation_def mark_subscription_compromised_def
          split: if_splits)
    then show ?thesis using t with_resources_keeps(4,6) by fastforce
  qed
qed

lemma removal_only_itself:
  assumes v: "valid L r" and d: "unfinished_direction r = Removal" and p: "permits_successor L r s"
  shows "s = r"
  using p
proof (cases rule: permits_successor_cases)
  case 2
  then show ?thesis using valid_removal_phase [OF v] d by (auto elim: next_setup_checkpoint_Some)
next
  case 3
  then show ?thesis using d by (simp add: next_cleanup_checkpoint_def)
next
  case 4
  then have "current_running r" using http_successor_change http_change_def by blast
  then show ?thesis using d by (simp add: current_running_def)
qed simp

lemma begin_repair_ok:
  assumes v: "valid L r" and i: "idle_http r" and s: "serving r = Some s" and op: "nonzero_hex oid 32"
  shows "\<exists>x. begin_http_runtime_repair L r oid = Some x \<and> repairing L x \<and> repair_stage x = 0
    \<and> serving x = Some s"
proof -
  let ?v = "\<lparr>rp_operation_id = oid, rp_kind = ''repair subscription'',
           rp_direction = ''cleanup'', rp_correction = RESTART, rp_effects = [RESTART],
           rp_completed_effects = None, rp_checkpoint = ''prepared'', rp_source = s,
           rp_target = None\<rparr>"
  note F = idle_http_facts [OF v i s]
  have c: "current_running r" using i by (simp add: idle_http_def)
  have "repair_fits s ?v" using op F(1) by (simp add: repair_fits_iff valid_restart_iff equal_effects_def)
  then obtain x where x: "with_resources L r (r\<lparr>subscription_repair := Some ?v\<rparr>) = Some x"
    using operation_update [OF v c s F(2,1,2), of None "Some ?v" "subscription_compromised r"]
    unfolding operation_forms(4) [OF s F(12)] by auto
  have "current_running (r\<lparr>subscription_repair := Some ?v\<rparr>)" using c by (simp add: current_running_def)
  note A = serves_after [OF x this]
  have "repairing L x" "repair_stage x = 0" "serving x = Some s"
    using A s F(2) by (simp_all add: repairing_def repair_stage_def)
  moreover have "begin_http_runtime_repair L r oid = Some x"
    using i s x by (simp add: begin_http_runtime_repair_def)
  ultimately show ?thesis by blast
qed

lemma repair_advance_serving:
  assumes "repairing L r" and "advance_http_runtime_repair L r = Some x"
  shows "serving x = serving r"
proof -
  from assms(1) obtain v s where p: "valid L r" "current_running r" "serving r = Some s" "sv_http s"
    "subscription_repair r = Some v" "repair_fits s v" "subscription_rotation r = None"
    "rp_source v = s" by (rule repairing_parts)
  have "with_resources L r (r\<lparr>serving := Some s, subscription_rotation := None,
        subscription_repair := Some (repair_next v),
        subscription_compromised := subscription_compromised r\<rparr>) = Some x"
    using assms(2) unfolding advance_repair_eq [OF p(2,3,7,5,6,8,4)] by (simp split: if_splits)
  from with_resources_keeps(6) [OF this] show ?thesis using p(3) by simp
qed

lemma iter_repair_serving:
  "repairing L r \<Longrightarrow> iter_opt n (advance_http_runtime_repair L) r = Some x \<Longrightarrow> serving x = serving r"
proof (induction n arbitrary: r)
  case (Suc n)
  then obtain y where y: "advance_http_runtime_repair L r = Some y"
    "iter_opt n (advance_http_runtime_repair L) y = Some x" by (auto simp: bind_eq_Some_conv)
  then show ?case
    using Suc.IH [of y] repair.advance_step [OF Suc.prems(1) y(1)]
      repair_advance_serving [OF Suc.prems(1) y(1)] by simp
qed simp

lemma end_repair_ok:
  assumes r: "repairing L r" and st: "repair_stage r = 0 \<or> repair_stage r = 3"
  shows "\<exists>x. (if repair_stage r = 0 then cleanup_http_runtime_repair L r else complete_http_runtime_repair L r) = Some x
    \<and> valid L x \<and> idle_http x \<and> serving x = serving r"
proof -
  from r obtain v s where p: "valid L r" "current_running r" "serving r = Some s" "sv_http s"
    "subscription_repair r = Some v" "repair_fits s v" "subscription_rotation r = None"
    "rp_source v = s" by (rule repairing_parts)
  note S = serving_facts [OF p(1-4)]
  obtain x where x: "with_resources L r (r\<lparr>subscription_repair := None\<rparr>) = Some x"
    using operation_update [OF p(1-4) S(3) p(4), of None None "subscription_compromised r"]
    unfolding operation_forms(4) [OF p(3,7)] by auto
  note K = with_resources_keeps [OF x]
  have c: "rp_correction v = RESTART" using p(6) by (simp add: repair_fits_iff)
  have at: "repair_at (if repair_stage r = 0 then ''prepared'' else ''accepted'') v"
    using st repair_cases [OF p(6)] p(4,5,8) c
    by (auto simp: repair_at_def repair_stage_def split: if_splits)
  have "(if repair_stage r = 0 then cleanup_http_runtime_repair L r else complete_http_runtime_repair L r) = Some x"
    using at p(2,5) x by (cases "repair_stage r = 0")
      (simp_all add: cleanup_http_runtime_repair_def complete_http_runtime_repair_def)
  moreover have "idle_http x"
    using K(2,3,4,5,6,9,10) running_facts [OF p(1,2)] S p(3,4,7)
    by (simp add: idle_http_def current_running_def pending_change_def)
  ultimately show ?thesis using K(1,6) by auto
qed

lemma repair_completes:
  assumes v: "valid L r" and i: "idle_http r" and s: "serving r = Some s" and op: "nonzero_hex oid 32"
  shows "\<exists>b m x. begin_http_runtime_repair L r oid = Some b
    \<and> iter_opt 3 (advance_http_runtime_repair L) b = Some m \<and> complete_http_runtime_repair L m = Some x
    \<and> valid L x \<and> idle_http x \<and> serving x = Some s"
proof -
  obtain b where b: "begin_http_runtime_repair L r oid = Some b" "repairing L b" "repair_stage b = 0"
    "serving b = Some s" using begin_repair_ok [OF v i s op] by blast
  obtain m where m: "iter_opt 3 (advance_http_runtime_repair L) b = Some m" "repairing L m" "repair_stage m = 3"
    using repair.completes [OF b(2)] b(3) by auto
  with end_repair_ok [OF m(2)] iter_repair_serving [OF b(2) m(1)] b show ?thesis by auto
qed

lemma http_operation_pending:
  assumes "unfinished_direction r \<noteq> Removal"
  shows "http_operation r = Some None \<longleftrightarrow> pending_change r = None"
proof
  assume "http_operation r = Some None"
  then show "pending_change r = None"
    by (auto simp: http_operation_def split: option.splits if_splits)
next
  assume "pending_change r = None"
  with no_pending_facts [OF this] show "http_operation r = Some None"
    by (simp add: http_operation_def)
qed
end
