(* ===== verification/Record_Value.thy ===== *)
theory Record_Value
  imports Codec
begin

text \<open>
  The record as a \<open>serde_json::Value\<close>.  Complete removal (\<open>src/removal.rs\<close>) and the rotation of the
  client identity (\<open>src/client_identity.rs\<close>) do not change the typed record: they encode it, parse
  the bytes as a \<open>Value\<close>, edit members of that object, print it and decode the text again.  The
  relation \<open>represents\<close> links such an object with the typed record it stands for, each member edit
  is shown to be the update of one field, and decoding the edited object to be the validation of the
  updated record.
\<close>

section \<open>Values that stand for a record\<close>

definition wire :: "lib \<Rightarrow> wire_ownership \<Rightarrow> json option" where
  "wire L record = do { bytes \<leftarrow> encode_record L record; map_option value_of (from_slice L bytes) }"

definition validated_value :: "lib \<Rightarrow> json \<Rightarrow> wire_ownership option" where
  "validated_value L value = decode_record L (to_vec L value)"

definition release_wire :: "release_identity \<Rightarrow> json" where
  "release_wire release = value_of (JObj
     [(''Repository'', JStr (ri_repository release)), (''Tag'', JStr (ri_tag release)),
      (''Commit'', JStr (ri_commit release)), (''IndexSHA256'', JStr (ri_index_sha256 release))])"

text \<open>\<open>object.remove(key)\<close>.\<close>

definition jremove :: "string \<Rightarrow> json \<Rightarrow> json" where
  "jremove k j = (case j of JObj kvs \<Rightarrow> JObj (filter (\<lambda>(k', _). k' \<noteq> k) kvs) | _ \<Rightarrow> j)"

definition represents :: "json \<Rightarrow> wire_ownership \<Rightarrow> bool" where
  "represents v r = (\<exists>kvs. v = JObj kvs \<and> key_sorted kvs \<and> fst ` set kvs \<subseteq> set ownership_names
     \<and> reads_record (map_of kvs) value_of r)"

lemma represents_value: "represents (value_of (ser_ownership r)) r"
proof -
  obtain kvs where "value_of (mk_obj (ownership_fields r)) = JObj kvs" "key_sorted kvs"
    "map_of kvs = vfield_of (ownership_fields r)" "fst ` set kvs \<subseteq> fst ` set (ownership_fields r)"
    by (rule value_of_mk_obj [OF ownership_fields_wf(1)])
  moreover have "fst ` set (ownership_fields r) \<subseteq> set ownership_names"
    by (simp add: ownership_names_eq [of r, symmetric])
  ultimately show ?thesis
    using reads_vfield_of [of r] unfolding represents_def ser_ownership_def by auto
qed

lemma represents_de: "represents v r \<Longrightarrow> de_ownership v = Some r"
  using de_ownership_members_reads [of _ value_of r]
  by (auto simp: represents_def de_ownership_def de_object_def view_ok_def key_sorted_distinct)

lemma represents_value_of:
  assumes "represents v r"
  shows "represents (value_of v) r"
proof -
  from assms obtain kvs where k: "v = JObj kvs" "key_sorted kvs" "fst ` set kvs \<subseteq> set ownership_names"
    "reads_record (map_of kvs) value_of r" unfolding represents_def by blast
  let ?m = "map (map_prod id value_of) kvs"
  have d: "distinct (map fst ?m)" using k(2) key_sorted_distinct by (simp add: comp_def)
  have "reads_record (map_of (bt_of ?m)) value_of r"
    unfolding reads_record_def
  proof (clarify)
    fix key y assume "(key, y) \<in> set (ownership_fields r)"
    then have "map_of kvs key = map_option value_of y" using k(4) by (auto simp: reads_record_def)
    then show "map_of (bt_of ?m) key = map_option value_of y"
      using map_of_bt_of [OF d] by (simp add: map_of_map_snd option.map_comp comp_def)
  qed
  moreover have "fst ` set (bt_of ?m) \<subseteq> set ownership_names"
    using k(3) by (simp add: fst_bt_of image_image)
  ultimately show ?thesis unfolding represents_def k(1) by (auto simp: bt_of_sorted)
qed

lemma represents_jget:
  assumes "represents v r" "represents w r" "k \<in> set ownership_names"
  shows "jget k v = jget k w"
proof -
  from assms(3) obtain y where "(k, y) \<in> set (ownership_fields r)"
    using ownership_names_eq [of r] by (metis (no_types, lifting) image_iff list.set_map prod.collapse)
  then have "jget k x = map_option value_of y" if "represents x r" for x
    using that by (auto simp: represents_def reads_record_def jget_def)
  then show ?thesis using assms(1,2) by simp
qed

text \<open>Only one \<open>Value\<close> stands for a record.\<close>

lemma represents_unique:
  assumes "represents v r"
  shows "v = value_of (ser_ownership r)"
proof -
  obtain a b where p: "v = JObj a" "key_sorted a" "fst ` set a \<subseteq> set ownership_names"
    "reads_record (map_of a) value_of r" "value_of (ser_ownership r) = JObj b" "key_sorted b"
    "fst ` set b \<subseteq> set ownership_names" "reads_record (map_of b) value_of r"
    using assms represents_value [of r] unfolding represents_def by blast
  have "map_of a k = map_of b k" for k
  proof (cases "k \<in> set ownership_names")
    case True
    then show ?thesis using represents_jget [OF assms represents_value, of k] p(1,5) by (simp add: jget_def)
  next
    case False
    then have "map_of a k = None" "map_of b k = None" using p(3,7) by (auto simp: map_of_eq_None_iff)
    then show ?thesis by simp
  qed
  then have "a = b" using key_sorted_unique [OF p(2,6)] by blast
  then show ?thesis using p(1,5) by simp
qed

text \<open>The record fits the size limit when it is printed as a \<open>Value\<close>, which has no final newline.\<close>

definition prints :: "lib \<Rightarrow> wire_ownership \<Rightarrow> bool" where
  "prints L r = (length (to_vec L (value_of (ser_ownership r))) \<le> MAX_RECORD_BYTES)"

lemma represents_shapes:
  assumes "represents v r" "guard_retirement r"
  shows "shapes v"
proof -
  note J = represents_jget [OF assms(1) represents_value]
  have "jget ''serving'' v = jget ''serving'' (value_of (ser_ownership r))"
    "jget ''subscription_resources'' v = jget ''subscription_resources'' (value_of (ser_ownership r))"
    "jget ''https_retirement'' v = jget ''https_retirement'' (value_of (ser_ownership r))"
    "jget ''subscription_repair'' v = jget ''subscription_repair'' (value_of (ser_ownership r))"
    by (rule J, simp add: ownership_names_def)+
  then show ?thesis using shapes_ser [OF assms(2)] by (simp add: shapes_def)
qed

context json_text
begin

lemma wire_Some: "encode_record L r = Some text \<Longrightarrow> wire L r = Some (value_of (ser_ownership r))"
  by (auto simp: wire_def encode_record_def encode_def Let_def from_to_newline split: if_splits)

lemma wire_iff: "wire L r = (if encode_record L r = None then None else Some (value_of (ser_ownership r)))"
  using wire_Some by (auto simp: wire_def)

lemma validated_value_represents:
  assumes "represents v r"
  shows "validated_value L v = (if prints L r \<and> valid L r then Some r else None)"
proof (cases "length (to_vec L v) \<le> MAX_RECORD_BYTES")
  case True
  have d: "decode L de_ownership (to_vec L v) = Some r"
    unfolding decode_to_vec [OF True] by (rule represents_de [OF assms])
  have "valid_shapes L (to_vec L v)" if "valid L r"
    using represents_shapes [OF represents_value_of [OF assms] validD(3) [OF that]]
    by (simp add: valid_shapes_def from_to)
  then show ?thesis using True d
    by (auto simp: validated_value_def decode_record_def validated_def prints_def represents_unique [OF assms, symmetric])
next
  case False
  then show ?thesis
    by (simp add: validated_value_def decode_record_def decode_def prints_def represents_unique [OF assms, symmetric])
qed

end

section \<open>Editing a value\<close>

lemma represents_set:
  assumes v: "represents v r" and k: "k \<in> set ownership_names"
    and same: "\<And>k' y. (k', y) \<in> set (ownership_fields r') \<Longrightarrow>
      (if k' = k then map_option value_of y = Some z else (k', y) \<in> set (ownership_fields r))"
  shows "represents (jset k z v) r'"
proof -
  from v obtain kvs where p: "v = JObj kvs" "key_sorted kvs" "fst ` set kvs \<subseteq> set ownership_names"
    "reads_record (map_of kvs) value_of r" unfolding represents_def by blast
  have "reads_record (map_of (bt_insert k z kvs)) value_of r'"
    unfolding reads_record_def
  proof clarify
    fix k' y assume "(k', y) \<in> set (ownership_fields r')"
    from same [OF this] show "map_of (bt_insert k z kvs) k' = map_option value_of y"
      using p(4) by (auto simp: reads_record_def map_of_bt_insert split: if_splits)
  qed
  then show ?thesis
    using p(2,3) k by (auto simp: represents_def jset_def p(1) key_sorted_bt_insert fst_bt_insert)
qed

lemma represents_unset:
  assumes v: "represents v r" and k: "k \<in> set ownership_names"
    and same: "\<And>k' y. (k', y) \<in> set (ownership_fields r') \<Longrightarrow>
      (if k' = k then y = None else (k', y) \<in> set (ownership_fields r))"
  shows "represents (jremove k v) r'"
proof -
  from v obtain kvs where p: "v = JObj kvs" "key_sorted kvs" "fst ` set kvs \<subseteq> set ownership_names"
    "reads_record (map_of kvs) value_of r" unfolding represents_def by blast
  let ?m = "filter (\<lambda>(k', _). k' \<noteq> k) kvs"
  have m: "map_of ?m = (map_of kvs)(k := None)"
    by (induction kvs) (auto simp: fun_eq_iff)
  have "reads_record (map_of ?m) value_of r'"
    unfolding reads_record_def
  proof clarify
    fix k' y assume "(k', y) \<in> set (ownership_fields r')"
    from same [OF this] show "map_of ?m k' = map_option value_of y"
      using p(4) unfolding m by (auto simp: reads_record_def split: if_splits)
  qed
  moreover have "key_sorted ?m"
    using p(2) unfolding key_sorted_def sorted_wrt_map by (rule sorted_wrt_filter)
  moreover have "fst ` set ?m \<subseteq> set ownership_names" using p(3) by auto
  ultimately show ?thesis by (auto simp: represents_def jremove_def p(1))
qed

lemma release_wire_ser: "release_wire rel = value_of (ser_release rel)"
  by (simp add: release_wire_def ser_release_def mk_obj_def release_fields_def)

lemma update_member:
  assumes d: "distinct (map fst xs)" and i: "i < length xs" "fst (xs ! i) = k0"
    and m: "(k, y) \<in> set (xs[i := (k0, y0)])"
  shows "if k = k0 then y = y0 else (k, y) \<in> set xs"
proof -
  from m obtain j where j: "j < length xs" "xs[i := (k0, y0)] ! j = (k, y)"
    by (auto simp: in_set_conv_nth)
  show ?thesis
  proof (cases "j = i")
    case True
    then show ?thesis using j i by simp
  next
    case False
    then have x: "xs ! j = (k, y)" using j by simp
    then have "map fst xs ! j = k" "map fst xs ! i = k0" using i j by simp_all
    then have "k \<noteq> k0" using d i(1) j(1) False by (metis length_map nth_eq_iff_index_eq)
    then show ?thesis using x j(1) by (metis nth_mem)
  qed
qed

lemma ownership_fields_length: "length (ownership_fields r) = 28"
  by (simp add: ownership_fields_def)

lemma represents_set_nth:
  assumes v: "represents v r" and i: "i < 28" "ownership_names ! i = k"
    and f: "ownership_fields r' = (ownership_fields r)[i := (k, y0)]"
  shows "map_option value_of y0 = Some z \<Longrightarrow> represents (jset k z v) r'"
    and "y0 = None \<Longrightarrow> represents (jremove k v) r'"
proof -
  have n: "fst (ownership_fields r ! i) = k"
    using i ownership_names_eq [of r] ownership_fields_length [of r] by (metis nth_map)
  have k: "k \<in> set ownership_names"
    using i by (metis length_map nth_mem ownership_fields_length ownership_names_eq)
  note U = update_member [OF ownership_fields_wf(1) _ n]
  show "represents (jset k z v) r'" if z: "map_option value_of y0 = Some z"
  proof (rule represents_set [OF v k])
    fix k' y assume "(k', y) \<in> set (ownership_fields r')"
    from U [OF _ this [unfolded f]] i z
    show "if k' = k then map_option value_of y = Some z else (k', y) \<in> set (ownership_fields r)"
      by (simp add: ownership_fields_length split: if_splits)
  qed
  show "represents (jremove k v) r'" if z: "y0 = None"
  proof (rule represents_unset [OF v k])
    fix k' y assume "(k', y) \<in> set (ownership_fields r')"
    from U [OF _ this [unfolded f]] i z
    show "if k' = k then y = None else (k', y) \<in> set (ownership_fields r)"
      by (simp add: ownership_fields_length split: if_splits)
  qed
qed

lemma fields_update:
  "ownership_fields (r\<lparr>schema := a\<rparr>) = (ownership_fields r)[0 := (''schema'', Some (ser_u32 a))]"
  "ownership_fields (r\<lparr>phase := b\<rparr>) = (ownership_fields r)[1 := (''phase'', Some (JStr (phase_name b)))]"
  "ownership_fields (r\<lparr>unfinished_direction := c\<rparr>)
     = (ownership_fields r)[2 := (''unfinished_direction'', Some (JStr (direction_name c)))]"
  "ownership_fields (r\<lparr>configuration_sha256 := cf\<rparr>)
     = (ownership_fields r)[8 := (''configuration_sha256'', Some (JStr cf))]"
  "ownership_fields (r\<lparr>permitted_resources := g\<rparr>)
     = (ownership_fields r)[9 := (''permitted_resources'', Some (ser_strs g))]"
  "ownership_fields (r\<lparr>cleanup_checkpoint := d\<rparr>)
     = (ownership_fields r)[10 := (''cleanup_checkpoint'', Some (ser_u32 d))]"
  "ownership_fields (r\<lparr>removal_checkpoint := e\<rparr>)
     = (ownership_fields r)[11 := (''removal_checkpoint'', Some (ser_u32 e))]"
  "ownership_fields (r\<lparr>resource_creating_releases := h\<rparr>)
     = (ownership_fields r)[12 := (''resource_creating_releases'', map_option ser_releases h)]"
  "ownership_fields (r\<lparr>finishing_release_identity := f\<rparr>)
     = (ownership_fields r)[13 := (''finishing_release_identity'', map_option ser_release f)]"
  "ownership_fields (r\<lparr>proxy_startup := st\<rparr>)
     = (ownership_fields r)[22 := (''proxy_startup'', map_option ser_startup st)]"
  "ownership_fields (r\<lparr>client_identity_rotation := cr\<rparr>)
     = (ownership_fields r)[25 := (''client_identity_rotation'', map_option ser_client_rotation cr)]"
  by (simp_all add: ownership_fields_def)

lemma ownership_names_nth:
  "ownership_names ! 0 = ''schema''" "ownership_names ! 1 = ''phase''"
  "ownership_names ! 2 = ''unfinished_direction''" "ownership_names ! 8 = ''configuration_sha256''"
  "ownership_names ! 9 = ''permitted_resources''" "ownership_names ! 10 = ''cleanup_checkpoint''"
  "ownership_names ! 11 = ''removal_checkpoint''" "ownership_names ! 12 = ''resource_creating_releases''"
  "ownership_names ! 13 = ''finishing_release_identity''" "ownership_names ! 22 = ''proxy_startup''"
  "ownership_names ! 25 = ''client_identity_rotation''"
  by (simp_all add: ownership_names_def)

text \<open>One rule per member that the removal and the rotation of the client identity edit.\<close>

lemma represents_edits:
  assumes "represents v r"
  shows "represents (jset ''schema'' (ser_u32 a) v) (r\<lparr>schema := a\<rparr>)"
    and "represents (jset ''phase'' (JStr (phase_name b)) v) (r\<lparr>phase := b\<rparr>)"
    and "represents (jset ''unfinished_direction'' (JStr (direction_name c)) v) (r\<lparr>unfinished_direction := c\<rparr>)"
    and "represents (jset ''configuration_sha256'' (JStr cf) v) (r\<lparr>configuration_sha256 := cf\<rparr>)"
    and "represents (jset ''permitted_resources'' (ser_strs g) v) (r\<lparr>permitted_resources := g\<rparr>)"
    and "represents (jset ''cleanup_checkpoint'' (ser_u32 d) v) (r\<lparr>cleanup_checkpoint := d\<rparr>)"
    and "represents (jset ''removal_checkpoint'' (ser_u32 e) v) (r\<lparr>removal_checkpoint := e\<rparr>)"
    and "represents (jset ''resource_creating_releases'' (value_of (ser_releases h)) v)
           (r\<lparr>resource_creating_releases := Some h\<rparr>)"
    and "represents (jset ''finishing_release_identity'' (value_of (ser_release f)) v)
           (r\<lparr>finishing_release_identity := Some f\<rparr>)"
    and "represents (jset ''proxy_startup'' (value_of (ser_startup st)) v) (r\<lparr>proxy_startup := Some st\<rparr>)"
    and "represents (jset ''client_identity_rotation'' (value_of (ser_client_rotation cr)) v)
           (r\<lparr>client_identity_rotation := Some cr\<rparr>)"
    and "represents (jremove ''proxy_startup'' v) (r\<lparr>proxy_startup := None\<rparr>)"
    and "represents (jremove ''client_identity_rotation'' v) (r\<lparr>client_identity_rotation := None\<rparr>)"
  by (rule represents_set_nth [OF assms _ ownership_names_nth(1) fields_update(1)]
      represents_set_nth [OF assms _ ownership_names_nth(2) fields_update(2)]
      represents_set_nth [OF assms _ ownership_names_nth(3) fields_update(3)]
      represents_set_nth [OF assms _ ownership_names_nth(4) fields_update(4)]
      represents_set_nth [OF assms _ ownership_names_nth(5) fields_update(5)]
      represents_set_nth [OF assms _ ownership_names_nth(6) fields_update(6)]
      represents_set_nth [OF assms _ ownership_names_nth(7) fields_update(7)]
      represents_set_nth [OF assms _ ownership_names_nth(8) fields_update(8)]
      represents_set_nth [OF assms _ ownership_names_nth(9) fields_update(9)]
      represents_set_nth [OF assms _ ownership_names_nth(10) fields_update(10)]
      represents_set_nth [OF assms _ ownership_names_nth(11) fields_update(11)]; simp)+

end
