(* ===== verification/Removal_Record.thy ===== *)
theory Removal_Record
  imports Record_Value Staged Record_Laws
begin

text \<open>
  The record side of Complete removal (first part of \<open>src/removal.rs\<close>): the commitment of a removal,
  its checkpoints and the release that must finish it.  The code works on the record's \<open>Value\<close>; the
  lemmas of the last sections show that each function is the expected update of the typed record.
\<close>

section \<open>Removal records\<close>

definition SCHEMA2_LINE :: string where
  "SCHEMA2_LINE = ''/var/lib/sbxr/proxy-ownership.json root:root 0600 one-link schema-2''"

definition lifecycle_value :: "release_identity \<Rightarrow> json" where
  "lifecycle_value finisher = value_of (JObj
     [(''schema'', JNum 2), (''release_identity'', release_wire finisher),
      (''proxy_package_identity'', JStr []), (''public_ipv4'', JStr []),
      (''destination_address'', JStr []), (''destination_server_name'', JStr []),
      (''configuration_sha256'', JStr []),
      (''permitted_resources'', JArr
        [JStr SCHEMA2_LINE,
         JStr ''/var/lib/.sbxr-removal.json root:root 0600 one-link finalization authority'',
         JStr ''/usr/local/bin/sbxr exact committed Release Identity'',
         JStr ''/var/lib/sbxr/installed.json exact committed Release Identity'']),
      (''resource_creating_releases'', JArr (replicate 4 (release_wire finisher)))])"

definition removal_base :: "lib \<Rightarrow> wire_ownership option \<Rightarrow> release_identity \<Rightarrow> json option" where
  "removal_base L source finisher =
     (case source of
        Some src \<Rightarrow>
          if unfinished_direction src = Removal then None
          else do {
            value \<leftarrow> wire L src;
            (if is_Some (jget ''subscription_transport_migration'' value) then None
             else if schema src = 1 then
               let value = jset ''schema'' (JNum 2) value;
                   value = jset ''permitted_resources''
                             (jset_nth 0 (JStr SCHEMA2_LINE) (jindex ''permitted_resources'' value)) value
               in Some (jset ''resource_creating_releases''
                    (JArr (map (\<lambda>_. release_wire (release_identity src)) (permitted_resources src))) value)
             else Some value)
          }
      | None \<Rightarrow> Some (lifecycle_value finisher))"

definition removal_value :: "lib \<Rightarrow> wire_ownership option \<Rightarrow> release_identity \<Rightarrow> json option" where
  "removal_value L source finisher =
     map_option (\<lambda>value.
         jset ''finishing_release_identity'' (release_wire finisher)
           (jset ''removal_checkpoint'' (JNum 0)
             (jset ''cleanup_checkpoint'' (JNum 0)
               (jset ''unfinished_direction'' (JStr ''removal required'')
                 (jset ''phase'' (JStr ''Removal committed'') value)))))
       (removal_base L source finisher)"

definition commit_removal :: "lib \<Rightarrow> wire_ownership option \<Rightarrow> release_identity \<Rightarrow> wire_ownership option" where
  "commit_removal L source finisher = Option.bind (removal_value L source finisher) (validated_value L)"

text \<open>\<open>as_u64().and_then(|v| u32::try_from(v).ok())\<close>.\<close>

definition as_u32 :: "json \<Rightarrow> u32 option" where
  "as_u32 j = (case j of JNum n \<Rightarrow> if 0 \<le> n \<and> n < 2 ^ 32 then Some (word_of_int n) else None | _ \<Rightarrow> None)"

definition as_str :: "json \<Rightarrow> string option" where
  "as_str j = (case j of JStr s \<Rightarrow> Some s | _ \<Rightarrow> None)"

definition checkpoint :: "lib \<Rightarrow> wire_ownership \<Rightarrow> u32 option" where
  "checkpoint L record =
     (if unfinished_direction record \<noteq> Removal then None
      else do { value \<leftarrow> wire L record; as_u32 (jindex ''removal_checkpoint'' value) })"

definition checkpoint_limit :: "lib \<Rightarrow> wire_ownership \<Rightarrow> u32 option" where
  "checkpoint_limit L record = do {
     _ \<leftarrow> checkpoint L record;
     value \<leftarrow> wire L record;
     Some (if jindex ''proxy_package_identity'' value = JStr [] then 3 else 11)
   }"

definition next_checkpoint :: "lib \<Rightarrow> wire_ownership \<Rightarrow> wire_ownership option" where
  "next_checkpoint L record = do {
     current \<leftarrow> checkpoint L record;
     limit \<leftarrow> checkpoint_limit L record;
     (if current \<ge> limit then None
      else do {
        value \<leftarrow> wire L record;
        validated_value L (jset ''removal_checkpoint'' (ser_u32 (current + 1)) value)
      })
   }"

definition finishing_release :: "lib \<Rightarrow> wire_ownership \<Rightarrow> release_identity option" where
  "finishing_release L record = do {
     _ \<leftarrow> checkpoint L record;
     (if schema record = 1 then Some (release_identity record)
      else do {
        value \<leftarrow> wire L record;
        let release = jindex ''finishing_release_identity'' value;
        t \<leftarrow> as_str (jindex ''Tag'' release);
        c \<leftarrow> as_str (jindex ''Commit'' release);
        i \<leftarrow> as_str (jindex ''IndexSHA256'' release);
        identity \<leftarrow> new_release t c i;
        repository \<leftarrow> as_str (jindex ''Repository'' release);
        (if repository \<noteq> ri_repository identity then None else Some identity)
      })
   }"

section \<open>The typed view of a commitment\<close>

definition removal_of :: "wire_ownership \<Rightarrow> release_identity \<Rightarrow> wire_ownership" where
  "removal_of r finisher =
     (if schema r = 1
      then r\<lparr>schema := 2, permitted_resources := (permitted_resources r)[0 := SCHEMA2_LINE],
             resource_creating_releases := Some (map (\<lambda>_. release_identity r) (permitted_resources r))\<rparr>
      else r)
     \<lparr>phase := RemovalCommitted, unfinished_direction := Removal, cleanup_checkpoint := 0,
      removal_checkpoint := 0, finishing_release_identity := Some finisher\<rparr>"

lemma resources_schema2:
  assumes v: "valid L r" and s: "schema r = 1"
  shows "resources L (r\<lparr>schema := 2\<rparr>) = (resources L r)[0 := SCHEMA2_LINE]"
proof -
  note P = valid_schema1_plain [OF v s]
  have "base_resources (r\<lparr>schema := 2\<rparr>) = base_resources r" by (simp add: base_resources_def)
  moreover have "base_resources r \<noteq> []" "lifecycle_resources \<noteq> []"
    by (simp_all add: base_resources_def lifecycle_resources_def)
  moreover have "ownership_line 2 = SCHEMA2_LINE" by (simp add: ownership_line_def SCHEMA2_LINE_def)
  ultimately show ?thesis
    using P s by (simp add: resources_def resources_head_def repair_part_def opt_lines_def Let_def
        list_update_append split: option.splits)
qed

text \<open>Committing removal keeps every guard on the operation fields.\<close>

lemma guards_committed:
  assumes "phase r = Running" "unfinished_direction r = Idle" "\<not> subscription_transport_migration r"
  shows "guard_migration (r\<lparr>phase := RemovalCommitted, unfinished_direction := Removal\<rparr>)"
    and "guard_serving r \<Longrightarrow> guard_serving (r\<lparr>phase := RemovalCommitted, unfinished_direction := Removal\<rparr>)"
    and "guard_renewal r \<Longrightarrow> guard_renewal (r\<lparr>phase := RemovalCommitted, unfinished_direction := Removal\<rparr>)"
    and "guard_activation r \<Longrightarrow> guard_activation (r\<lparr>phase := RemovalCommitted, unfinished_direction := Removal\<rparr>)"
    and "guard_enablement r \<Longrightarrow> guard_enablement (r\<lparr>phase := RemovalCommitted, unfinished_direction := Removal\<rparr>)"
    and "guard_rotation r \<Longrightarrow> guard_rotation (r\<lparr>phase := RemovalCommitted, unfinished_direction := Removal\<rparr>)"
    and "guard_repair r \<Longrightarrow> guard_repair (r\<lparr>phase := RemovalCommitted, unfinished_direction := Removal\<rparr>)"
    and "guard_startup r \<Longrightarrow> guard_startup (r\<lparr>phase := RemovalCommitted, unfinished_direction := Removal\<rparr>)"
    and "guard_client r \<Longrightarrow> guard_client (r\<lparr>phase := RemovalCommitted, unfinished_direction := Removal\<rparr>)"
  using assms
  by (simp_all add: guard_migration_def guard_serving_def guard_renewal_def guard_activation_def
      guard_enablement_def guard_rotation_def guard_repair_def guard_startup_def guard_client_def
      operation_context_def)

lemma removal_of_valid_schema2:
  assumes v: "valid L r" and d: "unfinished_direction r \<noteq> Removal" and s: "schema r = 2"
    and m: "\<not> subscription_transport_migration r" and f: "valid_release finisher"
  shows "valid L (r\<lparr>phase := RemovalCommitted, unfinished_direction := Removal, cleanup_checkpoint := 0,
      removal_checkpoint := 0, finishing_release_identity := Some finisher\<rparr>)" (is "valid L ?n")
proof -
  note R = valid_schema2_running [OF v s d]
  note G = guards_committed [OF R(1,2) m]
  have sch: "guard_schema ?n"
    using validD(2) [OF v] s f by (simp add: guard_schema_def guard_schema2_def)
  have dir: "guard_direction ?n" by (simp add: guard_direction_def)
  have fac: "guard_proxy_facts L ?n"
    using validD(18) [OF v] d valid_package_nonempty [OF v d] by (simp add: guard_proxy_facts_def)
  have id: "guard_identity ?n" using validD(1) [OF v] by simp
  show ?thesis
    unfolding valid_def
    by (intro conjI) (use G validD [OF v] sch dir fac id in simp_all)
qed

lemma removal_of_valid_schema1:
  assumes v: "valid L r" and d: "unfinished_direction r \<noteq> Removal" and s: "schema r = 1"
    and f: "valid_release finisher"
  shows "valid L (r\<lparr>schema := 2, permitted_resources := (permitted_resources r)[0 := SCHEMA2_LINE],
      resource_creating_releases := Some (map (\<lambda>_. release_identity r) (permitted_resources r)),
      phase := RemovalCommitted, unfinished_direction := Removal, cleanup_checkpoint := 0,
      removal_checkpoint := 0, finishing_release_identity := Some finisher\<rparr>)" (is "valid L ?n")
proof -
  note P = valid_schema1_plain [OF v s]
  have pk: "proxy_package_identity r = PACKAGE_IDENTITY" by (rule valid_package_nonempty [OF v d])
  have res: "permitted_resources r = resources L r" by (rule valid_resources [OF v])
  have sch: "guard_schema ?n"
    using f valid_release_identity [OF v] by (simp add: guard_schema_def guard_schema2_def list_all_iff)
  have fac: "guard_proxy_facts L ?n"
    using validD(18) [OF v] d pk res resources_schema2 [OF v s] by (simp add: guard_proxy_facts_def)
  have id: "guard_identity ?n" using validD(1) [OF v] by (simp add: guard_identity_def)
  have dir: "guard_direction ?n" by (simp add: guard_direction_def)
  show ?thesis
    unfolding valid_def
    by (intro conjI) (use P validD(14,15) [OF v] sch fac id dir in \<open>simp_all add: guard_retirement_def
      guard_migration_def guard_serving_def guard_renewal_def guard_activation_def guard_enablement_def
      guard_rotation_def guard_repair_def guard_compromised_def guard_subscription_resources_def
      guard_startup_def guard_client_def\<close>)
qed

lemma removal_of_valid:
  assumes "valid L r" "unfinished_direction r \<noteq> Removal" "\<not> subscription_transport_migration r"
    "valid_release finisher"
  shows "valid L (removal_of r finisher)"
  using removal_of_valid_schema1 [OF assms(1,2) _ assms(4)] removal_of_valid_schema2 [OF assms(1,2) _ assms(3,4)]
    valid_schema [OF assms(1)]
  by (auto simp: removal_of_def)

text \<open>The record of a removal without a proxy: only the product's own four resources.\<close>

definition lifecycle_removal :: "release_identity \<Rightarrow> wire_ownership" where
  "lifecycle_removal finisher =
     \<lparr>schema = 2, phase = RemovalCommitted, unfinished_direction = Removal,
      release_identity = finisher, proxy_package_identity = [], public_ipv4_of = [],
      destination_address = [], destination_server_name = [], configuration_sha256 = [],
      permitted_resources = [SCHEMA2_LINE,
         ''/var/lib/.sbxr-removal.json root:root 0600 one-link finalization authority'',
         ''/usr/local/bin/sbxr exact committed Release Identity'',
         ''/var/lib/sbxr/installed.json exact committed Release Identity''],
      cleanup_checkpoint = 0, removal_checkpoint = 0,
      resource_creating_releases = Some (replicate 4 finisher),
      finishing_release_identity = Some finisher, serving = None, renewal = None,
      certificate_activation = None, subscription_enablement = None, subscription_rotation = None,
      subscription_repair = None, subscription_compromised = False, subscription_resources = None,
      proxy_startup = None, lock_provisioning = None, tunnel = None,
      client_identity_rotation = None, https_retirement = None,
      subscription_transport_migration = False\<rparr>"

lemma lifecycle_removal_valid: "valid L (lifecycle_removal finisher) \<longleftrightarrow> valid_release finisher"
proof -
  have "resources L (lifecycle_removal finisher) = permitted_resources (lifecycle_removal finisher)"
    by (simp add: lifecycle_removal_def resources_def resources_head_def repair_part_def opt_lines_def
        lifecycle_resources_def removal_line_def ownership_line_def SCHEMA2_LINE_def)
  then show ?thesis
    by (auto simp: valid_def all_guards lifecycle_removal_def removal_limit_def numeral_eq_Suc)
qed

section \<open>Refinement\<close>

lemma JNum_ser_u32: "JNum 0 = ser_u32 0" "JNum 2 = ser_u32 2"
  by (simp_all add: ser_u32_def)

lemma commit_names:
  "JStr ''Removal committed'' = JStr (phase_name RemovalCommitted)"
  "JStr ''removal required'' = JStr (direction_name Removal)"
  by simp_all

lemma represents_commit:
  assumes "represents v r"
  shows "represents (jset ''finishing_release_identity'' (release_wire finisher)
           (jset ''removal_checkpoint'' (JNum 0)
             (jset ''cleanup_checkpoint'' (JNum 0)
               (jset ''unfinished_direction'' (JStr ''removal required'')
                 (jset ''phase'' (JStr ''Removal committed'') v)))))
    (r\<lparr>phase := RemovalCommitted, unfinished_direction := Removal, cleanup_checkpoint := 0,
      removal_checkpoint := 0, finishing_release_identity := Some finisher\<rparr>)"
  unfolding commit_names JNum_ser_u32 release_wire_ser
  by (intro represents_edits assms)

lemma represents_schema2:
  assumes v: "represents v r"
  shows "represents (jset ''resource_creating_releases''
      (JArr (map (\<lambda>_. release_wire (release_identity r)) (permitted_resources r)))
      (jset ''permitted_resources''
         (jset_nth 0 (JStr SCHEMA2_LINE) (jindex ''permitted_resources'' (jset ''schema'' (JNum 2) v)))
         (jset ''schema'' (JNum 2) v)))
    (r\<lparr>schema := 2, permitted_resources := (permitted_resources r)[0 := SCHEMA2_LINE],
       resource_creating_releases := Some (map (\<lambda>_. release_identity r) (permitted_resources r))\<rparr>)"
proof -
  let ?v = "jset ''schema'' (ser_u32 2) v"
  have s: "represents ?v (r\<lparr>schema := 2\<rparr>)" by (rule represents_edits(1) [OF v])
  have "jget ''permitted_resources'' ?v
      = jget ''permitted_resources'' (value_of (ser_ownership (r\<lparr>schema := 2\<rparr>)))"
    by (rule represents_jget [OF s represents_value]) (simp add: ownership_names_def)
  then have "jindex ''permitted_resources'' ?v = ser_strs (permitted_resources r)"
    by (simp add: jget_ownership jindex_def)
  then have p: "jset_nth 0 (JStr SCHEMA2_LINE) (jindex ''permitted_resources'' ?v)
      = ser_strs ((permitted_resources r)[0 := SCHEMA2_LINE])"
    by (simp add: jset_nth_def ser_strs_def map_update)
  have c: "JArr (map (\<lambda>_. release_wire (release_identity r)) (permitted_resources r))
      = value_of (ser_releases (map (\<lambda>_. release_identity r) (permitted_resources r)))"
    by (simp add: ser_releases_def release_wire_ser comp_def)
  show ?thesis
    unfolding JNum_ser_u32 p c by (rule represents_edits(8) [OF represents_edits(5) [OF s]])
qed

lemma lifecycle_value_represents:
  "represents (jset ''finishing_release_identity'' (release_wire finisher)
           (jset ''removal_checkpoint'' (JNum 0)
             (jset ''cleanup_checkpoint'' (JNum 0)
               (jset ''unfinished_direction'' (JStr ''removal required'')
                 (jset ''phase'' (JStr ''Removal committed'') (lifecycle_value finisher))))))
    (lifecycle_removal finisher)"
proof -
  define kvs where "kvs = map (map_prod id value_of)
     [(''schema'', JNum 2), (''release_identity'', release_wire finisher),
      (''proxy_package_identity'', JStr []), (''public_ipv4'', JStr []),
      (''destination_address'', JStr []), (''destination_server_name'', JStr []),
      (''configuration_sha256'', JStr []),
      (''permitted_resources'', JArr
        [JStr SCHEMA2_LINE,
         JStr ''/var/lib/.sbxr-removal.json root:root 0600 one-link finalization authority'',
         JStr ''/usr/local/bin/sbxr exact committed Release Identity'',
         JStr ''/var/lib/sbxr/installed.json exact committed Release Identity'']),
      (''resource_creating_releases'', JArr (replicate 4 (release_wire finisher)))]"
  have v: "lifecycle_value finisher = JObj (bt_of kvs)"
    by (simp add: lifecycle_value_def kvs_def)
  have d: "distinct (map fst kvs)" by (simp add: kvs_def)
  have n: "fst ` set kvs \<subseteq> set ownership_names" by (simp add: kvs_def ownership_names_def)
  let ?m = "bt_insert ''finishing_release_identity'' (release_wire finisher)
      (bt_insert ''removal_checkpoint'' (JNum 0) (bt_insert ''cleanup_checkpoint'' (JNum 0)
        (bt_insert ''unfinished_direction'' (JStr ''removal required'')
          (bt_insert ''phase'' (JStr ''Removal committed'') (bt_of kvs)))))"
  have m: "map_of ?m = (map_of kvs)(''phase'' \<mapsto> JStr ''Removal committed'',
      ''unfinished_direction'' \<mapsto> JStr ''removal required'', ''cleanup_checkpoint'' \<mapsto> JNum 0,
      ''removal_checkpoint'' \<mapsto> JNum 0, ''finishing_release_identity'' \<mapsto> release_wire finisher)"
    by (simp add: map_of_bt_insert map_of_bt_of [OF d])
  have "reads_record (map_of ?m) value_of (lifecycle_removal finisher)"
    unfolding m reads_record_def ownership_fields_def
    by (simp add: kvs_def lifecycle_removal_def ser_u32_def ser_strs_def skip_false_def
        release_wire_ser ser_releases_def)
  moreover have "key_sorted ?m" by (intro key_sorted_bt_insert bt_of_sorted)
  moreover have "fst ` set ?m \<subseteq> set ownership_names"
    using n by (simp add: fst_bt_insert fst_bt_of ownership_names_def)
  ultimately show ?thesis unfolding represents_def by (simp add: jset_def v)
qed

lemma removal_of_finisher: "valid L (removal_of r f) \<Longrightarrow> valid L r \<Longrightarrow> valid_release f"
  using valid_schema [of L r] by (auto simp: valid_def guard_schema_def guard_schema2_def removal_of_def
      split: if_splits)

context json_text
begin

lemma removal_value_some:
  assumes "unfinished_direction r \<noteq> Removal" "\<not> subscription_transport_migration r"
    and "encode_record L r \<noteq> None"
  shows "\<exists>v. removal_value L (Some r) f = Some v \<and> represents v (removal_of r f)"
proof -
  have w: "wire L r = Some (value_of (ser_ownership r))" using assms(3) by (simp add: wire_iff)
  have g: "\<not> is_Some (jget ''subscription_transport_migration'' (value_of (ser_ownership r)))"
    using assms(2) by (simp add: jget_ownership skip_false_def)
  show ?thesis
  proof (cases "schema r = 1")
    case True
    then show ?thesis
      using assms(1) w g represents_commit [OF represents_schema2 [OF represents_value, of r], of f]
      by (simp add: removal_value_def removal_base_def removal_of_def Let_def)
  next
    case False
    then show ?thesis
      using assms(1) w g represents_commit [OF represents_value [of r], of f]
      by (simp add: removal_value_def removal_base_def removal_of_def)
  qed
qed

lemma removal_value_none:
  assumes "unfinished_direction r = Removal \<or> subscription_transport_migration r \<or> encode_record L r = None"
  shows "removal_value L (Some r) f = None"
  using assms by (auto simp: removal_value_def removal_base_def wire_iff jget_ownership skip_false_def)

lemma commit_removal_eq:
  assumes v: "valid L r"
  shows "commit_removal L (Some r) f =
     (if unfinished_direction r \<noteq> Removal \<and> \<not> subscription_transport_migration r \<and> valid_release f
         \<and> encode_record L r \<noteq> None \<and> prints L (removal_of r f)
      then Some (removal_of r f) else None)"
proof (cases "unfinished_direction r = Removal \<or> subscription_transport_migration r \<or> encode_record L r = None")
  case True
  from removal_value_none [OF this, of f] True show ?thesis by (auto simp: commit_removal_def)
next
  case False
  then have c: "unfinished_direction r \<noteq> Removal" "\<not> subscription_transport_migration r"
    "encode_record L r \<noteq> None" by auto
  from removal_value_some [OF c] obtain x where x: "removal_value L (Some r) f = Some x"
    "represents x (removal_of r f)" by blast
  have "valid L (removal_of r f) \<longleftrightarrow> valid_release f"
    using removal_of_valid [OF v c(1,2)] removal_of_finisher v by blast
  then show ?thesis
    using x c validated_value_represents [OF x(2)] by (simp add: commit_removal_def)
qed

lemma commit_removal_fresh:
  "commit_removal L None f =
     (if valid_release f \<and> prints L (lifecycle_removal f) then Some (lifecycle_removal f) else None)"
  using validated_value_represents [OF lifecycle_value_represents [of f]]
  by (simp add: commit_removal_def removal_value_def removal_base_def lifecycle_removal_valid)

lemma as_u32_ser [simp]: "as_u32 (ser_u32 n) = Some n"
  using uint_lt2p [of n] by (simp add: as_u32_def ser_u32_def)

lemma checkpoint_eq:
  "checkpoint L r = (if unfinished_direction r = Removal \<and> encode_record L r \<noteq> None
     then Some (removal_checkpoint r) else None)"
  by (simp add: checkpoint_def wire_iff jindex_def jget_ownership)

lemma checkpoint_limit_eq:
  "checkpoint_limit L r = (if unfinished_direction r = Removal \<and> encode_record L r \<noteq> None
     then Some (removal_limit r) else None)"
  by (simp add: checkpoint_limit_def checkpoint_eq wire_iff jindex_def jget_ownership removal_limit_def)

lemma next_checkpoint_eq:
  assumes v: "valid L r"
  shows "next_checkpoint L r =
     (if unfinished_direction r = Removal \<and> encode_record L r \<noteq> None \<and> removal_checkpoint r < removal_limit r
         \<and> prints L (r\<lparr>removal_checkpoint := removal_checkpoint r + 1\<rparr>)
      then Some (r\<lparr>removal_checkpoint := removal_checkpoint r + 1\<rparr>) else None)"
proof -
  let ?n = "r\<lparr>removal_checkpoint := removal_checkpoint r + 1\<rparr>"
  have ok: "valid L ?n" if "unfinished_direction r = Removal" "removal_checkpoint r < removal_limit r"
  proof -
    have "removal_checkpoint r + 1 \<le> removal_limit r" using that(2) by (rule inc_le)
    then have "guard_direction ?n"
      using validD(17) [OF v] that(1) by (simp add: guard_direction_def removal_limit_def not_less)
    moreover have "guard_proxy_facts L ?n" using validD(18) [OF v] by (simp add: guard_proxy_facts_def)
    moreover have "guard_schema ?n = guard_schema r"
      by (simp add: guard_schema_def guard_schema1_def guard_schema2_def)
    ultimately show ?thesis using validD [OF v] by (simp add: valid_def)
  qed
  show ?thesis
    using ok validated_value_represents [OF represents_edits(7) [OF represents_value [of r]], of "removal_checkpoint r + 1"]
    by (auto simp: next_checkpoint_def checkpoint_eq checkpoint_limit_eq wire_iff not_le)
qed

lemma finishing_release_eq:
  assumes v: "valid L r" and d: "unfinished_direction r = Removal" and e: "encode_record L r \<noteq> None"
  shows "finishing_release L r =
     (if schema r = 1 then Some (release_identity r) else finishing_release_identity r)"
proof (cases "schema r = 1")
  case True
  then show ?thesis using d e by (simp add: finishing_release_def checkpoint_eq)
next
  case False
  then have s: "schema r = 2" using valid_schema [OF v] by simp
  then obtain f where f: "finishing_release_identity r = Some f" "valid_release f"
    using validD(2) [OF v] d False by (auto simp: guard_schema_def guard_schema2_def is_some_and_iff)
  have j: "jget ''finishing_release_identity'' (value_of (ser_ownership r)) = Some (value_of (ser_release f))"
    using f(1) by (simp add: jget_ownership)
  have m: "jget ''Tag'' (value_of (ser_release f)) = Some (JStr (ri_tag f))"
    "jget ''Commit'' (value_of (ser_release f)) = Some (JStr (ri_commit f))"
    "jget ''IndexSHA256'' (value_of (ser_release f)) = Some (JStr (ri_index_sha256 f))"
    "jget ''Repository'' (value_of (ser_release f)) = Some (JStr (ri_repository f))"
    unfolding ser_release_def jget_value_of [OF release_fields_wf(1)]
    by (simp_all add: release_fields_def serde_simps)
  have n: "new_release (ri_tag f) (ri_commit f) (ri_index_sha256 f) = Some f"
    using f(2) by (cases f) (simp add: new_release_Some valid_release_def)
  show ?thesis
    using d e False f(1) j m n by (simp add: finishing_release_def checkpoint_eq wire_iff jindex_def as_str_def)
qed

end

text \<open>
  A removal whose records all fit the size limit is a staged operation: three checkpoints without a
  proxy, eleven with one.
\<close>

definition removing :: "lib \<Rightarrow> wire_ownership \<Rightarrow> bool" where
  "removing L r =
     (valid L r \<and> unfinished_direction r = Removal
      \<and> (\<forall>c \<le> removal_limit r. encode_record L (r\<lparr>removal_checkpoint := c\<rparr>) \<noteq> None
            \<and> prints L (r\<lparr>removal_checkpoint := c\<rparr>)))"

definition removal_stage :: "wire_ownership \<Rightarrow> nat" where
  "removal_stage r = unat (removal_checkpoint r)"

lemma removing_facts:
  assumes "removing L r"
  shows "valid L r" "unfinished_direction r = Removal" "removal_checkpoint r \<le> removal_limit r"
    "encode_record L r \<noteq> None"
proof -
  show v: "valid L r" and d: "unfinished_direction r = Removal" using assms by (simp_all add: removing_def)
  show c: "removal_checkpoint r \<le> removal_limit r"
    using validD(17) [OF v] d by (simp add: guard_direction_def not_less)
  show "encode_record L r \<noteq> None"
    using assms c unfolding removing_def by (metis wire_ownership.surjective wire_ownership.update_convs(12))
qed

lemma removing_next:
  assumes r: "removing L r" and n: "valid L (r\<lparr>removal_checkpoint := c\<rparr>)"
  shows "removing L (r\<lparr>removal_checkpoint := c\<rparr>)"
  using assms by (simp add: removing_def removal_limit_def)

sublocale json_text \<subseteq> removal_progress: staged "removing L" removal_stage "\<lambda>r. unat (removal_limit r)" "next_checkpoint L"
proof (unfold_locales, goal_cases)
  case (1 r)
  then show ?case using removing_facts(3) by (simp add: removal_stage_def word_le_nat_alt)
next
  case (2 r)
  then have c: "removal_checkpoint r < removal_limit r" by (simp add: removal_stage_def word_less_nat_alt)
  then have "prints L (r\<lparr>removal_checkpoint := removal_checkpoint r + 1\<rparr>)"
    using 2(1) inc_le [OF c] by (simp add: removing_def)
  then show ?case using next_checkpoint_eq removing_facts [OF 2(1)] c by simp
next
  case (3 r s)
  then have c: "removal_checkpoint r < removal_limit r"
    and s: "s = r\<lparr>removal_checkpoint := removal_checkpoint r + 1\<rparr>"
    using next_checkpoint_eq [OF removing_facts(1) [OF 3(1)]] by (auto split: if_splits)
  have "valid L s" using 3(2) decode_record_valid
    by (auto simp: next_checkpoint_def validated_value_def bind_eq_Some_conv split: if_splits)
  then have "removing L s" using removing_next [OF 3(1)] s by simp
  moreover have "unat (removal_checkpoint r + 1) = Suc (unat (removal_checkpoint r))"
    using c by (simp add: removal_limit_def word_less_nat_alt unat_word_ariths split: if_splits)
  ultimately show ?case using s by (simp add: removal_stage_def removal_limit_def)
qed

end
