(* ===== verification/Json_Text.thy ===== *)
theory Json_Text
  imports Release_Identity
begin

text \<open>
  A compact JSON writer and reader, proved to read back what it writes.  The repository takes its
  text layer from \<open>serde_json\<close>, which is a parameter of the development; this theory shows that the
  laws assumed of that parameter (\<open>json_text\<close>) can hold, with the format the code uses: members in
  order, no white space, escaped quotes, backslashes and control characters.
\<close>

section \<open>Writing\<close>

fun show_nat :: "nat \<Rightarrow> string" where
  "show_nat n = (if n < 10 then [char_of (48 + n)] else show_nat (n div 10) @ [char_of (48 + n mod 10)])"

declare show_nat.simps [simp del]

definition show_int :: "int \<Rightarrow> string" where
  "show_int n = (if n < 0 then CHR ''-'' # show_nat (nat (- n)) else show_nat (nat n))"

definition backslash :: char where
  "backslash = CHR 0x5C"

definition quote :: char where
  "quote = CHR 0x22"

definition nibble :: "nat \<Rightarrow> char" where
  "nibble n = char_of (if n < 10 then 48 + n else 87 + n)"

definition escape :: "char \<Rightarrow> string" where
  "escape c =
     (if c = quote \<or> c = backslash then [backslash, c]
      else if of_char c < (32 :: nat)
      then [backslash, CHR ''u'', nibble (of_char c div 16), nibble (of_char c mod 16)]
      else [c])"

definition pr_str :: "string \<Rightarrow> string" where
  "pr_str s = quote # concat (map escape s) @ [quote]"

fun join :: "string list \<Rightarrow> string" where
  "join [] = []"
| "join [x] = x"
| "join (x # y # zs) = x @ CHR '','' # join (y # zs)"

definition pr_member :: "string \<times> string \<Rightarrow> string" where
  "pr_member = (\<lambda>(k, v). pr_str k @ CHR '':'' # v)"

primrec pr :: "json \<Rightarrow> string" where
  "pr JNull = ''null''"
| "pr (JBool b) = (if b then ''true'' else ''false'')"
| "pr (JNum n) = show_int n"
| "pr (JStr s) = pr_str s"
| "pr (JArr xs) = CHR ''['' # join (map pr xs) @ '']''"
| "pr (JObj kvs) = CHR ''{'' # join (map pr_member (map (map_prod id pr) kvs)) @ ''}''"

section \<open>Reading\<close>

definition unnibble :: "char \<Rightarrow> nat" where
  "unnibble c = (if is_ascii_digit c then of_char c - 48 else of_char c - 87)"

text \<open>The digits after \<open>\u\<close> are the two low ones here: only control characters are written so.\<close>

fun p_str :: "string \<Rightarrow> (string \<times> string) option" where
  "p_str [] = None"
| "p_str (c # cs) =
     (if c = quote then Some ([], cs)
      else if c = backslash then
        (case cs of
           [] \<Rightarrow> None
         | e # cs1 \<Rightarrow>
             if e = CHR ''u'' then
               (case cs1 of
                  h # cs2 \<Rightarrow>
                    (case cs2 of
                       l # cs3 \<Rightarrow>
                         map_option (\<lambda>(s, t). (char_of (16 * unnibble h + unnibble l) # s, t)) (p_str cs3)
                     | [] \<Rightarrow> None)
                | [] \<Rightarrow> None)
             else map_option (\<lambda>(s, t). (e # s, t)) (p_str cs1))
      else map_option (\<lambda>(s, t). (c # s, t)) (p_str cs))"

definition p_nat :: "string \<Rightarrow> (nat \<times> string) option" where
  "p_nat s =
     (let ds = takeWhile is_ascii_digit s
      in if ds = [] then None
         else Some (foldl (\<lambda>n c. n * 10 + (of_char c - 48)) 0 ds, drop (length ds) s))"

definition p_int :: "string \<Rightarrow> (json \<times> string) option" where
  "p_int s =
     (case s of
        c # cs \<Rightarrow> if c = CHR ''-'' then map_option (\<lambda>(n, t). (JNum (- int n), t)) (p_nat cs)
                   else map_option (\<lambda>(n, t). (JNum (int n), t)) (p_nat s)
      | [] \<Rightarrow> None)"

definition p_word :: "string \<Rightarrow> json \<Rightarrow> string \<Rightarrow> (json \<times> string) option" where
  "p_word w j s = map_option (\<lambda>t. (j, t)) (strip_prefix w s)"

fun p_val :: "nat \<Rightarrow> string \<Rightarrow> (json \<times> string) option"
and p_elems :: "nat \<Rightarrow> string \<Rightarrow> (json list \<times> string) option"
and p_members :: "nat \<Rightarrow> string \<Rightarrow> ((string \<times> json) list \<times> string) option" where
  "p_val 0 s = None"
| "p_val (Suc f) s =
     (case s of
        [] \<Rightarrow> None
      | c # cs \<Rightarrow>
          if c = CHR ''n'' then p_word ''null'' JNull s
          else if c = CHR ''t'' then p_word ''true'' (JBool True) s
          else if c = CHR ''f'' then p_word ''false'' (JBool False) s
          else if c = quote then map_option (\<lambda>(x, t). (JStr x, t)) (p_str cs)
          else if c = CHR ''['' then
            (case strip_prefix '']'' cs of
               Some t \<Rightarrow> Some (JArr [], t)
             | None \<Rightarrow> map_option (\<lambda>(xs, t). (JArr xs, t)) (p_elems f cs))
          else if c = CHR ''{'' then
            (case strip_prefix ''}'' cs of
               Some t \<Rightarrow> Some (JObj [], t)
             | None \<Rightarrow> map_option (\<lambda>(xs, t). (JObj xs, t)) (p_members f cs))
          else p_int s)"
| "p_elems 0 s = None"
| "p_elems (Suc f) s =
     (case p_val f s of
        None \<Rightarrow> None
      | Some (x, t) \<Rightarrow>
          (case t of
             [] \<Rightarrow> None
           | c # cs \<Rightarrow>
               if c = CHR '','' then map_option (\<lambda>(xs, u). (x # xs, u)) (p_elems f cs)
               else if c = CHR '']'' then Some ([x], cs) else None))"
| "p_members 0 s = None"
| "p_members (Suc f) s =
     (case strip_prefix [quote] s of
        None \<Rightarrow> None
      | Some s1 \<Rightarrow>
          (case p_str s1 of
             None \<Rightarrow> None
           | Some (k, s2) \<Rightarrow>
               (case strip_prefix '':'' s2 of
                  None \<Rightarrow> None
                | Some s3 \<Rightarrow>
                    (case p_val f s3 of
                       None \<Rightarrow> None
                     | Some (v, t) \<Rightarrow>
                         (case t of
                            [] \<Rightarrow> None
                          | c # cs \<Rightarrow>
                              if c = CHR '','' then map_option (\<lambda>(xs, u). ((k, v) # xs, u)) (p_members f cs)
                              else if c = CHR ''}'' then Some ([(k, v)], cs) else None)))))"

definition parse_json :: "string \<Rightarrow> json option" where
  "parse_json s =
     (case p_val (Suc (length s)) s of
        Some (j, t) \<Rightarrow> if list_all (\<lambda>c. c = CHR '' '' \<or> c = newline) t then Some j else None
      | None \<Rightarrow> None)"

section \<open>Reading back\<close>

lemma nibble_back:
  assumes "n < 16"
  shows "unnibble (nibble n) = n"
proof (cases "n < 10")
  case True
  then have "of_char (nibble n) = 48 + n"
    by (simp add: nibble_def)
  with True show ?thesis
    by (simp add: unnibble_def is_ascii_digit_def less_eq_char_def)
next
  case False
  with assms have "of_char (nibble n) = 87 + n"
    by (simp add: nibble_def)
  with False show ?thesis
    by (simp add: unnibble_def is_ascii_digit_def less_eq_char_def)
qed

lemma p_str_escape:
  "p_str (escape c @ u) = map_option (\<lambda>(s, t). (c # s, t)) (p_str u)"
proof -
  have ne: "quote \<noteq> backslash" "quote \<noteq> CHR ''u''" "backslash \<noteq> CHR ''u''"
    by (simp_all add: quote_def backslash_def)
  consider "c = quote \<or> c = backslash" | "c \<noteq> quote" "c \<noteq> backslash" "of_char c < (32 :: nat)"
    | "c \<noteq> quote" "c \<noteq> backslash" "\<not> of_char c < (32 :: nat)"
    by blast
  then show ?thesis
  proof cases
    case 1
    then show ?thesis using ne by (auto simp: escape_def)
  next
    case 2
    then have "char_of (16 * unnibble (nibble (of_char c div 16)) + unnibble (nibble (of_char c mod 16))) = c"
      by (simp add: nibble_back)
    with 2 show ?thesis using ne by (auto simp: escape_def)
  next
    case 3
    then show ?thesis by (simp add: escape_def)
  qed
qed

lemma p_str_pr: "p_str (concat (map escape s) @ quote # t) = Some (s, t)"
  by (induction s) (simp_all add: p_str_escape)

lemma digit_code:
  assumes "(d :: nat) < 10"
  shows "is_ascii_digit (char_of (48 + d))" and "of_char (char_of (48 + d) :: char) - 48 = d"
  using assms by (simp_all add: is_ascii_digit_def less_eq_char_def)

lemma show_nat_digits: "show_nat n \<noteq> [] \<and> list_all is_ascii_digit (show_nat n)"
  by (induction n rule: show_nat.induct) (subst (1 2) show_nat.simps, simp add: digit_code)

lemma show_nat_value: "foldl (\<lambda>n c. n * 10 + (of_char c - 48)) 0 (show_nat n) = n"
proof (induction n rule: show_nat.induct)
  case (1 n)
  then show ?case
    by (cases "n < 10") (simp_all add: show_nat.simps [of n] digit_code)
qed

definition no_digit :: "string \<Rightarrow> bool" where
  "no_digit t = (case t of [] \<Rightarrow> True | c # _ \<Rightarrow> \<not> is_ascii_digit c)"

lemma p_nat_show:
  assumes "no_digit t"
  shows "p_nat (show_nat n @ t) = Some (n, t)"
proof -
  have "takeWhile is_ascii_digit t = []"
    using assms by (cases t) (simp_all add: no_digit_def)
  then have "takeWhile is_ascii_digit (show_nat n @ t) = show_nat n"
    using show_nat_digits [of n] by (simp add: takeWhile_append2 list_all_iff)
  then show ?thesis
    using show_nat_digits [of n] by (simp add: p_nat_def Let_def show_nat_value)
qed

lemma show_nat_head: "\<exists>c cs. show_nat n = c # cs \<and> is_ascii_digit c"
  using show_nat_digits [of n] by (cases "show_nat n") auto

lemma digit_not_special:
  assumes "is_ascii_digit c"
  shows "c \<noteq> CHR ''n''" "c \<noteq> CHR ''t''" "c \<noteq> CHR ''f''" "c \<noteq> quote" "c \<noteq> CHR ''[''"
    "c \<noteq> CHR ''{''" "c \<noteq> CHR ''-''" "c \<noteq> CHR '']''" "c \<noteq> CHR ''}''"
  using assms by (auto simp: is_ascii_digit_def quote_def)

lemma p_val_int: "no_digit t \<Longrightarrow> p_val (Suc f) (show_int n @ t) = Some (JNum n, t)"
proof -
  assume t: "no_digit t"
  show ?thesis
  proof (cases "n < 0")
    case True
    then show ?thesis
      using p_nat_show [OF t] by (simp add: show_int_def p_int_def quote_def)
  next
    case False
    obtain c cs where "show_nat (nat n) = c # cs" "is_ascii_digit c"
      using show_nat_head by blast
    with False show ?thesis
      using p_nat_show [OF t, of "nat n"] digit_not_special [of c]
      by (simp add: show_int_def p_int_def)
  qed
qed

text \<open>How much fuel a tree needs.\<close>

primrec jsz :: "json \<Rightarrow> nat" where
  "jsz JNull = 1"
| "jsz (JBool b) = 1"
| "jsz (JNum n) = 1"
| "jsz (JStr s) = 1"
| "jsz (JArr xs) = Suc (sum_list (map Suc (map jsz xs)))"
| "jsz (JObj kvs) = Suc (sum_list (map Suc (map snd (map (map_prod id jsz) kvs))))"

lemma pr_head:
  "\<exists>c cs. pr j = c # cs \<and> c \<noteq> CHR '']'' \<and> c \<noteq> CHR ''}''"
proof (cases j)
  case (JNum n)
  obtain c cs where "show_nat (nat n) = c # cs" "is_ascii_digit c"
    using show_nat_head by blast
  then show ?thesis
    using JNum digit_not_special [of c] by (cases "n < 0") (simp_all add: show_int_def)
qed (simp_all add: pr_str_def quote_def)

lemma no_digit_simps [simp]:
  "no_digit []" "no_digit (CHR '','' # t)" "no_digit (CHR '']'' # t)" "no_digit (CHR ''}'' # t)"
  "no_digit (newline # t)"
  by (simp_all add: no_digit_def is_ascii_digit_def newline_def)

lemma strip_prefix_one: "strip_prefix [c] (d # cs) = (if c = d then Some cs else None)"
  by (simp add: strip_prefix_def)

lemma p_word_ok: "p_word w j (w @ t) = Some (j, t)"
  by (simp add: p_word_def strip_prefix_def)

lemma p_elems_pr:
  assumes "\<And>x f t. x \<in> set xs \<Longrightarrow> jsz x < f \<Longrightarrow> no_digit t \<Longrightarrow> p_val f (pr x @ t) = Some (x, t)"
    and "xs \<noteq> []" and "sum_list (map Suc (map jsz xs)) < f"
  shows "p_elems f (join (map pr xs) @ CHR '']'' # t) = Some (xs, t)"
  using assms
proof (induction xs arbitrary: f)
  case (Cons x xs)
  then obtain g where f: "f = Suc g" by (cases f) auto
  show ?case
  proof (cases xs)
    case Nil
    with Cons.prems(1) [of x g] Cons.prems(3) f show ?thesis by simp
  next
    case (Cons y ys)
    have "p_elems g (join (map pr xs) @ CHR '']'' # t) = Some (xs, t)"
      by (rule Cons.IH) (use Cons.prems f Cons in auto)
    with Cons Cons.prems(1) [of x g] Cons.prems(3) f show ?thesis by simp
  qed
qed simp

fun pr_kv :: "string \<times> json \<Rightarrow> string" where
  "pr_kv (k, x) = pr_str k @ CHR '':'' # pr x"

fun jsz_kv :: "string \<times> json \<Rightarrow> nat" where
  "jsz_kv (k, x) = jsz x"

lemma members_pr_kv: "map pr_member (map (map_prod id pr) kvs) = map pr_kv kvs"
  by (induction kvs) (auto simp: pr_member_def)

lemma members_jsz_kv: "map snd (map (map_prod id jsz) kvs) = map jsz_kv kvs"
  by (induction kvs) auto

lemma pr_JObj: "pr (JObj kvs) = CHR ''{'' # join (map pr_kv kvs) @ ''}''"
  by (simp only: pr.simps members_pr_kv)

lemma jsz_JObj: "jsz (JObj kvs) = Suc (sum_list (map Suc (map jsz_kv kvs)))"
  by (simp only: jsz.simps members_jsz_kv)

declare pr.simps(6) [simp del] pr_JObj [simp] jsz.simps(6) [simp del] jsz_JObj [simp]

lemma p_members_pr:
  assumes "\<And>k x f t. (k, x) \<in> set kvs \<Longrightarrow> jsz x < f \<Longrightarrow> no_digit t \<Longrightarrow> p_val f (pr x @ t) = Some (x, t)"
    and "kvs \<noteq> []" and "sum_list (map Suc (map jsz_kv kvs)) < f"
  shows "p_members f (join (map pr_kv kvs) @ CHR ''}'' # t) = Some (kvs, t)"
  using assms
proof (induction kvs arbitrary: f)
  case (Cons kv kvs)
  then obtain g where f: "f = Suc g" by (cases f) auto
  obtain k x where kv: "kv = (k, x)" by (cases kv)
  have head: "strip_prefix [quote] (pr_str k @ u) = Some (concat (map escape k) @ quote # u)" for u
    by (simp add: pr_str_def strip_prefix_one)
  show ?case
  proof (cases kvs)
    case Nil
    with Cons.prems(1) [of k x g] Cons.prems(3) f kv show ?thesis
      by (simp add: head p_str_pr strip_prefix_one)
  next
    case (Cons y ys)
    have "p_members g (join (map pr_kv kvs) @ CHR ''}'' # t) = Some (kvs, t)"
      by (rule Cons.IH) (use Cons.prems f kv Cons in \<open>auto\<close>)
    with Cons Cons.prems(1) [of k x g] Cons.prems(3) f kv show ?thesis
      by (simp add: head p_str_pr strip_prefix_one)
  qed
qed simp

lemma p_val_pr: "jsz j < f \<Longrightarrow> no_digit t \<Longrightarrow> p_val f (pr j @ t) = Some (j, t)"
proof (induction j arbitrary: f t)
  case (JArr xs)
  then obtain g where f: "f = Suc g" by (cases f) auto
  show ?case
  proof (cases xs)
    case Nil
    with f show ?thesis by (simp add: strip_prefix_one quote_def)
  next
    case (Cons y ys)
    have e: "p_elems g (join (map pr xs) @ CHR '']'' # t) = Some (xs, t)"
      by (rule p_elems_pr) (use JArr Cons f in auto)
    obtain c cs where "pr y = c # cs" "c \<noteq> CHR '']''"
      using pr_head [of y] by blast
    then have "strip_prefix '']'' (join (map pr xs) @ CHR '']'' # t) = None"
      using Cons by (cases ys) (simp_all add: strip_prefix_one)
    with e f show ?thesis by (simp add: quote_def)
  qed
next
  case (JObj kvs)
  then obtain g where f: "f = Suc g" by (cases f) auto
  show ?case
  proof (cases kvs)
    case Nil
    with f show ?thesis by (simp add: strip_prefix_one quote_def)
  next
    case (Cons y ys)
    have e: "p_members g (join (map pr_kv kvs) @ CHR ''}'' # t) = Some (kvs, t)"
      by (rule p_members_pr) (use JObj Cons f in \<open>auto intro: JObj.IH\<close>)
    have "strip_prefix ''}'' (join (map pr_kv kvs) @ CHR ''}'' # t) = None"
      using Cons by (cases ys; cases y) (simp_all add: strip_prefix_one pr_str_def quote_def)
    with e f show ?thesis by (simp add: quote_def)
  qed
next
  case (JNum n)
  then show ?case by (cases f) (simp_all add: p_val_int del: p_val.simps)
next
  case (JStr s)
  then show ?case
    using p_str_pr [of s t] by (cases f) (simp_all add: pr_str_def quote_def)
next
  case JNull
  then show ?case
    using p_word_ok [of "''null''" JNull t] by (cases f) simp_all
next
  case (JBool b)
  then show ?case
    using p_word_ok [of "''true''" "JBool True" t] p_word_ok [of "''false''" "JBool False" t]
    by (cases f; cases b) simp_all
qed

lemma length_join: "length (join xs) + 1 \<ge> sum_list (map (\<lambda>x. Suc (length x)) xs)"
  by (induction xs rule: join.induct) auto

lemma sum_Suc_mono: "(\<And>x. x \<in> set xs \<Longrightarrow> f x \<le> g x) \<Longrightarrow>
    sum_list (map Suc (map f xs)) \<le> sum_list (map (\<lambda>x. Suc (g x)) xs)"
  by (induction xs) (auto simp: add_mono)

lemma jsz_length: "jsz j \<le> length (pr j)"
proof (induction j)
  case (JArr xs)
  have "sum_list (map Suc (map jsz xs)) \<le> sum_list (map (\<lambda>x. Suc (length (pr x))) xs)"
    by (rule sum_Suc_mono) (rule JArr)
  also have "\<dots> \<le> length (join (map pr xs)) + 1"
    using length_join [of "map pr xs"] by (simp add: comp_def)
  finally show ?case by simp
next
  case (JObj kvs)
  have "sum_list (map Suc (map jsz_kv kvs)) \<le> sum_list (map (\<lambda>kv. Suc (length (pr_kv kv))) kvs)"
  proof (rule sum_Suc_mono)
    fix kv assume kv: "kv \<in> set kvs"
    obtain k x where "kv = (k, x)" by (cases kv)
    with JObj [OF kv, of x] show "jsz_kv kv \<le> length (pr_kv kv)" by simp
  qed
  also have "\<dots> \<le> length (join (map pr_kv kvs)) + 1"
    using length_join [of "map pr_kv kvs"] by (simp add: comp_def)
  finally show ?case by simp
next
  case (JNum n)
  obtain c cs where "pr (JNum n) = c # cs"
    using pr_head [of "JNum n"] by blast
  then show ?case by simp
qed (simp_all add: pr_str_def)

lemma parse_json_pr: "parse_json (pr j) = Some j" "parse_json (pr j @ [newline]) = Some j"
proof -
  have "p_val (Suc (length (pr j))) (pr j @ []) = Some (j, [])"
    by (rule p_val_pr) (simp_all add: jsz_length le_imp_less_Suc)
  then show "parse_json (pr j) = Some j"
    by (simp add: parse_json_def del: p_val.simps)
  have "p_val (Suc (length (pr j @ [newline]))) (pr j @ [newline]) = Some (j, [newline])"
    by (rule p_val_pr) (use jsz_length [of j] in simp_all)
  then show "parse_json (pr j @ [newline]) = Some j"
    by (simp add: parse_json_def del: p_val.simps)
qed

section \<open>A concrete library\<close>

text \<open>
  The digest stands for SHA-256 in examples only: a 64-digit text that tells apart the inputs the
  examples compare (credentials, configurations and artifacts of two clients).
\<close>

primrec mentions :: "string \<Rightarrow> bytes \<Rightarrow> bool" where
  "mentions p [] = (p = [])"
| "mentions p (c # s) = (starts_with p (c # s) \<or> mentions p s)"

definition example_digest :: "bytes \<Rightarrow> string" where
  "example_digest b = replicate 64
     (if starts_with ''B'' b then CHR ''b''
      else if starts_with ''{'' b then if mentions ''11111111-'' b then CHR ''d'' else CHR ''c''
      else if starts_with ''vless://1'' b then CHR ''f''
      else if starts_with ''vless://'' b then CHR ''e''
      else CHR ''a'')"

definition example_lib :: lib where
  "example_lib = \<lparr>to_vec = pr, from_slice = parse_json, sha256_hex = example_digest\<rparr>"

interpretation text_layer: json_text example_lib
proof
  show "from_slice example_lib (to_vec example_lib j) = Some j"
    and "from_slice example_lib (to_vec example_lib j @ [newline]) = Some j" for j
    by (simp_all add: example_lib_def parse_json_pr)
  show "to_vec example_lib j \<noteq> []" for j
    using pr_head [of j] by (auto simp: example_lib_def)
qed

section \<open>Bytes of the text\<close>

lemma nibble_markup: "n < 16 \<Longrightarrow> nibble n \<notin> markup"
proof -
  assume n: "n < 16"
  then have "of_char (nibble n) = (if n < 10 then 48 + n else 87 + n)" by (simp add: nibble_def)
  moreover have "of_char (nibble n) \<in> {60, 62, 38, 226 :: nat}" if "nibble n \<in> markup"
    using that by (auto simp: markup_def)
  ultimately show ?thesis using n by (auto split: if_splits)
qed

lemma escape_markup: "set (escape c) \<inter> markup \<subseteq> {c}"
proof -
  have "of_char c mod 16 < (16 :: nat)" by simp
  moreover have "of_char c div 16 < (16 :: nat)" by (simp add: less_mult_imp_div_less)
  ultimately show ?thesis
    using nibble_markup by (auto simp: escape_def markup_def quote_def backslash_def)
qed

lemma pr_str_markup: "set (pr_str s) \<inter> markup \<subseteq> set s"
proof -
  have "set (concat (map escape s)) \<inter> markup \<subseteq> set s" using escape_markup by (induction s) auto
  then show ?thesis by (auto simp: pr_str_def quote_def markup_def)
qed

lemma show_nat_markup: "set (show_nat n) \<inter> markup = {}"
  using show_nat_digits [of n] by (auto simp: list_all_iff markup_def is_ascii_digit_def)

lemma join_markup_within: "(\<And>x. x \<in> set xs \<Longrightarrow> set x \<inter> markup \<subseteq> A) \<Longrightarrow> set (join xs) \<inter> markup \<subseteq> A"
  by (induction xs rule: join.induct) (auto simp: markup_def)

lemma pr_markup: "set (pr j) \<inter> markup \<subseteq> json_chars j"
proof (induction j)
  case (JNum n)
  show ?case using show_nat_markup by (auto simp: show_int_def markup_def)
next
  case (JStr s)
  show ?case using pr_str_markup [of s] by simp
next
  case (JArr xs)
  have "set (join (map pr xs)) \<inter> markup \<subseteq> json_chars (JArr xs)"
    by (rule join_markup_within) (use JArr in auto)
  then show ?case by (auto simp: markup_def)
next
  case (JObj kvs)
  have "set (join (map pr_kv kvs)) \<inter> markup \<subseteq> json_chars (JObj kvs)"
  proof (rule join_markup_within)
    fix x assume "x \<in> set (map pr_kv kvs)"
    then obtain k v where kv: "(k, v) \<in> set kvs" "x = pr_kv (k, v)" by auto
    then have "set (pr v) \<inter> markup \<subseteq> json_chars v" using JObj [OF kv(1), of v] by (simp add: prod_set_defs)
    with kv pr_str_markup [of k] show "set x \<inter> markup \<subseteq> json_chars (JObj kvs)"
      by (fastforce simp: markup_def)
  qed
  then show ?case unfolding pr_JObj by (auto simp: markup_def)
qed (auto simp: markup_def)

interpretation text_markup: json_markup example_lib
  by unfold_locales (use pr_markup in \<open>simp add: example_lib_def\<close>)

end
