(* ===== verification/Examples.thy ===== *)
theory Examples
  imports Successors Removal_Record Json_Text
begin

text \<open>
  Concrete records at which the properties are exercised: a Standard Installation that has just
  reached Running, the same one serving a subscription, and its removal.  They use the executable
  JSON text layer of \<open>Json_Text\<close>; bounds on the length of the printed text show that they fit the
  record size limit.
\<close>

section \<open>A Standard Installation\<close>

definition example_release :: release_identity where
  "example_release = \<lparr>ri_repository = REPOSITORY, ri_tag = ''v1.2.3'', ri_commit = replicate 40 CHR ''a'',
     ri_index_sha256 = replicate 64 CHR ''b''\<rparr>"

definition example_conf :: string where
  "example_conf = replicate 64 CHR ''c''"

lemma example_valid_release: "valid_release example_release"
  by code_simp

lemma example_ip: "public_ipv4 ''8.8.8.8''" "canonical_ipv4 ''8.8.8.8''"
  by code_simp+

lemma example_hex: "lower_hex example_conf 64" "nonzero_hex (replicate 32 CHR ''1'') 32"
  "nonzero_hex (replicate 32 CHR ''2'') 32"
  by code_simp+

lemma example_sha: "nonzero_hex (sha256_hex example_lib k) 64"
  by (simp add: example_lib_def example_digest_def nonzero_hex_def lower_hex_def lower_hex_byte_def is_ascii_digit_def list_all_iff list_ex_iff)

definition example_standard :: wire_ownership where
  "example_standard = (standard_wire example_lib example_release ''8.8.8.8'' example_conf)
     \<lparr>permitted_resources := resources example_lib (standard_wire example_lib example_release ''8.8.8.8'' example_conf)\<rparr>"

lemma example_standard_new: "new_standard example_lib example_release ''8.8.8.8'' example_conf = Some example_standard"
  unfolding new_standard_iff example_standard_def using example_valid_release example_ip example_hex by blast

definition example_running :: wire_ownership where
  "example_running = example_standard\<lparr>phase := Running, unfinished_direction := Idle\<rparr>"

section \<open>Bounds on printed text\<close>

primrec text_bound :: "json \<Rightarrow> nat" where
  "text_bound JNull = 4"
| "text_bound (JBool b) = 5"
| "text_bound (JNum n) = length (show_int n)"
| "text_bound (JStr s) = 4 * length s + 2"
| "text_bound (JArr xs) = 2 + sum_list (map (\<lambda>x. text_bound x + 1) xs)"
| "text_bound (JObj kvs) = 2 + sum_list (map (\<lambda>(k, n). 4 * length k + 4 + n) (map (map_prod id text_bound) kvs))"

lemma join_bound: "length (join xs) \<le> sum_list (map (\<lambda>x. length x + 1) xs)"
  by (induction xs rule: join.induct) auto

lemma length_escape: "length (escape c) \<le> 4"
  by (simp add: escape_def)

lemma length_pr_str: "length (pr_str s) \<le> 4 * length s + 2"
proof -
  have "length (concat (map escape s)) \<le> 4 * length s"
  proof (induction s)
    case (Cons c s)
    then show ?case using length_escape [of c] by simp
  qed simp
  then show ?thesis by (simp add: pr_str_def)
qed

lemma length_pr: "length (pr j) \<le> text_bound j"
proof (induction j)
  case (JStr s)
  then show ?case using length_pr_str by simp
next
  case (JArr xs)
  have "length (join (map pr xs)) \<le> sum_list (map (\<lambda>x. length (pr x) + 1) xs)"
    using join_bound [of "map pr xs"] by (simp add: comp_def)
  also have "\<dots> \<le> sum_list (map (\<lambda>x. text_bound x + 1) xs)"
    using JArr by (intro sum_list_mono) auto
  finally show ?case by simp
next
  case (JObj kvs)
  have "length (join (map pr_member (map (map_prod id pr) kvs)))
      \<le> sum_list (map (\<lambda>kv. length (pr_member (map_prod id pr kv)) + 1) kvs)"
    using join_bound [of "map pr_member (map (map_prod id pr) kvs)"] by (simp add: comp_def)
  also have "\<dots> \<le> sum_list (map (\<lambda>kv. 4 * length (fst kv) + 4 + text_bound (snd kv)) kvs)"
  proof (intro sum_list_mono)
    fix kv assume "kv \<in> set kvs"
    then have "length (pr (snd kv)) \<le> text_bound (snd kv)" using JObj by (cases kv) (auto simp: prod_set_defs)
    then show "length (pr_member (map_prod id pr kv)) + 1 \<le> 4 * length (fst kv) + 4 + text_bound (snd kv)"
      using length_pr_str [of "fst kv"] by (cases kv) (simp add: pr_member_def)
  qed
  finally show ?case unfolding members_pr_kv pr_JObj by (simp add: comp_def split_beta)
qed auto

lemma bt_insert_bound:
  "sum_list (map f (bt_insert k v m)) \<le> f (k, v) + sum_list (map f m)" for f :: "string \<times> 'v \<Rightarrow> nat"
  by (induction k v m rule: bt_insert.induct) auto

lemma bt_of_bound: "sum_list (map f (bt_of kvs)) \<le> sum_list (map f kvs)" for f :: "string \<times> 'v \<Rightarrow> nat"
proof -
  have "sum_list (map f (fold (\<lambda>(k, v). bt_insert k v) kvs m)) \<le> sum_list (map f kvs) + sum_list (map f m)" for m
  proof (induction kvs arbitrary: m)
    case (Cons kv kvs)
    obtain k v where kv: "kv = (k, v)" by (cases kv)
    from Cons.IH [of "bt_insert k v m"] bt_insert_bound [of f k v m] show ?case by (simp add: kv)
  qed simp
  from this [of "[]"] show ?thesis by (simp add: bt_of_def)
qed

lemma text_bound_object:
  "text_bound (JObj kvs) = 2 + sum_list (map (\<lambda>kv. 4 * length (fst kv) + 4 + text_bound (snd kv)) kvs)"
  by (simp add: comp_def split_beta)

lemma text_bound_value: "text_bound (value_of j) \<le> text_bound j"
proof (induction j)
  case (JArr xs)
  then show ?case by (auto simp: comp_def intro!: sum_list_mono)
next
  case (JObj kvs)
  let ?f = "\<lambda>kv :: string \<times> json. 4 * length (fst kv) + 4 + text_bound (snd kv)"
  have "sum_list (map ?f (bt_of (map (map_prod id value_of) kvs)))
      \<le> sum_list (map ?f (map (map_prod id value_of) kvs))"
    by (rule bt_of_bound)
  also have "\<dots> \<le> sum_list (map ?f kvs)"
    unfolding map_map comp_def
  proof (rule sum_list_mono)
    fix kv assume "kv \<in> set kvs"
    then have "text_bound (value_of (snd kv)) \<le> text_bound (snd kv)"
      using JObj by (cases kv) (auto simp: prod_set_defs)
    then show "?f (map_prod id value_of kv) \<le> ?f kv" by (cases kv) simp
  qed
  finally show ?case unfolding value_of.simps text_bound_object by simp
qed auto

lemma length_show_nat: "length (show_nat n) \<le> n + 1"
proof (induction n rule: show_nat.induct)
  case (1 n)
  show ?case
  proof (cases "n < 10")
    case False
    then have "length (show_nat (n div 10)) \<le> n div 10 + 1" using 1 by simp
    then show ?thesis using False by (subst show_nat.simps) simp
  qed (subst show_nat.simps, simp)
qed

lemma record_encodes:
  assumes "text_bound (ser_ownership r) < MAX_RECORD_BYTES"
  shows "encode_record example_lib r \<noteq> None" "prints example_lib r"
  using assms length_pr [of "ser_ownership r"] length_pr [of "value_of (ser_ownership r)"]
    text_bound_value [of "ser_ownership r"]
  by (simp_all add: encode_record_def encode_def Let_def example_lib_def prints_def)

section \<open>The examples fit\<close>

lemmas line_defs = example_running_def example_standard_def standard_wire_def resources_def
  resources_head_def repair_part_def opt_lines_def base_resources_def base_lines_def
  base_tail_lines_def lock_lines_def removal_line_def ownership_line_def example_conf_def
  lock_digest_def example_lib_def example_digest_def

lemma example_resources:
  "sum_list (map (\<lambda>s. 4 * length s + 3) (resources example_lib example_running)) < 10000"
  "length (resources example_lib example_running) = 18"
  by (simp_all add: line_defs)

lemma text_bound_field:
  "text_bound (mk_obj []) = 2"
  "text_bound (mk_obj ((k, None) # fs)) = text_bound (mk_obj fs)"
  "text_bound (mk_obj ((k, Some v) # fs)) = 4 * length k + 4 + text_bound v + text_bound (mk_obj fs)"
  by (simp_all add: mk_obj_def)

lemma text_bound_release: "text_bound (ser_release example_release) < 700"
  by (simp add: ser_release_def release_fields_def text_bound_field example_release_def REPOSITORY_def)

lemma text_bound_strs: "text_bound (ser_strs xs) = 2 + sum_list (map (\<lambda>s. 4 * length s + 3) xs)"
  by (simp add: ser_strs_def comp_def add.commute [of _ 3] numeral_3_eq_3)

lemma text_bound_u32: "text_bound (ser_u32 n) \<le> unat n + 1"
  using length_show_nat [of "unat n"] by (simp add: ser_u32_def show_int_def uint_nonnegative)

text \<open>A record without operations and optional authorities.\<close>

definition plain_record :: "wire_ownership \<Rightarrow> bool" where
  "plain_record r =
     (serving r = None \<and> renewal r = None \<and> certificate_activation r = None
      \<and> subscription_enablement r = None \<and> subscription_rotation r = None
      \<and> subscription_repair r = None \<and> \<not> subscription_compromised r \<and> subscription_resources r = None
      \<and> proxy_startup r = None \<and> tunnel r = None \<and> client_identity_rotation r = None
      \<and> https_retirement r = None \<and> \<not> subscription_transport_migration r)"

lemma phase_name_length: "length (phase_name p) \<le> 30"
  by (cases p) simp_all

lemma direction_name_length: "length (direction_name d) \<le> 30"
  by (cases d) simp_all

lemma text_bound_plain:
  assumes "plain_record r"
  shows "text_bound (ser_ownership r) \<le> 2000 + text_bound (ser_release (release_identity r))
     + 4 * (length (proxy_package_identity r) + length (public_ipv4_of r) + length (destination_address r)
        + length (destination_server_name r) + length (configuration_sha256 r))
     + text_bound (ser_strs (permitted_resources r))
     + text_bound (ser_u32 (schema r)) + text_bound (ser_u32 (cleanup_checkpoint r))
     + text_bound (ser_u32 (removal_checkpoint r))
     + (case resource_creating_releases r of None \<Rightarrow> 0 | Some cs \<Rightarrow> text_bound (ser_releases cs))
     + (case finishing_release_identity r of None \<Rightarrow> 0 | Some f \<Rightarrow> text_bound (ser_release f))
     + (case lock_provisioning r of None \<Rightarrow> 0 | Some d \<Rightarrow> 4 * length d)"
  using assms phase_name_length [of "phase r"] direction_name_length [of "unfinished_direction r"]
  unfolding plain_record_def ser_ownership_def ownership_fields_def
  by (cases "resource_creating_releases r"; cases "finishing_release_identity r"; cases "lock_provisioning r")
    (simp_all add: text_bound_field skip_false_def ser_lock_def lock_fields_def)

lemma example_permitted: "permitted_resources example_running = resources example_lib example_running"
  by (simp add: example_running_def example_standard_def)

lemma example_fields:
  "plain_record example_running" "release_identity example_running = example_release"
  "length (proxy_package_identity example_running) \<le> 200" "public_ipv4_of example_running = ''8.8.8.8''"
  "destination_address example_running = ''google.com:443''"
  "destination_server_name example_running = ''google.com''"
  "configuration_sha256 example_running = example_conf" "schema example_running = 1"
  "cleanup_checkpoint example_running = 0" "removal_checkpoint example_running = 0"
  "resource_creating_releases example_running = None" "finishing_release_identity example_running = None"
  "lock_provisioning example_running = Some (replicate 64 CHR ''a'')"
  "phase example_running = Running" "unfinished_direction example_running = Idle"
  "serving example_running = None" "\<not> subscription_transport_migration example_running"
  "client_identity_rotation example_running = None" "certificate_activation example_running = None"
  by (simp_all add: example_running_def example_standard_def plain_record_def PACKAGE_IDENTITY_def
      standard_wire_def lock_digest_def example_lib_def example_digest_def lock_provision_service_def
      unlines_def)

lemma u32_small: "text_bound (ser_u32 1) \<le> 2" "text_bound (ser_u32 2) \<le> 3" "text_bound (ser_u32 0) \<le> 1"
  using text_bound_u32 [of 1] text_bound_u32 [of 2] text_bound_u32 [of 0] by simp_all

lemma example_running_encodes:
  "encode_record example_lib example_running \<noteq> None" "prints example_lib example_running"
proof -
  have "text_bound (ser_strs (permitted_resources example_running)) < 10002"
    using example_resources(1) by (simp add: example_permitted text_bound_strs)
  then have "text_bound (ser_ownership example_running) < MAX_RECORD_BYTES"
    using text_bound_plain [OF example_fields(1)] text_bound_release u32_small example_fields(3)
    by (simp add: example_fields(2,4-13) example_conf_def MAX_RECORD_BYTES_def)
  then show "encode_record example_lib example_running \<noteq> None" "prints example_lib example_running"
    by (rule record_encodes)+
qed

lemma removal_example:
  fixes c :: u32
  assumes "c \<le> 11"
  defines "r \<equiv> (removal_of example_running example_release)\<lparr>removal_checkpoint := c\<rparr>"
  shows "encode_record example_lib r \<noteq> None" "prints example_lib r"
proof -
  have "sum_list (map (\<lambda>s. 4 * length s + 3) ((resources example_lib example_running)[0 := SCHEMA2_LINE])) < 11000"
    by (simp add: line_defs SCHEMA2_LINE_def)
  then have a: "text_bound (ser_strs (permitted_resources r)) < 11002"
    by (simp add: r_def removal_of_def example_fields example_permitted text_bound_strs)
  have cs: "resource_creating_releases r = Some (replicate 18 example_release)"
    by (simp add: r_def removal_of_def example_fields example_permitted map_replicate_const example_resources(2))
  have b: "text_bound (ser_releases (replicate 18 example_release)) < 13000"
    using text_bound_release by (simp add: ser_releases_def comp_def sum_list_replicate)
  have "text_bound (ser_u32 c) \<le> 12"
    using text_bound_u32 [of c] assms(1) by (simp add: word_le_nat_alt)
  moreover have "plain_record r" using example_fields(1) by (simp add: r_def removal_of_def plain_record_def)
  moreover have "release_identity r = example_release" "length (proxy_package_identity r) \<le> 200"
    "public_ipv4_of r = ''8.8.8.8''" "destination_address r = ''google.com:443''"
    "destination_server_name r = ''google.com''" "configuration_sha256 r = example_conf" "schema r = 2"
    "cleanup_checkpoint r = 0" "removal_checkpoint r = c" "finishing_release_identity r = Some example_release"
    "lock_provisioning r = Some (replicate 64 CHR ''a'')"
    using example_fields by (simp_all add: r_def removal_of_def)
  ultimately have "text_bound (ser_ownership r) < MAX_RECORD_BYTES"
    using text_bound_plain [of r] text_bound_release u32_small a b
    by (simp add: cs example_conf_def MAX_RECORD_BYTES_def)
  then show "encode_record example_lib r \<noteq> None" "prints example_lib r" by (rule record_encodes)+
qed

section \<open>Validity\<close>

lemma example_running_valid: "valid example_lib example_running"
  using setup_completes [OF example_standard_new] by (auto simp: example_running_def)

lemma example_running_idle: "current_running example_running" "pending_change example_running = None"
  using example_fields by (simp_all add: current_running_def pending_change_def plain_record_def)

definition example_serving :: wire_serving where
  "example_serving = \<lparr>sv_http = True, sv_link_id = replicate 32 CHR ''1'',
     sv_credential_sha256 = replicate 64 CHR ''a'', sv_certificate_generation = 0,
     sv_certificate_sha256 = ([], [], [], [])\<rparr>"

definition example_target :: wire_serving where
  "example_target = \<lparr>sv_http = True, sv_link_id = replicate 32 CHR ''2'',
     sv_credential_sha256 = replicate 64 CHR ''b'', sv_certificate_generation = 0,
     sv_certificate_sha256 = ([], [], [], [])\<rparr>"

lemma example_digests:
  "http_digest (replicate 32 CHR ''1'') (sha256_hex example_lib ''A'') = Some example_serving"
  "http_digest (replicate 32 CHR ''2'') (sha256_hex example_lib ''B'') = Some example_target"
  using example_hex(2,3) example_sha [of "''A''"] example_sha [of "''B''"]
  by (simp_all add: http_digest_Some example_serving_def example_target_def example_lib_def example_digest_def)

lemma example_http_resources: "\<exists>res. resources_http (public_ipv4_of example_running) example_conf = Some res"
  using example_ip example_hex example_fields(4) by (simp add: resources_http_Some)

lemma example_http:
  "\<exists>x. valid example_lib x \<and> idle_http x \<and> serving x = Some example_serving"
proof -
  obtain res where "resources_http (public_ipv4_of example_running) example_conf = Some res"
    using example_http_resources by blast
  from enablement_completes [OF example_running_valid example_running_idle example_fields(16)
      example_digests(1) this example_hex(2)]
  show ?thesis by blast
qed

lemma removal_example_valid: "valid example_lib (removal_of example_running example_release)"
  by (rule removal_of_valid [OF example_running_valid _ example_fields(17) example_valid_release])
    (simp add: example_fields)

lemma removal_example_limit: "removal_limit (removal_of example_running example_release) \<le> 11"
  by (simp add: removal_limit_def)

lemma removal_example_direction:
  "unfinished_direction (removal_of example_running example_release) = Removal"
  by (simp add: removal_of_def)

lemma removal_example_removing: "removing example_lib (removal_of example_running example_release)"
  unfolding removing_def
proof (intro conjI allI impI)
  fix c :: u32 assume "c \<le> removal_limit (removal_of example_running example_release)"
  then have "c \<le> 11" using removal_example_limit by (rule order_trans)
  from removal_example [OF this]
  show "encode_record example_lib ((removal_of example_running example_release)\<lparr>removal_checkpoint := c\<rparr>) \<noteq> None"
    "prints example_lib ((removal_of example_running example_release)\<lparr>removal_checkpoint := c\<rparr>)" .
qed (rule removal_example_valid removal_example_direction)+

section \<open>An installed record\<close>

definition example_installed :: installed_record where
  "example_installed = \<lparr>ir_schema = 1, ir_repository = REPOSITORY, ir_tag = ''v0.1.0'', ir_commit = replicate 40 CHR ''a'',
     ir_release_index_sha256 = replicate 64 CHR ''b'', ir_sequence = 1, ir_architecture = ''amd64'',
     ir_executable_sha256 = replicate 64 CHR ''c''\<rparr>"

lemma example_activated:
  "\<exists>r s. setting_up example_lib r \<and> setup_stage r = 10 \<and> next_setup_checkpoint example_lib r = Some s"
proof -
  have up: "setting_up example_lib example_standard" "setup_stage example_standard = 0"
    using example_standard_new by (auto simp: new_standard_def Let_def setting_up_def setup_stage_def PHASES_def
        example_standard_def standard_wire_def)
  obtain r where r: "iter_opt 10 (next_setup_checkpoint example_lib) example_standard = Some r"
    using setup_progress.iter_some_iff [OF up(1), of 10] up(2) by auto
  note R = setup_progress.iter_step [OF up(1) r]
  then have "next_setup_checkpoint example_lib r \<noteq> None" using setup_progress.advance_iff [of example_lib r] up(2) by simp
  then show ?thesis using R up(2) by auto
qed

section \<open>A Client Identity rotation\<close>

definition example_client_rotation :: "nat \<Rightarrow> wire_client_rotation" where
  "example_client_rotation i =
     \<lparr>cr_operation_id = replicate 32 CHR ''1'', cr_direction = (if i < 8 then ''cleanup'' else ''forward''),
      cr_effects = CLIENT_EFFECTS, cr_completed_effects = take i CLIENT_EFFECTS,
      cr_source_configuration_sha256 = example_conf, cr_target_configuration_sha256 = replicate 64 CHR ''d'',
      cr_checkpoint = CLIENT_CHECKPOINTS ! i, cr_subscription = None\<rparr>"

definition example_client_base :: "nat \<Rightarrow> wire_ownership" where
  "example_client_base i = example_running
     \<lparr>schema := 2, proxy_startup := Some \<lparr>su_drop_in_sha256 = replicate 64 CHR ''a'', su_directory_created = True\<rparr>,
      client_identity_rotation := Some (example_client_rotation i),
      configuration_sha256 := (if i \<ge> 9 then replicate 64 CHR ''d'' else example_conf)\<rparr>"

definition example_client :: "nat \<Rightarrow> wire_ownership" where
  "example_client i = (example_client_base i)
     \<lparr>permitted_resources := resources example_lib (example_client_base i),
      resource_creating_releases := Some (replicate (length (resources example_lib (example_client_base i))) example_release)\<rparr>"

lemma example_client_index: "client_index (example_client_rotation 8) = Some 8"
  by (simp add: client_index_def example_client_rotation_def CLIENT_CHECKPOINTS_def)

lemma example_client_fields:
  "schema (example_client i) = 2" "client_identity_rotation (example_client i) = Some (example_client_rotation i)"
  "phase (example_client i) = Running" "unfinished_direction (example_client i) = Idle"
  by (simp_all add: example_client_def example_client_base_def example_fields)

lemma example_client_valid_at:
  assumes "i < 9"
  shows "valid example_lib (example_client i)"
proof -
  have x: "client_index (example_client_rotation i) = Some i"
    using position_nth_distinct [of CLIENT_CHECKPOINTS i] assms
    by (simp add: client_index_def example_client_rotation_def CLIENT_CHECKPOINTS_def)
  have c: "valid_client_rotation (example_client_rotation i)
      (Some \<lparr>su_drop_in_sha256 = replicate 64 CHR ''a'', su_directory_created = True\<rparr>) example_conf"
    using x example_hex(1) assms
    by (simp add: valid_client_rotation_def)
       (simp add: example_client_rotation_def example_conf_def lower_hex_def lower_hex_byte_def is_ascii_digit_def
        is_ascii_hexdigit_def list_all_iff list_ex_iff)
  have "cr_subscription (example_client_rotation i) = None" by (simp add: example_client_rotation_def)
  moreover have "nonzero_hex (replicate 64 CHR ''a'') 64"
    using example_sha [of "[]"] by (simp add: example_lib_def example_digest_def)
  moreover note example_valid_release example_fields example_running_valid [THEN validD(18)]
    example_running_valid [THEN validD(14)] example_running_valid [THEN validD(15)]
  ultimately show ?thesis using c assms
    unfolding valid_def
    by (simp add: example_client_def example_client_base_def guard_identity_def guard_schema_def guard_schema2_def
        guard_retirement_def guard_migration_def guard_serving_def guard_renewal_def guard_activation_def
        guard_enablement_def guard_rotation_def guard_repair_def guard_compromised_def guard_subscription_resources_def
        guard_startup_def guard_lock_def guard_tunnel_def guard_client_def guard_direction_def guard_proxy_facts_def
        operation_context_def valid_startup_def plain_record_def list_all_iff)
qed

lemma example_client_valid: "valid example_lib (example_client 8)"
  by (rule example_client_valid_at) simp

end
