(* ===== verification/Record_Properties.thy ===== *)
theory Record_Properties
  imports Examples
begin

text \<open>
  Properties of the Ownership Record: its codec, setup and cleanup, the subscription operations, and the
  identities and addresses that it accepts.
\<close>

section \<open>The record codec\<close>

text \<open>
  C1. Every valid Ownership Record that fits the size limit survives the round trip through its
  bytes: decoding what \<open>encode\<close> wrote gives the same record, and no other record has these bytes.
\<close>

theorem record_roundtrip:
  assumes "json_text L" and "valid L r" and "encode_record L r = Some bytes"
  shows "decode_record L bytes = Some r
    \<and> (\<forall>s. encode_record L s = Some bytes \<longrightarrow> s = r)"
  using json_text.decode_encode_record [OF assms] json_text.encode_record_inj [OF assms(1) _ assms(3)]
  by blast

theorem record_roundtrip_witness:
  "\<exists>bytes. encode_record example_lib example_running = Some bytes
     \<and> decode_record example_lib bytes = Some example_running"
proof -
  obtain bytes where b: "encode_record example_lib example_running = Some bytes"
    using example_running_encodes(1) by auto
  from record_roundtrip [OF text_layer.json_text_axioms example_running_valid b] b show ?thesis by blast
qed

section \<open>Setup\<close>

text \<open>
  C2. A Standard Installation can always be set up: the record that \<open>new_standard\<close> accepts passes
  through exactly thirteen checkpoints, never refuses one, and ends Running with nothing unfinished
  and every other field unchanged; there is no fourteenth.
\<close>

theorem standard_setup_reaches_running:
  assumes "new_standard L release ipv4 configuration = Some r"
  shows "iter_opt 13 (next_setup_checkpoint L) r = Some (r\<lparr>phase := Running, unfinished_direction := Idle\<rparr>)
    \<and> iter_opt 14 (next_setup_checkpoint L) r = None"
proof -
  have up: "setting_up L r" and 0: "setup_stage r = 0"
    using assms by (auto simp: new_standard_def Let_def setting_up_def setup_stage_def PHASES_def)
  have "\<not> (\<exists>s. iter_opt 14 (next_setup_checkpoint L) r = Some s)"
    using setup_progress.iter_some_iff [OF up, of 14] 0 by simp
  then show ?thesis using setup_completes [OF assms] by auto
qed

theorem standard_setup_reaches_running_witness:
  "iter_opt 13 (next_setup_checkpoint example_lib) example_standard = Some example_running"
  using standard_setup_reaches_running [OF example_standard_new] by (simp add: example_running_def)

text \<open>
  C3. The cleanup of an unfinished setup can always be carried through: from any valid record that
  recovers by cleanup, any number of further checkpoints succeeds exactly up to the eighth, and the
  record stays a valid cleanup at the checkpoint counted to.
\<close>

theorem cleanup_always_completes:
  assumes "valid L r" and "unfinished_direction r = Cleanup"
  shows "(case iter_opt n (next_cleanup_checkpoint L) r of
       None \<Rightarrow> 8 < unat (cleanup_checkpoint r) + n
     | Some s \<Rightarrow> valid L s \<and> unfinished_direction s = Cleanup
         \<and> unat (cleanup_checkpoint s) = unat (cleanup_checkpoint r) + n \<and> unat (cleanup_checkpoint s) \<le> 8)"
proof -
  have c: "cleaning L r" using assms by (simp add: cleaning_def)
  show ?thesis
    using cleanup_progress.iter_some_iff [OF c, of n] cleanup_progress.iter_step [OF c, of n]
    by (auto simp: cleaning_def cleanup_stage_def split: option.split)
qed

theorem cleanup_always_completes_witness:
  "\<exists>s. iter_opt 8 (next_cleanup_checkpoint example_lib) example_standard = Some s \<and> valid example_lib s"
proof -
  have e: "valid example_lib example_standard" "unfinished_direction example_standard = Cleanup"
      "unat (cleanup_checkpoint example_standard) = 0"
    using example_standard_new by (auto simp: new_standard_def Let_def example_standard_def standard_wire_def)
  from cleanup_always_completes [OF e(1,2), of 8] e(3) show ?thesis by (auto split: option.splits)
qed

text \<open>
  C4. The activation barrier: whatever sequence of permitted successors a valid record goes through, it
  keeps its installation (release, package, address, destination, configuration, lock, tunnel, startup),
  stays valid, and never returns to an earlier setup phase; from the activation commitment on (stage 10)
  it can never again ask for cleanup.
\<close>

theorem activation_barrier:
  assumes "valid L r" and "authorized L r s"
  shows "valid L s \<and> same_installation r s \<and> setup_stage r \<le> setup_stage s
    \<and> (10 \<le> setup_stage r \<longrightarrow> phase r \<noteq> RemovalCommitted \<longrightarrow> unfinished_direction s \<noteq> Cleanup)"
proof -
  note A = authorized_valid [OF assms(2,1)] authorized_same [OF assms(2)] authorized_stage [OF assms(2,1)]
  have "unfinished_direction s \<noteq> Cleanup" if "10 \<le> setup_stage r" "phase r \<noteq> RemovalCommitted"
  proof -
    have p: "phase s \<noteq> RemovalCommitted" using authorized_not_removal [OF assms(2,1)] that(2) by simp
    have "unfinished_direction s = recovery_direction (phase s)" by (rule valid_direction_phase [OF A(1)])
    also have "\<dots> \<noteq> Cleanup" using recovery_direction_stage [OF p] A(3) that(1) by simp
    finally show ?thesis .
  qed
  with A show ?thesis by blast
qed

theorem activation_barrier_witness:
  "\<exists>r s. valid example_lib r \<and> setup_stage r = 10 \<and> authorized example_lib r s \<and> r \<noteq> s
     \<and> unfinished_direction s \<noteq> Cleanup"
proof -
  obtain r s where r: "setting_up example_lib r" "setup_stage r = 10" "next_setup_checkpoint example_lib r = Some s"
    using example_activated by blast
  have "authorized example_lib r s"
    using r(3) authorized_step [OF authorized_refl, of example_lib r s] by (simp add: permits_successor_def)
  moreover have "r \<noteq> s" using setup_progress.advance_step [OF r(1,3)] by auto
  ultimately show ?thesis
    using r activation_barrier [of example_lib r s] by (auto simp: setting_up_def)
qed

text \<open>
  What a new installation may look like: \<open>new_standard\<close> accepts exactly the valid releases, the
  lowercase 64-digit configuration digests and the public addresses, and then gives the one record with
  the fixed facts and the resources that belong to it; with a valid tunnel authority, \<open>new_tunnel_setup\<close>
  accepts exactly the same.
\<close>

theorem new_installation_inputs:
  "(new_standard L release ipv4 configuration = Some r \<longleftrightarrow>
      r = (standard_wire L release ipv4 configuration)
            \<lparr>permitted_resources := resources L (standard_wire L release ipv4 configuration)\<rparr>
      \<and> valid_release release \<and> lower_hex configuration 64 \<and> public_ipv4 ipv4)
   \<and> (new_tunnel_setup L release ipv4 configuration t \<noteq> None \<longleftrightarrow>
      valid_release release \<and> lower_hex configuration 64 \<and> public_ipv4 ipv4 \<and> valid_tunnel t)"
  using new_standard_iff new_tunnel_setup_iff by blast

section \<open>Subscription operations\<close>

text \<open>
  C6. A running installation without a subscription can always enable one over HTTP: with a link id, a
  credential and a firewall digest of the right form and a canonical address, the operation begins,
  passes its thirteen checkpoints and commits to an idle record that serves exactly this link.
\<close>

theorem http_enablement_completes:
  assumes "valid L r" and "current_running r" and "pending_change r = None" and "serving r = None"
    and "http_digest link (sha256_hex L credential) = Some t"
    and "resources_http (public_ipv4_of r) firewall = Some res"
    and "nonzero_hex operation 32"
  shows "\<exists>b m x. begin_http_enablement L r link credential operation firewall = Some b
    \<and> iter_opt 13 (advance_http_enablement L) b = Some m \<and> commit_http_enablement L m = Some x
    \<and> valid L x \<and> idle_http x \<and> serving x = Some t \<and> subscription_resources x = Some res"
  by (rule enablement_completes [OF assms])

theorem http_enablement_completes_witness:
  "\<exists>b m x. begin_http_enablement example_lib example_running (replicate 32 CHR ''1'') ''A''
      (replicate 32 CHR ''1'') example_conf = Some b
    \<and> iter_opt 13 (advance_http_enablement example_lib) b = Some m
    \<and> commit_http_enablement example_lib m = Some x \<and> valid example_lib x \<and> serving x = Some example_serving"
proof -
  obtain res where "resources_http (public_ipv4_of example_running) example_conf = Some res"
    using example_http_resources by blast
  from http_enablement_completes [OF example_running_valid example_running_idle example_fields(16)
      example_digests(1) this example_hex(2)]
  show ?thesis by blast
qed

text \<open>
  A subscription link can always be rotated to a different link and credential, in two checkpoints;
  before the second the rotation may be abandoned and the source keeps being served, after it no permitted
  successor serves anything but the target.
\<close>

theorem link_rotation_completes:
  assumes v: "valid L r" and i: "idle_http r" and s: "serving r = Some s"
    and t: "http_digest link (sha256_hex L credential) = Some t" and op: "nonzero_hex operation 32"
    and ne: "sv_link_id s \<noteq> link" "sv_credential_sha256 s \<noteq> sha256_hex L credential"
  shows "\<exists>b m x y. begin_http_link_rotation L r operation link credential = Some b
    \<and> cleanup_http_link_rotation L b = Some y \<and> serving y = Some s \<and> idle_http y
    \<and> iter_opt 2 (advance_http_link_rotation L) b = Some m \<and> complete_http_link_rotation L m = Some x
    \<and> valid L x \<and> idle_http x \<and> serving x = Some t \<and> \<not> subscription_compromised x
    \<and> (\<forall>z. permits_successor L m z \<longrightarrow> serving z = Some t)"
proof -
  obtain b v where b: "begin_http_link_rotation L r operation link credential = Some b" "rotating L b"
      "rotation_stage b = 0" "subscription_rotation b = Some v" "ro_source v = s" "ro_target v = t"
    using begin_rotation_ok [OF v i s t op ne] by blast
  obtain y where y: "cleanup_http_link_rotation L b = Some y" "idle_http y" "serving y = Some s"
    using cleanup_rotation_ok [OF b(2) _ b(4)] b(3,5) by auto
  obtain m x where m: "iter_opt 2 (advance_http_link_rotation L) b = Some m" "complete_http_link_rotation L m = Some x"
      "valid L x" "idle_http x" "serving x = Some t" "\<not> subscription_compromised x"
    using rotation_completes [OF v i s t op ne] b(1) by auto
  have rm: "rotating L m" "rotation_stage m = 2" using rotation.iter_step [OF b(2) m(1)] b(3) by auto
  then obtain w where w: "subscription_rotation m = Some w" "valid L m" by (auto simp: rotating_def)
  have "serving x = Some (ro_target w)" using complete_rotation_ok [OF rm w(1)] m(2) by auto
  then have tw: "ro_target w = t" using m(5) by simp
  have "ro_checkpoint w = ''committed''" using rotation_committed [OF rm w(1)] .
  then have "serving z = Some t" if "permits_successor L m z" for z
    using committed_rotation_successor [OF w(2,1) _ that] tw by simp
  with b(1) y m show ?thesis by blast
qed

theorem link_rotation_completes_witness:
  "\<exists>r b m x. valid example_lib r \<and> serving r = Some example_serving
    \<and> begin_http_link_rotation example_lib r (replicate 32 CHR ''1'') (replicate 32 CHR ''2'') ''B'' = Some b
    \<and> iter_opt 2 (advance_http_link_rotation example_lib) b = Some m
    \<and> complete_http_link_rotation example_lib m = Some x \<and> serving x = Some example_target"
proof -
  obtain r where r: "valid example_lib r" "idle_http r" "serving r = Some example_serving"
    using example_http by blast
  have "sv_link_id example_serving \<noteq> replicate 32 CHR ''2''"
    "sv_credential_sha256 example_serving \<noteq> sha256_hex example_lib ''B''"
    by (simp_all add: example_serving_def example_lib_def example_digest_def)
  from link_rotation_completes [OF r example_digests(2) example_hex(2) this] r show ?thesis by blast
qed

text \<open>
  A serving installation can always repair its runtime: the repair begins, passes three checkpoints
  and completes, or is abandoned before the first, and either way what is served does not change.
\<close>

theorem runtime_repair_completes:
  assumes v: "valid L r" and i: "idle_http r" and s: "serving r = Some s" and op: "nonzero_hex operation 32"
  shows "\<exists>b m x y. begin_http_runtime_repair L r operation = Some b
    \<and> cleanup_http_runtime_repair L b = Some y \<and> valid L y \<and> idle_http y \<and> serving y = Some s
    \<and> iter_opt 3 (advance_http_runtime_repair L) b = Some m \<and> complete_http_runtime_repair L m = Some x
    \<and> valid L x \<and> idle_http x \<and> serving x = Some s"
proof -
  obtain b where b: "begin_http_runtime_repair L r operation = Some b" "repairing L b" "repair_stage b = 0"
      "serving b = Some s" using begin_repair_ok [OF v i s op] by blast
  obtain y where "cleanup_http_runtime_repair L b = Some y" "valid L y" "idle_http y" "serving y = Some s"
    using end_repair_ok [OF b(2)] b(3,4) by auto
  with repair_completes [OF v i s op] b(1) show ?thesis by auto
qed

theorem runtime_repair_completes_witness:
  "\<exists>r b m x. valid example_lib r \<and> serving r = Some example_serving
    \<and> begin_http_runtime_repair example_lib r (replicate 32 CHR ''1'') = Some b
    \<and> iter_opt 3 (advance_http_runtime_repair example_lib) b = Some m
    \<and> complete_http_runtime_repair example_lib m = Some x \<and> serving x = Some example_serving"
proof -
  obtain r where r: "valid example_lib r" "idle_http r" "serving r = Some example_serving"
    using example_http by blast
  from runtime_repair_completes [OF r example_hex(2)] r show ?thesis by blast
qed

text \<open>
  A valid record never carries two operations at once, and the three readers of it agree: outside a
  removal, \<open>pending_change\<close> reports an operation exactly when there is one, and \<open>http_operation\<close> reports
  none exactly when \<open>pending_change\<close> does.
\<close>

theorem at_most_one_operation:
  assumes "valid L r"
  shows "open_operations r \<le> 1
    \<and> (unfinished_direction r \<noteq> Removal \<longrightarrow>
         (pending_change r = None \<longleftrightarrow> open_operations r = 0)
         \<and> (http_operation r = Some None \<longleftrightarrow> pending_change r = None))"
  using valid_one_operation [OF assms] pending_iff_open http_operation_pending by blast

theorem at_most_one_operation_witness:
  "open_operations example_running \<le> 1 \<and> http_operation example_running = Some None"
  using at_most_one_operation [OF example_running_valid] example_running_idle example_fields by simp

section \<open>Identities and addresses\<close>

text \<open>
  C26. The Installed Record and the Release Identity disagree about major version zero: the identity that a
  decoded Installed Record hands out is a valid one exactly when its tag does not begin with \<open>v0\<close>, so an
  installed \<open>v0.x.y\<close> yields an identity that no Ownership Record accepts.
\<close>

theorem installed_identity_valid_iff:
  assumes "valid_installed w"
  shows "valid_release (installed_release_identity w) \<longleftrightarrow> \<not> starts_with ''v0'' (ir_tag w)"
  using assms stable_tag_release by (auto simp: valid_installed_def valid_release_def installed_release_identity_def)

theorem installed_identity_valid_iff_witness:
  "valid_installed example_installed \<and> \<not> valid_release (installed_release_identity example_installed)
   \<and> new_standard example_lib (installed_release_identity example_installed) ''8.8.8.8'' example_conf = None"
proof -
  have v: "valid_installed example_installed" by code_simp
  have "starts_with ''v0'' (ir_tag example_installed)" by code_simp
  with installed_identity_valid_iff [OF v] have "\<not> valid_release (installed_release_identity example_installed)" by simp
  with v new_standard_iff [of example_lib "installed_release_identity example_installed"] show ?thesis
    by (cases "new_standard example_lib (installed_release_identity example_installed) ''8.8.8.8'' example_conf") auto
qed



end
