(* ===== verification/Client_Record.thy ===== *)
theory Client_Record
  imports Removal_Record Http_Operations
begin

text \<open>
  The record side of the rotation of the client identity (first part of \<open>src/client_identity.rs\<close>):
  beginning, advancing and clearing a rotation as edits of the record's \<open>Value\<close>, and which
  successors of a record these functions permit.  An advance moves one checkpoint, and after the
  source identity is revoked there is no way back to it.
\<close>

section \<open>Checkpoints of a rotation\<close>

definition STARTUP_DROP_IN :: bytes where
  "STARTUP_DROP_IN = unlines [''[Service]'', ''ExecCondition=+/usr/local/bin/sbxr --proxy-start-authorize'']"

definition STARTUP_PATH :: string where
  "STARTUP_PATH = ''/etc/systemd/system/sing-box.service.d/sbxr-client-identity.conf''"

definition STARTUP_DIRECTORY :: string where
  "STARTUP_DIRECTORY = ''/etc/systemd/system/sing-box.service.d''"

definition EFFECTS :: "string list" where
  "EFFECTS =
     [''prepare target'', ''publish startup integration'', ''reload systemd'',
      ''verify startup route'', ''establish cutover gate'', ''stop source'',
      ''prove source quiescence'', ''revoke source'', ''publish target'', ''start target'',
      ''verify target'', ''clean staging'']"

definition CHECKPOINTS :: "string list" where
  "CHECKPOINTS =
     [''rotation authorized'', ''target prepared'', ''startup integration published'',
      ''systemd reloaded'', ''startup route verified'', ''cutover gated'', ''source stopped'',
      ''source quiescent'', ''source revoked'', ''target published'', ''target started'']"

datatype client_checkpoint =
    Authorized | TargetPrepared | IntegrationPublished | Reloaded | RouteVerified | Gated
  | Stopped | Quiescent | Revoked | TargetPublished | TargetStarted

definition checkpoint_order :: "client_checkpoint list" where
  "checkpoint_order =
     [Authorized, TargetPrepared, IntegrationPublished, Reloaded, RouteVerified, Gated, Stopped,
      Quiescent, Revoked, TargetPublished, TargetStarted]"

text \<open>\<open>self as usize\<close>.\<close>

fun ordinal :: "client_checkpoint \<Rightarrow> nat" where
  "ordinal Authorized = 0" | "ordinal TargetPrepared = 1" | "ordinal IntegrationPublished = 2"
| "ordinal Reloaded = 3" | "ordinal RouteVerified = 4" | "ordinal Gated = 5" | "ordinal Stopped = 6"
| "ordinal Quiescent = 7" | "ordinal Revoked = 8" | "ordinal TargetPublished = 9"
| "ordinal TargetStarted = 10"

definition checkpoint_as_str :: "client_checkpoint \<Rightarrow> string" where
  "checkpoint_as_str c = CHECKPOINTS ! ordinal c"

definition from_index :: "nat \<Rightarrow> client_checkpoint option" where
  "from_index i = nth_opt checkpoint_order i"

definition checkpoint_direction :: "client_checkpoint \<Rightarrow> change_direction" where
  "checkpoint_direction c = (if ordinal c < 8 then ChangeCleanup else ChangeForward)"

section \<open>Startup authority and rotation metadata\<close>

definition startup_wire :: "lib \<Rightarrow> bool \<Rightarrow> json" where
  "startup_wire L directory_created = value_of (JObj
     [(''drop_in_sha256'', JStr (sha256_hex L STARTUP_DROP_IN)),
      (''directory_created'', JBool directory_created)])"

definition startup_authority_resources :: "lib \<Rightarrow> bool \<Rightarrow> string list" where
  "startup_authority_resources L directory_created =
     (STARTUP_PATH @ '' root:root 0644 one-link sha256:'' @ sha256_hex L STARTUP_DROP_IN)
     # (if directory_created
        then [STARTUP_DIRECTORY @ '' root:root 0755 SBXR-created empty-after-drop-in-removal''] else [])"

record rotation_data =
  rd_operation_id :: string
  rd_checkpoint :: client_checkpoint
  rd_source_sha256 :: string
  rd_target_sha256 :: string
  rd_source_artifact_sha256 :: "string option"
  rd_target_artifact_sha256 :: "string option"

definition rotation_of :: "lib \<Rightarrow> wire_ownership \<Rightarrow> rotation_data option" where
  "rotation_of L record =
     (if phase record \<noteq> Running \<or> unfinished_direction record \<noteq> Idle then None
      else do {
        value \<leftarrow> wire L record;
        r \<leftarrow> jget ''client_identity_rotation'' value;
        cp \<leftarrow> as_str (jindex ''checkpoint'' r);
        index \<leftarrow> position (\<lambda>v. v = cp) CHECKPOINTS;
        operation_id \<leftarrow> as_str (jindex ''operation_id'' r);
        c \<leftarrow> from_index index;
        source \<leftarrow> as_str (jindex ''source_configuration_sha256'' r);
        target \<leftarrow> as_str (jindex ''target_configuration_sha256'' r);
        Some \<lparr>rd_operation_id = operation_id, rd_checkpoint = c, rd_source_sha256 = source,
          rd_target_sha256 = target,
          rd_source_artifact_sha256 = as_str (jindex ''source_artifact_sha256'' (jindex ''subscription'' r)),
          rd_target_artifact_sha256 = as_str (jindex ''target_artifact_sha256'' (jindex ''subscription'' r))\<rparr>
      })"

definition operation_resources :: "string \<Rightarrow> string option \<Rightarrow> string list" where
  "operation_resources target artifact =
     [''/var/lib/sbxr/client-identity-target.json root:root 0600 one-link sha256:'' @ target,
      ''/var/lib/sbxr/client-identity-target.json.sbxr-next root-owned Client Identity target publication'',
      ''/etc/sing-box/.config.json.sbxr-next root:sing-box 0640 one-link sha256:'' @ target,
      STARTUP_PATH @ ''.sbxr-next root-owned Client Identity startup publication'']
     @ (case artifact of
          None \<Rightarrow> []
        | Some a \<Rightarrow>
            [''/var/lib/sbxr/subscription-staging/client-artifact root:root 0600 one-link sha256:'' @ a,
             ''/var/lib/sbxr/subscription-staging/serving.json root:root 0600 immutable Client Identity serving state'',
             ''/var/lib/sbxr/subscription-staging/client-artifact.sbxr-next root-owned Client Identity artifact publication'',
             ''/var/lib/sbxr/subscription-staging/serving.json.sbxr-next root-owned Client Identity state publication'',
             ''/etc/systemd/system/sbxr-subscription.service.sbxr-next root-owned Client Identity serving startup publication'',
             ''/etc/systemd/system/sbxr-subscription.service.sbxr-next.sbxr-next root-owned Client Identity serving startup publication''])"

text \<open>\<open>value[key].as_array_mut().ok_or(..)?.push(x)\<close>.\<close>

definition jpush :: "string \<Rightarrow> json \<Rightarrow> json \<Rightarrow> json option" where
  "jpush k x value =
     (case jindex k value of JArr xs \<Rightarrow> Some (jset k (JArr (xs @ [x])) value) | _ \<Rightarrow> None)"

fun append_resources :: "json \<Rightarrow> string list \<Rightarrow> json \<Rightarrow> json option" where
  "append_resources value [] creator = Some value"
| "append_resources value (addition # additions) creator = do {
     value \<leftarrow> jpush ''permitted_resources'' (JStr addition) value;
     value \<leftarrow> jpush ''resource_creating_releases'' creator value;
     append_resources value additions creator
   }"

record material =
  mt_target :: bytes
  mt_artifact :: bytes
  mt_source_sha256 :: string
  mt_target_sha256 :: string
  mt_source_artifact_sha256 :: string
  mt_target_artifact_sha256 :: string

section \<open>Record transitions\<close>

definition to_schema2 :: "wire_ownership \<Rightarrow> json \<Rightarrow> json" where
  "to_schema2 record value =
     (if schema record = 1 then
        let value = jset ''schema'' (JNum 2) value;
            value = jset ''permitted_resources''
                      (jset_nth 0 (JStr SCHEMA2_LINE) (jindex ''permitted_resources'' value)) value
        in jset ''resource_creating_releases''
             (JArr (replicate (length (permitted_resources record)) (release_wire (release_identity record)))) value
      else value)"

definition with_startup :: "lib \<Rightarrow> bool \<Rightarrow> release_identity \<Rightarrow> json \<Rightarrow> json option" where
  "with_startup L startup creating_release value =
     (case jget ''proxy_startup'' value of
        Some existing \<Rightarrow> if existing \<noteq> startup_wire L startup then None else Some value
      | None \<Rightarrow> append_resources (jset ''proxy_startup'' (startup_wire L startup) value)
                  (startup_authority_resources L startup) (release_wire creating_release))"

definition rotation_value :: "string \<Rightarrow> material \<Rightarrow> json" where
  "rotation_value operation_id material = value_of (JObj
     [(''operation_id'', JStr operation_id), (''direction'', JStr ''cleanup''),
      (''effects'', JArr (map JStr EFFECTS)), (''completed_effects'', JArr []),
      (''source_configuration_sha256'', JStr (mt_source_sha256 material)),
      (''target_configuration_sha256'', JStr (mt_target_sha256 material)),
      (''checkpoint'', JStr (checkpoint_as_str Authorized))])"

definition subscription_value :: "json \<Rightarrow> material \<Rightarrow> json" where
  "subscription_value current material = value_of (JObj
     [(''source'', current), (''target'', current),
      (''source_artifact_sha256'', JStr (mt_source_artifact_sha256 material)),
      (''target_artifact_sha256'', JStr (mt_target_artifact_sha256 material))])"

definition jset_in :: "string \<Rightarrow> string \<Rightarrow> json \<Rightarrow> json \<Rightarrow> json" where
  "jset_in outer k x value = jset outer (jset k x (jindex outer value)) value"

definition begin_record ::
  "lib \<Rightarrow> wire_ownership \<Rightarrow> string \<Rightarrow> material \<Rightarrow> bool \<Rightarrow> release_identity \<Rightarrow> wire_ownership option" where
  "begin_record L record operation_id material startup creating_release =
     (if phase record \<noteq> Running \<or> unfinished_direction record \<noteq> Idle \<or> is_Some (pending_change record)
         \<or> configuration_sha256 record \<noteq> mt_source_sha256 material
         \<or> mt_source_sha256 material = mt_target_sha256 material then None
      else do {
        value \<leftarrow> wire L record;
        (if is_Some (jget ''finishing_release_identity'' value) then None
         else do {
           value \<leftarrow> with_startup L startup creating_release (to_schema2 record value);
           let value = jset ''client_identity_rotation'' (rotation_value operation_id material) value;
           let value = (case jget ''serving'' value of
                          None \<Rightarrow> value
                        | Some s \<Rightarrow> jset_in ''client_identity_rotation'' ''subscription''
                                      (subscription_value s material) value);
           value \<leftarrow> append_resources value
             (operation_resources (mt_target_sha256 material)
               (map_option (\<lambda>_. mt_target_artifact_sha256 material) (serving record)))
             (release_wire creating_release);
           validated_value L value
         })
      })"

text \<open>\<open>resources.iter_mut().find(..)\<close>: the first element that satisfies the predicate is replaced.\<close>

fun replace_first :: "('a \<Rightarrow> bool) \<Rightarrow> 'a \<Rightarrow> 'a list \<Rightarrow> 'a list option" where
  "replace_first p y [] = None"
| "replace_first p y (x # xs) =
     (if p x then Some (y # xs) else map_option ((#) x) (replace_first p y xs))"

definition select_target :: "string \<Rightarrow> json \<Rightarrow> json option" where
  "select_target target value =
     (let value = jset ''configuration_sha256'' (JStr target) value in
      case jindex ''permitted_resources'' value of
        JArr xs \<Rightarrow>
          map_option (\<lambda>ys. jset ''permitted_resources'' (JArr ys) value)
            (replace_first (\<lambda>s. is_some_and (starts_with ''/etc/sing-box/config.json '') (as_str s))
               (JStr (''/etc/sing-box/config.json sha256:'' @ target)) xs)
      | _ \<Rightarrow> None)"

definition step_rotation :: "client_checkpoint \<Rightarrow> json \<Rightarrow> json" where
  "step_rotation next value =
     jset_in ''client_identity_rotation'' ''direction''
       (JStr (if checkpoint_direction next = ChangeForward then ''forward'' else ''cleanup''))
       (jset_in ''client_identity_rotation'' ''completed_effects''
         (JArr (map JStr (take (ordinal next) EFFECTS)))
         (jset_in ''client_identity_rotation'' ''checkpoint'' (JStr (checkpoint_as_str next)) value))"

definition advance_record :: "lib \<Rightarrow> wire_ownership \<Rightarrow> wire_ownership option" where
  "advance_record L record = do {
     r \<leftarrow> rotation_of L record;
     next \<leftarrow> from_index (ordinal (rd_checkpoint r) + 1);
     value \<leftarrow> wire L record;
     let value = step_rotation next value;
     value \<leftarrow> (if next = TargetPublished then select_target (rd_target_sha256 r) value else Some value);
     validated_value L value
   }"

definition clear_startup :: "lib \<Rightarrow> bool \<Rightarrow> json \<Rightarrow> (json \<times> string list) option" where
  "clear_startup L retain_startup value =
     (if retain_startup then Some (value, [])
      else do {
        startup \<leftarrow> jget ''proxy_startup'' value;
        created \<leftarrow> (case jindex ''directory_created'' startup of JBool b \<Rightarrow> Some b | _ \<Rightarrow> None);
        Some (jremove ''proxy_startup'' value, startup_authority_resources L created)
      })"

definition drop_resources :: "string list \<Rightarrow> json \<Rightarrow> json option" where
  "drop_resources removed value =
     (case (jindex ''resource_creating_releases'' value, jindex ''permitted_resources'' value) of
        (JArr creators, JArr res) \<Rightarrow>
          let kept = filter (\<lambda>(r, _). \<not> list_ex (\<lambda>v. as_str r = Some v) removed) (zip res creators)
          in Some (jset ''resource_creating_releases'' (JArr (map snd kept))
               (jset ''permitted_resources'' (JArr (map fst kept)) value))
      | _ \<Rightarrow> None)"

definition clear_record :: "lib \<Rightarrow> wire_ownership \<Rightarrow> bool \<Rightarrow> wire_ownership option" where
  "clear_record L record retain_startup = do {
     r \<leftarrow> rotation_of L record;
     (if checkpoint_direction (rd_checkpoint r) = ChangeForward
         \<and> (rd_checkpoint r \<noteq> TargetStarted \<or> \<not> retain_startup) then None
      else do {
        value \<leftarrow> wire L record;
        (value, startup) \<leftarrow> clear_startup L retain_startup (jremove ''client_identity_rotation'' value);
        value \<leftarrow> drop_resources
          (operation_resources (rd_target_sha256 r) (rd_target_artifact_sha256 r) @ startup) value;
        validated_value L value
      })
   }"

definition creating_releases :: "wire_ownership \<Rightarrow> release_identity list" where
  "creating_releases r = (case resource_creating_releases r of Some v \<Rightarrow> v | None \<Rightarrow> [])"

definition initial_successor :: "lib \<Rightarrow> wire_ownership \<Rightarrow> wire_ownership \<Rightarrow> wire_ownership option" where
  "initial_successor L source next = do {
     r \<leftarrow> rotation_of L next;
     (if rd_checkpoint r \<noteq> Authorized then None
      else do {
        value \<leftarrow> wire L next;
        created \<leftarrow> (case jindex ''directory_created'' (jindex ''proxy_startup'' value) of
                     JBool b \<Rightarrow> Some b | _ \<Rightarrow> None);
        (if creating_releases next = [] then None
         else begin_record L source (rd_operation_id r)
             \<lparr>mt_target = [], mt_artifact = [], mt_source_sha256 = rd_source_sha256 r,
              mt_target_sha256 = rd_target_sha256 r,
              mt_source_artifact_sha256 = (case rd_source_artifact_sha256 r of None \<Rightarrow> [] | Some a \<Rightarrow> a),
              mt_target_artifact_sha256 = (case rd_target_artifact_sha256 r of None \<Rightarrow> [] | Some a \<Rightarrow> a)\<rparr>
             created (last (creating_releases next)))
      })
   }"

definition client_permits_successor :: "lib \<Rightarrow> wire_ownership \<Rightarrow> wire_ownership \<Rightarrow> bool" where
  "client_permits_successor L source next =
     (source = next \<or> initial_successor L source next = Some next \<or> advance_record L source = Some next
      \<or> clear_record L source True = Some next \<or> clear_record L source False = Some next)"

section \<open>Editing the rotation of a record\<close>

lemma client_constants: "EFFECTS = CLIENT_EFFECTS" "CHECKPOINTS = CLIENT_CHECKPOINTS"
  by (simp_all add: EFFECTS_def CLIENT_EFFECTS_def CHECKPOINTS_def CLIENT_CHECKPOINTS_def)

lemma from_index_ordinal:
  "from_index i = Some c \<longleftrightarrow> i < 11 \<and> ordinal c = i"
proof
  assume "from_index i = Some c"
  then have "i < 11" "c = checkpoint_order ! i" by (auto simp: from_index_def checkpoint_order_def)
  then show "i < 11 \<and> ordinal c = i"
    by (auto simp: checkpoint_order_def less_Suc_eq numeral_eq_Suc)
next
  assume "i < 11 \<and> ordinal c = i"
  then show "from_index i = Some c"
    by (cases c) (auto simp: from_index_def checkpoint_order_def)
qed

lemma map_of_update_nth:
  "distinct (map fst fs) \<Longrightarrow> i < length fs \<Longrightarrow> fst (fs ! i) = k \<Longrightarrow>
     map_of (fs[i := (k, v)]) = (map_of fs)(k \<mapsto> v)"
proof (induction fs arbitrary: i)
  case (Cons kv fs)
  show ?case
  proof (cases i)
    case 0
    then show ?thesis using Cons.prems by (cases kv) (auto simp: fun_eq_iff)
  next
    case (Suc j)
    then have "fst kv \<noteq> k" using Cons.prems nth_mem [of j "map fst fs"] by auto
    then show ?thesis using Suc Cons by (cases kv) (auto simp: fun_eq_iff)
  qed
qed simp

lemma jset_mk_obj:
  assumes d: "distinct (map fst fs)" and i: "i < length fs" "fst (fs ! i) = k"
  shows "jset k (value_of y) (value_of (mk_obj fs)) = value_of (mk_obj (fs[i := (k, Some y)]))"
proof -
  let ?gs = "fs[i := (k, Some y)]"
  have keys: "map fst ?gs = map fst fs" using i by (simp add: map_update list_update_same_conv)
  obtain a where a: "value_of (mk_obj fs) = JObj a" "key_sorted a" "map_of a = vfield_of fs"
    using value_of_mk_obj [OF d] by metis
  have d': "distinct (map fst ?gs)" using d keys by simp
  obtain b where b: "value_of (mk_obj ?gs) = JObj b" "key_sorted b" "map_of b = vfield_of ?gs"
    using value_of_mk_obj [OF d'] by metis
  have "map_of (bt_insert k (value_of y) a) = map_of b"
    by (auto simp: map_of_bt_insert a(3) b(3) vfield_of_def field_of_def map_of_update_nth [OF d i] fun_eq_iff)
  then have "bt_insert k (value_of y) a = b"
    by (rule key_sorted_unique [OF key_sorted_bt_insert [OF a(2)] b(2)])
  then show ?thesis by (simp add: a(1) b(1) jset_def)
qed

lemma client_edit:
  "jset ''checkpoint'' (JStr t) (value_of (ser_client_rotation c)) = value_of (ser_client_rotation (c\<lparr>cr_checkpoint := t\<rparr>))"
  "jset ''completed_effects'' (ser_strs es) (value_of (ser_client_rotation c))
     = value_of (ser_client_rotation (c\<lparr>cr_completed_effects := es\<rparr>))"
  "jset ''direction'' (JStr d) (value_of (ser_client_rotation c)) = value_of (ser_client_rotation (c\<lparr>cr_direction := d\<rparr>))"
  using jset_mk_obj [of "client_rotation_fields c" 6 "''checkpoint''" "JStr t"]
    jset_mk_obj [of "client_rotation_fields c" 3 "''completed_effects''" "ser_strs es"]
    jset_mk_obj [of "client_rotation_fields c" 1 "''direction''" "JStr d"]
  by (simp_all add: ser_client_rotation_def client_rotation_fields_def)

lemma represents_client_edit:
  assumes v: "represents v r" and c: "client_identity_rotation r = Some c"
    and e: "jset k x (value_of (ser_client_rotation c)) = value_of (ser_client_rotation c')"
  shows "represents (jset_in ''client_identity_rotation'' k x v) (r\<lparr>client_identity_rotation := Some c'\<rparr>)"
proof -
  have "jindex ''client_identity_rotation'' v = value_of (ser_client_rotation c)"
    using represents_unique [OF v] c by (simp add: jindex_def jget_ownership)
  then show ?thesis using represents_edits(11) [OF v] e by (simp add: jset_in_def)
qed

lemma replace_first_map:
  "replace_first p (f y) (map f xs) = map_option (map f) (replace_first (p \<circ> f) y xs)"
  by (induction xs) (auto simp: option.map_comp comp_def)

lemma select_target_represents:
  assumes v: "represents v r" and w: "select_target t v = Some w"
  shows "\<exists>ps. represents w (r\<lparr>configuration_sha256 := t, permitted_resources := ps\<rparr>)"
proof -
  let ?v = "jset ''configuration_sha256'' (JStr t) v"
  let ?r = "r\<lparr>configuration_sha256 := t\<rparr>"
  have s: "represents ?v ?r" by (rule represents_edits(4) [OF v])
  have "jindex ''permitted_resources'' ?v = JArr (map JStr (permitted_resources r))"
    using represents_unique [OF s] by (simp add: jindex_def jget_ownership ser_strs_def)
  with w obtain ps where "w = jset ''permitted_resources'' (JArr (map JStr ps)) ?v"
    unfolding select_target_def Let_def by (auto simp: replace_first_map)
  then show ?thesis using represents_edits(5) [OF s, of ps] by (auto simp: ser_strs_def)
qed

lemma jget_client:
  "jget ''checkpoint'' (value_of (ser_client_rotation c)) = Some (JStr (cr_checkpoint c))"
  "jget ''operation_id'' (value_of (ser_client_rotation c)) = Some (JStr (cr_operation_id c))"
  "jget ''source_configuration_sha256'' (value_of (ser_client_rotation c)) = Some (JStr (cr_source_configuration_sha256 c))"
  "jget ''target_configuration_sha256'' (value_of (ser_client_rotation c)) = Some (JStr (cr_target_configuration_sha256 c))"
  using operation_fields_wf
  by (simp_all add: ser_client_rotation_def jget_value_of) (simp_all add: client_rotation_fields_def serde_simps)

text \<open>The rotation at another checkpoint.\<close>

definition client_at :: "client_checkpoint \<Rightarrow> wire_client_rotation \<Rightarrow> wire_client_rotation" where
  "client_at n c = c\<lparr>cr_checkpoint := checkpoint_as_str n, cr_completed_effects := take (ordinal n) EFFECTS,
      cr_direction := (if checkpoint_direction n = ChangeForward then ''forward'' else ''cleanup'')\<rparr>"

lemma client_at_index: "client_index (client_at n c) = Some (ordinal n)"
proof -
  have "ordinal n < 11" by (cases n) simp_all
  then show ?thesis
    using position_nth_distinct [of CHECKPOINTS "ordinal n"]
    by (simp add: client_index_def client_at_def checkpoint_as_str_def client_constants [symmetric] CHECKPOINTS_def)
qed

lemma step_rotation_represents:
  assumes c: "client_identity_rotation r = Some c"
  shows "represents (step_rotation n (value_of (ser_ownership r)))
    (r\<lparr>client_identity_rotation := Some (client_at n c)\<rparr>)"
proof -
  have 1: "represents (jset_in ''client_identity_rotation'' ''checkpoint'' (JStr (checkpoint_as_str n))
      (value_of (ser_ownership r))) (r\<lparr>client_identity_rotation := Some (c\<lparr>cr_checkpoint := checkpoint_as_str n\<rparr>)\<rparr>)"
    by (rule represents_client_edit [OF represents_value c client_edit(1)])
  note 2 = represents_client_edit [OF 1 _ client_edit(2) [of "take (ordinal n) EFFECTS"], simplified]
  from represents_client_edit [OF 2 _ client_edit(3)]
  show ?thesis by (simp add: step_rotation_def client_at_def ser_strs_def)
qed

lemma clear_startup_represents:
  assumes v: "represents v r" and w: "clear_startup L keep v = Some (w, st)"
  shows "represents w r \<or> represents w (r\<lparr>proxy_startup := None\<rparr>)"
  using w v represents_edits(12) [OF v]
  by (auto simp: clear_startup_def bind_eq_Some_conv split: if_splits)

lemma zip_filter_maps:
  "\<exists>ps cs. map fst (filter f (zip (map JStr xs) (map g ys))) = map JStr ps
    \<and> map snd (filter f (zip (map JStr xs) (map g ys))) = map g cs"
proof (induction xs arbitrary: ys)
  case (Cons x xs)
  show ?case
  proof (cases ys)
    case (Cons y ys')
    from Cons.IH [of ys'] obtain ps cs
      where "map fst (filter f (zip (map JStr xs) (map g ys'))) = map JStr ps"
        "map snd (filter f (zip (map JStr xs) (map g ys'))) = map g cs" by blast
    then show ?thesis
      by (cases "f (JStr x, g y)")
        (auto simp: Cons intro: exI [of _ "x # ps"] exI [of _ "y # cs"] exI [of _ ps] exI [of _ cs])
  qed simp
qed simp

lemma drop_resources_represents:
  assumes v: "represents v r" and w: "drop_resources rem v = Some w"
  shows "\<exists>ps cs. represents w (r\<lparr>permitted_resources := ps, resource_creating_releases := Some cs\<rparr>)"
proof -
  have p: "jindex ''permitted_resources'' v = JArr (map JStr (permitted_resources r))"
    using represents_unique [OF v] by (simp add: jindex_def jget_ownership ser_strs_def)
  have "jget ''resource_creating_releases'' v = map_option (value_of \<circ> ser_releases) (resource_creating_releases r)"
    using represents_unique [OF v] unfolding ser_ownership_def jget_value_of [OF ownership_fields_wf(1)]
    by (simp add: ser_ownership_def jget_value_of [OF ownership_fields_wf(1)] reads_record_fields [OF reads_vfield_of])
  moreover obtain creators where cr: "jindex ''resource_creating_releases'' v = JArr creators"
    using w by (auto simp: drop_resources_def split: json.splits)
  ultimately obtain cs where cs: "creators = map (value_of \<circ> ser_release) cs"
    by (cases "resource_creating_releases r") (auto simp: jindex_def ser_releases_def)
  define kept where "kept = filter (\<lambda>(r, _). \<not> list_ex (\<lambda>v. as_str r = Some v) rem)
      (zip (map JStr (permitted_resources r)) (map (value_of \<circ> ser_release) cs))"
  obtain ps ds where k: "map fst kept = map JStr ps" "map snd kept = map (value_of \<circ> ser_release) ds"
    using zip_filter_maps unfolding kept_def by blast
  have "w = jset ''resource_creating_releases'' (JArr (map snd kept))
      (jset ''permitted_resources'' (JArr (map fst kept)) v)"
    using w by (simp add: drop_resources_def p cr cs kept_def Let_def)
  then have "w = jset ''resource_creating_releases'' (value_of (ser_releases ds))
      (jset ''permitted_resources'' (ser_strs ps) v)"
    by (simp add: k ser_releases_def ser_strs_def)
  then show ?thesis using represents_edits(8) [OF represents_edits(5) [OF v]] by blast
qed

context json_text
begin

lemma rotation_of_facts:
  assumes "rotation_of L r = Some d"
  obtains c i where "client_identity_rotation r = Some c" "client_index c = Some i"
    "ordinal (rd_checkpoint d) = i" "rd_target_sha256 d = cr_target_configuration_sha256 c"
    "phase r = Running" "unfinished_direction r = Idle" "wire L r = Some (value_of (ser_ownership r))"
proof -
  have w: "wire L r = Some (value_of (ser_ownership r))" "phase r = Running" "unfinished_direction r = Idle"
    using assms wire_iff [of r] by (auto simp: rotation_of_def bind_eq_Some_conv split: if_splits)
  then obtain c where c: "client_identity_rotation r = Some c"
    using assms by (auto simp: rotation_of_def bind_eq_Some_conv jget_ownership)
  have "jget ''client_identity_rotation'' (value_of (ser_ownership r)) = Some (value_of (ser_client_rotation c))"
    using c by (simp add: jget_ownership)
  then obtain i where "position (\<lambda>v. v = cr_checkpoint c) CHECKPOINTS = Some i"
    "from_index i = Some (rd_checkpoint d)" "rd_target_sha256 d = cr_target_configuration_sha256 c"
    using assms w by (auto simp: rotation_of_def bind_eq_Some_conv jindex_def jget_client as_str_def)
  then show thesis
    using that [OF c, of i] w by (simp add: client_index_def client_constants from_index_ordinal)
qed

lemma validated_value_Some:
  assumes "represents v r" "validated_value L v = Some s"
  shows "s = r" "valid L r"
  using assms validated_value_represents [OF assms(1)] by (auto split: if_splits)

lemma advance_record_step:
  assumes "advance_record L r = Some s"
  shows "\<exists>c i c'. client_identity_rotation r = Some c \<and> client_index c = Some i \<and> i < 10 \<and> valid L s
    \<and> client_identity_rotation s = Some c' \<and> client_index c' = Some (Suc i)
    \<and> cr_source_configuration_sha256 c' = cr_source_configuration_sha256 c
    \<and> cr_target_configuration_sha256 c' = cr_target_configuration_sha256 c
    \<and> serving s = serving r \<and> release_identity s = release_identity r
    \<and> unfinished_direction s = unfinished_direction r"
proof -
  from assms obtain d nx where d: "rotation_of L r = Some d"
    and nx: "from_index (ordinal (rd_checkpoint d) + 1) = Some nx"
    by (auto simp: advance_record_def bind_eq_Some_conv)
  from d obtain c i where c: "client_identity_rotation r = Some c" "client_index c = Some i"
    "ordinal (rd_checkpoint d) = i" "wire L r = Some (value_of (ser_ownership r))"
    by (rule rotation_of_facts)
  let ?v = "step_rotation nx (value_of (ser_ownership r))"
  note 3 = step_rotation_represents [OF c(1), of nx]
  obtain w where w: "(if nx = TargetPublished then select_target (rd_target_sha256 d) ?v else Some ?v) = Some w"
    "validated_value L w = Some s"
    using assms d nx c(4) by (auto simp: advance_record_def Let_def bind_eq_Some_conv split del: if_split)
  obtain n where n: "represents w n" "client_identity_rotation n = Some (client_at nx c)" "serving n = serving r"
    "release_identity n = release_identity r" "unfinished_direction n = unfinished_direction r"
  proof (cases "nx = TargetPublished")
    case True
    then obtain ps where "represents w (r\<lparr>client_identity_rotation := Some (client_at nx c),
        configuration_sha256 := rd_target_sha256 d, permitted_resources := ps\<rparr>)"
      using select_target_represents [OF 3] w(1) by fastforce
    then show thesis by (rule that) simp_all
  next
    case False
    then have "w = ?v" using w(1) by simp
    then show thesis
      using 3 by (intro that [of "r\<lparr>client_identity_rotation := Some (client_at nx c)\<rparr>"]) simp_all
  qed
  have s: "s = n" "valid L n" using validated_value_Some [OF n(1) w(2)] by auto
  have i: "i < 10" "ordinal nx = Suc i" using nx c(3) by (simp_all add: from_index_ordinal)
  show ?thesis
    using c(1,2) i s n(2-5) client_at_index [of nx c]
    by (intro exI [of _ c] exI [of _ i] exI [of _ "client_at nx c"]) (simp add: client_at_def)
qed

lemma clear_record_step:
  assumes "clear_record L r keep = Some s"
  shows "\<exists>c i. client_identity_rotation r = Some c \<and> client_index c = Some i
    \<and> (i < 8 \<or> i = 10 \<and> keep) \<and> valid L s \<and> client_identity_rotation s = None
    \<and> configuration_sha256 s = configuration_sha256 r \<and> serving s = serving r
    \<and> release_identity s = release_identity r \<and> unfinished_direction s = unfinished_direction r"
proof -
  from assms obtain d where d: "rotation_of L r = Some d"
    by (auto simp: clear_record_def bind_eq_Some_conv)
  then obtain c i where c: "client_identity_rotation r = Some c" "client_index c = Some i"
    "ordinal (rd_checkpoint d) = i" "wire L r = Some (value_of (ser_ownership r))"
    by (rule rotation_of_facts)
  have ok: "\<not> (checkpoint_direction (rd_checkpoint d) = ChangeForward
      \<and> (rd_checkpoint d \<noteq> TargetStarted \<or> \<not> keep))"
    using assms d by (auto simp: clear_record_def split: if_splits)
  then have i: "i < 8 \<or> i = 10 \<and> keep"
    using c(3) by (cases "rd_checkpoint d") (auto simp: checkpoint_direction_def)
  have v: "represents (jremove ''client_identity_rotation'' (value_of (ser_ownership r)))
      (r\<lparr>client_identity_rotation := None\<rparr>)"
    by (rule represents_edits(13) [OF represents_value])
  obtain w st x where w: "clear_startup L keep (jremove ''client_identity_rotation'' (value_of (ser_ownership r))) = Some (w, st)"
    and x: "drop_resources (operation_resources (rd_target_sha256 d) (rd_target_artifact_sha256 d) @ st) w = Some x"
      "validated_value L x = Some s"
    using assms d ok c(4) by (auto simp: clear_record_def bind_eq_Some_conv split: if_splits)
  obtain n where n: "represents w n" "client_identity_rotation n = None" "serving n = serving r"
    "configuration_sha256 n = configuration_sha256 r" "release_identity n = release_identity r"
    "unfinished_direction n = unfinished_direction r"
    using clear_startup_represents [OF v w] by auto
  obtain ps cs where "represents x (n\<lparr>permitted_resources := ps, resource_creating_releases := Some cs\<rparr>)"
    using drop_resources_represents [OF n(1) x(1)] by blast
  from validated_value_Some [OF this x(2)] show ?thesis using c i n by auto
qed

lemma begin_record_valid: "begin_record L r i m st rel = Some s \<Longrightarrow> valid L s"
  by (auto simp: begin_record_def bind_eq_Some_conv validated_value_def Let_def
      split: if_splits dest: decode_record_valid)

lemma begin_record_idle: "begin_record L r i m st rel = Some s \<Longrightarrow> pending_change r = None"
  by (auto simp: begin_record_def is_Some_def split: if_splits)

lemma initial_successor_idle:
  assumes "initial_successor L r n = Some s"
  shows "pending_change r = None" "valid L s"
proof -
  from assms obtain i m st rel where "begin_record L r i m st rel = Some s"
    by (auto simp: initial_successor_def bind_eq_Some_conv split: if_splits)
  then show "pending_change r = None" "valid L s" by (rule begin_record_idle begin_record_valid)+
qed

lemma client_successor_valid:
  assumes "client_permits_successor L r s" "valid L r"
  shows "valid L s"
  using assms initial_successor_idle(2) advance_record_step clear_record_step
  unfolding client_permits_successor_def by metis

text \<open>
  After the source identity is revoked every authorized successor still targets the new one: the
  rotation moves on, or it is over and the target is the recorded configuration.
\<close>

lemma revoked_forward_only:
  assumes v: "valid L r" and c: "client_identity_rotation r = Some c" "client_index c = Some i" "8 \<le> i"
    and p: "client_permits_successor L r s"
  shows "(\<exists>c' j. client_identity_rotation s = Some c' \<and> client_index c' = Some j \<and> i \<le> j
      \<and> cr_target_configuration_sha256 c' = cr_target_configuration_sha256 c)
    \<or> i = 10 \<and> client_identity_rotation s = None
      \<and> configuration_sha256 s = cr_target_configuration_sha256 c"
proof -
  have pend: "pending_change r \<noteq> None"
    using c(1) by (simp add: pending_change_def split: option.splits)
  have conf: "i = 10 \<Longrightarrow> configuration_sha256 r = cr_target_configuration_sha256 c"
    using validD(16) [OF v] c by (auto simp: guard_client_def valid_client_rotation_def)
  from p consider "r = s" | "initial_successor L r s = Some s" | "advance_record L r = Some s"
    | b where "clear_record L r b = Some s"
    unfolding client_permits_successor_def by blast
  then show ?thesis
  proof cases
    case 1
    then show ?thesis using c by (intro disjI1 exI [of _ c] exI [of _ i]) simp
  next
    case 2
    then show ?thesis using initial_successor_idle(1) [OF 2] pend by simp
  next
    case 3
    then obtain c' where "client_identity_rotation s = Some c'" "client_index c' = Some (Suc i)"
      "cr_target_configuration_sha256 c' = cr_target_configuration_sha256 c"
      using advance_record_step c(1,2) by fastforce
    then show ?thesis by (intro disjI1 exI [of _ c'] exI [of _ "Suc i"]) simp
  next
    case (4 b)
    then have "i = 10" "client_identity_rotation s = None" "configuration_sha256 s = configuration_sha256 r"
      using clear_record_step [OF 4] c by auto
    then show ?thesis using conf by simp
  qed
qed

end

end
