(* ===== verification/Durable.thy ===== *)
theory Durable
  imports Client_Record Successors
begin

text \<open>
  The protected store of the Ownership Record (\<open>src/durable.rs\<close>): which staged record a snapshot may
  carry without being refused, the walk that opens the store's directory, and the publication and
  deletion of the record with every failing call, injected fault and uncertain rename.  The laws say
  that the current file changes only to the exact bytes of an admitted successor of the expected
  record, that an error which claims \<open>Unchanged\<close> left the current file alone, that without faults an
  admitted publication succeeds, and what a whole history of publications under any faults can do.
\<close>

unbundle bit_operations_syntax

section \<open>Errors\<close>

datatype publication = Unchanged | Uncertain

datatype store_error_kind = Unsafe | Conflict | Busy | Io | InvalidAuthority | Injected

record store_error =
  se_kind :: store_error_kind
  se_publication :: publication

definition store_error :: "store_error_kind \<Rightarrow> store_error" where
  "store_error kind = \<lparr>se_kind = kind, se_publication = Unchanged\<rparr>"

definition uncertain :: "store_error_kind \<Rightarrow> store_error" where
  "uncertain kind = \<lparr>se_kind = kind, se_publication = Uncertain\<rparr>"

section \<open>What a snapshot of the two files means\<close>

datatype recovery =
    RecAbsent | RecCleanup | RecFinishSetup | RecRunning | RecRefused | RecRemoval
  | SubscriptionCleanup | SubscriptionForward | ClientIdentityCleanup | ClientIdentityForward
  | Historical

fun pending_recovery :: "pending_kind \<Rightarrow> recovery" where
  "pending_recovery (PEnablement _) = SubscriptionCleanup"
| "pending_recovery (PLinkRotation _ d) = (case d of ChangeCleanup \<Rightarrow> SubscriptionCleanup | ChangeForward \<Rightarrow> SubscriptionForward)"
| "pending_recovery (PRepair _ _ d) = (case d of ChangeCleanup \<Rightarrow> SubscriptionCleanup | ChangeForward \<Rightarrow> SubscriptionForward)"
| "pending_recovery (PClientIdentityRotation _ d) = (case d of ChangeCleanup \<Rightarrow> ClientIdentityCleanup | ChangeForward \<Rightarrow> ClientIdentityForward)"
| "pending_recovery (PCertificateActivation _) = Historical"
| "pending_recovery PTransportMigration = Historical"
| "pending_recovery (PRemoval _) = RecRemoval"

fun direction_recovery :: "recovery_dir \<Rightarrow> recovery" where
  "direction_recovery Cleanup = RecCleanup"
| "direction_recovery FinishSetup = RecFinishSetup"
| "direction_recovery Idle = RecRunning"
| "direction_recovery Removal = RecRemoval"

definition record_recovery :: "wire_ownership \<Rightarrow> recovery" where
  "record_recovery r =
     (case pending_change r of
        Some p \<Rightarrow> pending_recovery p
      | None \<Rightarrow> direction_recovery (unfinished_direction r))"

definition permits_removal :: "lib \<Rightarrow> wire_ownership option \<Rightarrow> wire_ownership \<Rightarrow> bool" where
  "permits_removal L source next =
     (if unfinished_direction next \<noteq> Removal then False
      else case finishing_release L next of
             None \<Rightarrow> False
           | Some finisher \<Rightarrow>
               (case source of
                  Some src \<Rightarrow>
                    if unfinished_direction src = Removal then next_checkpoint L src = Some next
                    else commit_removal L source finisher = Some next
                | None \<Rightarrow> commit_removal L source finisher = Some next))"

record stored_ownership =
  so_record :: wire_ownership
  so_bytes :: bytes

record snapshot =
  sn_current :: "stored_ownership option"
  sn_staged :: "stored_ownership option"

definition crosses_barrier :: "recovery \<Rightarrow> recovery \<Rightarrow> bool" where
  "crosses_barrier direction target =
     (case direction of
        RecCleanup \<Rightarrow> target \<noteq> RecCleanup
      | RecRunning \<Rightarrow> target \<noteq> RecRunning
      | SubscriptionCleanup \<Rightarrow> target \<noteq> SubscriptionCleanup \<and> target \<noteq> RecRunning
      | ClientIdentityCleanup \<Rightarrow> target \<noteq> ClientIdentityCleanup \<and> target \<noteq> RecRunning
      | _ \<Rightarrow> False)"

definition enablement_commit :: "wire_ownership \<Rightarrow> wire_ownership \<Rightarrow> bool" where
  "enablement_commit cur target =
     (is_some_and (\<lambda>p. case p of PEnablement _ \<Rightarrow> True | _ \<Rightarrow> False) (pending_change cur)
      \<and> pending_change target = None \<and> is_Some (serving target))"

definition staged_refused :: "lib \<Rightarrow> wire_ownership \<Rightarrow> wire_ownership \<Rightarrow> bool" where
  "staged_refused L cur target =
     (crosses_barrier (record_recovery cur) (record_recovery target) \<or> enablement_commit cur target
      \<or> \<not> (permits_successor L cur target \<or> client_permits_successor L cur target
            \<or> unfinished_direction cur = Removal \<and> permits_removal L (Some cur) target))"

definition snapshot_recovery :: "lib \<Rightarrow> snapshot \<Rightarrow> recovery" where
  "snapshot_recovery L s =
     (case sn_current s of
        None \<Rightarrow> if sn_staged s = None then RecAbsent else RecRefused
      | Some cur \<Rightarrow>
          if is_some_and (\<lambda>next. staged_refused L (so_record cur) (so_record next)) (sn_staged s)
          then RecRefused else record_recovery (so_record cur))"

section \<open>Files and directories\<close>

definition OWNERSHIP_FILE :: string where
  "OWNERSHIP_FILE = ''proxy-ownership.json''"

definition STAGED_FILE :: string where
  "STAGED_FILE = ''.proxy-ownership.json.next''"

text \<open>What \<open>stat\<close> says of a file, and its content.\<close>

record stored_file =
  f_mode :: u32
  f_uid :: u32
  f_nlink :: nat
  f_bytes :: bytes

definition safe_file :: "stored_file \<Rightarrow> u32 \<Rightarrow> bool" where
  "safe_file f uid =
     (f_mode f AND 0xF000 = 0x8000 \<and> f_mode f AND 0xFFF = 0x180 \<and> f_uid f = uid \<and> f_nlink f = 1
      \<and> length (f_bytes f) > 0 \<and> length (f_bytes f) \<le> MAX_RECORD_BYTES)"

text \<open>
  \<open>open_directory\<close>: every component of the absolute path is opened without following links, must
  belong to root or to the owner and be writable by no one else, and the last one must be the owner's
  with mode 0700.  The argument \<open>opened\<close> gives what \<open>fstat\<close> says of the directory at a path, or
  nothing when it cannot be opened.
\<close>

datatype component = RootDir | CurDir | ParentDir | Normal string

record dir_stat =
  d_uid :: u32
  d_mode :: u32

fun walk_components ::
  "(string list \<Rightarrow> dir_stat option) \<Rightarrow> u32 \<Rightarrow> string list \<Rightarrow> component list \<Rightarrow> store_error + string list" where
  "walk_components opened owner_uid here [] = Inr here"
| "walk_components opened owner_uid here (c # cs) =
     (case c of
        RootDir \<Rightarrow> walk_components opened owner_uid here cs
      | Normal name \<Rightarrow>
          (case opened (here @ [name]) of
             None \<Rightarrow> Inl (store_error Io)
           | Some stat \<Rightarrow>
               if d_uid stat \<noteq> 0 \<and> d_uid stat \<noteq> owner_uid \<or> d_mode stat AND 0x12 \<noteq> 0
               then Inl (store_error Unsafe)
               else walk_components opened owner_uid (here @ [name]) cs)
      | _ \<Rightarrow> Inl (store_error Unsafe))"

definition open_directory ::
  "(string list \<Rightarrow> dir_stat option) \<Rightarrow> u32 \<Rightarrow> component list \<Rightarrow> store_error + string list" where
  "open_directory opened owner_uid path =
     (if path = [] \<or> hd path \<noteq> RootDir then Inl (store_error Unsafe)
      else case opened [] of
        None \<Rightarrow> Inl (store_error Io)
      | Some _ \<Rightarrow>
          (case walk_components opened owner_uid [] path of
             Inl e \<Rightarrow> Inl e
           | Inr here \<Rightarrow>
               (case opened here of
                  None \<Rightarrow> Inl (store_error Io)
                | Some stat \<Rightarrow>
                    if d_uid stat \<noteq> owner_uid \<or> d_mode stat AND 0xFFF \<noteq> 0x1C0
                    then Inl (store_error Unsafe) else Inr here)))"

section \<open>The store\<close>

text \<open>
  The calls of the store that can fail, one name per call site, and the injection points of the
  source.  A store carries the state of its directory, which of the calls fail in this run
  (\<open>st_fails\<close>), how many bytes a failing write leaves behind and whether a rename or unlink that
  reports an error took effect all the same.
\<close>

datatype fault_point =
    AfterStageCreate | AfterStageWrite | AfterStageSync | BeforeRename | AfterRename
  | BeforeDirectorySync | AfterDirectorySync

datatype io_site =
    ReadForSync | SyncFile | SyncDirectory | ReadAfterSync | ReadBefore | ReadStaged | CreateStage
  | ChmodStage | WriteStage | SyncStage | ReadAgain | ReadStagedAgain | RenameStage
  | SyncRename | ReadPublished | UnlinkCurrent | UnlinkStaged | SyncUnlink | ReadRemoved
  | LoadCurrent | LoadStaged

record store =
  st_files :: "string \<rightharpoonup> stored_file"
  st_directory_ok :: bool
  st_owner :: u32
  st_fault :: "fault_point option"
  st_fails :: "io_site \<Rightarrow> bool"
  st_written :: nat
  st_took_effect :: bool

definition read_file :: "store \<Rightarrow> io_site \<Rightarrow> string \<Rightarrow> store_error + bytes option" where
  "read_file st site name =
     (if \<not> st_directory_ok st then Inl (store_error Unsafe)
      else if st_fails st site then Inl (store_error Io)
      else case st_files st name of
             None \<Rightarrow> Inr None
           | Some f \<Rightarrow> if \<not> safe_file f (st_owner st) then Inl (store_error Unsafe)
                       else Inr (Some (f_bytes f)))"

definition decoded :: "lib \<Rightarrow> bytes option \<Rightarrow> store_error + stored_ownership option" where
  "decoded L content =
     (case content of
        None \<Rightarrow> Inr None
      | Some bytes \<Rightarrow>
          (case decode_record L bytes of
             None \<Rightarrow> Inl (store_error InvalidAuthority)
           | Some r \<Rightarrow> Inr (Some \<lparr>so_record = r, so_bytes = bytes\<rparr>)))"

text \<open>Sequencing of fallible steps that leave the store as it is.\<close>

definition and_then :: "'e + 'a \<Rightarrow> ('a \<Rightarrow> 'e + 'b) \<Rightarrow> 'e + 'b" where
  "and_then x f = (case x of Inl e \<Rightarrow> Inl e | Inr a \<Rightarrow> f a)"

definition load :: "lib \<Rightarrow> store \<Rightarrow> store_error + snapshot" where
  "load L st =
     and_then (read_file st LoadCurrent OWNERSHIP_FILE) (\<lambda>c.
     and_then (decoded L c) (\<lambda>cur.
     and_then (read_file st LoadStaged STAGED_FILE) (\<lambda>s.
     and_then (decoded L s) (\<lambda>stg. Inr \<lparr>sn_current = cur, sn_staged = stg\<rparr>))))"

definition expect_current :: "store \<Rightarrow> io_site \<Rightarrow> bytes option \<Rightarrow> store_error + unit" where
  "expect_current st site expected =
     and_then (read_file st site OWNERSHIP_FILE) (\<lambda>actual.
       if actual \<noteq> expected then Inl (store_error Conflict) else Inr ())"

definition synchronize :: "store \<Rightarrow> bytes \<Rightarrow> store_error + unit" where
  "synchronize st expected =
     and_then (read_file st ReadForSync OWNERSHIP_FILE) (\<lambda>content.
       case content of
         None \<Rightarrow> Inl (store_error Conflict)
       | Some bytes \<Rightarrow>
           if bytes \<noteq> expected then Inl (store_error Conflict)
           else if st_fails st SyncFile then Inl (store_error Io)
           else if st_fails st SyncDirectory then Inl (store_error Io)
           else expect_current st ReadAfterSync (Some expected))"

definition boundary :: "store \<Rightarrow> fault_point \<Rightarrow> publication \<Rightarrow> store_error + unit" where
  "boundary st point publication =
     (if st_fault st = Some point then Inl \<lparr>se_kind = Injected, se_publication = publication\<rparr> else Inr ())"

text \<open>The checks of \<open>publish\<close> before anything is written.\<close>

definition admit_source :: "lib \<Rightarrow> store \<Rightarrow> bytes option \<Rightarrow> wire_ownership \<Rightarrow> store_error + unit" where
  "admit_source L st expected next =
     (case expected of
        Some content \<Rightarrow>
          (case decode_record L content of
             None \<Rightarrow> Inl (store_error InvalidAuthority)
           | Some source \<Rightarrow>
               (case encode_record L source of
                  None \<Rightarrow> Inl (store_error InvalidAuthority)
                | Some again \<Rightarrow>
                    if again \<noteq> content
                       \<or> \<not> (permits_successor L source next \<or> client_permits_successor L source next
                             \<or> permits_removal L (Some source) next)
                    then Inl (store_error Conflict)
                    else synchronize st content))
      | None \<Rightarrow>
          if (phase next \<noteq> OwnershipRecorded \<or> cleanup_checkpoint next \<noteq> 0) \<and> \<not> permits_removal L None next
          then Inl (store_error InvalidAuthority) else Inr ())"

definition staged_file :: "store \<Rightarrow> bytes \<Rightarrow> stored_file" where
  "staged_file st content = \<lparr>f_mode = 0x8180, f_uid = st_owner st, f_nlink = 1, f_bytes = content\<rparr>"

definition put_stage :: "store \<Rightarrow> bytes \<Rightarrow> store" where
  "put_stage st content = st\<lparr>st_files := (st_files st)(STAGED_FILE \<mapsto> staged_file st content)\<rparr>"

text \<open>Reuse of an identical staged file, or the exclusive creation of a new one.\<close>

definition stage :: "store \<Rightarrow> bytes \<Rightarrow> store \<times> (store_error + unit)" where
  "stage st content =
     (case read_file st ReadStaged STAGED_FILE of
        Inl e \<Rightarrow> (st, Inl e)
      | Inr (Some found) \<Rightarrow> (st, if found \<noteq> content then Inl (store_error Conflict) else Inr ())
      | Inr None \<Rightarrow>
          if st_fails st CreateStage then (st, Inl (store_error Io))
          else if st_fails st ChmodStage then (put_stage st [], Inl (store_error Io))
          else (case boundary st AfterStageCreate Unchanged of
                  Inl e \<Rightarrow> (put_stage st [], Inl e)
                | Inr _ \<Rightarrow>
                    if st_fails st WriteStage then (put_stage st (take (st_written st) content), Inl (store_error Io))
                    else (put_stage st content, boundary st AfterStageWrite Unchanged)))"

text \<open>
  \<open>renameat\<close> moves the staged file over the current one; when no current file is expected, it is
  called with \<open>NOREPLACE\<close> and refuses to replace one.
\<close>

definition rename_stage :: "store \<Rightarrow> store" where
  "rename_stage st = st\<lparr>st_files := (st_files st)(OWNERSHIP_FILE := st_files st STAGED_FILE, STAGED_FILE := None)\<rparr>"

definition promote :: "store \<Rightarrow> bytes option \<Rightarrow> bytes \<Rightarrow> store \<times> (store_error + unit)" where
  "promote st expected content =
     (if expected = None \<and> is_Some (st_files st OWNERSHIP_FILE) then (st, Inl (uncertain Io))
      else if st_fails st RenameStage
      then (if st_took_effect st then rename_stage st else st, Inl (uncertain Io))
      else let st = rename_stage st in
        (st, and_then (boundary st AfterRename Uncertain) (\<lambda>_.
             and_then (boundary st BeforeDirectorySync Uncertain) (\<lambda>_.
             and_then (if st_fails st SyncRename then Inl (uncertain Io) else Inr ()) (\<lambda>_.
             and_then (boundary st AfterDirectorySync Uncertain) (\<lambda>_.
             case expect_current st ReadPublished (Some content) of
               Inl e \<Rightarrow> Inl (e\<lparr>se_publication := Uncertain\<rparr>)
             | Inr _ \<Rightarrow> Inr ()))))))"

definition recheck :: "store \<Rightarrow> bytes option \<Rightarrow> bytes \<Rightarrow> store_error + unit" where
  "recheck st expected content =
     and_then (if st_fails st SyncStage then Inl (store_error Io) else Inr ()) (\<lambda>_.
     and_then (boundary st AfterStageSync Unchanged) (\<lambda>_.
     and_then (expect_current st ReadAgain expected) (\<lambda>_.
     and_then (read_file st ReadStagedAgain STAGED_FILE) (\<lambda>found.
     if found \<noteq> Some content then Inl (store_error Conflict)
     else boundary st BeforeRename Unchanged))))"

definition publish :: "lib \<Rightarrow> store \<Rightarrow> bytes option \<Rightarrow> wire_ownership \<Rightarrow> store \<times> (store_error + unit)" where
  "publish L st expected next =
     (case encode_record L next of
        None \<Rightarrow> (st, Inl (store_error InvalidAuthority))
      | Some content \<Rightarrow>
          (case and_then (admit_source L st expected next) (\<lambda>_. expect_current st ReadBefore expected) of
             Inl e \<Rightarrow> (st, Inl e)
           | Inr _ \<Rightarrow>
               (case stage st content of
                  (st, Inl e) \<Rightarrow> (st, Inl e)
                | (st, Inr _) \<Rightarrow>
                    (case recheck st expected content of
                       Inl e \<Rightarrow> (st, Inl e)
                     | Inr _ \<Rightarrow> promote st expected content))))"

definition remove_name :: "store \<Rightarrow> string \<Rightarrow> store" where
  "remove_name st name = st\<lparr>st_files := (st_files st)(name := None)\<rparr>"

text \<open>\<open>unlinkat\<close> and its uncertain failure.\<close>

definition unlink :: "store \<Rightarrow> io_site \<Rightarrow> string \<Rightarrow> store \<times> (store_error + unit)" where
  "unlink st site name =
     (if st_fails st site
      then (if st_took_effect st then remove_name st name else st, Inl (uncertain Io))
      else (remove_name st name, Inr ()))"

definition finish_unlink :: "store \<Rightarrow> store_error + unit" where
  "finish_unlink st =
     (if st_fails st SyncUnlink then Inl (uncertain Io)
      else case expect_current st ReadRemoved None of
             Inl e \<Rightarrow> Inl (e\<lparr>se_publication := Uncertain\<rparr>) | Inr _ \<Rightarrow> Inr ())"

definition completed_cleanup :: "lib \<Rightarrow> bytes \<Rightarrow> store_error + unit" where
  "completed_cleanup L expected =
     (case decode_record L expected of
        None \<Rightarrow> Inl (store_error InvalidAuthority)
      | Some r \<Rightarrow>
          if unfinished_direction r \<noteq> Cleanup \<or> cleanup_checkpoint r \<noteq> 8 then Inl (store_error Conflict)
          else case encode_record L r of
                 None \<Rightarrow> Inl (store_error InvalidAuthority)
               | Some again \<Rightarrow> if again \<noteq> expected then Inl (store_error Conflict) else Inr ())"

definition remove_completed_cleanup :: "lib \<Rightarrow> store \<Rightarrow> bytes \<Rightarrow> store \<times> (store_error + unit)" where
  "remove_completed_cleanup L st expected =
     (case and_then (completed_cleanup L expected) (\<lambda>_.
           and_then (synchronize st expected) (\<lambda>_.
           and_then (read_file st ReadStaged STAGED_FILE) (\<lambda>stg.
             if is_some_and (\<lambda>b. b \<noteq> expected) stg then Inl (store_error Conflict)
             else and_then (expect_current st ReadBefore (Some expected)) (\<lambda>_. Inr stg)))) of
        Inl e \<Rightarrow> (st, Inl e)
      | Inr stg \<Rightarrow>
          (case unlink st UnlinkCurrent OWNERSHIP_FILE of
             (st, Inl e) \<Rightarrow> (st, Inl e)
           | (st, Inr _) \<Rightarrow>
               (case (if is_Some stg then unlink st UnlinkStaged STAGED_FILE else (st, Inr ())) of
                  (st, Inl e) \<Rightarrow> (st, Inl e)
                | (st, Inr _) \<Rightarrow> (st, finish_unlink st))))"

section \<open>Laws of publication\<close>

lemma names_ne [simp]: "OWNERSHIP_FILE \<noteq> STAGED_FILE" "STAGED_FILE \<noteq> OWNERSHIP_FILE"
  by (simp_all add: OWNERSHIP_FILE_def STAGED_FILE_def)

lemma and_then_Inr [simp]: "and_then x f = Inr b \<longleftrightarrow> (\<exists>a. x = Inr a \<and> f a = Inr b)"
  by (cases x) (simp_all add: and_then_def)

lemma and_then_Inl: "and_then x f = Inl e \<longleftrightarrow> x = Inl e \<or> (\<exists>a. x = Inr a \<and> f a = Inl e)"
  by (cases x) (simp_all add: and_then_def)

lemma store_error_unchanged [simp]: "se_publication (store_error k) = Unchanged" "se_publication (uncertain k) = Uncertain"
  by (simp_all add: store_error_def uncertain_def)

definition current_bytes :: "store \<Rightarrow> bytes option" where
  "current_bytes st = map_option f_bytes (st_files st OWNERSHIP_FILE)"

definition staged_bytes :: "store \<Rightarrow> bytes option" where
  "staged_bytes st = map_option f_bytes (st_files st STAGED_FILE)"

lemma read_file_ok:
  assumes "read_file st site name = Inr c"
  shows "map_option f_bytes (st_files st name) = c"
  using assms by (auto simp: read_file_def split: if_splits option.splits)

lemma read_file_unchanged: "read_file st site name = Inl e \<Longrightarrow> se_publication e = Unchanged"
  by (auto simp: read_file_def split: if_splits option.splits)

lemma expect_current_ok: "expect_current st site x = Inr () \<Longrightarrow> current_bytes st = x"
  by (auto simp: expect_current_def current_bytes_def dest: read_file_ok split: if_splits)

lemma expect_current_unchanged: "expect_current st site x = Inl e \<Longrightarrow> se_publication e = Unchanged"
  by (auto simp: expect_current_def and_then_Inl dest: read_file_unchanged split: if_splits)

lemma synchronize_unchanged: "synchronize st x = Inl e \<Longrightarrow> se_publication e = Unchanged"
  by (auto simp: synchronize_def and_then_Inl dest: read_file_unchanged expect_current_unchanged
      split: if_splits option.splits)

lemma synchronize_ok: "synchronize st x = Inr () \<Longrightarrow> current_bytes st = Some x"
  by (auto simp: synchronize_def dest: expect_current_ok split: if_splits option.splits)

text \<open>Which publications are admitted, apart from the state of the files.\<close>

definition admits :: "lib \<Rightarrow> bytes option \<Rightarrow> wire_ownership \<Rightarrow> bool" where
  "admits L expected next =
     (case expected of
        Some content \<Rightarrow>
          (case decode_record L content of
             None \<Rightarrow> False
           | Some source \<Rightarrow> encode_record L source = Some content
               \<and> (permits_successor L source next \<or> client_permits_successor L source next
                  \<or> permits_removal L (Some source) next))
      | None \<Rightarrow> phase next = OwnershipRecorded \<and> cleanup_checkpoint next = 0 \<or> permits_removal L None next)"

lemma admit_source_ok: "admit_source L st expected next = Inr () \<Longrightarrow> admits L expected next"
  by (auto simp: admit_source_def admits_def split: option.splits if_splits)

lemma admit_source_unchanged: "admit_source L st expected next = Inl e \<Longrightarrow> se_publication e = Unchanged"
  by (auto simp: admit_source_def dest: synchronize_unchanged split: option.splits if_splits)

lemma stage_frame:
  assumes "stage st content = (st', res)"
  shows "st_files st' OWNERSHIP_FILE = st_files st OWNERSHIP_FILE"
    "res = Inl e \<Longrightarrow> se_publication e = Unchanged"
    "st_owner st' = st_owner st" "st_fails st' = st_fails st" "st_fault st' = st_fault st"
    "st_directory_ok st' = st_directory_ok st"
  using assms read_file_unchanged
  by (auto simp: stage_def put_stage_def boundary_def split: sum.splits option.splits if_splits)

lemma recheck_ok:
  assumes "recheck st expected content = Inr ()"
  shows "current_bytes st = expected" "staged_bytes st = Some content"
  using assms
  by (auto simp: recheck_def staged_bytes_def dest: expect_current_ok read_file_ok split: if_splits)

lemma boundary_publication: "boundary st p q = Inl e \<Longrightarrow> se_publication e = q"
  by (auto simp: boundary_def split: if_splits)

lemma recheck_unchanged: "recheck st expected content = Inl e \<Longrightarrow> se_publication e = Unchanged"
  by (auto simp: recheck_def and_then_Inl dest: expect_current_unchanged read_file_unchanged
      boundary_publication split: if_splits)

lemma promote_result:
  assumes "promote st expected content = (st', res)"
  shows "st' = st \<or> st' = rename_stage st"
    "res = Inl e \<Longrightarrow> se_publication e = Uncertain" "res = Inr () \<Longrightarrow> st' = rename_stage st"
  using assms
  by (auto simp: promote_def Let_def and_then_Inl split: if_splits sum.splits dest: boundary_publication)

lemma rename_stage_files [simp]:
  "current_bytes (rename_stage st) = staged_bytes st" "staged_bytes (rename_stage st) = None"
  by (simp_all add: rename_stage_def current_bytes_def staged_bytes_def)

lemma publish_result:
  assumes p: "publish L st expected next = (st', res)"
  shows "(st_files st' OWNERSHIP_FILE = st_files st OWNERSHIP_FILE \<and> res \<noteq> Inr ())
    \<or> (admits L expected next \<and> current_bytes st = expected \<and> encode_record L next \<noteq> None
       \<and> current_bytes st' = encode_record L next \<and> staged_bytes st' = None
       \<and> (\<forall>e. res = Inl e \<longrightarrow> se_publication e = Uncertain))"
proof (cases "encode_record L next")
  case None
  then show ?thesis using p by (auto simp: publish_def)
next
  case (Some content)
  show ?thesis
  proof (cases "and_then (admit_source L st expected next) (\<lambda>_. expect_current st ReadBefore expected)")
    case (Inl e)
    then show ?thesis using p Some by (auto simp: publish_def)
  next
    case (Inr u)
    then have ad: "admits L expected next" "current_bytes st = expected"
      by (auto dest: admit_source_ok expect_current_ok)
    obtain s1 r1 where s1: "stage st content = (s1, r1)" by (cases "stage st content")
    note F = stage_frame [OF s1]
    show ?thesis
    proof (cases r1)
      case (Inl e)
      then show ?thesis using p Some Inr s1 F(1) by (auto simp: publish_def)
    next
      case r1: (Inr v)
      show ?thesis
      proof (cases "recheck s1 expected content")
        case (Inl e)
        then show ?thesis using p Some Inr s1 r1 F(1) by (auto simp: publish_def)
      next
        case r2: (Inr w)
        then have pr: "promote s1 expected content = (st', res)" using p Some Inr s1 r1 by (simp add: publish_def)
        have "recheck s1 expected content = Inr ()" using r2 by simp
        note R = promote_result [OF pr] and C = recheck_ok [OF this]
        from R(1) show ?thesis
        proof
          assume s: "st' = s1"
          have "res \<noteq> Inr ()"
          proof
            assume "res = Inr ()"
            then have "staged_bytes s1 = None" using R(3) s rename_stage_files(2) [of s1] by simp
            then show False using C(2) by simp
          qed
          then show ?thesis using F(1) s by simp
        next
          assume "st' = rename_stage s1"
          then show ?thesis using ad Some C R(2) by simp
        qed
      qed
    qed
  qed
qed

lemma publish_unchanged:
  assumes "publish L st expected next = (st', Inl e)" "se_publication e = Unchanged"
  shows "st_files st' OWNERSHIP_FILE = st_files st OWNERSHIP_FILE"
  using publish_result [OF assms(1)] assms(2) by auto

text \<open>Without faults and interference an admitted publication succeeds.\<close>

definition quiet :: "store \<Rightarrow> bool" where
  "quiet st = (st_directory_ok st \<and> st_fault st = None \<and> (\<forall>site. \<not> st_fails st site))"

definition holds_file :: "store \<Rightarrow> string \<Rightarrow> bytes option \<Rightarrow> bool" where
  "holds_file st name content =
     (map_option f_bytes (st_files st name) = content
      \<and> is_none_or (\<lambda>f. safe_file f (st_owner st)) (st_files st name))"

lemma read_file_quiet: "quiet st \<Longrightarrow> holds_file st name c \<Longrightarrow> read_file st site name = Inr c"
  by (auto simp: read_file_def quiet_def holds_file_def split: option.splits)

lemma expect_current_quiet: "quiet st \<Longrightarrow> holds_file st OWNERSHIP_FILE c \<Longrightarrow> expect_current st site c = Inr ()"
  by (simp add: expect_current_def read_file_quiet)

lemma synchronize_quiet: "quiet st \<Longrightarrow> holds_file st OWNERSHIP_FILE (Some c) \<Longrightarrow> synchronize st c = Inr ()"
  using expect_current_quiet [of st "Some c" ReadAfterSync] read_file_quiet [of st OWNERSHIP_FILE "Some c" ReadForSync]
  by (simp add: synchronize_def quiet_def)

lemma admit_source_quiet:
  assumes "quiet st" "holds_file st OWNERSHIP_FILE expected" "admits L expected next"
  shows "admit_source L st expected next = Inr ()"
  using assms synchronize_quiet by (auto simp: admits_def admit_source_def split: option.splits)

lemma encode_record_size:
  "encode_record L r = Some b \<Longrightarrow> b \<noteq> [] \<and> length b \<le> MAX_RECORD_BYTES"
  by (auto simp: encode_record_def encode_def Let_def split: if_splits)

lemma staged_file_safe:
  "content \<noteq> [] \<Longrightarrow> length content \<le> MAX_RECORD_BYTES \<Longrightarrow> safe_file (staged_file st content) (st_owner st)"
  by (simp add: safe_file_def staged_file_def)

lemma stage_quiet:
  assumes q: "quiet st" and h: "holds_file st STAGED_FILE None \<or> holds_file st STAGED_FILE (Some content)"
    and c: "content \<noteq> []" "length content \<le> MAX_RECORD_BYTES"
  shows "\<exists>st'. stage st content = (st', Inr ()) \<and> quiet st' \<and> holds_file st' STAGED_FILE (Some content)
    \<and> (\<forall>x. holds_file st OWNERSHIP_FILE x \<longrightarrow> holds_file st' OWNERSHIP_FILE x)"
  using h
proof
  assume "holds_file st STAGED_FILE (Some content)"
  then show ?thesis using q read_file_quiet [OF q] by (auto simp: stage_def)
next
  assume h: "holds_file st STAGED_FILE None"
  have "stage st content = (put_stage st content, Inr ())"
    using q read_file_quiet [OF q h, of ReadStaged] by (simp add: stage_def quiet_def boundary_def)
  moreover have "quiet (put_stage st content)" using q by (simp add: quiet_def put_stage_def)
  moreover have "holds_file (put_stage st content) STAGED_FILE (Some content)"
    using staged_file_safe [OF c, of st] by (simp add: holds_file_def put_stage_def staged_file_def)
  moreover have "holds_file st OWNERSHIP_FILE x \<Longrightarrow> holds_file (put_stage st content) OWNERSHIP_FILE x" for x
    by (simp add: holds_file_def put_stage_def)
  ultimately show ?thesis by blast
qed

lemma recheck_quiet:
  "quiet st \<Longrightarrow> holds_file st OWNERSHIP_FILE expected \<Longrightarrow> holds_file st STAGED_FILE (Some content) \<Longrightarrow>
     recheck st expected content = Inr ()"
  using expect_current_quiet [of st expected ReadAgain] read_file_quiet [of st STAGED_FILE "Some content" ReadStagedAgain]
  by (simp add: recheck_def quiet_def boundary_def)

lemma promote_quiet:
  assumes q: "quiet st" and h: "holds_file st STAGED_FILE (Some content)"
    and cur: "holds_file st OWNERSHIP_FILE expected"
  shows "promote st expected content = (rename_stage st, Inr ())"
proof -
  have "quiet (rename_stage st)" "holds_file (rename_stage st) OWNERSHIP_FILE (Some content)"
    using q h by (simp_all add: quiet_def holds_file_def rename_stage_def)
  then have "expect_current (rename_stage st) ReadPublished (Some content) = Inr ()"
    by (rule expect_current_quiet)
  moreover have "\<not> (expected = None \<and> is_Some (st_files st OWNERSHIP_FILE))" using cur by (auto simp: holds_file_def)
  ultimately show ?thesis using q
    by (simp add: promote_def Let_def boundary_def quiet_def) (simp add: rename_stage_def)
qed

lemma publish_succeeds:
  assumes q: "quiet st" and cur: "holds_file st OWNERSHIP_FILE expected"
    and e: "encode_record L next = Some content"
    and stg: "holds_file st STAGED_FILE None \<or> holds_file st STAGED_FILE (Some content)"
    and ad: "admits L expected next"
  shows "\<exists>st'. publish L st expected next = (st', Inr ()) \<and> current_bytes st' = Some content \<and> staged_bytes st' = None"
proof -
  from stage_quiet [OF q stg] encode_record_size [OF e]
  obtain s1 where s1: "stage st content = (s1, Inr ())" "quiet s1" "holds_file s1 STAGED_FILE (Some content)"
    "holds_file s1 OWNERSHIP_FILE expected" using cur by blast
  have "publish L st expected next = (rename_stage s1, Inr ())"
    using e admit_source_quiet [OF q cur ad] expect_current_quiet [OF q cur, of ReadBefore] s1(1)
      recheck_quiet [OF s1(2,4,3)] promote_quiet [OF s1(2,3,4)]
    by (simp add: publish_def and_then_def)
  moreover have "staged_bytes s1 = Some content" using s1(3) by (simp add: holds_file_def staged_bytes_def)
  ultimately show ?thesis by auto
qed

section \<open>Safe directories\<close>

primrec names_of :: "component list \<Rightarrow> string list" where
  "names_of [] = []"
| "names_of (c # cs) = (case c of Normal n \<Rightarrow> n # names_of cs | _ \<Rightarrow> names_of cs)"

definition plain_component :: "component \<Rightarrow> bool" where
  "plain_component c = (case c of RootDir \<Rightarrow> True | Normal _ \<Rightarrow> True | _ \<Rightarrow> False)"

definition protected_at :: "(string list \<Rightarrow> dir_stat option) \<Rightarrow> u32 \<Rightarrow> string list \<Rightarrow> bool" where
  "protected_at opened owner dir =
     is_some_and (\<lambda>d. (d_uid d = 0 \<or> d_uid d = owner) \<and> d_mode d AND 0x12 = 0) (opened dir)"

lemma walk_components_safe:
  assumes "walk_components opened owner here path = Inr end_dir"
  shows "list_all plain_component path \<and> end_dir = here @ names_of path
    \<and> (\<forall>k < length (names_of path). protected_at opened owner (here @ take (Suc k) (names_of path)))"
  using assms
proof (induction path arbitrary: here)
  case (Cons c cs)
  show ?case
  proof (cases c)
    case (Normal n)
    with Cons.prems obtain d where d: "opened (here @ [n]) = Some d" "d_uid d = 0 \<or> d_uid d = owner" "d_mode d AND 0x12 = 0"
      and w: "walk_components opened owner (here @ [n]) cs = Inr end_dir"
      by (auto split: option.splits if_splits)
    have "protected_at opened owner (here @ take (Suc k) (names_of (c # cs)))" if "k < length (names_of (c # cs))" for k
      using that Cons.IH [OF w] d Normal by (cases k) (auto simp: protected_at_def)
    with Cons.IH [OF w] Normal show ?thesis by (simp add: plain_component_def)
  qed (use Cons in \<open>auto simp: plain_component_def\<close>)
qed simp

section \<open>Deleting a completed cleanup\<close>

lemma unlink_result:
  assumes "unlink st site name = (st', res)"
  shows "st' = st \<or> st' = remove_name st name" "res = Inl e \<Longrightarrow> se_publication e = Uncertain"
    "res = Inr () \<Longrightarrow> st' = remove_name st name"
  using assms by (auto simp: unlink_def split: if_splits)

lemma completed_cleanup_ok:
  "completed_cleanup L b = Inr () \<Longrightarrow> \<exists>r. decode_record L b = Some r \<and> encode_record L r = Some b
     \<and> unfinished_direction r = Cleanup \<and> cleanup_checkpoint r = 8"
  by (auto simp: completed_cleanup_def split: option.splits if_splits)

lemma remove_name_files [simp]:
  "current_bytes (remove_name st OWNERSHIP_FILE) = None"
  "staged_bytes (remove_name st STAGED_FILE) = None"
  "current_bytes (remove_name st STAGED_FILE) = current_bytes st"
  "staged_bytes (remove_name st OWNERSHIP_FILE) = staged_bytes st"
  by (simp_all add: remove_name_def current_bytes_def staged_bytes_def)

lemma remove_completed_cleanup_result:
  assumes p: "remove_completed_cleanup L st b = (st', res)"
  shows "st' = st \<and> res \<noteq> Inr ()
    \<or> (\<exists>r. decode_record L b = Some r \<and> unfinished_direction r = Cleanup \<and> cleanup_checkpoint r = 8)
       \<and> current_bytes st = Some b \<and> (staged_bytes st = None \<or> staged_bytes st = Some b)
       \<and> current_bytes st' = None \<and> (res = Inr () \<longrightarrow> staged_bytes st' = None)"
proof -
  let ?pre = "and_then (completed_cleanup L b) (\<lambda>_. and_then (synchronize st b) (\<lambda>_.
      and_then (read_file st ReadStaged STAGED_FILE) (\<lambda>stg.
        if is_some_and (\<lambda>c. c \<noteq> b) stg then Inl (store_error Conflict)
        else and_then (expect_current st ReadBefore (Some b)) (\<lambda>_. Inr stg))))"
  show ?thesis
  proof (cases ?pre)
    case (Inl e)
    then show ?thesis using p by (auto simp: remove_completed_cleanup_def)
  next
    case (Inr stg)
    then have c: "completed_cleanup L b = Inr ()" and s: "current_bytes st = Some b"
      and g: "staged_bytes st = stg" "stg = None \<or> stg = Some b"
      by (auto dest: synchronize_ok read_file_ok simp: staged_bytes_def is_some_and_def split: if_splits option.splits)
    obtain s1 r1 where u: "unlink st UnlinkCurrent OWNERSHIP_FILE = (s1, r1)" by (cases "unlink st UnlinkCurrent OWNERSHIP_FILE")
    note U = unlink_result [OF u]
    show ?thesis
    proof (cases r1)
      case (Inl e)
      then have "st' = s1" "res = Inl e" using p \<open>?pre = Inr stg\<close> u by (simp_all add: remove_completed_cleanup_def)
      then show ?thesis using U(1) completed_cleanup_ok [OF c] s g by auto
    next
      case r1: (Inr v)
      then have s1: "s1 = remove_name st OWNERSHIP_FILE" using U(3) by simp
      obtain s2 r2 where u2: "(if is_Some stg then unlink s1 UnlinkStaged STAGED_FILE else (s1, Inr ())) = (s2, r2)"
        by (cases "if is_Some stg then unlink s1 UnlinkStaged STAGED_FILE else (s1, Inr ())")
      have st': "st' = s2" "res = Inr () \<Longrightarrow> r2 = Inr ()"
        using p \<open>?pre = Inr stg\<close> u r1 u2 by (auto simp: remove_completed_cleanup_def split: sum.splits)
      have cb: "current_bytes s2 = None"
        using u2 s1 unlink_result(1) [of s1 UnlinkStaged STAGED_FILE s2 r2] by (auto split: if_splits)
      have sb: "r2 = Inr () \<Longrightarrow> staged_bytes s2 = None"
        using u2 s1 unlink_result(3) [of s1 UnlinkStaged STAGED_FILE s2 r2] g(1)
        by (auto simp: is_Some_def split: if_splits)
      show ?thesis using completed_cleanup_ok [OF c] s g st' cb sb by auto
    qed
  qed
qed

section \<open>Histories of the store\<close>

text \<open>
  A store whose content changes only by allowed requests, whatever happens in between.  The lemma
  carries an invariant of the content and a relation between contents over any sequence of requests.
\<close>

locale authority_store =
  fixes content :: "'s \<Rightarrow> 'b option"
    and put :: "'s \<Rightarrow> 'q \<Rightarrow> 's"
    and allowed :: "'q \<Rightarrow> 'b option \<Rightarrow> 'b option \<Rightarrow> bool"
  assumes put_effect: "content (put s q) = content s \<or> allowed q (content s) (content (put s q))"
begin

lemma history:
  assumes "\<And>q a b. q \<in> set qs \<Longrightarrow> allowed q a b \<Longrightarrow> P a \<Longrightarrow> R a b \<and> P b" and "P (content s)"
  shows "R\<^sup>*\<^sup>* (content s) (content (foldl put s qs)) \<and> P (content (foldl put s qs))"
  using assms
proof (induction qs arbitrary: s)
  case (Cons q qs)
  have step: "R\<^sup>*\<^sup>* (content s) (content (put s q)) \<and> P (content (put s q))"
    using put_effect [of s q] Cons.prems by auto
  moreover have "R\<^sup>*\<^sup>* (content (put s q)) (content (foldl put (put s q) qs)) \<and> P (content (foldl put (put s q) qs))"
    using Cons.IH [of "put s q"] Cons.prems(1) step by auto
  ultimately show ?case by (auto intro: rtranclp_trans)
qed simp

end

record fault_plan =
  fp_fault :: "fault_point option"
  fp_fails :: "io_site \<Rightarrow> bool"
  fp_written :: nat
  fp_took_effect :: bool
  fp_directory_ok :: bool

definition with_plan :: "store \<Rightarrow> fault_plan \<Rightarrow> store" where
  "with_plan st p = st\<lparr>st_fault := fp_fault p, st_fails := fp_fails p, st_written := fp_written p,
     st_took_effect := fp_took_effect p, st_directory_ok := fp_directory_ok p\<rparr>"

type_synonym publish_request = "fault_plan \<times> bytes option \<times> wire_ownership"

definition publish_under :: "lib \<Rightarrow> store \<Rightarrow> publish_request \<Rightarrow> store" where
  "publish_under L st q = (case q of (plan, expected, next) \<Rightarrow> fst (publish L (with_plan st plan) expected next))"

definition publish_allowed :: "lib \<Rightarrow> publish_request \<Rightarrow> bytes option \<Rightarrow> bytes option \<Rightarrow> bool" where
  "publish_allowed L q a b =
     (case q of (plan, expected, next) \<Rightarrow>
        a = expected \<and> admits L expected next \<and> b = encode_record L next \<and> b \<noteq> None)"

lemma with_plan_current [simp]: "current_bytes (with_plan st p) = current_bytes st"
  by (simp add: with_plan_def current_bytes_def)

interpretation ownership_store: authority_store current_bytes "publish_under L" "publish_allowed L" for L
proof
  fix s :: store and q :: publish_request
  obtain plan expected nxt where q: "q = (plan, expected, nxt)" by (cases q)
  obtain s' res where p: "publish L (with_plan s plan) expected nxt = (s', res)"
    by (cases "publish L (with_plan s plan) expected nxt")
  from publish_result [OF p] show "current_bytes (publish_under L s q) = current_bytes s
      \<or> publish_allowed L q (current_bytes s) (current_bytes (publish_under L s q))"
    using with_plan_current [of s plan]
    by (auto simp: q publish_under_def publish_allowed_def p current_bytes_def)
qed

definition durable_successor :: "lib \<Rightarrow> wire_ownership \<Rightarrow> wire_ownership \<Rightarrow> bool" where
  "durable_successor L r s =
     (permits_successor L r s \<or> client_permits_successor L r s \<or> permits_removal L (Some r) s)"

inductive durable_chain :: "lib \<Rightarrow> wire_ownership \<Rightarrow> wire_ownership \<Rightarrow> bool" for L where
  chain_refl: "durable_chain L r r"
| chain_step: "durable_chain L r s \<Longrightarrow> durable_successor L s t \<Longrightarrow> valid L t \<Longrightarrow> durable_chain L r t"

lemma durable_chain_valid: "durable_chain L r s \<Longrightarrow> valid L r \<Longrightarrow> valid L s"
  by (induction rule: durable_chain.induct) auto

lemma durable_chain_trans: "durable_chain L s t \<Longrightarrow> durable_chain L r s \<Longrightarrow> durable_chain L r t"
  by (induction rule: durable_chain.induct) (auto intro: chain_step)

definition stands_for :: "lib \<Rightarrow> bytes option \<Rightarrow> wire_ownership \<Rightarrow> bool" where
  "stands_for L a r = (a \<noteq> None \<and> encode_record L r = a \<and> valid L r)"

context json_text
begin

lemma stands_for_unique: "stands_for L a r \<Longrightarrow> stands_for L a s \<Longrightarrow> r = s"
  using encode_record_inj by (auto simp: stands_for_def)

lemma allowed_step:
  assumes a: "publish_allowed L (plan, expected, n) a b" and n: "valid L n" and r: "stands_for L a r"
  shows "durable_successor L r n \<and> stands_for L b n"
proof -
  from r obtain c where c: "a = Some c" "encode_record L r = Some c" "valid L r" by (auto simp: stands_for_def)
  then have "decode_record L c = Some r" using decode_encode_record by blast
  moreover have "expected = Some c" "b = encode_record L n" "b \<noteq> None" "admits L (Some c) n"
    using a c(1) by (auto simp: publish_allowed_def)
  ultimately show ?thesis using n by (simp add: admits_def durable_successor_def stands_for_def)
qed

lemma store_history:
  assumes r: "stands_for L (current_bytes st) r" and v: "\<forall>(p, e, n) \<in> set reqs. valid L n"
  shows "\<exists>s. stands_for L (current_bytes (foldl (publish_under L) st reqs)) s \<and> durable_chain L r s"
proof -
  let ?P = "\<lambda>a. \<exists>s. stands_for L a s \<and> durable_chain L r s"
  have "?P (current_bytes (foldl (publish_under L) st reqs))"
  proof (rule ownership_store.history [where P = ?P and R = "\<lambda>_ _. True", THEN conjunct2])
    show "?P (current_bytes st)" using r chain_refl by blast
  next
    fix q a b assume q: "q \<in> set reqs" "publish_allowed L q a b" and "?P a"
    then obtain s where s: "stands_for L a s" "durable_chain L r s" by blast
    obtain p e n where pe: "q = (p, e, n)" by (cases q)
    have "valid L n" using v q(1) pe by auto
    then show "True \<and> ?P b"
      using allowed_step [OF q(2) [unfolded pe] _ s(1)] s(2) by (auto intro: chain_step)
  qed
  then show ?thesis .
qed

text \<open>Removal is never taken back, and the release that has to finish it never changes.\<close>

lemma removal_successor:
  assumes v: "valid L r" and d: "unfinished_direction r = Removal" and s: "durable_successor L r s"
  shows "s = r \<or> s = r\<lparr>removal_checkpoint := removal_checkpoint r + 1\<rparr> \<and> removal_checkpoint r < removal_limit r"
proof -
  have "phase r = RemovalCommitted" using valid_removal_phase [OF v] d by simp
  then have nr: "rotation_of L r = None" "\<And>i m st rel. begin_record L r i m st rel = None"
    by (simp_all add: rotation_of_def begin_record_def)
  from s consider "permits_successor L r s" | "client_permits_successor L r s" | "permits_removal L (Some r) s"
    unfolding durable_successor_def by blast
  then show ?thesis
  proof cases
    case 1
    then show ?thesis using removal_only_itself [OF v d] by blast
  next
    case 2
    then show ?thesis
      using nr by (auto simp: client_permits_successor_def advance_record_def clear_record_def
          initial_successor_def bind_eq_Some_conv split: if_splits)
  next
    case 3
    then have "next_checkpoint L r = Some s" using d by (auto simp: permits_removal_def split: if_splits option.splits)
    then show ?thesis using next_checkpoint_eq [OF v] by (auto split: if_splits)
  qed
qed

lemma removal_chain:
  "durable_chain L r s \<Longrightarrow> valid L r \<Longrightarrow> unfinished_direction r = Removal \<Longrightarrow>
     s = r\<lparr>removal_checkpoint := removal_checkpoint s\<rparr> \<and> removal_checkpoint r \<le> removal_checkpoint s"
proof (induction rule: durable_chain.induct)
  case (chain_step r s t)
  then have IH: "s = r\<lparr>removal_checkpoint := removal_checkpoint s\<rparr>" "removal_checkpoint r \<le> removal_checkpoint s"
    by auto
  have d: "unfinished_direction s = Removal"
    using arg_cong [OF IH(1), of unfinished_direction] chain_step.prems(2) by simp
  have vs: "valid L s" using durable_chain_valid chain_step by blast
  from removal_successor [OF vs d chain_step.hyps(2)] show ?case
  proof
    assume t: "t = s"
    show ?case unfolding t using IH by blast
  next
    assume t: "t = s\<lparr>removal_checkpoint := removal_checkpoint s + 1\<rparr> \<and> removal_checkpoint s < removal_limit s"
    then have "removal_checkpoint s \<le> removal_checkpoint t"
      by (simp add: removal_limit_def word_less_nat_alt word_le_nat_alt unat_word_ariths split: if_splits)
    moreover have "s\<lparr>removal_checkpoint := x\<rparr> = r\<lparr>removal_checkpoint := x\<rparr>" for x
      using arg_cong [OF IH(1), of "\<lambda>z. z\<lparr>removal_checkpoint := x\<rparr>"] by simp
    then have "t = r\<lparr>removal_checkpoint := removal_checkpoint t\<rparr>" using t by simp
    ultimately show ?case using IH(2) order_trans by blast
  qed
qed simp

text \<open>Once activation is committed no later authority goes back to cleaning up.\<close>

lemma forward_successor:
  assumes v: "valid L r" and d: "unfinished_direction r \<noteq> Cleanup" and s: "durable_successor L r s"
    and vs: "valid L s"
  shows "unfinished_direction s \<noteq> Cleanup"
proof -
  from s consider "permits_successor L r s" | "client_permits_successor L r s" | "permits_removal L (Some r) s"
    unfolding durable_successor_def by blast
  then show ?thesis
  proof cases
    case 1
    have "next_phase p = Some q \<Longrightarrow> recovery_direction p \<noteq> Cleanup \<Longrightarrow> recovery_direction q \<noteq> Cleanup" for p q
      by (cases p) auto
    then show ?thesis
      using permits_successor_phase [OF 1 v] valid_direction_phase [OF v] valid_direction_phase [OF vs] d by auto
  next
    case 2
    then consider "r = s" | "initial_successor L r s = Some s" | "advance_record L r = Some s"
      | b where "clear_record L r b = Some s" unfolding client_permits_successor_def by blast
    then show ?thesis
    proof cases
      case 1 then show ?thesis using d by simp
    next
      case 2 then show ?thesis by (auto simp: initial_successor_def rotation_of_def bind_eq_Some_conv split: if_splits)
    next
      case 3 then show ?thesis using advance_record_step [OF 3] d by auto
    next
      case (4 b) then show ?thesis using clear_record_step [OF 4] d by auto
    qed
  next
    case 3
    then show ?thesis by (simp add: permits_removal_def split: if_splits)
  qed
qed

lemma forward_chain:
  "durable_chain L r s \<Longrightarrow> valid L r \<Longrightarrow> unfinished_direction r \<noteq> Cleanup \<Longrightarrow> unfinished_direction s \<noteq> Cleanup"
proof (induction rule: durable_chain.induct)
  case (chain_step r s t)
  then show ?case using forward_successor [of s t] durable_chain_valid [of L r s] by blast
qed

end

end
