(* ===== verification/Staging_Laws.thy ===== *)
theory Staging_Laws
  imports Durable
begin

text \<open>
  What a staged record may be beside the current one.  \<open>uncommitted\<close> says of a record, by its phase and by the
  directions written in its operations, that nothing in it is committed yet; the lemmas show that inspection tolerates a
  staged record beside it only if that record commits nothing either.
\<close>

section \<open>Commitment\<close>

definition uncommitted :: "wire_ownership \<Rightarrow> bool" where
  "uncommitted r =
     (phase r \<notin> {ActivationCommitted, ServiceEnabled, ServiceStarted, RemovalCommitted}
      \<and> \<not> subscription_transport_migration r \<and> certificate_activation r = None
      \<and> (\<forall>v. subscription_rotation r = Some v \<longrightarrow> ro_direction v = ''cleanup'')
      \<and> (\<forall>v. subscription_repair r = Some v \<longrightarrow> rp_direction v = ''cleanup'')
      \<and> (\<forall>v. client_identity_rotation r = Some v \<longrightarrow> cr_direction v = ''cleanup''))"

text \<open>The operations of one record are operations of another one too.\<close>

definition operations_within :: "wire_ownership \<Rightarrow> wire_ownership \<Rightarrow> bool" where
  "operations_within n r =
     ((subscription_enablement n \<noteq> None \<longrightarrow> subscription_enablement r \<noteq> None)
      \<and> (subscription_rotation n \<noteq> None \<longrightarrow> subscription_rotation r \<noteq> None)
      \<and> (subscription_repair n \<noteq> None \<longrightarrow> subscription_repair r \<noteq> None)
      \<and> (client_identity_rotation n \<noteq> None \<longrightarrow> client_identity_rotation r \<noteq> None)
      \<and> (certificate_activation n \<noteq> None \<longrightarrow> certificate_activation r \<noteq> None)
      \<and> (subscription_transport_migration n \<longrightarrow> subscription_transport_migration r))"

lemma valid_directions:
  assumes "valid L r"
  shows "subscription_rotation r = Some v \<Longrightarrow> ro_direction v = ''cleanup'' \<longleftrightarrow> direction_of (ro_direction v) = ChangeCleanup"
    and "subscription_repair r = Some w \<Longrightarrow> rp_direction w = ''cleanup'' \<longleftrightarrow> direction_of (rp_direction w) = ChangeCleanup"
    and "client_identity_rotation r = Some c \<Longrightarrow> cr_direction c = ''cleanup'' \<longleftrightarrow> direction_of (cr_direction c) = ChangeCleanup"
  using validD(9,10,16) [OF assms]
  by (auto simp: guard_rotation_def guard_repair_def guard_client_def direction_of_def valid_rotation_def valid_repair_def
      valid_client_rotation_def rotation_expected_def Let_def split: option.splits if_splits)

lemma valid_operation_phase:
  assumes "valid L r" "open_operations r \<noteq> 0"
  shows "phase r = Running \<or> phase r = RemovalCommitted"
  using assms(2) validD(4,7,8,9,10,16) [OF assms(1)]
  by (auto simp: open_operations_def guard_migration_def guard_activation_def guard_enablement_def guard_rotation_def
      guard_repair_def guard_client_def operation_context_def)

lemma uncommitted_recovery:
  assumes v: "valid L r"
  shows "uncommitted r \<longleftrightarrow> record_recovery r \<in> {RecCleanup, RecRunning, SubscriptionCleanup, ClientIdentityCleanup}"
proof (cases "phase r = RemovalCommitted")
  case True
  then have "unfinished_direction r = Removal" using valid_removal_phase [OF v] by simp
  then show ?thesis using True by (simp add: uncommitted_def record_recovery_def pending_change_def)
next
  case False
  then have d: "unfinished_direction r \<noteq> Removal" using valid_removal_phase [OF v] by simp
  show ?thesis
  proof (cases "pending_change r")
    case None
    then have "open_operations r = 0" using pending_iff_open [OF d] by simp
    then show ?thesis
      using None False valid_direction_phase [OF v]
      by (cases "phase r") (auto simp: uncommitted_def record_recovery_def open_operations_def split: if_splits)
  next
    case (Some p)
    then have "open_operations r = 1"
      using pending_iff_open [OF d] valid_one_operation [OF v] by auto
    moreover have "phase r = Running" using calculation valid_operation_phase [OF v] False by auto
    ultimately show ?thesis
      using Some d valid_directions [OF v]
      by (auto simp: uncommitted_def record_recovery_def open_operations_def pending_change_def
          split: option.splits change_direction.splits if_splits)
  qed
qed

text \<open>A record that asks for setup cleanup or for nothing has no operation.\<close>

lemma idle_recovery:
  assumes "record_recovery r \<in> {RecRunning, RecCleanup}"
  shows "pending_change r = None"
proof -
  have "pending_recovery p \<notin> {RecRunning, RecCleanup}" for p
    by (cases p) (auto split: change_direction.splits)
  then show ?thesis using assms by (auto simp: record_recovery_def split: option.splits)
qed

lemma operations_within_refl: "operations_within r r"
  by (simp add: operations_within_def)

lemma operations_within_none:
  assumes "pending_change n = None"
  shows "operations_within n r"
proof -
  have "unfinished_direction n \<noteq> Removal" using assms by (auto simp: pending_change_def split: if_splits)
  then have "open_operations n = 0" using assms pending_iff_open by blast
  then show ?thesis by (simp add: operations_within_def open_operations_def split: if_splits)
qed

lemma same_installation_within:
  assumes "same_installation r n"
  shows "operations_within n r \<longleftrightarrow> (subscription_enablement n \<noteq> None \<longrightarrow> subscription_enablement r \<noteq> None)
      \<and> (subscription_rotation n \<noteq> None \<longrightarrow> subscription_rotation r \<noteq> None)
      \<and> (subscription_repair n \<noteq> None \<longrightarrow> subscription_repair r \<noteq> None)"
  using assms by (auto simp: operations_within_def same_installation_def)

section \<open>Successors that commit nothing\<close>

text \<open>What stays as it is beside an uncommitted record.\<close>

definition grants_nothing :: "wire_ownership \<Rightarrow> wire_ownership \<Rightarrow> bool" where
  "grants_nothing r n =
     (uncommitted n \<and> serving n = serving r \<and> configuration_sha256 n = configuration_sha256 r
      \<and> unfinished_direction n = unfinished_direction r \<and> operations_within n r)"

text \<open>What the barrier leaves of the successors of an uncommitted record.\<close>

lemma unrefused:
  assumes "valid L r" "valid L n" "uncommitted r" "\<not> staged_refused L r n"
  shows "uncommitted n" "pending_change r = None \<Longrightarrow> pending_change n = None \<and> record_recovery n = record_recovery r"
    "record_recovery n = record_recovery r \<or> record_recovery n = RecRunning" "\<not> enablement_commit r n"
proof -
  have b: "\<not> crosses_barrier (record_recovery r) (record_recovery n)" "\<not> enablement_commit r n"
    using assms(4) by (auto simp: staged_refused_def)
  have r: "record_recovery r \<in> {RecCleanup, RecRunning, SubscriptionCleanup, ClientIdentityCleanup}"
    using assms(3) uncommitted_recovery [OF assms(1)] by simp
  then have n: "record_recovery n = record_recovery r
      \<or> record_recovery n = RecRunning \<and> record_recovery r \<in> {SubscriptionCleanup, ClientIdentityCleanup}"
    using b(1) by (auto simp: crosses_barrier_def)
  then show "uncommitted n" using r uncommitted_recovery [OF assms(2)] by auto
  show "pending_change n = None \<and> record_recovery n = record_recovery r" if "pending_change r = None"
  proof -
    have "record_recovery r \<notin> {SubscriptionCleanup, ClientIdentityCleanup}"
      using that by (cases "unfinished_direction r") (auto simp: record_recovery_def)
    then show ?thesis using n r idle_recovery [of n] by auto
  qed
  show "record_recovery n = record_recovery r \<or> record_recovery n = RecRunning" using n by blast
qed (use assms(4) in \<open>simp add: staged_refused_def\<close>)

lemma setup_grants_nothing:
  assumes "valid L r" "valid L n" "uncommitted r" "\<not> staged_refused L r n" "next_setup_checkpoint L r = Some n"
  shows "grants_nothing r n"
proof -
  note U = unrefused [OF assms(1-4)]
  from assms(5) obtain q where q: "next_phase (phase r) = Some q"
    and n: "n = r\<lparr>phase := q, unfinished_direction := recovery_direction q\<rparr>"
    by (rule next_setup_checkpoint_Some)
  have ph: "phase r \<noteq> Running" "phase r \<noteq> RemovalCommitted" using q by auto
  then have "open_operations r = 0" using valid_operation_phase [OF assms(1)] by blast
  moreover have d: "unfinished_direction r \<noteq> Removal" using ph valid_removal_phase [OF assms(1)] by simp
  ultimately have idle: "pending_change r = None" using pending_iff_open by blast
  have "record_recovery n = direction_recovery (unfinished_direction n)"
    "record_recovery r = direction_recovery (unfinished_direction r)"
    using U(2) [OF idle] idle by (simp_all add: record_recovery_def)
  moreover have "direction_recovery x = direction_recovery y \<Longrightarrow> x = y" for x y by (cases x; cases y) simp_all
  ultimately have "unfinished_direction n = unfinished_direction r" using U(2) [OF idle] by metis
  then show ?thesis
    using U(1) operations_within_none U(2) [OF idle] by (simp add: grants_nothing_def) (simp add: n)
qed

lemma http_grants_nothing:
  assumes "valid L r" "valid L n" "uncommitted r" "\<not> staged_refused L r n" "http_successor L r n"
  shows "grants_nothing r n"
proof -
  note U = unrefused [OF assms(1-4)]
  have h: "same_installation r n" "unfinished_direction n = unfinished_direction r" "current_running r"
    using http_successor_change [OF assms(5)] by (auto simp: http_change_def)
  have begun: "\<not> successor_begins_enablement L r n" "\<not> successor_begins_rotation L r n" "\<not> successor_begins_repair L r n"
    using U(2) by (auto simp: successor_begins_enablement_def successor_begins_rotation_def
        successor_begins_repair_def idle_http_def pending_change_def split: option.splits if_splits)
  have committed: "commit_http_enablement L r \<noteq> Some n"
  proof
    assume "commit_http_enablement L r = Some n"
    then obtain e m where e: "subscription_enablement r = Some e" "is_Some (en_serving e)" "with_resources L r m = Some n"
      "m = r\<lparr>serving := en_serving e, subscription_resources := en_resources e, subscription_enablement := None\<rparr>"
      by (auto simp: commit_http_enablement_def is_some_and_iff is_Some_def split: bind_splits if_splits)
    have o: "open_operations r \<le> 1" using valid_one_operation [OF assms(1)] .
    have d: "unfinished_direction r = Idle" "\<not> subscription_transport_migration r" using h(3) by (simp_all add: current_running_def)
    have "pending_change m = None" using o e(1,4) d by (auto simp: open_operations_def pending_change_def split: if_splits option.splits)
    then have "enablement_commit r n"
      using e d with_resources_keeps(6,9) [OF e(3)] by (simp add: enablement_commit_def pending_change_def)
    then show False using U(4) by simp
  qed
  have forward: "\<not> (subscription_rotation x = Some v \<and> ro_direction v = ''forward'')"
    "\<not> (subscription_repair x = Some w \<and> rp_direction w = ''forward'')" if "x = r \<or> x = n" for x v w
    using that U(1) assms(3) by (auto simp: uncommitted_def)
  have "\<exists>m. with_resources L r m = Some n \<and> serving m = serving r
      \<and> (subscription_enablement m \<noteq> None \<longrightarrow> subscription_enablement r \<noteq> None)
      \<and> (subscription_rotation m \<noteq> None \<longrightarrow> subscription_rotation r \<noteq> None)
      \<and> (subscription_repair m \<noteq> None \<longrightarrow> subscription_repair r \<noteq> None)"
  proof -
    have accepted: False
      if "subscription_repair r = Some v" "rp_checkpoint v \<noteq> ''prepared''" for v
      using that forward(2) [of r v] validD(10) [OF assms(1)]
      by (auto simp: guard_repair_def valid_repair_def Let_def split: if_splits option.splits)
    have rot: False if "advance_http_link_rotation L r = Some n" "subscription_rotation r = Some v"
      "ro_checkpoint v = ''stop authorized''" for v
      using that forward(1) [of n] with_resources_keeps(4) [of L r _ n]
      by (fastforce simp: advance_http_link_rotation_def split: if_splits)
    have rep: False if "advance_http_runtime_repair L r = Some n" "subscription_repair r = Some v"
      "rp_checkpoint v = ''prepared''" for v
      using that forward(2) [of n] with_resources_keeps(5) [of L r _ n]
      by (fastforce simp: advance_http_runtime_repair_def split: if_splits)
    from assms(5) begun committed
    consider "advance_http_enablement L r = Some n" | "cleanup_http_enablement L r = Some n"
      | "advance_http_link_rotation L r = Some n" | "cleanup_http_link_rotation L r = Some n"
      | "complete_http_link_rotation L r = Some n" | "advance_http_runtime_repair L r = Some n"
      | "cleanup_http_runtime_repair L r = Some n" | "complete_http_runtime_repair L r = Some n"
      | "mark_subscription_compromised L r = Some n"
      unfolding http_successor_def by blast
    then show ?thesis
    proof cases
      case 1
      then show ?thesis by (auto simp: advance_http_enablement_def split: bind_splits if_splits)
    next
      case 2
      then show ?thesis by (auto simp: cleanup_http_enablement_def split: if_splits)
    next
      case 3
      then show ?thesis using rot [OF 3] by (auto simp: advance_http_link_rotation_def split: bind_splits if_splits)
    next
      case 4
      then show ?thesis by (auto simp: cleanup_http_link_rotation_def split: if_splits)
    next
      case 5
      then show ?thesis by (auto simp: complete_http_link_rotation_def split: if_splits)
    next
      case 6
      then show ?thesis
        using rep [OF 6] accepted by (auto simp: advance_http_runtime_repair_def split: bind_splits if_splits)
    next
      case 7
      then show ?thesis by (auto simp: cleanup_http_runtime_repair_def split: if_splits)
    next
      case 8
      then show ?thesis by (auto simp: complete_http_runtime_repair_def split: if_splits)
    next
      case 9
      then show ?thesis by (auto simp: mark_subscription_compromised_def split: if_splits)
    qed
  qed
  then obtain m where m: "with_resources L r m = Some n" "serving m = serving r"
    "subscription_enablement m \<noteq> None \<longrightarrow> subscription_enablement r \<noteq> None"
    "subscription_rotation m \<noteq> None \<longrightarrow> subscription_rotation r \<noteq> None"
    "subscription_repair m \<noteq> None \<longrightarrow> subscription_repair r \<noteq> None" by blast
  note k = with_resources_keeps [OF m(1)]
  have "operations_within n r" unfolding same_installation_within [OF h(1)] k(3-5) using m by blast
  then show ?thesis
    using U(1) h m(2) k(6) by (simp add: grants_nothing_def same_installation_def)
qed

context json_text
begin

lemma client_grants_nothing:
  assumes "valid L r" "valid L n" "uncommitted r" "\<not> staged_refused L r n" "client_permits_successor L r n"
  shows "grants_nothing r n"
proof -
  note U = unrefused [OF assms(1-4)]
  have d: "unfinished_direction n \<noteq> Removal" "unfinished_direction r \<noteq> Removal"
    using U(1) assms(3) valid_removal_phase [OF assms(1)] valid_removal_phase [OF assms(2)]
    by (auto simp: uncommitted_def)
  have one: "operations_within n r" if "client_identity_rotation n \<noteq> None" "client_identity_rotation r \<noteq> None"
    using valid_one_operation [OF assms(2)] that by (auto simp: open_operations_def operations_within_def split: if_splits)
  have conf: "configuration_sha256 x = cr_source_configuration_sha256 c"
    if "client_identity_rotation x = Some c" "uncommitted x" "valid L x" for x c
    using that validD(16) [OF that(3)]
    by (auto simp: uncommitted_def guard_client_def valid_client_rotation_def split: option.splits if_splits)
  from assms(5) consider "r = n" | "initial_successor L r n = Some n" | "advance_record L r = Some n"
    | b where "clear_record L r b = Some n" unfolding client_permits_successor_def by blast
  then show ?thesis
  proof cases
    case 1
    then show ?thesis using U(1) operations_within_refl by (simp add: grants_nothing_def)
  next
    case 2
    then obtain x where "rotation_of L n = Some x" by (auto simp: initial_successor_def bind_eq_Some_conv)
    then have "client_identity_rotation n \<noteq> None" by (rule rotation_of_facts) simp
    then have "pending_change n \<noteq> None" by (auto simp: pending_change_def split: option.splits)
    then show ?thesis using U(2) initial_successor_idle(1) [OF 2] by simp
  next
    case 3
    then obtain c c' where c: "client_identity_rotation r = Some c" "client_identity_rotation n = Some c'"
      "cr_source_configuration_sha256 c' = cr_source_configuration_sha256 c" "serving n = serving r"
      "unfinished_direction n = unfinished_direction r"
      using advance_record_step [OF 3] by auto
    then show ?thesis
      using U(1) one conf [OF c(1) assms(3,1)] conf [OF c(2) U(1) assms(2)] by (simp add: grants_nothing_def)
  next
    case (4 b)
    then have c: "client_identity_rotation r \<noteq> None" "client_identity_rotation n = None"
      "configuration_sha256 n = configuration_sha256 r" "serving n = serving r"
      "unfinished_direction n = unfinished_direction r"
      using clear_record_step [OF 4] by auto
    have "record_recovery r = ClientIdentityCleanup"
      using c(1) d(2) assms(3) valid_one_operation [OF assms(1)] valid_directions(3) [OF assms(1)]
      by (auto simp: record_recovery_def pending_change_def open_operations_def uncommitted_def
          split: option.splits if_splits change_direction.splits)
    moreover have "record_recovery n \<noteq> ClientIdentityCleanup"
      using c(2) by (cases "unfinished_direction n")
        (auto simp: record_recovery_def pending_change_def split: option.splits change_direction.splits)
    ultimately have "record_recovery n = RecRunning" using U(3) by simp
    then have "pending_change n = None" using idle_recovery by simp
    then show ?thesis using U(1) c operations_within_none by (simp add: grants_nothing_def)
  qed
qed

lemma staging_uncommitted:
  assumes "valid L r" "valid L n" "uncommitted r" "\<not> staged_refused L r n"
  shows "grants_nothing r n"
proof -
  have "unfinished_direction r \<noteq> Removal"
    using assms(3) valid_removal_phase [OF assms(1)] by (auto simp: uncommitted_def)
  then consider "permits_successor L r n" | "client_permits_successor L r n"
    using assms(4) by (auto simp: staged_refused_def)
  then show ?thesis
  proof cases
    case 1
    then show ?thesis
    proof (cases rule: permits_successor_cases)
      case 1
      then show ?thesis using assms(3) operations_within_refl by (simp add: grants_nothing_def)
    next
      case 2
      then show ?thesis using setup_grants_nothing assms by blast
    next
      case 3
      then have "n = r\<lparr>cleanup_checkpoint := cleanup_checkpoint r + 1\<rparr>"
        by (simp add: next_cleanup_checkpoint_def split: if_splits)
      then show ?thesis using unrefused(1) [OF assms] by (simp add: grants_nothing_def operations_within_def)
    next
      case 4
      then show ?thesis using http_grants_nothing assms by blast
    qed
  next
    case 2
    then show ?thesis using client_grants_nothing assms by blast
  qed
qed

text \<open>Beside a committed record only what carries the commitment on.\<close>

lemma staging_committed:
  assumes "valid L r" "valid L n" "\<not> staged_refused L r n"
  shows "phase r = RemovalCommitted \<Longrightarrow> n = r \<or> n = r\<lparr>removal_checkpoint := removal_checkpoint r + 1\<rparr>"
    and "unfinished_direction r \<noteq> Cleanup \<Longrightarrow> unfinished_direction n \<noteq> Cleanup"
proof -
  have d: "durable_successor L r n" using assms(3) by (auto simp: staged_refused_def durable_successor_def)
  show "n = r \<or> n = r\<lparr>removal_checkpoint := removal_checkpoint r + 1\<rparr>" if "phase r = RemovalCommitted"
    using removal_successor [OF assms(1) _ d] that valid_removal_phase [OF assms(1)] by auto
  show "unfinished_direction n \<noteq> Cleanup" if "unfinished_direction r \<noteq> Cleanup"
    using forward_successor [OF assms(1) that d assms(2)] .
qed

end

text \<open>The current record staged again is no change, so it is tolerated.\<close>

lemma staging_itself: "\<not> staged_refused L r r"
  by (cases "record_recovery r")
    (auto simp: staged_refused_def crosses_barrier_def enablement_commit_def permits_successor_def)

lemma recovery_not_refused: "record_recovery r \<noteq> RecRefused" "record_recovery r \<noteq> RecAbsent"
proof -
  have "pending_recovery p \<noteq> RecRefused \<and> pending_recovery p \<noteq> RecAbsent" for p
    by (cases p) (auto split: change_direction.splits)
  moreover have "direction_recovery x \<noteq> RecRefused \<and> direction_recovery x \<noteq> RecAbsent" for x by (cases x) auto
  ultimately show "record_recovery r \<noteq> RecRefused" "record_recovery r \<noteq> RecAbsent"
    by (auto simp: record_recovery_def split: option.splits)
qed

end
