(* ===== verification/Store_Properties.thy ===== *)
theory Store_Properties
  imports Examples Staging_Laws
begin

text \<open>
  Properties of the durable store of \<open>durable.rs\<close>, of the recovery it reads off its two files, and of the
  Client Identity rotations whose records it admits.
\<close>

unbundle bit_operations_syntax

section \<open>A store before setup\<close>

definition fresh_store :: "(io_site \<Rightarrow> bool) \<Rightarrow> store" where
  "fresh_store fails = \<lparr>st_files = Map.empty, st_directory_ok = True, st_owner = 0, st_fault = None,
     st_fails = fails, st_written = 0, st_took_effect = True\<rparr>"

lemma example_standard_running:
  "example_standard = example_running\<lparr>phase := OwnershipRecorded, unfinished_direction := Cleanup\<rparr>"
  by (simp add: example_running_def example_standard_def standard_wire_def)

lemma example_phase_encodes:
  "encode_record example_lib (example_running\<lparr>phase := p, unfinished_direction := d\<rparr>) \<noteq> None" (is "encode_record _ ?r \<noteq> None")
proof (rule record_encodes(1))
  have "plain_record ?r" using example_fields(1) by (simp add: plain_record_def)
  moreover have "text_bound (ser_strs (permitted_resources ?r)) < 10002"
    using example_resources(1) by (simp add: example_permitted text_bound_strs)
  ultimately show "text_bound (ser_ownership ?r) < MAX_RECORD_BYTES"
    using text_bound_plain [of ?r] text_bound_release u32_small example_fields(3)
    by (simp add: example_fields(2,4-13) example_conf_def MAX_RECORD_BYTES_def)
qed

lemma example_standard_encodes: "encode_record example_lib example_standard \<noteq> None"
  using example_phase_encodes by (simp add: example_standard_running)

lemma example_standard_admitted: "admits example_lib None example_standard"
  by (simp add: admits_def example_standard_running example_fields)

lemma fresh_rename_fails:
  assumes "publish example_lib (fresh_store (\<lambda>site. site = RenameStage)) None example_standard = (st', res)"
  shows "\<exists>e. res = Inl e \<and> se_publication e = Uncertain"
proof -
  obtain content where c: "encode_record example_lib example_standard = Some content"
    using example_standard_encodes by auto
  note size = encode_record_size [OF c]
  have s: "phase example_standard = OwnershipRecorded" "cleanup_checkpoint example_standard = 0"
    by (simp_all add: example_standard_def standard_wire_def)
  show ?thesis
    using assms c size s
    by (auto simp: publish_def admit_source_def and_then_def expect_current_def read_file_def fresh_store_def
        stage_def boundary_def put_stage_def recheck_def promote_def staged_file_def safe_file_def)
qed

definition store_holding :: "wire_ownership \<Rightarrow> store" where
  "store_holding r = (fresh_store (\<lambda>_. False))
     \<lparr>st_files := Map.empty(OWNERSHIP_FILE := map_option (staged_file (fresh_store (\<lambda>_. False))) (encode_record example_lib r))\<rparr>"

definition faultless :: fault_plan where
  "faultless = \<lparr>fp_fault = None, fp_fails = \<lambda>_. False, fp_written = 0, fp_took_effect = True, fp_directory_ok = True\<rparr>"

section \<open>Publication\<close>

text \<open>
  C10. A publication is atomic under every combination of failing calls, partial writes and injected
  faults: either the current authority is untouched and the result is an error, or it has become exactly
  the encoding of the next record, which the record it replaced admits, the staged file is gone, and
  whatever error is reported says that the outcome is uncertain.  So an error that says \<open>Unchanged\<close> is true.
\<close>

theorem publication_atomic:
  assumes "publish L st expected next = (st', res)"
  shows "(st_files st' OWNERSHIP_FILE = st_files st OWNERSHIP_FILE \<and> res \<noteq> Inr ())
    \<or> (admits L expected next \<and> current_bytes st = expected \<and> encode_record L next \<noteq> None
       \<and> current_bytes st' = encode_record L next \<and> staged_bytes st' = None
       \<and> (\<forall>e. res = Inl e \<longrightarrow> se_publication e = Uncertain))"
  by (rule publish_result [OF assms])

theorem publication_atomic_witness:
  "\<exists>st' e. publish example_lib (fresh_store (\<lambda>site. site = RenameStage)) None example_standard = (st', Inl e)
     \<and> se_publication e = Uncertain
     \<and> (current_bytes st' = None \<or> current_bytes st' = encode_record example_lib example_standard)"
proof -
  obtain st' res where p: "publish example_lib (fresh_store (\<lambda>site. site = RenameStage)) None example_standard = (st', res)"
    by fastforce
  have "\<exists>e. res = Inl e \<and> se_publication e = Uncertain" using p fresh_rename_fails by auto
  moreover have "current_bytes (fresh_store f) = None" for f by (simp add: fresh_store_def current_bytes_def)
  ultimately show ?thesis using publication_atomic [OF p] p by (auto simp: current_bytes_def fresh_store_def)
qed

text \<open>
  C11. Without faults, an admitted publication onto the expected authority succeeds, whether the staged
  file is absent or left over from an interrupted attempt at the same publication.
\<close>

theorem publication_succeeds:
  assumes "quiet st" and "holds_file st OWNERSHIP_FILE expected" and "encode_record L next = Some content"
    and "holds_file st STAGED_FILE None \<or> holds_file st STAGED_FILE (Some content)"
    and "admits L expected next"
  shows "\<exists>st'. publish L st expected next = (st', Inr ()) \<and> current_bytes st' = Some content \<and> staged_bytes st' = None"
  by (rule publish_succeeds [OF assms])

theorem publication_succeeds_witness:
  "\<exists>st' content. publish example_lib (fresh_store (\<lambda>_. False)) None example_standard = (st', Inr ())
     \<and> encode_record example_lib example_standard = Some content \<and> current_bytes st' = Some content"
proof -
  obtain content where c: "encode_record example_lib example_standard = Some content"
    using example_standard_encodes by auto
  have "quiet (fresh_store (\<lambda>_. False))" "holds_file (fresh_store (\<lambda>_. False)) OWNERSHIP_FILE None"
    "holds_file (fresh_store (\<lambda>_. False)) STAGED_FILE None"
    by (simp_all add: fresh_store_def quiet_def holds_file_def)
  from publication_succeeds [OF this(1,2) c _ example_standard_admitted] this(3) c show ?thesis by blast
qed

text \<open>
  C12. Over any sequence of publications, each with its own faults, a store that holds a valid record
  keeps holding one, and it is reached by permitted steps only.  Once past cleanup the record never asks
  for cleanup again, and once a removal is committed only its checkpoint ever changes, upwards.
\<close>

theorem store_histories_authorized:
  assumes "json_text L" and "stands_for L (current_bytes st) r" and "\<forall>(p, e, n) \<in> set requests. valid L n"
  shows "\<exists>s. stands_for L (current_bytes (foldl (publish_under L) st requests)) s \<and> durable_chain L r s
    \<and> (unfinished_direction r \<noteq> Cleanup \<longrightarrow> unfinished_direction s \<noteq> Cleanup)
    \<and> (unfinished_direction r = Removal \<longrightarrow>
         s = r\<lparr>removal_checkpoint := removal_checkpoint s\<rparr> \<and> removal_checkpoint r \<le> removal_checkpoint s)"
proof -
  obtain s where s: "stands_for L (current_bytes (foldl (publish_under L) st requests)) s" "durable_chain L r s"
    using json_text.store_history [OF assms] by blast
  have v: "valid L r" using assms(2) by (simp add: stands_for_def)
  show ?thesis
    using s json_text.forward_chain [OF assms(1) s(2) v] json_text.removal_chain [OF assms(1) s(2) v] by blast
qed

theorem store_histories_authorized_witness:
  "\<exists>s. stands_for example_lib (current_bytes (foldl (publish_under example_lib)
        (store_holding example_running) [(faultless, encode_record example_lib example_running, example_running),
          (faultless\<lparr>fp_fails := \<lambda>site. site = RenameStage\<rparr>, encode_record example_lib example_running, example_running)])) s
     \<and> unfinished_direction s \<noteq> Cleanup"
proof -
  have "stands_for example_lib (current_bytes (store_holding example_running)) example_running"
    using example_running_encodes(1) example_running_valid
    by (auto simp: stands_for_def store_holding_def current_bytes_def staged_file_def)
  note H = store_histories_authorized [OF text_layer.json_text_axioms this]
  show ?thesis
    using H [of "[(faultless, encode_record example_lib example_running, example_running),
        (faultless\<lparr>fp_fails := \<lambda>site. site = RenameStage\<rparr>, encode_record example_lib example_running, example_running)]"]
      example_running_valid example_fields(15) by auto
qed

text \<open>
  The record of an abandoned setup is deleted only when its bytes are the current authority, decode to
  a cleanup at its last checkpoint, and no other file is staged; otherwise nothing at all changes.
\<close>

theorem cleanup_deletion_guarded:
  assumes "remove_completed_cleanup L st b = (st', res)"
  shows "st' = st \<and> res \<noteq> Inr ()
    \<or> (\<exists>r. decode_record L b = Some r \<and> unfinished_direction r = Cleanup \<and> cleanup_checkpoint r = 8)
       \<and> current_bytes st = Some b \<and> (staged_bytes st = None \<or> staged_bytes st = Some b)
       \<and> current_bytes st' = None \<and> (res = Inr () \<longrightarrow> staged_bytes st' = None)"
  by (rule remove_completed_cleanup_result [OF assms])

theorem cleanup_deletion_guarded_witness:
  "\<exists>st' e content. encode_record example_lib example_running = Some content
     \<and> remove_completed_cleanup example_lib (store_holding example_running) content = (st', Inl e)
     \<and> st' = store_holding example_running"
proof -
  obtain content where c: "encode_record example_lib example_running = Some content"
    using example_running_encodes(1) by auto
  obtain st' res where p: "remove_completed_cleanup example_lib (store_holding example_running) content = (st', res)"
    by fastforce
  have "decode_record example_lib content = Some example_running"
    by (rule json_text.decode_encode_record [OF text_layer.json_text_axioms example_running_valid c])
  with cleanup_deletion_guarded [OF p] have "st' = store_holding example_running" "res \<noteq> Inr ()"
    by (auto simp: example_fields)
  with p c show ?thesis by (cases res) auto
qed

text \<open>
  C14. Inspection never lets a staged record grant anything.  Whatever is staged, recovery is the one of the current
  record or a refusal; it asks for a cleanup, or for nothing, exactly when the current record is uncommitted by its phase
  and by the directions of its operations; and without a current record it is absence or a refusal.  Beside an
  uncommitted record a staged one is tolerated only if it commits nothing: it is uncommitted too, it serves and selects
  the same, it stands on the same side of the activation barrier, and it begins no operation.  Beside a committed removal
  only its own next checkpoint is tolerated, and past cleanup nothing that cleans up.  The current record staged again is
  always tolerated.
\<close>

theorem staging_grants_nothing:
  assumes "json_text L" "valid L (so_record c)" "valid L (so_record s)"
  shows "snapshot_recovery L \<lparr>sn_current = None, sn_staged = None\<rparr> = RecAbsent
    \<and> snapshot_recovery L \<lparr>sn_current = None, sn_staged = Some s\<rparr> = RecRefused
    \<and> snapshot_recovery L \<lparr>sn_current = Some c, sn_staged = Some s\<rparr>
        \<in> {RecRefused, snapshot_recovery L \<lparr>sn_current = Some c, sn_staged = None\<rparr>}
    \<and> snapshot_recovery L \<lparr>sn_current = Some c, sn_staged = None\<rparr> \<notin> {RecRefused, RecAbsent}
    \<and> (snapshot_recovery L \<lparr>sn_current = Some c, sn_staged = None\<rparr>
         \<in> {RecCleanup, RecRunning, SubscriptionCleanup, ClientIdentityCleanup} \<longleftrightarrow> uncommitted (so_record c))
    \<and> (snapshot_recovery L \<lparr>sn_current = Some c, sn_staged = Some s\<rparr> \<noteq> RecRefused \<longrightarrow>
         (uncommitted (so_record c) \<longrightarrow> uncommitted (so_record s)
            \<and> serving (so_record s) = serving (so_record c)
            \<and> configuration_sha256 (so_record s) = configuration_sha256 (so_record c)
            \<and> unfinished_direction (so_record s) = unfinished_direction (so_record c)
            \<and> operations_within (so_record s) (so_record c))
         \<and> (phase (so_record c) = RemovalCommitted \<longrightarrow> so_record s = so_record c
              \<or> so_record s = (so_record c)\<lparr>removal_checkpoint := removal_checkpoint (so_record c) + 1\<rparr>)
         \<and> (unfinished_direction (so_record c) \<noteq> Cleanup \<longrightarrow> unfinished_direction (so_record s) \<noteq> Cleanup))
    \<and> (so_record s = so_record c \<longrightarrow> snapshot_recovery L \<lparr>sn_current = Some c, sn_staged = Some s\<rparr> \<noteq> RecRefused)"
proof -
  have alone: "snapshot_recovery L \<lparr>sn_current = Some c, sn_staged = None\<rparr> = record_recovery (so_record c)"
    and both: "snapshot_recovery L \<lparr>sn_current = Some c, sn_staged = Some s\<rparr>
      = (if staged_refused L (so_record c) (so_record s) then RecRefused else record_recovery (so_record c))"
    by (simp_all add: snapshot_recovery_def)
  have kept: "\<not> staged_refused L (so_record c) (so_record s)"
    if "snapshot_recovery L \<lparr>sn_current = Some c, sn_staged = Some s\<rparr> \<noteq> RecRefused"
    using that both by (auto split: if_splits)
  note committed = json_text.staging_committed [OF assms kept]
  have before: "grants_nothing (so_record c) (so_record s)"
    if "snapshot_recovery L \<lparr>sn_current = Some c, sn_staged = Some s\<rparr> \<noteq> RecRefused" "uncommitted (so_record c)"
    using json_text.staging_uncommitted [OF assms that(2) kept [OF that(1)]] .
  show ?thesis
  proof (intro conjI impI)
    show "snapshot_recovery L \<lparr>sn_current = Some c, sn_staged = None\<rparr>
         \<in> {RecCleanup, RecRunning, SubscriptionCleanup, ClientIdentityCleanup} \<longleftrightarrow> uncommitted (so_record c)"
      using uncommitted_recovery [OF assms(2)] by (simp add: alone)
  qed (use before committed both alone recovery_not_refused staging_itself in
      \<open>auto simp: grants_nothing_def snapshot_recovery_def split: if_splits\<close>)
qed

text \<open>An idle installation, with the beginning of a rotation of its client identity staged beside it.\<close>

theorem staging_grants_nothing_witness:
  "snapshot_recovery example_lib
     \<lparr>sn_current = Some \<lparr>so_record = example_running, so_bytes = []\<rparr>,
      sn_staged = Some \<lparr>so_record = example_client 0, so_bytes = []\<rparr>\<rparr> = RecRefused
   \<and> snapshot_recovery example_lib
     \<lparr>sn_current = Some \<lparr>so_record = example_running, so_bytes = []\<rparr>,
      sn_staged = Some \<lparr>so_record = example_running, so_bytes = []\<rparr>\<rparr>
     = snapshot_recovery example_lib \<lparr>sn_current = Some \<lparr>so_record = example_running, so_bytes = []\<rparr>, sn_staged = None\<rparr>"
proof -
  let ?c = "\<lparr>so_record = example_running, so_bytes = []\<rparr>"
  let ?s = "\<lparr>so_record = example_client 0, so_bytes = []\<rparr>"
  have v: "valid example_lib (so_record ?c)" "valid example_lib (so_record ?s)"
    using example_running_valid example_client_valid_at [of 0] by simp_all
  have u: "uncommitted (so_record ?c)"
    using example_fields by (simp add: uncommitted_def plain_record_def)
  have "\<not> operations_within (so_record ?s) (so_record ?c)"
    using example_fields by (simp add: operations_within_def example_client_fields plain_record_def)
  then show ?thesis
    using staging_grants_nothing [OF text_layer.json_text_axioms v] u
      staging_grants_nothing [OF text_layer.json_text_axioms v(1) v(1)] by auto
qed

text \<open>
  C15. A directory that \<open>open_directory\<close> opens is safe all the way down: the path is absolute and made of
  plain names, every directory on it belongs to root or to the owner and is writable by no one else, and
  the last one belongs to the owner with mode 0700.
\<close>

theorem opened_directory_safe:
  assumes "open_directory opened owner path = Inr here"
  shows "list_all plain_component path \<and> here = names_of path
    \<and> (\<forall>k < length here. protected_at opened owner (take (Suc k) here))
    \<and> is_some_and (\<lambda>d. d_uid d = owner \<and> d_mode d AND 0xFFF = 0x1C0) (opened here)"
proof -
  from assms have w: "walk_components opened owner [] path = Inr here"
    and l: "is_some_and (\<lambda>d. d_uid d = owner \<and> d_mode d AND 0xFFF = 0x1C0) (opened here)"
    by (auto simp: open_directory_def split: if_splits option.splits sum.splits)
  from walk_components_safe [OF w] l show ?thesis by simp
qed

theorem opened_directory_safe_witness:
  "open_directory (\<lambda>d. Some (if d = [''var'', ''sbxr''] then \<lparr>d_uid = 0, d_mode = 0x1C0\<rparr> else \<lparr>d_uid = 0, d_mode = 0x1ED\<rparr>)) 0
     [RootDir, Normal ''var'', Normal ''sbxr''] = Inr [''var'', ''sbxr'']
   \<and> protected_at (\<lambda>d. Some (if d = [''var'', ''sbxr''] then \<lparr>d_uid = 0, d_mode = 0x1C0\<rparr> else \<lparr>d_uid = 0, d_mode = 0x1ED\<rparr>)) 0 [''var'']"
proof -
  let ?o = "\<lambda>d. Some (if d = [''var'', ''sbxr''] then \<lparr>d_uid = 0, d_mode = 0x1C0\<rparr> else \<lparr>d_uid = 0, d_mode = 0x1ED\<rparr>)"
  have o: "open_directory ?o 0 [RootDir, Normal ''var'', Normal ''sbxr''] = Inr [''var'', ''sbxr'']"
    by (simp add: open_directory_def)
  from opened_directory_safe [OF o] have "protected_at ?o 0 (take (Suc 0) [''var'', ''sbxr''])"
    by (elim conjE allE [of _ 0]) simp
  with o show ?thesis by simp
qed

section \<open>Client Identity rotation\<close>

text \<open>
  C16. Once the source identity is revoked, a Client Identity rotation only goes forward: every permitted
  successor is at the same or a later checkpoint of the same target, or, when the target has started, a
  finished record that selects exactly this target.
\<close>

theorem revocation_is_final:
  assumes "json_text L" and "valid L r" and "client_identity_rotation r = Some c" and "client_index c = Some i"
    and "8 \<le> i" and "client_permits_successor L r s"
  shows "(\<exists>c' j. client_identity_rotation s = Some c' \<and> client_index c' = Some j \<and> i \<le> j
      \<and> cr_target_configuration_sha256 c' = cr_target_configuration_sha256 c)
    \<or> i = 10 \<and> client_identity_rotation s = None
      \<and> configuration_sha256 s = cr_target_configuration_sha256 c"
  by (rule json_text.revoked_forward_only [OF assms])

theorem revocation_is_final_witness:
  "\<exists>c' j. client_identity_rotation (example_client 8) = Some c' \<and> client_index c' = Some j \<and> 8 \<le> j"
proof -
  have "client_permits_successor example_lib (example_client 8) (example_client 8)"
    by (simp add: client_permits_successor_def)
  from revocation_is_final [OF text_layer.json_text_axioms example_client_valid example_client_fields(2)
      example_client_index _ this]
  show ?thesis by auto
qed

text \<open>
  The record operations of a rotation move exactly one checkpoint: \<open>advance_record\<close> to the next one,
  with source, target, release and serving state kept; \<open>clear_record\<close> ends it only while the source is not
  revoked or after the target has started, and keeps the selected configuration.
\<close>

theorem rotation_record_steps:
  assumes "json_text L"
  shows "(advance_record L r = Some s \<longrightarrow>
      (\<exists>c i c'. client_identity_rotation r = Some c \<and> client_index c = Some i \<and> i < 10 \<and> valid L s
        \<and> client_identity_rotation s = Some c' \<and> client_index c' = Some (Suc i)
        \<and> cr_source_configuration_sha256 c' = cr_source_configuration_sha256 c
        \<and> cr_target_configuration_sha256 c' = cr_target_configuration_sha256 c
        \<and> serving s = serving r \<and> release_identity s = release_identity r))
    \<and> (clear_record L r keep = Some s \<longrightarrow>
      (\<exists>c i. client_identity_rotation r = Some c \<and> client_index c = Some i \<and> (i < 8 \<or> i = 10 \<and> keep) \<and> valid L s
        \<and> client_identity_rotation s = None \<and> configuration_sha256 s = configuration_sha256 r
        \<and> serving s = serving r \<and> release_identity s = release_identity r))"
  using json_text.advance_record_step [OF assms, of r s] json_text.clear_record_step [OF assms, of r keep s] by blast

theorem rotation_record_steps_witness:
  "clear_record example_lib (example_client 8) True = None"
proof (cases "clear_record example_lib (example_client 8) True")
  case (Some s)
  with rotation_record_steps [OF text_layer.json_text_axioms, of "example_client 8" s True] show ?thesis
    by (auto simp: example_client_fields example_client_index)
qed

end
