(* ===== verification/Removal.thy ===== *)
theory Removal
  imports Durable
begin

text \<open>
  \<open>removal.rs\<close>: the orchestration of a complete removal.  A review reads the authority and the host
  without changing them and prepares an action; its execution revalidates all of it under the change
  lock, commits the removal, and then only goes forward: one effect, one checkpoint, until the record
  itself is finalized.  The effects are injected by a \<open>RemovalHost\<close>, which is a record of functions on
  an arbitrary host state here.  The lemmas show what a result means: which state was inspected before
  an effect was applied, before the authority was replaced and before it was finalized.
\<close>

section \<open>Errors, authority and facts\<close>

datatype host_error =
    HostUnsafe | HostForeign | HostIo | HostInjected | LiveUnavailable | UnsupportedHost
  | HostCancelled | HostTimeout | OutputLimit | HostBusy

datatype removal_error = Authority | PreparedAction | Safety | ExactRelease | Host host_error

datatype removal_action = Complete | Finish

datatype authority_location = Current | Finalizer

record authority_snapshot =
  as_current :: "bytes option"
  as_staged :: "bytes option"
  as_finalizer :: "bytes option"

definition no_authority :: authority_snapshot where
  "no_authority = \<lparr>as_current = None, as_staged = None, as_finalizer = None\<rparr>"

record selected_authority =
  sa_record :: wire_ownership
  sa_bytes :: bytes
  sa_location :: authority_location

definition staged_matches :: "lib \<Rightarrow> wire_ownership \<Rightarrow> bytes \<Rightarrow> bytes \<Rightarrow> bool" where
  "staged_matches L record content stg =
     (decode_record L stg \<noteq> None
      \<and> (stg = content \<or> Option.bind (next_checkpoint L record) (encode_record L) = Some stg))"

definition select_at :: "lib \<Rightarrow> authority_snapshot \<Rightarrow> bytes \<Rightarrow> authority_location \<Rightarrow>
    removal_error + selected_authority option" where
  "select_at L s content location =
     (case decode_record L content of
        None \<Rightarrow> Inl Authority
      | Some record \<Rightarrow>
          if location = Finalizer
             \<and> (checkpoint L record = None \<or> checkpoint L record \<noteq> checkpoint_limit L record)
          then Inl Authority
          else if is_some_and (\<lambda>stg. \<not> staged_matches L record content stg) (as_staged s)
          then Inl Authority
          else Inr (Some \<lparr>sa_record = record, sa_bytes = content, sa_location = location\<rparr>))"

definition selected :: "lib \<Rightarrow> authority_snapshot \<Rightarrow> removal_error + selected_authority option" where
  "selected L s =
     (case (as_current s, as_finalizer s) of
        (Some content, None) \<Rightarrow> select_at L s content Current
      | (None, Some content) \<Rightarrow>
          if as_staged s = None then select_at L s content Finalizer else Inl Authority
      | (None, None) \<Rightarrow> if as_staged s = None then Inr None else Inl Authority
      | _ \<Rightarrow> Inl Authority)"

definition of_option :: "removal_error \<Rightarrow> 'a option \<Rightarrow> removal_error + 'a" where
  "of_option e x = (case x of None \<Rightarrow> Inl e | Some v \<Rightarrow> Inr v)"

definition restoration_release :: "lib \<Rightarrow> authority_snapshot \<Rightarrow> removal_error + release_identity" where
  "restoration_release L s =
     and_then (selected L s) (\<lambda>sel.
     and_then (of_option Authority sel) (\<lambda>a.
     of_option Authority (finishing_release L (sa_record a))))"

record removal_facts =
  rf_fingerprint :: bytes
  rf_accepted :: bool

record lifecycle_facts =
  lf_release :: release_identity
  lf_valid :: bool
  lf_executable_present :: bool
  lf_installed_record_present :: bool
  lf_state_directory_empty :: bool

datatype effect_state = Absent | ExactOwned

datatype removal_effect =
    DedicatedTunnel | ClientIdentitySubscription | ClientIdentityTarget | PreparedSubscription
  | SubscriptionRotation | SubscriptionRepair | ServingRuntime | RenewalIntegration
  | SubscriptionResources | RetiredHttps | ProxyStartup | StopDisableProxy | PackageArtifact
  | PackageHold | Package | ConfigurationState | PackageIdentity | AptSource | AptKey
  | Executable | InstalledRecord

definition PROXY_EFFECTS :: "removal_effect list" where
  "PROXY_EFFECTS = [StopDisableProxy, PackageArtifact, PackageHold, Package, ConfigurationState,
     PackageIdentity, AptSource, AptKey]"

fun failed_check :: "removal_effect \<Rightarrow> string" where
  "failed_check DedicatedTunnel = ''Dedicated tunnel connector removal''"
| "failed_check ClientIdentitySubscription = ''Client Identity subscription removal''"
| "failed_check ClientIdentityTarget = ''Interrupted Client Identity rotation removal''"
| "failed_check PreparedSubscription = ''Interrupted subscription enablement removal''"
| "failed_check SubscriptionRotation = ''Interrupted Subscription Link rotation removal''"
| "failed_check SubscriptionRepair = ''Interrupted subscription repair removal''"
| "failed_check ServingRuntime = ''Subscription Serving removal''"
| "failed_check RenewalIntegration = ''Renewal recorder removal''"
| "failed_check SubscriptionResources = ''Subscription owned-resource removal''"
| "failed_check RetiredHttps = ''Retired HTTPS owned-resource removal''"
| "failed_check ProxyStartup = ''Proxy startup integration removal''"
| "failed_check StopDisableProxy = ''Stop and disable service''"
| "failed_check PackageArtifact = ''Remove package artifact''"
| "failed_check PackageHold = ''Remove package hold''"
| "failed_check Package = ''Remove package''"
| "failed_check ConfigurationState = ''Remove configuration and state''"
| "failed_check PackageIdentity = ''Remove package identity''"
| "failed_check AptSource = ''Remove APT source''"
| "failed_check AptKey = ''Remove APT key''"
| "failed_check Executable = ''SBXR executable removal''"
| "failed_check InstalledRecord = ''Installed Record removal''"

text \<open>The operations of \<open>host.rs\<close> that a removal reuses.\<close>

datatype host_operation =
    InstallAptKey | InstallAptSource | MaskService | InstallPackage | HoldPackage | CreateStateDirectory
  | InstallConfiguration | ValidateConfiguration | UnmaskService | EnableService | StartService
  | StopDisableService | RemovePackageArtifact | RemovePackage | RemovePackageHold
  | RemoveConfigurationState | RemovePackageIdentity | RemoveAptSource | RemoveAptKey

fun effect_operation :: "removal_effect \<Rightarrow> host_operation option" where
  "effect_operation StopDisableProxy = Some StopDisableService"
| "effect_operation PackageArtifact = Some RemovePackageArtifact"
| "effect_operation Package = Some RemovePackage"
| "effect_operation PackageHold = Some RemovePackageHold"
| "effect_operation ConfigurationState = Some RemoveConfigurationState"
| "effect_operation PackageIdentity = Some RemovePackageIdentity"
| "effect_operation AptSource = Some RemoveAptSource"
| "effect_operation AptKey = Some RemoveAptKey"
| "effect_operation _ = None"

datatype finalization_error = Interrupted | SynchronizationUnknown

section \<open>The host contract\<close>

text \<open>
  \<open>RemovalHost\<close>: the effects are injected, so the host is a record of operations on its state.  A
  method with \<open>&self\<close> reads the state, one with \<open>&mut self\<close> returns the new one.
\<close>

record 'h removal_host =
  effects_available :: "'h \<Rightarrow> bool"
  executing_release :: "'h \<Rightarrow> host_error + release_identity"
  read_authority :: "'h \<Rightarrow> host_error + authority_snapshot"
  inspect_removal :: "'h \<Rightarrow> wire_ownership option \<Rightarrow> release_identity \<Rightarrow> host_error + removal_facts"
  inspect_lifecycle :: "'h \<Rightarrow> release_identity \<Rightarrow> host_error + lifecycle_facts"
  begin_change :: "'h \<Rightarrow> wire_ownership option \<Rightarrow> 'h \<times> (host_error + unit)"
  release_package_locks :: "'h \<Rightarrow> 'h"
  end_change :: "'h \<Rightarrow> 'h"
  host_publish :: "'h \<Rightarrow> bytes option \<Rightarrow> wire_ownership \<Rightarrow> 'h \<times> (host_error + unit)"
  host_synchronize :: "'h \<Rightarrow> authority_location \<Rightarrow> bytes \<Rightarrow> 'h \<times> (host_error + unit)"
  inspect_effect :: "'h \<Rightarrow> removal_effect \<Rightarrow> wire_ownership \<Rightarrow> host_error + effect_state"
  apply_effect :: "'h \<Rightarrow> removal_effect \<Rightarrow> wire_ownership \<Rightarrow> 'h \<times> (host_error + unit)"
  proxy_absent :: "'h \<Rightarrow> wire_ownership \<Rightarrow> host_error + bool"
  finalize :: "'h \<Rightarrow> authority_location \<Rightarrow> bytes \<Rightarrow> 'h \<times> (finalization_error + unit)"
  cancelled :: "'h \<Rightarrow> bool"

datatype removal_outcome =
    Completed | Declined | Refused removal_error | NeedsCompletion string
  | FinalSynchronizationUnknown | Panicked

fun outcome_code :: "removal_outcome \<Rightarrow> string option" where
  "outcome_code Completed = Some ''SOFTWARE-LIFECYCLE-COMPLETE-REMOVAL-COMPLETED''"
| "outcome_code Declined = Some ''PROXY-INSTALLATION-ACTION-CANCELLED''"
| "outcome_code (Refused _) = Some ''PROXY-INSTALLATION-ACTION-REFUSED''"
| "outcome_code (NeedsCompletion _) = Some ''PROXY-INSTALLATION-REMOVAL-COMPLETION-REQUIRED''"
| "outcome_code FinalSynchronizationUnknown = Some ''PROXY-INSTALLATION-REMOVAL-COMPLETION-REQUIRED''"
| "outcome_code Panicked = None"

section \<open>One effect and one checkpoint\<close>

text \<open>The authority that the host holds now, when it can be read and is consistent.\<close>

definition current_authority :: "lib \<Rightarrow> 'h removal_host \<Rightarrow> 'h \<Rightarrow> selected_authority option" where
  "current_authority L H h =
     (case read_authority H h of
        Inl _ \<Rightarrow> None
      | Inr s \<Rightarrow> (case selected L s of Inl _ \<Rightarrow> None | Inr a \<Rightarrow> a))"

definition publish_verified ::
  "lib \<Rightarrow> 'h removal_host \<Rightarrow> 'h \<Rightarrow> bytes option \<Rightarrow> wire_ownership \<Rightarrow> 'h \<times> bool" where
  "publish_verified L H h expected target =
     (let (h, _) = host_publish H h expected target in
      case encode_record L target of
        None \<Rightarrow> (h, False)
      | Some content \<Rightarrow>
          (case current_authority L H h of
             None \<Rightarrow> (h, False)
           | Some a \<Rightarrow>
               if sa_location a = Current \<and> sa_bytes a = content
               then (let (h, r) = host_synchronize H h Current content in (h, \<not> isl r))
               else (h, False)))"

definition perform :: "lib \<Rightarrow> 'h removal_host \<Rightarrow> 'h \<Rightarrow> removal_effect \<Rightarrow> wire_ownership \<Rightarrow> 'h \<times> bool" where
  "perform L H h effect record =
     (if \<not> is_some_and (\<lambda>a. sa_record a = record) (current_authority L H h) then (h, False)
      else case inspect_effect H h effect record of
             Inl _ \<Rightarrow> (h, False)
           | Inr Absent \<Rightarrow> (h, True)
           | Inr ExactOwned \<Rightarrow>
               (let (h, r) = apply_effect H h effect record in
                (h, \<not> isl r \<and> inspect_effect H h effect record = Inr Absent)))"

text \<open>\<open>advance\<close>: the new authority, or nothing when it could not be published and verified.\<close>

definition advance :: "lib \<Rightarrow> 'h removal_host \<Rightarrow> 'h \<Rightarrow> selected_authority \<Rightarrow> 'h \<times> selected_authority option" where
  "advance L H h sel =
     (case next_checkpoint L (sa_record sel) of
        None \<Rightarrow> (h, None)
      | Some next \<Rightarrow>
          (let (h, ok) = publish_verified L H h (Some (sa_bytes sel)) next in
           (h, if ok then map_option (\<lambda>content. sel\<lparr>sa_bytes := content, sa_record := next\<rparr>)
                            (encode_record L next)
               else None)))"

section \<open>Finishing a committed removal\<close>

definition client_effects :: "json \<Rightarrow> removal_effect list" where
  "client_effects value =
     (case jget ''client_identity_rotation'' value of
        None \<Rightarrow> []
      | Some c \<Rightarrow> (if is_Some (jget ''subscription'' c)
                   then [ClientIdentitySubscription, SubscriptionRepair] else []) @ [ClientIdentityTarget])"

definition repair_targeted :: "json \<Rightarrow> bool" where
  "repair_targeted value =
     is_some_and (\<lambda>r. is_Some (jget ''target'' r)) (jget ''subscription_repair'' value)"

definition serving_removed :: "json \<Rightarrow> bool" where
  "serving_removed value =
     (is_some_and (\<lambda>c. is_Some (jget ''subscription'' c)) (jget ''client_identity_rotation'' value)
      \<or> repair_targeted value)"

definition auxiliary_effects :: "json \<Rightarrow> removal_effect list" where
  "auxiliary_effects value =
     (if is_Some (jget ''tunnel'' value) then [DedicatedTunnel] else [])
     @ client_effects value
     @ (if is_Some (jget ''subscription_enablement'' value) then [PreparedSubscription] else [])
     @ (if is_Some (jget ''subscription_rotation'' value) then [SubscriptionRotation] else [])
     @ (if repair_targeted value then [SubscriptionRepair] else [])
     @ (if is_Some (jget ''serving'' value) \<and> \<not> serving_removed value then [ServingRuntime] else [])
     @ (if is_Some (jget ''renewal'' value) then [RenewalIntegration] else [])
     @ (if is_Some (jget ''subscription_resources'' value) then [SubscriptionResources] else [])
     @ (if is_Some (jget ''https_retirement'' value) then [RetiredHttps] else [])"

fun run_auxiliary ::
  "lib \<Rightarrow> 'h removal_host \<Rightarrow> 'h \<Rightarrow> wire_ownership \<Rightarrow> removal_effect list \<Rightarrow> 'h \<times> removal_outcome option" where
  "run_auxiliary L H h record [] = (h, None)"
| "run_auxiliary L H h record (effect # effects) =
     (case perform L H h effect record of
        (h, False) \<Rightarrow> (h, Some (NeedsCompletion (failed_check effect)))
      | (h, True) \<Rightarrow>
          if cancelled H h then (h, Some (NeedsCompletion ''Managed termination''))
          else run_auxiliary L H h record effects)"

text \<open>\<open>checkpoint(record).unwrap_or(0)\<close>.\<close>

definition reached :: "lib \<Rightarrow> wire_ownership \<Rightarrow> u32" where
  "reached L record = (case checkpoint L record of None \<Rightarrow> 0 | Some c \<Rightarrow> c)"

fun run_proxy ::
  "lib \<Rightarrow> 'h removal_host \<Rightarrow> 'h \<Rightarrow> selected_authority \<Rightarrow> bool \<Rightarrow> u32 \<Rightarrow> removal_effect list \<Rightarrow>
     'h \<times> (removal_outcome + selected_authority)" where
  "run_proxy L H h sel startup index [] = (h, Inr sel)"
| "run_proxy L H h sel startup index (effect # effects) =
     (if reached L (sa_record sel) > index then run_proxy L H h sel startup (index + 1) effects
      else case perform L H h effect (sa_record sel) of
        (h, False) \<Rightarrow> (h, Inl (NeedsCompletion (failed_check effect)))
      | (h, True) \<Rightarrow>
          (case advance L H h sel of
             (h, None) \<Rightarrow> (h, Inl (NeedsCompletion ''Removal checkpoint''))
           | (h, Some sel) \<Rightarrow>
               (case (if index = 0 \<and> startup then perform L H h ProxyStartup (sa_record sel) else (h, True)) of
                  (h, False) \<Rightarrow> (h, Inl (NeedsCompletion ''Proxy startup integration removal''))
                | (h, True) \<Rightarrow>
                    if cancelled H h then (h, Inl (NeedsCompletion ''Managed termination''))
                    else run_proxy L H h sel startup (index + 1) effects)))"

definition confirm_absence ::
  "lib \<Rightarrow> 'h removal_host \<Rightarrow> 'h \<Rightarrow> selected_authority \<Rightarrow> u32 \<Rightarrow> 'h \<times> (removal_outcome + selected_authority)" where
  "confirm_absence L H h sel proxy_count =
     (if reached L (sa_record sel) \<le> proxy_count then
        (if proxy_absent H h (sa_record sel) \<noteq> Inr True
         then (h, Inl (NeedsCompletion ''Final proxy absence inspection''))
         else case advance L H h sel of
                (h, None) \<Rightarrow> (h, Inl (NeedsCompletion ''Proxy absence checkpoint''))
              | (h, Some sel) \<Rightarrow> (h, Inr sel))
      else (h, Inr sel))"

fun run_product ::
  "lib \<Rightarrow> 'h removal_host \<Rightarrow> 'h \<Rightarrow> selected_authority \<Rightarrow> (removal_effect \<times> bool \<times> u32) list \<Rightarrow>
     'h \<times> (removal_outcome + selected_authority)" where
  "run_product L H h sel [] = (h, Inr sel)"
| "run_product L H h sel ((effect, there, limit) # steps) =
     (case (if there \<or> reached L (sa_record sel) \<le> limit then perform L H h effect (sa_record sel) else (h, True)) of
        (h, False) \<Rightarrow> (h, Inl (NeedsCompletion (failed_check effect)))
      | (h, True) \<Rightarrow>
          (case (if reached L (sa_record sel) \<le> limit then advance L H h sel else (h, Some sel)) of
             (h, None) \<Rightarrow> (h, Inl (NeedsCompletion ''Installed product removal checkpoint''))
           | (h, Some sel) \<Rightarrow>
               if cancelled H h then (h, Inl (NeedsCompletion ''Managed termination''))
               else run_product L H h sel steps))"

definition finalize_removal ::
  "lib \<Rightarrow> 'h removal_host \<Rightarrow> 'h \<Rightarrow> selected_authority \<Rightarrow> release_identity \<Rightarrow> 'h \<times> removal_outcome" where
  "finalize_removal L H h sel release =
     (if proxy_absent H h (sa_record sel) \<noteq> Inr True
      then (h, NeedsCompletion ''Final proxy absence inspection'')
      else case inspect_lifecycle H h release of
        Inl _ \<Rightarrow> (h, NeedsCompletion ''Final installed-product absence inspection'')
      | Inr facts \<Rightarrow>
          if lf_valid facts \<and> lf_release facts = release \<and> lf_state_directory_empty facts
             \<and> \<not> lf_executable_present facts \<and> \<not> lf_installed_record_present facts
          then (case finalize H h (sa_location sel) (sa_bytes sel) of
                  (h, Inr _) \<Rightarrow>
                    (h, if read_authority H h = Inr no_authority then Completed
                        else NeedsCompletion ''Ownership Record finalization'')
                | (h, Inl Interrupted) \<Rightarrow> (h, NeedsCompletion ''Ownership Record finalization'')
                | (h, Inl SynchronizationUnknown) \<Rightarrow> (h, FinalSynchronizationUnknown))
          else (h, NeedsCompletion ''Final installed-product absence inspection''))"

definition finish_product ::
  "lib \<Rightarrow> 'h removal_host \<Rightarrow> 'h \<Rightarrow> selected_authority \<Rightarrow> u32 \<Rightarrow> 'h \<times> removal_outcome" where
  "finish_product L H h sel proxy_count =
     (case finishing_release L (sa_record sel) of
        None \<Rightarrow> (h, Panicked)
      | Some release \<Rightarrow>
          (case inspect_lifecycle H h release of
             Inl _ \<Rightarrow> (h, NeedsCompletion ''SBXR state directory inspection'')
           | Inr facts \<Rightarrow>
               if \<not> (lf_valid facts \<and> lf_release facts = release \<and> lf_state_directory_empty facts)
               then (h, NeedsCompletion ''SBXR state directory inspection'')
               else case run_product L H h sel
                        [(Executable, lf_executable_present facts, proxy_count + 1),
                         (InstalledRecord, lf_installed_record_present facts, proxy_count + 2)] of
                      (h, Inl out) \<Rightarrow> (h, out)
                    | (h, Inr sel) \<Rightarrow> finalize_removal L H h sel release))"

definition finish_proxy ::
  "lib \<Rightarrow> 'h removal_host \<Rightarrow> 'h \<Rightarrow> selected_authority \<Rightarrow> json \<Rightarrow> 'h \<times> removal_outcome" where
  "finish_proxy L H h sel value =
     (case checkpoint_limit L (sa_record sel) of
        None \<Rightarrow> (h, Panicked)
      | Some limit \<Rightarrow>
          let proxy_count = limit - 3; startup = is_Some (jget ''proxy_startup'' value) in
          (case (if startup \<and> reached L (sa_record sel) > 0
                 then perform L H h ProxyStartup (sa_record sel) else (h, True)) of
             (h, False) \<Rightarrow> (h, NeedsCompletion ''Proxy startup integration removal'')
           | (h, True) \<Rightarrow>
               (case run_proxy L H h sel startup 0 (take (unat proxy_count) PROXY_EFFECTS) of
                  (h, Inl out) \<Rightarrow> (h, out)
                | (h, Inr sel) \<Rightarrow>
                    (case confirm_absence L H h sel proxy_count of
                       (h, Inl out) \<Rightarrow> (h, out)
                     | (h, Inr sel) \<Rightarrow> finish_product L H h sel proxy_count))))"

definition finish :: "lib \<Rightarrow> 'h removal_host \<Rightarrow> 'h \<Rightarrow> selected_authority \<Rightarrow> 'h \<times> removal_outcome" where
  "finish L H h sel =
     (case host_synchronize H h (sa_location sel) (sa_bytes sel) of
        (h, Inl _) \<Rightarrow> (h, NeedsCompletion ''Removal authority synchronization'')
      | (h, Inr _) \<Rightarrow>
          (case wire L (sa_record sel) of
             None \<Rightarrow> (h, NeedsCompletion ''Removal authority'')
           | Some value \<Rightarrow>
               (case run_auxiliary L H h (sa_record sel) (auxiliary_effects value) of
                  (h, Some out) \<Rightarrow> (h, out)
                | (h, None) \<Rightarrow> finish_proxy L H h sel value)))"

section \<open>Review and execution\<close>

text \<open>
  The owner token is an \<open>Arc\<close> compared by address; retained tokens keep it alive, so it never recurs
  for one \<open>Removal\<close>: a counter.
\<close>

record 'h removal =
  rm_host :: 'h
  rm_owner :: nat

record prepared_removal =
  pr_owner :: nat
  pr_action :: removal_action
  pr_snapshot :: authority_snapshot
  pr_facts :: removal_facts
  pr_release :: release_identity

datatype confirmation = Approved | ConfirmationDeclined

definition invalidate :: "'h removal \<Rightarrow> 'h removal" where
  "invalidate m = m\<lparr>rm_owner := rm_owner m + 1\<rparr>"

fun from_host :: "host_error + 'a \<Rightarrow> removal_error + 'a" where
  "from_host (Inl e) = Inl (Host e)"
| "from_host (Inr x) = Inr x"

definition unless :: "bool \<Rightarrow> removal_error \<Rightarrow> removal_error + unit" where
  "unless ok e = (if ok then Inr () else Inl e)"

definition review_release ::
  "lib \<Rightarrow> removal_action \<Rightarrow> selected_authority option \<Rightarrow> release_identity \<Rightarrow> removal_error + release_identity" where
  "review_release L action sel executing =
     (case (action, sel) of
        (Complete, Some s) \<Rightarrow>
          if unfinished_direction (sa_record s) = Removal then Inl Authority else Inr executing
      | (Complete, None) \<Rightarrow> Inr executing
      | (Finish, Some s) \<Rightarrow> of_option Authority (finishing_release L (sa_record s))
      | (Finish, None) \<Rightarrow> Inl Authority)"

definition both_present :: "lifecycle_facts \<Rightarrow> bool" where
  "both_present facts = (lf_executable_present facts \<and> lf_installed_record_present facts)"

definition review_host ::
  "lib \<Rightarrow> 'h removal_host \<Rightarrow> 'h \<Rightarrow> nat \<Rightarrow> removal_action \<Rightarrow> removal_error + prepared_removal" where
  "review_host L H h owner action =
     and_then (unless (effects_available H h) (Host LiveUnavailable)) (\<lambda>_.
     and_then (from_host (read_authority H h)) (\<lambda>snap.
     and_then (selected L snap) (\<lambda>sel.
     and_then (from_host (executing_release H h)) (\<lambda>executing.
     and_then (review_release L action sel executing) (\<lambda>release.
     and_then (unless (release = executing) ExactRelease) (\<lambda>_.
     and_then (from_host (inspect_lifecycle H h release)) (\<lambda>lifecycle.
     and_then (unless (lf_valid lifecycle \<and> lf_release lifecycle = release
                       \<and> (action = Complete \<longrightarrow> both_present lifecycle)) ExactRelease) (\<lambda>_.
     and_then (from_host (inspect_removal H h (map_option sa_record sel) release)) (\<lambda>facts.
     and_then (unless (rf_accepted facts) Safety) (\<lambda>_.
     and_then (unless (action = Complete \<longrightarrow> commit_removal L (map_option sa_record sel) release \<noteq> None)
                 Authority) (\<lambda>_.
     Inr \<lparr>pr_owner = owner, pr_action = action, pr_snapshot = snap, pr_facts = facts,
          pr_release = release\<rparr>)))))))))))"

definition review ::
  "lib \<Rightarrow> 'h removal_host \<Rightarrow> 'h removal \<Rightarrow> removal_action \<Rightarrow> 'h removal \<times> (removal_error + prepared_removal)" where
  "review L H m action =
     (let m = invalidate m in (m, review_host L H (rm_host m) (rm_owner m) action))"

definition revalidate ::
  "lib \<Rightarrow> 'h removal_host \<Rightarrow> 'h \<Rightarrow> prepared_removal \<Rightarrow> selected_authority option \<Rightarrow> removal_error + unit" where
  "revalidate L H h p sel =
     and_then (unless (\<not> cancelled H h) (Host HostCancelled)) (\<lambda>_.
     and_then (from_host (read_authority H h)) (\<lambda>snap.
     and_then (unless (snap = pr_snapshot p) PreparedAction) (\<lambda>_.
     and_then (from_host (executing_release H h)) (\<lambda>executing.
     and_then (unless (executing = pr_release p) ExactRelease) (\<lambda>_.
     and_then (from_host (inspect_lifecycle H h (pr_release p))) (\<lambda>lifecycle.
     and_then (unless (lf_valid lifecycle \<and> lf_release lifecycle = pr_release p) ExactRelease) (\<lambda>_.
     if pr_action p = Complete then
       and_then (unless (both_present lifecycle) ExactRelease) (\<lambda>_.
       and_then (from_host (inspect_removal H h (map_option sa_record sel) (pr_release p))) (\<lambda>facts.
       unless (rf_accepted facts \<and> facts = pr_facts p) Safety))
     else if is_some_and (\<lambda>s. checkpoint L (sa_record s) = Some 0) sel then
       and_then (from_host (inspect_removal H h (map_option sa_record sel) (pr_release p))) (\<lambda>facts.
       unless (rf_accepted facts) Safety)
     else Inr ())))))))"

definition commit_authority ::
  "lib \<Rightarrow> 'h removal_host \<Rightarrow> 'h \<Rightarrow> prepared_removal \<Rightarrow> selected_authority option \<Rightarrow>
     'h \<times> (removal_outcome + selected_authority)" where
  "commit_authority L H h p sel =
     (if pr_action p = Complete then
        (case commit_removal L (map_option sa_record sel) (pr_release p) of
           None \<Rightarrow> (h, Inl (Refused Authority))
         | Some record \<Rightarrow>
             (case publish_verified L H h (map_option sa_bytes sel) record of
                (h, False) \<Rightarrow>
                  (h, Inl (if is_some_and (\<lambda>a. sa_record a = record) (current_authority L H h)
                           then NeedsCompletion ''Removal commitment synchronization''
                           else Refused Authority))
              | (h, True) \<Rightarrow>
                  (h, case encode_record L record of
                        None \<Rightarrow> Inl Panicked
                      | Some content \<Rightarrow>
                          Inr \<lparr>sa_record = record, sa_bytes = content, sa_location = Current\<rparr>)))
      else (h, case sel of None \<Rightarrow> Inl Panicked | Some s \<Rightarrow> Inr s))"

definition execute_locked ::
  "lib \<Rightarrow> 'h removal_host \<Rightarrow> 'h \<Rightarrow> prepared_removal \<Rightarrow> selected_authority option \<Rightarrow> 'h \<times> removal_outcome" where
  "execute_locked L H h p sel =
     (case revalidate L H h p sel of
        Inl e \<Rightarrow> (h, Refused e)
      | Inr _ \<Rightarrow>
          (case commit_authority L H h p sel of
             (h, Inl out) \<Rightarrow> (h, out)
           | (h, Inr authority) \<Rightarrow> finish L H (release_package_locks H h) authority))"

definition execute_host ::
  "lib \<Rightarrow> 'h removal_host \<Rightarrow> 'h \<Rightarrow> prepared_removal \<Rightarrow> 'h \<times> removal_outcome" where
  "execute_host L H h p =
     (if \<not> effects_available H h then (h, Refused (Host LiveUnavailable))
      else case selected L (pr_snapshot p) of
        Inl e \<Rightarrow> (h, Refused e)
      | Inr sel \<Rightarrow>
          if cancelled H h then (h, Refused (Host HostCancelled))
          else case begin_change H h (map_option sa_record sel) of
            (h, Inl e) \<Rightarrow> (h, Refused (Host e))
          | (h, Inr _) \<Rightarrow>
              (let (h, out) = execute_locked L H h p sel in (end_change H h, out)))"

definition execute ::
  "lib \<Rightarrow> 'h removal_host \<Rightarrow> 'h removal \<Rightarrow> prepared_removal \<Rightarrow> confirmation \<Rightarrow> 'h removal \<times> removal_outcome" where
  "execute L H m p answer =
     (if rm_owner m \<noteq> pr_owner p then (m, Refused PreparedAction)
      else let m = invalidate m in
        if answer = ConfirmationDeclined then (m, Declined)
        else let (h, out) = execute_host L H (rm_host m) p in (m\<lparr>rm_host := h\<rparr>, out))"

section \<open>Restoring the finishing release\<close>

record restoration_plan =
  er_release :: release_identity
  er_executable :: bool
  er_installed_record :: bool

definition exact_restoration ::
  "lib \<Rightarrow> authority_snapshot \<Rightarrow> lifecycle_facts \<Rightarrow> removal_error + restoration_plan option" where
  "exact_restoration L snap facts =
     and_then (restoration_release L snap) (\<lambda>release.
     and_then (unless (lf_valid facts \<and> lf_release facts = release) ExactRelease) (\<lambda>_.
     Inr (if both_present facts then None
          else Some \<lparr>er_release = release, er_executable = \<not> lf_executable_present facts,
                     er_installed_record = \<not> lf_installed_record_present facts\<rparr>)))"

end
