(* ===== verification/Removal_Laws.thy ===== *)
theory Removal_Laws
  imports Removal
begin

text \<open>
  What the orchestration of \<open>removal.rs\<close> guarantees.  The loops of \<open>finish\<close> move a removal record
  checkpoint by checkpoint to its limit; a guarded host, which refuses every effect, publication and
  finalization that was not inspected first, cannot be told from the host itself; each outcome of an
  execution is accounted for by what was read and done before it.
\<close>

section \<open>Removal authorities\<close>

text \<open>An authority that a removal holds: a valid committed record and the bytes that decode to it.\<close>

definition removal_at :: "lib \<Rightarrow> selected_authority \<Rightarrow> bool" where
  "removal_at L sel =
     (valid L (sa_record sel) \<and> unfinished_direction (sa_record sel) = Removal
      \<and> encode_record L (sa_record sel) \<noteq> None \<and> decode_record L (sa_bytes sel) = Some (sa_record sel))"

lemma removal_limit_frame [simp]: "removal_limit (r\<lparr>removal_checkpoint := c\<rparr>) = removal_limit r"
  by (simp add: removal_limit_def)

text \<open>The same removal at another checkpoint.\<close>

definition later :: "selected_authority \<Rightarrow> selected_authority \<Rightarrow> bool" where
  "later a b =
     (sa_record b = (sa_record a)\<lparr>removal_checkpoint := removal_checkpoint (sa_record b)\<rparr>
      \<and> sa_location b = sa_location a)"

lemma later_refl [simp]: "later a a"
  by (simp add: later_def)

lemma later_trans [trans]: "later a b \<Longrightarrow> later b c \<Longrightarrow> later a c"
  by (simp add: later_def) (metis wire_ownership.update_convs(12) wire_ownership.surjective)

lemma later_limit: "later a b \<Longrightarrow> removal_limit (sa_record b) = removal_limit (sa_record a)"
  unfolding later_def by (metis removal_limit_frame)

lemma selected_bytes:
  assumes "selected L s = Inr (Some a)"
  shows "decode_record L (sa_bytes a) = Some (sa_record a)"
  using assms by (auto simp: selected_def select_at_def split: option.splits if_splits)

lemma selected_none: "selected L s = Inr None \<longleftrightarrow> s = no_authority"
  by (cases s) (auto simp: selected_def select_at_def no_authority_def split: option.splits if_splits)

lemma selected_location:
  assumes "selected L s = Inr (Some a)"
  shows "sa_location a = Current \<and> as_current s = Some (sa_bytes a) \<and> as_finalizer s = None
    \<or> sa_location a = Finalizer \<and> s = no_authority\<lparr>as_finalizer := Some (sa_bytes a)\<rparr>
      \<and> checkpoint L (sa_record a) \<noteq> None \<and> checkpoint L (sa_record a) = checkpoint_limit L (sa_record a)"
  using assms
  by (cases s; cases "checkpoint L (sa_record a)")
    (auto simp: selected_def select_at_def no_authority_def split: option.splits if_splits)

lemma current_authority_bytes:
  "current_authority L H h = Some a \<Longrightarrow> decode_record L (sa_bytes a) = Some (sa_record a)"
  using selected_bytes by (auto simp: current_authority_def split: sum.splits)

context json_text
begin

lemma removal_at_facts:
  assumes "removal_at L sel"
  shows "reached L (sa_record sel) = removal_checkpoint (sa_record sel)"
    "checkpoint L (sa_record sel) = Some (removal_checkpoint (sa_record sel))"
    "checkpoint_limit L (sa_record sel) = Some (removal_limit (sa_record sel))"
    "removal_checkpoint (sa_record sel) \<le> removal_limit (sa_record sel)"
    "finishing_release L (sa_record sel) \<noteq> None"
proof -
  from assms have v: "valid L (sa_record sel)" and d: "unfinished_direction (sa_record sel) = Removal"
    and e: "encode_record L (sa_record sel) \<noteq> None" by (auto simp: removal_at_def)
  from d e show "checkpoint L (sa_record sel) = Some (removal_checkpoint (sa_record sel))"
    "checkpoint_limit L (sa_record sel) = Some (removal_limit (sa_record sel))"
    "reached L (sa_record sel) = removal_checkpoint (sa_record sel)"
    by (simp_all add: checkpoint_eq checkpoint_limit_eq reached_def)
  show "removal_checkpoint (sa_record sel) \<le> removal_limit (sa_record sel)"
    using validD(17) [OF v] d by (simp add: guard_direction_def not_less)
  have "schema (sa_record sel) = 2 \<Longrightarrow> finishing_release_identity (sa_record sel) \<noteq> None"
    using validD(2) [OF v] d by (auto simp: guard_schema_def guard_schema2_def is_some_and_def split: option.splits)
  with valid_schema [OF v] show "finishing_release L (sa_record sel) \<noteq> None"
    by (auto simp: finishing_release_eq [OF v d e])
qed

lemma publish_verified_true:
  assumes "publish_verified L H h expected target = (h', True)"
  shows "\<exists>content. encode_record L target = Some content"
  using assms by (auto simp: publish_verified_def split: option.splits prod.splits)

lemma advance_Some:
  assumes a: "advance L H h sel = (h', Some sel')" and r: "removal_at L sel"
  shows "removal_at L sel' \<and> later sel sel'
    \<and> encode_record L (sa_record sel') = Some (sa_bytes sel')
    \<and> removal_checkpoint (sa_record sel) < removal_limit (sa_record sel)
    \<and> sa_record sel' = (sa_record sel)\<lparr>removal_checkpoint := removal_checkpoint (sa_record sel) + 1\<rparr>"
proof -
  have v: "valid L (sa_record sel)" using r by (simp add: removal_at_def)
  from a obtain n content where n: "next_checkpoint L (sa_record sel) = Some n"
    and e: "encode_record L n = Some content" and s: "sel' = sel\<lparr>sa_bytes := content, sa_record := n\<rparr>"
    by (auto simp: advance_def split: option.splits prod.splits if_splits)
  have vn: "valid L n" using n decode_record_valid
    by (auto simp: next_checkpoint_def validated_value_def bind_eq_Some_conv split: if_splits)
  show ?thesis using n e s vn r decode_encode_record [OF vn e] next_checkpoint_eq [OF v]
    by (auto simp: removal_at_def later_def split: if_splits)
qed

lemma later_finishing:
  assumes "later a b" "removal_at L a" "removal_at L b"
  shows "finishing_release L (sa_record b) = finishing_release L (sa_record a)"
proof -
  obtain c where c: "sa_record b = (sa_record a)\<lparr>removal_checkpoint := c\<rparr>" using assms(1) by (auto simp: later_def)
  show ?thesis
    using assms(2,3) finishing_release_eq [of "sa_record a"] finishing_release_eq [of "sa_record b"]
    by (auto simp: removal_at_def c)
qed

lemma unat_next_checkpoint:
  fixes r :: wire_ownership
  assumes "removal_checkpoint r < removal_limit r"
  shows "unat (removal_checkpoint r + 1) = Suc (unat (removal_checkpoint r))"
  using assms by (simp add: removal_limit_def word_less_nat_alt unat_word_ariths split: if_splits)

lemma removal_limit_cases: "removal_limit r = 3 \<or> removal_limit r = 11"
  by (simp add: removal_limit_def)

text \<open>The loop over the proxy effects leaves the checkpoint at or past the last of them.\<close>

lemma run_proxy_step:
  assumes "run_proxy L H h sel startup i (e # es) = (h', Inr sel')"
  shows "reached L (sa_record sel) > i \<and> run_proxy L H h sel startup (i + 1) es = (h', Inr sel')
    \<or> (\<exists>h1 h2 h3 sel1. \<not> reached L (sa_record sel) > i \<and> advance L H h1 sel = (h2, Some sel1)
         \<and> run_proxy L H h3 sel1 startup (i + 1) es = (h', Inr sel'))"
  using assms by (auto split: if_splits prod.splits bool.splits option.splits)

lemma run_proxy_at:
  assumes "run_proxy L H h sel startup i es = (h', Inr sel')" and "removal_at L sel"
    and "unat i \<le> unat (removal_checkpoint (sa_record sel))" and "unat i + length es < 100"
  shows "removal_at L sel' \<and> later sel sel'
    \<and> unat i + length es \<le> unat (removal_checkpoint (sa_record sel'))"
  using assms
proof (induction es arbitrary: h sel i)
  case (Cons e es)
  have i: "unat (i + 1) = Suc (unat i)" using Cons.prems(4) by (simp add: unat_word_ariths)
  from run_proxy_step [OF Cons.prems(1)] show ?case
  proof (elim disjE exE conjE)
    assume "reached L (sa_record sel) > i" and tail: "run_proxy L H h sel startup (i + 1) es = (h', Inr sel')"
    then have "unat (i + 1) \<le> unat (removal_checkpoint (sa_record sel))"
      using removal_at_facts(1) [OF Cons.prems(2)] i by (simp add: word_less_nat_alt)
    from Cons.IH [OF tail Cons.prems(2) this] i Cons.prems(4) show ?thesis by simp
  next
    fix h1 h2 h3 sel1
    assume ad: "advance L H h1 sel = (h2, Some sel1)"
      and tail: "run_proxy L H h3 sel1 startup (i + 1) es = (h', Inr sel')"
    note A = advance_Some [OF ad Cons.prems(2)]
    then have "unat (removal_checkpoint (sa_record sel1)) = Suc (unat (removal_checkpoint (sa_record sel)))"
      using unat_next_checkpoint [of "sa_record sel"] by simp
    then have "unat (i + 1) \<le> unat (removal_checkpoint (sa_record sel1))" using i Cons.prems(3) by simp
    from Cons.IH [OF tail _ this] A i Cons.prems(4) show ?thesis by (auto intro: later_trans)
  qed
qed auto

text \<open>The two members of the product advance the checkpoint to its limit.\<close>

lemma run_product_step:
  assumes "run_product L H h sel ((e, there, limit) # steps) = (h', Inr sel')"
  shows "\<exists>h1 h2 sel1. (if reached L (sa_record sel) \<le> limit then advance L H h1 sel else (h1, Some sel)) = (h2, Some sel1)
    \<and> run_product L H h2 sel1 steps = (h', Inr sel')"
  using assms by (auto split: if_splits prod.splits bool.splits option.splits)

lemma run_product_at:
  assumes "run_product L H h sel steps = (h', Inr sel')" and "removal_at L sel"
    and "map (\<lambda>(e, there, limit). unat limit) steps = [k..<k + length steps]"
    and "k \<le> unat (removal_checkpoint (sa_record sel))"
  shows "removal_at L sel' \<and> later sel sel'
    \<and> k + length steps \<le> unat (removal_checkpoint (sa_record sel'))"
  using assms
proof (induction steps arbitrary: h sel k)
  case (Cons step steps)
  obtain e there limit where st: "step = (e, there, limit)" by (cases step)
  have l: "unat limit = k" and ls: "map (\<lambda>(e, there, limit). unat limit) steps = [Suc k..<Suc k + length steps]"
    using Cons.prems(3) upt_conv_Cons [of k "k + length (step # steps)"] by (simp_all add: st)
  from run_product_step [OF Cons.prems(1) [unfolded st]] obtain h1 h2 sel1 where
    ad: "(if reached L (sa_record sel) \<le> limit then advance L H h1 sel else (h1, Some sel)) = (h2, Some sel1)"
    and tail: "run_product L H h2 sel1 steps = (h', Inr sel')" by blast
  have "removal_at L sel1 \<and> later sel sel1 \<and> Suc k \<le> unat (removal_checkpoint (sa_record sel1))"
  proof (cases "reached L (sa_record sel) \<le> limit")
    case True
    with ad have "advance L H h1 sel = (h2, Some sel1)" by simp
    from advance_Some [OF this Cons.prems(2)] Cons.prems(4) unat_next_checkpoint [of "sa_record sel"]
    show ?thesis by simp
  next
    case False
    with ad Cons.prems(2) l removal_at_facts(1) [OF Cons.prems(2)] show ?thesis
      by (simp add: word_le_nat_alt)
  qed
  with Cons.IH [OF tail _ ls] show ?case by (auto intro: later_trans)
qed auto

lemma confirm_absence_at:
  assumes "confirm_absence L H h sel pc = (h', Inr sel')" and r: "removal_at L sel"
    and "unat pc \<le> unat (removal_checkpoint (sa_record sel))"
  shows "removal_at L sel' \<and> later sel sel' \<and> unat pc < unat (removal_checkpoint (sa_record sel'))"
proof (cases "reached L (sa_record sel) \<le> pc")
  case True
  with assms(1) obtain h1 where "advance L H h sel = (h1, Some sel')"
    by (auto simp: confirm_absence_def split: if_splits option.splits prod.splits)
  from advance_Some [OF this r] assms(3) unat_next_checkpoint [of "sa_record sel"] show ?thesis by simp
next
  case False
  with assms removal_at_facts(1) [OF r] show ?thesis by (auto simp: confirm_absence_def word_le_nat_alt)
qed

end

section \<open>The guards of an effect\<close>

text \<open>
  A host that refuses to apply an effect unless the record it is given is the current authority and the
  effect was found exactly owned, to replace the authority unless the target is the next checkpoint of
  the expected bytes or a commitment on them, and to finalize unless everything is absent.
\<close>

definition commits :: "lib \<Rightarrow> wire_ownership option \<Rightarrow> wire_ownership \<Rightarrow> bool" where
  "commits L source target =
     is_some_and (\<lambda>f. commit_removal L source f = Some target) (finishing_release_identity target)"

definition forward_target :: "lib \<Rightarrow> bytes option \<Rightarrow> wire_ownership \<Rightarrow> bool" where
  "forward_target L expected target =
     (case expected of
        None \<Rightarrow> commits L None target
      | Some content \<Rightarrow>
          is_some_and (\<lambda>r. next_checkpoint L r = Some target \<or> commits L (Some r) target)
            (decode_record L content))"

definition all_absent :: "lib \<Rightarrow> 'h removal_host \<Rightarrow> 'h \<Rightarrow> wire_ownership \<Rightarrow> bool" where
  "all_absent L H h r =
     (proxy_absent H h r = Inr True
      \<and> is_some_and (\<lambda>release. case inspect_lifecycle H h release of
            Inl _ \<Rightarrow> False
          | Inr facts \<Rightarrow> lf_valid facts \<and> lf_release facts = release \<and> lf_state_directory_empty facts
              \<and> \<not> lf_executable_present facts \<and> \<not> lf_installed_record_present facts)
          (finishing_release L r))"

definition may_finalize :: "lib \<Rightarrow> 'h removal_host \<Rightarrow> 'h \<Rightarrow> bytes \<Rightarrow> bool" where
  "may_finalize L H h content =
     is_some_and (\<lambda>r. checkpoint L r \<noteq> None \<and> checkpoint L r = checkpoint_limit L r \<and> all_absent L H h r)
       (decode_record L content)"

definition guarded :: "lib \<Rightarrow> 'h removal_host \<Rightarrow> 'h removal_host" where
  "guarded L H = H
     \<lparr>apply_effect := \<lambda>h effect r.
        if is_some_and (\<lambda>a. sa_record a = r) (current_authority L H h) \<and> inspect_effect H h effect r = Inr ExactOwned
        then apply_effect H h effect r else (h, Inl HostUnsafe),
      host_publish := \<lambda>h expected target.
        if forward_target L expected target then host_publish H h expected target else (h, Inl HostUnsafe),
      finalize := \<lambda>h location content.
        if may_finalize L H h content then finalize H h location content else (h, Inl Interrupted)\<rparr>"

lemma guarded_reads [simp]:
  "effects_available (guarded L H) = effects_available H" "executing_release (guarded L H) = executing_release H"
  "read_authority (guarded L H) = read_authority H" "inspect_removal (guarded L H) = inspect_removal H"
  "inspect_lifecycle (guarded L H) = inspect_lifecycle H" "begin_change (guarded L H) = begin_change H"
  "release_package_locks (guarded L H) = release_package_locks H" "end_change (guarded L H) = end_change H"
  "host_synchronize (guarded L H) = host_synchronize H" "inspect_effect (guarded L H) = inspect_effect H"
  "proxy_absent (guarded L H) = proxy_absent H" "cancelled (guarded L H) = cancelled H"
  by (simp_all add: guarded_def)

lemma guarded_apply:
  "is_some_and (\<lambda>a. sa_record a = r) (current_authority L H h) \<Longrightarrow> inspect_effect H h effect r = Inr ExactOwned \<Longrightarrow>
     apply_effect (guarded L H) h effect r = apply_effect H h effect r"
  by (simp add: guarded_def)

lemma guarded_host_publish:
  "forward_target L expected target \<Longrightarrow>
     host_publish (guarded L H) h expected target = host_publish H h expected target"
  by (simp add: guarded_def)

lemma guarded_finalize:
  "may_finalize L H h content \<Longrightarrow> finalize (guarded L H) h location content = finalize H h location content"
  by (simp add: guarded_def)

lemma guarded_authority [simp]: "current_authority L (guarded L H) = current_authority L H"
  by (simp add: current_authority_def fun_eq_iff)

lemma guarded_perform [simp]: "perform L (guarded L H) = perform L H"
  by (simp add: perform_def fun_eq_iff guarded_apply split: sum.splits effect_state.splits prod.splits)

lemma guarded_auxiliary [simp]: "run_auxiliary L (guarded L H) h r es = run_auxiliary L H h r es"
  by (induction es arbitrary: h) (simp_all split: prod.splits bool.splits)

lemma guarded_publish:
  "forward_target L expected target \<Longrightarrow>
     publish_verified L (guarded L H) h expected target = publish_verified L H h expected target"
  by (simp add: publish_verified_def guarded_host_publish split: prod.splits option.splits)

lemma guarded_advance:
  "decode_record L (sa_bytes sel) = Some (sa_record sel) \<Longrightarrow> advance L (guarded L H) h sel = advance L H h sel"
  by (simp add: advance_def guarded_publish forward_target_def split: option.splits)


context json_text
begin

lemma guarded_proxy:
  assumes "removal_at L sel"
  shows "run_proxy L (guarded L H) h sel startup i es = run_proxy L H h sel startup i es"
  using assms
proof (induction es arbitrary: h sel i)
  case (Cons e es)
  have ad: "advance L (guarded L H) h1 sel = advance L H h1 sel" for h1
    using Cons.prems by (simp add: guarded_advance removal_at_def)
  have tail: "run_proxy L (guarded L H) h2 sel1 startup (i + 1) es = run_proxy L H h2 sel1 startup (i + 1) es"
    if "sel1 = sel \<or> (\<exists>h1 h3. advance L H h1 sel = (h3, Some sel1))" for h2 sel1
    by (rule Cons.IH) (use that Cons.prems in \<open>auto dest: advance_Some\<close>)
  show ?case using tail by (auto simp: ad split: prod.splits bool.splits option.splits) blast+
qed simp

lemma guarded_confirm:
  "removal_at L sel \<Longrightarrow> confirm_absence L (guarded L H) h sel pc = confirm_absence L H h sel pc"
  by (simp add: confirm_absence_def guarded_advance removal_at_def)

lemma guarded_product:
  assumes "removal_at L sel"
  shows "run_product L (guarded L H) h sel steps = run_product L H h sel steps"
  using assms
proof (induction steps arbitrary: h sel)
  case (Cons step steps)
  obtain e there limit where st: "step = (e, there, limit)" by (cases step)
  have ad: "advance L (guarded L H) h1 sel = advance L H h1 sel" for h1
    using Cons.prems by (simp add: guarded_advance removal_at_def)
  have tail: "run_product L (guarded L H) h2 sel1 steps = run_product L H h2 sel1 steps"
    if "sel1 = sel \<or> (\<exists>h1 h3. advance L H h1 sel = (h3, Some sel1))" for h2 sel1
    by (rule Cons.IH) (use that Cons.prems in \<open>auto dest: advance_Some\<close>)
  show ?case using tail by (auto simp: ad st split: prod.splits bool.splits option.splits)
qed simp

text \<open>The removal only finalizes a record at its last checkpoint, with everything found absent.\<close>

lemma finalize_guard:
  assumes r: "removal_at L sel" and last: "removal_limit (sa_record sel) \<le> removal_checkpoint (sa_record sel)"
    and rel: "finishing_release L (sa_record sel) = Some release"
  shows "finalize_removal L (guarded L H) h sel release = finalize_removal L H h sel release"
proof -
  note R = removal_at_facts [OF r]
  have fin: "may_finalize L H h (sa_bytes sel)" if "all_absent L H h (sa_record sel)"
    using that r R(2,3,4) last by (auto simp: may_finalize_def removal_at_def is_some_and_def)
  have "finalize (guarded L H) h (sa_location sel) (sa_bytes sel) = finalize H h (sa_location sel) (sa_bytes sel)"
    if "all_absent L H h (sa_record sel)"
    by (rule guarded_finalize [OF fin [OF that]])
  then show ?thesis
    by (auto simp: finalize_removal_def all_absent_def rel is_some_and_def split: sum.splits)
qed

lemma removal_counts: "\<exists>pc. removal_limit r = pc + 3 \<and> (pc = 0 \<or> pc = 8)"
  using exI [of _ 0] exI [of _ 8] by (simp add: removal_limit_def)

lemma guarded_finish_product:
  assumes r: "removal_at L sel" and pc: "pc = 0 \<or> pc = 8" "removal_limit (sa_record sel) = pc + 3"
    and past: "unat pc < unat (removal_checkpoint (sa_record sel))"
  shows "finish_product L (guarded L H) h sel pc = finish_product L H h sel pc"
proof (cases "finishing_release L (sa_record sel)")
  case (Some release)
  have "finalize_removal L (guarded L H) h1 sel1 release = finalize_removal L H h1 sel1 release"
    if p: "run_product L H h sel [(Executable, x, pc + 1), (InstalledRecord, y, pc + 2)] = (h1, Inr sel1)" for h1 sel1 x y
  proof -
    have at: "removal_at L sel1" and l: "later sel sel1" and "unat pc + 3 \<le> unat (removal_checkpoint (sa_record sel1))"
      using run_product_at [OF p r, of "unat (pc + 1)"] pc past by auto
    moreover have "removal_limit (sa_record sel1) = pc + 3" using later_limit [OF l] pc(2) by simp
    moreover have "unat (pc + 3) = unat pc + 3" using pc(1) by auto
    ultimately show ?thesis
      using later_finishing [OF l r at] Some by (intro finalize_guard [OF at]) (simp_all add: word_le_nat_alt)
  qed
  then show ?thesis
    by (simp add: finish_product_def Some guarded_product [OF r] del: run_product.simps split: sum.splits prod.splits)
qed (simp add: finish_product_def)

lemma finish_proxy_at:
  assumes r: "removal_at L sel" and pc: "pc = 0 \<or> pc = 8"
    and p: "run_proxy L H h sel startup 0 (take (unat pc) PROXY_EFFECTS) = (h1, Inr sel1)"
    and c: "confirm_absence L H h2 sel1 pc = (h3, Inr sel2)"
  shows "removal_at L sel1 \<and> removal_at L sel2 \<and> later sel sel2
    \<and> unat pc < unat (removal_checkpoint (sa_record sel2))"
proof -
  have n: "length (take (unat pc) PROXY_EFFECTS) = unat pc" "unat pc < 100"
    using pc by (auto simp: PROXY_EFFECTS_def)
  have P: "removal_at L sel1 \<and> later sel sel1 \<and> unat pc \<le> unat (removal_checkpoint (sa_record sel1))"
    using run_proxy_at [OF p r] n by simp
  from confirm_absence_at [OF c] P show ?thesis by (auto intro: later_trans)
qed

lemma guarded_finish_proxy:
  assumes r: "removal_at L sel"
  shows "finish_proxy L (guarded L H) h sel v = finish_proxy L H h sel v"
proof -
  obtain pc where pc: "removal_limit (sa_record sel) = pc + 3" "pc = 0 \<or> pc = 8" using removal_counts by blast
  have lim: "checkpoint_limit L (sa_record sel) = Some (pc + 3)" using removal_at_facts(3) [OF r] pc by simp
  have conf: "confirm_absence L (guarded L H) h1 sel1 pc = confirm_absence L H h1 sel1 pc"
    if "run_proxy L H h0 sel startup 0 (take (unat pc) PROXY_EFFECTS) = (h1, Inr sel1)" for h0 startup h1 sel1
    using run_proxy_at [OF that r] pc(2) by (intro guarded_confirm) (auto simp: PROXY_EFFECTS_def)
  have prod: "finish_product L (guarded L H) h3 sel2 pc = finish_product L H h3 sel2 pc"
    if p: "run_proxy L H h0 sel startup 0 (take (unat pc) PROXY_EFFECTS) = (h1, Inr sel1)"
      and c: "confirm_absence L H h1 sel1 pc = (h3, Inr sel2)" for h0 startup h1 sel1 h3 sel2
    using finish_proxy_at [OF r pc(2) p c] pc later_limit by (intro guarded_finish_product) auto
  show ?thesis
    by (simp add: finish_proxy_def lim Let_def guarded_proxy [OF r] split: prod.splits bool.splits sum.splits)
      (auto simp: conf prod)
qed

lemma guarded_finish:
  assumes "decode_record L (sa_bytes sel) = Some (sa_record sel)" and "unfinished_direction (sa_record sel) = Removal"
  shows "finish L (guarded L H) h sel = finish L H h sel"
proof -
  have "removal_at L sel" if "wire L (sa_record sel) \<noteq> None"
    using that assms decode_record_valid by (auto simp: removal_at_def wire_iff split: if_splits)
  then show ?thesis
    by (auto simp: finish_def guarded_finish_proxy split: prod.splits sum.splits option.splits)
qed

end

section \<open>What an outcome means\<close>

text \<open>A committed removal is never refused or declined: it completes or needs completion.\<close>

definition committed_outcome :: "removal_outcome \<Rightarrow> bool" where
  "committed_outcome out = (out \<in> {Completed, FinalSynchronizationUnknown} \<union> range NeedsCompletion)"

lemma committed_outcome_simps [simp]:
  "committed_outcome Completed" "committed_outcome FinalSynchronizationUnknown"
  "committed_outcome (NeedsCompletion w)" "\<not> committed_outcome Panicked" "\<not> committed_outcome Declined"
  "\<not> committed_outcome (Refused e)"
  by (auto simp: committed_outcome_def)

lemma run_auxiliary_outcome: "run_auxiliary L H h r es = (h', Some out) \<Longrightarrow> \<exists>w. out = NeedsCompletion w"
  by (induction es arbitrary: h) (auto split: prod.splits bool.splits if_splits)

lemma run_proxy_outcome: "run_proxy L H h sel startup i es = (h', Inl out) \<Longrightarrow> \<exists>w. out = NeedsCompletion w"
  by (induction es arbitrary: h sel i) (auto split: prod.splits bool.splits if_splits option.splits)

lemma run_product_outcome: "run_product L H h sel steps = (h', Inl out) \<Longrightarrow> \<exists>w. out = NeedsCompletion w"
  by (induction L H h sel steps rule: run_product.induct)
    (auto split: prod.splits bool.splits if_splits option.splits)

lemma confirm_absence_outcome: "confirm_absence L H h sel pc = (h', Inl out) \<Longrightarrow> \<exists>w. out = NeedsCompletion w"
  by (auto simp: confirm_absence_def split: prod.splits if_splits option.splits)

lemmas stage_outcomes = run_auxiliary_outcome run_proxy_outcome run_product_outcome confirm_absence_outcome

lemma finalize_removal_outcome:
  assumes "finalize_removal L H h sel release = (h', out)"
  shows "committed_outcome out
    \<and> (out = Completed \<longrightarrow> proxy_absent H h (sa_record sel) = Inr True
        \<and> finalize H h (sa_location sel) (sa_bytes sel) = (h', Inr ())
        \<and> read_authority H h' = Inr no_authority
        \<and> (\<exists>facts. inspect_lifecycle H h release = Inr facts \<and> lf_valid facts \<and> lf_release facts = release
             \<and> lf_state_directory_empty facts \<and> \<not> lf_executable_present facts \<and> \<not> lf_installed_record_present facts))"
  using assms by (auto simp: finalize_removal_def split: if_splits sum.splits prod.splits finalization_error.splits)

text \<open>The state in which a completed removal was finalized.\<close>

definition finalized :: "lib \<Rightarrow> 'h removal_host \<Rightarrow> selected_authority \<Rightarrow> 'h \<Rightarrow> bool" where
  "finalized L H sel h' =
     (\<exists>h sel'. removal_at L sel' \<and> later sel sel' \<and> checkpoint L (sa_record sel') = checkpoint_limit L (sa_record sel')
        \<and> all_absent L H h (sa_record sel') \<and> finalize H h (sa_location sel') (sa_bytes sel') = (h', Inr ())
        \<and> read_authority H h' = Inr no_authority)"

context json_text
begin

lemma finish_product_outcome:
  assumes r: "removal_at L sel" and pc: "pc = 0 \<or> pc = 8" "removal_limit (sa_record sel) = pc + 3"
    and past: "unat pc < unat (removal_checkpoint (sa_record sel))"
    and f: "finish_product L H h sel pc = (h', out)"
  shows "committed_outcome out \<and> (out = Completed \<longrightarrow> finalized L H sel h')"
proof -
  obtain release where rel: "finishing_release L (sa_record sel) = Some release" using removal_at_facts(5) [OF r] by auto
  from f consider (needs) w where "out = NeedsCompletion w"
    | (fin) h1 sel1 x y where "run_product L H h sel [(Executable, x, pc + 1), (InstalledRecord, y, pc + 2)] = (h1, Inr sel1)"
      "finalize_removal L H h1 sel1 release = (h', out)"
    by (auto simp: finish_product_def rel simp del: run_product.simps dest: run_product_outcome
        split: sum.splits if_splits prod.splits)
  then show ?thesis
  proof cases
    case fin
    have at: "removal_at L sel1" and l: "later sel sel1" and past: "unat pc + 3 \<le> unat (removal_checkpoint (sa_record sel1))"
      using run_product_at [OF fin(1) r, of "unat (pc + 1)"] pc past by auto
    have "unat (pc + 3) = unat pc + 3" using pc(1) by auto
    then have "checkpoint L (sa_record sel1) = checkpoint_limit L (sa_record sel1)"
      using removal_at_facts(2,3,4) [OF at] later_limit [OF l] pc(2) past by (simp add: word_le_nat_alt word_unat_eq_iff)
    moreover have "all_absent L H h1 (sa_record sel1)" if "out = Completed"
      using that finalize_removal_outcome [OF fin(2)] later_finishing [OF l r at] rel by (auto simp: all_absent_def)
    ultimately show ?thesis
      using at l finalize_removal_outcome [OF fin(2)] unfolding finalized_def by blast
  qed simp
qed

lemma finish_proxy_outcome:
  assumes r: "removal_at L sel" and f: "finish_proxy L H h sel v = (h', out)"
  shows "committed_outcome out \<and> (out = Completed \<longrightarrow> finalized L H sel h')"
proof -
  obtain pc where pc: "removal_limit (sa_record sel) = pc + 3" "pc = 0 \<or> pc = 8" using removal_counts by blast
  have lim: "checkpoint_limit L (sa_record sel) = Some (pc + 3)" using removal_at_facts(3) [OF r] pc by simp
  from f consider (needs) w where "out = NeedsCompletion w"
    | (fin) startup h0 h1 sel1 h2 sel2 where
      "run_proxy L H h0 sel startup 0 (take (unat pc) PROXY_EFFECTS) = (h1, Inr sel1)"
      "confirm_absence L H h1 sel1 pc = (h2, Inr sel2)" "finish_product L H h2 sel2 pc = (h', out)"
    by (auto simp: finish_proxy_def lim Let_def dest: stage_outcomes split: prod.splits bool.splits sum.splits)
  then show ?thesis
  proof cases
    case fin
    have at: "removal_at L sel2" and l: "later sel sel2" and past: "unat pc < unat (removal_checkpoint (sa_record sel2))"
      using finish_proxy_at [OF r pc(2) fin(1,2)] by auto
    have "removal_limit (sa_record sel2) = pc + 3" using later_limit [OF l] pc by simp
    from finish_product_outcome [OF at pc(2) this past fin(3)] l show ?thesis
      unfolding finalized_def by (meson later_trans)
  qed simp
qed

lemma finish_outcome:
  assumes "decode_record L (sa_bytes sel) = Some (sa_record sel)" and "unfinished_direction (sa_record sel) = Removal"
    and f: "finish L H h sel = (h', out)"
  shows "committed_outcome out \<and> (out = Completed \<longrightarrow> finalized L H sel h')"
proof -
  have "removal_at L sel" if "wire L (sa_record sel) \<noteq> None"
    using that assms decode_record_valid by (auto simp: removal_at_def wire_iff split: if_splits)
  with f show ?thesis
    by (auto simp: finish_def dest: stage_outcomes finish_proxy_outcome split: prod.splits sum.splits option.splits)
qed

end

section \<open>Prepared actions\<close>

lemma unless_Inr: "unless b e = Inr u \<longleftrightarrow> b"
  by (simp add: unless_def)

lemma from_host_Inr: "from_host x = Inr y \<longleftrightarrow> x = Inr y"
  by (cases x) simp_all

lemma of_option_Inr: "of_option e x = Inr y \<longleftrightarrow> x = Some y"
  by (cases x) (simp_all add: of_option_def)

lemmas result_iff = and_then_Inr unless_Inr from_host_Inr of_option_Inr

text \<open>What a review promises about the action it prepares, whatever the host state.\<close>

definition prepared :: "lib \<Rightarrow> prepared_removal \<Rightarrow> bool" where
  "prepared L p =
     (\<exists>sel. selected L (pr_snapshot p) = Inr sel \<and>
        (case pr_action p of
           Complete \<Rightarrow> is_some_and (\<lambda>s. unfinished_direction (sa_record s) \<noteq> Removal) sel \<or> sel = None
         | Finish \<Rightarrow> is_some_and (\<lambda>s. finishing_release L (sa_record s) = Some (pr_release p)) sel))"

lemma review_release_Inr:
  "review_release L Complete sel ex = Inr r \<longleftrightarrow>
     r = ex \<and> (is_some_and (\<lambda>s. unfinished_direction (sa_record s) \<noteq> Removal) sel \<or> sel = None)"
  "review_release L Finish sel ex = Inr r \<longleftrightarrow>
     is_some_and (\<lambda>s. finishing_release L (sa_record s) = Some r) sel"
  by (auto simp: review_release_def result_iff split: option.splits)

lemma review_prepares:
  assumes "review L H m action = (m', Inr p)"
  shows "prepared L p \<and> pr_action p = action \<and> pr_owner p = rm_owner m' \<and> rm_host m' = rm_host m
    \<and> read_authority H (rm_host m) = Inr (pr_snapshot p) \<and> executing_release H (rm_host m) = Inr (pr_release p)"
  using assms
  by (cases action) (auto simp: review_def review_host_def result_iff Let_def prepared_def invalidate_def
      review_release_Inr)

lemma prepared_finish:
  assumes "prepared L p" "pr_action p = Finish"
  obtains s where "selected L (pr_snapshot p) = Inr (Some s)" "unfinished_direction (sa_record s) = Removal"
    "decode_record L (sa_bytes s) = Some (sa_record s)"
  using assms selected_bytes [of L "pr_snapshot p"]
  by (auto simp: prepared_def is_some_and_iff finishing_release_def checkpoint_def split: if_splits)

context json_text
begin

lemma selected_valid:
  assumes "selected L s = Inr sel"
  shows "map_option sa_record sel = None \<or> is_some_and (valid L) (map_option sa_record sel)"
  using assms by (cases sel) (auto dest: selected_bytes decode_record_valid)

lemma commit_removal_commits:
  assumes "commit_removal L source f = Some target" and "source = None \<or> is_some_and (valid L) source"
  shows "valid L target" "unfinished_direction target = Removal" "commits L source target"
    "removal_checkpoint target = 0" "finishing_release_identity target = Some f"
proof -
  show "valid L target" using assms(1) decode_record_valid
    by (auto simp: commit_removal_def validated_value_def bind_eq_Some_conv split: option.splits)
  show d: "unfinished_direction target = Removal" "removal_checkpoint target = 0"
      and f: "finishing_release_identity target = Some f"
    using assms commit_removal_fresh commit_removal_eq
    by (cases source; auto simp: removal_of_def lifecycle_removal_def split: if_splits)+
  then show "commits L source target" using assms(1) by (simp add: commits_def)
qed

lemma commit_authority_result:
  assumes p: "prepared L p" "selected L (pr_snapshot p) = Inr sel"
    and c: "commit_authority L H h p sel = (h', Inr a)"
  shows "decode_record L (sa_bytes a) = Some (sa_record a)" "unfinished_direction (sa_record a) = Removal"
proof -
  have "decode_record L (sa_bytes a) = Some (sa_record a) \<and> unfinished_direction (sa_record a) = Removal"
  proof (cases "pr_action p")
    case Complete
    with c obtain target content where t: "commit_removal L (map_option sa_record sel) (pr_release p) = Some target"
      and e: "encode_record L target = Some content"
      and a: "a = \<lparr>sa_record = target, sa_bytes = content, sa_location = Current\<rparr>"
      by (auto simp: commit_authority_def split: option.splits prod.splits bool.splits)
    from commit_removal_commits [OF t selected_valid [OF p(2)]] decode_encode_record e a show ?thesis by auto
  next
    case Finish
    with p c prepared_finish [OF p(1) Finish] show ?thesis
      by (auto simp: commit_authority_def split: option.splits)
  qed
  then show "decode_record L (sa_bytes a) = Some (sa_record a)" "unfinished_direction (sa_record a) = Removal" by auto
qed

lemma guarded_commit:
  assumes p: "prepared L p" "selected L (pr_snapshot p) = Inr sel"
  shows "commit_authority L (guarded L H) h p sel = commit_authority L H h p sel"
proof (cases "commit_removal L (map_option sa_record sel) (pr_release p)")
  case (Some target)
  from commit_removal_commits(3) [OF Some selected_valid [OF p(2)]]
  have "forward_target L (map_option sa_bytes sel) target"
    using p(2) selected_bytes by (cases sel) (auto simp: forward_target_def)
  then show ?thesis
    by (simp add: commit_authority_def Some guarded_publish)
qed (simp add: commit_authority_def)

lemma guarded_execute_locked:
  assumes p: "prepared L p" "selected L (pr_snapshot p) = Inr sel"
  shows "execute_locked L (guarded L H) h p sel = execute_locked L H h p sel"
proof -
  have rv: "revalidate L (guarded L H) h p sel = revalidate L H h p sel"
    unfolding revalidate_def guarded_reads by (rule refl)
  show ?thesis
    using commit_authority_result [OF p, of H h]
    by (auto simp: execute_locked_def rv guarded_commit [OF p] intro!: guarded_finish split: sum.splits prod.splits)
qed

lemma guarded_execute:
  assumes p: "prepared L p"
  shows "execute L (guarded L H) m p answer = execute L H m p answer"
proof -
  obtain sel where sel: "selected L (pr_snapshot p) = Inr sel" using p by (auto simp: prepared_def)
  show ?thesis
    by (simp add: execute_def execute_host_def Let_def sel guarded_execute_locked [OF p sel] split: prod.splits sum.splits)
qed

text \<open>A refused commitment left the authority it was to replace.\<close>

definition not_committed :: "'h removal_host \<Rightarrow> 'h \<Rightarrow> prepared_removal \<Rightarrow> selected_authority option \<Rightarrow> bool" where
  "not_committed H h p sel =
     (case commit_removal L (map_option sa_record sel) (pr_release p) of
        None \<Rightarrow> True
      | Some target \<Rightarrow> \<not> is_some_and (\<lambda>a. sa_record a = target) (current_authority L H h))"

lemma commit_authority_outcome:
  assumes p: "prepared L p" "selected L (pr_snapshot p) = Inr sel"
    and c: "commit_authority L H h p sel = (h', Inl out)"
  shows "(\<exists>w. out = NeedsCompletion w)
    \<or> out = Refused Authority \<and> pr_action p = Complete \<and> not_committed H h' p sel"
proof (cases "pr_action p")
  case Complete
  with c show ?thesis
    by (auto simp: commit_authority_def not_committed_def dest: publish_verified_true
        split: option.splits prod.splits bool.splits if_splits)
next
  case Finish
  with p c prepared_finish [OF p(1) Finish] show ?thesis by (auto simp: commit_authority_def split: option.splits)
qed

lemma execute_locked_outcome:
  assumes p: "prepared L p" "selected L (pr_snapshot p) = Inr sel"
    and e: "execute_locked L H h p sel = (h', out)"
  shows "committed_outcome out \<and> (out = Completed \<longrightarrow> (\<exists>a. finalized L H a h'))
    \<or> (\<exists>e. out = Refused e) \<and> (h' = h \<or> pr_action p = Complete \<and> not_committed H h' p sel)"
proof -
  from e consider (re) e where "out = Refused e" "h' = h"
    | (com) "commit_authority L H h p sel = (h', Inl out)"
    | (fin) h1 a where "commit_authority L H h p sel = (h1, Inr a)"
        "finish L H (release_package_locks H h1) a = (h', out)"
    by (auto simp: execute_locked_def split: sum.splits prod.splits)
  then show ?thesis
  proof cases
    case com
    from commit_authority_outcome [OF p com] show ?thesis by auto
  next
    case fin
    from finish_outcome [OF commit_authority_result [OF p fin(1)] fin(2)] show ?thesis by blast
  qed simp
qed

end

text \<open>The whole of an execution: nothing is changed unless the lock is taken.\<close>

definition locked_run ::
  "lib \<Rightarrow> 'h removal_host \<Rightarrow> 'h \<Rightarrow> prepared_removal \<Rightarrow> 'h \<Rightarrow> removal_outcome \<Rightarrow> bool" where
  "locked_run L H h p h' out =
     (\<exists>sel h1 h2. selected L (pr_snapshot p) = Inr sel \<and> begin_change H h (map_option sa_record sel) = (h1, Inr ())
        \<and> execute_locked L H h1 p sel = (h2, out) \<and> h' = end_change H h2)"

definition untouched :: "'h removal_host \<Rightarrow> 'h \<Rightarrow> removal_error \<Rightarrow> 'h \<Rightarrow> bool" where
  "untouched H h e h' = (h' = h \<or> (\<exists>r x. e = Host x \<and> begin_change H h r = (h', Inl x)))"

lemma execute_host_cases:
  assumes "execute_host L H h p = (h', out)"
  shows "locked_run L H h p h' out \<or> (\<exists>e. out = Refused e \<and> untouched H h e h')"
proof (cases "selected L (pr_snapshot p)")
  case (Inr sel)
  obtain h1 r where b: "begin_change H h (map_option sa_record sel) = (h1, r)" by fastforce
  obtain h2 out2 where l: "execute_locked L H h1 p sel = (h2, out2)" by fastforce
  show ?thesis
    using assms b l by (cases r) (auto simp: execute_host_def Inr untouched_def locked_run_def split: if_splits)
qed (use assms in \<open>auto simp: execute_host_def untouched_def split: if_splits\<close>)

lemma execute_cases:
  assumes "execute L H m p answer = (m', out)"
  obtains (stale) "pr_owner p \<noteq> rm_owner m" "m' = m" "out = Refused PreparedAction"
  | (declined) "answer = ConfirmationDeclined" "m' = invalidate m" "out = Declined"
  | (refused) e where "out = Refused e" "rm_owner m' = rm_owner m + 1" "untouched H (rm_host m) e (rm_host m')"
  | (run) "answer = Approved" "pr_owner p = rm_owner m" "locked_run L H (rm_host m) p (rm_host m') out"
      "rm_owner m' = rm_owner m + 1"
proof (cases "pr_owner p = rm_owner m")
  case False
  then have "m' = m" "out = Refused PreparedAction" using assms by (simp_all add: execute_def)
  with False stale show ?thesis by blast
next
  case token: True
  show ?thesis
  proof (cases answer)
    case Approved
    obtain h out2 where h: "execute_host L H (rm_host m) p = (h, out2)" by fastforce
    with assms token Approved have "m' = (invalidate m)\<lparr>rm_host := h\<rparr>" "out = out2"
      by (simp_all add: execute_def Let_def invalidate_def)
    with execute_host_cases [OF h] token Approved refused run show ?thesis by (auto simp: invalidate_def)
  next
    case ConfirmationDeclined
    then have "m' = invalidate m" "out = Declined" using assms token by (simp_all add: execute_def Let_def)
    with ConfirmationDeclined declined show ?thesis by blast
  qed
qed

context json_text
begin

lemma execute_outcome:
  assumes p: "prepared L p" and e: "execute L H m p answer = (m', out)"
  shows "out \<noteq> Panicked \<and> (out = Completed \<longrightarrow> (\<exists>a h. finalized L H a h \<and> rm_host m' = end_change H h))"
  using e
proof (cases rule: execute_cases)
  case run
  then obtain sel h1 h2 where s: "selected L (pr_snapshot p) = Inr sel"
    and l: "execute_locked L H h1 p sel = (h2, out)" and h: "rm_host m' = end_change H h2"
    by (auto simp: locked_run_def)
  from execute_locked_outcome [OF p s l] h show ?thesis by auto
qed auto

end
end
