(* ===== verification/Removal_Progress.thy ===== *)
theory Removal_Progress
  imports Removal_Laws
begin

text \<open>
  Progress of a removal: on a host that grants what is asked, \<open>finish\<close> completes from every
  checkpoint, and afterwards no owned resource and no authority is left.
\<close>

section \<open>Hosts that let a removal through\<close>

text \<open>
  A host that can always be read, grants every request and loses nothing: \<open>auth\<close> is its authority and
  \<open>owned\<close> the effects whose resources it still has.
\<close>

definition only_current :: "bytes \<Rightarrow> authority_snapshot" where
  "only_current content = \<lparr>as_current = Some content, as_staged = None, as_finalizer = None\<rparr>"

definition cooperative ::
  "lib \<Rightarrow> 'h removal_host \<Rightarrow> ('h \<Rightarrow> authority_snapshot) \<Rightarrow> ('h \<Rightarrow> removal_effect set) \<Rightarrow> bool" where
  "cooperative L H auth owned =
     (\<forall>h. read_authority H h = Inr (auth h) \<and> \<not> cancelled H h
       \<and> (\<forall>location content. host_synchronize H h location content = (h, Inr ()))
       \<and> (\<forall>content target. encode_record L target = Some content \<longrightarrow>
            (\<exists>h'. host_publish H h (as_current (auth h)) target = (h', Inr ())
               \<and> auth h' = only_current content \<and> owned h' = owned h))
       \<and> (\<forall>effect r. inspect_effect H h effect r = Inr (if effect \<in> owned h then ExactOwned else Absent)
            \<and> (\<exists>h'. apply_effect H h effect r = (h', Inr ()) \<and> auth h' = auth h \<and> owned h' = owned h - {effect}))
       \<and> (\<forall>r. proxy_absent H h r = Inr (owned h \<subseteq> {Executable, InstalledRecord}))
       \<and> (\<forall>release. inspect_lifecycle H h release =
            Inr \<lparr>lf_release = release, lf_valid = True, lf_executable_present = (Executable \<in> owned h),
                 lf_installed_record_present = (InstalledRecord \<in> owned h), lf_state_directory_empty = True\<rparr>)
       \<and> (\<forall>location content. \<exists>h'. finalize H h location content = (h', Inr ())
            \<and> auth h' = no_authority \<and> owned h' = owned h))"

lemma cooperativeD:
  assumes "cooperative L H auth owned"
  shows "read_authority H h = Inr (auth h)" "\<not> cancelled H h"
    "host_synchronize H h location content = (h, Inr ())"
    "inspect_effect H h effect r = Inr (if effect \<in> owned h then ExactOwned else Absent)"
    "proxy_absent H h r = Inr (owned h \<subseteq> {Executable, InstalledRecord})"
    "inspect_lifecycle H h release =
       Inr \<lparr>lf_release = release, lf_valid = True, lf_executable_present = (Executable \<in> owned h),
            lf_installed_record_present = (InstalledRecord \<in> owned h), lf_state_directory_empty = True\<rparr>"
    "encode_record L target = Some content \<Longrightarrow> \<exists>h'. host_publish H h (as_current (auth h)) target = (h', Inr ())
       \<and> auth h' = only_current content \<and> owned h' = owned h"
    "\<exists>h'. apply_effect H h effect r = (h', Inr ()) \<and> auth h' = auth h \<and> owned h' = owned h - {effect}"
    "\<exists>h'. finalize H h location content = (h', Inr ()) \<and> auth h' = no_authority \<and> owned h' = owned h"
  using assms by (simp_all add: cooperative_def)

definition going :: "lib \<Rightarrow> ('h \<Rightarrow> authority_snapshot) \<Rightarrow> 'h \<Rightarrow> selected_authority \<Rightarrow> bool" where
  "going L auth h sel =
     (removing L (sa_record sel) \<and> encode_record L (sa_record sel) = Some (sa_bytes sel)
      \<and> sa_location sel = Current \<and> auth h = only_current (sa_bytes sel))"

text \<open>The effects that a removal at this checkpoint has still to remove.\<close>

definition remaining :: "wire_ownership \<Rightarrow> removal_effect set" where
  "remaining r =
     set (auxiliary_effects (value_of (ser_ownership r)))
     \<union> (if is_Some (jget ''proxy_startup'' (value_of (ser_ownership r))) \<and> removal_limit r = 11 then {ProxyStartup} else {})
     \<union> set (drop (unat (removal_checkpoint r)) (take (unat (removal_limit r - 3)) PROXY_EFFECTS))
     \<union> {Executable, InstalledRecord}"

lemma current_only:
  assumes "decode_record L content = Some r"
  shows "selected L (only_current content) = Inr (Some \<lparr>sa_record = r, sa_bytes = content, sa_location = Current\<rparr>)"
  using assms by (simp add: selected_def select_at_def only_current_def)

context json_text
begin

lemma going_at: "going L auth h sel \<Longrightarrow> removal_at L sel"
  using removing_facts decode_encode_record by (auto simp: going_def removal_at_def)

lemma going_authority:
  assumes "going L auth h sel" and "read_authority H h = Inr (auth h)"
  shows "current_authority L H h = Some sel"
  using assms going_at [OF assms(1)] current_only [of L "sa_bytes sel" "sa_record sel"]
  by (simp add: going_def current_authority_def removal_at_def)

lemma cooperative_perform:
  assumes c: "cooperative L H auth owned" and g: "going L auth h sel"
  shows "\<exists>h'. perform L H h effect (sa_record sel) = (h', True) \<and> going L auth h' sel \<and> owned h' = owned h - {effect}"
proof -
  obtain h1 where ap: "apply_effect H h effect (sa_record sel) = (h1, Inr ())"
    "auth h1 = auth h" "owned h1 = owned h - {effect}" using cooperativeD(8) [OF c] by blast
  then have "going L auth h1 sel" using g by (simp add: going_def)
  then show ?thesis
    using going_authority [OF g cooperativeD(1) [OF c]] ap cooperativeD(4) [OF c] g
    by (cases "effect \<in> owned h") (simp_all add: perform_def)
qed

lemma cooperative_advance:
  assumes c: "cooperative L H auth owned" and g: "going L auth h sel"
    and less: "removal_checkpoint (sa_record sel) < removal_limit (sa_record sel)"
  shows "\<exists>h' sel'. advance L H h sel = (h', Some sel') \<and> going L auth h' sel' \<and> owned h' = owned h
    \<and> sa_record sel' = (sa_record sel)\<lparr>removal_checkpoint := removal_checkpoint (sa_record sel) + 1\<rparr>"
proof -
  let ?r = "sa_record sel" let ?n = "?r\<lparr>removal_checkpoint := removal_checkpoint ?r + 1\<rparr>"
  have r: "removing L ?r" using g by (simp add: going_def)
  have n: "next_checkpoint L ?r = Some ?n"
    using removal_progress.advance_iff [OF r] less next_checkpoint_eq [OF removing_facts(1) [OF r]]
    by (auto simp: removal_stage_def word_less_nat_alt split: if_splits)
  then have rn: "removing L ?n" using removal_progress.advance_step [OF r] by blast
  obtain content where e: "encode_record L ?n = Some content" using removing_facts(4) [OF rn] by auto
  obtain h1 where p: "host_publish H h (Some (sa_bytes sel)) ?n = (h1, Inr ())"
    and a: "auth h1 = only_current content" "owned h1 = owned h"
    using cooperativeD(7) [OF c e, of h] g by (auto simp: going_def only_current_def)
  let ?s = "sel\<lparr>sa_bytes := content, sa_record := ?n\<rparr>"
  have g1: "going L auth h1 ?s" using g rn e a by (simp add: going_def)
  have "advance L H h sel = (h1, Some ?s)"
    using going_authority [OF g1 cooperativeD(1) [OF c]] cooperativeD(3) [OF c, of h1] p e g
    by (simp add: advance_def n publish_verified_def going_def)
  with g1 a show ?thesis by auto
qed

lemma cooperative_auxiliary:
  assumes c: "cooperative L H auth owned" and g: "going L auth h sel"
  shows "\<exists>h'. run_auxiliary L H h (sa_record sel) es = (h', None) \<and> going L auth h' sel \<and> owned h' = owned h - set es"
  using g
proof (induction es arbitrary: h)
  case (Cons e es)
  from cooperative_perform [OF c Cons.prems] obtain h1 where
    h1: "perform L H h e (sa_record sel) = (h1, True)" "going L auth h1 sel" "owned h1 = owned h - {e}" by blast
  from Cons.IH [OF h1(2)] obtain h2 where
    "run_auxiliary L H h1 (sa_record sel) es = (h2, None)" "going L auth h2 sel" "owned h2 = owned h1 - set es" by blast
  with h1 cooperativeD(2) [OF c, of h1] show ?case by (intro exI [of _ h2]) auto
qed simp

lemma cooperative_startup:
  assumes c: "cooperative L H auth owned" and g: "going L auth h sel"
  shows "\<exists>h'. (if b then perform L H h ProxyStartup (sa_record sel) else (h, True)) = (h', True)
    \<and> going L auth h' sel \<and> owned h' = owned h - (if b then {ProxyStartup} else {})"
  using cooperative_perform [OF c g] g by auto

lemma cooperative_proxy:
  assumes c: "cooperative L H auth owned" and g: "going L auth h sel"
    and "unat i \<le> unat (removal_checkpoint (sa_record sel))"
    and "unat i + length es + 3 \<le> unat (removal_limit (sa_record sel))"
  shows "\<exists>h' sel'. run_proxy L H h sel startup i es = (h', Inr sel') \<and> going L auth h' sel'
    \<and> later sel sel' \<and> unat i + length es \<le> unat (removal_checkpoint (sa_record sel'))
    \<and> owned h' \<subseteq> owned h - set (drop (unat (removal_checkpoint (sa_record sel)) - unat i) es)
        - (if startup \<and> i = 0 \<and> removal_checkpoint (sa_record sel) = 0 \<and> es \<noteq> [] then {ProxyStartup} else {})"
  using assms(2-)
proof (induction es arbitrary: h sel i)
  case (Cons e es)
  let ?k = "removal_checkpoint (sa_record sel)"
  have at: "reached L (sa_record sel) = ?k" by (rule removal_at_facts(1) [OF going_at [OF Cons.prems(1)]])
  have lim: "unat (removal_limit (sa_record sel)) < 100" using removal_limit_cases [of "sa_record sel"] by auto
  have i: "unat (i + 1) = Suc (unat i)" "i + 1 \<noteq> 0"
    using Cons.prems(3) lim by (simp_all add: unat_word_ariths word_unat_eq_iff)
  show ?case
  proof (cases "?k > i")
    case True
    then have "unat (i + 1) \<le> unat ?k" using i by (simp add: word_less_nat_alt)
    from Cons.IH [OF Cons.prems(1) this] Cons.prems(3) i True at show ?thesis
      by (auto simp: drop_Cons' word_less_nat_alt)
  next
    case False
    then have k: "?k = i" using Cons.prems(2) by (simp add: word_le_nat_alt not_less word_unat_eq_iff)
    obtain h1 where h1: "perform L H h e (sa_record sel) = (h1, True)" "going L auth h1 sel" "owned h1 = owned h - {e}"
      using cooperative_perform [OF c Cons.prems(1)] by blast
    have less: "?k < removal_limit (sa_record sel)" using k Cons.prems(3) by (simp add: word_less_nat_alt)
    obtain h2 sel2 where h2: "advance L H h1 sel = (h2, Some sel2)" "going L auth h2 sel2" "owned h2 = owned h1"
        "sa_record sel2 = (sa_record sel)\<lparr>removal_checkpoint := ?k + 1\<rparr>"
      using cooperative_advance [OF c h1(2) less] by blast
    obtain h3 where h3: "(if i = 0 \<and> startup then perform L H h2 ProxyStartup (sa_record sel2) else (h2, True)) = (h3, True)"
        "going L auth h3 sel2" "owned h3 = owned h2 - (if i = 0 \<and> startup then {ProxyStartup} else {})"
      using cooperative_startup [OF c h2(2), of "i = 0 \<and> startup"] by blast
    have l2: "later sel sel2" using advance_Some [OF h2(1) going_at [OF Cons.prems(1)]] by blast
    have pre: "unat (i + 1) \<le> unat (removal_checkpoint (sa_record sel2))"
        "unat (i + 1) + length es + 3 \<le> unat (removal_limit (sa_record sel2))"
      using h2(4) k i Cons.prems(3) by simp_all
    from Cons.IH [OF h3(2) pre] obtain h4 sel4 where
      h4: "run_proxy L H h3 sel2 startup (i + 1) es = (h4, Inr sel4)" "going L auth h4 sel4" "later sel2 sel4"
        "unat (i + 1) + length es \<le> unat (removal_checkpoint (sa_record sel4))"
        "owned h4 \<subseteq> owned h3 - set es"
      using h2(4) k by auto
    have "run_proxy L H h sel startup i (e # es) = (h4, Inr sel4)"
      using k h1(1) h2(1) h3(1) h4(1) at cooperativeD(2) [OF c] by simp
    moreover have "owned h4 \<subseteq> owned h - set (e # es) - (if startup \<and> i = 0 then {ProxyStartup} else {})"
      using h4(5) h3(3) h2(3) h1(3) by (auto split: if_splits)
    ultimately show ?thesis using h4(2,4) i(1) k later_trans [OF l2 h4(3)] by auto
  qed
qed (use assms in \<open>auto\<close>)

lemma cooperative_confirm:
  assumes c: "cooperative L H auth owned" and g: "going L auth h sel"
    and pc: "unat pc \<le> unat (removal_checkpoint (sa_record sel))" "pc < removal_limit (sa_record sel)"
    and own: "owned h \<subseteq> {Executable, InstalledRecord}"
  shows "\<exists>h' sel'. confirm_absence L H h sel pc = (h', Inr sel') \<and> going L auth h' sel' \<and> later sel sel'
    \<and> owned h' = owned h \<and> unat pc < unat (removal_checkpoint (sa_record sel'))"
proof (cases "removal_checkpoint (sa_record sel) \<le> pc")
  case True
  note at = going_at [OF g]
  from True pc have less: "removal_checkpoint (sa_record sel) < removal_limit (sa_record sel)" by simp
  from cooperative_advance [OF c g less] obtain h2 sel2 where h2: "advance L H h sel = (h2, Some sel2)"
    "going L auth h2 sel2" "owned h2 = owned h"
    "sa_record sel2 = (sa_record sel)\<lparr>removal_checkpoint := removal_checkpoint (sa_record sel) + 1\<rparr>" by blast
  have "confirm_absence L H h sel pc = (h2, Inr sel2)"
    using True removal_at_facts(1) [OF at] cooperativeD(5) [OF c] own h2(1) by (simp add: confirm_absence_def)
  with h2 pc unat_next_checkpoint [OF less] show ?thesis using advance_Some [OF h2(1) at] by auto
next
  case False
  with removal_at_facts(1) [OF going_at [OF g]] g show ?thesis
    by (auto simp: confirm_absence_def word_le_nat_alt)
qed

lemma cooperative_product:
  assumes c: "cooperative L H auth owned" and g: "going L auth h sel"
    and "map (\<lambda>(e, there, limit). unat limit) steps = [k..<k + length steps]"
    and "k \<le> unat (removal_checkpoint (sa_record sel))"
    and "k + length steps \<le> unat (removal_limit (sa_record sel))"
    and "\<forall>(e, there, limit) \<in> set steps. e \<in> owned h \<longrightarrow> there"
  shows "\<exists>h' sel'. run_product L H h sel steps = (h', Inr sel') \<and> going L auth h' sel' \<and> later sel sel'
    \<and> owned h' = owned h - fst ` set steps"
  using assms(2-)
proof (induction steps arbitrary: h sel k)
  case (Cons step steps)
  obtain e there limit where st: "step = (e, there, limit)" by (cases step)
  let ?k = "removal_checkpoint (sa_record sel)"
  note at = going_at [OF Cons.prems(1)]
  have l: "unat limit = k" and ls: "map (\<lambda>(e, there, limit). unat limit) steps = [Suc k..<Suc k + length steps]"
    using Cons.prems(2) upt_conv_Cons [of k "k + length (step # steps)"] by (simp_all add: st)
  have "\<exists>h1. (if there \<or> ?k \<le> limit then perform L H h e (sa_record sel) else (h, True)) = (h1, True)
      \<and> going L auth h1 sel \<and> owned h1 = owned h - {e}"
    using cooperative_perform [OF c Cons.prems(1), of e] Cons.prems(1,5) by (auto simp: st)
  then obtain h1 where h1: "(if there \<or> ?k \<le> limit then perform L H h e (sa_record sel) else (h, True)) = (h1, True)"
    "going L auth h1 sel" "owned h1 = owned h - {e}" by blast
  have "\<exists>h2 sel2. (if ?k \<le> limit then advance L H h1 sel else (h1, Some sel)) = (h2, Some sel2) \<and> going L auth h2 sel2
      \<and> later sel sel2 \<and> owned h2 = owned h1 \<and> Suc k \<le> unat (removal_checkpoint (sa_record sel2))"
  proof (cases "?k \<le> limit")
    case True
    then have k: "unat ?k = k" using l Cons.prems(3) by (simp add: word_le_nat_alt)
    then have less: "?k < removal_limit (sa_record sel)" using Cons.prems(4) by (simp add: word_less_nat_alt)
    obtain h2 sel2 where h2: "advance L H h1 sel = (h2, Some sel2)" "going L auth h2 sel2" "owned h2 = owned h1"
      "sa_record sel2 = (sa_record sel)\<lparr>removal_checkpoint := ?k + 1\<rparr>"
      using cooperative_advance [OF c h1(2) less] by blast
    with True advance_Some [OF h2(1) at] unat_next_checkpoint [OF less] k show ?thesis by auto
  qed (use h1 l in \<open>auto simp: word_le_nat_alt\<close>)
  then obtain h2 sel2 where h2: "(if ?k \<le> limit then advance L H h1 sel else (h1, Some sel)) = (h2, Some sel2)"
    "going L auth h2 sel2" "later sel sel2" "owned h2 = owned h1" "Suc k \<le> unat (removal_checkpoint (sa_record sel2))" by blast
  have "\<forall>(e, there, limit) \<in> set steps. e \<in> owned h2 \<longrightarrow> there" using Cons.prems(5) h2(4) h1(3) by auto
  from Cons.IH [OF h2(2) ls h2(5) _ this] Cons.prems(4) later_limit [OF h2(3)] obtain h3 sel3 where
    h3: "run_product L H h2 sel2 steps = (h3, Inr sel3)" "going L auth h3 sel3" "later sel2 sel3"
      "owned h3 = owned h2 - fst ` set steps" by auto
  have "run_product L H h sel (step # steps) = (h3, Inr sel3)"
    using h1(1) h2(1) h3(1) removal_at_facts(1) [OF at] cooperativeD(2) [OF c] by (simp add: st)
  moreover have "owned h3 = owned h - fst ` set (step # steps)" using h3(4) h2(4) h1(3) by (auto simp: st)
  ultimately show ?case using h3(2) later_trans [OF h2(3) h3(3)] by blast
qed auto

lemma cooperative_finish_product:
  assumes c: "cooperative L H auth owned" and g: "going L auth h sel"
    and pc: "pc = 0 \<or> pc = 8" "removal_limit (sa_record sel) = pc + 3"
    and past: "unat pc < unat (removal_checkpoint (sa_record sel))"
    and own: "owned h \<subseteq> {Executable, InstalledRecord}"
  shows "\<exists>h'. finish_product L H h sel pc = (h', Completed) \<and> owned h' = {} \<and> auth h' = no_authority"
proof -
  obtain release where rel: "finishing_release L (sa_record sel) = Some release"
    using removal_at_facts(5) [OF going_at [OF g]] by auto
  let ?steps = "[(Executable, Executable \<in> owned h, pc + 1), (InstalledRecord, InstalledRecord \<in> owned h, pc + 2)]"
  have "\<exists>h' sel'. run_product L H h sel ?steps = (h', Inr sel') \<and> going L auth h' sel' \<and> later sel sel'
      \<and> owned h' = owned h - fst ` set ?steps"
    using pc past by (intro cooperative_product [OF c g, of _ "unat (pc + 1)"]) auto
  then obtain h1 sel1 where h1: "run_product L H h sel ?steps = (h1, Inr sel1)" "going L auth h1 sel1" "owned h1 = {}"
    using own by auto
  obtain h2 where h2: "finalize H h1 (sa_location sel1) (sa_bytes sel1) = (h2, Inr ())"
    "auth h2 = no_authority" "owned h2 = {}" using cooperativeD(9) [OF c] h1(3) by metis
  have "finalize_removal L H h1 sel1 release = (h2, Completed)"
    using h2 h1(3) cooperativeD(1,5,6) [OF c] by (simp add: finalize_removal_def)
  then have "finish_product L H h sel pc = (h2, Completed)"
    using cooperativeD(6) [OF c] h1(1) by (simp add: finish_product_def rel del: run_product.simps)
  with h2 show ?thesis by blast
qed

text \<open>A removal may be resumed at any checkpoint: it completes and nothing is left.\<close>

lemma cooperative_finish_proxy:
  assumes c: "cooperative L H auth owned" and g: "going L auth h sel"
    and own: "owned h \<subseteq> remaining (sa_record sel) - set (auxiliary_effects v)"
    and v: "v = value_of (ser_ownership (sa_record sel))"
  shows "\<exists>h'. finish_proxy L H h sel v = (h', Completed) \<and> owned h' = {} \<and> auth h' = no_authority"
proof -
  let ?r = "sa_record sel" let ?startup = "is_Some (jget ''proxy_startup'' v)"
  obtain pc where pc: "removal_limit ?r = pc + 3" "pc = 0 \<or> pc = 8" using removal_counts by blast
  note at = going_at [OF g]
  have lim: "checkpoint_limit L ?r = Some (pc + 3)" using removal_at_facts(3) [OF at] pc by simp
  define es where "es = take (unat pc) PROXY_EFFECTS"
  have len: "length es = unat pc" using pc(2) by (auto simp: es_def PROXY_EFFECTS_def)
  let ?b = "?startup \<and> reached L ?r > 0"
  obtain h1 where h1: "(if ?b then perform L H h ProxyStartup ?r else (h, True)) = (h1, True)" "going L auth h1 sel"
      "owned h1 = owned h - (if ?b then {ProxyStartup} else {})"
    using cooperative_startup [OF c g, of ?b] by blast
  have bound: "unat 0 + length es + 3 \<le> unat (removal_limit ?r)" using pc by (auto simp: len)
  from cooperative_proxy [OF c h1(2) _ bound, of ?startup] obtain h2 sel2 where
    h2: "run_proxy L H h1 sel ?startup 0 es = (h2, Inr sel2)" "going L auth h2 sel2" "later sel sel2"
      "length es \<le> unat (removal_checkpoint (sa_record sel2))"
      "owned h2 \<subseteq> owned h1 - set (drop (unat (removal_checkpoint ?r)) es)
        - (if ?startup \<and> removal_checkpoint ?r = 0 \<and> es \<noteq> [] then {ProxyStartup} else {})"
    by auto
  have ps: "ProxyStartup \<notin> owned h2" if s: "?startup" "removal_limit ?r = 11"
  proof (cases "removal_checkpoint ?r = 0")
    case True
    have "es \<noteq> []" using s(2) pc len by auto
    with True s(1) h2(5) show ?thesis by auto
  next
    case False
    then have "?b" using s(1) removal_at_facts(1) [OF at] by (simp add: word_gt_0)
    then have "ProxyStartup \<notin> owned h1" using h1(3) by simp
    with h2(5) show ?thesis by blast
  qed
  have "remaining ?r = set (auxiliary_effects v) \<union> (if ?startup \<and> removal_limit ?r = 11 then {ProxyStartup} else {})
      \<union> set (drop (unat (removal_checkpoint ?r)) es) \<union> {Executable, InstalledRecord}"
    using pc(1) by (simp add: remaining_def v es_def)
  moreover have "owned h2 \<subseteq> owned h - set (drop (unat (removal_checkpoint ?r)) es)" using h2(5) h1(3) by blast
  ultimately have own2: "owned h2 \<subseteq> {Executable, InstalledRecord}"
    using own ps by (cases "?startup \<and> removal_limit ?r = 11") (simp, blast)+
  have l2: "removal_limit (sa_record sel2) = pc + 3" using later_limit [OF h2(3)] pc by simp
  have "unat pc \<le> unat (removal_checkpoint (sa_record sel2))" "pc < removal_limit (sa_record sel2)"
    using h2(4) len pc(2) l2 by auto
  from cooperative_confirm [OF c h2(2) this own2] obtain h3 sel3 where
    h3: "confirm_absence L H h2 sel2 pc = (h3, Inr sel3)" "going L auth h3 sel3" "later sel2 sel3" "owned h3 = owned h2"
      "unat pc < unat (removal_checkpoint (sa_record sel3))" by blast
  have "removal_limit (sa_record sel3) = pc + 3" using later_limit [OF h3(3)] l2 by simp
  from cooperative_finish_product [OF c h3(2) pc(2) this h3(5)] own2 h3(4) obtain h4 where
    h4: "finish_product L H h3 sel3 pc = (h4, Completed)" "owned h4 = {}" "auth h4 = no_authority" by auto
  have "finish_proxy L H h sel v = (h4, Completed)"
    using h1(1) h2(1) h3(1) h4(1) by (simp add: finish_proxy_def lim es_def Let_def)
  with h4 show ?thesis by blast
qed

lemma cooperative_finish:
  assumes c: "cooperative L H auth owned" and g: "going L auth h sel" and own: "owned h \<subseteq> remaining (sa_record sel)"
  shows "\<exists>h'. finish L H h sel = (h', Completed) \<and> owned h' = {} \<and> auth h' = no_authority"
proof -
  define v where "v = value_of (ser_ownership (sa_record sel))"
  have w: "wire L (sa_record sel) = Some v" using g by (simp add: going_def wire_iff v_def)
  obtain h1 where h1: "run_auxiliary L H h (sa_record sel) (auxiliary_effects v) = (h1, None)" "going L auth h1 sel"
      "owned h1 = owned h - set (auxiliary_effects v)"
    using cooperative_auxiliary [OF c g] by blast
  have "owned h1 \<subseteq> remaining (sa_record sel) - set (auxiliary_effects v)" using own h1(3) by auto
  from cooperative_finish_proxy [OF c h1(2) this v_def] h1(1) cooperativeD(3) [OF c] show ?thesis
    by (auto simp: finish_def w)
qed

end

section \<open>Reviewing and executing a complete removal\<close>

text \<open>The host also lets an approved removal begin: it is available, runs the release and accepts it.\<close>

definition willing ::
  "'h removal_host \<Rightarrow> ('h \<Rightarrow> authority_snapshot) \<Rightarrow> ('h \<Rightarrow> removal_effect set) \<Rightarrow> release_identity \<Rightarrow> bool" where
  "willing H auth owned release =
     (\<forall>h. effects_available H h \<and> executing_release H h = Inr release
       \<and> (\<exists>facts. rf_accepted facts \<and> (\<forall>h r f. inspect_removal H h r f = Inr facts))
       \<and> (\<forall>r. begin_change H h r = (h, Inr ()))
       \<and> auth (release_package_locks H h) = auth h \<and> owned (release_package_locks H h) = owned h
       \<and> auth (end_change H h) = auth h \<and> owned (end_change H h) = owned h)"

lemma willingD:
  assumes "willing H auth owned release"
  shows "effects_available H h" "executing_release H h = Inr release" "begin_change H h r = (h, Inr ())"
    "auth (release_package_locks H h) = auth h" "owned (release_package_locks H h) = owned h"
    "auth (end_change H h) = auth h" "owned (end_change H h) = owned h"
    "\<exists>facts. rf_accepted facts \<and> (\<forall>h r f. inspect_removal H h r f = Inr facts)"
  using assms by (simp_all add: willing_def)

lemma removing_prints: "removing L r \<Longrightarrow> prints L r"
  using removing_facts(3) [of L r] unfolding removing_def
  by (metis wire_ownership.surjective wire_ownership.update_convs(12))

context json_text
begin

lemma cooperative_commit:
  assumes c: "cooperative L H auth owned" and a: "auth h = only_current content"
    and t: "commit_removal L (Some r) release = Some target" and g: "removing L target"
    and p: "pr_action p = Complete" "pr_release p = release"
  shows "\<exists>h' sel'. commit_authority L H h p (Some \<lparr>sa_record = r, sa_bytes = content, sa_location = Current\<rparr>) = (h', Inr sel')
    \<and> going L auth h' sel' \<and> sa_record sel' = target \<and> owned h' = owned h"
proof -
  obtain new where e: "encode_record L target = Some new" using removing_facts(4) [OF g] by auto
  obtain h1 where h1: "host_publish H h (Some content) target = (h1, Inr ())" "auth h1 = only_current new" "owned h1 = owned h"
    using cooperativeD(7) [OF c e, of h] a by (auto simp: only_current_def)
  let ?s = "\<lparr>sa_record = target, sa_bytes = new, sa_location = Current\<rparr>"
  have g1: "going L auth h1 ?s" using g e h1 by (simp add: going_def)
  have "publish_verified L H h (Some content) target = (h1, True)"
    using h1(1) e going_authority [OF g1 cooperativeD(1) [OF c]] cooperativeD(3) [OF c, of h1]
    by (simp add: publish_verified_def)
  then have "commit_authority L H h p (Some \<lparr>sa_record = r, sa_bytes = content, sa_location = Current\<rparr>) = (h1, Inr ?s)"
    using p t e by (simp add: commit_authority_def)
  with g1 h1(3) show ?thesis by auto
qed

lemma cooperative_removal:
  assumes c: "cooperative L H auth owned" and w: "willing H auth owned release"
    and a: "auth (rm_host m) = only_current content" and d: "decode_record L content = Some r"
    and n: "unfinished_direction r \<noteq> Removal"
    and t: "commit_removal L (Some r) release = Some target" and g: "removing L target"
    and own: "{Executable, InstalledRecord} \<subseteq> owned (rm_host m)" "owned (rm_host m) \<subseteq> remaining target"
  shows "\<exists>m1 p m2. review L H m Complete = (m1, Inr p) \<and> execute L H m1 p Approved = (m2, Completed)
    \<and> owned (rm_host m2) = {} \<and> auth (rm_host m2) = no_authority"
proof -
  let ?h = "rm_host m" let ?s = "\<lparr>sa_record = r, sa_bytes = content, sa_location = Current\<rparr>"
  obtain facts where f: "rf_accepted facts" "\<And>h r f. inspect_removal H h r f = Inr facts"
    using willingD(8) [OF w] by blast
  define p where "p = \<lparr>pr_owner = rm_owner m + 1, pr_action = Complete, pr_snapshot = only_current content,
    pr_facts = facts, pr_release = release\<rparr>"
  have rv: "review L H m Complete = (invalidate m, Inr p)"
    using cooperativeD(1,6) [OF c, of ?h] willingD(1,2) [OF w, of ?h] a current_only [OF d] n t f own(1)
    by (simp add: review_def review_host_def Let_def invalidate_def and_then_def unless_def review_release_def
        both_present_def p_def)
  have rl: "revalidate L H ?h p (Some ?s) = Inr ()"
    using cooperativeD(1,2,6) [OF c, of ?h] willingD(2) [OF w, of ?h] a f own(1)
    by (simp add: revalidate_def and_then_def unless_def both_present_def p_def)
  obtain h1 sel1 where h1: "commit_authority L H ?h p (Some ?s) = (h1, Inr sel1)" "going L auth h1 sel1"
      "sa_record sel1 = target" "owned h1 = owned ?h"
    using cooperative_commit [OF c a t g, of p] by (auto simp: p_def)
  have g2: "going L auth (release_package_locks H h1) sel1" using h1(2) willingD(4) [OF w, of h1] by (simp add: going_def)
  obtain h2 where h2: "finish L H (release_package_locks H h1) sel1 = (h2, Completed)" "owned h2 = {}" "auth h2 = no_authority"
    using cooperative_finish [OF c g2] own(2) h1(3,4) willingD(5) [OF w, of h1] by auto
  have "execute_host L H ?h p = (end_change H h2, Completed)"
    using willingD(1) [OF w, of ?h] cooperativeD(2) [OF c, of ?h] willingD(3) [OF w, of ?h] rl h1(1) h2(1)
    by (simp add: execute_host_def execute_locked_def p_def current_only [OF d])
  then have "\<exists>m2. execute L H (invalidate m) p Approved = (m2, Completed) \<and> rm_host m2 = end_change H h2"
    by (simp add: execute_def Let_def p_def invalidate_def)
  with rv h2 willingD(6,7) [OF w, of h2] show ?thesis by auto
qed

lemma next_checkpoint_iter:
  assumes "iter_opt n (next_checkpoint L) r = Some s" and "removing L r"
  shows "s = r\<lparr>removal_checkpoint := removal_checkpoint s\<rparr>"
  using assms
proof (induction n arbitrary: r)
  case (Suc n)
  then obtain t where t: "next_checkpoint L r = Some t" "iter_opt n (next_checkpoint L) t = Some s"
    by (auto simp: bind_eq_Some_conv)
  have "removing L t" using removal_progress.advance_step [OF Suc.prems(2) t(1)] by blast
  from Suc.IH [OF t(2) this] obtain c where c: "s = t\<lparr>removal_checkpoint := c\<rparr>" by blast
  have "t = r\<lparr>removal_checkpoint := removal_checkpoint r + 1\<rparr>"
    using t(1) next_checkpoint_eq [OF removing_facts(1) [OF Suc.prems(2)]] by (simp split: if_splits)
  with c show ?case by simp
qed simp

lemma removal_iterates:
  assumes r: "removing L r"
  shows "(case iter_opt n (next_checkpoint L) r of
       None \<Rightarrow> unat (removal_limit r) < unat (removal_checkpoint r) + n
     | Some s \<Rightarrow> unat (removal_checkpoint s) = unat (removal_checkpoint r) + n
         \<and> s = r\<lparr>removal_checkpoint := removal_checkpoint s\<rparr> \<and> finishing_release L s = finishing_release L r
         \<and> finishing_release L s \<noteq> None)"
proof (cases "iter_opt n (next_checkpoint L) r")
  case None
  then show ?thesis using removal_progress.iter_some_iff [OF r, of n] by (auto simp: removal_stage_def)
next
  case (Some s)
  have s: "removing L s" "removal_stage s = removal_stage r + n"
    using removal_progress.iter_step [OF r Some] by auto
  have c: "s = r\<lparr>removal_checkpoint := removal_checkpoint s\<rparr>" by (rule next_checkpoint_iter [OF Some r])
  let ?at = "\<lambda>x. \<lparr>sa_record = x, sa_bytes = the (encode_record L x), sa_location = Current\<rparr>"
  have at: "removal_at L (?at x)" if "removing L x" for x
    using removing_facts [OF that] decode_encode_record by (auto simp: removal_at_def)
  have "later (?at r) (?at s)" using c by (simp add: later_def)
  from later_finishing [OF this at [OF r] at [OF s(1)]] removal_at_facts(5) [OF at [OF s(1)]] s(2) c Some
  show ?thesis by (simp add: removal_stage_def)
qed

end

end
