(* ===== verification/Removal_Properties.thy ===== *)
theory Removal_Properties
  imports Examples Removal_Progress
begin

text \<open>Properties of complete removal: its record, its orchestration on a host, and its recovery.\<close>

section \<open>A simulated host\<close>

text \<open>A host that holds its authority and the effects it owns in memory; the witnesses run on it.\<close>

record sim =
  sim_auth :: authority_snapshot
  sim_owned :: "removal_effect set"

definition simulated_host :: "lib \<Rightarrow> release_identity \<Rightarrow> sim removal_host" where
  "simulated_host L release =
     \<lparr>effects_available = \<lambda>_. True, executing_release = \<lambda>_. Inr release,
      read_authority = \<lambda>h. Inr (sim_auth h),
      inspect_removal = \<lambda>h r f. Inr \<lparr>rf_fingerprint = [], rf_accepted = True\<rparr>,
      inspect_lifecycle = \<lambda>h f. Inr
        \<lparr>lf_release = f, lf_valid = True, lf_executable_present = (Executable \<in> sim_owned h),
         lf_installed_record_present = (InstalledRecord \<in> sim_owned h), lf_state_directory_empty = True\<rparr>,
      begin_change = \<lambda>h r. (h, Inr ()), release_package_locks = \<lambda>h. h, end_change = \<lambda>h. h,
      host_publish = \<lambda>h expected target.
        (case encode_record L target of
           None \<Rightarrow> (h, Inl HostUnsafe)
         | Some content \<Rightarrow> if expected = as_current (sim_auth h) then (h\<lparr>sim_auth := only_current content\<rparr>, Inr ())
                            else (h, Inl HostForeign)),
      host_synchronize = \<lambda>h location content. (h, Inr ()),
      inspect_effect = \<lambda>h effect r. Inr (if effect \<in> sim_owned h then ExactOwned else Absent),
      apply_effect = \<lambda>h effect r. (h\<lparr>sim_owned := sim_owned h - {effect}\<rparr>, Inr ()),
      proxy_absent = \<lambda>h r. Inr (sim_owned h \<subseteq> {Executable, InstalledRecord}),
      finalize = \<lambda>h location content. (h\<lparr>sim_auth := no_authority\<rparr>, Inr ()),
      cancelled = \<lambda>_. False\<rparr>"

lemma simulated_cooperative: "cooperative L (simulated_host L release) sim_auth sim_owned"
  by (simp add: cooperative_def simulated_host_def)

lemma simulated_willing: "willing (simulated_host L release) sim_auth sim_owned release"
  by (simp add: willing_def simulated_host_def)

definition example_removal_content :: bytes where
  "example_removal_content = the (encode_record example_lib (removal_of example_running example_release))"

definition example_authority :: selected_authority where
  "example_authority = \<lparr>sa_record = removal_of example_running example_release, sa_bytes = example_removal_content,
     sa_location = Current\<rparr>"

lemma example_removal_encodes:
  "encode_record example_lib (removal_of example_running example_release) = Some example_removal_content"
  using removing_facts(4) [OF removal_example_removing] by (simp add: example_removal_content_def)

lemma example_authority_at:
  "decode_record example_lib (sa_bytes example_authority) = Some (sa_record example_authority)"
  "unfinished_direction (sa_record example_authority) = Removal"
  using json_text.decode_encode_record [OF text_layer.json_text_axioms removal_example_valid example_removal_encodes]
    removal_example_direction by (simp_all add: example_authority_def)

definition example_running_content :: bytes where
  "example_running_content = the (encode_record example_lib example_running)"

lemma example_running_content: "encode_record example_lib example_running = Some example_running_content"
  using example_running_encodes(1) by (auto simp: example_running_content_def)

definition example_host :: sim where
  "example_host = \<lparr>sim_auth = only_current example_running_content,
     sim_owned = {StopDisableProxy, Package, AptKey, Executable, InstalledRecord}\<rparr>"

lemma example_removal_ready:
  "sim_auth example_host = only_current example_running_content"
  "decode_record example_lib example_running_content = Some example_running"
  "unfinished_direction example_running \<noteq> Removal"
  "commit_removal example_lib (Some example_running) example_release = Some (removal_of example_running example_release)"
  "removing example_lib (removal_of example_running example_release)"
  "{Executable, InstalledRecord} \<subseteq> sim_owned example_host"
  "sim_owned example_host \<subseteq> remaining (removal_of example_running example_release)"
proof -
  have l: "removal_limit (removal_of example_running example_release) = 11"
    "removal_checkpoint (removal_of example_running example_release) = 0"
    by (simp_all add: removal_of_def removal_limit_def example_running_def example_standard_def standard_wire_def
        PACKAGE_IDENTITY_def)
  show "sim_owned example_host \<subseteq> remaining (removal_of example_running example_release)"
    by (auto simp: example_host_def remaining_def l PROXY_EFFECTS_def)
  have "prints example_lib (removal_of example_running example_release)"
    by (rule removing_prints [OF removal_example_removing])
  then show "commit_removal example_lib (Some example_running) example_release = Some (removal_of example_running example_release)"
    using json_text.commit_removal_eq [OF text_layer.json_text_axioms example_running_valid, of example_release]
      example_fields example_running_encodes(1) example_valid_release by simp
  show "decode_record example_lib example_running_content = Some example_running"
    by (rule json_text.decode_encode_record [OF text_layer.json_text_axioms example_running_valid example_running_content])
qed (simp_all add: example_host_def example_fields removal_example_removing)

lemma example_removal_runs:
  "\<exists>m1 p m2. review example_lib (simulated_host example_lib example_release) \<lparr>rm_host = example_host, rm_owner = 0\<rparr> Complete = (m1, Inr p)
     \<and> execute example_lib (simulated_host example_lib example_release) m1 p Approved = (m2, Completed)"
  using json_text.cooperative_removal [OF text_layer.json_text_axioms simulated_cooperative simulated_willing,
      where m = "\<lparr>rm_host = example_host, rm_owner = 0\<rparr>" and content = example_running_content
        and r = example_running and release = example_release] example_removal_ready by auto

section \<open>The removal record\<close>

text \<open>
  C18. \<open>commit_removal\<close>, which edits the JSON value of the record, implements the abstract commitment: on a
  valid record that is not yet committed and carries no transport migration it gives exactly that record
  with the removal authority of the finishing release (and its schema raised to 2), without a record the
  lifecycle-only authority, and in every other case it refuses.
\<close>

theorem removal_commitment_refines:
  assumes "json_text L" and "valid L r"
  shows "commit_removal L (Some r) f =
      (if unfinished_direction r \<noteq> Removal \<and> \<not> subscription_transport_migration r \<and> valid_release f
          \<and> encode_record L r \<noteq> None \<and> prints L (removal_of r f)
       then Some (removal_of r f) else None)
    \<and> commit_removal L None f =
      (if valid_release f \<and> prints L (lifecycle_removal f) then Some (lifecycle_removal f) else None)"
  using json_text.commit_removal_eq [OF assms] json_text.commit_removal_fresh [OF assms(1)] by blast

theorem removal_commitment_refines_witness:
  "commit_removal example_lib (Some example_running) example_release = Some (removal_of example_running example_release)"
proof -
  have p: "prints example_lib (removal_of example_running example_release)"
    by (rule removing_prints [OF removal_example_removing])
  show ?thesis
    using removal_commitment_refines [OF text_layer.json_text_axioms example_running_valid, of example_release]
      example_fields example_running_encodes(1) example_valid_release p by simp
qed

text \<open>
  C19. A committed removal can be carried through all its checkpoints, three without a proxy and eleven with
  one, no more and no fewer; on the way nothing in the record but the checkpoint changes, and the release
  that must finish it stays the one that was committed.
\<close>

theorem removal_checkpoints_complete:
  assumes j: "json_text L" and r: "removing L r"
  shows "(case iter_opt n (next_checkpoint L) r of
       None \<Rightarrow> unat (removal_limit r) < unat (removal_checkpoint r) + n
     | Some s \<Rightarrow> unat (removal_checkpoint s) = unat (removal_checkpoint r) + n
         \<and> s = r\<lparr>removal_checkpoint := removal_checkpoint s\<rparr> \<and> finishing_release L s = finishing_release L r
         \<and> finishing_release L s \<noteq> None)"
  by (rule json_text.removal_iterates [OF j r])

theorem removal_checkpoints_complete_witness:
  "\<exists>s. iter_opt 11 (next_checkpoint example_lib) (removal_of example_running example_release) = Some s
     \<and> removal_checkpoint s = 11"
proof -
  have "removal_checkpoint (removal_of example_running example_release) = 0"
    "removal_limit (removal_of example_running example_release) = 11"
    by (simp_all add: removal_of_def removal_limit_def example_running_def example_standard_def standard_wire_def
        PACKAGE_IDENTITY_def)
  with removal_checkpoints_complete [OF text_layer.json_text_axioms removal_example_removing, of 11]
  show ?thesis by (auto split: option.splits simp: word_unat_eq_iff)
qed

section \<open>The orchestration\<close>

text \<open>
  C20. A removal never acts on anything it has not just inspected.  Put a guard in front of the host that
  refuses to apply an effect unless the record passed is the current authority and the effect was found
  exactly owned, to publish unless the target is the next checkpoint of, or the commitment on, the expected
  bytes, and to finalize unless the record is at its last checkpoint with the proxy and the product absent:
  no execution of a reviewed action can tell the difference.
\<close>

theorem removal_effects_guarded:
  assumes "json_text L" and "review L H0 m0 action = (m1, Inr p)"
  shows "execute L (guarded L H) m p answer = execute L H m p answer"
  using json_text.guarded_execute [OF assms(1)] review_prepares [OF assms(2)] by blast

theorem removal_effects_guarded_witness:
  "\<exists>m1 p. review example_lib (simulated_host example_lib example_release) \<lparr>rm_host = example_host, rm_owner = 0\<rparr> Complete = (m1, Inr p)
     \<and> execute example_lib (guarded example_lib (simulated_host example_lib example_release)) m1 p Approved
       = execute example_lib (simulated_host example_lib example_release) m1 p Approved"
proof -
  obtain m1 p where r: "review example_lib (simulated_host example_lib example_release)
      \<lparr>rm_host = example_host, rm_owner = 0\<rparr> Complete = (m1, Inr p)"
    using example_removal_runs by blast
  from removal_effects_guarded [OF text_layer.json_text_axioms r] r show ?thesis by blast
qed

text \<open>
  C21. Once committed, a removal is never refused, declined or cut off by a panic: finishing it completes, or
  asks for completion, or reports an unknown final synchronization.  It reports completion only after the
  record reached its last checkpoint, the proxy and the product were found absent, the finalization
  succeeded, and no authority could be read any more.
\<close>

theorem committed_removal_outcomes:
  assumes "json_text L" and "decode_record L (sa_bytes sel) = Some (sa_record sel)"
    and "unfinished_direction (sa_record sel) = Removal" and "finish L H h sel = (h', out)"
  shows "committed_outcome out \<and> (out = Completed \<longrightarrow> finalized L H sel h')"
  by (rule json_text.finish_outcome [OF assms])

theorem committed_removal_outcomes_witness:
  "committed_outcome (snd (finish example_lib (simulated_host example_lib example_release) example_host example_authority))"
proof -
  obtain h' out where f: "finish example_lib (simulated_host example_lib example_release) example_host example_authority = (h', out)"
    by fastforce
  from committed_removal_outcomes [OF text_layer.json_text_axioms example_authority_at f] f show ?thesis by simp
qed

text \<open>
  C22. What every outcome of an execution means: a declined action leaves the host as it was; a refusal
  leaves it as it was, or as the refused lock left it, or follows a run under the lock in which either
  nothing was done or the commitment is not the authority afterwards; completion means that the last state
  under the lock had no authority; and a reviewed action never panics.
\<close>

theorem execution_outcomes:
  assumes "json_text L" and "review L H0 m0 action = (m1, Inr p)" and "execute L H m p answer = (m', out)"
  shows "(case out of
       Declined \<Rightarrow> rm_host m' = rm_host m
     | Completed \<Rightarrow> \<exists>h. rm_host m' = end_change H h \<and> read_authority H h = Inr no_authority
     | Refused e \<Rightarrow> untouched H (rm_host m) e (rm_host m')
         \<or> (\<exists>sel h1 h2. selected L (pr_snapshot p) = Inr sel
              \<and> begin_change H (rm_host m) (map_option sa_record sel) = (h1, Inr ()) \<and> rm_host m' = end_change H h2
              \<and> (h2 = h1 \<or> (\<forall>target. commit_removal L (map_option sa_record sel) (pr_release p) = Some target \<longrightarrow>
                   \<not> is_some_and (\<lambda>a. sa_record a = target) (current_authority L H h2))))
     | Panicked \<Rightarrow> False
     | _ \<Rightarrow> True)"
proof -
  have p: "prepared L p" using review_prepares [OF assms(2)] by blast
  note X = json_text.execute_outcome [OF assms(1) p assms(3)]
  from assms(3) show ?thesis
  proof (cases rule: execute_cases)
    case run
    then obtain sel h1 h2 where s: "selected L (pr_snapshot p) = Inr sel"
      and b: "begin_change H (rm_host m) (map_option sa_record sel) = (h1, Inr ())"
      and l: "execute_locked L H h1 p sel = (h2, out)" and h: "rm_host m' = end_change H h2"
      by (auto simp: locked_run_def)
    from json_text.execute_locked_outcome [OF assms(1) p s l] X s b h show ?thesis
      by (cases out) (auto simp: finalized_def json_text.not_committed_def [OF assms(1)] split: option.splits)
  qed (auto simp: untouched_def invalidate_def)
qed

theorem execution_outcomes_witness:
  "\<exists>m1 p m2 h. review example_lib (simulated_host example_lib example_release) \<lparr>rm_host = example_host, rm_owner = 0\<rparr> Complete = (m1, Inr p)
     \<and> execute example_lib (simulated_host example_lib example_release) m1 p Approved = (m2, Completed)
     \<and> rm_host m2 = end_change (simulated_host example_lib example_release) h
     \<and> read_authority (simulated_host example_lib example_release) h = Inr no_authority"
proof -
  obtain m1 p m2 where r: "review example_lib (simulated_host example_lib example_release)
      \<lparr>rm_host = example_host, rm_owner = 0\<rparr> Complete = (m1, Inr p)"
    and e: "execute example_lib (simulated_host example_lib example_release) m1 p Approved = (m2, Completed)"
    using example_removal_runs by blast
  from execution_outcomes [OF text_layer.json_text_axioms r e] r e show ?thesis by auto
qed

text \<open>
  C23. A review changes nothing on the host and makes every action prepared before it stale, and an action
  is executed at most once: a second attempt, whatever the first one returned, is refused and leaves the
  host and the token alone.
\<close>

theorem prepared_actions_are_used_once:
  assumes "pr_owner p \<le> rm_owner m"
  shows "rm_host (fst (review L H m action)) = rm_host m
    \<and> execute L H (fst (review L H m action)) p answer = (fst (review L H m action), Refused PreparedAction)
    \<and> execute L H (fst (execute L H m p answer)) p again = (fst (execute L H m p answer), Refused PreparedAction)"
proof -
  have "rm_owner (fst (execute L H m p answer)) \<noteq> pr_owner p"
    using assms by (auto simp: execute_def Let_def invalidate_def split: prod.splits)
  then show ?thesis using assms by (simp add: review_def Let_def invalidate_def execute_def)
qed

theorem prepared_actions_are_used_once_witness:
  "\<exists>m1 p. review example_lib (simulated_host example_lib example_release) \<lparr>rm_host = example_host, rm_owner = 0\<rparr> Complete = (m1, Inr p)
     \<and> execute example_lib (simulated_host example_lib example_release)
         (fst (execute example_lib (simulated_host example_lib example_release) m1 p Approved)) p Approved
       = (fst (execute example_lib (simulated_host example_lib example_release) m1 p Approved), Refused PreparedAction)"
proof -
  obtain m1 p where r: "review example_lib (simulated_host example_lib example_release)
      \<lparr>rm_host = example_host, rm_owner = 0\<rparr> Complete = (m1, Inr p)"
    using example_removal_runs by blast
  then have "pr_owner p \<le> rm_owner m1" using review_prepares [OF r] by simp
  from prepared_actions_are_used_once [OF this] r show ?thesis by blast
qed

text \<open>
  C24. Removal completes: on a host that grants what is asked, reviewing and approving a complete removal of a
  running installation ends with \<open>Completed\<close>, every resource that the record authorizes removed and no
  authority left; and a removal that was interrupted at any checkpoint is finished in the same way.
\<close>

theorem removal_completes:
  assumes "json_text L" and "cooperative L H auth owned"
  shows "(willing H auth owned release \<and> auth (rm_host m) = only_current content \<and> decode_record L content = Some r
      \<and> unfinished_direction r \<noteq> Removal \<and> commit_removal L (Some r) release = Some target \<and> removing L target
      \<and> {Executable, InstalledRecord} \<subseteq> owned (rm_host m) \<and> owned (rm_host m) \<subseteq> remaining target \<longrightarrow>
      (\<exists>m1 p m2. review L H m Complete = (m1, Inr p) \<and> execute L H m1 p Approved = (m2, Completed)
         \<and> owned (rm_host m2) = {} \<and> auth (rm_host m2) = no_authority))
    \<and> (going L auth h sel \<and> owned h \<subseteq> remaining (sa_record sel) \<longrightarrow>
      (\<exists>h'. finish L H h sel = (h', Completed) \<and> owned h' = {} \<and> auth h' = no_authority))"
  using json_text.cooperative_removal [OF assms, of release m content r target]
    json_text.cooperative_finish [OF assms, of h sel] by blast

theorem removal_completes_witness:
  "\<exists>m1 p m2. review example_lib (simulated_host example_lib example_release) \<lparr>rm_host = example_host, rm_owner = 0\<rparr> Complete = (m1, Inr p)
     \<and> execute example_lib (simulated_host example_lib example_release) m1 p Approved = (m2, Completed)
     \<and> sim_owned (rm_host m2) = {} \<and> sim_auth (rm_host m2) = no_authority"
  using removal_completes [OF text_layer.json_text_axioms simulated_cooperative, where release = example_release
      and m = "\<lparr>rm_host = example_host, rm_owner = 0\<rparr>" and content = example_running_content
      and r = example_running and target = "removal_of example_running example_release"]
    simulated_willing example_removal_ready by simp

text \<open>
  Recovery restores only the exact release bound by the removal authority, and only the members that are
  missing: nothing is restored without a removal authority, for facts of another release or invalid ones,
  and a plan never touches a member that is present.
\<close>

theorem restoration_is_exact:
  "exact_restoration L snap facts = Inr plan \<longleftrightarrow>
     (\<exists>a release. selected L snap = Inr (Some a) \<and> finishing_release L (sa_record a) = Some release
        \<and> lf_valid facts \<and> lf_release facts = release
        \<and> plan = (if lf_executable_present facts \<and> lf_installed_record_present facts then None
            else Some \<lparr>er_release = release, er_executable = \<not> lf_executable_present facts,
                       er_installed_record = \<not> lf_installed_record_present facts\<rparr>))"
  by (auto simp: exact_restoration_def restoration_release_def result_iff both_present_def)

end
