(* ===== verification/Base64.thy ===== *)
theory Base64
  imports Prelude
begin

text \<open>
  Base64 as the repository uses it: its own standard encoder with padding (\<open>base64_standard\<close> of
  \<open>subscription_artifact.rs\<close>), its own check of unpadded URL-safe text (\<open>valid_base64url_32\<close>), and
  an unpadded URL-safe reference codec, against which that check is proved complete and which stands
  for the \<open>base64\<close> crate where a concrete one is needed.  Bytes are 8-bit words.
\<close>

unbundle bit_operations_syntax

type_synonym u8 = "8 word"

definition byte_of :: "char \<Rightarrow> u8" where
  "byte_of c = of_nat (of_char c)"

section \<open>The standard encoder\<close>

definition BASE64_ALPHABET :: string where
  "BASE64_ALPHABET = ''ABCDEFGHIJKLMNOPQRSTUVWXYZabcdefghijklmnopqrstuvwxyz0123456789+/''"

text \<open>The four sextets of a chunk; a missing byte counts as zero.\<close>

definition sextet1 :: "u8 \<Rightarrow> u8" where "sextet1 a = drop_bit 2 a"
definition sextet2 :: "u8 \<Rightarrow> u8 \<Rightarrow> u8" where "sextet2 a b = push_bit 4 (a AND 3) OR drop_bit 4 b"
definition sextet3 :: "u8 \<Rightarrow> u8 \<Rightarrow> u8" where "sextet3 b c = push_bit 2 (b AND 15) OR drop_bit 6 c"
definition sextet4 :: "u8 \<Rightarrow> u8" where "sextet4 c = c AND 63"

definition sextets :: "u8 \<Rightarrow> u8 \<Rightarrow> u8 \<Rightarrow> u8 list" where
  "sextets a b c = [sextet1 a, sextet2 a b, sextet3 b c, sextet4 c]"

definition base64_char :: "string \<Rightarrow> u8 \<Rightarrow> char" where
  "base64_char alphabet v = alphabet ! unat v"

fun base64_standard :: "u8 list \<Rightarrow> string" where
  "base64_standard [] = []"
| "base64_standard [a] =
     map (base64_char BASE64_ALPHABET) (take 2 (sextets a 0 0)) @ ''==''"
| "base64_standard [a, b] =
     map (base64_char BASE64_ALPHABET) (take 3 (sextets a b 0)) @ ''=''"
| "base64_standard (a # b # c # rest) =
     map (base64_char BASE64_ALPHABET) (sextets a b c) @ base64_standard rest"

section \<open>The check of unpadded URL-safe text\<close>

definition base64url_value :: "char \<Rightarrow> u8 option" where
  "base64url_value c =
     (if is_ascii_uppercase c then Some (byte_of c - byte_of CHR ''A'')
      else if is_ascii_lowercase c then Some (byte_of c - byte_of CHR ''a'' + 26)
      else if is_ascii_digit c then Some (byte_of c - byte_of CHR ''0'' + 52)
      else if c = CHR ''-'' then Some 62
      else if c = CHR ''_'' then Some 63
      else None)"

definition is_crlf :: "char \<Rightarrow> bool" where
  "is_crlf c = (c = CHR 0x0D \<or> c = CHR 0x0A)"

text \<open>The loop of \<open>valid_base64url_32\<close>, with its two variables.\<close>

fun base64url_scan :: "bool \<Rightarrow> nat \<Rightarrow> u8 \<Rightarrow> string \<Rightarrow> bool" where
  "base64url_scan ignore_crlf count bits [] = (count = 43 \<and> bits AND 3 = 0)"
| "base64url_scan ignore_crlf count bits (c # cs) =
     (if ignore_crlf \<and> is_crlf c then base64url_scan ignore_crlf count bits cs
      else case base64url_value c of
             None \<Rightarrow> False
           | Some b \<Rightarrow> if count + 1 > 43 then False else base64url_scan ignore_crlf (count + 1) b cs)"

definition valid_base64url_32 :: "string \<Rightarrow> bool \<Rightarrow> bool" where
  "valid_base64url_32 value ignore_crlf = base64url_scan ignore_crlf 0 0 value"

section \<open>The reference codec\<close>

definition URL_ALPHABET :: string where
  "URL_ALPHABET = ''ABCDEFGHIJKLMNOPQRSTUVWXYZabcdefghijklmnopqrstuvwxyz0123456789-_''"

fun url_encode :: "u8 list \<Rightarrow> string" where
  "url_encode [] = []"
| "url_encode [a] = map (base64_char URL_ALPHABET) (take 2 (sextets a 0 0))"
| "url_encode [a, b] = map (base64_char URL_ALPHABET) (take 3 (sextets a b 0))"
| "url_encode (a # b # c # rest) = map (base64_char URL_ALPHABET) (sextets a b c) @ url_encode rest"

text \<open>The bytes of a chunk of sextets, from the values of its characters.\<close>

definition byte1 :: "u8 \<Rightarrow> u8 \<Rightarrow> u8" where "byte1 p q = push_bit 2 p OR drop_bit 4 q"
definition byte2 :: "u8 \<Rightarrow> u8 \<Rightarrow> u8" where "byte2 q r = push_bit 4 (q AND 15) OR drop_bit 2 r"
definition byte3 :: "u8 \<Rightarrow> u8 \<Rightarrow> u8" where "byte3 r s = push_bit 6 (r AND 3) OR s"

text \<open>Decoding sextet values; the unused bits of a last incomplete chunk are ignored.\<close>

fun unsextets :: "u8 list \<Rightarrow> u8 list option" where
  "unsextets [] = Some []"
| "unsextets [p] = None"
| "unsextets [p, q] = Some [byte1 p q]"
| "unsextets [p, q, r] = Some [byte1 p q, byte2 q r]"
| "unsextets (p # q # r # s # rest) =
     map_option (\<lambda>bs. byte1 p q # byte2 q r # byte3 r s # bs) (unsextets rest)"

fun sextet_values :: "(char \<Rightarrow> u8 option) \<Rightarrow> string \<Rightarrow> u8 list option" where
  "sextet_values f [] = Some []"
| "sextet_values f (c # cs) = (case f c of None \<Rightarrow> None | Some v \<Rightarrow> map_option ((#) v) (sextet_values f cs))"

definition url_decode :: "string \<Rightarrow> u8 list option" where
  "url_decode s = Option.bind (sextet_values base64url_value s) unsextets"

section \<open>Sextets and bytes\<close>

lemma bit_below_8: "(n::nat) < 8 \<Longrightarrow> n = 0 \<or> n = 1 \<or> n = 2 \<or> n = 3 \<or> n = 4 \<or> n = 5 \<or> n = 6 \<or> n = 7"
  by arith

lemma byte_eqI:
  fixes a b :: u8
  assumes "bit a 0 = bit b 0" "bit a 1 = bit b 1" "bit a 2 = bit b 2" "bit a 3 = bit b 3"
    "bit a 4 = bit b 4" "bit a 5 = bit b 5" "bit a 6 = bit b 6" "bit a 7 = bit b 7"
  shows "a = b"
proof (rule bit_word_eqI)
  fix n assume "n < LENGTH(8)"
  then have "n < 8" by simp
  from bit_below_8 [OF this] assms show "bit a n = bit b n" by (elim disjE) simp_all
qed

lemma no_bit_above [simp]: "8 \<le> n \<Longrightarrow> bit (a :: u8) n = False"
  using bit_imp_le_length [of a n] by auto

text \<open>A sextet has only its six low bits set.\<close>

definition is_sextet :: "u8 \<Rightarrow> bool" where
  "is_sextet v = (\<not> bit v 6 \<and> \<not> bit v 7)"

lemma is_sextet_iff: "is_sextet v \<longleftrightarrow> unat v < 64"
proof -
  have "is_sextet v \<longleftrightarrow> take_bit 6 v = v"
  proof
    assume "take_bit 6 v = v"
    then have "bit v n \<longleftrightarrow> n < 6 \<and> bit v n" for n by (metis bit_take_bit_iff)
    from this [of 6] this [of 7] show "is_sextet v" by (simp add: is_sextet_def)
  qed (intro byte_eqI; simp add: is_sextet_def bit_simps)
  also have "\<dots> \<longleftrightarrow> unat v < 64"
  proof -
    have "unat (take_bit 6 v) = take_bit 6 (unat v)" by (simp add: unsigned_take_bit_eq)
    then have "unat (take_bit 6 v) = unat v mod 64" by (simp add: take_bit_nat_def)
    then show ?thesis unfolding word_unat_eq_iff by simp (metis mod_less mod_less_divisor zero_less_numeral)
  qed
  finally show ?thesis .
qed

lemmas sextet_defs = sextet1_def sextet2_def sextet3_def sextet4_def

lemmas byte_defs = byte1_def byte2_def byte3_def

lemma sextets_are [simp]:
  "is_sextet (sextet1 a)" "is_sextet (sextet2 a b)" "is_sextet (sextet3 b c)" "is_sextet (sextet4 c)"
  by (simp_all add: sextet_defs is_sextet_def bit_simps)

lemma bytes_of_sextets [simp]:
  "byte1 (sextet1 a) (sextet2 a b) = a" "byte2 (sextet2 a b) (sextet3 b c) = b"
  "byte3 (sextet3 b c) (sextet4 c) = c"
  by (rule byte_eqI; simp add: sextet_defs byte_defs bit_simps)+

lemma sextets_of_bytes:
  "is_sextet p \<Longrightarrow> is_sextet q \<Longrightarrow> sextet1 (byte1 p q) = p"
  "is_sextet p \<Longrightarrow> is_sextet q \<Longrightarrow> is_sextet r \<Longrightarrow> sextet2 (byte1 p q) (byte2 q r) = q"
  "is_sextet q \<Longrightarrow> is_sextet r \<Longrightarrow> is_sextet s \<Longrightarrow> sextet3 (byte2 q r) (byte3 r s) = r"
  "is_sextet r \<Longrightarrow> is_sextet s \<Longrightarrow> sextet4 (byte3 r s) = s"
  by (intro byte_eqI; simp add: sextet_defs byte_defs bit_simps is_sextet_def)+

text \<open>The last byte of an incomplete chunk, whose unused bits are zero.\<close>

lemma last_sextets:
  "is_sextet p \<Longrightarrow> is_sextet q \<Longrightarrow> q AND 15 = 0 \<Longrightarrow> sextet2 (byte1 p q) 0 = q"
  "is_sextet q \<Longrightarrow> is_sextet r \<Longrightarrow> r AND 3 = 0 \<Longrightarrow> sextet3 (byte2 q r) 0 = r"
  "sextet2 a 0 AND 15 = 0" "sextet3 a 0 AND 3 = 0"
proof -
  assume q: "is_sextet q" "is_sextet p" "q AND 15 = 0"
  have "byte2 q 0 = 0" using q(3) by (simp add: byte2_def)
  with sextets_of_bytes(2) [OF q(2,1), of 0] show "sextet2 (byte1 p q) 0 = q" by (simp add: is_sextet_def)
next
  assume r: "is_sextet q" "is_sextet r" "r AND 3 = 0"
  have "byte3 r 0 = 0" using r(3) by (simp add: byte3_def)
  with sextets_of_bytes(3) [OF r(1,2), of 0] show "sextet3 (byte2 q r) 0 = r" by (simp add: is_sextet_def)
qed (intro byte_eqI; simp add: sextet_defs bit_simps)+

section \<open>Characters and sextets\<close>

lemma url_alphabet: "URL_ALPHABET = map char_of ([65..<91] @ [97..<123] @ [48..<58] @ [45, 95 :: nat])"
  by code_simp

definition url_code :: "nat \<Rightarrow> nat" where
  "url_code n = (if n < 26 then 65 + n else if n < 52 then 71 + n else if n < 62 then n - 4
     else if n = 62 then 45 else 95)"

lemma url_alphabet_nth: "n < 64 \<Longrightarrow> URL_ALPHABET ! n = char_of (url_code n)"
  unfolding url_alphabet url_code_def by (auto simp: nth_append nth_Cons')

text \<open>Reading a character by its code.\<close>

lemma url_value_code:
  assumes "m < 256"
  shows "base64url_value (char_of m) =
    (if 65 \<le> m \<and> m < 91 then Some (of_nat (m - 65)) else if 97 \<le> m \<and> m < 123 then Some (of_nat (m - 71))
     else if 48 \<le> m \<and> m < 58 then Some (of_nat (m + 4)) else if m = 45 then Some 62
     else if m = 95 then Some 63 else None)"
proof -
  have e: "char_of m = CHR ''-'' \<longleftrightarrow> m = 45" "char_of m = CHR ''_'' \<longleftrightarrow> m = 95"
    "char_of (45 :: nat) = CHR ''-''" "char_of (95 :: nat) = CHR ''_''"
    using assms by (auto simp: char_of_eq_iff take_bit_nat_eq_self)
  show ?thesis
    using assms by (simp add: base64url_value_def is_ascii_uppercase_def is_ascii_lowercase_def
        is_ascii_digit_def less_eq_char_def byte_of_def e)
qed

lemma char_by_code: "\<exists>m :: nat. m < 256 \<and> c = char_of m"
  by (intro exI [of _ "of_char c"]) simp

lemma url_value_char [simp]:
  assumes "is_sextet v"
  shows "base64url_value (base64_char URL_ALPHABET v) = Some v"
proof -
  have n: "unat v < 64" using assms by (simp add: is_sextet_iff)
  have "url_code (unat v) < 256" using n by (auto simp: url_code_def)
  from url_value_code [OF this] n show ?thesis
    by (auto simp: base64_char_def url_alphabet_nth url_code_def word_unat_eq_iff)
qed

lemma url_value_Some:
  assumes "base64url_value c = Some v"
  shows "is_sextet v \<and> base64_char URL_ALPHABET v = c"
proof -
  obtain m :: nat where m: "m < 256" "c = char_of m" using char_by_code [of c] by blast
  define n where "n = (if 65 \<le> m \<and> m < 91 then m - 65 else if 97 \<le> m \<and> m < 123 then m - 71
    else if 48 \<le> m \<and> m < 58 then m + 4 else if m = 45 then 62 else 63)"
  have n: "v = of_nat n" "n < 64" "m = url_code n"
    using assms url_value_code [OF m(1)] m
    by (simp_all add: n_def url_code_def del: of_nat_diff split: if_splits) linarith+
  have "unat v = n" using n by (simp add: unsigned_of_nat take_bit_nat_eq_self)
  with n m show ?thesis by (simp add: is_sextet_iff base64_char_def url_alphabet_nth)
qed

lemma sextet_values_iff:
  "sextet_values base64url_value s = Some vs \<longleftrightarrow> list_all is_sextet vs \<and> s = map (base64_char URL_ALPHABET) vs"
proof (induction s arbitrary: vs)
  case (Cons c cs)
  show ?case
    by (cases vs) (auto simp: Cons.IH split: option.splits dest: url_value_Some)
qed auto

section \<open>Round trips\<close>

text \<open>The sextets of a byte sequence, and which sextet sequences are one.\<close>

fun all_sextets :: "u8 list \<Rightarrow> u8 list" where
  "all_sextets [] = []"
| "all_sextets [a] = take 2 (sextets a 0 0)"
| "all_sextets [a, b] = take 3 (sextets a b 0)"
| "all_sextets (a # b # c # rest) = sextets a b c @ all_sextets rest"

fun canonical_sextets :: "u8 list \<Rightarrow> bool" where
  "canonical_sextets [] = True"
| "canonical_sextets [p] = False"
| "canonical_sextets [p, q] = (q AND 15 = 0)"
| "canonical_sextets [p, q, r] = (r AND 3 = 0)"
| "canonical_sextets (p # q # r # s # rest) = canonical_sextets rest"

lemma url_encode_sextets: "url_encode bs = map (base64_char URL_ALPHABET) (all_sextets bs)"
  by (induction bs rule: url_encode.induct) simp_all

lemma all_sextets_are: "list_all is_sextet (all_sextets bs)"
  by (induction bs rule: all_sextets.induct) (simp_all add: sextets_def)

lemma all_sextets_canonical: "canonical_sextets (all_sextets bs)"
  by (induction bs rule: all_sextets.induct) (simp_all add: sextets_def last_sextets)

lemma length_all_sextets: "length (all_sextets bs) = (4 * length bs + 2) div 3"
  by (induction bs rule: all_sextets.induct) (simp_all add: sextets_def)

lemma unsextets_all_sextets: "unsextets (all_sextets bs) = Some bs"
  by (induction bs rule: all_sextets.induct) (simp_all add: sextets_def)

lemma all_sextets_unsextets:
  "\<lbrakk>list_all is_sextet vs; canonical_sextets vs; unsextets vs = Some bs\<rbrakk> \<Longrightarrow> all_sextets bs = vs"
  by (induction vs arbitrary: bs rule: unsextets.induct)
     (auto simp: sextets_def sextets_of_bytes last_sextets)

lemma unsextets_length: "unsextets vs = Some bs \<Longrightarrow> length bs = 3 * length vs div 4"
  by (induction vs arbitrary: bs rule: unsextets.induct) auto

lemma unsextets_defined: "unsextets vs = None \<longleftrightarrow> length vs mod 4 = 1"
  by (induction vs rule: unsextets.induct) (auto simp: mod_Suc)

lemma url_decode_encode [simp]: "url_decode (url_encode bs) = Some bs"
  using sextet_values_iff [of "url_encode bs" "all_sextets bs"] all_sextets_are [of bs]
  by (simp add: url_decode_def url_encode_sextets unsextets_all_sextets)


section \<open>The check accepts exactly the canonical texts\<close>

lemma scan_without_crlf: "base64url_scan True n b s = base64url_scan False n b (filter (Not \<circ> is_crlf) s)"
  by (induction s arbitrary: n b) (auto split: option.split)

lemma scan_values:
  "base64url_scan False n b s \<longleftrightarrow>
     (\<exists>vs. sextet_values base64url_value s = Some vs \<and> n + length vs = 43 \<and> last (b # vs) AND 3 = 0)"
proof (induction s arbitrary: n b)
  case (Cons c cs)
  show ?case
  proof (cases "base64url_value c")
    case (Some v)
    then have "base64url_scan False n b (c # cs) \<longleftrightarrow> n + 1 \<le> 43 \<and> base64url_scan False (n + 1) v cs" by auto
    also have "\<dots> \<longleftrightarrow> (\<exists>vs. sextet_values base64url_value cs = Some vs \<and> n + 1 + length vs = 43 \<and> last (v # vs) AND 3 = 0)"
      unfolding Cons.IH by (metis le_add1)
    also have "\<dots> \<longleftrightarrow> (\<exists>vs. sextet_values base64url_value (c # cs) = Some vs \<and> n + length vs = 43 \<and> last (b # vs) AND 3 = 0)"
      using Some by (cases "sextet_values base64url_value cs") simp_all
    finally show ?thesis .
  qed simp
qed auto

lemma canonical_last:
  assumes "length vs mod 4 = 3"
  shows "canonical_sextets vs \<longleftrightarrow> last vs AND 3 = 0"
  using assms
proof (induction vs rule: canonical_sextets.induct)
  case (5 p q r s rest)
  have "length (p # q # r # s # rest) = length rest + 4" by simp
  then have m: "length rest mod 4 = 3" using 5(2) by (simp only: mod_add_self2)
  then have "rest \<noteq> []" by auto
  with 5(1) [OF m] show ?case by simp
qed simp_all

lemma valid_base64url_32_iff: "valid_base64url_32 s False \<longleftrightarrow> (\<exists>key. length key = 32 \<and> s = url_encode key)"
proof
  assume "valid_base64url_32 s False"
  then obtain vs where v: "sextet_values base64url_value s = Some vs" "length vs = 43" "last vs AND 3 = 0"
    by (auto simp: valid_base64url_32_def scan_values split: if_splits)
  obtain key where k: "unsextets vs = Some key" using unsextets_defined [of vs] v(2) by (cases "unsextets vs") auto
  have "all_sextets key = vs"
    using all_sextets_unsextets [of vs key] canonical_last [of vs] v k by (simp add: sextet_values_iff)
  then show "\<exists>key. length key = 32 \<and> s = url_encode key"
    using v(1,2) unsextets_length [OF k] by (auto simp: sextet_values_iff url_encode_sextets)
next
  assume "\<exists>key. length key = 32 \<and> s = url_encode key"
  then obtain key where k: "length key = 32" "s = url_encode key" by blast
  let ?vs = "all_sextets key"
  have l: "length ?vs = 43" using k(1) by (simp add: length_all_sextets)
  then have "last ?vs AND 3 = 0" "?vs \<noteq> []" using canonical_last [of ?vs] all_sextets_canonical [of key] by auto
  with l k(2) all_sextets_are [of key] show "valid_base64url_32 s False"
    by (auto simp: valid_base64url_32_def scan_values sextet_values_iff url_encode_sextets)
qed

lemma valid_base64url_32_crlf: "valid_base64url_32 s True = valid_base64url_32 (filter (Not \<circ> is_crlf) s) False"
  by (simp add: valid_base64url_32_def scan_without_crlf)

section \<open>The standard encoder\<close>

text \<open>The standard alphabet differs from the URL-safe one in its last two characters; the padding fills the chunk.\<close>

definition standard_char :: "char \<Rightarrow> char" where
  "standard_char c = (if c = CHR ''-'' then CHR ''+'' else if c = CHR ''_'' then CHR ''/'' else c)"

definition padding :: "nat \<Rightarrow> string" where
  "padding n = replicate ((3 - n mod 3) mod 3) CHR ''=''"

lemma standard_alphabet: "BASE64_ALPHABET = map standard_char URL_ALPHABET"
  by code_simp

lemma base64_char_standard: "is_sextet v \<Longrightarrow> base64_char BASE64_ALPHABET v = standard_char (base64_char URL_ALPHABET v)"
  unfolding base64_char_def standard_alphabet is_sextet_iff by (rule nth_map) (simp add: URL_ALPHABET_def)

lemma replicate2: "replicate 2 x = [x, x]"
  by (simp add: numeral_2_eq_2)

lemma base64_standard_eq: "base64_standard bs = map standard_char (url_encode bs) @ padding (length bs)"
  by (induction bs rule: base64_standard.induct) (simp_all add: sextets_def base64_char_standard padding_def replicate2)

end
