(* ===== verification/Subscription_Artifact.thy ===== *)
theory Subscription_Artifact
  imports Base64 Release_Identity Net_Addr
begin

text \<open>
  \<open>src/subscription_artifact.rs\<close>: the client codecs.  Validated connection facts and the two artifacts made
  of them (the subscription text and the outside-client JSON), the Subscription Link credential, and the HTTP
  link with its parser.  Newtypes around strings are the strings; \<open>Err(ArtifactError)\<close> is \<open>None\<close>, and an
  \<open>Ipv4Addr\<close> is the list of its octets.
\<close>

unbundle bit_operations_syntax

definition MAX_SUBSCRIPTION_BYTES :: nat where
  "MAX_SUBSCRIPTION_BYTES = 4096"

definition VMESS_WEBSOCKET_PATH :: string where
  "VMESS_WEBSOCKET_PATH = ''/sbxr-vmess''"

section \<open>Syntax of the values\<close>

definition canonical_ipv4_addr :: "string \<Rightarrow> nat list option" where
  "canonical_ipv4_addr value =
     (case parse_ipv4 value of
        None \<Rightarrow> None
      | Some ip \<Rightarrow> if show_ipv4 ip \<noteq> value then None else Some ip)"

definition valid_uuid :: "string \<Rightarrow> bool" where
  "valid_uuid value =
     (length value = 36
      \<and> list_all (\<lambda>(i, b).
            if i \<in> {8, 13, 18, 23} then b = CHR ''-''
            else if i = 14 then b = CHR ''4''
            else if i = 19 then b \<in> {CHR ''8'', CHR ''9'', CHR ''a'', CHR ''b''}
            else lower_hex_byte b) (enumerate 0 value))"

definition valid_server_name :: "string \<Rightarrow> bool" where
  "valid_server_name value =
     (value \<noteq> [] \<and> length value \<le> 253
      \<and> is_ascii_alphanumeric (hd value) \<and> is_ascii_alphanumeric (last value)
      \<and> list_all (\<lambda>b. is_ascii_alphanumeric b \<or> b = CHR ''.'' \<or> b = CHR ''-'') value)"

definition valid_end :: "char \<Rightarrow> bool" where
  "valid_end b = (is_ascii_lowercase b \<or> is_ascii_digit b)"

definition valid_label :: "string \<Rightarrow> bool" where
  "valid_label label =
     (label \<noteq> [] \<and> length label \<le> 63 \<and> valid_end (hd label) \<and> valid_end (last label)
      \<and> list_all (\<lambda>b. valid_end b \<or> b = CHR ''-'') label)"

definition valid_vmess_hostname :: "string \<Rightarrow> bool" where
  "valid_vmess_hostname value =
     (length value \<le> 253 \<and> CHR ''.'' \<in> set value \<and> parse_ipv4 value = None
      \<and> list_all valid_label (split_char CHR ''.'' value))"

definition HEX_UPPER :: string where
  "HEX_UPPER = ''0123456789ABCDEF''"

definition unreserved :: "char \<Rightarrow> bool" where
  "unreserved b = (is_ascii_alphanumeric b \<or> b \<in> {CHR ''-'', CHR ''_'', CHR ''.'', CHR ''~''})"

fun percent_escape :: "string \<Rightarrow> string" where
  "percent_escape [] = []"
| "percent_escape (b # bs) =
     (if unreserved b then [b]
      else [CHR ''%'', HEX_UPPER ! unat (drop_bit 4 (byte_of b)), HEX_UPPER ! unat (byte_of b AND 15)])
     @ percent_escape bs"

section \<open>Connection facts\<close>

record connection_facts =
  cf_public_ipv4 :: "nat list"
  cf_uuid :: string
  cf_server_name :: string
  cf_public_key :: string
  cf_short_id :: string
  cf_vmess_hostname :: "string option"

definition new_facts ::
  "string \<Rightarrow> string \<Rightarrow> string \<Rightarrow> string \<Rightarrow> string \<Rightarrow> string option \<Rightarrow> connection_facts option" where
  "new_facts ipv4 uuid server_name public_key short_id hostname =
     (case canonical_ipv4_addr ipv4 of
        None \<Rightarrow> None
      | Some ip \<Rightarrow>
          let hostname = (case hostname of Some h \<Rightarrow> if h = [] then None else Some h | None \<Rightarrow> None) in
          if \<not> valid_uuid uuid \<or> \<not> valid_server_name server_name
             \<or> length public_key > MAX_SUBSCRIPTION_BYTES \<or> \<not> valid_base64url_32 public_key True
             \<or> length short_id \<noteq> 8 \<or> \<not> list_all lower_hex_byte short_id
             \<or> is_some_and (\<lambda>h. \<not> valid_vmess_hostname h) hostname
          then None
          else Some \<lparr>cf_public_ipv4 = ip, cf_uuid = uuid, cf_server_name = server_name,
                     cf_public_key = public_key, cf_short_id = short_id, cf_vmess_hostname = hostname\<rparr>)"

section \<open>The artifacts\<close>

definition vless_uri :: "connection_facts \<Rightarrow> string" where
  "vless_uri f =
     (let ip = show_ipv4 (cf_public_ipv4 f) in
      ''vless://'' @ cf_uuid f @ ''@'' @ ip
      @ '':443?encryption=none&flow=xtls-rprx-vision&security=reality&sni='' @ percent_escape (cf_server_name f)
      @ ''&fp=chrome&pbk='' @ percent_escape (cf_public_key f)
      @ ''&sid='' @ percent_escape (cf_short_id f)
      @ ''&type=tcp#'' @ percent_escape (''SBXR Proxy ('' @ ip @ '')''))"

definition vmess_node :: "connection_facts \<Rightarrow> string \<Rightarrow> json" where
  "vmess_node f hostname =
     JObj (bt_of [(''v'', JStr ''2''), (''ps'', JStr (''SBXR VMess ('' @ hostname @ '')'')),
       (''add'', JStr hostname), (''port'', JStr ''443''), (''id'', JStr (cf_uuid f)), (''aid'', JStr ''0''),
       (''scy'', JStr ''auto''), (''net'', JStr ''ws''), (''type'', JStr ''none''), (''host'', JStr hostname),
       (''path'', JStr VMESS_WEBSOCKET_PATH), (''tls'', JStr ''tls''), (''sni'', JStr hostname)])"

definition subscription_artifact :: "lib \<Rightarrow> connection_facts \<Rightarrow> bytes option" where
  "subscription_artifact L f =
     (let artifact = vless_uri f @ [newline];
          artifact = (case cf_vmess_hostname f of
              None \<Rightarrow> artifact
            | Some hostname \<Rightarrow>
                artifact @ ''vmess://'' @ base64_standard (map byte_of (to_vec L (vmess_node f hostname))) @ [newline])
      in if length artifact > MAX_SUBSCRIPTION_BYTES then None else Some artifact)"

text \<open>\<open>json!\<close> makes a \<open>Value\<close>, whose objects are sorted; the struct around it keeps its field order.\<close>

definition vless_outbound :: "connection_facts \<Rightarrow> json" where
  "vless_outbound f = value_of (JObj
     [(''type'', JStr ''vless''), (''tag'', JStr ''vless-out''), (''server'', JStr (show_ipv4 (cf_public_ipv4 f))),
      (''server_port'', JNum 443), (''uuid'', JStr (cf_uuid f)), (''flow'', JStr ''xtls-rprx-vision''),
      (''tls'', JObj
        [(''enabled'', JBool True), (''server_name'', JStr (cf_server_name f)),
         (''utls'', JObj [(''enabled'', JBool True), (''fingerprint'', JStr ''chrome'')]),
         (''reality'', JObj [(''enabled'', JBool True), (''public_key'', JStr (cf_public_key f)),
            (''short_id'', JStr (cf_short_id f))])])])"

definition vmess_outbound :: "connection_facts \<Rightarrow> string \<Rightarrow> json" where
  "vmess_outbound f hostname = value_of (JObj
     [(''type'', JStr ''vmess''), (''tag'', JStr ''vmess-ws-out''), (''server'', JStr hostname),
      (''server_port'', JNum 443), (''uuid'', JStr (cf_uuid f)), (''security'', JStr ''auto''),
      (''tls'', JObj [(''enabled'', JBool True), (''server_name'', JStr hostname)]),
      (''transport'', JObj [(''type'', JStr ''ws''), (''path'', JStr VMESS_WEBSOCKET_PATH),
         (''headers'', JObj [(''Host'', JStr hostname)])])])"

definition client_configuration :: "lib \<Rightarrow> connection_facts \<Rightarrow> bytes" where
  "client_configuration L f =
     to_vec L (JObj
       [(''log'', value_of (JObj [(''level'', JStr ''warn''), (''timestamp'', JBool True)])),
        (''inbounds'', JArr [value_of (JObj [(''type'', JStr ''mixed''), (''tag'', JStr ''mixed-in''),
           (''listen'', JStr ''127.0.0.1''), (''listen_port'', JNum 2080)])]),
        (''outbounds'', JArr (vless_outbound f #
           (case cf_vmess_hostname f of None \<Rightarrow> [] | Some hostname \<Rightarrow> [vmess_outbound f hostname])))])
     @ [newline]"

section \<open>The credential and the link\<close>

definition parse_credential :: "string \<Rightarrow> string option" where
  "parse_credential value = (if length value \<noteq> 43 \<or> \<not> valid_base64url_32 value False then None else Some value)"

definition credential_sha256 :: "lib \<Rightarrow> string \<Rightarrow> string" where
  "credential_sha256 L credential = sha256_hex L credential"

definition new_link :: "string \<Rightarrow> string \<Rightarrow> string option" where
  "new_link ipv4 credential =
     map_option (\<lambda>ip. ''http://'' @ show_ipv4 ip @ '':8443/s/'' @ credential) (canonical_ipv4_addr ipv4)"

text \<open>\<open>str::split_once\<close> on a string: the first occurrence.\<close>

fun split_once_str :: "string \<Rightarrow> string \<Rightarrow> (string \<times> string) option" where
  "split_once_str p [] = (if p = [] then Some ([], []) else None)"
| "split_once_str p (c # cs) =
     (if starts_with p (c # cs) then Some ([], drop (length p) (c # cs))
      else map_option (\<lambda>(a, b). (c # a, b)) (split_once_str p cs))"

definition parse_link :: "string \<Rightarrow> string option" where
  "parse_link value = do {
     rest \<leftarrow> strip_prefix ''http://'' value;
     (ip, token) \<leftarrow> split_once_str '':8443/s/'' rest;
     credential \<leftarrow> parse_credential token;
     new_link ip credential
   }"


section \<open>Addresses and links\<close>

lemma canonical_ipv4_addr_Some:
  "canonical_ipv4_addr v = Some ip \<longleftrightarrow> parse_ipv4 v = Some ip \<and> show_ipv4 ip = v"
  by (auto simp: canonical_ipv4_addr_def split: option.splits if_splits)

lemma canonical_ipv4_addr_iff: "canonical_ipv4 v \<longleftrightarrow> (\<exists>ip. canonical_ipv4_addr v = Some ip)"
  by (auto simp: canonical_ipv4_def canonical_ipv4_addr_def split: option.splits)

definition address_char :: "char \<Rightarrow> bool" where
  "address_char c = (is_ascii_digit c \<or> c = CHR ''.'')"

lemma to_digit_10: "to_digit 10 c \<noteq> None \<Longrightarrow> is_ascii_digit c"
  by (auto simp: to_digit_def digit_value_def is_ascii_digit_def less_eq_char_def split: if_splits)

lemma list4_cases: "length os = 4 \<Longrightarrow> \<exists>a b c d. os = [a, b, c, d]"
  by (auto simp: eval_nat_numeral length_Suc_conv)

lemma parsed_address:
  assumes "parse_ipv4 v = Some ip"
  shows "list_all address_char (show_ipv4 ip)" and "length (show_ipv4 ip) \<le> 15"
    and "canonical_ipv4_addr (show_ipv4 ip) = Some ip"
proof -
  obtain a b c d where ip: "ip = [a, b, c, d]" and bound: "a \<le> 255" "b \<le> 255" "c \<le> 255" "d \<le> 255"
    using parse_ipv4_shape [OF assms] list4_cases [of ip] by auto
  have "list_all is_ascii_digit (show_u8 x)" if "x \<le> 255" for x
    using show_u8_digits(4) [OF that] to_digit_10 by (auto simp: list_all_iff)
  with bound have "list_all address_char (show_u8 x)" if "x \<in> {a, b, c, d}" for x
    using that by (auto simp: list_all_iff address_char_def)
  then show "list_all address_char (show_ipv4 ip)"
    by (simp add: ip show_ipv4_def address_char_def)
  show l: "length (show_ipv4 ip) \<le> 15"
    using bound [THEN show_u8_digits(2)] by (simp add: ip show_ipv4_def)
  show "canonical_ipv4_addr (show_ipv4 ip) = Some ip"
    using l read_ipv4_show [OF bound] by (simp add: canonical_ipv4_addr_Some parse_ipv4_def ip)
qed

lemma not_address_char [simp]: "\<not> address_char CHR '':''" "\<not> address_char newline" "\<not> address_char CHR ''@''"
  by (simp_all add: address_char_def is_ascii_digit_def newline_def)

lemma split_once_str_Some: "split_once_str p s = Some (a, b) \<Longrightarrow> s = a @ p @ b"
  by (induction s arbitrary: a b) (auto simp: starts_with_iff split: if_splits)

lemma split_once_str_first:
  assumes "c \<notin> set a"
  shows "split_once_str (c # p) (a @ (c # p) @ b) = Some (a, b)"
  using assms by (induction a) auto

lemma parse_credential_Some: "parse_credential t = Some c \<longleftrightarrow> c = t \<and> (\<exists>key. length key = 32 \<and> t = url_encode key)"
  using valid_base64url_32_iff [of t]
  by (auto simp: parse_credential_def url_encode_sextets length_all_sextets)

lemma new_link_parses:
  assumes "new_link ip c = Some l" and "parse_credential c = Some c"
  shows "parse_link l = Some l"
proof -
  obtain os where os: "canonical_ipv4_addr ip = Some os" and l: "l = ''http://'' @ show_ipv4 os @ '':8443/s/'' @ c"
    using assms(1) by (auto simp: new_link_def)
  have p: "parse_ipv4 ip = Some os" using os by (simp add: canonical_ipv4_addr_Some)
  have "CHR '':'' \<notin> set (show_ipv4 os)" using parsed_address(1) [OF p] by (auto simp: list_all_iff)
  from split_once_str_first [OF this, of "''8443/s/''" c] show ?thesis
    using l assms(2) parsed_address(3) [OF p] by (simp add: parse_link_def strip_prefix_def new_link_def)
qed

lemma parse_link_Some:
  assumes "parse_link v = Some l"
  shows "l = v \<and> (\<exists>ip t. canonical_ipv4 ip \<and> parse_credential t = Some t \<and> v = ''http://'' @ ip @ '':8443/s/'' @ t)"
proof -
  obtain rest ip t where s: "strip_prefix ''http://'' v = Some rest" "split_once_str '':8443/s/'' rest = Some (ip, t)"
      "parse_credential t = Some t" "new_link ip t = Some l"
    using assms by (auto simp: parse_link_def parse_credential_Some split: option.splits Option.bind_splits)
  have "v = ''http://'' @ ip @ '':8443/s/'' @ t"
    using s(1) split_once_str_Some [OF s(2)] by (auto simp: strip_prefix_def starts_with_iff split: if_splits)
  moreover have "l = ''http://'' @ ip @ '':8443/s/'' @ t" "canonical_ipv4 ip"
    using s(4) by (auto simp: new_link_def canonical_ipv4_addr_iff canonical_ipv4_addr_Some)
  ultimately show ?thesis using s(3) by blast
qed

section \<open>Percent escapes\<close>

text \<open>The reader of percent escapes that a client applies.\<close>

fun percent_unescape :: "string \<Rightarrow> string" where
  "percent_unescape [] = []"
| "percent_unescape (c # cs) =
     (case cs of
        h # l # rest \<Rightarrow>
          if c = CHR ''%'' then char_of (16 * the (digit_value h) + the (digit_value l)) # percent_unescape rest
          else c # percent_unescape cs
      | _ \<Rightarrow> c # percent_unescape cs)"

lemma unat_byte_of [simp]: "unat (byte_of c) = of_char c"
  by (simp add: byte_of_def unsigned_of_nat take_bit_nat_eq_self)

lemma byte_of_inj: "byte_of c = byte_of d \<longleftrightarrow> c = d"
  by (metis char_of_char unat_byte_of)

lemma nibbles: "unat (drop_bit 4 (byte_of b)) = of_char b div 16" "unat (byte_of b AND 15) = of_char b mod 16"
proof -
  have "(15 :: u8) = mask 4" by (simp add: mask_eq_exp_minus_1)
  then have "byte_of b AND 15 = take_bit 4 (byte_of b)" by (simp add: take_bit_eq_mask)
  then show "unat (byte_of b AND 15) = of_char b mod 16"
    by (simp add: unsigned_take_bit_eq take_bit_nat_def)
  show "unat (drop_bit 4 (byte_of b)) = of_char b div 16"
    by (simp add: unsigned_drop_bit_eq drop_bit_nat_def take_bit_nat_eq_self)
qed

lemma hex_upper_table: "list_all (\<lambda>n. digit_value (HEX_UPPER ! n) = Some n \<and> unreserved (HEX_UPPER ! n)) [0..<16]"
  by (simp add: HEX_UPPER_def upt_rec digit_value_def is_ascii_digit_def unreserved_def is_ascii_alphanumeric_def
      is_ascii_uppercase_def)

lemma hex_upper: "n < 16 \<Longrightarrow> digit_value (HEX_UPPER ! n) = Some n" "n < 16 \<Longrightarrow> unreserved (HEX_UPPER ! n)"
  using hex_upper_table by (simp_all add: list_all_iff)


lemma percent_unescape_simps:
  "c \<noteq> CHR ''%'' \<Longrightarrow> percent_unescape (c # cs) = c # percent_unescape cs"
  "percent_unescape (CHR ''%'' # h # l # rest) =
     char_of (16 * the (digit_value h) + the (digit_value l)) # percent_unescape rest"
  by (subst percent_unescape.simps(2), auto split: list.split simp del: percent_unescape.simps(2))+

declare percent_unescape.simps(2) [simp del]

lemma percent_unescape_escape: "percent_unescape (percent_escape s) = s"
proof (induction s)
  case (Cons b bs)
  have n: "of_char b div 16 < (16 :: nat)" "of_char b mod 16 < (16 :: nat)"
    by (simp_all add: less_mult_imp_div_less)
  show ?case
  proof (cases "unreserved b")
    case True
    then have "b \<noteq> CHR ''%''"
      by (auto simp: unreserved_def is_ascii_alphanumeric_def is_ascii_digit_def is_ascii_lowercase_def
          is_ascii_uppercase_def)
    with True Cons show ?thesis by (simp add: percent_unescape_simps)
  next
    case False
    then show ?thesis using Cons n by (simp add: percent_unescape_simps nibbles hex_upper)
  qed
qed simp

lemma percent_escape_inj: "percent_escape s = percent_escape t \<longleftrightarrow> s = t"
  by (metis percent_unescape_escape)

lemma percent_escape_chars: "c \<in> set (percent_escape s) \<Longrightarrow> unreserved c \<or> c = CHR ''%''"
proof (induction s)
  case (Cons b bs)
  have n: "of_char b div 16 < (16 :: nat)" "of_char b mod 16 < (16 :: nat)"
    by (simp_all add: less_mult_imp_div_less)
  show ?case using Cons n by (auto simp: nibbles hex_upper split: if_splits)
qed simp

lemma percent_escape_safe [simp]:
  "CHR ''&'' \<notin> set (percent_escape s)" "newline \<notin> set (percent_escape s)"
  using percent_escape_chars [of "CHR ''&''" s] percent_escape_chars [of newline s]
  by (auto simp: unreserved_def is_ascii_alphanumeric_def is_ascii_digit_def is_ascii_lowercase_def
      is_ascii_uppercase_def newline_def)

lemma percent_escape_unreserved: "list_all unreserved s \<Longrightarrow> percent_escape s = s"
  by (induction s) simp_all

lemma percent_escape_length: "length (percent_escape s) \<le> 3 * length s"
  by (induction s) auto

section \<open>Standard base64 is read back\<close>

text \<open>The reader of standard base64 that a client applies to the VMess part.\<close>

definition base64_decode :: "string \<Rightarrow> u8 list option" where
  "base64_decode s = url_decode (map (\<lambda>c. if c = CHR ''+'' then CHR ''-'' else if c = CHR ''/'' then CHR ''_'' else c)
     (filter (\<lambda>c. c \<noteq> CHR ''='') s))"

lemma url_encode_chars: "c \<in> set (url_encode bs) \<Longrightarrow> base64url_value c \<noteq> None"
  using all_sextets_are [of bs] by (auto simp: url_encode_sextets list_all_iff)

lemma standard_char_back:
  assumes "base64url_value c \<noteq> None"
  shows "standard_char c \<noteq> CHR ''=''"
    and "(if standard_char c = CHR ''+'' then CHR ''-'' else if standard_char c = CHR ''/'' then CHR ''_'' else standard_char c) = c"
proof -
  have "c \<notin> {CHR ''+'', CHR ''/'', CHR ''=''}"
    using assms by (auto simp: base64url_value_def is_ascii_digit_def is_ascii_lowercase_def is_ascii_uppercase_def)
  then show "standard_char c \<noteq> CHR ''=''"
    and "(if standard_char c = CHR ''+'' then CHR ''-'' else if standard_char c = CHR ''/'' then CHR ''_'' else standard_char c) = c"
    by (auto simp: standard_char_def)
qed

lemma base64_decode_standard: "base64_decode (base64_standard bs) = Some bs"
proof -
  have "filter (\<lambda>c. c \<noteq> CHR ''='') (base64_standard bs) = map standard_char (url_encode bs)"
    using url_encode_chars [of _ bs] standard_char_back(1)
    by (simp add: base64_standard_eq padding_def filter_id_conv)
  then have "base64_decode (base64_standard bs) = url_decode (url_encode bs)"
    unfolding base64_decode_def using url_encode_chars [of _ bs] standard_char_back(2)
    by (simp add: comp_def map_idI)
  then show ?thesis by simp
qed

lemma base64_standard_inj: "base64_standard a = base64_standard b \<longleftrightarrow> a = b"
  by (metis base64_decode_standard option.inject)

section \<open>Valid facts\<close>

definition valid_facts :: "connection_facts \<Rightarrow> bool" where
  "valid_facts f =
     (canonical_ipv4_addr (show_ipv4 (cf_public_ipv4 f)) = Some (cf_public_ipv4 f) \<and> valid_uuid (cf_uuid f)
      \<and> valid_server_name (cf_server_name f) \<and> length (cf_public_key f) \<le> MAX_SUBSCRIPTION_BYTES
      \<and> valid_base64url_32 (cf_public_key f) True \<and> length (cf_short_id f) = 8
      \<and> list_all lower_hex_byte (cf_short_id f) \<and> is_none_or valid_vmess_hostname (cf_vmess_hostname f))"

text \<open>An empty hostname is no hostname.\<close>

definition given_hostname :: "string option \<Rightarrow> string option" where
  "given_hostname host = (case host of Some h \<Rightarrow> if h = [] then None else Some h | None \<Rightarrow> None)"

lemma new_facts_Some:
  "new_facts ipv4 uuid name key sid host = Some f \<longleftrightarrow>
     valid_facts f \<and> ipv4 = show_ipv4 (cf_public_ipv4 f) \<and> uuid = cf_uuid f \<and> name = cf_server_name f
     \<and> key = cf_public_key f \<and> sid = cf_short_id f \<and> given_hostname host = cf_vmess_hostname f"
proof -
  have "new_facts ipv4 uuid name key sid host = Some f \<longleftrightarrow>
      (\<exists>ip. canonical_ipv4_addr ipv4 = Some ip \<and> valid_uuid uuid \<and> valid_server_name name
         \<and> length key \<le> MAX_SUBSCRIPTION_BYTES \<and> valid_base64url_32 key True \<and> length sid = 8
         \<and> list_all lower_hex_byte sid \<and> is_none_or valid_vmess_hostname (given_hostname host)
         \<and> f = \<lparr>cf_public_ipv4 = ip, cf_uuid = uuid, cf_server_name = name, cf_public_key = key,
                cf_short_id = sid, cf_vmess_hostname = given_hostname host\<rparr>)"
    by (auto simp: new_facts_def given_hostname_def Let_def split: option.splits if_splits)
  then show ?thesis
    by (cases f) (auto simp: valid_facts_def canonical_ipv4_addr_Some)
qed

section \<open>What an artifact tells\<close>

lemma delimited: "d \<notin> set a \<Longrightarrow> d \<notin> set b \<Longrightarrow> a @ d # s = b @ d # t \<longleftrightarrow> a = b \<and> s = t"
proof (induction a arbitrary: b)
  case Nil
  then show ?case by (cases b) auto
next
  case (Cons x a)
  then show ?case by (cases b) auto
qed

lemma valid_facts_address:
  assumes "valid_facts f"
  shows "CHR '':'' \<notin> set (show_ipv4 (cf_public_ipv4 f))" "length (show_ipv4 (cf_public_ipv4 f)) \<le> 15"
    "length (cf_uuid f) = 36"
proof -
  have p: "parse_ipv4 (show_ipv4 (cf_public_ipv4 f)) = Some (cf_public_ipv4 f)"
    using assms by (simp add: valid_facts_def canonical_ipv4_addr_Some)
  show "CHR '':'' \<notin> set (show_ipv4 (cf_public_ipv4 f))" "length (show_ipv4 (cf_public_ipv4 f)) \<le> 15"
    using parsed_address(1,2) [OF p] by (auto simp: list_all_iff)
  show "length (cf_uuid f) = 36" using assms by (simp add: valid_facts_def valid_uuid_def)
qed

text \<open>The text after the address, up to the line end.\<close>

definition vless_query :: "connection_facts \<Rightarrow> string" where
  "vless_query f = ''443?encryption=none&flow=xtls-rprx-vision&security=reality&sni='' @ percent_escape (cf_server_name f)
      @ CHR ''&'' # ''fp=chrome&pbk='' @ percent_escape (cf_public_key f)
      @ CHR ''&'' # ''sid='' @ percent_escape (cf_short_id f)
      @ CHR ''&'' # ''type=tcp#'' @ percent_escape (''SBXR Proxy ('' @ show_ipv4 (cf_public_ipv4 f) @ '')'')"

lemma vless_uri_query: "vless_uri f = ''vless://'' @ cf_uuid f @ CHR ''@'' # show_ipv4 (cf_public_ipv4 f) @ CHR '':'' # vless_query f"
  by (simp add: vless_uri_def vless_query_def Let_def)

lemma vless_query_inj:
  assumes "vless_query f @ newline # s = vless_query g @ newline # t"
    and "show_ipv4 (cf_public_ipv4 f) = show_ipv4 (cf_public_ipv4 g)"
  shows "cf_server_name f = cf_server_name g \<and> cf_public_key f = cf_public_key g \<and> cf_short_id f = cf_short_id g \<and> s = t"
  using assms by (simp add: vless_query_def delimited percent_escape_inj)

lemma vless_uri_inj:
  assumes f: "valid_facts f" and g: "valid_facts g" and e: "vless_uri f @ newline # s = vless_uri g @ newline # t"
  shows "f\<lparr>cf_vmess_hostname := None\<rparr> = g\<lparr>cf_vmess_hostname := None\<rparr> \<and> s = t"
proof -
  note V = valid_facts_address [OF f] valid_facts_address [OF g]
  have u: "cf_uuid f = cf_uuid g" and e1: "show_ipv4 (cf_public_ipv4 f) @ CHR '':'' # vless_query f @ newline # s
      = show_ipv4 (cf_public_ipv4 g) @ CHR '':'' # vless_query g @ newline # t"
    using e V(3,6) by (auto simp: vless_uri_query append_eq_append_conv)
  have a: "show_ipv4 (cf_public_ipv4 f) = show_ipv4 (cf_public_ipv4 g)"
    and q: "vless_query f @ newline # s = vless_query g @ newline # t"
    using e1 delimited [OF V(1,4)] by simp_all
  have "cf_public_ipv4 f = cf_public_ipv4 g" using f g a by (auto simp: valid_facts_def)
  then show ?thesis using u vless_query_inj [OF q a] by (cases f; cases g) simp
qed

definition vmess_part :: "lib \<Rightarrow> connection_facts \<Rightarrow> string" where
  "vmess_part L f = (case cf_vmess_hostname f of None \<Rightarrow> []
     | Some h \<Rightarrow> ''vmess://'' @ base64_standard (map byte_of (to_vec L (vmess_node f h))) @ [newline])"

lemma subscription_artifact_eq:
  "subscription_artifact L f =
     (if length (vless_uri f @ newline # vmess_part L f) > MAX_SUBSCRIPTION_BYTES then None
      else Some (vless_uri f @ newline # vmess_part L f))"
  by (auto simp: subscription_artifact_def vmess_part_def Let_def split: option.split)

lemma vmess_node_host: "jget ''add'' (vmess_node f h) = Some (JStr h)"
  by (simp add: vmess_node_def jget_def map_of_bt_of)

context json_text
begin

lemma vmess_part_inj:
  assumes "vmess_part L f = vmess_part L g"
  shows "cf_vmess_hostname f = cf_vmess_hostname g"
proof -
  have "h = k" if "map byte_of (to_vec L (vmess_node f h)) = map byte_of (to_vec L (vmess_node g k))" for h k
  proof -
    have "to_vec L (vmess_node f h) = to_vec L (vmess_node g k)"
      using that by (simp add: inj_map_eq_map inj_def byte_of_inj)
    then have "jget ''add'' (vmess_node f h) = jget ''add'' (vmess_node g k)" by (drule_tac to_vec_inj) simp
    then show ?thesis by (simp add: vmess_node_host)
  qed
  with assms show ?thesis by (auto simp: vmess_part_def base64_standard_inj split: option.splits)
qed

lemma artifact_inj:
  assumes "valid_facts f" "valid_facts g" "subscription_artifact L f = Some a" "subscription_artifact L g = Some a"
  shows "f = g"
proof -
  have "vless_uri f @ newline # vmess_part L f = vless_uri g @ newline # vmess_part L g"
    using assms(3,4) by (simp add: subscription_artifact_eq split: if_splits)
  from vless_uri_inj [OF assms(1,2) this] vmess_part_inj [of f g] show ?thesis by (cases f; cases g) simp
qed

end

section \<open>The artifact fits\<close>

lemma plain_key:
  assumes "valid_base64url_32 key True" and "\<not> list_ex is_crlf key"
  shows "length key = 43" and "list_all unreserved key"
proof -
  have "filter (Not \<circ> is_crlf) key = key" using assms(2) by (auto simp: filter_id_conv list_ex_iff)
  then obtain bs where b: "length bs = 32" "key = url_encode bs"
    using assms(1) by (auto simp: valid_base64url_32_crlf valid_base64url_32_iff)
  then show "length key = 43" by (simp add: url_encode_sextets length_all_sextets)
  have "unreserved c" if "base64url_value c \<noteq> None" for c
    using that by (auto simp: base64url_value_def unreserved_def is_ascii_alphanumeric_def split: if_splits)
  then show "list_all unreserved key" using b url_encode_chars [of _ bs] by (auto simp: list_all_iff)
qed

lemma vless_uri_length:
  assumes f: "valid_facts f" and k: "\<not> list_ex is_crlf (cf_public_key f)"
  shows "length (vless_uri f) \<le> 560"
proof -
  have n: "list_all unreserved (cf_server_name f)" "length (cf_server_name f) \<le> 253"
    using f by (auto simp: valid_facts_def valid_server_name_def list_all_iff unreserved_def)
  have s: "list_all unreserved (cf_short_id f)" "length (cf_short_id f) = 8"
    using f by (auto simp: valid_facts_def list_all_iff unreserved_def lower_hex_byte_def is_ascii_alphanumeric_def
        is_ascii_lowercase_def less_eq_char_def)
  have key: "length (cf_public_key f) = 43" "list_all unreserved (cf_public_key f)"
    using plain_key [OF _ k] f by (auto simp: valid_facts_def)
  show ?thesis
    using valid_facts_address [OF f] n s key percent_escape_length [of "''SBXR Proxy ('' @ show_ipv4 (cf_public_ipv4 f) @ '')''"]
    by (simp add: vless_uri_def Let_def percent_escape_unreserved)
qed

end
