(* ===== verification/Server_Configuration.thy ===== *)
theory Server_Configuration
  imports Subscription_Artifact Authority
begin

text \<open>
  \<open>src/server_configuration.rs\<close>: rendering of the proxy's server configuration, the decoder that accepts
  exactly the two supported shapes, and the two edits of a rendered configuration.  A \<open>ServerConfiguration\<close> is
  its bytes.  \<open>json_object\<close> of \<open>src/artifact_trust.rs\<close>, which refuses duplicate members and large documents, is
  here because this is its first caller.  \<open>as_str\<close> on a \<open>Value\<close> is \<open>de_str\<close>.
\<close>

section \<open>Unique JSON objects\<close>

definition MAX_JSON_NODES :: nat where
  "MAX_JSON_NODES = 100000"

primrec unique_json :: "json \<Rightarrow> bool" where
  "unique_json JNull = True"
| "unique_json (JBool b) = True"
| "unique_json (JNum n) = True"
| "unique_json (JStr s) = True"
| "unique_json (JArr xs) = list_all id (map unique_json xs)"
| "unique_json (JObj kvs) =
     (distinct (map fst kvs) \<and> list_all (id \<circ> snd) (map (map_prod id unique_json) kvs))"

primrec json_nodes :: "json \<Rightarrow> nat" where
  "json_nodes JNull = 1"
| "json_nodes (JBool b) = 1"
| "json_nodes (JNum n) = 1"
| "json_nodes (JStr s) = 1"
| "json_nodes (JArr xs) = 1 + sum_list (map json_nodes xs)"
| "json_nodes (JObj kvs) = 1 + sum_list (map snd (map (map_prod id json_nodes) kvs))"

definition is_object :: "json \<Rightarrow> bool" where
  "is_object j = (case j of JObj _ \<Rightarrow> True | _ \<Rightarrow> False)"

definition json_object :: "lib \<Rightarrow> bytes \<Rightarrow> nat \<Rightarrow> json option" where
  "json_object L bytes limit =
     (if bytes = [] \<or> length bytes > limit then None
      else case from_slice L bytes of
             None \<Rightarrow> None
           | Some j \<Rightarrow>
               if \<not> unique_json j \<or> json_nodes j > MAX_JSON_NODES \<or> \<not> is_object j then None
               else Some (value_of j))"

text \<open>\<open>value[i]\<close>: an element, or \<open>Null\<close>.\<close>

definition jnth :: "nat \<Rightarrow> json \<Rightarrow> json" where
  "jnth i j = (case j of JArr xs \<Rightarrow> if i < length xs then xs ! i else JNull | _ \<Rightarrow> JNull)"

section \<open>Identifiers\<close>

definition tunnel_id_syntax :: "string \<Rightarrow> bool" where
  "tunnel_id_syntax value =
     (length value = 36
      \<and> list_all (\<lambda>(i, b). if i \<in> {8, 13, 18, 23} then b = CHR ''-'' else lower_hex_byte b) (enumerate 0 value))"

definition valid_client_uuid :: "string \<Rightarrow> bool" where
  "valid_client_uuid value =
     (tunnel_id_syntax value \<and> value ! 14 = CHR ''4''
      \<and> value ! 19 \<in> {CHR ''8'', CHR ''9'', CHR ''a'', CHR ''b''})"

definition valid_digest :: "string \<Rightarrow> bool" where
  "valid_digest value = (length value = 64 \<and> list_all lower_hex_byte value)"

record server_identity =
  si_uuid :: string
  si_private_key :: string
  si_short_id :: string

definition key_char :: "char \<Rightarrow> bool" where
  "key_char b = (is_ascii_alphanumeric b \<or> b = CHR ''-'' \<or> b = CHR ''_'')"

definition server_identity_from :: "string \<Rightarrow> string \<Rightarrow> string \<Rightarrow> server_identity option" where
  "server_identity_from uuid private_key short_id =
     (let key = filter (Not \<circ> is_crlf) private_key in
      if \<not> valid_client_uuid uuid \<or> length short_id \<noteq> 8 \<or> \<not> list_all is_ascii_hexdigit short_id
         \<or> length key \<noteq> 43 \<or> \<not> list_all key_char key
      then None
      else Some \<lparr>si_uuid = uuid, si_private_key = private_key, si_short_id = short_id\<rparr>)"

section \<open>Destinations\<close>

text \<open>\<open>str::parse::<u16>\<close>: an optional plus sign, at least one digit, and a value that fits.\<close>

definition parse_unsigned :: "nat \<Rightarrow> string \<Rightarrow> nat option" where
  "parse_unsigned limit s =
     (let ds = (case s of c # cs \<Rightarrow> if c = CHR ''+'' then cs else s | [] \<Rightarrow> []) in
      if ds = [] \<or> \<not> list_all is_ascii_digit ds then None
      else let v = digits_value 10 ds in if v \<le> limit then Some v else None)"

text \<open>\<open>str::rsplit_once\<close> on one byte: the last occurrence.\<close>

definition rsplit_once :: "char \<Rightarrow> string \<Rightarrow> (string \<times> string) option" where
  "rsplit_once d s = map_option (\<lambda>(b, a). (rev a, rev b)) (split_once d (rev s))"

definition split_destination :: "string \<Rightarrow> (string \<times> nat) option" where
  "split_destination value = do {
     (host, port) \<leftarrow>
       (case strip_prefix ''['' value of
          Some bracketed \<Rightarrow> do {
            (host, suffix) \<leftarrow> split_once CHR '']'' bracketed;
            port \<leftarrow> strip_prefix '':'' suffix;
            Some (host, port)
          }
        | None \<Rightarrow> do {
            (host, port) \<leftarrow> rsplit_once CHR '':'' value;
            (if CHR '':'' \<in> set host then None else Some (host, port))
          });
     (if CHR ''['' \<in> set host \<or> CHR '']'' \<in> set host
         \<or> CHR ''['' \<in> set port \<or> CHR '']'' \<in> set port \<or> CHR '':'' \<in> set port then None
      else do {
        port \<leftarrow> parse_unsigned 65535 port;
        (if port = 0 then None else Some (host, port))
      })
   }"

section \<open>Rendering\<close>

text \<open>The characters that Go's \<open>encoding/json\<close> escapes; U+2028 and U+2029 are three bytes of UTF-8.\<close>

definition unicode_escape :: "string \<Rightarrow> string" where
  "unicode_escape digits = CHR 0x5C # CHR ''u'' # digits"

fun html_escape :: "string \<Rightarrow> string" where
  "html_escape [] = []"
| "html_escape (c # cs) =
     (if c = CHR ''<'' then unicode_escape ''003c'' @ html_escape cs
      else if c = CHR ''>'' then unicode_escape ''003e'' @ html_escape cs
      else if c = CHR ''&'' then unicode_escape ''0026'' @ html_escape cs
      else if c = CHR 0xE2 then
        (case cs of
           d # e # rest \<Rightarrow>
             if d = CHR 0x80 \<and> e = CHR 0xA8 then unicode_escape ''2028'' @ html_escape rest
             else if d = CHR 0x80 \<and> e = CHR 0xA9 then unicode_escape ''2029'' @ html_escape rest
             else c # html_escape cs
         | _ \<Rightarrow> c # html_escape cs)
      else c # html_escape cs)"

definition encode_configuration :: "lib \<Rightarrow> json \<Rightarrow> bytes" where
  "encode_configuration L value = html_escape (to_vec L value) @ [newline]"

definition standard_inbound :: "server_identity \<Rightarrow> string \<Rightarrow> nat \<Rightarrow> string \<Rightarrow> json" where
  "standard_inbound i host port server_name = JObj
     [(''type'', JStr ''vless''), (''tag'', JStr ''vless-in''), (''listen'', JStr ''::''), (''listen_port'', JNum 443),
      (''users'', JArr [JObj [(''uuid'', JStr (si_uuid i)), (''flow'', JStr ''xtls-rprx-vision'')]]),
      (''tls'', JObj
        [(''enabled'', JBool True), (''server_name'', JStr server_name),
         (''reality'', JObj
           [(''enabled'', JBool True),
            (''handshake'', JObj [(''server'', JStr host), (''server_port'', JNum (int port))]),
            (''private_key'', JStr (si_private_key i)), (''short_id'', JArr [JStr (si_short_id i)])])])]"

definition new_configuration :: "lib \<Rightarrow> server_identity \<Rightarrow> string \<Rightarrow> string \<Rightarrow> bytes option" where
  "new_configuration L i destination_address server_name = do {
     (host, port) \<leftarrow> split_destination destination_address;
     (if server_name = [] then None
      else Some (encode_configuration L (value_of (JObj
        [(''log'', JObj [(''disabled'', JBool True)]),
         (''inbounds'', JArr [standard_inbound i host port server_name]),
         (''outbounds'', JArr [JObj [(''type'', JStr ''direct''), (''tag'', JStr ''direct'')]])]))))
   }"

text \<open>\<open>STANDARD\<close> of \<open>src/configuration.rs\<close>: the two values that rendering reads.\<close>

definition STANDARD_HANDSHAKE_ADDRESS :: string where
  "STANDARD_HANDSHAKE_ADDRESS = ''google.com:443''"

definition STANDARD_SERVER_NAME :: string where
  "STANDARD_SERVER_NAME = ''google.com''"

definition standard_configuration :: "lib \<Rightarrow> server_identity \<Rightarrow> bytes option" where
  "standard_configuration L i = new_configuration L i STANDARD_HANDSHAKE_ADDRESS STANDARD_SERVER_NAME"

section \<open>Edits\<close>

text \<open>
  \<open>value[key]\<close> for writing inserts into an object, turns \<open>Null\<close> into one and panics on anything else;
  \<open>value[0]\<close> for writing panics unless there is an element.
\<close>

datatype config_fault = ConfigurationError | IndexPanic

definition inbounds_mut :: "json \<Rightarrow> config_fault + json list" where
  "inbounds_mut value =
     (case value of
        JObj kvs \<Rightarrow> (case map_of kvs ''inbounds'' of Some (JArr xs) \<Rightarrow> Inr xs | _ \<Rightarrow> Inl ConfigurationError)
      | JNull \<Rightarrow> Inl ConfigurationError
      | _ \<Rightarrow> Inl IndexPanic)"

definition vmess_inbound :: "string \<Rightarrow> string \<Rightarrow> json" where
  "vmess_inbound uuid hostname = value_of (JObj
     [(''type'', JStr ''vmess''), (''tag'', JStr (''vmess-ws@'' @ hostname)),
      (''listen'', JStr ''127.0.0.1''), (''listen_port'', JNum 10000),
      (''users'', JArr [JObj [(''uuid'', JStr uuid)]]),
      (''transport'', JObj [(''type'', JStr ''ws''), (''path'', JStr ''/sbxr-vmess'')])])"

definition with_vmess_websocket :: "lib \<Rightarrow> bytes \<Rightarrow> string \<Rightarrow> config_fault + bytes" where
  "with_vmess_websocket L configuration hostname =
     (if \<not> valid_vmess_hostname hostname then Inl ConfigurationError
      else case from_slice L configuration of
        None \<Rightarrow> Inl ConfigurationError
      | Some j \<Rightarrow>
          (case inbounds_mut (value_of j) of
             Inl e \<Rightarrow> Inl e
           | Inr inbounds \<Rightarrow>
               if length inbounds \<noteq> 1 then Inl ConfigurationError
               else case de_str (jindex ''uuid'' (jnth 0 (jindex ''users'' (inbounds ! 0)))) of
                      None \<Rightarrow> Inl ConfigurationError
                    | Some uuid \<Rightarrow>
                        Inr (encode_configuration L
                          (jset ''inbounds'' (JArr (inbounds @ [vmess_inbound uuid hostname])) (value_of j)))))"

definition set_user_uuid :: "string \<Rightarrow> json \<Rightarrow> config_fault + json" where
  "set_user_uuid uuid inbound =
     (case inbound of
        JObj kvs \<Rightarrow>
          (case map_of kvs ''users'' of
             Some (JArr (user # users)) \<Rightarrow>
               (case user of
                  JObj _ \<Rightarrow> Inr (jset ''users'' (JArr (jset ''uuid'' (JStr uuid) user # users)) inbound)
                | JNull \<Rightarrow> Inr (jset ''users'' (JArr (jset ''uuid'' (JStr uuid) user # users)) inbound)
                | _ \<Rightarrow> Inl IndexPanic)
           | _ \<Rightarrow> Inl IndexPanic)
      | _ \<Rightarrow> Inl IndexPanic)"

fun set_all_uuids :: "string \<Rightarrow> json list \<Rightarrow> config_fault + json list" where
  "set_all_uuids uuid [] = Inr []"
| "set_all_uuids uuid (inbound # rest) =
     (case set_user_uuid uuid inbound of
        Inl e \<Rightarrow> Inl e
      | Inr x \<Rightarrow> (case set_all_uuids uuid rest of Inl e \<Rightarrow> Inl e | Inr xs \<Rightarrow> Inr (x # xs)))"

definition with_client_uuid :: "lib \<Rightarrow> bytes \<Rightarrow> string \<Rightarrow> config_fault + bytes" where
  "with_client_uuid L configuration uuid =
     (if \<not> valid_client_uuid uuid then Inl ConfigurationError
      else case from_slice L configuration of
        None \<Rightarrow> Inl ConfigurationError
      | Some j \<Rightarrow>
          (case inbounds_mut (value_of j) of
             Inl e \<Rightarrow> Inl e
           | Inr inbounds \<Rightarrow>
               (case set_all_uuids uuid inbounds of
                  Inl e \<Rightarrow> Inl e
                | Inr xs \<Rightarrow> Inr (encode_configuration L (jset ''inbounds'' (JArr xs) (value_of j))))))"

section \<open>Decoding\<close>

definition configured_hostname :: "json \<Rightarrow> string option" where
  "configured_hostname value =
     Option.bind (de_str (jindex ''tag'' (jnth 1 (jindex ''inbounds'' value)))) (strip_prefix ''vmess-ws@'')"

definition configured_identity :: "json \<Rightarrow> (string \<times> string \<times> string) option" where
  "configured_identity value = (let inbound = jnth 0 (jindex ''inbounds'' value) in do {
     uuid \<leftarrow> de_str (jindex ''uuid'' (jnth 0 (jindex ''users'' inbound)));
     private_key \<leftarrow> de_str (jindex ''private_key'' (jindex ''reality'' (jindex ''tls'' inbound)));
     short_id \<leftarrow> de_str (jnth 0 (jindex ''short_id'' (jindex ''reality'' (jindex ''tls'' inbound))));
     Some (uuid, private_key, short_id)
   })"

definition expected_configuration :: "lib \<Rightarrow> json \<Rightarrow> bytes option" where
  "expected_configuration L value = do {
     (uuid, private_key, short_id) \<leftarrow> configured_identity value;
     identity \<leftarrow> server_identity_from uuid private_key short_id;
     expected \<leftarrow> standard_configuration L identity;
     (case jindex ''inbounds'' value of
        JArr xs \<Rightarrow>
          if length xs = 1 then Some expected
          else if length xs = 2 then
            Option.bind (configured_hostname value) (\<lambda>host.
              (case with_vmess_websocket L expected host of Inl _ \<Rightarrow> None | Inr e \<Rightarrow> Some e))
          else None
      | _ \<Rightarrow> None)
   }"

definition decode_supported :: "lib \<Rightarrow> bytes \<Rightarrow> bytes option" where
  "decode_supported L bytes = do {
     value \<leftarrow> json_object L bytes (2 ^ 20);
     expected \<leftarrow> expected_configuration L value;
     again \<leftarrow> from_slice L expected;
     (if value_of again \<noteq> value then None else Some bytes)
   }"

definition is_standard_only :: "lib \<Rightarrow> bytes \<Rightarrow> bool" where
  "is_standard_only L configuration =
     (case from_slice L configuration of
        None \<Rightarrow> False
      | Some j \<Rightarrow>
          let value = value_of j; tls = jindex ''tls'' (jnth 0 (jindex ''inbounds'' value)) in
          (case jindex ''inbounds'' value of JArr xs \<Rightarrow> length xs = 1 | _ \<Rightarrow> False)
          \<and> jindex ''server_name'' tls = JStr STANDARD_SERVER_NAME
          \<and> jindex ''server'' (jindex ''handshake'' (jindex ''reality'' tls)) = JStr ''google.com''
          \<and> jindex ''server_port'' (jindex ''handshake'' (jindex ''reality'' tls)) = JNum 443)"

definition decode_standard :: "lib \<Rightarrow> bytes \<Rightarrow> bytes option" where
  "decode_standard L bytes = do {
     result \<leftarrow> decode_supported L bytes;
     (if \<not> is_standard_only L result then None else Some result)
   }"

section \<open>The tunnel binding\<close>

record tunnel_binding =
  tb_tunnel_id :: string
  tb_token_sha256 :: string
  tb_binary_sha256 :: string

definition tunnel_binding_from :: "string \<Rightarrow> string \<Rightarrow> string \<Rightarrow> tunnel_binding option" where
  "tunnel_binding_from tunnel_id token_sha256 binary_sha256 =
     (if \<not> tunnel_id_syntax tunnel_id \<or> \<not> valid_digest token_sha256 \<or> \<not> valid_digest binary_sha256 then None
      else Some \<lparr>tb_tunnel_id = tunnel_id, tb_token_sha256 = token_sha256, tb_binary_sha256 = binary_sha256\<rparr>)"

definition TUNNEL_UNIT_PATH :: string where
  "TUNNEL_UNIT_PATH = ''/etc/systemd/system/sbxr-tunnel.service''"

definition TUNNEL_WANTS_PATH :: string where
  "TUNNEL_WANTS_PATH = ''/etc/systemd/system/multi-user.target.wants/sbxr-tunnel.service''"

definition TUNNEL_WANTS_TARGET :: string where
  "TUNNEL_WANTS_TARGET = ''../sbxr-tunnel.service''"

definition binding_resources :: "lib \<Rightarrow> string list" where
  "binding_resources L =
     [TUNNEL_UNIT_PATH @ '' root:root 0644 one-link sha256:'' @ sha256_hex L tunnel_authority_service,
      TUNNEL_UNIT_PATH @ ''.sbxr-next root-owned synchronized no-replace publication'',
      TUNNEL_WANTS_PATH @ '' root-owned symlink '' @ TUNNEL_WANTS_TARGET]"


section \<open>Configurations as values\<close>

text \<open>What a supported configuration is: an identity and, with a tunnel, a hostname.\<close>

definition vless_inbound :: "server_identity \<Rightarrow> json" where
  "vless_inbound i = value_of (standard_inbound i ''google.com'' 443 STANDARD_SERVER_NAME)"

definition config_value :: "server_identity \<Rightarrow> string option \<Rightarrow> json" where
  "config_value i host = JObj
     [(''inbounds'', JArr (vless_inbound i # (case host of None \<Rightarrow> [] | Some h \<Rightarrow> [vmess_inbound (si_uuid i) h]))),
      (''log'', JObj [(''disabled'', JBool True)]),
      (''outbounds'', JArr [JObj [(''tag'', JStr ''direct''), (''type'', JStr ''direct'')]])]"

definition valid_server_identity :: "server_identity \<Rightarrow> bool" where
  "valid_server_identity i =
     (valid_client_uuid (si_uuid i) \<and> length (si_short_id i) = 8 \<and> list_all is_ascii_hexdigit (si_short_id i)
      \<and> length (filter (Not \<circ> is_crlf) (si_private_key i)) = 43
      \<and> list_all key_char (filter (Not \<circ> is_crlf) (si_private_key i)))"

lemma server_identity_from_Some:
  "server_identity_from u k s = Some i \<longleftrightarrow>
     valid_server_identity i \<and> u = si_uuid i \<and> k = si_private_key i \<and> s = si_short_id i"
  by (cases i) (auto simp: server_identity_from_def valid_server_identity_def Let_def)

lemma split_standard_destination: "split_destination STANDARD_HANDSHAKE_ADDRESS = Some (''google.com'', 443)"
  by (simp add: split_destination_def STANDARD_HANDSHAKE_ADDRESS_def strip_prefix_def rsplit_once_def
      parse_unsigned_def is_ascii_digit_def digits_value_def to_digit_def digit_value_def)

lemma value_of_configuration:
  "value_of (JObj [(''log'', JObj [(''disabled'', JBool True)]), (''inbounds'', JArr xs),
      (''outbounds'', JArr [JObj [(''type'', JStr ''direct''), (''tag'', JStr ''direct'')]])])
   = JObj [(''inbounds'', JArr (map value_of xs)), (''log'', JObj [(''disabled'', JBool True)]),
      (''outbounds'', JArr [JObj [(''tag'', JStr ''direct''), (''type'', JStr ''direct'')]])]"
  by (simp add: bt_of_def)

lemma standard_configuration_eq: "standard_configuration L i = Some (encode_configuration L (config_value i None))"
  unfolding standard_configuration_def new_configuration_def split_standard_destination
  by (simp add: value_of_configuration config_value_def vless_inbound_def STANDARD_SERVER_NAME_def del: value_of.simps)

lemma inbound_value [simp]: "value_of (vless_inbound i) = vless_inbound i" "value_of (vmess_inbound u h) = vmess_inbound u h"
  by (simp_all only: vless_inbound_def vmess_inbound_def value_of_idem)

lemma config_value_value [simp]: "value_of (config_value i host) = config_value i host"
  by (cases host) (simp_all add: config_value_def bt_of_def)

text \<open>The two inbounds, member by member.\<close>

lemma vless_inbound_eq:
  "vless_inbound i = JObj
     [(''listen'', JStr ''::''), (''listen_port'', JNum 443), (''tag'', JStr ''vless-in''),
      (''tls'', JObj
        [(''enabled'', JBool True),
         (''reality'', JObj
           [(''enabled'', JBool True),
            (''handshake'', JObj [(''server'', JStr ''google.com''), (''server_port'', JNum 443)]),
            (''private_key'', JStr (si_private_key i)), (''short_id'', JArr [JStr (si_short_id i)])]),
         (''server_name'', JStr STANDARD_SERVER_NAME)]),
      (''type'', JStr ''vless''),
      (''users'', JArr [JObj [(''flow'', JStr ''xtls-rprx-vision''), (''uuid'', JStr (si_uuid i))]])]"
  by (simp add: vless_inbound_def standard_inbound_def bt_of_def)

lemma vmess_inbound_eq:
  "vmess_inbound u h = JObj
     [(''listen'', JStr ''127.0.0.1''), (''listen_port'', JNum 10000), (''tag'', JStr (''vmess-ws@'' @ h)),
      (''transport'', JObj [(''path'', JStr ''/sbxr-vmess''), (''type'', JStr ''ws'')]),
      (''type'', JStr ''vmess''), (''users'', JArr [JObj [(''uuid'', JStr u)]])]"
  by (simp add: vmess_inbound_def bt_of_def)

lemma jindex_simps [simp]:
  "jindex k (JObj ((k', v) # kvs)) = (if k = k' then v else jindex k (JObj kvs))"
  "jnth 0 (JArr (x # xs)) = x" "jnth (Suc 0) (JArr (x # y # xs)) = y" "jnth (Suc 0) (JArr [x]) = JNull"
  "jindex k JNull = JNull"
  by (auto simp: jindex_def jget_def jnth_def)

lemma configured_identity_value:
  "configured_identity (config_value i host) = Some (si_uuid i, si_private_key i, si_short_id i)"
  by (simp add: configured_identity_def config_value_def vless_inbound_eq Let_def)

lemma configured_hostname_value:
  "configured_hostname (config_value i host) = host"
  by (cases host) (simp_all add: configured_hostname_def config_value_def vmess_inbound_eq strip_prefix_def de_str_def)

section \<open>Reading back a rendering\<close>

lemma html_escape_id: "set s \<inter> markup = {} \<Longrightarrow> html_escape s = s"
  by (induction s) (auto simp: markup_def)

lemma key_markup: "list_all key_char (filter (Not \<circ> is_crlf) k) \<Longrightarrow> set k \<inter> markup = {}"
  by (induction k) (auto simp: key_char_def is_crlf_def markup_def is_ascii_alphanumeric_def is_ascii_digit_def
      is_ascii_lowercase_def is_ascii_uppercase_def split: if_splits)

lemma hex_markup: "list_all is_ascii_hexdigit s \<Longrightarrow> set s \<inter> markup = {}"
  by (auto simp: list_all_iff is_ascii_hexdigit_def is_ascii_digit_def markup_def)

lemma uuid_chars:
  assumes "valid_client_uuid u" and "c \<in> set u"
  shows "c = CHR ''-'' \<or> lower_hex_byte c"
proof -
  from in_set_conv_nth [THEN iffD1, OF assms(2)] obtain n where n: "n < length u" "c = u ! n" by blast
  then have "(n, c) \<in> set (enumerate 0 u)" by (simp add: in_set_enumerate_eq)
  with assms(1) show ?thesis by (auto simp: valid_client_uuid_def tunnel_id_syntax_def list_all_iff split: if_splits)
qed

lemma uuid_markup:
  assumes "valid_client_uuid u"
  shows "set u \<inter> markup = {}"
  using uuid_chars [OF assms] by (fastforce simp: lower_hex_byte_def is_ascii_digit_def markup_def)

lemma split_char_members: "set s \<subseteq> insert d (\<Union>x \<in> set (split_char d s). set x)"
  by (induction s) (auto split: list.splits, blast)

lemma hostname_markup:
  assumes "valid_vmess_hostname h"
  shows "set h \<inter> markup = {}"
proof -
  have "c = CHR ''.'' \<or> valid_end c \<or> c = CHR ''-''" if "c \<in> set h" for c
    using assms that split_char_members [of h "CHR ''.''"]
    by (fastforce simp: valid_vmess_hostname_def valid_label_def list_all_iff)
  then have "c \<notin> markup" if "c \<in> set h" for c
    using that by (fastforce simp: valid_end_def is_ascii_digit_def is_ascii_lowercase_def markup_def)
  then show ?thesis by blast
qed

lemma config_value_markup:
  assumes "valid_server_identity i" and "is_none_or valid_vmess_hostname host"
  shows "json_chars (config_value i host) \<inter> markup = {}"
proof -
  note M = assms(1) [unfolded valid_server_identity_def]
  have "set (si_uuid i) \<inter> markup = {}" "set (si_short_id i) \<inter> markup = {}" "set (si_private_key i) \<inter> markup = {}"
    using M uuid_markup hex_markup key_markup by blast+
  moreover have "set h \<inter> markup = {}" if "host = Some h" for h
    using assms(2) that hostname_markup by simp
  ultimately show ?thesis
    by (cases host)
       (auto simp: config_value_def vless_inbound_eq vmess_inbound_eq STANDARD_SERVER_NAME_def markup_def)
qed


text \<open>A \<open>Value\<close> has no duplicate members.\<close>

lemma unique_value_of: "unique_json (value_of j)"
proof (induction j)
  case (JObj kvs)
  let ?m = "bt_of (map (map_prod id value_of) kvs)"
  have "list_all (id \<circ> snd) (map (map_prod id unique_json) ?m)"
    using set_bt_of [of "map (map_prod id value_of) kvs"] JObj by (fastforce simp: list_all_iff prod_set_defs)
  then show ?case by (simp add: key_sorted_distinct bt_of_sorted)
qed (auto simp: list_all_iff)

lemma config_value_nodes: "json_nodes (config_value i host) \<le> MAX_JSON_NODES" "is_object (config_value i host)"
  by (cases host; simp add: config_value_def vless_inbound_eq vmess_inbound_eq MAX_JSON_NODES_def is_object_def)+

context json_markup
begin

lemma from_encoded:
  assumes "valid_server_identity i" and "is_none_or valid_vmess_hostname host"
  shows "from_slice L (encode_configuration L (config_value i host)) = Some (config_value i host)"
proof -
  have "set (to_vec L (config_value i host)) \<inter> markup = {}"
    using to_vec_markup config_value_markup [OF assms] by blast
  then show ?thesis by (simp add: encode_configuration_def html_escape_id from_to_newline)
qed

lemma json_object_encoded:
  assumes "valid_server_identity i" and "is_none_or valid_vmess_hostname host"
  shows "json_object L (encode_configuration L (config_value i host)) limit =
    (if length (encode_configuration L (config_value i host)) \<le> limit then Some (config_value i host) else None)"
  using from_encoded [OF assms] unique_value_of [of "config_value i host"] config_value_nodes [of i host]
  by (simp add: json_object_def) (simp add: encode_configuration_def)

lemma with_vmess_value:
  assumes "from_slice L b = Some j" and "value_of j = config_value i None" and "valid_vmess_hostname h"
  shows "with_vmess_websocket L b h = Inr (encode_configuration L (config_value i (Some h)))"
  using assms
  by (simp add: with_vmess_websocket_def config_value_def inbounds_mut_def vless_inbound_eq jset_def)

lemma with_client_uuid_value:
  assumes "from_slice L b = Some j" and "value_of j = config_value i host" and "valid_client_uuid u"
  shows "with_client_uuid L b u = Inr (encode_configuration L (config_value (i\<lparr>si_uuid := u\<rparr>) host))"
  using assms
  by (cases host)
     (simp_all add: with_client_uuid_def config_value_def inbounds_mut_def vless_inbound_eq vmess_inbound_eq
        set_user_uuid_def jset_def)

lemma expected_value:
  assumes "valid_server_identity i" and "is_none_or valid_vmess_hostname host"
  shows "expected_configuration L (config_value i host) = Some (encode_configuration L (config_value i host))"
proof -
  have i: "server_identity_from (si_uuid i) (si_private_key i) (si_short_id i) = Some i"
    using assms(1) by (simp add: server_identity_from_Some)
  have inb: "jindex ''inbounds'' (config_value i x)
      = JArr (vless_inbound i # (case x of None \<Rightarrow> [] | Some h \<Rightarrow> [vmess_inbound (si_uuid i) h]))" for x
    by (simp add: config_value_def)
  have w: "with_vmess_websocket L (encode_configuration L (config_value i None)) h
      = Inr (encode_configuration L (config_value i (Some h)))" if "host = Some h" for h
    using with_vmess_value [OF from_encoded [of i None], of i h] assms that by simp
  show ?thesis
    using w by (cases host)
      (simp_all add: expected_configuration_def configured_identity_value configured_hostname_value i
        standard_configuration_eq inb)
qed

text \<open>Whatever is expected for a value is the rendering of an identity, so a value that equals it is one.\<close>

lemma expected_is_rendering:
  assumes "expected_configuration L value = Some e"
  shows "\<exists>i host. valid_server_identity i \<and> is_none_or valid_vmess_hostname host
    \<and> e = encode_configuration L (config_value i host)"
proof -
  obtain u k s where ci: "configured_identity value = Some (u, k, s)"
    using assms by (cases "configured_identity value") (auto simp: expected_configuration_def)
  obtain i where i: "server_identity_from u k s = Some i"
    using assms ci by (cases "server_identity_from u k s") (auto simp: expected_configuration_def)
  obtain xs where xs: "jindex ''inbounds'' value = JArr xs"
    using assms ci i by (auto simp: expected_configuration_def standard_configuration_eq split: json.splits)
  note e = assms [unfolded expected_configuration_def ci Option.bind.bind_lunit prod.case i standard_configuration_eq xs json.case]
  have v: "valid_server_identity i" using i by (simp add: server_identity_from_Some)
  show ?thesis
  proof (cases "length xs = 1")
    case True
    with e v show ?thesis by (intro exI [of _ i] exI [of _ None]) simp
  next
    case False
    then obtain h where h: "with_vmess_websocket L (encode_configuration L (config_value i None)) h = Inr e"
      using e by (auto split: if_splits Option.bind_splits sum.splits)
    then have vh: "valid_vmess_hostname h" by (auto simp: with_vmess_websocket_def split: if_splits)
    then have "e = encode_configuration L (config_value i (Some h))"
      using h with_vmess_value [OF from_encoded [of i None], of i h] v by simp
    with v vh show ?thesis by (intro exI [of _ i] exI [of _ "Some h"]) simp
  qed
qed

lemma decode_supported_Some:
  "decode_supported L b = Some c \<longleftrightarrow>
     c = b \<and> (\<exists>i host. valid_server_identity i \<and> is_none_or valid_vmess_hostname host
       \<and> json_object L b (2 ^ 20) = Some (config_value i host))"
proof
  assume "decode_supported L b = Some c"
  then obtain v e a where d: "json_object L b (2 ^ 20) = Some v" "expected_configuration L v = Some e"
      "from_slice L e = Some a" "value_of a = v" "c = b"
    by (auto simp: decode_supported_def split: Option.bind_splits if_splits)
  obtain i host where r: "valid_server_identity i" "is_none_or valid_vmess_hostname host"
      "e = encode_configuration L (config_value i host)"
    using expected_is_rendering [OF d(2)] by blast
  have "a = config_value i host" using d(3) from_encoded [OF r(1,2)] r(3) by simp
  then have "v = config_value i host" using d(4) config_value_value by blast
  with d(1,5) r(1,2) show "c = b \<and> (\<exists>i host. valid_server_identity i \<and> is_none_or valid_vmess_hostname host
       \<and> json_object L b (2 ^ 20) = Some (config_value i host))" by metis
next
  assume "c = b \<and> (\<exists>i host. valid_server_identity i \<and> is_none_or valid_vmess_hostname host
       \<and> json_object L b (2 ^ 20) = Some (config_value i host))"
  then obtain i host where r: "c = b" "valid_server_identity i" "is_none_or valid_vmess_hostname host"
      "json_object L b (2 ^ 20) = Some (config_value i host)" by blast
  then show "decode_supported L b = Some c"
    using expected_value [OF r(2,3)] from_encoded [OF r(2,3)] by (simp add: decode_supported_def)
qed

end

lemma config_value_inj: "config_value i host = config_value k host' \<longleftrightarrow> i = k \<and> host = host'"
proof
  assume e: "config_value i host = config_value k host'"
  then have "configured_identity (config_value i host) = configured_identity (config_value k host')"
    and "configured_hostname (config_value i host) = configured_hostname (config_value k host')" by simp_all
  then show "i = k \<and> host = host'"
    by (simp add: configured_identity_value configured_hostname_value)
qed simp

lemma json_object_reads: "json_object L b n = Some v \<Longrightarrow> \<exists>j. from_slice L b = Some j \<and> value_of j = v"
  by (auto simp: json_object_def split: if_splits option.splits)

end
