(* ===== verification/Identity_Generation.thy ===== *)
theory Identity_Generation
  imports Server_Configuration
begin

text \<open>
  \<open>src/identity_generation.rs\<close>: generation and validation of client UUIDs, key material, generation ids and
  subscription credentials, and \<open>connection_facts\<close> of \<open>src/server_configuration.rs\<close>, which derives the public
  key.  The \<open>base64\<close> and \<open>x25519-dalek\<close> crates and the entropy source are arguments.  Newtypes around strings are
  the strings; the zeroizing wrappers have no value semantics.
\<close>

unbundle bit_operations_syntax

section \<open>What comes from outside\<close>

record crypto =
  b64_encode :: "u8 list \<Rightarrow> string"
  b64_decode :: "string \<Rightarrow> u8 list option"
  x25519_public :: "u8 list \<Rightarrow> u8 list"

text \<open>
  The documented behaviour: \<open>URL_SAFE_NO_PAD\<close> encodes as RFC 4648 says, the engine of \<open>decode_key\<close> decodes the same
  alphabet without padding and ignores trailing bits, and a public key has 32 bytes.
\<close>

locale crates =
  fixes C :: crypto
  assumes encode_url: "b64_encode C bs = url_encode bs"
    and decode_url: "b64_decode C s = url_decode s"
    and public_length: "length (x25519_public C key) = 32"

text \<open>An entropy source fills the whole destination or fails; it is a state with its transition.\<close>

type_synonym 'e entropy = "'e \<Rightarrow> nat \<Rightarrow> 'e \<times> u8 list option"

definition fills :: "'e entropy \<Rightarrow> bool" where
  "fills F = (\<forall>e n. case snd (F e n) of None \<Rightarrow> True | Some bs \<Rightarrow> length bs = n)"

datatype identity_error = EntropyUnavailable | InvalidIdentity

definition random_bytes :: "'e entropy \<Rightarrow> nat \<Rightarrow> 'e \<Rightarrow> 'e \<times> (identity_error + u8 list)" where
  "random_bytes F n e =
     (case F e n of
        (e', None) \<Rightarrow> (e', Inl EntropyUnavailable)
      | (e', Some bs) \<Rightarrow> (e', Inr bs))"

section \<open>Client UUIDs\<close>

definition HEX_LOWER :: string where
  "HEX_LOWER = ''0123456789abcdef''"

definition hex :: "u8 list \<Rightarrow> string" where
  "hex bytes = concat (map (\<lambda>b. [HEX_LOWER ! unat (drop_bit 4 b), HEX_LOWER ! unat (b AND 15)]) bytes)"

definition stamp :: "u8 list \<Rightarrow> u8 list" where
  "stamp bytes =
     (let bytes = bytes[6 := bytes ! 6 AND 0x0F OR 0x40]
      in bytes[8 := bytes ! 8 AND 0x3F OR 0x80])"

definition hyphenate :: "string \<Rightarrow> string" where
  "hyphenate text =
     take 8 text @ ''-'' @ take 4 (drop 8 text) @ ''-'' @ take 4 (drop 12 text) @ ''-''
     @ take 4 (drop 16 text) @ ''-'' @ drop 20 text"

definition generate_uuid :: "'e entropy \<Rightarrow> 'e \<Rightarrow> 'e \<times> (identity_error + string)" where
  "generate_uuid F e =
     (case random_bytes F 16 e of
        (e, Inl x) \<Rightarrow> (e, Inl x)
      | (e, Inr bytes) \<Rightarrow> (e, Inr (hyphenate (hex (stamp bytes)))))"

definition parse_uuid :: "string \<Rightarrow> identity_error + string" where
  "parse_uuid value =
     (if length value \<noteq> 36
         \<or> \<not> list_all (\<lambda>(i, b). if i \<in> {8, 13, 18, 23} then b = CHR ''-''
               else is_ascii_digit b \<or> CHR ''a'' \<le> b \<and> b \<le> CHR ''f'') (enumerate 0 value)
         \<or> value ! 14 \<noteq> CHR ''4''
         \<or> value ! 19 \<notin> {CHR ''8'', CHR ''9'', CHR ''a'', CHR ''b''}
      then Inl InvalidIdentity else Inr value)"

section \<open>Key material\<close>

record identity =
  id_uuid :: string
  id_private_key :: string
  id_public_key :: string
  id_short_id :: string

definition generate_identity :: "crypto \<Rightarrow> 'e entropy \<Rightarrow> 'e \<Rightarrow> 'e \<times> (identity_error + identity)" where
  "generate_identity C F e =
     (case generate_uuid F e of
        (e, Inl x) \<Rightarrow> (e, Inl x)
      | (e, Inr uuid) \<Rightarrow>
          (case random_bytes F 4 e of
             (e, Inl x) \<Rightarrow> (e, Inl x)
           | (e, Inr short_id) \<Rightarrow>
               (case random_bytes F 32 e of
                  (e, Inl x) \<Rightarrow> (e, Inl x)
                | (e, Inr private) \<Rightarrow>
                    (e, Inr \<lparr>id_uuid = uuid, id_private_key = b64_encode C private,
                             id_public_key = b64_encode C (x25519_public C private),
                             id_short_id = hex short_id\<rparr>))))"

text \<open>The loop of \<open>decode_key\<close> that copies into a buffer of 43 bytes.\<close>

definition decode_key :: "crypto \<Rightarrow> string \<Rightarrow> identity_error + u8 list" where
  "decode_key C value =
     (let encoded = filter (Not \<circ> is_crlf) value in
      if length encoded \<noteq> 43 then Inl InvalidIdentity
      else case b64_decode C encoded of
             None \<Rightarrow> Inl InvalidIdentity
           | Some decoded \<Rightarrow> if length decoded \<noteq> 32 then Inl InvalidIdentity else Inr decoded)"

definition identity_from_private_key :: "crypto \<Rightarrow> string \<Rightarrow> string \<Rightarrow> string \<Rightarrow> identity_error + identity" where
  "identity_from_private_key C uuid private_key short_id =
     (case parse_uuid uuid of
        Inl x \<Rightarrow> Inl x
      | Inr uuid \<Rightarrow>
          if length short_id \<noteq> 8 \<or> \<not> list_all is_ascii_hexdigit short_id then Inl InvalidIdentity
          else case decode_key C private_key of
                 Inl x \<Rightarrow> Inl x
               | Inr private \<Rightarrow>
                   Inr \<lparr>id_uuid = uuid, id_private_key = private_key,
                        id_public_key = b64_encode C (x25519_public C private), id_short_id = short_id\<rparr>)"

definition identity_from_parts ::
  "crypto \<Rightarrow> string \<Rightarrow> string \<Rightarrow> string \<Rightarrow> string \<Rightarrow> identity_error + identity" where
  "identity_from_parts C uuid private_key public_key short_id =
     (case identity_from_private_key C uuid private_key short_id of
        Inl x \<Rightarrow> Inl x
      | Inr identity \<Rightarrow>
          (case decode_key C public_key of
             Inl x \<Rightarrow> Inl x
           | Inr supplied \<Rightarrow>
               (case decode_key C (id_public_key identity) of
                  Inl x \<Rightarrow> Inl x
                | Inr derived \<Rightarrow>
                    if derived \<noteq> supplied then Inl InvalidIdentity
                    else Inr (identity\<lparr>id_public_key := public_key\<rparr>))))"

definition server_identity_of :: "identity \<Rightarrow> identity_error + server_identity" where
  "server_identity_of d =
     (case server_identity_from (id_uuid d) (id_private_key d) (id_short_id d) of
        None \<Rightarrow> Inl InvalidIdentity | Some i \<Rightarrow> Inr i)"

section \<open>Generation ids and subscription credentials\<close>

definition generate_id :: "'e entropy \<Rightarrow> 'e \<Rightarrow> 'e \<times> (identity_error + string)" where
  "generate_id F e =
     (case random_bytes F 16 e of
        (e, Inl x) \<Rightarrow> (e, Inl x)
      | (e, Inr bytes) \<Rightarrow> (e, Inr (hex bytes)))"

definition parse_id :: "string \<Rightarrow> identity_error + string" where
  "parse_id value =
     (if length value \<noteq> 32 \<or> \<not> list_all (\<lambda>b. is_ascii_digit b \<or> CHR ''a'' \<le> b \<and> b \<le> CHR ''f'') value
      then Inl InvalidIdentity else Inr value)"

record subscription_generation =
  sg_credential :: string
  sg_link_id :: string

definition generate_subscription ::
  "crypto \<Rightarrow> 'e entropy \<Rightarrow> 'e \<Rightarrow> 'e \<times> (identity_error + subscription_generation)" where
  "generate_subscription C F e =
     (case random_bytes F 32 e of
        (e, Inl x) \<Rightarrow> (e, Inl x)
      | (e, Inr bytes) \<Rightarrow>
          (case generate_id F e of
             (e, Inl x) \<Rightarrow> (e, Inl x)
           | (e, Inr link_id) \<Rightarrow>
               (e, case parse_credential (b64_encode C bytes) of
                     None \<Rightarrow> Inl InvalidIdentity
                   | Some credential \<Rightarrow> Inr \<lparr>sg_credential = credential, sg_link_id = link_id\<rparr>)))"

section \<open>Client access values of a server configuration\<close>

definition config_connection_facts :: "lib \<Rightarrow> crypto \<Rightarrow> bytes \<Rightarrow> string \<Rightarrow> connection_facts option" where
  "config_connection_facts L C configuration ipv4 = do {
     checked \<leftarrow> decode_supported L configuration;
     j \<leftarrow> from_slice L checked;
     (uuid, private_key, short_id) \<leftarrow> configured_identity (value_of j);
     (case identity_from_private_key C uuid private_key short_id of
        Inl _ \<Rightarrow> None
      | Inr identity \<Rightarrow>
          new_facts ipv4 (id_uuid identity) STANDARD_SERVER_NAME (id_public_key identity) (id_short_id identity)
            (configured_hostname (value_of j)))
   }"


section \<open>Hexadecimal text\<close>

lemma hex_lower_table:
  "list_all (\<lambda>n. digit_value (HEX_LOWER ! n) = Some n \<and> lower_hex_byte (HEX_LOWER ! n)) [0..<16]"
  by (simp add: HEX_LOWER_def upt_rec digit_value_def is_ascii_digit_def lower_hex_byte_def)

lemma hex_lower_nth: "n < 16 \<Longrightarrow> digit_value (HEX_LOWER ! n) = Some n" "n < 16 \<Longrightarrow> lower_hex_byte (HEX_LOWER ! n)"
  using hex_lower_table by (simp_all add: list_all_iff)

lemma hex_lower_inj: "m < 16 \<Longrightarrow> n < 16 \<Longrightarrow> HEX_LOWER ! m = HEX_LOWER ! n \<longleftrightarrow> m = n"
  by (metis hex_lower_nth(1) option.inject)

lemma u8_nibbles: "unat (drop_bit 4 b) = unat b div 16" "unat (b AND 15) = unat b mod 16" for b :: u8
proof -
  have "(15 :: u8) = mask 4" by (simp add: mask_eq_exp_minus_1)
  then have "b AND 15 = take_bit 4 b" by (simp add: take_bit_eq_mask)
  then show "unat (b AND 15) = unat b mod 16" by (simp add: unsigned_take_bit_eq take_bit_nat_def)
  have "unat b < 2 ^ LENGTH(8)" by (rule unsigned_less)
  then show "unat (drop_bit 4 b) = unat b div 16"
    by (simp add: unsigned_drop_bit_eq drop_bit_nat_def take_bit_nat_eq_self)
qed

lemma u8_nibble_bounds [simp]: "unat (drop_bit 4 b) < 16" "unat (b AND 15) < 16" for b :: u8
proof -
  have "unat b < 2 ^ LENGTH(8)" by (rule unsigned_less)
  then show "unat (drop_bit 4 b) < 16" by (simp add: u8_nibbles less_mult_imp_div_less)
qed (simp add: u8_nibbles)

lemma hex_simps [simp]:
  "hex [] = []" "hex (b # bs) = HEX_LOWER ! unat (drop_bit 4 b) # HEX_LOWER ! unat (b AND 15) # hex bs"
  by (simp_all add: hex_def)

lemma length_hex [simp]: "length (hex bs) = 2 * length bs"
  by (induction bs) simp_all

lemma hex_lower_all: "list_all lower_hex_byte (hex bs)"
  by (induction bs) (simp_all add: hex_lower_nth)

lemma hex_inj: "hex bs = hex cs \<longleftrightarrow> bs = cs"
proof (induction bs arbitrary: cs)
  case Nil
  then show ?case by (cases cs) auto
next
  case (Cons b bs)
  have "b = c" if "unat (drop_bit 4 b) = unat (drop_bit 4 c)" "unat (b AND 15) = unat (c AND 15)" for c :: u8
  proof -
    have "unat b = unat c"
      using that unfolding u8_nibbles by (metis div_mult_mod_eq)
    then show ?thesis by (simp add: word_unat_eq_iff)
  qed
  with Cons show ?case by (cases cs) (auto simp: hex_lower_inj)
qed

lemma hex_nth: "k < length bs \<Longrightarrow> hex bs ! (2 * k) = HEX_LOWER ! unat (drop_bit 4 (bs ! k))"
proof (induction bs arbitrary: k)
  case (Cons b bs)
  then show ?case by (cases k) auto
qed simp

section \<open>UUIDs\<close>

lemma all_enumerate: "list_all (\<lambda>(i, b). P i b) (enumerate 0 v) \<longleftrightarrow> (\<forall>k < length v. P k (v ! k))"
  by (auto simp: list_all_iff in_set_enumerate_eq)

text \<open>The three validators of the repository accept the same texts.\<close>

definition uuid_syntax :: "string \<Rightarrow> bool" where
  "uuid_syntax v = (length v = 36 \<and> v ! 14 = CHR ''4'' \<and> v ! 19 \<in> {CHR ''8'', CHR ''9'', CHR ''a'', CHR ''b''}
     \<and> (\<forall>k < 36. if k \<in> {8, 13, 18, 23} then v ! k = CHR ''-'' else lower_hex_byte (v ! k)))"

lemma valid_client_uuid_syntax: "valid_client_uuid v = uuid_syntax v"
  unfolding valid_client_uuid_def tunnel_id_syntax_def uuid_syntax_def all_enumerate
  by (rule iffI; elim conjE; intro conjI; (assumption | simp))

lemma parse_uuid_syntax: "parse_uuid v = (if uuid_syntax v then Inr v else Inl InvalidIdentity)"
proof -
  have "uuid_syntax v \<longleftrightarrow> \<not> (length v \<noteq> 36
      \<or> \<not> (\<forall>k < length v. if k \<in> {8, 13, 18, 23} then v ! k = CHR ''-''
           else is_ascii_digit (v ! k) \<or> CHR ''a'' \<le> v ! k \<and> v ! k \<le> CHR ''f'')
      \<or> v ! 14 \<noteq> CHR ''4'' \<or> v ! 19 \<notin> {CHR ''8'', CHR ''9'', CHR ''a'', CHR ''b''})"
    unfolding uuid_syntax_def lower_hex_byte_def de_Morgan_disj not_not
    by (rule iffI; elim conjE; intro conjI; (assumption | simp))
  then show ?thesis unfolding parse_uuid_def all_enumerate by simp
qed

lemma valid_uuid_syntax: "valid_uuid v = uuid_syntax v"
proof -
  have h: "lower_hex_byte CHR ''4''" "lower_hex_byte CHR ''8''" "lower_hex_byte CHR ''9''" "lower_hex_byte CHR ''a''"
    "lower_hex_byte CHR ''b''" by (simp_all add: lower_hex_byte_def is_ascii_digit_def)
  show ?thesis
  proof
    assume "valid_uuid v"
    then have v: "length v = 36 \<and> (\<forall>k < length v. if k \<in> {8, 13, 18, 23} then v ! k = CHR ''-''
          else if k = 14 then v ! k = CHR ''4'' else if k = 19 then v ! k \<in> {CHR ''8'', CHR ''9'', CHR ''a'', CHR ''b''}
          else lower_hex_byte (v ! k))"
      unfolding valid_uuid_def all_enumerate .
    then have l: "length v = 36" and a: "\<And>k. k < 36 \<Longrightarrow> (if k \<in> {8, 13, 18, 23} then v ! k = CHR ''-''
          else if k = 14 then v ! k = CHR ''4'' else if k = 19 then v ! k \<in> {CHR ''8'', CHR ''9'', CHR ''a'', CHR ''b''}
          else lower_hex_byte (v ! k))"
      by metis+
    have "if k \<in> {8, 13, 18, 23} then v ! k = CHR ''-'' else lower_hex_byte (v ! k)" if "k < 36" for k
      using a [OF that] h by (auto split: if_splits)
    with l a [of 14] a [of 19] show "uuid_syntax v" by (simp add: uuid_syntax_def)
  next
    assume "uuid_syntax v"
    then show "valid_uuid v" unfolding valid_uuid_def uuid_syntax_def all_enumerate by auto
  qed
qed


text \<open>Stamping sets the version and the variant and keeps the other 122 bits.\<close>

lemma length_stamp [simp]: "length (stamp bs) = length bs"
  by (simp add: stamp_def Let_def)

lemma stamp_nth:
  assumes "length bs = 16"
  shows "stamp bs ! 6 = bs ! 6 AND 0x0F OR 0x40" "stamp bs ! 8 = bs ! 8 AND 0x3F OR 0x80"
    "k \<noteq> 6 \<Longrightarrow> k \<noteq> 8 \<Longrightarrow> stamp bs ! k = bs ! k"
  using assms by (simp_all add: stamp_def Let_def nth_list_update)

lemma version_nibble: "unat (drop_bit 4 (b AND 0x0F OR 0x40)) = 4" for b :: u8
proof -
  have "drop_bit 4 (b AND 0x0F OR 0x40) = 4" by (rule byte_eqI; simp add: bit_simps)
  then show ?thesis by (simp only:) simp
qed

lemma variant_nibble: "unat (drop_bit 4 (b AND 0x3F OR 0x80)) \<in> {8, 9, 10, 11}" for b :: u8
proof -
  let ?y = "take_bit 2 (drop_bit 4 b)"
  have e: "drop_bit 4 (b AND 0x3F OR 0x80) = 8 OR ?y" by (rule byte_eqI; simp add: bit_simps)
  have "unat ?y < 4" by (simp add: unsigned_take_bit_eq take_bit_nat_def)
  then have "unat ?y \<in> {0, 1, 2, 3}" by auto
  then have "?y \<in> {0, 1, 2, 3}" by (auto simp: word_unat_eq_iff)
  then show ?thesis unfolding e by auto
qed

lemma stamp_eq_iff:
  assumes "length bs = 16" and "length cs = 16"
  shows "stamp bs = stamp cs \<longleftrightarrow> bs ! 6 AND 0x0F = cs ! 6 AND 0x0F \<and> bs ! 8 AND 0x3F = cs ! 8 AND 0x3F
    \<and> (\<forall>k < 16. k \<noteq> 6 \<longrightarrow> k \<noteq> 8 \<longrightarrow> bs ! k = cs ! k)"
proof -
  have a: "b AND 0x0F OR 0x40 = c AND 0x0F OR 0x40 \<longleftrightarrow> b AND 0x0F = c AND 0x0F" for b c :: u8
  proof
    assume e: "b AND 0x0F OR 0x40 = c AND 0x0F OR 0x40"
    have "x AND 0x0F = (x AND 0x0F OR 0x40) AND 0x0F" for x :: u8 by (rule byte_eqI; simp add: bit_simps)
    then show "b AND 0x0F = c AND 0x0F" using e by metis
  qed simp
  have v: "b AND 0x3F OR 0x80 = c AND 0x3F OR 0x80 \<longleftrightarrow> b AND 0x3F = c AND 0x3F" for b c :: u8
  proof
    assume e: "b AND 0x3F OR 0x80 = c AND 0x3F OR 0x80"
    have "x AND 0x3F = (x AND 0x3F OR 0x80) AND 0x3F" for x :: u8 by (rule byte_eqI; simp add: bit_simps)
    then show "b AND 0x3F = c AND 0x3F" using e by metis
  qed simp
  have "stamp bs = stamp cs \<longleftrightarrow> (\<forall>k < 16. stamp bs ! k = stamp cs ! k)"
    using assms by (simp add: list_eq_iff_nth_eq)
  also have "\<dots> \<longleftrightarrow> stamp bs ! 6 = stamp cs ! 6 \<and> stamp bs ! 8 = stamp cs ! 8
      \<and> (\<forall>k < 16. k \<noteq> 6 \<longrightarrow> k \<noteq> 8 \<longrightarrow> stamp bs ! k = stamp cs ! k)"
  proof -
    have "(6 :: nat) < 16" "(8 :: nat) < 16" by simp_all
    then show ?thesis by blast
  qed
  finally show ?thesis using stamp_nth [OF assms(1)] stamp_nth [OF assms(2)] a v by simp
qed

lemma hyphenate_nth:
  assumes "length t = 32" and "k < 36"
  shows "hyphenate t ! k = (if k \<in> {8, 13, 18, 23} then CHR ''-'' else if k < 8 then t ! k else if k < 13 then t ! (k - 1)
    else if k < 18 then t ! (k - 2) else if k < 23 then t ! (k - 3) else t ! (k - 4))"
  using assms by (simp add: hyphenate_def nth_append nth_Cons') auto

lemma length_hyphenate: "length t = 32 \<Longrightarrow> length (hyphenate t) = 36"
  by (simp add: hyphenate_def)

lemma hyphenate_inj:
  assumes "length s = 32" "length t = 32"
  shows "hyphenate s = hyphenate t \<longleftrightarrow> s = t"
proof
  assume "hyphenate s = hyphenate t"
  then have e: "take 8 s = take 8 t" "take 4 (drop 8 s) = take 4 (drop 8 t)" "take 4 (drop 12 s) = take 4 (drop 12 t)"
      "take 4 (drop 16 s) = take 4 (drop 16 t)" "drop 20 s = drop 20 t"
    using assms by (simp_all add: hyphenate_def append_eq_append_conv)
  have split: "x = take 8 x @ take 4 (drop 8 x) @ take 4 (drop 12 x) @ take 4 (drop 16 x) @ drop 20 x" for x :: string
    using append_take_drop_id [of 4 "drop 8 x"] append_take_drop_id [of 4 "drop 12 x"] append_take_drop_id [of 4 "drop 16 x"]
    by simp
  show "s = t" using split [of s] split [of t] e by simp
qed simp

lemma generated_uuid_syntax:
  assumes "length bs = 16"
  shows "uuid_syntax (hyphenate (hex (stamp bs)))"
proof -
  let ?t = "hex (stamp bs)"
  have l: "length ?t = 32" using assms by simp
  have x: "lower_hex_byte (?t ! k)" if "k < 32" for k
    using hex_lower_all [of "stamp bs"] l that by (metis list_all_length)
  have 14: "?t ! 12 = CHR ''4''"
    using hex_nth [of 6 "stamp bs"] assms stamp_nth(1) [OF assms] version_nibble by (simp add: HEX_LOWER_def)
  have 19: "?t ! 16 \<in> {CHR ''8'', CHR ''9'', CHR ''a'', CHR ''b''}"
    using hex_nth [of 8 "stamp bs"] assms stamp_nth(2) [OF assms] variant_nibble [of "bs ! 8"] by (auto simp: HEX_LOWER_def)
  have a: "if k \<in> {8, 13, 18, 23} then hyphenate ?t ! k = CHR ''-'' else lower_hex_byte (hyphenate ?t ! k)" if k: "k < 36" for k
    using k x by (simp add: hyphenate_nth [OF l k])
  have "hyphenate ?t ! 14 = CHR ''4''" "hyphenate ?t ! 19 \<in> {CHR ''8'', CHR ''9'', CHR ''a'', CHR ''b''}"
    using 14 19 by (simp_all add: hyphenate_nth [OF l])
  with a length_hyphenate [OF l] show ?thesis unfolding uuid_syntax_def by blast
qed


section \<open>Generated identities\<close>

lemma fills_filled: "fills F \<Longrightarrow> F e n = (e', Some bs) \<Longrightarrow> length bs = n"
  unfolding fills_def by (auto dest!: spec [of _ e] spec [of _ n])

lemma fills_length: "fills F \<Longrightarrow> random_bytes F n e = (e', Inr bs) \<Longrightarrow> length bs = n"
  unfolding random_bytes_def by (auto split: prod.splits option.splits dest: fills_filled)

lemma generate_uuid_Inr:
  assumes "fills F" and "generate_uuid F e = (e', Inr u)"
  shows "\<exists>bs. length bs = 16 \<and> random_bytes F 16 e = (e', Inr bs) \<and> u = hyphenate (hex (stamp bs))"
  using assms fills_length [OF assms(1), of 16 e] by (auto simp: generate_uuid_def split: prod.splits sum.splits)

lemma generate_identity_Inr:
  assumes F: "fills F" and g: "generate_identity C F e = (e', Inr d)"
  shows "\<exists>u s k. length u = 16 \<and> length s = 4 \<and> length k = 32
    \<and> d = \<lparr>id_uuid = hyphenate (hex (stamp u)), id_private_key = b64_encode C k,
           id_public_key = b64_encode C (x25519_public C k), id_short_id = hex s\<rparr>"
proof -
  obtain e1 u where u: "generate_uuid F e = (e1, Inr u)"
    using g by (auto simp: generate_identity_def split: prod.splits sum.splits)
  obtain e2 s where s: "random_bytes F 4 e1 = (e2, Inr s)"
    using g u by (auto simp: generate_identity_def split: prod.splits sum.splits)
  obtain k where k: "random_bytes F 32 e2 = (e', Inr k)"
    "d = \<lparr>id_uuid = u, id_private_key = b64_encode C k, id_public_key = b64_encode C (x25519_public C k), id_short_id = hex s\<rparr>"
    using g u s by (auto simp: generate_identity_def split: prod.splits sum.splits)
  from generate_uuid_Inr [OF F u] fills_length [OF F s] fills_length [OF F k(1)] k(2) show ?thesis by blast
qed

lemma hex_is_hexdigit: "list_all is_ascii_hexdigit (hex s)"
  using hex_lower_all [of s] by (auto simp: list_all_iff lower_hex_byte_def is_ascii_hexdigit_def)

lemma url_encode_plain: "filter (Not \<circ> is_crlf) (url_encode k) = url_encode k"
proof -
  have "\<not> is_crlf c" if "base64url_value c \<noteq> None" for c
    using that by (auto simp: base64url_value_def is_crlf_def is_ascii_uppercase_def is_ascii_lowercase_def is_ascii_digit_def
        split: if_splits)
  then show ?thesis using url_encode_chars [of _ k] by (auto simp: filter_id_conv)
qed

lemma url_encode_key_chars: "list_all key_char (url_encode k)"
proof -
  have "key_char c" if "base64url_value c \<noteq> None" for c
    using that by (auto simp: base64url_value_def key_char_def is_ascii_alphanumeric_def split: if_splits)
  then show ?thesis using url_encode_chars [of _ k] by (auto simp: list_all_iff)
qed

lemma length_url_encode: "length (url_encode k) = (4 * length k + 2) div 3"
  by (simp add: url_encode_sextets length_all_sextets)

context crates
begin

lemma decode_key_encoded: "length k = 32 \<Longrightarrow> decode_key C (b64_encode C k) = Inr k"
  unfolding decode_key_def encode_url decode_url url_encode_plain by (simp add: length_url_encode)

lemma decode_key_Inr:
  "decode_key C s = Inr k \<longleftrightarrow> length (filter (Not \<circ> is_crlf) s) = 43 \<and> url_decode (filter (Not \<circ> is_crlf) s) = Some k"
proof -
  have "length k = 32" if l: "length (filter (Not \<circ> is_crlf) s) = 43" and u: "url_decode (filter (Not \<circ> is_crlf) s) = Some k"
  proof -
    obtain vs where v: "sextet_values base64url_value (filter (Not \<circ> is_crlf) s) = Some vs" "unsextets vs = Some k"
      using u by (auto simp: url_decode_def split: Option.bind_splits)
    then have "length vs = 43" using l sextet_values_iff [of "filter (Not \<circ> is_crlf) s" vs] v(1) by (metis length_map)
    then show ?thesis using unsextets_length [OF v(2)] by simp
  qed
  then show ?thesis by (auto simp: decode_key_def Let_def decode_url split: option.splits)
qed

lemma identity_from_private_key_Inr:
  "identity_from_private_key C u k s = Inr d \<longleftrightarrow>
     uuid_syntax u \<and> length s = 8 \<and> list_all is_ascii_hexdigit s
     \<and> (\<exists>key. decode_key C k = Inr key
         \<and> d = \<lparr>id_uuid = u, id_private_key = k, id_public_key = url_encode (x25519_public C key), id_short_id = s\<rparr>)"
  by (auto simp: identity_from_private_key_def parse_uuid_syntax encode_url split: sum.splits if_splits)

lemma identity_from_parts_Inr:
  "identity_from_parts C u k p s = Inr d \<longleftrightarrow>
     uuid_syntax u \<and> length s = 8 \<and> list_all is_ascii_hexdigit s
     \<and> (\<exists>key. decode_key C k = Inr key \<and> decode_key C p = Inr (x25519_public C key))
     \<and> d = \<lparr>id_uuid = u, id_private_key = k, id_public_key = p, id_short_id = s\<rparr>"
proof -
  have r: "decode_key C (url_encode (x25519_public C key)) = Inr (x25519_public C key)" for key
    using decode_key_encoded [OF public_length] by (simp add: encode_url)
  have "identity_from_parts C u k p s = Inr d \<longleftrightarrow>
     (\<exists>i q. identity_from_private_key C u k s = Inr i \<and> decode_key C p = Inr q
        \<and> decode_key C (id_public_key i) = Inr q \<and> d = i\<lparr>id_public_key := p\<rparr>)"
    by (auto simp: identity_from_parts_def split: sum.splits if_splits)
  then show ?thesis using r by (auto simp: identity_from_private_key_Inr)
qed

lemma generated_identity:
  assumes F: "fills F" and g: "generate_identity C F e = (e', Inr d)"
  shows "uuid_syntax (id_uuid d)" and "length (id_short_id d) = 8 \<and> list_all lower_hex_byte (id_short_id d)"
    and "valid_base64url_32 (id_public_key d) False" and "length (id_public_key d) = 43"
    and "identity_from_parts C (id_uuid d) (id_private_key d) (id_public_key d) (id_short_id d) = Inr d"
    and "valid_server_identity \<lparr>si_uuid = id_uuid d, si_private_key = id_private_key d, si_short_id = id_short_id d\<rparr>"
proof -
  obtain u s k where l: "length u = 16" "length s = 4" "length k = 32"
    and d: "d = \<lparr>id_uuid = hyphenate (hex (stamp u)), id_private_key = b64_encode C k,
           id_public_key = b64_encode C (x25519_public C k), id_short_id = hex s\<rparr>"
    using generate_identity_Inr [OF F g] by blast
  show u: "uuid_syntax (id_uuid d)" using generated_uuid_syntax [OF l(1)] d by simp
  show "length (id_short_id d) = 8 \<and> list_all lower_hex_byte (id_short_id d)" using l hex_lower_all [of s] d by simp
  show "valid_base64url_32 (id_public_key d) False" using d public_length valid_base64url_32_iff encode_url by auto
  show "length (id_public_key d) = 43" using d public_length by (simp add: encode_url length_url_encode)
  show "identity_from_parts C (id_uuid d) (id_private_key d) (id_public_key d) (id_short_id d) = Inr d"
    using u d l hex_is_hexdigit [of s] decode_key_encoded [OF l(3)] decode_key_encoded [OF public_length [of k]]
    by (simp add: identity_from_parts_Inr)
  show "valid_server_identity \<lparr>si_uuid = id_uuid d, si_private_key = id_private_key d, si_short_id = id_short_id d\<rparr>"
    using u d l hex_is_hexdigit [of s]
    by (simp add: valid_server_identity_def valid_client_uuid_syntax encode_url url_encode_plain url_encode_key_chars
        length_url_encode)
qed

lemma generated_subscription:
  assumes "fills F"
  shows "snd (generate_subscription C F e) \<noteq> Inl InvalidIdentity"
    and "generate_subscription C F e = (e', Inr g) \<Longrightarrow>
      parse_credential (sg_credential g) = Some (sg_credential g) \<and> lower_hex (sg_link_id g) 32
      \<and> parse_id (sg_link_id g) = Inr (sg_link_id g)"
proof -
  have p: "parse_credential (b64_encode C bs) = Some (b64_encode C bs)" if "length bs = 32" for bs
    using that by (auto simp: parse_credential_Some encode_url)
  have i: "lower_hex l 32 \<and> parse_id l = Inr l" if i: "generate_id F e1 = (e2, Inr l)" for e1 e2 l
  proof -
    obtain bs where "random_bytes F 16 e1 = (e2, Inr bs)" "l = hex bs"
      using i by (auto simp: generate_id_def split: prod.splits sum.splits)
    with fills_length [OF assms, of 16 e1] have "length bs = 16" "l = hex bs" by auto
    then show ?thesis using hex_lower_all [of bs]
      by (simp add: lower_hex_def parse_id_def) (simp add: lower_hex_byte_def [abs_def])
  qed
  show "snd (generate_subscription C F e) \<noteq> Inl InvalidIdentity"
    using p
    by (auto dest!: fills_filled [OF assms] simp: generate_subscription_def generate_id_def random_bytes_def split: prod.splits sum.splits option.splits)
  assume g: "generate_subscription C F e = (e', Inr g)"
  obtain e1 bs where b: "random_bytes F 32 e = (e1, Inr bs)"
    using g by (auto simp: generate_subscription_def split: prod.splits sum.splits)
  then have "generate_id F e1 = (e', Inr (sg_link_id g))" "sg_credential g = b64_encode C bs"
    using g p [OF fills_length [OF assms b]] by (auto simp: generate_subscription_def split: prod.splits sum.splits)
  then show "parse_credential (sg_credential g) = Some (sg_credential g) \<and> lower_hex (sg_link_id g) 32
      \<and> parse_id (sg_link_id g) = Inr (sg_link_id g)"
    using i p [OF fills_length [OF assms b]] by simp
qed

end


section \<open>Client access values\<close>

lemma key_char_value: "key_char c \<longleftrightarrow> base64url_value c \<noteq> None"
  by (auto simp: base64url_value_def key_char_def is_ascii_alphanumeric_def)

lemma sextet_values_defined: "list_all key_char s \<Longrightarrow> \<exists>vs. sextet_values base64url_value s = Some vs \<and> length vs = length s"
  by (induction s) (auto simp: key_char_value)

lemma valid_server_name_standard: "valid_server_name STANDARD_SERVER_NAME"
  by (simp add: valid_server_name_def STANDARD_SERVER_NAME_def is_ascii_alphanumeric_def is_ascii_lowercase_def)

definition derived_facts :: "crypto \<Rightarrow> server_identity \<Rightarrow> string option \<Rightarrow> u8 list \<Rightarrow> nat list \<Rightarrow> connection_facts" where
  "derived_facts C i host key ip =
     \<lparr>cf_public_ipv4 = ip, cf_uuid = si_uuid i, cf_server_name = STANDARD_SERVER_NAME,
      cf_public_key = url_encode (x25519_public C key), cf_short_id = si_short_id i, cf_vmess_hostname = host\<rparr>"

context crates
begin

lemma server_key_decodes:
  assumes "valid_server_identity i"
  shows "\<exists>key. decode_key C (si_private_key i) = Inr key"
proof -
  let ?k = "filter (Not \<circ> is_crlf) (si_private_key i)"
  have k: "length ?k = 43" "list_all key_char ?k" using assms by (simp_all add: valid_server_identity_def)
  then obtain vs where v: "sextet_values base64url_value ?k = Some vs" "length vs = 43"
    using sextet_values_defined by metis
  then obtain key where "unsextets vs = Some key" using unsextets_defined [of vs] by (cases "unsextets vs") auto
  with v k show ?thesis by (auto simp: decode_key_Inr url_decode_def)
qed

lemma valid_key_text: "length p = 32 \<Longrightarrow> valid_base64url_32 (url_encode p) True \<and> length (url_encode p) = 43"
  using valid_base64url_32_iff [of "url_encode p"]
  by (auto simp: valid_base64url_32_crlf url_encode_plain length_url_encode)

lemma config_facts:
  assumes L: "json_markup L" and i: "valid_server_identity i" "is_none_or valid_vmess_hostname host"
    and b: "json_object L b (2 ^ 20) = Some (config_value i host)" and key: "decode_key C (si_private_key i) = Inr key"
  shows "config_connection_facts L C b ipv4 =
    (if list_all lower_hex_byte (si_short_id i)
     then map_option (derived_facts C i host key) (canonical_ipv4_addr ipv4) else None)"
proof -
  have d: "decode_supported L b = Some b" using json_markup.decode_supported_Some [OF L] i b by blast
  obtain j where j: "from_slice L b = Some j" "value_of j = config_value i host" using json_object_reads [OF b] by blast
  have f: "identity_from_private_key C (si_uuid i) (si_private_key i) (si_short_id i) = Inr
      \<lparr>id_uuid = si_uuid i, id_private_key = si_private_key i, id_public_key = url_encode (x25519_public C key),
       id_short_id = si_short_id i\<rparr>"
    using i(1) key by (simp add: identity_from_private_key_Inr valid_server_identity_def valid_client_uuid_syntax)
  have "config_connection_facts L C b ipv4 = new_facts ipv4 (si_uuid i) STANDARD_SERVER_NAME
      (url_encode (x25519_public C key)) (si_short_id i) host"
    using d j f by (simp add: config_connection_facts_def configured_identity_value configured_hostname_value)
  moreover have "host \<noteq> Some []" using i(2) by (auto simp: valid_vmess_hostname_def)
  ultimately show ?thesis
    using i valid_server_name_standard valid_key_text [OF public_length [of key]]
    by (cases host)
       (auto simp: new_facts_def derived_facts_def valid_server_identity_def valid_client_uuid_syntax valid_uuid_syntax
          MAX_SUBSCRIPTION_BYTES_def split: option.splits)
qed

end

section \<open>Crates that satisfy the laws\<close>

text \<open>
  The base64 codec of \<open>Base64\<close> is the one the crate documents; any function to 32 bytes can stand for the
  derivation of a public key.
\<close>

definition example_crypto :: crypto where
  "example_crypto = \<lparr>b64_encode = url_encode, b64_decode = url_decode,
     x25519_public = (\<lambda>key. if length key = 32 then map (\<lambda>b. b XOR 0x55) key else replicate 32 0)\<rparr>"

interpretation example_crates: crates example_crypto
  by unfold_locales (simp_all add: example_crypto_def)

end
