(* ===== verification/Access_Properties.thy ===== *)
theory Access_Properties
  imports Identity_Generation Examples
begin

text \<open>
  Properties of what clients get: Subscription Links and artifacts, generated identities, and the server
  configuration from which the client values are derived.
\<close>

unbundle bit_operations_syntax

section \<open>Examples\<close>

definition example_uuid :: string where
  "example_uuid = ''00000000-0000-4000-8000-000000000000''"

definition example_key :: "u8 list" where
  "example_key = replicate 32 0"

definition example_facts :: connection_facts where
  "example_facts = \<lparr>cf_public_ipv4 = [8, 8, 8, 8], cf_uuid = example_uuid, cf_server_name = ''google.com'',
     cf_public_key = url_encode example_key, cf_short_id = ''00000000'', cf_vmess_hostname = None\<rparr>"

definition example_identity :: server_identity where
  "example_identity = \<lparr>si_uuid = example_uuid, si_private_key = url_encode example_key, si_short_id = ''00000000''\<rparr>"

definition zero_entropy :: "unit entropy" where
  "zero_entropy e n = (e, Some (replicate n 0))"

lemma example_uuid_syntax: "uuid_syntax example_uuid"
  unfolding valid_uuid_syntax [symmetric]
  by (simp add: valid_uuid_def example_uuid_def lower_hex_byte_def is_ascii_digit_def)

lemma example_facts_valid: "valid_facts example_facts"
proof -
  have "canonical_ipv4_addr (show_ipv4 [8, 8, 8, 8]) = Some [8, 8, 8, 8]"
    using canonical_show_ipv4 [of 8 8 8 8] read_ipv4_show [of 8 8 8 8]
    by (auto simp: canonical_ipv4_addr_iff canonical_ipv4_addr_Some parse_ipv4_def split: if_splits)
  moreover have "valid_base64url_32 (url_encode example_key) True \<and> length (url_encode example_key) = 43"
    using crates.valid_key_text [OF example_crates.crates_axioms] by (simp add: example_key_def)
  ultimately show ?thesis
    using example_uuid_syntax valid_server_name_standard
    by (simp add: valid_facts_def example_facts_def valid_uuid_syntax STANDARD_SERVER_NAME_def MAX_SUBSCRIPTION_BYTES_def
        lower_hex_byte_def is_ascii_digit_def)
qed

lemma example_identity_valid: "valid_server_identity example_identity"
  using example_uuid_syntax
  by (simp add: valid_server_identity_def example_identity_def valid_client_uuid_syntax url_encode_plain length_url_encode
      url_encode_key_chars is_ascii_hexdigit_def is_ascii_digit_def example_key_def)

lemma length_base64_standard: "length (base64_standard bs) = 4 * ((length bs + 2) div 3)"
proof (induction bs rule: base64_standard.induct)
  case (4 a b c rest)
  have "(length (a # b # c # rest) + 2) div 3 = (length rest + 2) div 3 + 1" by simp
  with 4 show ?case by (simp add: sextets_def)
qed (simp_all add: sextets_def)

lemma vless_uri_lines:
  assumes "valid_facts f"
  shows "newline \<notin> set (vless_uri f)"
proof -
  have p: "parse_ipv4 (show_ipv4 (cf_public_ipv4 f)) = Some (cf_public_ipv4 f)"
    using assms by (simp add: valid_facts_def canonical_ipv4_addr_Some)
  have "newline \<notin> set (show_ipv4 (cf_public_ipv4 f))" using parsed_address(1) [OF p] by (auto simp: list_all_iff)
  moreover have "newline \<notin> set (cf_uuid f)"
  proof
    assume n: "newline \<in> set (cf_uuid f)"
    have "valid_client_uuid (cf_uuid f)" using assms by (simp add: valid_facts_def valid_uuid_syntax valid_client_uuid_syntax)
    from uuid_chars [OF this n] show False by (simp add: newline_def lower_hex_byte_def is_ascii_digit_def)
  qed
  ultimately show ?thesis by (simp add: vless_uri_def Let_def del: percent_escape.simps) (simp add: newline_def)
qed

lemma standard_only_value:
  assumes "from_slice L b = Some j" and "value_of j = config_value i host"
  shows "is_standard_only L b \<longleftrightarrow> host = None"
  using assms by (cases host) (simp_all add: is_standard_only_def Let_def config_value_def vless_inbound_eq)

definition example_configuration :: bytes where
  "example_configuration = encode_configuration example_lib (config_value example_identity None)"

lemma example_configuration_rendered:
  "standard_configuration example_lib example_identity = Some example_configuration"
  by (simp add: standard_configuration_eq example_configuration_def)

lemma example_configuration_fits: "length example_configuration \<le> 2 ^ 20"
proof -
  let ?v = "config_value example_identity None"
  have "set (to_vec example_lib ?v) \<inter> markup = {}"
    using text_markup.to_vec_markup [of ?v] config_value_markup [OF example_identity_valid, of None] by auto
  then have "length example_configuration = length (pr ?v) + 1"
    by (simp add: example_configuration_def encode_configuration_def html_escape_id) (simp add: example_lib_def)
  moreover have "text_bound ?v \<le> 20000"
    using length_show_nat [of 443] by (simp add: show_int_def config_value_def vless_inbound_eq example_identity_def example_uuid_def length_url_encode example_key_def
        STANDARD_SERVER_NAME_def)
  ultimately show ?thesis using length_pr [of ?v] by simp
qed

lemma example_configuration_value:
  "json_object example_lib example_configuration (2 ^ 20) = Some (config_value example_identity None)"
  using json_markup.json_object_encoded [OF text_markup.json_markup_axioms example_identity_valid, of None "2 ^ 20"]
    example_configuration_fits
  by (simp only: example_configuration_def is_none_or_simps simp_thms if_True)

lemma example_configuration_supported: "decode_supported example_lib example_configuration = Some example_configuration"
  using example_configuration_value json_markup.decode_supported_Some [OF text_markup.json_markup_axioms, of example_configuration example_configuration]
    example_identity_valid is_none_or_simps(1) by metis

section \<open>Links, credentials and artifacts\<close>

text \<open>
  C28. A Subscription Link is exactly its text: \<open>parse_link\<close> accepts a text if and only if it is the link of a
  canonical address and the unpadded URL-safe encoding of 32 bytes, returns it unchanged, and so does parsing a
  link that \<open>new_link\<close> made for a parsed credential.
\<close>

theorem link_text_exact:
  "(parse_link v = Some l \<longleftrightarrow> l = v \<and> (\<exists>ip key. canonical_ipv4 ip \<and> length key = 32
      \<and> v = ''http://'' @ ip @ '':8443/s/'' @ url_encode key))
   \<and> (parse_credential t = Some c \<and> new_link ip c = Some k \<longrightarrow> parse_link k = Some k)"
proof -
  have new: "parse_link k = Some k" if "parse_credential t = Some c" "new_link ip c = Some k" for t c ip k
    using new_link_parses [OF that(2)] that(1) by (simp add: parse_credential_Some)
  have "parse_link v = Some v" if "canonical_ipv4 ip" "length key = 32" "v = ''http://'' @ ip @ '':8443/s/'' @ url_encode key"
    for ip key
  proof -
    have "parse_credential (url_encode key) = Some (url_encode key)" using that(2) by (auto simp: parse_credential_Some)
    moreover have "new_link ip (url_encode key) = Some v"
      using that by (auto simp: new_link_def canonical_ipv4_addr_iff canonical_ipv4_addr_Some)
    ultimately show ?thesis by (rule new)
  qed
  moreover have "l = v \<and> (\<exists>ip key. canonical_ipv4 ip \<and> length key = 32
      \<and> v = ''http://'' @ ip @ '':8443/s/'' @ url_encode key)" if "parse_link v = Some l"
    using parse_link_Some [OF that] unfolding parse_credential_Some by metis
  ultimately show ?thesis using new by blast
qed

theorem link_text_exact_witness:
  "parse_link (''http://'' @ show_ipv4 [8, 8, 8, 8] @ '':8443/s/'' @ url_encode example_key)
     = Some (''http://'' @ show_ipv4 [8, 8, 8, 8] @ '':8443/s/'' @ url_encode example_key)"
proof -
  have "canonical_ipv4 (show_ipv4 [8, 8, 8, 8])" "length example_key = 32"
    using canonical_show_ipv4 [of 8 8 8 8] by (simp_all add: example_key_def)
  then show ?thesis by (subst link_text_exact [THEN conjunct1]) blast
qed

text \<open>
  The base64 of the repository is that of RFC 4648.  What \<open>base64_standard\<close> writes is read back by a
  standard reader and has four characters for every started group of three bytes; \<open>valid_base64url_32\<close> accepts
  exactly the canonical URL-safe texts of 32 bytes, with line breaks ignored where asked for; and the credential
  parser accepts exactly these, so two different credentials never decode to the same bytes.
\<close>

theorem base64_exact:
  "base64_decode (base64_standard bytes) = Some bytes
   \<and> length (base64_standard bytes) = 4 * ((length bytes + 2) div 3)
   \<and> (valid_base64url_32 s False \<longleftrightarrow> (\<exists>key. length key = 32 \<and> s = url_encode key))
   \<and> valid_base64url_32 s True = valid_base64url_32 (filter (\<lambda>c. c \<noteq> CHR 0x0D \<and> c \<noteq> CHR 0x0A) s) False
   \<and> (parse_credential s = Some c \<longleftrightarrow> c = s \<and> (\<exists>key. length key = 32 \<and> url_decode s = Some key \<and> s = url_encode key))"
proof -
  have "Not \<circ> is_crlf = (\<lambda>c. c \<noteq> CHR 0x0D \<and> c \<noteq> CHR 0x0A)" by (auto simp: is_crlf_def)
  then show ?thesis
    using base64_decode_standard length_base64_standard valid_base64url_32_iff valid_base64url_32_crlf
    by (auto simp: parse_credential_Some)
qed

text \<open>
  C30. A subscription artifact tells a client everything and nothing twice: two facts that were accepted and give
  the same artifact are equal, whatever their keys, names and hostnames contain.  For accepted facts without a
  tunnel hostname, whose key is written without line breaks, there always is an artifact, one line of at most 561
  bytes.
\<close>

theorem artifact_determines_facts:
  assumes "json_text L" and "new_facts ip uuid name key sid host = Some f"
  shows "(new_facts ip' uuid' name' key' sid' host' = Some g \<and> subscription_artifact L f = Some a
      \<and> subscription_artifact L g = Some a \<longrightarrow> f = g)
    \<and> (host = None \<and> \<not> list_ex is_crlf key \<longrightarrow> (\<exists>a. subscription_artifact L f = Some a \<and> length a \<le> 561
        \<and> filter (\<lambda>c. c = newline) a = [newline] \<and> last a = newline))"
proof -
  have f: "valid_facts f" using assms(2) by (simp add: new_facts_Some)
  have "f = g" if "new_facts ip' uuid' name' key' sid' host' = Some g" "subscription_artifact L f = Some a"
      "subscription_artifact L g = Some a" for a
    using json_text.artifact_inj [OF assms(1) f] that by (simp add: new_facts_Some)
  moreover have "\<exists>a. subscription_artifact L f = Some a \<and> length a \<le> 561
        \<and> filter (\<lambda>c. c = newline) a = [newline] \<and> last a = newline" if "host = None" "\<not> list_ex is_crlf key"
  proof -
    have "length (vless_uri f) \<le> 560" "cf_vmess_hostname f = None" "newline \<notin> set (vless_uri f)"
      using vless_uri_length [OF f] that assms(2) vless_uri_lines [OF f] by (auto simp: new_facts_Some given_hostname_def)
    then show ?thesis
      by (auto simp: subscription_artifact_eq vmess_part_def MAX_SUBSCRIPTION_BYTES_def filter_empty_conv)
  qed
  ultimately show ?thesis by blast
qed

theorem artifact_determines_facts_witness:
  "\<exists>a. subscription_artifact example_lib example_facts = Some a \<and> length a \<le> 561"
proof -
  have n: "new_facts (show_ipv4 [8, 8, 8, 8]) example_uuid ''google.com'' (url_encode example_key) ''00000000'' None
      = Some example_facts"
    using example_facts_valid by (simp add: new_facts_Some example_facts_def given_hostname_def)
  have "\<not> list_ex is_crlf (url_encode example_key)"
    using url_encode_plain [of example_key] by (auto simp: filter_id_conv list_ex_iff)
  with artifact_determines_facts [OF text_layer.json_text_axioms n] show ?thesis by blast
qed

section \<open>Identities\<close>

text \<open>
  Client UUIDs: the three validators of the repository accept the same texts; whatever 16 bytes are drawn, the
  generated UUID is accepted; and two draws give the same UUID only if they agree in all 122 bits that the version
  and the variant leave free.
\<close>

theorem uuid_generation:
  assumes "fills F" and "random_bytes F 16 e = (e1, Inr bs)" and "random_bytes F 16 d = (d1, Inr cs)"
  shows "(parse_uuid v = Inr v \<longleftrightarrow> valid_uuid v) \<and> (valid_uuid v \<longleftrightarrow> valid_client_uuid v)
    \<and> (\<exists>u w. generate_uuid F e = (e1, Inr u) \<and> generate_uuid F d = (d1, Inr w) \<and> parse_uuid u = Inr u
        \<and> (u = w \<longleftrightarrow> bs ! 6 AND 0x0F = cs ! 6 AND 0x0F \<and> bs ! 8 AND 0x3F = cs ! 8 AND 0x3F
             \<and> (\<forall>k < 16. k \<noteq> 6 \<longrightarrow> k \<noteq> 8 \<longrightarrow> bs ! k = cs ! k)))"
proof -
  have l: "length bs = 16" "length cs = 16" using fills_length [OF assms(1)] assms(2,3) by blast+
  have "hyphenate (hex (stamp bs)) = hyphenate (hex (stamp cs)) \<longleftrightarrow> stamp bs = stamp cs"
    using l by (simp add: hyphenate_inj hex_inj)
  then show ?thesis
    using stamp_eq_iff [OF l] generated_uuid_syntax [OF l(1)] assms(2,3)
    by (simp add: parse_uuid_syntax valid_uuid_syntax valid_client_uuid_syntax generate_uuid_def)
qed

theorem uuid_generation_witness:
  "\<exists>u. generate_uuid zero_entropy () = ((), Inr u) \<and> parse_uuid u = Inr u"
proof -
  have "fills zero_entropy" "random_bytes zero_entropy 16 () = ((), Inr (replicate 16 0))"
    by (simp_all add: fills_def zero_entropy_def random_bytes_def)
  from uuid_generation [OF this this(2)] show ?thesis by blast
qed

text \<open>
  A generated identity is usable everywhere: it validates as its own parts, the server renderer takes it
  with the same fields, and client facts can be made of it for every canonical address and every acceptable
  hostname, and for no others.
\<close>

theorem generated_identity_accepted:
  assumes "crates C" and "fills F" and "generate_identity C F e = (e', Inr d)"
  shows "identity_from_parts C (id_uuid d) (id_private_key d) (id_public_key d) (id_short_id d) = Inr d
    \<and> server_identity_of d = Inr \<lparr>si_uuid = id_uuid d, si_private_key = id_private_key d, si_short_id = id_short_id d\<rparr>
    \<and> (new_facts ip (id_uuid d) STANDARD_SERVER_NAME (id_public_key d) (id_short_id d) host \<noteq> None \<longleftrightarrow>
         canonical_ipv4 ip \<and> is_none_or valid_vmess_hostname (given_hostname host))"
proof -
  note g = crates.generated_identity [OF assms]
  have "valid_base64url_32 (id_public_key d) True"
    using g(3) url_encode_plain by (auto simp: valid_base64url_32_crlf valid_base64url_32_iff)
  then have "new_facts ip (id_uuid d) STANDARD_SERVER_NAME (id_public_key d) (id_short_id d) host \<noteq> None \<longleftrightarrow>
         canonical_ipv4 ip \<and> is_none_or valid_vmess_hostname (given_hostname host)"
    using g(1,2,4) valid_server_name_standard
    by (auto simp: new_facts_def given_hostname_def canonical_ipv4_addr_iff valid_uuid_syntax MAX_SUBSCRIPTION_BYTES_def
        split: option.splits)
  moreover have "server_identity_from (id_uuid d) (id_private_key d) (id_short_id d)
      = Some \<lparr>si_uuid = id_uuid d, si_private_key = id_private_key d, si_short_id = id_short_id d\<rparr>"
    using g(6) by (simp add: server_identity_from_Some)
  ultimately show ?thesis using g(5) by (simp add: server_identity_of_def)
qed

theorem generated_identity_accepted_witness:
  "\<exists>d. generate_identity example_crypto zero_entropy () = ((), Inr d)
     \<and> identity_from_parts example_crypto (id_uuid d) (id_private_key d) (id_public_key d) (id_short_id d) = Inr d"
proof -
  have F: "fills zero_entropy" by (simp add: fills_def zero_entropy_def)
  obtain d where d: "generate_identity example_crypto zero_entropy () = ((), Inr d)"
    by (simp add: generate_identity_def generate_uuid_def random_bytes_def zero_entropy_def)
  from generated_identity_accepted [OF example_crates.crates_axioms F d] d show ?thesis by blast
qed

section \<open>Server configurations\<close>

text \<open>
  C33. \<open>decode_supported\<close> accepts exactly the documents, of at most one megabyte and without duplicate members,
  whose value is the rendering of a valid identity, with or without a tunnel hostname, and keeps their bytes;
  \<open>decode_standard\<close> those without a hostname.  What \<open>standard\<close> renders is accepted by both as soon as it fits.
\<close>

theorem supported_configurations:
  assumes "json_markup L"
  shows "(decode_supported L b = Some c \<longleftrightarrow> c = b \<and> (\<exists>i host. valid_server_identity i
        \<and> is_none_or valid_vmess_hostname host \<and> json_object L b (2 ^ 20) = Some (config_value i host)))
    \<and> (decode_standard L b = Some c \<longleftrightarrow> c = b \<and> (\<exists>i. valid_server_identity i
        \<and> json_object L b (2 ^ 20) = Some (config_value i None)))
    \<and> (valid_server_identity i \<and> standard_configuration L i = Some s \<and> length s \<le> 2 ^ 20 \<longrightarrow>
        decode_standard L s = Some s)"
proof -
  have sup: "decode_supported L b = Some c \<longleftrightarrow> c = b \<and> (\<exists>i host. valid_server_identity i
        \<and> is_none_or valid_vmess_hostname host \<and> json_object L b (2 ^ 20) = Some (config_value i host))" for b c
    by (rule json_markup.decode_supported_Some [OF assms])
  have only: "is_standard_only L b \<longleftrightarrow> host = None" if "json_object L b (2 ^ 20) = Some (config_value i host)" for b i host
    using json_object_reads [OF that] standard_only_value [of L b _ i host] by blast
  have std: "decode_standard L b = Some c \<longleftrightarrow> c = b \<and> (\<exists>i. valid_server_identity i
        \<and> json_object L b (2 ^ 20) = Some (config_value i None))" for b c
  proof -
    have "decode_standard L b = Some c \<longleftrightarrow> decode_supported L b = Some c \<and> is_standard_only L c"
      by (auto simp: decode_standard_def split: Option.bind_splits)
    also have "\<dots> \<longleftrightarrow> c = b \<and> (\<exists>i. valid_server_identity i \<and> json_object L b (2 ^ 20) = Some (config_value i None))"
    proof
      assume "decode_supported L b = Some c \<and> is_standard_only L c"
      with only show "c = b \<and> (\<exists>i. valid_server_identity i \<and> json_object L b (2 ^ 20) = Some (config_value i None))"
        unfolding sup by blast
    next
      assume a: "c = b \<and> (\<exists>i. valid_server_identity i \<and> json_object L b (2 ^ 20) = Some (config_value i None))"
      then have "decode_supported L b = Some c" unfolding sup by (metis is_none_or_simps(1))
      with a only show "decode_supported L b = Some c \<and> is_standard_only L c" by blast
    qed
    finally show ?thesis .
  qed
  have "decode_standard L s = Some s" if "valid_server_identity i" "standard_configuration L i = Some s" "length s \<le> 2 ^ 20"
    using std [of s s] json_markup.json_object_encoded [OF assms that(1), of None] that(1-3)
    by (auto simp: standard_configuration_eq simp del: numeral_power_eq_of_nat_cancel_iff)
  with sup std show ?thesis by blast
qed

theorem supported_configurations_witness:
  "decode_standard example_lib example_configuration = Some example_configuration"
  using supported_configurations [OF text_markup.json_markup_axioms, where i = example_identity and s = example_configuration]
    example_identity_valid example_configuration_rendered example_configuration_fits by blast

text \<open>
  The two edits of a supported configuration do what they say and never panic: \<open>with_client_uuid\<close> replaces
  the UUID in every inbound and nothing else, for every valid UUID; \<open>with_vmess_websocket\<close> adds the tunnel
  inbound to a configuration that has none, for every valid hostname; otherwise both refuse.
\<close>

theorem configuration_edits:
  assumes "json_markup L" and "decode_supported L b = Some c"
  shows "\<exists>i host. json_object L b (2 ^ 20) = Some (config_value i host)
    \<and> with_client_uuid L b u = (if valid_client_uuid u
        then Inr (encode_configuration L (config_value (i\<lparr>si_uuid := u\<rparr>) host)) else Inl ConfigurationError)
    \<and> with_vmess_websocket L b h = (if valid_vmess_hostname h \<and> host = None
        then Inr (encode_configuration L (config_value i (Some h))) else Inl ConfigurationError)"
proof -
  obtain i host where v: "json_object L b (2 ^ 20) = Some (config_value i host)"
    using assms json_markup.decode_supported_Some [OF assms(1)] by blast
  obtain j where j: "from_slice L b = Some j" "value_of j = config_value i host" using json_object_reads [OF v] by blast
  have "with_client_uuid L b u = (if valid_client_uuid u
        then Inr (encode_configuration L (config_value (i\<lparr>si_uuid := u\<rparr>) host)) else Inl ConfigurationError)"
    using json_markup.with_client_uuid_value [OF assms(1) j] by (simp add: with_client_uuid_def)
  moreover have "with_vmess_websocket L b h = (if valid_vmess_hostname h \<and> host = None
        then Inr (encode_configuration L (config_value i (Some h))) else Inl ConfigurationError)"
    using json_markup.with_vmess_value [OF assms(1) j(1), of i h] j
    by (cases host) (auto simp: with_vmess_websocket_def config_value_def inbounds_mut_def)
  ultimately show ?thesis using v by blast
qed

theorem configuration_edits_witness:
  "\<exists>i host. with_client_uuid example_lib example_configuration example_uuid
       = Inr (encode_configuration example_lib (config_value (i\<lparr>si_uuid := example_uuid\<rparr>) host))"
proof -
  have "valid_client_uuid example_uuid" using example_uuid_syntax by (simp add: valid_client_uuid_syntax)
  with configuration_edits [OF text_markup.json_markup_axioms example_configuration_supported, of example_uuid "[]"] show ?thesis
    by auto
qed

text \<open>
  The client values of a supported configuration: its private key always decodes, and facts with the derived
  public key exist for exactly the canonical addresses, provided that the short id is written in lower case.  (The
  configuration decoder also accepts an upper-case short id, for which there never are client values.)
\<close>

theorem configuration_access_values:
  assumes "json_markup L" and "crates C" and "decode_supported L b = Some c"
  shows "\<exists>i host key. json_object L b (2 ^ 20) = Some (config_value i host) \<and> decode_key C (si_private_key i) = Inr key
    \<and> config_connection_facts L C b ipv4 =
        (if list_all lower_hex_byte (si_short_id i)
         then map_option (derived_facts C i host key) (canonical_ipv4_addr ipv4) else None)"
proof -
  obtain i host where v: "valid_server_identity i" "is_none_or valid_vmess_hostname host"
      "json_object L b (2 ^ 20) = Some (config_value i host)"
    using assms(3) json_markup.decode_supported_Some [OF assms(1)] by blast
  obtain key where k: "decode_key C (si_private_key i) = Inr key" using crates.server_key_decodes [OF assms(2) v(1)] by blast
  from crates.config_facts [OF assms(2,1) v k] v(3) k show ?thesis by blast
qed

theorem configuration_access_values_witness:
  "\<exists>f. config_connection_facts example_lib example_crypto example_configuration ''8.8.8.8'' = Some f
     \<and> cf_uuid f = example_uuid"
proof -
  obtain i host key where f: "json_object example_lib example_configuration (2 ^ 20) = Some (config_value i host)"
      "config_connection_facts example_lib example_crypto example_configuration ''8.8.8.8'' =
        (if list_all lower_hex_byte (si_short_id i)
         then map_option (derived_facts example_crypto i host key) (canonical_ipv4_addr ''8.8.8.8'') else None)"
    using configuration_access_values [OF text_markup.json_markup_axioms example_crates.crates_axioms
        example_configuration_supported] by metis
  have "config_value i host = config_value example_identity None"
    using f(1) example_configuration_value by simp
  then have "i = example_identity" by (simp add: config_value_inj)
  moreover have "list_all lower_hex_byte (si_short_id example_identity)"
    by (simp add: example_identity_def lower_hex_byte_def is_ascii_digit_def)
  moreover obtain ip where "canonical_ipv4_addr ''8.8.8.8'' = Some ip"
    using example_ip(2) canonical_ipv4_addr_iff by blast
  ultimately show ?thesis using f(2) by (simp add: derived_facts_def example_identity_def)
qed

end
