(* ===== verification/Rotation_Begin.thy ===== *)
theory Rotation_Begin
  imports Client_Record
begin

text \<open>
  The first record of a Client Identity rotation: which typed record the JSON edits of \<open>begin_record\<close> stand
  for, what the metadata of that record reads back as, and that the structural check \<open>permits_successor\<close>
  admits exactly what \<open>begin_record\<close> produced.
\<close>

section \<open>Edits of begin\_record\<close>

lemma represents_lookup:
  assumes "represents v r"
  shows "jindex ''permitted_resources'' v = JArr (map JStr (permitted_resources r))"
    and "jget ''serving'' v = map_option (value_of \<circ> ser_serving) (serving r)"
    and "jget ''proxy_startup'' v = map_option (value_of \<circ> ser_startup) (proxy_startup r)"
    and "jget ''client_identity_rotation'' v = map_option (value_of \<circ> ser_client_rotation) (client_identity_rotation r)"
    and "jget ''resource_creating_releases'' v = map_option (value_of \<circ> ser_releases) (resource_creating_releases r)"
  using represents_unique [OF assms] 
  by (simp_all add: jindex_def jget_ownership ser_strs_def)
    (simp add: ser_ownership_def jget_value_of [OF ownership_fields_wf(1)] reads_record_fields [OF reads_vfield_of])

lemma rotation_value_ser:
  "rotation_value op m = value_of (ser_client_rotation \<lparr>cr_operation_id = op, cr_direction = ''cleanup'',
     cr_effects = EFFECTS, cr_completed_effects = [], cr_source_configuration_sha256 = mt_source_sha256 m,
     cr_target_configuration_sha256 = mt_target_sha256 m, cr_checkpoint = checkpoint_as_str Authorized,
     cr_subscription = None\<rparr>)"
  by (simp add: rotation_value_def ser_client_rotation_def client_rotation_fields_def ser_strs_def mk_obj_def)

lemma subscription_value_ser:
  "subscription_value (value_of (ser_serving s)) m = value_of (ser_client_subscription \<lparr>cs_source = s, cs_target = s,
     cs_source_artifact_sha256 = mt_source_artifact_sha256 m, cs_target_artifact_sha256 = mt_target_artifact_sha256 m\<rparr>)"
  by (simp add: subscription_value_def ser_client_subscription_def client_subscription_fields_def mk_obj_def value_of_idem)

lemma startup_wire_ser:
  "startup_wire L st = value_of (ser_startup \<lparr>su_drop_in_sha256 = sha256_hex L STARTUP_DROP_IN, su_directory_created = st\<rparr>)"
  by (simp add: startup_wire_def ser_startup_def startup_fields_def mk_obj_def)

lemma append_resources_represents:
  assumes "represents v r" "resource_creating_releases r = Some cs"
  shows "\<exists>w. append_resources v xs (release_wire rel) = Some w
    \<and> represents w (r\<lparr>permitted_resources := permitted_resources r @ xs,
        resource_creating_releases := Some (cs @ map (\<lambda>_. rel) xs)\<rparr>)"
  using assms
proof (induction xs arbitrary: v r cs)
  case Nil
  have same: "r\<lparr>resource_creating_releases := Some cs\<rparr> = r" using Nil.prems(2) by (cases r) simp
  have "represents v (r\<lparr>resource_creating_releases := Some cs\<rparr>)" unfolding same by (rule Nil.prems(1))
  then show ?case by simp
next
  case (Cons x xs)
  define v1 where "v1 = jset ''permitted_resources'' (ser_strs (permitted_resources r @ [x])) v"
  define r1 where "r1 = r\<lparr>permitted_resources := permitted_resources r @ [x]\<rparr>"
  have v1: "represents v1 r1"
    unfolding v1_def r1_def by (rule represents_edits(5) [OF Cons.prems(1)])
  define v2 where "v2 = jset ''resource_creating_releases'' (value_of (ser_releases (cs @ [rel]))) v1"
  have v2: "represents v2 (r1\<lparr>resource_creating_releases := Some (cs @ [rel])\<rparr>)"
    unfolding v2_def by (rule represents_edits(8) [OF v1])
  have 1: "jpush ''permitted_resources'' (JStr x) v = Some v1"
    using represents_lookup(1) [OF Cons.prems(1)] by (simp add: jpush_def v1_def ser_strs_def)
  have 2: "jpush ''resource_creating_releases'' (release_wire rel) v1 = Some v2"
    using represents_lookup(5) [OF v1] Cons.prems(2)
    by (simp add: jpush_def jindex_def v2_def r1_def ser_releases_def release_wire_ser)
  from Cons.IH [OF v2, of "cs @ [rel]"] show ?case by (simp add: 1 2 r1_def)
qed

text \<open>The typed edits: what the JSON edits of \<open>begin_record\<close> amount to.\<close>

definition schema2_of :: "wire_ownership \<Rightarrow> wire_ownership" where
  "schema2_of r =
     (if schema r = 1
      then r\<lparr>schema := 2, permitted_resources := (permitted_resources r)[0 := SCHEMA2_LINE],
             resource_creating_releases := Some (map (\<lambda>_. release_identity r) (permitted_resources r))\<rparr>
      else r)"

definition adding_resources :: "string list \<Rightarrow> release_identity \<Rightarrow> wire_ownership \<Rightarrow> wire_ownership option" where
  "adding_resources xs rel r =
     map_option (\<lambda>cs. r\<lparr>permitted_resources := permitted_resources r @ xs,
        resource_creating_releases := Some (cs @ map (\<lambda>_. rel) xs)\<rparr>) (resource_creating_releases r)"

definition startup_authority :: "lib \<Rightarrow> bool \<Rightarrow> wire_startup" where
  "startup_authority L st = \<lparr>su_drop_in_sha256 = sha256_hex L STARTUP_DROP_IN, su_directory_created = st\<rparr>"

definition startup_of :: "lib \<Rightarrow> bool \<Rightarrow> release_identity \<Rightarrow> wire_ownership \<Rightarrow> wire_ownership option" where
  "startup_of L st rel r =
     (case proxy_startup r of
        Some su \<Rightarrow> if su = startup_authority L st then Some r else None
      | None \<Rightarrow> adding_resources (startup_authority_resources L st) rel
                  (r\<lparr>proxy_startup := Some (startup_authority L st)\<rparr>))"

text \<open>The rotation a fresh record carries.\<close>

definition begun :: "string \<Rightarrow> material \<Rightarrow> wire_serving option \<Rightarrow> wire_client_rotation" where
  "begun op m sv = \<lparr>cr_operation_id = op, cr_direction = ''cleanup'',
     cr_effects = EFFECTS, cr_completed_effects = [], cr_source_configuration_sha256 = mt_source_sha256 m,
     cr_target_configuration_sha256 = mt_target_sha256 m, cr_checkpoint = checkpoint_as_str Authorized,
     cr_subscription = map_option (\<lambda>s. \<lparr>cs_source = s, cs_target = s,
       cs_source_artifact_sha256 = mt_source_artifact_sha256 m,
       cs_target_artifact_sha256 = mt_target_artifact_sha256 m\<rparr>) sv\<rparr>"

definition rotation_begun ::
  "lib \<Rightarrow> wire_ownership \<Rightarrow> string \<Rightarrow> material \<Rightarrow> bool \<Rightarrow> release_identity \<Rightarrow> wire_ownership option" where
  "rotation_begun L r op m st rel = do {
     n \<leftarrow> startup_of L st rel (schema2_of r);
     adding_resources (operation_resources (mt_target_sha256 m)
         (map_option (\<lambda>_. mt_target_artifact_sha256 m) (serving r))) rel
       (n\<lparr>client_identity_rotation := Some (begun op m (serving r))\<rparr>)
   }"

text \<open>An optional JSON value stands for an optional record.\<close>

definition represents_opt :: "json option \<Rightarrow> wire_ownership option \<Rightarrow> bool" where
  "represents_opt v r = (case (v, r) of (None, None) \<Rightarrow> True | (Some x, Some n) \<Rightarrow> represents x n | _ \<Rightarrow> False)"

lemma represents_opt_simps [simp]:
  "represents_opt None None" "represents_opt (Some v) (Some r) = represents v r"
  "represents_opt None (Some r) = False" "represents_opt (Some v) None = False"
  by (simp_all add: represents_opt_def)

lemma append_resources_unowned:
  assumes "represents v r" "resource_creating_releases r = None" "xs \<noteq> []"
  shows "append_resources v xs c = None"
proof -
  obtain x ys where xs: "xs = x # ys" using assms(3) by (cases xs) auto
  have p: "jpush ''permitted_resources'' (JStr x) v = Some (jset ''permitted_resources'' (ser_strs (permitted_resources r @ [x])) v)"
    using represents_lookup(1) [OF assms(1)] by (simp add: jpush_def ser_strs_def)
  have "represents (jset ''permitted_resources'' (ser_strs (permitted_resources r @ [x])) v)
      (r\<lparr>permitted_resources := permitted_resources r @ [x]\<rparr>)"
    by (rule represents_edits(5) [OF assms(1)])
  from represents_lookup(5) [OF this] assms(2) show ?thesis
    by (simp add: xs p) (simp add: jpush_def jindex_def)
qed

lemma append_resources_with:
  assumes "represents v r" "xs \<noteq> []"
  shows "represents_opt (append_resources v xs (release_wire rel)) (adding_resources xs rel r)"
  using append_resources_unowned [OF assms(1) _ assms(2)] append_resources_represents [OF assms(1), of _ xs rel]
  by (cases "resource_creating_releases r") (auto simp: adding_resources_def)

lemma resources_nonempty: "startup_authority_resources L st \<noteq> []" "operation_resources t a \<noteq> []"
  by (simp_all add: startup_authority_resources_def operation_resources_def)

lemma to_schema2_represents:
  assumes "represents v r"
  shows "represents (to_schema2 r v) (schema2_of r)"
  using assms represents_schema2 [OF assms]
  by (simp add: to_schema2_def schema2_of_def Let_def map_replicate_const)

lemma with_startup_represents:
  assumes v: "represents v r"
  shows "represents_opt (with_startup L st rel v) (startup_of L st rel r)"
proof (cases "proxy_startup r")
  case None
  have "represents (jset ''proxy_startup'' (startup_wire L st) v) (r\<lparr>proxy_startup := Some (startup_authority L st)\<rparr>)"
    unfolding startup_wire_ser startup_authority_def by (rule represents_edits(10) [OF v])
  from append_resources_with [OF this resources_nonempty(1), of L st rel] None represents_lookup(3) [OF v]
  show ?thesis by (simp add: with_startup_def startup_of_def)
next
  case (Some su)
  have "value_of (ser_startup su) = startup_wire L st \<longleftrightarrow> su = startup_authority L st"
  proof
    assume "value_of (ser_startup su) = startup_wire L st"
    then have "de_startup (value_of (ser_startup su)) = de_startup (value_of (ser_startup (startup_authority L st)))"
      by (simp add: startup_wire_ser startup_authority_def)
    then show "su = startup_authority L st" by simp
  qed (simp add: startup_wire_ser startup_authority_def)
  then show ?thesis using v Some represents_lookup(3) [OF v] by (simp add: with_startup_def startup_of_def)
qed

lemma client_subscription_edit:
  "jset ''subscription'' (value_of (ser_client_subscription y)) (value_of (ser_client_rotation c))
     = value_of (ser_client_rotation (c\<lparr>cr_subscription := Some y\<rparr>))"
  using jset_mk_obj [of "client_rotation_fields c" 7 "''subscription''" "ser_client_subscription y"]
  by (simp add: ser_client_rotation_def client_rotation_fields_def)

lemma begun_represents:
  assumes v: "represents v r"
  shows "represents (let value = jset ''client_identity_rotation'' (rotation_value op m) v in
       case jget ''serving'' value of
         None \<Rightarrow> value
       | Some s \<Rightarrow> jset_in ''client_identity_rotation'' ''subscription'' (subscription_value s m) value)
    (r\<lparr>client_identity_rotation := Some (begun op m (serving r))\<rparr>)"
proof -
  let ?v = "jset ''client_identity_rotation'' (rotation_value op m) v"
  have 1: "represents ?v (r\<lparr>client_identity_rotation := Some (begun op m None)\<rparr>)"
    unfolding rotation_value_ser begun_def option.map by (rule represents_edits(11) [OF v])
  show ?thesis
  proof (cases "serving r")
    case None
    then show ?thesis using 1 represents_lookup(2) [OF 1] by simp
  next
    case (Some sv)
    then have g: "jget ''serving'' ?v = Some (value_of (ser_serving sv))" using represents_lookup(2) [OF 1] by simp
    have c: "begun op m (Some sv) = (begun op m None)\<lparr>cr_subscription := Some \<lparr>cs_source = sv, cs_target = sv,
       cs_source_artifact_sha256 = mt_source_artifact_sha256 m,
       cs_target_artifact_sha256 = mt_target_artifact_sha256 m\<rparr>\<rparr>" by (simp add: begun_def)
    from represents_client_edit [OF 1 _ client_subscription_edit] show ?thesis
      by (simp add: g Some c subscription_value_ser)
  qed
qed

lemma jget_client_subscription:
  "jget ''subscription'' (value_of (ser_client_rotation c))
     = map_option (value_of \<circ> ser_client_subscription) (cr_subscription c)"
  "jget ''source_artifact_sha256'' (value_of (ser_client_subscription y)) = Some (JStr (cs_source_artifact_sha256 y))"
  "jget ''target_artifact_sha256'' (value_of (ser_client_subscription y)) = Some (JStr (cs_target_artifact_sha256 y))"
  using operation_fields_wf
  by (simp_all add: ser_client_rotation_def ser_client_subscription_def jget_value_of)
    (simp_all add: client_rotation_fields_def client_subscription_fields_def serde_simps option.map_comp)

lemma jget_startup:
  "jget ''directory_created'' (value_of (ser_startup y)) = Some (JBool (su_directory_created y))"
  by (simp add: ser_startup_def jget_value_of startup_fields_def) (simp add: serde_simps)

lemma jget_null: "jget k JNull = None"
  by (simp add: jget_def)

lemma schema2_of_fields [simp]:
  "serving (schema2_of r) = serving r" "phase (schema2_of r) = phase r" "proxy_startup (schema2_of r) = proxy_startup r"
  "unfinished_direction (schema2_of r) = unfinished_direction r"
  by (simp_all add: schema2_of_def)

lemma startup_of_fields:
  assumes "startup_of L st rel r = Some n"
  shows "serving n = serving r" "phase n = phase r" "unfinished_direction n = unfinished_direction r"
    "proxy_startup n = Some (startup_authority L st)"
  using assms by (auto simp: startup_of_def adding_resources_def split: option.splits if_splits)

context json_text
begin

lemma begin_record_eq:
  "begin_record L r op m st rel =
     (if phase r = Running \<and> unfinished_direction r = Idle \<and> pending_change r = None
         \<and> configuration_sha256 r = mt_source_sha256 m \<and> mt_source_sha256 m \<noteq> mt_target_sha256 m
         \<and> encode_record L r \<noteq> None \<and> finishing_release_identity r = None
      then Option.bind (rotation_begun L r op m st rel) (\<lambda>n. if prints L n \<and> valid L n then Some n else None)
      else None)"
proof (cases "phase r = Running \<and> unfinished_direction r = Idle \<and> pending_change r = None
     \<and> configuration_sha256 r = mt_source_sha256 m \<and> mt_source_sha256 m \<noteq> mt_target_sha256 m
     \<and> encode_record L r \<noteq> None \<and> finishing_release_identity r = None")
  case True
  let ?x = "value_of (ser_ownership r)"
  have x: "wire L r = Some ?x" using True wire_iff [of r] by simp
  have s: "represents_opt (with_startup L st rel (to_schema2 r ?x)) (startup_of L st rel (schema2_of r))"
    by (rule with_startup_represents [OF to_schema2_represents [OF represents_value]])
  have f: "jget ''finishing_release_identity'' ?x = None" using True by (simp add: jget_ownership)
  show ?thesis
  proof (cases "startup_of L st rel (schema2_of r)")
    case None
    then have "with_startup L st rel (to_schema2 r ?x) = None"
      using s by (cases "with_startup L st rel (to_schema2 r ?x)") simp_all
    then show ?thesis using True x f None by (simp add: begin_record_def rotation_begun_def is_Some_def)
  next
    case (Some n)
    then obtain y where y: "with_startup L st rel (to_schema2 r ?x) = Some y" "represents y n"
      using s by (cases "with_startup L st rel (to_schema2 r ?x)") auto
    have sv: "serving n = serving r" using startup_of_fields [OF Some] by simp
    let ?z = "let value = jset ''client_identity_rotation'' (rotation_value op m) y in
       case jget ''serving'' value of
         None \<Rightarrow> value
       | Some s \<Rightarrow> jset_in ''client_identity_rotation'' ''subscription'' (subscription_value s m) value"
    let ?xs = "operation_resources (mt_target_sha256 m) (map_option (\<lambda>_. mt_target_artifact_sha256 m) (serving r))"
    have a: "represents_opt (append_resources ?z ?xs (release_wire rel)) (rotation_begun L r op m st rel)"
      using append_resources_with [OF begun_represents [OF y(2), of op m] resources_nonempty(2)] Some sv
      by (simp add: rotation_begun_def)
    have "begin_record L r op m st rel = Option.bind (append_resources ?z ?xs (release_wire rel)) (validated_value L)"
      using True x f y by (simp add: begin_record_def is_Some_def Let_def)
    then show ?thesis
      using True a validated_value_represents
      by (cases "append_resources ?z ?xs (release_wire rel)"; cases "rotation_begun L r op m st rel") simp_all
  qed
next
  case False
  then show ?thesis
    using wire_iff [of r] by (auto simp: begin_record_def is_Some_def jget_ownership)
qed

lemma begin_record_facts:
  assumes "begin_record L r op m st rel = Some s"
  shows "phase s = Running" "unfinished_direction s = Idle" "valid L s" "prints L s"
    "client_identity_rotation s = Some (begun op m (serving r))" "serving s = serving r"
    "proxy_startup s = Some (startup_authority L st)"
    "creating_releases s \<noteq> []" "last (creating_releases s) = rel"
proof -
  have r: "phase r = Running" "unfinished_direction r = Idle" and b: "rotation_begun L r op m st rel = Some s"
    and v: "valid L s" "prints L s"
    using assms by (auto simp: begin_record_eq split: if_splits Option.bind_splits)
  let ?xs = "operation_resources (mt_target_sha256 m) (map_option (\<lambda>_. mt_target_artifact_sha256 m) (serving r))"
  obtain n cs where n: "startup_of L st rel (schema2_of r) = Some n"
    and s: "s = n\<lparr>client_identity_rotation := Some (begun op m (serving r)),
      permitted_resources := permitted_resources n @ ?xs, resource_creating_releases := Some (cs @ map (\<lambda>_. rel) ?xs)\<rparr>"
    using b by (auto simp: rotation_begun_def adding_resources_def split: Option.bind_splits)
  show "creating_releases s \<noteq> []" "last (creating_releases s) = rel"
    using resources_nonempty(2) by (simp_all add: s creating_releases_def last_map)
  show "phase s = Running" "unfinished_direction s = Idle" "client_identity_rotation s = Some (begun op m (serving r))"
    "serving s = serving r" "proxy_startup s = Some (startup_authority L st)"
    using startup_of_fields [OF n] r by (simp_all add: s)
qed (use assms in \<open>auto simp: begin_record_eq split: if_splits Option.bind_splits\<close>)

lemma rotation_of_begun:
  assumes "phase s = Running" "unfinished_direction s = Idle" "client_identity_rotation s = Some (begun op m sv)"
    "encode_record L s \<noteq> None"
  shows "rotation_of L s = Some \<lparr>rd_operation_id = op, rd_checkpoint = Authorized,
     rd_source_sha256 = mt_source_sha256 m, rd_target_sha256 = mt_target_sha256 m,
     rd_source_artifact_sha256 = map_option (\<lambda>_. mt_source_artifact_sha256 m) sv,
     rd_target_artifact_sha256 = map_option (\<lambda>_. mt_target_artifact_sha256 m) sv\<rparr>"
proof -
  have w: "wire L s = Some (value_of (ser_ownership s))" using assms(4) wire_iff [of s] by simp
  have i: "position (\<lambda>v. v = checkpoint_as_str Authorized) CHECKPOINTS = Some 0" "from_index 0 = Some Authorized"
    by (simp_all add: checkpoint_as_str_def CHECKPOINTS_def from_index_ordinal)
  show ?thesis
    using assms(1,2,3) w i
    by (cases sv) (simp_all add: rotation_of_def jget_ownership jindex_def jget_client jget_client_subscription
        as_str_def begun_def jget_null)
qed

lemma begin_admitted:
  assumes b: "begin_record L r op m st rel = Some s" and e: "encode_record L s \<noteq> None"
  shows "initial_successor L r s = Some s"
proof -
  note f = begin_record_facts [OF b]
  have w: "wire L s = Some (value_of (ser_ownership s))" using e wire_iff [of s] by simp
  have d: "jindex ''directory_created'' (jindex ''proxy_startup'' (value_of (ser_ownership s))) = JBool st"
    using f(7) by (simp add: jindex_def jget_ownership jget_startup startup_authority_def)
  let ?m = "\<lparr>mt_target = [], mt_artifact = [], mt_source_sha256 = mt_source_sha256 m,
      mt_target_sha256 = mt_target_sha256 m,
      mt_source_artifact_sha256 = (case map_option (\<lambda>_. mt_source_artifact_sha256 m) (serving r) of None \<Rightarrow> [] | Some a \<Rightarrow> a),
      mt_target_artifact_sha256 = (case map_option (\<lambda>_. mt_target_artifact_sha256 m) (serving r) of None \<Rightarrow> [] | Some a \<Rightarrow> a)\<rparr>"
  have "rotation_begun L r op ?m st rel = rotation_begun L r op m st rel"
    by (cases "serving r") (simp_all add: rotation_begun_def begun_def)
  then have "begin_record L r op ?m st rel = begin_record L r op m st rel"
    by (auto simp: begin_record_eq)
  then show ?thesis
    using b d f(8,9) w by (simp add: initial_successor_def rotation_of_begun [OF f(1,2,5) e])
qed

end

end
