(* ===== verification/Host_Monad.thy ===== *)
theory Host_Monad
  imports Prelude
begin

text \<open>
  Orchestration code that calls a host and returns early with \<open>?\<close> is written in a state-and-error monad: a
  computation takes the state of the host and returns the new state and an error or a value.  Beside it stands
  the observation of a host: a state with a log of events, newest first.  \<open>secure\<close> says that a computation keeps
  its log in order on every branch, and \<open>mirrors\<close> that observing did not change anything.
\<close>

section \<open>Computations\<close>

type_synonym ('f, 's, 'a) comp = "'s \<Rightarrow> 's \<times> ('f + 'a)"

definition ret :: "'a \<Rightarrow> ('f, 's, 'a) comp" where
  "ret x s = (s, Inr x)"

definition throw :: "'f \<Rightarrow> ('f, 's, 'a) comp" where
  "throw e s = (s, Inl e)"

definition bnd :: "('f, 's, 'a) comp \<Rightarrow> ('a \<Rightarrow> ('f, 's, 'b) comp) \<Rightarrow> ('f, 's, 'b) comp" where
  "bnd m f s = (case m s of (t, Inl e) \<Rightarrow> (t, Inl e) | (t, Inr x) \<Rightarrow> f x t)"

definition ensure :: "'f \<Rightarrow> bool \<Rightarrow> ('f, 's, unit) comp" where
  "ensure e b = (if b then ret () else throw e)"

definition option_or :: "'f \<Rightarrow> 'a option \<Rightarrow> ('f, 's, 'a) comp" where
  "option_or e x = (case x of None \<Rightarrow> throw e | Some v \<Rightarrow> ret v)"

definition of_result :: "'f + 'a \<Rightarrow> ('f, 's, 'a) comp" where
  "of_result r s = (s, r)"

text \<open>\<open>map_err\<close>.\<close>

definition map_err :: "('f \<Rightarrow> 'g) \<Rightarrow> ('f, 's, 'a) comp \<Rightarrow> ('g, 's, 'a) comp" where
  "map_err c m s = (case m s of (t, Inl e) \<Rightarrow> (t, Inl (c e)) | (t, Inr x) \<Rightarrow> (t, Inr x))"

lemma bnd_assoc: "bnd (bnd m f) k = bnd m (\<lambda>x. bnd (f x) k)"
  by (auto simp: bnd_def fun_eq_iff split: prod.splits sum.splits)

lemma bnd_pure [simp]: "bnd (ret x) f = f x" "bnd (throw e) f = throw e"
  by (simp_all add: bnd_def ret_def throw_def fun_eq_iff)

section \<open>Successful runs\<close>

lemma bnd_Inr: "bnd m f w = (w', Inr x) \<longleftrightarrow> (\<exists>w1 y. m w = (w1, Inr y) \<and> f y w1 = (w', Inr x))"
  by (auto simp: bnd_def split: prod.splits sum.splits)

lemma pure_Inr:
  "ret x w = (w', Inr y) \<longleftrightarrow> w' = w \<and> y = x"
  "ensure e b w = (w', Inr u) \<longleftrightarrow> w' = w \<and> b"
  "option_or e opt w = (w', Inr y) \<longleftrightarrow> w' = w \<and> opt = Some y"
  "of_result res w = (w', Inr y) \<longleftrightarrow> w' = w \<and> res = Inr y"
  by (auto simp: ret_def ensure_def throw_def option_or_def of_result_def split: option.splits)

lemmas run_simps = bnd_Inr pure_Inr

section \<open>Observed hosts\<close>

text \<open>A call that is noted when it succeeds, one that is not noted, and one that is noted in any case.\<close>

definition noting :: "('a \<Rightarrow> 'e) \<Rightarrow> ('f, 'h, 'a) comp \<Rightarrow> ('f, 'h \<times> 'e list, 'a) comp" where
  "noting note m = (\<lambda>(h, l). case m h of (h', Inl e) \<Rightarrow> ((h', l), Inl e) | (h', Inr x) \<Rightarrow> ((h', note x # l), Inr x))"

definition silent :: "('f, 'h, 'a) comp \<Rightarrow> ('f, 'h \<times> 'e list, 'a) comp" where
  "silent m = (\<lambda>(h, l). case m h of (h', r) \<Rightarrow> ((h', l), r))"

definition acting :: "'e \<Rightarrow> ('f, 'h, 'a) comp \<Rightarrow> ('f, 'h \<times> 'e list, 'a) comp" where
  "acting e m = (\<lambda>(h, l). case m h of (h', r) \<Rightarrow> ((h', e # l), r))"

definition secure ::
  "('e list \<Rightarrow> bool) \<Rightarrow> ('f \<Rightarrow> bool) \<Rightarrow> ('f, 'h \<times> 'e list, 'a) comp \<Rightarrow> 'e list \<Rightarrow> ('a \<Rightarrow> 'e list \<Rightarrow> bool) \<Rightarrow> bool" where
  "secure ok proper m l Q = (\<forall>h. case m (h, l) of ((h', l'), r) \<Rightarrow>
     ok l' \<and> (case r of Inl e \<Rightarrow> proper e | Inr x \<Rightarrow> Q x l'))"

lemma secureD:
  "secure ok proper m l Q \<Longrightarrow> case m (h, l) of ((h', l'), r) \<Rightarrow>
     ok l' \<and> (case r of Inl e \<Rightarrow> proper e | Inr x \<Rightarrow> Q x l')"
  unfolding secure_def by (erule allE)

lemma secure_bnd [intro]:
  assumes "secure ok proper m l (\<lambda>x l'. secure ok proper (f x) l' Q)"
  shows "secure ok proper (bnd m f) l Q"
  unfolding secure_def
proof
  fix h
  show "case bnd m f (h, l) of ((h', l'), r) \<Rightarrow>
     ok l' \<and> (case r of Inl e \<Rightarrow> proper e | Inr x \<Rightarrow> Q x l')"
  proof (cases "m (h, l)")
    case (Pair s r)
    then show ?thesis
      using assms [unfolded secure_def, rule_format, of h] by (cases s; cases r) (auto simp: bnd_def)
  qed
qed

lemma secure_assoc:
  assumes "secure ok proper m l (\<lambda>x l'. secure ok proper (bnd (f x) k) l' Q)"
  shows "secure ok proper (bnd (bnd m f) k) l Q"
  using secure_bnd [OF assms] by (simp add: bnd_assoc)

lemma secure_weaken:
  "secure ok proper m l Q \<Longrightarrow> (\<And>x l'. Q x l' \<Longrightarrow> ok l' \<Longrightarrow> Q' x l') \<Longrightarrow> secure ok proper m l Q'"
  by (fastforce simp: secure_def split: prod.splits sum.splits)

lemma secure_pure:
  assumes "ok l"
  shows "Q x l \<Longrightarrow> secure ok proper (ret x) l Q"
    and "proper e \<Longrightarrow> secure ok proper (throw e) l Q"
    and "(b \<Longrightarrow> Q' () l) \<Longrightarrow> proper e \<Longrightarrow> secure ok proper (ensure e b) l Q'"
    and "(\<And>v. opt = Some v \<Longrightarrow> Q v l) \<Longrightarrow> proper e \<Longrightarrow> secure ok proper (option_or e opt) l Q"
    and "(\<And>v. res = Inr v \<Longrightarrow> Q v l) \<Longrightarrow> (\<And>e. res = Inl e \<Longrightarrow> proper e) \<Longrightarrow> secure ok proper (of_result res) l Q"
  using assms
  by (auto simp: secure_def ret_def throw_def ensure_def option_or_def of_result_def split: option.splits sum.splits)

lemma secure_observed:
  assumes "ok l" "\<And>e. proper e"
  shows "(\<And>x. ok (note x # l)) \<Longrightarrow> (\<And>x. Q x (note x # l)) \<Longrightarrow> secure ok proper (noting note m) l Q"
    and "(\<And>x. Q x l) \<Longrightarrow> secure ok proper (silent m) l Q"
    and "ok (e # l) \<Longrightarrow> (\<And>x. Q x (e # l)) \<Longrightarrow> secure ok proper (acting e m) l Q"
  using assms by (auto simp: secure_def noting_def silent_def acting_def split: prod.splits sum.splits)

section \<open>Observing changes nothing\<close>

definition mirrors :: "('f, 'h \<times> 'e list, 'a) comp \<Rightarrow> ('f, 'h, 'a) comp \<Rightarrow> bool" where
  "mirrors m' m = (\<forall>h l. \<exists>l'. m' (h, l) = ((fst (m h), l'), snd (m h)))"

lemma mirrorsD: "mirrors m' m \<Longrightarrow> \<exists>l'. m' (h, l) = ((fst (m h), l'), snd (m h))"
  by (simp add: mirrors_def)

lemma mirrors_bnd:
  assumes "mirrors m' m" "\<And>x. mirrors (f' x) (f x)"
  shows "mirrors (bnd m' f') (bnd m f)"
  unfolding mirrors_def
proof (intro allI)
  fix h l
  obtain l1 where 1: "m' (h, l) = ((fst (m h), l1), snd (m h))" using mirrorsD [OF assms(1)] by blast
  obtain h1 r where r: "m h = (h1, r)" by fastforce
  show "\<exists>l'. bnd m' f' (h, l) = ((fst (bnd m f h), l'), snd (bnd m f h))"
  proof (cases r)
    case (Inr x)
    obtain l2 where "f' x (h1, l1) = ((fst (f x h1), l2), snd (f x h1))" using mirrorsD [OF assms(2)] by blast
    then show ?thesis using 1 r Inr by (simp add: bnd_def)
  qed (use 1 r in \<open>simp add: bnd_def\<close>)
qed

lemma mirrors_pure:
  "mirrors (ret x) (ret x)" "mirrors (throw e) (throw e)" "mirrors (ensure e b) (ensure e b)"
  "mirrors (option_or e opt) (option_or e opt)" "mirrors (of_result res) (of_result res)"
  by (auto simp: mirrors_def ret_def throw_def ensure_def option_or_def of_result_def split: option.splits)

lemma mirrors_observed: "mirrors (noting note m) m" "mirrors (silent m) m" "mirrors (acting e m) m"
  by (auto simp: mirrors_def noting_def silent_def acting_def split: prod.splits sum.splits)

lemma mirrors_if: "mirrors a b \<Longrightarrow> mirrors a' b' \<Longrightarrow> mirrors (if c then a else a') (if c then b else b')"
  by simp

lemma mirrors_option:
  "mirrors a b \<Longrightarrow> (\<And>x. mirrors (f x) (f' x)) \<Longrightarrow> mirrors (case y of None \<Rightarrow> a | Some x \<Rightarrow> f x) (case y of None \<Rightarrow> b | Some x \<Rightarrow> f' x)"
  by (cases y) simp_all

lemma mirrors_pair:
  "(\<And>x y. mirrors (f x y) (f' x y)) \<Longrightarrow> mirrors (case z of (x, y) \<Rightarrow> f x y) (case z of (x, y) \<Rightarrow> f' x y)"
  by (cases z) simp

lemmas mirror_pure_rules = mirrors_bnd mirrors_pure mirrors_observed

end
