(* ===== verification/Client_Rotation.thy ===== *)
theory Client_Rotation
  imports Rotation_Begin Identity_Generation Host_Monad
begin

text \<open>
  The orchestration of a Client Identity rotation (second part of \<open>src/client_identity.rs\<close>): a review that
  prepares material and the first record, its execution, the review and execution of a completion, and the
  loop that carries a rotation forward.  The trait \<open>Host\<close> is a record of functions on an arbitrary state; every
  call may fail and change that state.  Code with \<open>?\<close> is written in a state-and-error monad.  Cancellation is a
  flag that can change with every call, so it is read off the state; dropping the guard is the last thing that
  happens to the state.
\<close>

section \<open>Calls that may fail\<close>

datatype client_error =
    AuthorityError | StaleReview | RotationRefused | RotationInterrupted | EffectError | PublicationError

text \<open>An operation ends with an \<open>Error\<close> of the source, with a panic, or never (its rounds are used up).\<close>

datatype rotation_fault = Fault client_error | Panicked | Diverged

type_synonym ('s, 'a) act = "(rotation_fault, 's, 'a) comp"

type_synonym ('s, 'a) call = "(client_error, 's, 'a) comp"

abbreviation fail :: "client_error \<Rightarrow> ('s, 'a) act" where
  "fail e \<equiv> throw (Fault e)"

abbreviation require :: "client_error \<Rightarrow> bool \<Rightarrow> ('s, unit) act" where
  "require e b \<equiv> ensure (Fault e) b"

abbreviation ok_or :: "client_error \<Rightarrow> 'a option \<Rightarrow> ('s, 'a) act" where
  "ok_or e x \<equiv> option_or (Fault e) x"

definition call :: "('s, 'a) call \<Rightarrow> ('s, 'a) act" where
  "call m s = (case m s of (t, Inl e) \<Rightarrow> (t, Inl (Fault e)) | (t, Inr x) \<Rightarrow> (t, Inr x))"

section \<open>The host\<close>

record ci_snapshot =
  cs_current :: bytes
  cs_staged :: "bytes option"

datatype client_effect =
    PrepareTarget | PublishStartup | Reload | StopSource | PublishTarget | StartTarget | RestoreSource
  | FinishSubscription | RemoveTarget | CleanupStartup

record startup_routes =
  sr_proxy :: bool
  sr_subscription :: bool

record quiescence =
  q_inactive :: bool
  q_main_pid_zero :: bool
  q_processes_absent :: bool
  q_listener_absent :: bool
  q_descendants_empty :: bool
  q_subscription_requests_drained :: bool
  q_subscription_descendants_empty :: bool
  q_subscription_listener_absent :: bool
  q_subscription_inactive :: bool

definition accepted :: "quiescence \<Rightarrow> bool \<Rightarrow> bool" where
  "accepted q subscription =
     (q_inactive q \<and> q_main_pid_zero q \<and> q_processes_absent q \<and> q_listener_absent q \<and> q_descendants_empty q
      \<and> (\<not> subscription
          \<or> q_subscription_requests_drained q \<and> q_subscription_descendants_empty q
            \<and> q_subscription_listener_absent q \<and> q_subscription_inactive q))"

record ('h, 'g) rotation_host =
  is_cancelled :: "'h \<Rightarrow> bool"
  acquire :: "('h, 'g) call"
  drop_guard :: "'g \<Rightarrow> 'h \<Rightarrow> 'h"
  verify_guard :: "'g \<Rightarrow> ('h, unit) call"
  installed_release :: "'g \<Rightarrow> ('h, release_identity) call"
  host_snapshot :: "'g \<Rightarrow> ('h, ci_snapshot) call"
  ci_synchronize :: "'g \<Rightarrow> bytes \<Rightarrow> ('h, unit) call"
  admit :: "'g \<Rightarrow> wire_ownership \<Rightarrow> ('h, bool) call"
  inspect :: "'g \<Rightarrow> wire_ownership \<Rightarrow> ('h, unit) call"
  host_configuration :: "'g \<Rightarrow> ('h, bytes) call"
  ci_publish :: "'g \<Rightarrow> bytes \<Rightarrow> wire_ownership \<Rightarrow> ('h, unit) call"
  host_routes :: "'g \<Rightarrow> wire_ownership \<Rightarrow> ('h, startup_routes) call"
  host_quiescence :: "'g \<Rightarrow> wire_ownership \<Rightarrow> ('h, quiescence) call"
  ci_effect :: "'g \<Rightarrow> client_effect \<Rightarrow> wire_ownership \<Rightarrow> material option \<Rightarrow> ('h, unit) call"
  verify_running :: "'g \<Rightarrow> wire_ownership \<Rightarrow> ('h, unit) call"

definition check_cancelled :: "('h, 'g) rotation_host \<Rightarrow> ('h, unit) act" where
  "check_cancelled H h = (h, if is_cancelled H h then Inl (Fault RotationInterrupted) else Inr ())"

definition with_guard :: "('h, 'g) rotation_host \<Rightarrow> ('g \<Rightarrow> ('h, 'a) act) \<Rightarrow> ('h, 'a) act" where
  "with_guard H body =
     bnd (call (acquire H)) (\<lambda>g h. case body g h of (h', r) \<Rightarrow> (drop_guard H g h', r))"

section \<open>Snapshots\<close>

definition publication_target :: "lib \<Rightarrow> ci_snapshot \<Rightarrow> rotation_fault + wire_ownership option" where
  "publication_target L s =
     (case decode_record L (cs_current s) of
        None \<Rightarrow> Inl (Fault AuthorityError)
      | Some source \<Rightarrow>
          (case encode_record L source of
             None \<Rightarrow> Inl (Fault AuthorityError)
           | Some again \<Rightarrow>
               if again \<noteq> cs_current s then Inl (Fault PublicationError)
               else (case cs_staged s of
                  None \<Rightarrow> Inr None
                | Some bytes \<Rightarrow>
                    (case decode_record L bytes of
                       None \<Rightarrow> Inl (Fault AuthorityError)
                     | Some target \<Rightarrow>
                         (case encode_record L target of
                            None \<Rightarrow> Inl (Fault AuthorityError)
                          | Some content \<Rightarrow>
                              if content \<noteq> bytes \<or> rotation_of L source = None
                                 \<or> \<not> (source = target \<or> client_permits_successor L source target)
                              then Inl (Fault PublicationError) else Inr (Some target))))))"

definition snapshot_record :: "lib \<Rightarrow> ci_snapshot \<Rightarrow> rotation_fault + wire_ownership" where
  "snapshot_record L s =
     (case decode_record L (cs_current s) of
        None \<Rightarrow> Inl (Fault AuthorityError)
      | Some record \<Rightarrow>
          if is_some_and (\<lambda>b. b \<noteq> cs_current s) (cs_staged s) then Inl (Fault PublicationError) else Inr record)"

definition checked_retry_snapshot ::
  "lib \<Rightarrow> ('h, 'g) rotation_host \<Rightarrow> 'g \<Rightarrow> ci_snapshot \<Rightarrow> ('h, wire_ownership) act" where
  "checked_retry_snapshot L H g expected =
     bnd (call (verify_guard H g)) (\<lambda>_.
     bnd (call (host_snapshot H g)) (\<lambda>fresh.
     bnd (require StaleReview (fresh = expected)) (\<lambda>_.
     bnd (of_result (publication_target L fresh)) (\<lambda>_.
     bnd (ok_or AuthorityError (decode_record L (cs_current fresh))) (\<lambda>record.
     bnd (call (ci_synchronize H g (cs_current fresh))) (\<lambda>_.
     bnd (call (verify_guard H g)) (\<lambda>_.
     ret record)))))))"

definition checked_snapshot ::
  "lib \<Rightarrow> ('h, 'g) rotation_host \<Rightarrow> 'g \<Rightarrow> ci_snapshot \<Rightarrow> ('h, wire_ownership) act" where
  "checked_snapshot L H g expected =
     bnd (call (verify_guard H g)) (\<lambda>_.
     bnd (call (host_snapshot H g)) (\<lambda>fresh.
     bnd (require StaleReview (fresh = expected)) (\<lambda>_.
     bnd (of_result (snapshot_record L fresh)) (\<lambda>record.
     bnd (call (ci_synchronize H g (cs_current fresh))) (\<lambda>_.
     bnd (call (verify_guard H g)) (\<lambda>_.
     ret record))))))"

section \<open>Reviews\<close>

datatype rotation_outcome = RotationDeclined | Rotated | Finished | CleanedUp

record prepared_rotation =
  pn_snapshot :: ci_snapshot
  pn_next :: wire_ownership
  pn_material :: material
  pn_release :: release_identity

record prepared_finish =
  pf_snapshot :: ci_snapshot
  pf_release :: release_identity

definition artifact_of :: "lib \<Rightarrow> crypto \<Rightarrow> bytes \<Rightarrow> string \<Rightarrow> bytes option" where
  "artifact_of L C config ipv4 = do {
     j \<leftarrow> from_slice L config;
     let value = value_of j;
     (uuid, private_key, short_id) \<leftarrow> configured_identity value;
     (case identity_from_private_key C uuid private_key short_id of
        Inl _ \<Rightarrow> None
      | Inr identity \<Rightarrow> do {
          server_name \<leftarrow> de_str (jindex ''server_name'' (jindex ''tls'' (jnth 0 (jindex ''inbounds'' value))));
          facts \<leftarrow> new_facts ipv4 (id_uuid identity) server_name (id_public_key identity) (id_short_id identity)
                    (configured_hostname value);
          subscription_artifact L facts
        })
   }"

text \<open>What is computed from the configuration and the drawn UUID, before anything else is drawn.\<close>

definition prepare_material :: "lib \<Rightarrow> crypto \<Rightarrow> bytes \<Rightarrow> string \<Rightarrow> string \<Rightarrow> rotation_fault + material" where
  "prepare_material L C source uuid ipv4 =
     (case with_client_uuid L source uuid of
        Inl ConfigurationError \<Rightarrow> Inl (Fault AuthorityError)
      | Inl IndexPanic \<Rightarrow> Inl Panicked
      | Inr target \<Rightarrow>
          (case (artifact_of L C source ipv4, artifact_of L C target ipv4) of
             (Some source_artifact, Some target_artifact) \<Rightarrow>
               let material = \<lparr>mt_target = target, mt_artifact = target_artifact,
                     mt_source_sha256 = sha256_hex L source, mt_target_sha256 = sha256_hex L target,
                     mt_source_artifact_sha256 = sha256_hex L source_artifact,
                     mt_target_artifact_sha256 = sha256_hex L target_artifact\<rparr>
               in if mt_source_artifact_sha256 material = mt_target_artifact_sha256 material
                  then Inl (Fault AuthorityError) else Inr material
           | _ \<Rightarrow> Inl (Fault AuthorityError)))"

text \<open>The entropy source is a second state beside the host.\<close>

definition on_host :: "('h, 'a) act \<Rightarrow> ('h \<times> 'e, 'a) act" where
  "on_host m = (\<lambda>(h, e). case m h of (h', r) \<Rightarrow> ((h', e), r))"

definition draw :: "('e \<Rightarrow> 'e \<times> (identity_error + 'a)) \<Rightarrow> ('h \<times> 'e, 'a) act" where
  "draw f = (\<lambda>(h, e). case f e of
     (e', Inl _) \<Rightarrow> ((h, e'), Inl (Fault AuthorityError)) | (e', Inr x) \<Rightarrow> ((h, e'), Inr x))"

definition review_locked ::
  "lib \<Rightarrow> crypto \<Rightarrow> ('h, 'g) rotation_host \<Rightarrow> 'e entropy \<Rightarrow> 'g \<Rightarrow> ('h \<times> 'e, prepared_rotation) act" where
  "review_locked L C H F g =
     bnd (on_host (call (host_snapshot H g))) (\<lambda>snapshot.
     bnd (on_host (checked_snapshot L H g snapshot)) (\<lambda>record.
     bnd (require AuthorityError (pending_change record = None)) (\<lambda>_.
     bnd (on_host (call (installed_release H g))) (\<lambda>executing_release.
     bnd (on_host (call (admit H g record))) (\<lambda>startup.
     bnd (on_host (call (host_configuration H g))) (\<lambda>bytes.
     bnd (require AuthorityError (sha256_hex L bytes = configuration_sha256 record)) (\<lambda>_.
     bnd (ok_or AuthorityError (decode_supported L bytes)) (\<lambda>source.
     bnd (draw (generate_uuid F)) (\<lambda>uuid.
     bnd (of_result (prepare_material L C source uuid (public_ipv4_of record))) (\<lambda>material.
     bnd (draw (generate_id F)) (\<lambda>operation.
     bnd (ok_or AuthorityError (begin_record L record operation material startup executing_release)) (\<lambda>next.
     bnd (on_host (check_cancelled H)) (\<lambda>_.
     bnd (on_host (checked_snapshot L H g snapshot)) (\<lambda>_.
     ret \<lparr>pn_snapshot = snapshot, pn_next = next, pn_material = material,
          pn_release = executing_release\<rparr>))))))))))))))"

definition review_rotation ::
  "lib \<Rightarrow> crypto \<Rightarrow> ('h, 'g) rotation_host \<Rightarrow> 'e entropy \<Rightarrow> ('h \<times> 'e, prepared_rotation) act" where
  "review_rotation L C H F =
     bnd (on_host (check_cancelled H)) (\<lambda>_.
     bnd (on_host (call (acquire H))) (\<lambda>g s.
       case review_locked L C H F g s of ((h, e), r) \<Rightarrow> ((drop_guard H g h, e), r)))"

definition review_finish :: "lib \<Rightarrow> ('h, 'g) rotation_host \<Rightarrow> ('h, prepared_finish) act" where
  "review_finish L H =
     bnd (check_cancelled H) (\<lambda>_.
     with_guard H (\<lambda>g.
       bnd (call (host_snapshot H g)) (\<lambda>snapshot.
       bnd (checked_retry_snapshot L H g snapshot) (\<lambda>record.
       bnd (ok_or AuthorityError (rotation_of L record)) (\<lambda>_.
       bnd (call (inspect H g record)) (\<lambda>_.
       bnd (call (installed_release H g)) (\<lambda>executing_release.
       ret \<lparr>pf_snapshot = snapshot, pf_release = executing_release\<rparr>)))))))"

section \<open>Steps\<close>

definition publish_record ::
  "lib \<Rightarrow> ('h, 'g) rotation_host \<Rightarrow> 'g \<Rightarrow> ci_snapshot \<Rightarrow> wire_ownership \<Rightarrow> ('h, ci_snapshot \<times> wire_ownership) act" where
  "publish_record L H g current next =
     bnd (check_cancelled H) (\<lambda>_.
     bnd (checked_snapshot L H g current) (\<lambda>_.
     bnd (call (ci_publish H g (cs_current current) next)) (\<lambda>_.
     bnd (call (host_snapshot H g)) (\<lambda>fresh.
     bnd (ok_or AuthorityError (encode_record L next)) (\<lambda>content.
     bnd (require PublicationError (cs_current fresh = content \<and> cs_staged fresh = None)) (\<lambda>_.
     bnd (call (ci_synchronize H g (cs_current fresh))) (\<lambda>_.
     bnd (call (verify_guard H g)) (\<lambda>_.
     ret (fresh, next)))))))))"

definition run_effect ::
  "lib \<Rightarrow> ('h, 'g) rotation_host \<Rightarrow> 'g \<Rightarrow> ci_snapshot \<Rightarrow> wire_ownership \<Rightarrow> client_effect \<Rightarrow> material option
     \<Rightarrow> ('h, unit) act" where
  "run_effect L H g current record effect material =
     bnd (check_cancelled H) (\<lambda>_.
     bnd (checked_snapshot L H g current) (\<lambda>_.
     bnd (call (inspect H g record)) (\<lambda>_.
     bnd (call (ci_effect H g effect record material)) (\<lambda>_.
     bnd (call (verify_guard H g)) (\<lambda>_.
     bnd (checked_snapshot L H g current) (\<lambda>_.
     check_cancelled H))))))"

definition check_routes :: "('h, 'g) rotation_host \<Rightarrow> 'g \<Rightarrow> wire_ownership \<Rightarrow> ('h, unit) act" where
  "check_routes H g record =
     bnd (call (host_routes H g record)) (\<lambda>r.
     require RotationRefused (\<not> (\<not> sr_proxy r \<or> serving record \<noteq> None \<and> \<not> sr_subscription r)))"

definition check_quiescence :: "('h, 'g) rotation_host \<Rightarrow> 'g \<Rightarrow> wire_ownership \<Rightarrow> ('h, unit) act" where
  "check_quiescence H g record =
     bnd (call (host_quiescence H g record)) (\<lambda>q. require RotationRefused (accepted q (serving record \<noteq> None)))"

section \<open>Forward\<close>

text \<open>What has to be proved at a checkpoint, and the effect to run there.\<close>

definition step_effect ::
  "('h, 'g) rotation_host \<Rightarrow> 'g \<Rightarrow> wire_ownership \<Rightarrow> client_checkpoint \<Rightarrow> ('h, client_effect option) act" where
  "step_effect H g record cp =
     (case cp of
        TargetPrepared \<Rightarrow> ret (Some PublishStartup)
      | IntegrationPublished \<Rightarrow> ret (Some Reload)
      | Reloaded \<Rightarrow> bnd (check_routes H g record) (\<lambda>_. ret None)
      | RouteVerified \<Rightarrow> ret None
      | Gated \<Rightarrow> ret (Some StopSource)
      | Stopped \<Rightarrow> bnd (check_quiescence H g record) (\<lambda>_. ret None)
      | Quiescent \<Rightarrow> bnd (check_quiescence H g record) (\<lambda>_. ret None)
      | Revoked \<Rightarrow> ret (Some PublishTarget)
      | TargetPublished \<Rightarrow> ret (Some StartTarget)
      | TargetStarted \<Rightarrow> ret None
      | Authorized \<Rightarrow> fail AuthorityError)"

definition complete_forward ::
  "lib \<Rightarrow> ('h, 'g) rotation_host \<Rightarrow> 'g \<Rightarrow> ci_snapshot \<Rightarrow> wire_ownership \<Rightarrow> ('h, unit) act" where
  "complete_forward L H g current record =
     bnd (call (verify_running H g record)) (\<lambda>_.
     bnd (run_effect L H g current record FinishSubscription None) (\<lambda>_.
     bnd (run_effect L H g current record RemoveTarget None) (\<lambda>_.
     bnd (call (verify_running H g record)) (\<lambda>_.
     bnd (ok_or AuthorityError (clear_record L record True)) (\<lambda>next.
     bnd (publish_record L H g current next) (\<lambda>_. ret ()))))))"

definition forward_step ::
  "lib \<Rightarrow> ('h, 'g) rotation_host \<Rightarrow> 'g \<Rightarrow> ci_snapshot \<Rightarrow> wire_ownership
     \<Rightarrow> ('h, (ci_snapshot \<times> wire_ownership) option) act" where
  "forward_step L H g current record =
     bnd (check_cancelled H) (\<lambda>_.
     bnd (checked_snapshot L H g current) (\<lambda>_.
     bnd (call (inspect H g record)) (\<lambda>_.
     bnd (ok_or AuthorityError (rotation_of L record)) (\<lambda>r.
     bnd (if ordinal (rd_checkpoint r) \<ge> ordinal RouteVerified then check_routes H g record else ret ()) (\<lambda>_.
     if rd_checkpoint r = TargetStarted
     then bnd (complete_forward L H g current record) (\<lambda>_. ret None)
     else
       bnd (step_effect H g record (rd_checkpoint r)) (\<lambda>effect.
       bnd (case effect of Some e \<Rightarrow> run_effect L H g current record e None | None \<Rightarrow> ret ()) (\<lambda>_.
       bnd (ok_or AuthorityError (advance_record L record)) (\<lambda>next.
       bnd (publish_record L H g current next) (\<lambda>p. ret (Some p))))))))))"

primrec forward ::
  "nat \<Rightarrow> lib \<Rightarrow> ('h, 'g) rotation_host \<Rightarrow> 'g \<Rightarrow> ci_snapshot \<Rightarrow> wire_ownership \<Rightarrow> ('h, unit) act" where
  "forward 0 L H g current record = of_result (Inl Diverged)"
| "forward (Suc n) L H g current record =
     bnd (forward_step L H g current record) (\<lambda>p.
     case p of None \<Rightarrow> ret () | Some (current', record') \<Rightarrow> forward n L H g current' record')"

text \<open>A rotation has eleven checkpoints, so eleven rounds are enough.\<close>

definition FORWARD_ROUNDS :: nat where
  "FORWARD_ROUNDS = 11"

section \<open>Execution\<close>

definition execute_rotation_locked ::
  "lib \<Rightarrow> ('h, 'g) rotation_host \<Rightarrow> prepared_rotation \<Rightarrow> 'g \<Rightarrow> ('h, rotation_outcome) act" where
  "execute_rotation_locked L H p g =
     bnd (checked_snapshot L H g (pn_snapshot p)) (\<lambda>record.
     bnd (call (installed_release H g)) (\<lambda>release.
     bnd (require StaleReview (release = pn_release p)) (\<lambda>_.
     bnd (call (admit H g record)) (\<lambda>startup.
     bnd (ok_or AuthorityError (wire L (pn_next p))) (\<lambda>value.
     bnd (require StaleReview (startup_wire L startup = jindex ''proxy_startup'' value)) (\<lambda>_.
     bnd (publish_record L H g (pn_snapshot p) (pn_next p)) (\<lambda>(current, record).
     bnd (run_effect L H g current record PrepareTarget (Some (pn_material p))) (\<lambda>_.
     bnd (ok_or AuthorityError (advance_record L record)) (\<lambda>next.
     bnd (publish_record L H g current next) (\<lambda>(current, record).
     bnd (forward FORWARD_ROUNDS L H g current record) (\<lambda>_.
     ret Rotated)))))))))))"

definition execute_rotation ::
  "lib \<Rightarrow> ('h, 'g) rotation_host \<Rightarrow> prepared_rotation \<Rightarrow> bool \<Rightarrow> ('h, rotation_outcome) act" where
  "execute_rotation L H p approved =
     (if \<not> approved then ret RotationDeclined
      else bnd (check_cancelled H) (\<lambda>_. with_guard H (execute_rotation_locked L H p)))"

section \<open>Completion\<close>

definition rotation_direction :: "lib \<Rightarrow> wire_ownership \<Rightarrow> change_direction option" where
  "rotation_direction L record = map_option (\<lambda>r. checkpoint_direction (rd_checkpoint r)) (rotation_of L record)"

text \<open>A staged successor is published first; a staged completion ends the rotation.\<close>

definition revalidate_completion ::
  "lib \<Rightarrow> ('h, 'g) rotation_host \<Rightarrow> 'g \<Rightarrow> ci_snapshot \<Rightarrow> wire_ownership \<Rightarrow> change_direction \<Rightarrow> ('h, unit) act" where
  "revalidate_completion L H g current record original =
     bnd (check_cancelled H) (\<lambda>_.
     bnd (call (ci_effect H g FinishSubscription record None)) (\<lambda>_.
     bnd (checked_retry_snapshot L H g current) (\<lambda>_.
     bnd (call (verify_running H g record)) (\<lambda>_.
     bnd (ok_or AuthorityError (rotation_of L record)) (\<lambda>r.
     bnd (call (host_configuration H g)) (\<lambda>config.
     require AuthorityError (sha256_hex L config
       = (if original = ChangeForward then rd_target_sha256 r else rd_source_sha256 r))))))))"

definition finish_staged ::
  "lib \<Rightarrow> ('h, 'g) rotation_host \<Rightarrow> 'g \<Rightarrow> ci_snapshot \<Rightarrow> wire_ownership \<Rightarrow> change_direction
     \<Rightarrow> ('h, rotation_outcome + ci_snapshot \<times> wire_ownership) act" where
  "finish_staged L H g current record original =
     bnd (of_result (publication_target L current)) (\<lambda>staged.
     case staged of
       None \<Rightarrow> ret (Inr (current, record))
     | Some target \<Rightarrow>
         bnd (if rotation_direction L target = Some ChangeForward \<and> original = ChangeCleanup
              then bnd (check_routes H g record) (\<lambda>_. check_quiescence H g record) else ret ()) (\<lambda>_.
         bnd (if rotation_of L target = None then revalidate_completion L H g current record original
              else ret ()) (\<lambda>_.
         bnd (call (ci_publish H g (cs_current current) target)) (\<lambda>_.
         bnd (call (host_snapshot H g)) (\<lambda>fresh.
         bnd (ok_or AuthorityError (encode_record L target)) (\<lambda>content.
         bnd (require PublicationError (cs_current fresh = content \<and> cs_staged fresh = None)) (\<lambda>_.
         bnd (call (ci_synchronize H g (cs_current fresh))) (\<lambda>_.
         if rotation_of L target = None
         then ret (Inl (if original = ChangeForward then Finished else CleanedUp))
         else bnd (call (inspect H g target)) (\<lambda>_. ret (Inr (fresh, target)))))))))))"

definition clean_up ::
  "lib \<Rightarrow> ('h, 'g) rotation_host \<Rightarrow> 'g \<Rightarrow> ci_snapshot \<Rightarrow> wire_ownership \<Rightarrow> rotation_data \<Rightarrow> ('h, unit) act" where
  "clean_up L H g current record r =
     bnd (call (host_configuration H g)) (\<lambda>config.
     bnd (require AuthorityError (sha256_hex L config = rd_source_sha256 r)) (\<lambda>_.
     bnd (run_effect L H g current record RestoreSource None) (\<lambda>_.
     bnd (call (verify_running H g record)) (\<lambda>_.
     bnd (run_effect L H g current record FinishSubscription None) (\<lambda>_.
     bnd (run_effect L H g current record RemoveTarget None) (\<lambda>_.
     bnd (\<lambda>h. case check_routes H g record h of (h', x) \<Rightarrow> (h', Inr (\<not> isl x))) (\<lambda>retain.
     bnd (if retain then ret () else run_effect L H g current record CleanupStartup None) (\<lambda>_.
     bnd (call (host_configuration H g)) (\<lambda>config.
     bnd (require AuthorityError (sha256_hex L config = rd_source_sha256 r)) (\<lambda>_.
     bnd (ok_or AuthorityError (clear_record L record retain)) (\<lambda>next.
     bnd (publish_record L H g current next) (\<lambda>_. ret ()))))))))))))"

definition finish_rotation_locked ::
  "lib \<Rightarrow> ('h, 'g) rotation_host \<Rightarrow> prepared_finish \<Rightarrow> 'g \<Rightarrow> ('h, rotation_outcome) act" where
  "finish_rotation_locked L H p g =
     bnd (checked_retry_snapshot L H g (pf_snapshot p)) (\<lambda>record.
     bnd (call (installed_release H g)) (\<lambda>release.
     bnd (require StaleReview (release = pf_release p)) (\<lambda>_.
     bnd (call (inspect H g record)) (\<lambda>_.
     bnd (ok_or AuthorityError (rotation_direction L record)) (\<lambda>original.
     bnd (finish_staged L H g (pf_snapshot p) record original) (\<lambda>x.
     case x of
       Inl outcome \<Rightarrow> ret outcome
     | Inr (current, record) \<Rightarrow>
         bnd (ok_or AuthorityError (rotation_of L record)) (\<lambda>r.
         if checkpoint_direction (rd_checkpoint r) = ChangeForward
         then bnd (forward FORWARD_ROUNDS L H g current record) (\<lambda>_. ret Finished)
         else bnd (clean_up L H g current record r) (\<lambda>_. ret CleanedUp))))))))"

definition finish_rotation ::
  "lib \<Rightarrow> ('h, 'g) rotation_host \<Rightarrow> prepared_finish \<Rightarrow> bool \<Rightarrow> ('h, rotation_outcome) act" where
  "finish_rotation L H p approved =
     (if \<not> approved then ret RotationDeclined
      else bnd (check_cancelled H) (\<lambda>_. with_guard H (finish_rotation_locked L H p)))"

end
