(* ===== verification/Rotation_Laws.thy ===== *)
theory Rotation_Laws
  imports Client_Rotation
begin

text \<open>
  What a rotation does to its host.  The host is observed: \<open>logged\<close> runs beside any host and notes every
  successful observation, every effect and every publication, without changing a result (\<open>mirrors\<close>).
  \<open>safe\<close> says of such a log that each effect and each publication was covered by fresh observations,
  made since the last change.  The rules of \<open>secure\<close> carry this through the operations; \<open>yields\<close> says
  how a review can fail.
\<close>

section \<open>A host that keeps a log\<close>

datatype event =
    Verified
  | TookSnapshot ci_snapshot
  | Synchronized bytes
  | Inspected wire_ownership
  | Configured bytes
  | Routed wire_ownership startup_routes
  | Quieted wire_ownership quiescence
  | RunningSeen wire_ownership
  | Performed client_effect wire_ownership "material option"
  | Published bytes wire_ownership

definition logged :: "('h, 'g) rotation_host \<Rightarrow> ('h \<times> event list, 'g) rotation_host" where
  "logged H = \<lparr>is_cancelled = is_cancelled H \<circ> fst,
     acquire = silent (acquire H),
     drop_guard = (\<lambda>g (h, l). (drop_guard H g h, l)),
     verify_guard = (\<lambda>g. noting (\<lambda>_. Verified) (verify_guard H g)),
     installed_release = silent \<circ> installed_release H,
     host_snapshot = noting TookSnapshot \<circ> host_snapshot H,
     ci_synchronize = (\<lambda>g b. noting (\<lambda>_. Synchronized b) (ci_synchronize H g b)),
     admit = (\<lambda>g r. silent (admit H g r)),
     inspect = (\<lambda>g r. noting (\<lambda>_. Inspected r) (inspect H g r)),
     host_configuration = noting Configured \<circ> host_configuration H,
     ci_publish = (\<lambda>g b r. acting (Published b r) (ci_publish H g b r)),
     host_routes = (\<lambda>g r. noting (Routed r) (host_routes H g r)),
     host_quiescence = (\<lambda>g r. noting (Quieted r) (host_quiescence H g r)),
     ci_effect = (\<lambda>g e r m. acting (Performed e r m) (ci_effect H g e r m)),
     verify_running = (\<lambda>g r. noting (\<lambda>_. RunningSeen r) (verify_running H g r))\<rparr>"

fun changes :: "event \<Rightarrow> bool" where
  "changes (Performed e r m) = True"
| "changes (Published b r) = True"
| "changes _ = False"

definition recent :: "event list \<Rightarrow> event list" where
  "recent l = takeWhile (\<lambda>e. \<not> changes e) l"

fun latest_snapshot :: "event list \<Rightarrow> ci_snapshot option" where
  "latest_snapshot [] = None"
| "latest_snapshot (TookSnapshot s # l) = Some s"
| "latest_snapshot (_ # l) = latest_snapshot l"

definition revoked :: "wire_ownership \<Rightarrow> bool" where
  "revoked r = is_some_and (\<lambda>c. is_some_and (\<lambda>i. 8 \<le> i) (client_index c)) (client_identity_rotation r)"

text \<open>Whether the source is the effect's to touch, or the target.\<close>

definition effect_fits :: "client_effect \<Rightarrow> wire_ownership \<Rightarrow> material option \<Rightarrow> bool" where
  "effect_fits e r m =
     ((e \<in> {PublishTarget, StartTarget} \<longrightarrow> revoked r)
      \<and> (e \<in> {PrepareTarget, PublishStartup, Reload, StopSource, RestoreSource, CleanupStartup} \<longrightarrow> \<not> revoked r)
      \<and> (m = None \<longleftrightarrow> e \<noteq> PrepareTarget))"

definition effect_allowed :: "lib \<Rightarrow> event list \<Rightarrow> client_effect \<Rightarrow> wire_ownership \<Rightarrow> material option \<Rightarrow> bool" where
  "effect_allowed L now e r m =
     (Verified \<in> set now \<and> Inspected r \<in> set now
      \<and> (case latest_snapshot now of None \<Rightarrow> False | Some s \<Rightarrow> decode_record L (cs_current s) = Some r)
      \<and> effect_fits e r m)"

definition revocation_proved :: "event list \<Rightarrow> wire_ownership \<Rightarrow> bool" where
  "revocation_proved now r =
     ((\<exists>q. Quieted r q \<in> set now \<and> accepted q (serving r \<noteq> None))
      \<and> (\<exists>p. Routed r p \<in> set now \<and> sr_proxy p \<and> (serving r \<noteq> None \<longrightarrow> sr_subscription p)))"

definition completion_proved :: "lib \<Rightarrow> event list \<Rightarrow> wire_ownership \<Rightarrow> bool" where
  "completion_proved L now r =
     (if revoked r then RunningSeen r \<in> set now
      else \<exists>b c. Configured b \<in> set now \<and> client_identity_rotation r = Some c
             \<and> sha256_hex L b = cr_source_configuration_sha256 c)"

definition publication_allowed :: "lib \<Rightarrow> event list \<Rightarrow> bytes \<Rightarrow> wire_ownership \<Rightarrow> bool" where
  "publication_allowed L now expected next =
     (Verified \<in> set now \<and> Synchronized expected \<in> set now
      \<and> map_option cs_current (latest_snapshot now) = Some expected
      \<and> (case decode_record L expected of
           None \<Rightarrow> False
         | Some r \<Rightarrow> client_permits_successor L r next
             \<and> (revoked next \<and> \<not> revoked r \<longrightarrow> revocation_proved now r)
             \<and> (client_identity_rotation r \<noteq> None \<and> client_identity_rotation next = None
                  \<longrightarrow> completion_proved L now r)))"

fun allowed :: "lib \<Rightarrow> event list \<Rightarrow> event \<Rightarrow> bool" where
  "allowed L past (Performed e r m) = effect_allowed L (recent past) e r m"
| "allowed L past (Published b r) = publication_allowed L (recent past) b r"
| "allowed L past _ = True"

primrec safe :: "lib \<Rightarrow> event list \<Rightarrow> bool" where
  "safe L [] = True"
| "safe L (e # past) = (allowed L past e \<and> safe L past)"

section \<open>Rules\<close>

definition is_fault :: "rotation_fault \<Rightarrow> bool" where
  "is_fault e = (\<exists>x. e = Fault x)"

abbreviation secure_run ::
  "lib \<Rightarrow> ('h \<times> event list, 'a) act \<Rightarrow> event list \<Rightarrow> ('a \<Rightarrow> event list \<Rightarrow> bool) \<Rightarrow> bool" where
  "secure_run L \<equiv> secure (safe L) is_fault"

lemma secure_basic:
  assumes "safe L l"
  shows "Q x l \<Longrightarrow> secure_run L (ret x) l Q"
    and "secure_run L (fail e) l Q"
    and "(b \<Longrightarrow> Q' () l) \<Longrightarrow> secure_run L (require e b) l Q'"
    and "(\<And>v. opt = Some v \<Longrightarrow> Q v l) \<Longrightarrow> secure_run L (ok_or e opt) l Q"
    and "(\<And>v. res = Inr v \<Longrightarrow> Q v l) \<Longrightarrow> (\<And>e. res = Inl e \<Longrightarrow> \<exists>x. e = Fault x) \<Longrightarrow> secure_run L (of_result res) l Q"
    and "Q' () l \<Longrightarrow> secure_run L (check_cancelled H) l Q'"
  using assms
  by (auto simp: is_fault_def check_cancelled_def secure_def [of _ _ "check_cancelled _"] intro!: secure_pure)

lemma secure_noting:
  assumes "safe L l" "\<And>x. \<not> changes (note x)" "\<And>x. Q x (note x # l)"
  shows "secure_run L (call (noting note m)) l Q"
proof -
  have "safe L (note x # l)" for x using assms(1) assms(2) [of x] by (cases "note x") auto
  then show ?thesis using assms by (auto simp: secure_def is_fault_def call_def noting_def split: prod.splits sum.splits)
qed

lemma secure_silent:
  assumes "safe L l" "\<And>x. Q x l"
  shows "secure_run L (call (silent m)) l Q"
  using assms by (auto simp: secure_def is_fault_def call_def silent_def split: prod.splits sum.splits)

lemma secure_acting:
  assumes "safe L l" "allowed L l e" "\<And>x. Q x (e # l)"
  shows "secure_run L (call (acting e m)) l Q"
  using assms by (auto simp: secure_def is_fault_def call_def acting_def split: prod.splits sum.splits)

lemma secure_calls:
  assumes "safe L l"
  shows "Q () (Verified # l) \<Longrightarrow> secure_run L (call (verify_guard (logged H) g)) l Q"
    and "(\<And>x. Qr x l) \<Longrightarrow> secure_run L (call (installed_release (logged H) g)) l Qr"
    and "(\<And>s. Qs s (TookSnapshot s # l)) \<Longrightarrow> secure_run L (call (host_snapshot (logged H) g)) l Qs"
    and "Q () (Synchronized b # l) \<Longrightarrow> secure_run L (call (ci_synchronize (logged H) g b)) l Q"
    and "(\<And>x. Qb x l) \<Longrightarrow> secure_run L (call (admit (logged H) g r)) l Qb"
    and "Q () (Inspected r # l) \<Longrightarrow> secure_run L (call (inspect (logged H) g r)) l Q"
    and "(\<And>c. Qc c (Configured c # l)) \<Longrightarrow> secure_run L (call (host_configuration (logged H) g)) l Qc"
    and "allowed L l (Published b r) \<Longrightarrow> Q () (Published b r # l) \<Longrightarrow> secure_run L (call (ci_publish (logged H) g b r)) l Q"
    and "(\<And>p. Qp p (Routed r p # l)) \<Longrightarrow> secure_run L (call (host_routes (logged H) g r)) l Qp"
    and "(\<And>q. Qq q (Quieted r q # l)) \<Longrightarrow> secure_run L (call (host_quiescence (logged H) g r)) l Qq"
    and "allowed L l (Performed e r m) \<Longrightarrow> Q () (Performed e r m # l) \<Longrightarrow> secure_run L (call (ci_effect (logged H) g e r m)) l Q"
    and "Q () (RunningSeen r # l) \<Longrightarrow> secure_run L (call (verify_running (logged H) g r)) l Q"
  using assms by (auto simp: logged_def intro!: secure_noting secure_silent secure_acting)

lemma secure_with_guard:
  assumes "safe L l" "\<And>g. secure_run L (body g) l Q"
  shows "secure_run L (with_guard (logged H) body) l Q"
  unfolding with_guard_def
proof (rule secure_bnd)
  have "secure_run L (\<lambda>s. case body g s of (h', r) \<Rightarrow> (drop_guard (logged H) g h', r)) l Q" for g
    using assms(2) [of g] by (auto simp: secure_def logged_def split: prod.splits)
  then show "secure_run L (call (acquire (logged H))) l (\<lambda>x l'. secure_run L (\<lambda>s. case body x s of (h', r) \<Rightarrow> (drop_guard (logged H) x h', r)) l' Q)"
    using assms(1) by (auto simp: logged_def intro!: secure_silent)
qed

definition checked :: "ci_snapshot \<Rightarrow> event list \<Rightarrow> event list" where
  "checked s l = Verified # Synchronized (cs_current s) # TookSnapshot s # Verified # l"

lemma safe_checked [simp]: "safe L (checked s l) = safe L l"
  by (simp add: checked_def)

lemma snapshot_record_facts:
  "snapshot_record L s = Inr r \<Longrightarrow> decode_record L (cs_current s) = Some r"
  "snapshot_record L s = Inl e \<Longrightarrow> \<exists>x. e = Fault x"
  by (auto simp: snapshot_record_def split: option.splits if_splits)

lemma publication_target_fault: "publication_target L s = Inl e \<Longrightarrow> \<exists>x. e = Fault x"
  by (auto simp: publication_target_def split: option.splits if_splits)

lemmas secure_rules = secure_bnd secure_calls secure_basic

lemma secure_checked_snapshot:
  assumes l: "safe L l" and Q: "\<And>r. decode_record L (cs_current s) = Some r \<Longrightarrow> Q r (checked s l)"
  shows "secure_run L (checked_snapshot L (logged H) g s) l Q"
  unfolding checked_snapshot_def
  using l Q by (intro secure_rules) (auto simp: checked_def dest: snapshot_record_facts)

lemma secure_checked_retry_snapshot:
  assumes l: "safe L l" and Q: "\<And>r t. decode_record L (cs_current s) = Some r \<Longrightarrow> publication_target L s = Inr t
     \<Longrightarrow> Q r (checked s l)"
  shows "secure_run L (checked_retry_snapshot L (logged H) g s) l Q"
  unfolding checked_retry_snapshot_def
  using l Q by (intro secure_rules) (auto simp: checked_def dest: publication_target_fault)

definition published :: "ci_snapshot \<Rightarrow> ci_snapshot \<Rightarrow> wire_ownership \<Rightarrow> event list \<Rightarrow> event list" where
  "published s fresh next l =
     Verified # Synchronized (cs_current fresh) # TookSnapshot fresh # Published (cs_current s) next # checked s l"

lemma secure_publish_record:
  assumes l: "safe L l" and a: "publication_allowed L (recent (checked s l)) (cs_current s) next"
    and Q: "\<And>fresh. encode_record L next = Some (cs_current fresh) \<Longrightarrow> cs_staged fresh = None
       \<Longrightarrow> safe L (published s fresh next l) \<Longrightarrow> Q (fresh, next) (published s fresh next l)"
  shows "secure_run L (publish_record L (logged H) g s next) l Q"
  unfolding publish_record_def
  using l a Q by (intro secure_rules secure_checked_snapshot) (auto simp: published_def)

definition effected :: "ci_snapshot \<Rightarrow> wire_ownership \<Rightarrow> client_effect \<Rightarrow> material option \<Rightarrow> event list \<Rightarrow> event list" where
  "effected s r e m l = checked s (Verified # Performed e r m # Inspected r # checked s l)"

lemma recent_simps [simp]:
  "recent [] = []" "\<not> changes e \<Longrightarrow> recent (e # l) = e # recent l" "changes e \<Longrightarrow> recent (e # l) = []"
  by (simp_all add: recent_def)

lemma recent_checked [simp]: "recent (checked s l) = checked s (recent l)"
  by (simp add: checked_def)

lemma checked_members [simp]:
  "Verified \<in> set (checked s l)" "Synchronized (cs_current s) \<in> set (checked s l)" "latest_snapshot (checked s l) = Some s"
  "x \<in> set l \<Longrightarrow> x \<in> set (checked s l)"
  by (simp_all add: checked_def)

lemma secure_run_effect:
  assumes l: "safe L l" and d: "decode_record L (cs_current s) = Some r" and f: "effect_fits e r m"
    and Q: "safe L (effected s r e m l) \<Longrightarrow> Q () (effected s r e m l)"
  shows "secure_run L (run_effect L (logged H) g s r e m) l Q"
proof -
  have a: "effect_allowed L (recent (Inspected r # checked s l)) e r m" using d f by (simp add: effect_allowed_def)
  show ?thesis
    unfolding run_effect_def
    using l Q a by (intro secure_rules secure_checked_snapshot) (auto simp: effected_def)
qed

lemma secure_check_routes:
  assumes l: "safe L l" and Q: "\<And>p. sr_proxy p \<Longrightarrow> (serving r \<noteq> None \<longrightarrow> sr_subscription p) \<Longrightarrow> Q () (Routed r p # l)"
  shows "secure_run L (check_routes (logged H) g r) l Q"
  unfolding check_routes_def using l Q by (intro secure_rules) auto

lemma secure_check_quiescence:
  assumes l: "safe L l" and Q: "\<And>q. accepted q (serving r \<noteq> None) \<Longrightarrow> Q () (Quieted r q # l)"
  shows "secure_run L (check_quiescence (logged H) g r) l Q"
  unfolding check_quiescence_def using l Q by (intro secure_rules) auto

section \<open>Forward\<close>

definition effects_at :: "client_checkpoint \<Rightarrow> client_effect list" where
  "effects_at cp = (case cp of
      Authorized \<Rightarrow> [PrepareTarget] | TargetPrepared \<Rightarrow> [PublishStartup] | IntegrationPublished \<Rightarrow> [Reload]
    | Gated \<Rightarrow> [StopSource] | Revoked \<Rightarrow> [PublishTarget] | TargetPublished \<Rightarrow> [StartTarget]
    | TargetStarted \<Rightarrow> [FinishSubscription, RemoveTarget] | _ \<Rightarrow> [])"

definition effects_from :: "nat \<Rightarrow> client_effect list" where
  "effects_from i = concat (map effects_at (drop i checkpoint_order))"

fun performed :: "event list \<Rightarrow> client_effect list" where
  "performed [] = []"
| "performed (Performed e r m # l) = performed l @ [e]"
| "performed (_ # l) = performed l"

lemma effects_from_step:
  "effects_from (ordinal cp) = effects_at cp @ effects_from (Suc (ordinal cp))"
  by (cases cp) (simp_all add: effects_from_def checkpoint_order_def)

definition stands_at ::
  "lib \<Rightarrow> ci_snapshot \<Rightarrow> wire_ownership \<Rightarrow> client_checkpoint \<Rightarrow> string \<times> string \<Rightarrow> bool" where
  "stands_at L s r cp t = (decode_record L (cs_current s) = Some r \<and> encode_record L r \<noteq> None
     \<and> unfinished_direction r = Idle \<and> (\<exists>c. client_identity_rotation r = Some c
        \<and> client_index c = Some (ordinal cp)
        \<and> t = (cr_source_configuration_sha256 c, cr_target_configuration_sha256 c)))"

text \<open>
  The last change is the publication of a record without a rotation that selects the given configuration, and
  this record was read back and made durable.
\<close>

definition completed :: "lib \<Rightarrow> string \<Rightarrow> event list \<Rightarrow> bool" where
  "completed L configuration l = (\<exists>b next s rest. l = recent l @ Published b next # rest
     \<and> latest_snapshot (recent l) = Some s \<and> Synchronized (cs_current s) \<in> set (recent l)
     \<and> encode_record L next = Some (cs_current s) \<and> cs_staged s = None
     \<and> client_identity_rotation next = None \<and> configuration_sha256 next = configuration)"

lemma completed_published:
  assumes "encode_record L next = Some (cs_current f)" "cs_staged f = None" "client_identity_rotation next = None"
    "configuration_sha256 next = c"
  shows "completed L c (published s f next l)"
  using assms by (auto simp: completed_def published_def)

lemma performed_simps [simp]:
  "performed (checked s l) = performed l"
  "performed (effected s r e m l) = performed l @ [e]"
  "performed (published s f n l) = performed l"
  by (simp_all add: checked_def effected_def published_def)

lemma ordinal_inj: "ordinal a = ordinal b \<longleftrightarrow> a = b"
  by (cases a; cases b) simp_all

lemma ordinal_bound: "ordinal a < 11"
  by (cases a) simp_all

definition routed_now :: "event list \<Rightarrow> wire_ownership \<Rightarrow> bool" where
  "routed_now now r = (\<exists>p. Routed r p \<in> set now \<and> sr_proxy p \<and> (serving r \<noteq> None \<longrightarrow> sr_subscription p))"

definition step_done :: "lib \<Rightarrow> string \<times> string \<Rightarrow> client_checkpoint \<Rightarrow> event list
     \<Rightarrow> (ci_snapshot \<times> wire_ownership) option \<Rightarrow> event list \<Rightarrow> bool" where
  "step_done L t cp l p l' = (performed l' = performed l @ effects_at cp
     \<and> (case p of None \<Rightarrow> cp = TargetStarted \<and> completed L (snd t) l'
        | Some (f, n) \<Rightarrow> \<exists>cp'. ordinal cp' = Suc (ordinal cp) \<and> stands_at L f n cp' t))"

definition reviewed :: "lib \<Rightarrow> prepared_rotation \<Rightarrow> bool" where
  "reviewed L p = (\<exists>r op st rel. decode_record L (cs_current (pn_snapshot p)) = Some r
     \<and> begin_record L r op (pn_material p) st rel = Some (pn_next p))"

definition staged_done :: "lib \<Rightarrow> client_checkpoint \<Rightarrow> string \<times> string
     \<Rightarrow> rotation_outcome + ci_snapshot \<times> wire_ownership \<Rightarrow> event list \<Rightarrow> bool" where
  "staged_done L cp t x l = (case x of
      Inl y \<Rightarrow> y = (if checkpoint_direction cp = ChangeForward then Finished else CleanedUp)
        \<and> completed L (if y = Finished then snd t else fst t) l
    | Inr (f, n) \<Rightarrow> \<exists>cp'. stands_at L f n cp' t)"

definition publish_staged ::
  "lib \<Rightarrow> ('h, 'g) rotation_host \<Rightarrow> 'g \<Rightarrow> ci_snapshot \<Rightarrow> client_checkpoint \<Rightarrow> wire_ownership
     \<Rightarrow> ('h, rotation_outcome + ci_snapshot \<times> wire_ownership) act" where
  "publish_staged L H g s cp n =
         bnd (call (ci_publish H g (cs_current s) n)) (\<lambda>_.
         bnd (call (host_snapshot H g)) (\<lambda>fresh.
         bnd (ok_or AuthorityError (encode_record L n)) (\<lambda>content.
         bnd (require PublicationError (cs_current fresh = content \<and> cs_staged fresh = None)) (\<lambda>_.
         bnd (call (ci_synchronize H g (cs_current fresh))) (\<lambda>_.
         if rotation_of L n = None
         then ret (Inl (if checkpoint_direction cp = ChangeForward then Finished else CleanedUp))
         else bnd (call (inspect H g n)) (\<lambda>_. ret (Inr (fresh, n))))))))"

definition rotated :: "lib \<Rightarrow> material \<Rightarrow> event list \<Rightarrow> rotation_outcome \<Rightarrow> event list \<Rightarrow> bool" where
  "rotated L m l x l' = (x = Rotated \<and> performed l' = performed l @ effects_from 0 \<and> completed L (mt_target_sha256 m) l')"

text \<open>The part of \<open>finish_staged\<close> that publishes a staged record: one that carries the rotation on, or ends it.\<close>

definition finish_target ::
  "lib \<Rightarrow> ('h, 'g) rotation_host \<Rightarrow> 'g \<Rightarrow> ci_snapshot \<Rightarrow> wire_ownership \<Rightarrow> client_checkpoint \<Rightarrow> wire_ownership
     \<Rightarrow> ('h, rotation_outcome + ci_snapshot \<times> wire_ownership) act" where
  "finish_target L H g s r cp n =
     bnd (if rotation_direction L n = Some ChangeForward \<and> checkpoint_direction cp = ChangeCleanup
          then bnd (check_routes H g r) (\<lambda>_. check_quiescence H g r) else ret ()) (\<lambda>_.
     bnd (if rotation_of L n = None then revalidate_completion L H g s r (checkpoint_direction cp) else ret ()) (\<lambda>_.
     publish_staged L H g s cp n))"

definition resume ::
  "lib \<Rightarrow> ('h, 'g) rotation_host \<Rightarrow> 'g \<Rightarrow> rotation_outcome + ci_snapshot \<times> wire_ownership \<Rightarrow> ('h, rotation_outcome) act" where
  "resume L H g x = (case x of
      Inl outcome \<Rightarrow> ret outcome
    | Inr (current, record) \<Rightarrow>
        bnd (ok_or AuthorityError (rotation_of L record)) (\<lambda>r.
        if checkpoint_direction (rd_checkpoint r) = ChangeForward
        then bnd (forward FORWARD_ROUNDS L H g current record) (\<lambda>_. ret Finished)
        else bnd (clean_up L H g current record r) (\<lambda>_. ret CleanedUp)))"

definition finished :: "lib \<Rightarrow> string \<times> string \<Rightarrow> rotation_outcome \<Rightarrow> event list \<Rightarrow> bool" where
  "finished L t x l = (x = Finished \<and> completed L (snd t) l \<or> x = CleanedUp \<and> completed L (fst t) l)"

context json_text
begin

lemma rotation_of_typed:
  assumes "valid L r" "encode_record L r \<noteq> None" "unfinished_direction r = Idle" "client_identity_rotation r = Some c"
    "client_index c = Some (ordinal cp)"
  shows "\<exists>d. rotation_of L r = Some d \<and> rd_checkpoint d = cp \<and> rd_target_sha256 d = cr_target_configuration_sha256 c
    \<and> rd_source_sha256 d = cr_source_configuration_sha256 c"
proof -
  have w: "wire L r = Some (value_of (ser_ownership r))" using assms(2) wire_iff [of r] by simp
  have "phase r = Running"
    using validD(16) [OF assms(1)] assms(3,4) by (auto simp: guard_client_def operation_context_def)
  moreover have "from_index (ordinal cp) = Some cp" by (simp add: from_index_ordinal ordinal_bound)
  ultimately show ?thesis
    using assms(3-5) w
    by (simp add: rotation_of_def jget_ownership jindex_def jget_client as_str_def client_index_def client_constants)
qed

lemma stands_at_rotation:
  "stands_at L s r cp t \<Longrightarrow> \<exists>d. rotation_of L r = Some d \<and> rd_checkpoint d = cp 
    \<and> t = (rd_source_sha256 d, rd_target_sha256 d)"
  using rotation_of_typed by (fastforce simp: stands_at_def dest: decode_record_valid)

lemma stands_at_revoked: "stands_at L s r cp t \<Longrightarrow> revoked r \<longleftrightarrow> 8 \<le> ordinal cp"
  by (auto simp: stands_at_def revoked_def)

lemma rotation_stands_at:
  assumes "decode_record L (cs_current s) = Some r" "rotation_of L r = Some d"
  shows "stands_at L s r (rd_checkpoint d) (rd_source_sha256 d, rd_target_sha256 d)"
proof -
  have "encode_record L r \<noteq> None"
    using assms(2) wire_iff [of r] by (auto simp: rotation_of_def bind_eq_Some_conv split: if_splits)
  moreover obtain c i where c: "client_identity_rotation r = Some c" "client_index c = Some i"
      "ordinal (rd_checkpoint d) = i" "unfinished_direction r = Idle"
    using rotation_of_facts [OF assms(2)] by metis
  ultimately show ?thesis
    using rotation_of_typed [OF decode_record_valid [OF assms(1)] _ c(4,1), of "rd_checkpoint d"] assms c
    by (auto simp: stands_at_def)
qed

lemma advance_stands_at:
  assumes a: "stands_at L s r cp t" "advance_record L r = Some n" and f: "encode_record L n = Some (cs_current f)"
  shows "\<exists>cp'. ordinal cp' = Suc (ordinal cp) \<and> stands_at L f n cp' t"
proof -
  from advance_record_step [OF a(2)] a(1) obtain c' where n: "valid L n" "ordinal cp < 10"
      "client_identity_rotation n = Some c'" "client_index c' = Some (Suc (ordinal cp))"
      "t = (cr_source_configuration_sha256 c', cr_target_configuration_sha256 c')" "unfinished_direction n = Idle"
    by (auto simp: stands_at_def)
  have "from_index (Suc (ordinal cp)) \<noteq> None" using n(2) by (simp add: from_index_def checkpoint_order_def)
  then obtain cp' where "ordinal cp' = Suc (ordinal cp)" by (auto simp: from_index_ordinal)
  then show ?thesis using n f decode_encode_record [OF n(1) f] by (auto simp: stands_at_def)
qed

lemma advance_revoked:
  assumes "stands_at L s r cp t" "advance_record L r = Some n"
  shows "revoked n \<longleftrightarrow> 7 \<le> ordinal cp" "client_identity_rotation n \<noteq> None" "client_permits_successor L r n"
  using advance_record_step [OF assms(2)] assms by (auto simp: stands_at_def revoked_def client_permits_successor_def)

lemma publication_of_advance:
  assumes s: "stands_at L s r cp t" and n: "advance_record L r = Some n"
    and p: "ordinal cp = 7 \<Longrightarrow> revocation_proved now r"
  shows "publication_allowed L (checked s now) (cs_current s) n"
proof -
  have "revocation_proved (checked s now) r" if "revoked n" "\<not> revoked r"
    using p that advance_revoked(1) [OF s n] stands_at_revoked [OF s] by (auto simp: revocation_proved_def checked_def)
  then show ?thesis
    using s advance_revoked [OF s n] by (auto simp: publication_allowed_def stands_at_def)
qed

lemma secure_advance_publish:
  assumes l: "safe L l" and s: "stands_at L s r cp t" and p: "ordinal cp = 7 \<Longrightarrow> revocation_proved (recent l) r"
    and d: "performed l = performed l0 @ effects_at cp"
  shows "secure_run L (bnd (ok_or AuthorityError (advance_record L r)) (\<lambda>next.
      bnd (publish_record L (logged H) g s next) (\<lambda>p. ret (Some p)))) l (step_done L t cp l0)"
  using l p d
  by (intro secure_rules secure_publish_record)
    (auto simp: step_done_def intro: publication_of_advance [OF s] advance_stands_at [OF s])

lemma revocation_proved_routed:
  "routed_now now r \<Longrightarrow> accepted q (serving r \<noteq> None) \<Longrightarrow> revocation_proved (Quieted r q # now) r"
  by (auto simp: revocation_proved_def routed_now_def)

lemma secure_advance_step:
  assumes l: "safe L l" and s: "stands_at L s r cp t" and c: "cp \<noteq> TargetStarted"
    and p: "4 \<le> ordinal cp \<Longrightarrow> routed_now (recent l) r"
  shows "secure_run L (bnd (step_effect (logged H) g r cp) (\<lambda>effect.
      bnd (case effect of Some e \<Rightarrow> run_effect L (logged H) g s r e None | None \<Rightarrow> ret ()) (\<lambda>_.
      bnd (ok_or AuthorityError (advance_record L r)) (\<lambda>next.
      bnd (publish_record L (logged H) g s next) (\<lambda>p. ret (Some p)))))) l (step_done L t cp l)"
proof -
  have d: "decode_record L (cs_current s) = Some r" using s by (simp add: stands_at_def)
  let ?rest = "\<lambda>_. bnd (ok_or AuthorityError (advance_record L r)) (\<lambda>next.
      bnd (publish_record L (logged H) g s next) (\<lambda>p. ret (Some p)))"
  have e: "secure_run L (bnd (ret (Some e)) (\<lambda>effect.
      bnd (case effect of Some e \<Rightarrow> run_effect L (logged H) g s r e None | None \<Rightarrow> ret ()) ?rest)) l (step_done L t cp l)"
    if "effect_fits e r None" "ordinal cp \<noteq> 7" "effects_at cp = [e]" for e
  proof -
    have "secure_run L (bnd (run_effect L (logged H) g s r e None) ?rest) l (step_done L t cp l)"
      using that
      by (intro secure_bnd [where m = "run_effect L (logged H) g s r e None"] secure_run_effect [OF l d]
          secure_advance_publish [OF _ s]) auto
    then show ?thesis by (intro secure_bnd [where m = "ret (Some e)"] secure_basic(1) [OF l]) simp
  qed
  have n: "secure_run L (bnd (ret None) (\<lambda>effect.
      bnd (case effect of Some e \<Rightarrow> run_effect L (logged H) g s r e None | None \<Rightarrow> ret ()) ?rest)) l' (step_done L t cp l)"
    if "safe L l'" "ordinal cp = 7 \<Longrightarrow> revocation_proved (recent l') r" "performed l' = performed l" "effects_at cp = []" for l'
  proof -
    have "secure_run L (bnd (ret ()) ?rest) l' (step_done L t cp l)"
      using that by (intro secure_bnd [where m = "ret ()"] secure_basic(1) secure_advance_publish [OF _ s]) auto
    then show ?thesis using that by (intro secure_bnd [where m = "ret None"] secure_basic(1)) simp_all
  qed
  note v = stands_at_revoked [OF s]
  show ?thesis
  proof (cases cp)
    case Reloaded
    then show ?thesis using l n
      by (auto simp: step_effect_def effects_at_def intro!: secure_assoc secure_check_routes)
  next
    case Stopped
    then show ?thesis using l n
      by (auto simp: step_effect_def effects_at_def intro!: secure_assoc secure_check_quiescence)
  next
    case Quiescent
    then show ?thesis using l n p revocation_proved_routed
      by (auto simp: step_effect_def effects_at_def intro!: secure_assoc secure_check_quiescence)
  next
    case Authorized
    then show ?thesis using l by (auto simp: step_effect_def intro!: secure_bnd secure_basic(2))
  qed (use l n e v c in \<open>simp_all add: step_effect_def effects_at_def effect_fits_def\<close>)
qed

lemma publication_of_clear:
  assumes s: "stands_at L s r cp t" and n: "clear_record L r keep = Some n"
    and p: "completion_proved L now r"
  shows "publication_allowed L (checked s now) (cs_current s) n"
proof -
  have "completion_proved L (checked s now) r"
    using p by (auto simp: completion_proved_def checked_def split: if_splits)
  moreover have "client_permits_successor L r n"
    using n by (cases keep) (simp_all add: client_permits_successor_def)
  moreover have "\<not> revoked n" using clear_record_step [OF n] by (auto simp: revoked_def)
  ultimately show ?thesis using s by (auto simp: publication_allowed_def stands_at_def)
qed

lemma started_configuration:
  assumes "stands_at L s r TargetStarted t"
  shows "configuration_sha256 r = snd t"
  using validD(16) [of L r] decode_record_valid [of L "cs_current s" r] assms
  by (auto simp: stands_at_def guard_client_def valid_client_rotation_def)

lemma secure_complete_forward:
  assumes l: "safe L l" and s: "stands_at L s r TargetStarted t"
  shows "secure_run L (complete_forward L (logged H) g s r) l
    (\<lambda>_ l'. performed l' = performed l @ effects_at TargetStarted \<and> completed L (snd t) l')"
proof -
  have d: "decode_record L (cs_current s) = Some r" using s by (simp add: stands_at_def)
  have v: "revoked r" using stands_at_revoked [OF s] by simp
  have "completed L (snd t) (published s fresh n l')"
    if "clear_record L r True = Some n" "encode_record L n = Some (cs_current fresh)" "cs_staged fresh = None" for fresh n l'
    using that clear_record_step [OF that(1)] started_configuration [OF s] by (auto intro: completed_published)
  then show ?thesis
    unfolding complete_forward_def using l v
    by (intro secure_rules secure_run_effect [OF _ d] secure_publish_record)
      (auto simp: effect_fits_def effects_at_def completion_proved_def effected_def intro!: publication_of_clear [OF s])
qed

lemma secure_forward_step:
  assumes l: "safe L l" and s: "stands_at L s r cp t"
  shows "secure_run L (forward_step L (logged H) g s r) l (step_done L t cp l)"
proof -
  obtain d where d: "rotation_of L r = Some d" "rd_checkpoint d = cp" using stands_at_rotation [OF s] by blast
  define l1 where "l1 = Inspected r # checked s l"
  have l1: "safe L l1" "performed l1 = performed l" using l by (simp_all add: l1_def)
  let ?body = "\<lambda>_. if cp = TargetStarted then bnd (complete_forward L (logged H) g s r) (\<lambda>_. ret None)
     else bnd (step_effect (logged H) g r cp) (\<lambda>effect.
       bnd (case effect of Some e \<Rightarrow> run_effect L (logged H) g s r e None | None \<Rightarrow> ret ()) (\<lambda>_.
       bnd (ok_or AuthorityError (advance_record L r)) (\<lambda>next.
       bnd (publish_record L (logged H) g s next) (\<lambda>p. ret (Some p)))))"
  have body: "secure_run L (?body u) l2 (step_done L t cp l)"
    if "safe L l2" "performed l2 = performed l" "4 \<le> ordinal cp \<Longrightarrow> routed_now (recent l2) r" for l2 u
  proof (cases "cp = TargetStarted")
    case True
    have "secure_run L (bnd (complete_forward L (logged H) g s r) (\<lambda>_. ret None)) l2 (step_done L t cp l)"
      using secure_complete_forward [OF that(1), of s r t H g] s True that(2)
      by (intro secure_bnd) (auto simp: step_done_def intro!: secure_basic(1) elim!: secure_weaken)
    then show ?thesis using True by simp
  next
    case False
    moreover have "step_done L t cp l2 = step_done L t cp l" by (simp add: step_done_def fun_eq_iff that(2))
    ultimately show ?thesis using secure_advance_step [OF that(1) s False that(3)] by simp
  qed
  have "secure_run L (bnd (if ordinal cp \<ge> ordinal RouteVerified then check_routes (logged H) g r else ret ()) ?body) l1 (step_done L t cp l)"
  proof (cases "4 \<le> ordinal cp")
    case True
    have "secure_run L (bnd (check_routes (logged H) g r) ?body) l1 (step_done L t cp l)"
      by (rule secure_bnd, rule secure_check_routes [OF l1(1)], rule body) (use l1 in \<open>auto simp: routed_now_def\<close>)
    then show ?thesis using True by simp
  next
    case False
    have "secure_run L (bnd (ret ()) ?body) l1 (step_done L t cp l)"
      by (rule secure_bnd, rule secure_basic(1) [OF l1(1)], rule body) (use l1 False in auto)
    then show ?thesis using False by simp
  qed
  then show ?thesis
    unfolding forward_step_def using l d
    by (intro secure_bnd [where m = "check_cancelled _"] secure_bnd [where m = "checked_snapshot _ _ _ _"]
        secure_bnd [where m = "call _"] secure_bnd [where m = "ok_or _ _"] secure_calls secure_basic(4,6)
        secure_checked_snapshot) (auto simp: l1_def)
qed

lemma secure_forward:
  assumes "safe L l" "stands_at L s r cp t" "11 \<le> ordinal cp + n"
  shows "secure_run L (forward n L (logged H) g s r) l
    (\<lambda>_ l'. performed l' = performed l @ effects_from (ordinal cp) \<and> completed L (snd t) l')"
  using assms
proof (induction n arbitrary: l s r cp)
  case 0
  then show ?case using ordinal_bound [of cp] by simp
next
  case (Suc n)
  have "secure_run L (case p of None \<Rightarrow> ret () | Some (s', r') \<Rightarrow> forward n L (logged H) g s' r') l1
      (\<lambda>_ l'. performed l' = performed l @ effects_from (ordinal cp) \<and> completed L (snd t) l')"
    if st: "safe L l1" and sd: "step_done L t cp l p l1" for p l1
  proof (cases p)
    case None
    then show ?thesis
      using st sd effects_from_step [of cp] by (auto simp: step_done_def effects_from_def checkpoint_order_def intro!: secure_basic(1))
  next
    case (Some q)
    then obtain s' r' cp' where q: "p = Some (s', r')" "ordinal cp' = Suc (ordinal cp)" "stands_at L s' r' cp' t"
      using sd by (cases q) (auto simp: step_done_def)
    have pe: "performed l1 = performed l @ effects_at cp" using sd by (simp add: step_done_def)
    show ?thesis
      using Suc.IH [OF st q(3)] q Suc.prems(3) effects_from_step [of cp] pe by simp
  qed
  then show ?case
    unfolding forward.simps by (intro secure_bnd secure_weaken [OF secure_forward_step [OF Suc.prems(1,2)]])
qed

section \<open>Execution\<close>

lemma reviewed_begins:
  assumes p: "reviewed L p" and w: "wire L (pn_next p) = Some v"
  shows "publication_allowed L (checked (pn_snapshot p) now) (cs_current (pn_snapshot p)) (pn_next p)"
    and "encode_record L (pn_next p) = Some (cs_current f) \<Longrightarrow>
      stands_at L f (pn_next p) Authorized (mt_source_sha256 (pn_material p), mt_target_sha256 (pn_material p))"
proof -
  obtain r op st rel where r: "decode_record L (cs_current (pn_snapshot p)) = Some r"
      "begin_record L r op (pn_material p) st rel = Some (pn_next p)" using p by (auto simp: reviewed_def)
  note b = begin_record_facts [OF r(2)]
  have e: "encode_record L (pn_next p) \<noteq> None" using w wire_iff [of "pn_next p"] by (auto split: if_splits)
  have i: "client_index (begun op (pn_material p) (serving r)) = Some 0"
    by (simp add: client_index_def begun_def checkpoint_as_str_def CHECKPOINTS_def CLIENT_CHECKPOINTS_def)
  show "publication_allowed L (checked (pn_snapshot p) now) (cs_current (pn_snapshot p)) (pn_next p)"
    using begin_admitted [OF r(2) e] r(1) b(5) i
    by (simp add: publication_allowed_def client_permits_successor_def revoked_def)
  show "stands_at L f (pn_next p) Authorized (mt_source_sha256 (pn_material p), mt_target_sha256 (pn_material p))"
    if "encode_record L (pn_next p) = Some (cs_current f)"
    using that b(2,5) i decode_encode_record [OF b(3) that] by (simp add: stands_at_def begun_def)
qed

lemma secure_rotate:
  assumes l: "safe L l" "performed l = performed l0 @ [PrepareTarget]"
    and n: "\<exists>cp. ordinal cp = Suc 0 \<and> stands_at L f n cp (mt_source_sha256 m, mt_target_sha256 m)"
  shows "secure_run L (bnd (forward FORWARD_ROUNDS L (logged H) g f n) (\<lambda>_. ret Rotated)) l (rotated L m l0)"
proof -
  obtain cp where cp: "ordinal cp = Suc 0" "stands_at L f n cp (mt_source_sha256 m, mt_target_sha256 m)" using n by blast
  show ?thesis
    using cp(1) l(2) effects_from_step [of Authorized]
    by (intro secure_bnd secure_weaken [OF secure_forward [OF l(1) cp(2)]] secure_basic(1))
      (simp_all add: rotated_def FORWARD_ROUNDS_def effects_at_def)
qed

lemma secure_prepare_target:
  assumes l: "safe L l" and s: "stands_at L f n Authorized (mt_source_sha256 m, mt_target_sha256 m)"
    and d: "performed l = performed l0"
  shows "secure_run L (bnd (run_effect L (logged H) g f n PrepareTarget (Some m)) (\<lambda>_.
      bnd (ok_or AuthorityError (advance_record L n)) (\<lambda>next.
      bnd (publish_record L (logged H) g f next) (\<lambda>(current, record).
      bnd (forward FORWARD_ROUNDS L (logged H) g current record) (\<lambda>_. ret Rotated))))) l (rotated L m l0)"
proof -
  have dec: "decode_record L (cs_current f) = Some n" using s by (simp add: stands_at_def)
  have fits: "effect_fits PrepareTarget n (Some m)" using stands_at_revoked [OF s] by (simp add: effect_fits_def)
  have after: "secure_run L (bnd (publish_record L (logged H) g f n') (\<lambda>(current, record).
      bnd (forward FORWARD_ROUNDS L (logged H) g current record) (\<lambda>_. ret Rotated))) l2 (rotated L m l0)"
    if "safe L l2" "performed l2 = performed l0 @ [PrepareTarget]" "advance_record L n = Some n'" for n' l2
    using that publication_of_advance [OF s that(3)] advance_stands_at [OF s that(3)]
    by (intro secure_bnd [where m = "publish_record _ _ _ _ _"] secure_publish_record) (auto intro!: secure_rotate)
  show ?thesis
    using l d after
    by (intro secure_bnd [where m = "run_effect _ _ _ _ _ _ _"] secure_bnd [where m = "ok_or _ _"]
        secure_run_effect [OF _ dec fits] secure_basic(4)) auto
qed

lemma secure_execute_locked:
  assumes l: "safe L l" and p: "reviewed L p"
  shows "secure_run L (execute_rotation_locked L (logged H) p g) l (rotated L (pn_material p) l)"
proof -
  have start: "secure_run L (bnd (publish_record L (logged H) g (pn_snapshot p) (pn_next p)) (\<lambda>(current, record).
      bnd (run_effect L (logged H) g current record PrepareTarget (Some (pn_material p))) (\<lambda>_.
      bnd (ok_or AuthorityError (advance_record L record)) (\<lambda>next.
      bnd (publish_record L (logged H) g current next) (\<lambda>(current, record).
      bnd (forward FORWARD_ROUNDS L (logged H) g current record) (\<lambda>_. ret Rotated)))))) l1 (rotated L (pn_material p) l)"
    if "safe L l1" "performed l1 = performed l" "wire L (pn_next p) = Some v" for l1 v
    using that reviewed_begins [OF p that(3)]
    by (intro secure_bnd [where m = "publish_record _ _ _ _ _"] secure_publish_record)
      (auto intro!: secure_prepare_target)
  show ?thesis
    unfolding execute_rotation_locked_def
    using l start
    by (intro secure_bnd [where m = "checked_snapshot _ _ _ _"] secure_bnd [where m = "call _"]
        secure_bnd [where m = "ok_or _ _"] secure_bnd [where m = "require _ _"] secure_calls secure_basic(3,4)
        secure_checked_snapshot) auto
qed

lemma secure_execute:
  assumes p: "reviewed L p" and l: "safe L l"
  shows "secure_run L (execute_rotation L (logged H) p approved) l
    (\<lambda>x l'. if approved then rotated L (pn_material p) l x l' else x = RotationDeclined \<and> l' = l)"
proof (cases approved)
  case True
  then show ?thesis
    unfolding execute_rotation_def using l secure_execute_locked [OF l p]
    by (auto intro!: secure_bnd secure_basic(6) secure_with_guard)
qed (use l in \<open>simp add: execute_rotation_def secure_basic(1)\<close>)

section \<open>Completion\<close>

lemma publication_target_Some:
  assumes "publication_target L s = Inr (Some n)" "decode_record L (cs_current s) = Some r"
  shows "client_permits_successor L r n" "valid L n" "encode_record L n \<noteq> None"
  using assms
  by (auto simp: publication_target_def client_permits_successor_def decode_record_valid split: option.splits if_splits)

lemma source_configuration:
  assumes "stands_at L s r cp t" "ordinal cp < 9"
  shows "configuration_sha256 r = fst t"
  using validD(16) [of L r] decode_record_valid [of L "cs_current s" r] assms
  by (auto simp: stands_at_def guard_client_def valid_client_rotation_def)

lemma permitted_rotation:
  assumes s: "stands_at L s r cp t" and p: "client_permits_successor L r n" "encode_record L n \<noteq> None"
  obtains (moves) cp' where "\<And>f. encode_record L n = Some (cs_current f) \<Longrightarrow> stands_at L f n cp' t"
      "revoked n \<longleftrightarrow> 8 \<le> ordinal cp'" "client_identity_rotation n \<noteq> None"
      "rotation_direction L n = Some (checkpoint_direction cp')" "rotation_of L n \<noteq> None"
  | (ends) "client_identity_rotation n = None" "rotation_of L n = None" "\<not> revoked n"
      "configuration_sha256 n = (if revoked r then snd t else fst t)"
proof -
  have pend: "pending_change r \<noteq> None"
    using s by (auto simp: stands_at_def pending_change_def split: option.splits)
  obtain b where b: "encode_record L n = Some b" using p(2) by auto
  have moved: thesis if st: "\<And>f. encode_record L n = Some (cs_current f) \<Longrightarrow> stands_at L f n cp' t" for cp'
  proof -
    have at: "stands_at L \<lparr>cs_current = b, cs_staged = None\<rparr> n cp' t" using st b by simp
    obtain d where "rotation_of L n = Some d" "rd_checkpoint d = cp'" using stands_at_rotation [OF at] by blast
    then show thesis
      using moves [OF st] stands_at_revoked [OF at] at by (auto simp: stands_at_def rotation_direction_def)
  qed
  from p(1) consider "r = n" | "initial_successor L r n = Some n" | "advance_record L r = Some n"
    | k where "clear_record L r k = Some n"
    unfolding client_permits_successor_def by blast
  then show thesis
  proof cases
    case 1
    have "valid L r" using s by (auto simp: stands_at_def dest: decode_record_valid)
    then have "decode_record L b = Some r" using 1 b by (intro decode_encode_record) simp_all
    then show thesis using moved [of cp] 1 b s by (auto simp: stands_at_def)
  next
    case 2
    then show thesis using initial_successor_idle(1) [OF 2] pend by simp
  next
    case 3
    then obtain cp' where "ordinal cp' = Suc (ordinal cp)" "stands_at L \<lparr>cs_current = b, cs_staged = None\<rparr> n cp' t"
      using advance_stands_at [OF s, of n "\<lparr>cs_current = b, cs_staged = None\<rparr>"] b by auto
    then show thesis using moved [of cp'] b by (auto simp: stands_at_def)
  next
    case (4 k)
    have "rotation_of L n = None" if "client_identity_rotation n = None"
    proof (cases "rotation_of L n")
      case (Some d)
      then show ?thesis using that by (rule_tac rotation_of_facts [OF Some]) simp
    qed
    then have none: "rotation_of L n = None" "\<not> revoked n" if "client_identity_rotation n = None"
      using that by (simp_all add: revoked_def)
    have "configuration_sha256 n = (if revoked r then snd t else fst t)"
      using clear_record_step [OF 4] s stands_at_revoked [OF s] source_configuration [OF s]
        started_configuration [of s r t] by (auto simp: stands_at_def ordinal_inj [of _ TargetStarted, simplified])
    moreover have "client_identity_rotation n = None" using clear_record_step [OF 4] by blast
    ultimately show thesis using ends none by simp
  qed
qed

lemma secure_revalidate:
  assumes l: "safe L l" and s: "stands_at L s r cp t" and now: "Verified \<in> set (recent l)" "Inspected r \<in> set (recent l)"
      "latest_snapshot (recent l) = Some s"
    and Q: "\<And>l'. safe L l' \<Longrightarrow> completion_proved L (recent l') r \<Longrightarrow> Verified \<in> set (recent l') \<Longrightarrow>
      Synchronized (cs_current s) \<in> set (recent l') \<Longrightarrow> latest_snapshot (recent l') = Some s \<Longrightarrow> Q () l'"
  shows "secure_run L (revalidate_completion L (logged H) g s r (checkpoint_direction cp)) l Q"
proof -
  obtain c where c: "decode_record L (cs_current s) = Some r" "client_identity_rotation r = Some c"
      "t = (cr_source_configuration_sha256 c, cr_target_configuration_sha256 c)"
    using s by (auto simp: stands_at_def)
  have a: "effect_allowed L (recent l) FinishSubscription r None"
    using now c(1) by (simp add: effect_allowed_def effect_fits_def)
  obtain d where d: "rotation_of L r = Some d" "t = (rd_source_sha256 d, rd_target_sha256 d)"
    using stands_at_rotation [OF s] by blast
  have fin: "Q () (Configured b # RunningSeen r # checked s (Performed FinishSubscription r None # l))"
    if "sha256_hex L b = (if checkpoint_direction cp = ChangeForward then rd_target_sha256 d else rd_source_sha256 d)" for b
    using that a l c d stands_at_revoked [OF s]
    by (intro Q) (auto simp: completion_proved_def checkpoint_direction_def split: if_splits)
  show ?thesis
    unfolding revalidate_completion_def
    using l a d(1) fin
    by (intro secure_rules secure_checked_retry_snapshot) auto
qed

lemma secure_publish_staged:
  assumes l: "safe L l" and a: "publication_allowed L (recent l) (cs_current s) n"
    and e: "\<And>f. encode_record L n = Some (cs_current f) \<Longrightarrow> cs_staged f = None \<Longrightarrow>
      if rotation_of L n = None
      then staged_done L cp t (Inl (if checkpoint_direction cp = ChangeForward then Finished else CleanedUp))
             (Synchronized (cs_current f) # TookSnapshot f # Published (cs_current s) n # l)
      else \<exists>cp'. stands_at L f n cp' t"
  shows "secure_run L (publish_staged L (logged H) g s cp n) l (staged_done L cp t)"
proof (cases "rotation_of L n = None")
  case True
  then show ?thesis
    unfolding publish_staged_def if_P [OF True] using l a e by (intro secure_rules) auto
next
  case False
  then show ?thesis
    unfolding publish_staged_def if_not_P [OF False] using l a e
    by (intro secure_rules) (auto simp: staged_done_def)
qed

lemma secure_finish_target_moves:
  assumes l: "safe L l" and s: "stands_at L s r cp t" and p: "client_permits_successor L r n"
    and m: "\<And>f. encode_record L n = Some (cs_current f) \<Longrightarrow> stands_at L f n cp' t"
      "revoked n \<longleftrightarrow> 8 \<le> ordinal cp'" "client_identity_rotation n \<noteq> None"
      "rotation_direction L n = Some (checkpoint_direction cp')" "rotation_of L n \<noteq> None"
  shows "secure_run L (finish_target L (logged H) g s r cp n) (Inspected r # checked s l) (staged_done L cp t)"
proof -
  have d: "decode_record L (cs_current s) = Some r" using s by (simp add: stands_at_def)
  have q: "secure_run L (publish_staged L (logged H) g s cp n) l' (staged_done L cp t)"
    if "safe L l'" "Verified \<in> set (recent l')" "Synchronized (cs_current s) \<in> set (recent l')"
      "latest_snapshot (recent l') = Some s" "revoked n \<and> \<not> revoked r \<longrightarrow> revocation_proved (recent l') r" for l'
    using that m p d by (intro secure_publish_staged) (auto simp: publication_allowed_def)
  show ?thesis
  proof (cases "rotation_direction L n = Some ChangeForward \<and> checkpoint_direction cp = ChangeCleanup")
    case True
    show ?thesis
      unfolding finish_target_def if_P [OF True] if_not_P [OF m(5)] bnd_pure
      by (rule secure_bnd, rule secure_bnd, rule secure_check_routes, simp add: l, rule secure_check_quiescence,
        simp add: l, rule q) (use l in \<open>auto simp: revocation_proved_def\<close>)
  next
    case False
    then have "\<not> (revoked n \<and> \<not> revoked r)"
      using m(2,4) stands_at_revoked [OF s] by (auto simp: checkpoint_direction_def split: if_splits)
    then show ?thesis
      unfolding finish_target_def if_not_P [OF False] if_not_P [OF m(5)] bnd_pure by (intro q) (use l in auto)
  qed
qed

lemma secure_finish_target_ends:
  assumes l: "safe L l" and s: "stands_at L s r cp t" and p: "client_permits_successor L r n"
    and e: "client_identity_rotation n = None" "rotation_of L n = None" "\<not> revoked n"
      "configuration_sha256 n = (if revoked r then snd t else fst t)"
  shows "secure_run L (finish_target L (logged H) g s r cp n) (Inspected r # checked s l) (staged_done L cp t)"
proof -
  have d: "decode_record L (cs_current s) = Some r" using s by (simp add: stands_at_def)
  have c: "\<not> (rotation_direction L n = Some ChangeForward \<and> checkpoint_direction cp = ChangeCleanup)"
    using e(2) by (simp add: rotation_direction_def)
  have fin: "secure_run L (publish_staged L (logged H) g s cp n) l' (staged_done L cp t)"
    if "safe L l'" "completion_proved L (recent l') r" "Verified \<in> set (recent l')"
      "Synchronized (cs_current s) \<in> set (recent l')" "latest_snapshot (recent l') = Some s" for l'
    using that e p d stands_at_revoked [OF s]
    by (intro secure_publish_staged)
      (auto simp: publication_allowed_def staged_done_def completed_def checkpoint_direction_def)
  show ?thesis
    unfolding finish_target_def if_not_P [OF c] if_P [OF e(2)] bnd_pure
    by (rule secure_bnd, rule secure_revalidate [OF _ s]) (use l fin in simp_all)
qed

lemma secure_finish_staged:
  assumes l: "safe L l" and s: "stands_at L s r cp t"
  shows "secure_run L (finish_staged L (logged H) g s r (checkpoint_direction cp)) (Inspected r # checked s l)
    (staged_done L cp t)"
proof -
  let ?l = "Inspected r # checked s l"
  have d: "decode_record L (cs_current s) = Some r" using s by (simp add: stands_at_def)
  have target: "secure_run L (finish_target L (logged H) g s r cp n) ?l (staged_done L cp t)"
    if n: "publication_target L s = Inr (Some n)" for n
    by (rule permitted_rotation [OF s publication_target_Some(1,3) [OF n d]])
      (rule secure_finish_target_moves [OF l s publication_target_Some(1) [OF n d]]
        secure_finish_target_ends [OF l s publication_target_Some(1) [OF n d]]; assumption)+
  have none: "secure_run L (ret (Inr (s, r))) ?l (staged_done L cp t)"
    using l s by (intro secure_basic(1)) (auto simp: staged_done_def)
  have "finish_staged L (logged H) g s r (checkpoint_direction cp)
      = bnd (of_result (publication_target L s)) (\<lambda>v. case v of
          None \<Rightarrow> ret (Inr (s, r)) | Some n \<Rightarrow> finish_target L (logged H) g s r cp n)"
    unfolding finish_staged_def finish_target_def publish_staged_def ..
  then show ?thesis
    using l none target publication_target_fault
    by (auto intro!: secure_bnd secure_basic(5) split: option.split)
qed

lemma secure_try_routes:
  assumes "safe L l" "\<And>b. Q b l" "\<And>b p. Q b (Routed r p # l)"
  shows "secure_run L (\<lambda>h. case check_routes (logged H) g r h of (h', x) \<Rightarrow> (h', Inr (\<not> isl x))) l Q"
  using assms
  by (auto simp: secure_def check_routes_def bnd_def call_def logged_def noting_def ensure_def ret_def throw_def is_fault_def
      split: prod.splits sum.splits)

lemma secure_clean_up:
  assumes l: "safe L l" and s: "stands_at L s r cp t" and c: "ordinal cp < 8" and d: "rotation_of L r = Some d"
  shows "secure_run L (clean_up L (logged H) g s r d) l (\<lambda>_. completed L (fst t))"
proof -
  obtain c where c': "client_identity_rotation r = Some c" "t = (cr_source_configuration_sha256 c, cr_target_configuration_sha256 c)"
    using s by (auto simp: stands_at_def)
  have rd: "rd_source_sha256 d = fst t" using stands_at_rotation [OF s] d by auto
  have dec: "decode_record L (cs_current s) = Some r" using s by (simp add: stands_at_def)
  have v: "\<not> revoked r" using stands_at_revoked [OF s] c by simp
  have fits: "effect_fits e r None" if "e \<in> {RestoreSource, FinishSubscription, RemoveTarget, CleanupStartup}" for e
    using that v by (auto simp: effect_fits_def)
  have ending: "secure_run L (bnd (call (host_configuration (logged H) g)) (\<lambda>config.
     bnd (require AuthorityError (sha256_hex L config = rd_source_sha256 d)) (\<lambda>_.
     bnd (ok_or AuthorityError (clear_record L r retain)) (\<lambda>next.
     bnd (publish_record L (logged H) g s next) (\<lambda>_. ret ()))))) l' (\<lambda>_. completed L (fst t))"
    if "safe L l'" for l' retain
  proof -
    have "completed L (fst t) (published s f n k)"
      if "clear_record L r retain = Some n" "encode_record L n = Some (cs_current f)" "cs_staged f = None" for f n k
      using that clear_record_step [OF that(1)] source_configuration [OF s] c by (auto intro: completed_published)
    moreover have "publication_allowed L (checked s (Configured b # recent l')) (cs_current s) n"
      if "clear_record L r retain = Some n" "sha256_hex L b = rd_source_sha256 d" for n b
      using that v rd c' by (intro publication_of_clear [OF s that(1)]) (auto simp: completion_proved_def)
    ultimately show ?thesis
      using that by (intro secure_rules secure_publish_record) auto
  qed
  have mid: "secure_run L (bnd (if retain then ret () else run_effect L (logged H) g s r CleanupStartup None) (\<lambda>_.
     bnd (call (host_configuration (logged H) g)) (\<lambda>config.
     bnd (require AuthorityError (sha256_hex L config = rd_source_sha256 d)) (\<lambda>_.
     bnd (ok_or AuthorityError (clear_record L r retain)) (\<lambda>next.
     bnd (publish_record L (logged H) g s next) (\<lambda>_. ret ())))))) l' (\<lambda>_. completed L (fst t))"
    if "safe L l'" for l' retain
  proof (cases retain)
    case True
    then show ?thesis using ending that by (auto intro!: secure_bnd [where m = "ret ()"] secure_basic(1))
  next
    case False
    then show ?thesis
      using ending that fits by (auto intro!: secure_bnd [where m = "run_effect _ _ _ _ _ _ _"] secure_run_effect dec)
  qed
  show ?thesis
    unfolding clean_up_def
    using l mid fits
    by (intro secure_bnd [where m = "run_effect _ _ _ _ _ _ _"] secure_bnd [where m = "call _"]
        secure_bnd [where m = "require _ _"] secure_bnd [where m = "\<lambda>h. case check_routes _ _ _ h of (h', x) \<Rightarrow> (h', Inr (\<not> isl x))"]
        secure_calls secure_basic(3) secure_run_effect dec secure_try_routes) auto
qed

lemma secure_resume_rotation:
  assumes l: "safe L l" and n: "stands_at L f n cp t"
  shows "secure_run L (resume L (logged H) g (Inr (f, n))) l (finished L t)"
  unfolding resume_def sum.case prod.case
proof (rule secure_bnd, rule secure_basic(4) [OF l])
  fix e
  assume e: "rotation_of L n = Some e"
  then have cp: "rd_checkpoint e = cp" using stands_at_rotation [OF n] by auto
  have "secure_run L (bnd (clean_up L (logged H) g f n e) (\<lambda>_. ret CleanedUp)) l (finished L t)" if "ordinal cp < 8"
    by (intro secure_bnd secure_weaken [OF secure_clean_up [OF l n that e]] secure_basic(1)) (auto simp: finished_def)
  moreover have "secure_run L (bnd (forward FORWARD_ROUNDS L (logged H) g f n) (\<lambda>_. ret Finished)) l (finished L t)"
    by (intro secure_bnd secure_weaken [OF secure_forward [OF l n]] secure_basic(1))
      (auto simp: finished_def FORWARD_ROUNDS_def)
  ultimately show "secure_run L (if checkpoint_direction (rd_checkpoint e) = ChangeForward
      then bnd (forward FORWARD_ROUNDS L (logged H) g f n) (\<lambda>_. ret Finished)
      else bnd (clean_up L (logged H) g f n e) (\<lambda>_. ret CleanedUp)) l (finished L t)"
    using cp by (simp add: checkpoint_direction_def)
qed

lemma secure_resume:
  assumes "safe L l" "staged_done L cp t x l"
  shows "secure_run L (resume L (logged H) g x) l (finished L t)"
proof (cases x)
  case (Inl y)
  then show ?thesis
    using assms by (auto simp: resume_def staged_done_def finished_def intro!: secure_basic(1) split: if_splits)
next
  case (Inr y)
  then obtain f n cp' where "x = Inr (f, n)" "stands_at L f n cp' t"
    using assms(2) by (cases y) (auto simp: staged_done_def)
  then show ?thesis using secure_resume_rotation [OF assms(1)] by simp
qed

lemma secure_finish_locked:
  assumes l: "safe L l"
  shows "secure_run L (finish_rotation_locked L (logged H) p g) l
    (\<lambda>x l'. \<exists>r d. decode_record L (cs_current (pf_snapshot p)) = Some r \<and> rotation_of L r = Some d
       \<and> finished L (rd_source_sha256 d, rd_target_sha256 d) x l')"
    (is "secure_run L _ l ?Q")
proof -
  let ?s = "pf_snapshot p"
  have rest: "secure_run L (bnd (finish_staged L (logged H) g ?s r (checkpoint_direction (rd_checkpoint d)))
      (resume L (logged H) g)) (Inspected r # checked ?s l) ?Q"
    if r: "decode_record L (cs_current ?s) = Some r" and d: "rotation_of L r = Some d" for r d
    using r d
    by (intro secure_bnd secure_weaken [OF secure_finish_staged [OF l rotation_stands_at [OF r d]]]
        secure_weaken [OF secure_resume]) auto
  show ?thesis
    unfolding finish_rotation_locked_def resume_def [symmetric, abs_def]
    using l rest
    by (intro secure_bnd [where m = "checked_retry_snapshot _ _ _ _"] secure_bnd [where m = "call _"]
        secure_bnd [where m = "ok_or _ _"] secure_bnd [where m = "require _ _"] secure_calls secure_basic(3,4)
        secure_checked_retry_snapshot) (auto simp: rotation_direction_def)
qed

lemma secure_finish:
  assumes l: "safe L l"
  shows "secure_run L (finish_rotation L (logged H) p approved) l
    (\<lambda>x l'. if approved then \<exists>r d. decode_record L (cs_current (pf_snapshot p)) = Some r \<and> rotation_of L r = Some d
       \<and> finished L (rd_source_sha256 d, rd_target_sha256 d) x l'
       else x = RotationDeclined \<and> l' = l)"
proof (cases approved)
  case True
  then show ?thesis
    unfolding finish_rotation_def using l secure_finish_locked [OF l]
    by (auto intro!: secure_bnd secure_basic(6) secure_with_guard)
qed (use l in \<open>simp add: finish_rotation_def secure_basic(1)\<close>)

end
section \<open>The log changes nothing\<close>

lemma mirrors_cancelled: "mirrors (check_cancelled (logged H)) (check_cancelled H)"
  by (simp add: mirrors_def check_cancelled_def logged_def)

lemma mirrors_calls:
  "mirrors (call (noting note m)) (call m)" "mirrors (call (silent m)) (call m)" "mirrors (call (acting e m)) (call m)"
  by (auto simp: mirrors_def call_def noting_def silent_def acting_def split: prod.splits sum.splits)

lemma logged_fields:
  "acquire (logged H) = silent (acquire H)"
  "verify_guard (logged H) g = noting (\<lambda>_. Verified) (verify_guard H g)"
  "installed_release (logged H) g = silent (installed_release H g)"
  "host_snapshot (logged H) g = noting TookSnapshot (host_snapshot H g)"
  "ci_synchronize (logged H) g b = noting (\<lambda>_. Synchronized b) (ci_synchronize H g b)"
  "admit (logged H) g r = silent (admit H g r)"
  "inspect (logged H) g r = noting (\<lambda>_. Inspected r) (inspect H g r)"
  "host_configuration (logged H) g = noting Configured (host_configuration H g)"
  "ci_publish (logged H) g b r = acting (Published b r) (ci_publish H g b r)"
  "host_routes (logged H) g r = noting (Routed r) (host_routes H g r)"
  "host_quiescence (logged H) g r = noting (Quieted r) (host_quiescence H g r)"
  "ci_effect (logged H) g e r m = acting (Performed e r m) (ci_effect H g e r m)"
  "verify_running (logged H) g r = noting (\<lambda>_. RunningSeen r) (verify_running H g r)"
  by (simp_all add: logged_def)

lemmas mirror_rules = mirrors_bnd mirrors_pure mirrors_cancelled mirrors_calls

lemma mirrors_snapshots:
  "mirrors (checked_snapshot L (logged H) g s) (checked_snapshot L H g s)"
  "mirrors (checked_retry_snapshot L (logged H) g s) (checked_retry_snapshot L H g s)"
  unfolding checked_snapshot_def checked_retry_snapshot_def logged_fields by (intro mirror_rules)+

lemma mirrors_steps:
  "mirrors (publish_record L (logged H) g s n) (publish_record L H g s n)"
  "mirrors (run_effect L (logged H) g s r e m) (run_effect L H g s r e m)"
  "mirrors (check_routes (logged H) g r) (check_routes H g r)"
  "mirrors (check_quiescence (logged H) g r) (check_quiescence H g r)"
  unfolding publish_record_def run_effect_def check_routes_def check_quiescence_def logged_fields
  by (intro mirror_rules mirrors_snapshots)+

lemma mirrors_step_effect: "mirrors (step_effect (logged H) g r cp) (step_effect H g r cp)"
  by (cases cp) (auto simp: step_effect_def intro!: mirror_rules mirrors_steps)

lemma mirrors_complete: "mirrors (complete_forward L (logged H) g s r) (complete_forward L H g s r)"
  unfolding complete_forward_def logged_fields by (intro mirror_rules mirrors_steps)

lemma mirrors_forward_step: "mirrors (forward_step L (logged H) g s r) (forward_step L H g s r)"
  unfolding forward_step_def logged_fields
  by (intro mirror_rules mirrors_steps mirrors_snapshots mirrors_if mirrors_option mirrors_step_effect mirrors_complete)

lemma mirrors_forward: "mirrors (forward n L (logged H) g s r) (forward n L H g s r)"
  by (induction n arbitrary: s r)
    (auto intro!: mirror_rules mirrors_option mirrors_pair mirrors_forward_step)

lemma mirrors_with_guard:
  assumes "\<And>g. mirrors (f' g) (f g)"
  shows "mirrors (with_guard (logged H) f') (with_guard H f)"
proof -
  have "mirrors (\<lambda>h. case f' g h of (h', r) \<Rightarrow> (drop_guard (logged H) g h', r))
      (\<lambda>h. case f g h of (h', r) \<Rightarrow> (drop_guard H g h', r))" for g
    unfolding mirrors_def
  proof (intro allI)
    fix h l
    obtain l' where "f' g (h, l) = ((fst (f g h), l'), snd (f g h))" using mirrorsD [OF assms] by blast
    then show "\<exists>l'. (case f' g (h, l) of (h', r) \<Rightarrow> (drop_guard (logged H) g h', r)) =
      ((fst (case f g h of (h', r) \<Rightarrow> (drop_guard H g h', r)), l'), snd (case f g h of (h', r) \<Rightarrow> (drop_guard H g h', r)))"
      by (auto simp: logged_def split: prod.splits)
  qed
  then show ?thesis unfolding with_guard_def logged_fields by (intro mirror_rules)
qed

lemma mirrors_execute: "mirrors (execute_rotation L (logged H) p a) (execute_rotation L H p a)"
  unfolding execute_rotation_def execute_rotation_locked_def logged_fields
  by (intro mirror_rules mirrors_if mirrors_with_guard mirrors_snapshots mirrors_pair mirrors_steps mirrors_forward)

lemma mirrors_try:
  assumes "mirrors m' m"
  shows "mirrors (\<lambda>h. case m' h of (h', x) \<Rightarrow> (h', Inr (\<not> isl x))) (\<lambda>h. case m h of (h', x) \<Rightarrow> (h', Inr (\<not> isl x)))"
  unfolding mirrors_def
proof (intro allI)
  fix h l
  obtain l' where "m' (h, l) = ((fst (m h), l'), snd (m h))" using mirrorsD [OF assms] by blast
  then show "\<exists>l'. (case m' (h, l) of (h', x) \<Rightarrow> (h', Inr (\<not> isl x)))
      = ((fst (case m h of (h', x) \<Rightarrow> (h', Inr (\<not> isl x))), l'), snd (case m h of (h', x) \<Rightarrow> (h', Inr (\<not> isl x))))"
    by (auto split: prod.splits)
qed

lemma mirrors_finish: "mirrors (finish_rotation L (logged H) p a) (finish_rotation L H p a)"
proof -
  have r: "mirrors (revalidate_completion L (logged H) g s r d) (revalidate_completion L H g s r d)" for g s r d
    unfolding revalidate_completion_def logged_fields by (intro mirror_rules mirrors_snapshots)
  have st: "mirrors (finish_staged L (logged H) g s r d) (finish_staged L H g s r d)" for g s r d
    unfolding finish_staged_def logged_fields
    by (intro mirror_rules mirrors_option mirrors_if mirrors_steps r)
  have c: "mirrors (clean_up L (logged H) g s r d) (clean_up L H g s r d)" for g s r d
    unfolding clean_up_def logged_fields by (intro mirror_rules mirrors_if mirrors_steps mirrors_try)
  have sum: "mirrors (case x of Inl y \<Rightarrow> f y | Inr (s, n) \<Rightarrow> k s n) (case x of Inl y \<Rightarrow> f' y | Inr (s, n) \<Rightarrow> k' s n)"
    if "\<And>y. mirrors (f y) (f' y)" "\<And>s n. mirrors (k s n) (k' s n)" for x f f' k k'
    using that by (cases x) auto
  show ?thesis
    unfolding finish_rotation_def finish_rotation_locked_def logged_fields
    by (intro mirror_rules mirrors_if mirrors_with_guard mirrors_snapshots st c mirrors_forward sum)
qed

section \<open>Reviews\<close>

definition yields :: "('s, 'a) act \<Rightarrow> ('a \<Rightarrow> bool) \<Rightarrow> bool" where
  "yields m P = (\<forall>s. case snd (m s) of Inl e \<Rightarrow> \<exists>x. e = Fault x | Inr x \<Rightarrow> P x)"

lemma yields_bnd: "yields m (\<lambda>x. yields (f x) P) \<Longrightarrow> yields (bnd m f) P"
proof (unfold yields_def, intro allI)
  fix s
  assume m: "\<forall>s. case snd (m s) of Inl e \<Rightarrow> \<exists>x. e = Fault x
      | Inr x \<Rightarrow> \<forall>s. case snd (f x s) of Inl e \<Rightarrow> \<exists>x. e = Fault x | Inr x \<Rightarrow> P x"
  obtain t r where r: "m s = (t, r)" by fastforce
  then show "case snd (bnd m f s) of Inl e \<Rightarrow> \<exists>x. e = Fault x | Inr x \<Rightarrow> P x"
    using m [rule_format, of s] by (cases r) (simp_all add: bnd_def)
qed

lemma yields_basic:
  "P x \<Longrightarrow> yields (ret x) P"
  "(b \<Longrightarrow> P' ()) \<Longrightarrow> yields (require e b) P'"
  "(\<And>v. opt = Some v \<Longrightarrow> P v) \<Longrightarrow> yields (ok_or e opt) P"
  "(\<And>v. res = Inr v \<Longrightarrow> P v) \<Longrightarrow> (\<And>e. res = Inl e \<Longrightarrow> \<exists>x. e = Fault x) \<Longrightarrow> yields (of_result res) P"
  "P' () \<Longrightarrow> yields (check_cancelled H) P'"
  by (auto simp: yields_def ret_def throw_def ensure_def option_or_def of_result_def check_cancelled_def
      split: option.splits sum.splits)

lemma yields_call: "(\<And>x. P x) \<Longrightarrow> yields (call m) P"
  by (auto simp: yields_def call_def split: prod.splits sum.splits)

lemma yields_on_host: "yields m P \<Longrightarrow> yields (on_host m) P"
  unfolding yields_def on_host_def by (auto split: prod.splits) (metis snd_conv)

lemma yields_draw: "(\<And>e e' x. f e = (e', Inr x) \<Longrightarrow> P x) \<Longrightarrow> yields (draw f) P"
  by (auto simp: yields_def draw_def split: prod.splits sum.splits)

lemma yields_snapshots:
  "(\<And>r. decode_record L (cs_current s) = Some r \<Longrightarrow> P r) \<Longrightarrow> yields (checked_snapshot L H g s) P"
  "(\<And>r. decode_record L (cs_current s) = Some r \<Longrightarrow> P r) \<Longrightarrow> yields (checked_retry_snapshot L H g s) P"
  unfolding checked_snapshot_def checked_retry_snapshot_def
  by (intro yields_bnd yields_call yields_basic; auto dest: snapshot_record_facts publication_target_fault)+

lemma prepare_material_fault:
  assumes "json_markup L" "decode_supported L b = Some c" "prepare_material L C c u ip = Inl e"
  shows "\<exists>x. e = Fault x"
proof -
  obtain i host j where c: "from_slice L c = Some j" "value_of j = config_value i host"
    using json_markup.decode_supported_Some [OF assms(1), of b c] assms(2) json_object_reads by blast
  have "with_client_uuid L c u \<noteq> Inl IndexPanic"
  proof (cases "valid_client_uuid u")
    case True
    then show ?thesis using json_markup.with_client_uuid_value [OF assms(1) c] by simp
  next
    case False
    then show ?thesis by (simp add: with_client_uuid_def)
  qed
  then show ?thesis
    using assms(3) by (auto simp: prepare_material_def Let_def split: sum.splits option.splits if_splits config_fault.splits)
qed

lemma yields_review:
  assumes "json_markup L"
  shows "yields (review_rotation L C H F) (\<lambda>_. True)"
proof -
  have b: "c = b" if "decode_supported L b = Some c" for b c
    using json_markup.decode_supported_Some [OF assms] that by blast
  have "yields (review_locked L C H F g) (\<lambda>_. True)" for g
    unfolding review_locked_def
    by (intro yields_bnd yields_on_host yields_call yields_basic yields_draw yields_snapshots)
      (auto dest: prepare_material_fault [OF assms] b)
  then have "yields (\<lambda>s. case review_locked L C H F g s of ((h, e), r) \<Rightarrow> ((drop_guard H g h, e), r)) (\<lambda>_. True)" for g
    unfolding yields_def by (auto split: prod.splits) (metis snd_conv)
  then show ?thesis
    unfolding review_rotation_def by (intro yields_bnd yields_on_host yields_call yields_basic)
qed

end
