(* ===== verification/Review_Laws.thy ===== *)
theory Review_Laws
  imports Rotation_Laws
begin

text \<open>
  The review of a Client Identity rotation, observed: it only asks (\<open>observes\<close>: the logged run is the actual one, and no
  effect and no publication is in its log), and when it succeeds its log and the drawn values determine what it prepares.
\<close>

section \<open>Asking only\<close>

definition observes ::
  "(('h \<times> event list) \<times> 'e, 'a) act \<Rightarrow> ('h \<times> 'e, 'a) act \<Rightarrow> bool" where
  "observes m' m = (\<forall>h l e. \<exists>k. (\<forall>x\<in>set k. \<not> changes x)
     \<and> m' ((h, l), e) = (((fst (fst (m (h, e))), k @ l), snd (fst (m (h, e)))), snd (m (h, e))))"

lemma observesI:
  assumes "\<And>h l e. \<exists>k. (\<forall>x\<in>set k. \<not> changes x)
     \<and> m' ((h, l), e) = (((fst (fst (m (h, e))), k @ l), snd (fst (m (h, e)))), snd (m (h, e)))"
  shows "observes m' m"
  using assms unfolding observes_def by blast

lemma observesD:
  assumes "observes m' m"
  obtains k where "\<forall>x\<in>set k. \<not> changes x"
    "m' ((h, l), e) = (((fst (fst (m (h, e))), k @ l), snd (fst (m (h, e)))), snd (m (h, e)))"
  using assms unfolding observes_def by blast

lemma observes_bnd:
  assumes m: "observes m' m" and f: "\<And>x. observes (f' x) (f x)"
  shows "observes (bnd m' f') (bnd m f)"
proof (rule observesI)
  fix h l e
  obtain k where k: "\<forall>x\<in>set k. \<not> changes x"
    "m' ((h, l), e) = (((fst (fst (m (h, e))), k @ l), snd (fst (m (h, e)))), snd (m (h, e)))"
    by (rule observesD [OF m])
  obtain h1 e1 r where r: "m (h, e) = ((h1, e1), r)" by (metis surj_pair)
  show "\<exists>k. (\<forall>x\<in>set k. \<not> changes x) \<and> bnd m' f' ((h, l), e)
      = (((fst (fst (bnd m f (h, e))), k @ l), snd (fst (bnd m f (h, e)))), snd (bnd m f (h, e)))"
  proof (cases r)
    case (Inl x)
    then show ?thesis using k r by (intro exI [of _ k]) (simp add: bnd_def)
  next
    case (Inr x)
    obtain j where j: "\<forall>x\<in>set j. \<not> changes x" "f' x ((h1, k @ l), e1)
        = (((fst (fst (f x (h1, e1))), j @ k @ l), snd (fst (f x (h1, e1)))), snd (f x (h1, e1)))"
      by (rule observesD [OF f])
    then show ?thesis using k r Inr by (intro exI [of _ "j @ k"]) (auto simp: bnd_def)
  qed
qed

lemma observes_pure:
  "observes (ret x) (ret x)" "observes (ensure f b) (ensure f b)" "observes (option_or f opt) (option_or f opt)"
  "observes (of_result res) (of_result res)" "observes (draw d) (draw d)"
  by (auto simp: observes_def ret_def ensure_def throw_def option_or_def of_result_def draw_def
      split: option.splits prod.splits sum.splits)

lemma observes_asked:
  "(\<And>x. \<not> changes (note x)) \<Longrightarrow> observes (on_host (call (noting note m))) (on_host (call m))"
  "observes (on_host (call (silent m))) (on_host (call m))"
  "observes (on_host (check_cancelled (logged H))) (on_host (check_cancelled H))"
proof -
  show "observes (on_host (call (noting note m))) (on_host (call m))" if "\<And>x. \<not> changes (note x)"
  proof (rule observesI)
    fix h l e
    obtain h1 r where r: "m h = (h1, r)" by fastforce
    show "\<exists>k. (\<forall>x\<in>set k. \<not> changes x) \<and> on_host (call (noting note m)) ((h, l), e)
      = (((fst (fst (on_host (call m) (h, e))), k @ l), snd (fst (on_host (call m) (h, e)))), snd (on_host (call m) (h, e)))"
      using that r by (cases r; intro exI [of _ "case r of Inl _ \<Rightarrow> [] | Inr x \<Rightarrow> [note x]"])
        (simp_all add: on_host_def call_def noting_def)
  qed
  show "observes (on_host (call (silent m))) (on_host (call m))"
    by (auto simp: observes_def on_host_def call_def silent_def split: prod.splits sum.splits)
  show "observes (on_host (check_cancelled (logged H))) (on_host (check_cancelled H))"
    by (auto simp: observes_def on_host_def check_cancelled_def logged_def)
qed

lemma on_host_bnd: "on_host (bnd m f) = bnd (on_host m) (\<lambda>x. on_host (f x))"
  by (auto simp: on_host_def bnd_def fun_eq_iff split: prod.splits sum.splits)

lemma on_host_pure:
  "on_host (ret x) = ret x" "on_host (ensure f b) = ensure f b" "on_host (option_or f opt) = option_or f opt"
  "on_host (of_result res) = of_result res"
  by (auto simp: on_host_def ret_def ensure_def throw_def option_or_def of_result_def fun_eq_iff split: option.splits)

lemmas observes_rules = observes_bnd observes_pure observes_asked

lemma observes_checked_snapshot:
  "observes (on_host (checked_snapshot L (logged H) g s)) (on_host (checked_snapshot L H g s))"
  unfolding checked_snapshot_def on_host_bnd on_host_pure
  by (simp add: logged_def) (intro observes_rules; simp)

lemma observes_review_locked: "observes (review_locked L C (logged H) F g) (review_locked L C H F g)"
  unfolding review_locked_def
  by (intro observes_bnd observes_pure observes_checked_snapshot observes_asked(3))
    (auto simp: logged_def intro: observes_asked)

lemma observes_review: "observes (review_rotation L C (logged H) F) (review_rotation L C H F)"
proof -
  have "observes (\<lambda>s. case review_locked L C (logged H) F g s of ((h, e), r) \<Rightarrow> ((drop_guard (logged H) g h, e), r))
      (\<lambda>s. case review_locked L C H F g s of ((h, e), r) \<Rightarrow> ((drop_guard H g h, e), r))" for g
  proof (rule observesI)
    fix h l e
    obtain k where k: "\<forall>x\<in>set k. \<not> changes x" "review_locked L C (logged H) F g ((h, l), e)
        = (((fst (fst (review_locked L C H F g (h, e))), k @ l), snd (fst (review_locked L C H F g (h, e)))),
            snd (review_locked L C H F g (h, e)))"
      by (rule observesD [OF observes_review_locked])
    then show "\<exists>k. (\<forall>x\<in>set k. \<not> changes x)
      \<and> (case review_locked L C (logged H) F g ((h, l), e) of ((h, e), r) \<Rightarrow> ((drop_guard (logged H) g h, e), r))
        = (((fst (fst (case review_locked L C H F g (h, e) of ((h, e), r) \<Rightarrow> ((drop_guard H g h, e), r))), k @ l),
            snd (fst (case review_locked L C H F g (h, e) of ((h, e), r) \<Rightarrow> ((drop_guard H g h, e), r)))),
            snd (case review_locked L C H F g (h, e) of ((h, e), r) \<Rightarrow> ((drop_guard H g h, e), r)))"
      by (intro exI [of _ k]) (auto simp: logged_def split: prod.splits)
  qed
  then show ?thesis
    unfolding review_rotation_def by (intro observes_bnd observes_asked(3)) (simp_all add: logged_def observes_asked)
qed

section \<open>What a successful review was told\<close>

lemma call_Inr:
  "call m h = (h', Inr x) \<longleftrightarrow> m h = (h', Inr x)"
  "noting note m (h, l) = ((h', l'), Inr x) \<longleftrightarrow> m h = (h', Inr x) \<and> l' = note x # l"
  "silent m (h, l) = ((h', l'), Inr x) \<longleftrightarrow> m h = (h', Inr x) \<and> l' = l"
  by (auto simp: call_def noting_def silent_def split: prod.splits sum.splits)

lemma on_host_Inr: "on_host m (h, e) = ((h', e'), Inr x) \<longleftrightarrow> m h = (h', Inr x) \<and> e' = e"
  by (auto simp: on_host_def split: prod.splits)

lemma draw_Inr: "draw f (h, e) = ((h', e'), Inr x) \<longleftrightarrow> f e = (e', Inr x) \<and> h' = h"
  by (auto simp: draw_def split: prod.splits sum.splits)

lemma checked_snapshot_logged:
  assumes "checked_snapshot L (logged H) g s (h, l) = ((h', l'), Inr r)"
  shows "l' = checked s l \<and> snapshot_record L s = Inr r \<and> checked_snapshot L H g s h = (h', Inr r)"
  using assms by (auto simp: checked_snapshot_def run_simps call_Inr logged_def checked_def)

text \<open>The log of a review, newest first.\<close>

definition review_log :: "ci_snapshot \<Rightarrow> bytes \<Rightarrow> event list" where
  "review_log s b = checked s (Configured b # checked s [TookSnapshot s])"

lemma review_locked_told:
  assumes "review_locked L C (logged H) F g ((h, []), e) = (((h', log), e'), Inr p)"
  obtains r b source u op st e1 h0 h1 h2 h3 h4 where
    "host_snapshot H g h = (h0, Inr (pn_snapshot p))" "checked_snapshot L H g (pn_snapshot p) h0 = (h1, Inr r)"
    "host_configuration H g h3 = (h4, Inr b)" "log = review_log (pn_snapshot p) b" "snapshot_record L (pn_snapshot p) = Inr r" "pending_change r = None"
    "installed_release H g h1 = (h2, Inr (pn_release p))" "admit H g r h2 = (h3, Inr st)"
    "sha256_hex L b = configuration_sha256 r" "decode_supported L b = Some source"
    "generate_uuid F e = (e1, Inr u)" "generate_id F e1 = (e', Inr op)"
    "prepare_material L C source u (public_ipv4_of r) = Inr (pn_material p)"
    "begin_record L r op (pn_material p) st (pn_release p) = Some (pn_next p)"
proof -
  obtain s ha hb lb r hc rel hd st he b source u e1 m op n hg x where
    0: "host_snapshot H g h = (ha, Inr s)" "host_configuration H g hd = (he, Inr b)"
    and 1: "checked_snapshot L (logged H) g s (ha, [TookSnapshot s]) = ((hb, lb), Inr r)" "pending_change r = None"
    and 2: "installed_release H g hb = (hc, Inr rel)" "admit H g r hc = (hd, Inr st)"
      "sha256_hex L b = configuration_sha256 r"
      "decode_supported L b = Some source" "generate_uuid F e = (e1, Inr u)"
      "prepare_material L C source u (public_ipv4_of r) = Inr m" "generate_id F e1 = (e', Inr op)"
      "begin_record L r op m st rel = Some n" "checked_snapshot L (logged H) g s (he, Configured b # lb) = ((hg, log), Inr x)"
      "p = \<lparr>pn_snapshot = s, pn_next = n, pn_material = m, pn_release = rel\<rparr>"
    using assms
    by (auto simp: review_locked_def run_simps on_host_Inr call_Inr draw_Inr check_cancelled_def logged_fields split_paired_Ex
        split: if_splits)
  have "log = review_log s b" "snapshot_record L s = Inr r" "checked_snapshot L H g s ha = (hb, Inr r)"
    using checked_snapshot_logged [OF 1(1)] checked_snapshot_logged [OF 2(9)] by (simp_all add: review_log_def)
  then show thesis using that 0 1(2) 2 by simp
qed

lemma review_told:
  assumes "review_rotation L C (logged H) F ((h, []), e) = (((h', log), e'), Inr p)"
  obtains g h0 h1 where "acquire H h = (h0, Inr g)" "review_locked L C (logged H) F g ((h0, []), e) = (((h1, log), e'), Inr p)"
proof -
  obtain h0 g where a: "acquire H h = (h0, Inr g)" and g: "(case review_locked L C (logged H) F g ((h0, []), e) of ((h, e), r) \<Rightarrow> ((drop_guard (logged H) g h, e), r))
      = (((h', log), e'), Inr p)"
    using assms
    by (auto simp: review_rotation_def run_simps on_host_Inr call_Inr logged_fields check_cancelled_def split_paired_Ex
        split: if_splits)
  obtain h1 l1 e2 r where r: "review_locked L C (logged H) F g ((h0, []), e) = (((h1, l1), e2), r)"
    by (metis surj_pair)
  then show thesis using that [OF a] g by (simp add: logged_def)
qed

end
