(* ===== verification/Rotation_Properties.thy ===== *)
theory Rotation_Properties
  imports Review_Laws Access_Properties
begin

text \<open>
  Properties of Client Identity rotations as a whole: their first record, their reviews, what they do to the
  host and in which order, and that they end.
\<close>

lemma prepared_target:
  assumes L: "json_markup L" and d: "decode_supported L b = Some c" and m: "prepare_material L C c u ip = Inr m"
  shows "\<exists>i host. json_object L b (2 ^ 20) = Some (config_value i host)
    \<and> mt_target m = encode_configuration L (config_value (i\<lparr>si_uuid := u\<rparr>) host)
    \<and> mt_source_sha256 m = sha256_hex L b \<and> mt_target_sha256 m = sha256_hex L (mt_target m)"
proof -
  obtain i host where c: "c = b" "json_object L b (2 ^ 20) = Some (config_value i host)"
    using json_markup.decode_supported_Some [OF L] d by blast
  then obtain j where j: "from_slice L b = Some j" "value_of j = config_value i host" using json_object_reads by blast
  obtain t where t: "with_client_uuid L b u = Inr t" "mt_target m = t" "mt_target_sha256 m = sha256_hex L t"
      "mt_source_sha256 m = sha256_hex L b"
    using m c(1) by (auto simp: prepare_material_def Let_def dest!: sym [of _ m]
      split: sum.splits config_fault.splits option.splits if_splits)
  then have "valid_client_uuid u" by (auto simp: with_client_uuid_def split: if_splits)
  then have "t = encode_configuration L (config_value (i\<lparr>si_uuid := u\<rparr>) host)"
    using json_markup.with_client_uuid_value [OF L j] t(1) by simp
  then show ?thesis using c(2) t by (intro exI [of _ i] exI [of _ host]) simp
qed

section \<open>An example\<close>

text \<open>A second client: the identity whose UUID is drawn from an entropy source of ones, its configuration and artifact.\<close>

definition ones_entropy :: "unit entropy" where
  "ones_entropy e n = (e, Some (replicate n 0x11))"

definition rotated_identity :: server_identity where
  "rotated_identity = example_identity\<lparr>si_uuid := ''11111111-1111-4111-9111-111111111111''\<rparr>"

lemma ones_drawn:
  "generate_uuid ones_entropy () = ((), Inr (si_uuid rotated_identity))"
  "generate_id ones_entropy () = ((), Inr (replicate 32 CHR ''1''))"
proof -
  have "hyphenate (hex (stamp (replicate 16 0x11))) = ''11111111-1111-4111-9111-111111111111''"
    "hex (replicate 16 0x11) = replicate 32 CHR ''1''"
    by code_simp+
  then show "generate_uuid ones_entropy () = ((), Inr (si_uuid rotated_identity))"
    "generate_id ones_entropy () = ((), Inr (replicate 32 CHR ''1''))"
    by (simp_all add: generate_uuid_def generate_id_def random_bytes_def ones_entropy_def rotated_identity_def del: replicate.simps)
qed

lemma rotated_uuid_syntax: "uuid_syntax (si_uuid rotated_identity)"
  unfolding valid_uuid_syntax [symmetric]
  by (simp add: valid_uuid_def rotated_identity_def lower_hex_byte_def is_ascii_digit_def)

lemma configuration_text:
  assumes "valid_server_identity i"
  shows "encode_configuration example_lib (config_value i None) = pr (config_value i None) @ [newline]"
proof -
  have "set (to_vec example_lib (config_value i None)) \<inter> markup = {}"
    using text_markup.to_vec_markup [of "config_value i None"] config_value_markup [OF assms, of None] by auto
  then show ?thesis by (simp add: encode_configuration_def html_escape_id) (simp add: example_lib_def)
qed

lemma rotated_valid: "valid_server_identity rotated_identity"
  using example_identity_valid rotated_uuid_syntax
  by (simp add: valid_server_identity_def rotated_identity_def valid_client_uuid_syntax)

definition rotated_configuration :: bytes where
  "rotated_configuration = encode_configuration example_lib (config_value rotated_identity None)"

lemma configuration_digests:
  "sha256_hex example_lib example_configuration = example_conf"
  "sha256_hex example_lib rotated_configuration = replicate 64 CHR ''d''"
proof -
  have "example_digest (pr (config_value example_identity None) @ [newline]) = example_conf"
    "example_digest (pr (config_value rotated_identity None) @ [newline]) = replicate 64 CHR ''d''"
    by code_simp+
  then show "sha256_hex example_lib example_configuration = example_conf"
    "sha256_hex example_lib rotated_configuration = replicate 64 CHR ''d''"
    using configuration_text [OF example_identity_valid] configuration_text [OF rotated_valid]
    by (simp_all add: example_configuration_def rotated_configuration_def example_lib_def del: replicate.simps)
qed

text \<open>The artifact of a configuration that renders an identity.\<close>

definition client_facts :: "server_identity \<Rightarrow> connection_facts" where
  "client_facts i = \<lparr>cf_public_ipv4 = [8, 8, 8, 8], cf_uuid = si_uuid i, cf_server_name = ''google.com'',
     cf_public_key = url_encode (replicate 32 0x55), cf_short_id = ''00000000'', cf_vmess_hostname = None\<rparr>"

lemma client_facts_valid:
  assumes "uuid_syntax (si_uuid i)"
  shows "valid_facts (client_facts i)"
proof -
  have "valid_base64url_32 (url_encode (replicate 32 0x55)) True \<and> length (url_encode (replicate 32 0x55)) = 43"
    using crates.valid_key_text [OF example_crates.crates_axioms] by simp
  then show ?thesis using example_facts_valid assms
    by (simp add: valid_facts_def client_facts_def example_facts_def valid_uuid_syntax MAX_SUBSCRIPTION_BYTES_def)
qed

lemma client_artifact:
  assumes "uuid_syntax (si_uuid i)"
  shows "subscription_artifact example_lib (client_facts i) = Some (vless_uri (client_facts i) @ [newline])"
proof -
  have "\<not> list_ex is_crlf (cf_public_key (client_facts i))"
    using url_encode_plain [of "replicate 32 0x55"] by (auto simp: client_facts_def filter_id_conv list_ex_iff)
  then have "length (vless_uri (client_facts i)) \<le> 560" using vless_uri_length [OF client_facts_valid [OF assms]] by blast
  then show ?thesis
    by (simp add: subscription_artifact_eq vmess_part_def MAX_SUBSCRIPTION_BYTES_def client_facts_def del: replicate.simps)
qed

lemma example_artifact_of:
  assumes "from_slice example_lib b = Some j" and "value_of j = config_value i None" and "uuid_syntax (si_uuid i)"
    and "si_private_key i = url_encode example_key" and "si_short_id i = ''00000000''"
  shows "artifact_of example_lib example_crypto b ''8.8.8.8'' = Some (vless_uri (client_facts i) @ [newline])"
proof -
  have "decode_key example_crypto (url_encode example_key) = Inr example_key" 
    using crates.decode_key_encoded [OF example_crates.crates_axioms, of example_key]
    by (simp add: crates.encode_url [OF example_crates.crates_axioms] example_key_def)
  then have id: "identity_from_private_key example_crypto (si_uuid i) (url_encode example_key) ''00000000''
     = Inr \<lparr>id_uuid = si_uuid i, id_private_key = url_encode example_key, id_public_key = url_encode (replicate 32 0x55),
          id_short_id = ''00000000''\<rparr>"
    using assms(3) by (simp add: crates.identity_from_private_key_Inr [OF example_crates.crates_axioms]) (simp add: example_crypto_def example_key_def is_ascii_hexdigit_def is_ascii_digit_def)
  have "new_facts (show_ipv4 [8, 8, 8, 8]) (si_uuid i) ''google.com'' (url_encode (replicate 32 0x55)) ''00000000'' None
      = Some (client_facts i)"
    using client_facts_valid [OF assms(3)] by (simp add: new_facts_Some client_facts_def given_hostname_def)
  moreover have "show_ipv4 [8, 8, 8, 8] = ''8.8.8.8''" by code_simp
  ultimately show ?thesis
    using assms id client_artifact [OF assms(3)]
    by (simp add: artifact_of_def configured_identity_value configured_hostname_value Let_def del: replicate.simps)
      (simp add: config_value_def vless_inbound_eq STANDARD_SERVER_NAME_def del: replicate.simps)
qed

definition example_material :: material where
  "example_material = \<lparr>mt_target = rotated_configuration, mt_artifact = vless_uri (client_facts rotated_identity) @ [newline],
     mt_source_sha256 = example_conf, mt_target_sha256 = replicate 64 CHR ''d'',
     mt_source_artifact_sha256 = replicate 64 CHR ''e'', mt_target_artifact_sha256 = replicate 64 CHR ''f''\<rparr>"

lemma example_material_prepared:
  "prepare_material example_lib example_crypto example_configuration (si_uuid rotated_identity) ''8.8.8.8''
     = Inr example_material"
proof -
  let ?v = "config_value example_identity None" and ?w = "config_value rotated_identity None"
  obtain j where j: "from_slice example_lib example_configuration = Some j" "value_of j = ?v"
    using json_object_reads [OF example_configuration_value] by blast
  have w: "from_slice example_lib rotated_configuration = Some ?w" "value_of ?w = ?w"
    using json_markup.from_encoded [OF text_markup.json_markup_axioms rotated_valid, of None]
    by (simp_all add: rotated_configuration_def)
  have "with_client_uuid example_lib example_configuration (si_uuid rotated_identity) = Inr rotated_configuration"
    using json_markup.with_client_uuid_value [OF text_markup.json_markup_axioms j, of "si_uuid rotated_identity"]
      rotated_uuid_syntax
    by (simp add: valid_client_uuid_syntax rotated_configuration_def) (simp add: rotated_identity_def)
  moreover have "artifact_of example_lib example_crypto example_configuration ''8.8.8.8''
      = Some (vless_uri (client_facts example_identity) @ [newline])"
    using example_artifact_of [OF j] example_uuid_syntax by (simp add: example_identity_def)
  moreover have "artifact_of example_lib example_crypto rotated_configuration ''8.8.8.8''
      = Some (vless_uri (client_facts rotated_identity) @ [newline])"
    using example_artifact_of [OF w] rotated_uuid_syntax by (simp add: rotated_identity_def example_identity_def)
  moreover have "sha256_hex example_lib (vless_uri (client_facts example_identity) @ [newline]) = replicate 64 CHR ''e''"
    "sha256_hex example_lib (vless_uri (client_facts rotated_identity) @ [newline]) = replicate 64 CHR ''f''"
    by (simp_all add: example_lib_def example_digest_def vless_uri_def Let_def client_facts_def example_identity_def example_uuid_def
        rotated_identity_def del: replicate.simps)
  ultimately show ?thesis
    using configuration_digests
    by (simp add: prepare_material_def example_material_def Let_def del: replicate.simps)
qed

lemma example_client_resources:
  "resources example_lib (example_client_base 0)
     = (resources example_lib example_running)[0 := SCHEMA2_LINE] @ startup_authority_resources example_lib True
       @ operation_resources (replicate 64 CHR ''d'') None"
  by (simp add: line_defs example_client_base_def client_rotation_part_def example_client_rotation_def
     startup_resources_def startup_authority_resources_def operation_resources_def client_lines_def STARTUP_PATH_def STARTUP_DIRECTORY_def SCHEMA2_LINE_def STARTUP_DROP_IN_def unlines_def)

lemma text_bound_client:
  assumes "plain_record r"
  shows "text_bound (ser_ownership (r\<lparr>proxy_startup := Some su, client_identity_rotation := Some c\<rparr>))
    \<le> text_bound (ser_ownership r) + text_bound (ser_startup su) + text_bound (ser_client_rotation c) + 200"
  using assms unfolding plain_record_def ser_ownership_def ownership_fields_def
  by (cases "resource_creating_releases r"; cases "finishing_release_identity r"; cases "lock_provisioning r")
    (simp_all add: text_bound_field skip_false_def)

lemma example_begun:
  "rotation_begun example_lib example_running (replicate 32 CHR ''1'') example_material True example_release = Some (example_client 0)"
proof -
  have su: "startup_authority example_lib True = \<lparr>su_drop_in_sha256 = replicate 64 CHR ''a'', su_directory_created = True\<rparr>"
    by (simp add: startup_authority_def example_lib_def example_digest_def STARTUP_DROP_IN_def unlines_def)
  have c: "begun (replicate 32 CHR ''1'') example_material None = example_client_rotation 0"
    by (simp add: begun_def example_client_rotation_def example_material_def EFFECTS_def CLIENT_EFFECTS_def checkpoint_as_str_def CHECKPOINTS_def CLIENT_CHECKPOINTS_def)
  let ?a = "startup_authority_resources example_lib True"
  let ?o = "operation_resources (replicate 64 CHR ''d'') None"
  have len: "length ?a = 2" "length ?o = 4" by (simp_all add: startup_authority_resources_def operation_resources_def)
  have cr: "map (\<lambda>_. example_release) (resources example_lib example_running) @ map (\<lambda>_. example_release) ?a
      @ map (\<lambda>_. example_release) ?o = replicate (length (resources example_lib (example_client_base 0))) example_release"
    by (simp add: map_replicate_const len example_client_resources example_resources(2) flip: replicate_add)
  have tgt: "mt_target_sha256 example_material = replicate 64 CHR ''d''" by (simp add: example_material_def)
  have "proxy_startup example_running = None" using example_fields(1) by (simp add: plain_record_def)
  then show ?thesis
    using example_fields(7,8,2,11,16) su c cr tgt
    by (simp add: rotation_begun_def startup_of_def schema2_of_def adding_resources_def
      example_client_def example_client_resources example_permitted del: replicate.simps)
      (simp add: example_client_base_def)
qed

lemma example_client_encodes:
  "encode_record example_lib (example_client 0) \<noteq> None" "prints example_lib (example_client 0)"
proof -
  let ?r = "(example_client 0)\<lparr>proxy_startup := None, client_identity_rotation := None\<rparr>"
  let ?su = "\<lparr>su_drop_in_sha256 = replicate 64 CHR ''a'', su_directory_created = True\<rparr>"
  have eq: "example_client 0 = ?r\<lparr>proxy_startup := Some ?su, client_identity_rotation := Some (example_client_rotation 0)\<rparr>"
    by (simp add: example_client_def example_client_base_def)
  have "sum_list (map (\<lambda>s. 4 * length s + 3) (resources example_lib (example_client_base 0))) < 14000"
    unfolding example_client_resources
    by (simp add: line_defs SCHEMA2_LINE_def startup_authority_resources_def operation_resources_def STARTUP_PATH_def STARTUP_DIRECTORY_def)
  then have a: "text_bound (ser_strs (permitted_resources ?r)) < 14002"
    by (simp add: example_client_def text_bound_strs)
  have l: "length (resources example_lib (example_client_base 0)) = 24"
    by (simp add: example_client_resources example_resources(2) startup_authority_resources_def operation_resources_def)
  have cs: "resource_creating_releases ?r = Some (replicate 24 example_release)"
    by (simp add: example_client_def l)
  have b: "text_bound (ser_releases (replicate 24 example_release)) < 17000"
    using text_bound_release by (simp add: ser_releases_def comp_def sum_list_replicate)
  have su: "text_bound (ser_startup ?su) < 500" by (simp add: ser_startup_def startup_fields_def text_bound_field)
  have c: "text_bound (ser_client_rotation (example_client_rotation 0)) < 3000"
    by (simp add: ser_client_rotation_def client_rotation_fields_def text_bound_field text_bound_strs
      example_client_rotation_def example_conf_def CLIENT_EFFECTS_def CLIENT_CHECKPOINTS_def)
  have pl: "plain_record ?r" using example_fields(1) by (simp add: example_client_def example_client_base_def plain_record_def)
  have f: "release_identity ?r = example_release" "length (proxy_package_identity ?r) \<le> 200"
    "public_ipv4_of ?r = ''8.8.8.8''" "destination_address ?r = ''google.com:443''"
    "destination_server_name ?r = ''google.com''" "configuration_sha256 ?r = example_conf" "schema ?r = 2"
    "cleanup_checkpoint ?r = 0" "removal_checkpoint ?r = 0" "finishing_release_identity ?r = None"
    "lock_provisioning ?r = Some (replicate 64 CHR ''a'')"
    using example_fields by (simp_all add: example_client_def example_client_base_def)
  have "text_bound (ser_ownership ?r) < 40000"
    using text_bound_plain [OF pl] text_bound_release u32_small a b f(2)
    unfolding f cs by (simp add: example_conf_def)
  then have "text_bound (ser_ownership (example_client 0)) < MAX_RECORD_BYTES"
    using text_bound_client [OF pl, where su = ?su and c = "example_client_rotation 0"] eq su c by (simp add: MAX_RECORD_BYTES_def)
  then show "encode_record example_lib (example_client 0) \<noteq> None" "prints example_lib (example_client 0)"
    by (rule record_encodes)+
qed

lemma example_begin:
  "begin_record example_lib example_running (replicate 32 CHR ''1'') example_material True example_release
     = Some (example_client 0)"
  using json_text.begin_record_eq [OF text_layer.json_text_axioms, of example_running "replicate 32 CHR ''1''"
      example_material True example_release] example_fields example_running_idle(2) example_running_encodes(1)
    example_begun example_client_encodes(2) example_client_valid_at [of 0]
  by (simp add: example_material_def example_conf_def)

definition example_prepared :: prepared_rotation where
  "example_prepared = \<lparr>pn_snapshot = \<lparr>cs_current = the (encode_record example_lib example_running), cs_staged = None\<rparr>,
     pn_next = example_client 0, pn_material = example_material, pn_release = example_release\<rparr>"

lemma example_reviewed: "reviewed example_lib example_prepared"
proof -
  obtain b where b: "encode_record example_lib example_running = Some b" using example_running_encodes(1) by auto
  have "decode_record example_lib b = Some example_running"
    by (rule json_text.decode_encode_record [OF text_layer.json_text_axioms example_running_valid b])
  then show ?thesis using example_begin b by (auto simp: reviewed_def example_prepared_def)
qed

text \<open>A host that keeps the record it is given and succeeds at everything else.\<close>

definition keeping_host :: "lib \<Rightarrow> (ci_snapshot, unit) rotation_host" where
  "keeping_host L = \<lparr>is_cancelled = (\<lambda>_. False), acquire = (\<lambda>h. (h, Inr ())), drop_guard = (\<lambda>_ h. h),
     verify_guard = (\<lambda>_ h. (h, Inr ())), installed_release = (\<lambda>_ h. (h, Inr example_release)),
     host_snapshot = (\<lambda>_ h. (h, Inr h)), ci_synchronize = (\<lambda>_ _ h. (h, Inr ())), admit = (\<lambda>_ _ h. (h, Inr True)),
     inspect = (\<lambda>_ _ h. (h, Inr ())), host_configuration = (\<lambda>_ h. (h, Inr [])),
     ci_publish = (\<lambda>_ _ r h. case encode_record L r of
        None \<Rightarrow> (h, Inl PublicationError) | Some b \<Rightarrow> (\<lparr>cs_current = b, cs_staged = None\<rparr>, Inr ())),
     host_routes = (\<lambda>_ _ h. (h, Inr \<lparr>sr_proxy = True, sr_subscription = True\<rparr>)),
     host_quiescence = (\<lambda>_ _ h. (h, Inr \<lparr>q_inactive = True, q_main_pid_zero = True, q_processes_absent = True,
        q_listener_absent = True, q_descendants_empty = True, q_subscription_requests_drained = True,
        q_subscription_descendants_empty = True, q_subscription_listener_absent = True,
        q_subscription_inactive = True\<rparr>)),
     ci_effect = (\<lambda>_ _ _ _ h. (h, Inr ())), verify_running = (\<lambda>_ _ h. (h, Inr ()))\<rparr>"

text \<open>A host with the example installation.\<close>

definition reviewed_host :: "(ci_snapshot, unit) rotation_host" where
  "reviewed_host = (keeping_host example_lib)\<lparr>host_configuration := (\<lambda>_ h. (h, Inr example_configuration))\<rparr>"

lemma reviewed_run:
  "review_rotation example_lib example_crypto reviewed_host ones_entropy (pn_snapshot example_prepared, ())
     = ((pn_snapshot example_prepared, ()), Inr example_prepared)"
proof -
  obtain b where b: "encode_record example_lib example_running = Some b" using example_running_encodes(1) by auto
  have "decode_record example_lib b = Some example_running"
    by (rule json_text.decode_encode_record [OF text_layer.json_text_axioms example_running_valid b])
  then have s: "snapshot_record example_lib (pn_snapshot example_prepared) = Inr example_running"
    using b by (simp add: snapshot_record_def example_prepared_def)
  show ?thesis
    using s example_running_idle(2) configuration_digests(1) ones_drawn example_material_prepared example_begin 
     example_configuration_supported example_fields(4,7)
    by (simp add: review_rotation_def review_locked_def checked_snapshot_def bnd_def on_host_def call_def draw_def
      check_cancelled_def ret_def ensure_def option_or_def of_result_def reviewed_host_def keeping_host_def del: replicate.simps)
      (simp add: example_prepared_def)
qed

section \<open>The first record\<close>

text \<open>
  C36. The JSON edits of \<open>begin_record\<close> are one typed edit: when the record is running and idle, its
  configuration is the reviewed source and the target differs, the result is the record in schema 2 with the
  startup authority, the rotation at its first checkpoint and the resources and creators of both added,
  provided it is valid and fits; otherwise there is none.  A record begun in this way passes the structural
  check \<open>permits_successor\<close> of the record it was begun from.
\<close>

theorem begin_is_typed_edit:
  assumes "json_text L"
  shows "begin_record L r op m st rel =
      (if phase r = Running \<and> unfinished_direction r = Idle \<and> pending_change r = None
          \<and> configuration_sha256 r = mt_source_sha256 m \<and> mt_source_sha256 m \<noteq> mt_target_sha256 m
          \<and> encode_record L r \<noteq> None \<and> finishing_release_identity r = None
       then Option.bind (rotation_begun L r op m st rel) (\<lambda>n. if prints L n \<and> valid L n then Some n else None)
       else None)
    \<and> (begin_record L r op m st rel = Some s \<and> encode_record L s \<noteq> None \<longrightarrow> client_permits_successor L r s)"
  using json_text.begin_record_eq [OF assms] json_text.begin_admitted [OF assms]
  unfolding client_permits_successor_def by blast

theorem begin_is_typed_edit_witness:
  "client_permits_successor example_lib example_running (example_client 0)"
  using begin_is_typed_edit [OF text_layer.json_text_axioms, of example_running "replicate 32 CHR ''1''"
      example_material True example_release "example_client 0"] example_begin example_client_encodes(1)
  by blast

section \<open>Reviews\<close>

text \<open>
  C37. A review only asks: whatever the host answers, it neither publishes nor performs an effect, and the observed run
  is the actual one; it fails only with an error of the module.  When it succeeds, the host was asked in this order: for
  a snapshot, for the same snapshot again, made durable between two checks of the guard, for the configuration, and for
  the same snapshot once more.  That snapshot is the one prepared for: its record has no pending change and nothing else
  is staged; the configuration is the recorded one and a supported profile.  The target is this configuration with only
  the client UUID replaced, by the one that was drawn; the next record begins the rotation of exactly that record, with
  the operation number drawn next, for the release the host reports as installed and the startup it admitted.  Each of
  these answers is given by the host in the state that the one before left, from the acquisition of the guard on.
\<close>

theorem review_prepares_successor:
  assumes "json_markup L"
  shows "\<exists>log. review_rotation L C (logged H) F ((h, []), e)
        = (((fst (fst (review_rotation L C H F (h, e))), log), snd (fst (review_rotation L C H F (h, e)))),
           snd (review_rotation L C H F (h, e)))
    \<and> (\<forall>x. x \<in> set log \<longrightarrow> \<not> changes x)
    \<and> (case snd (review_rotation L C H F (h, e)) of
         Inl fault \<Rightarrow> \<exists>x. fault = Fault x
       | Inr p \<Rightarrow> \<exists>s r b i host u op st g h0 h1 h2 h3 h4 h5 e1. s = pn_snapshot p
           \<and> acquire H h = (h0, Inr g) \<and> host_snapshot H g h0 = (h1, Inr s)
           \<and> checked_snapshot L H g s h1 = (h2, Inr r)
           \<and> rev log = [TookSnapshot s, Verified, TookSnapshot s, Synchronized (cs_current s), Verified, Configured b,
                Verified, TookSnapshot s, Synchronized (cs_current s), Verified]
           \<and> decode_record L (cs_current s) = Some r \<and> pending_change r = None
           \<and> (cs_staged s = None \<or> cs_staged s = Some (cs_current s))
           \<and> installed_release H g h2 = (h3, Inr (pn_release p)) \<and> admit H g r h3 = (h4, Inr st)
           \<and> host_configuration H g h4 = (h5, Inr b)
           \<and> sha256_hex L b = configuration_sha256 r \<and> json_object L b (2 ^ 20) = Some (config_value i host)
           \<and> generate_uuid F e = (e1, Inr u)
           \<and> generate_id F e1 = (snd (fst (review_rotation L C H F (h, e))), Inr op)
           \<and> mt_target (pn_material p) = encode_configuration L (config_value (i\<lparr>si_uuid := u\<rparr>) host)
           \<and> mt_source_sha256 (pn_material p) = sha256_hex L b
           \<and> mt_target_sha256 (pn_material p) = sha256_hex L (mt_target (pn_material p))
           \<and> begin_record L r op (pn_material p) st (pn_release p) = Some (pn_next p))"
proof -
  let ?run = "review_rotation L C H F (h, e)"
  obtain log where log: "\<forall>x\<in>set log. \<not> changes x"
    "review_rotation L C (logged H) F ((h, []), e) = (((fst (fst ?run), log), snd (fst ?run)), snd ?run)"
    using observesD [OF observes_review [of L C H F], where h = h and l = "[]" and e = e] by (metis append_Nil2)
  show ?thesis
  proof (cases "snd ?run")
    case (Inl fault)
    then have "\<exists>x. fault = Fault x"
      using yields_review [OF assms, of C H F, unfolded yields_def, rule_format, of "(h, e)"] by simp
    then show ?thesis using log Inl by (intro exI [of _ log]) simp
  next
    case (Inr p)
    with log(2) have "review_rotation L C (logged H) F ((h, []), e) = (((fst (fst ?run), log), snd (fst ?run)), Inr p)" by simp
    then obtain g h0 h6 where a: "acquire H h = (h0, Inr g)"
      and run: "review_locked L C (logged H) F g ((h0, []), e) = (((h6, log), snd (fst ?run)), Inr p)"
      by (rule review_told)
    obtain r b source u op st e1 h1 h2 h3 h4 h5 where c: "host_snapshot H g h0 = (h1, Inr (pn_snapshot p))"
      "checked_snapshot L H g (pn_snapshot p) h1 = (h2, Inr r)" "host_configuration H g h4 = (h5, Inr b)"
      and t: "log = review_log (pn_snapshot p) b"
      "snapshot_record L (pn_snapshot p) = Inr r" "pending_change r = None"
      "installed_release H g h2 = (h3, Inr (pn_release p))" "admit H g r h3 = (h4, Inr st)"
      "sha256_hex L b = configuration_sha256 r" "decode_supported L b = Some source"
      "generate_uuid F e = (e1, Inr u)" "generate_id F e1 = (snd (fst ?run), Inr op)"
      "prepare_material L C source u (public_ipv4_of r) = Inr (pn_material p)"
      "begin_record L r op (pn_material p) st (pn_release p) = Some (pn_next p)"
      by (rule review_locked_told [OF run])
    obtain i host where m: "json_object L b (2 ^ 20) = Some (config_value i host)"
      "mt_target (pn_material p) = encode_configuration L (config_value (i\<lparr>si_uuid := u\<rparr>) host)"
      "mt_source_sha256 (pn_material p) = sha256_hex L b"
      "mt_target_sha256 (pn_material p) = sha256_hex L (mt_target (pn_material p))"
      using prepared_target [OF assms t(7,10)] by blast
    have s: "decode_record L (cs_current (pn_snapshot p)) = Some r"
      "cs_staged (pn_snapshot p) = None \<or> cs_staged (pn_snapshot p) = Some (cs_current (pn_snapshot p))"
      using t(2) by (cases "cs_staged (pn_snapshot p)"; auto simp: snapshot_record_def is_some_and_iff split: option.splits if_splits)+
    have "rev log = [TookSnapshot (pn_snapshot p), Verified, TookSnapshot (pn_snapshot p),
        Synchronized (cs_current (pn_snapshot p)), Verified, Configured b, Verified, TookSnapshot (pn_snapshot p),
        Synchronized (cs_current (pn_snapshot p)), Verified]"
      by (simp add: t(1) review_log_def checked_def)
    then show ?thesis using log a c s t(3-6,8,9,11) m Inr by (intro exI [of _ log]) (simp del: rev.simps; blast)
  qed
qed

theorem review_prepares_successor_witness:
  "\<exists>log b. review_rotation example_lib example_crypto (logged reviewed_host) ones_entropy ((pn_snapshot example_prepared, []), ())
       = (((pn_snapshot example_prepared, log), ()), Inr example_prepared)
     \<and> rev log = [TookSnapshot (pn_snapshot example_prepared), Verified, TookSnapshot (pn_snapshot example_prepared),
          Synchronized (cs_current (pn_snapshot example_prepared)), Verified, Configured b, Verified,
          TookSnapshot (pn_snapshot example_prepared), Synchronized (cs_current (pn_snapshot example_prepared)), Verified]
     \<and> mt_source_sha256 example_material = sha256_hex example_lib b"
proof -
  have "pn_material example_prepared = example_material" by (simp add: example_prepared_def)
  then show ?thesis
    using review_prepares_successor [OF text_markup.json_markup_axioms, of example_crypto reviewed_host ones_entropy
        "pn_snapshot example_prepared" "()", unfolded reviewed_run fst_conv snd_conv sum.case] by metis
qed

section \<open>Execution and completion\<close>

text \<open>
  C38. Whatever the host answers, an approved rotation and its completion act only on fresh evidence.  Each
  effect is preceded, with no change in between, by a verified guard, a snapshot that decodes to the record the
  effect is for, and an inspection of that record; the source is never touched after its revocation and the
  target never published or started before it.  Each publication replaces the bytes of the latest snapshot,
  made durable again, by a permitted successor; the revocation also by routes and a quiescence accepted for
  this record, and the end of a rotation by a running target or, in cleanup, by the source configuration.
  The observed run is the actual one.
\<close>

theorem rotation_acts_on_evidence:
  assumes "json_text L" and "reviewed L p"
  shows "(\<exists>log. execute_rotation L (logged H) p approved (h, [])
          = ((fst (execute_rotation L H p approved h), log), snd (execute_rotation L H p approved h)) \<and> safe L log)
    \<and> (\<exists>log. finish_rotation L (logged H) q approved (h, [])
          = ((fst (finish_rotation L H q approved h), log), snd (finish_rotation L H q approved h)) \<and> safe L log)"
  using mirrorsD [OF mirrors_execute, of L H p approved h "[]"] mirrorsD [OF mirrors_finish, of L H q approved h "[]"]
    secureD [OF json_text.secure_execute [OF assms, of "[]" H approved], of h]
    secureD [OF json_text.secure_finish [OF assms(1), of "[]" H q approved], of h]
  by fastforce

theorem rotation_acts_on_evidence_witness:
  "\<exists>log. execute_rotation example_lib (logged (keeping_host example_lib)) example_prepared True (pn_snapshot example_prepared, [])
     = ((fst (execute_rotation example_lib (keeping_host example_lib) example_prepared True (pn_snapshot example_prepared)), log),
        snd (execute_rotation example_lib (keeping_host example_lib) example_prepared True (pn_snapshot example_prepared)))
     \<and> safe example_lib log"
  by (rule rotation_acts_on_evidence [OF text_layer.json_text_axioms example_reviewed, THEN conjunct1])

text \<open>
  C39. Execution and completion always end, within the eleven rounds of the loop, with an error of the module or
  with their outcome.  A declined one does nothing.  An approved execution that succeeds has rotated: it
  performed exactly the eight effects of a rotation in their order, and the last change is a record without a
  rotation that selects the reviewed target, read back and made durable.  A completion that succeeds ends in the
  same way, with the target or, when it cleaned up, with the source of the reviewed rotation.
\<close>

theorem rotation_outcomes:
  assumes "json_text L" and "reviewed L p"
    and "execute_rotation L (logged H) p approved (h, []) = ((h1, log1), res1)"
    and "finish_rotation L (logged H) q approved (h, []) = ((h2, log2), res2)"
  shows "(case res1 of
        Inl fault \<Rightarrow> \<exists>e. fault = Fault e
      | Inr out \<Rightarrow> if approved
          then out = Rotated \<and> completed L (mt_target_sha256 (pn_material p)) log1
            \<and> performed log1 = [PrepareTarget, PublishStartup, Reload, StopSource, PublishTarget, StartTarget,
                 FinishSubscription, RemoveTarget]
          else out = RotationDeclined \<and> log1 = [])
    \<and> (case res2 of
        Inl fault \<Rightarrow> \<exists>e. fault = Fault e
      | Inr out \<Rightarrow> if approved
          then \<exists>r d. decode_record L (cs_current (pf_snapshot q)) = Some r \<and> rotation_of L r = Some d
            \<and> (out = Finished \<and> completed L (rd_target_sha256 d) log2
                \<or> out = CleanedUp \<and> completed L (rd_source_sha256 d) log2)
          else out = RotationDeclined \<and> log2 = [])"
proof
  have "effects_from 0 = [PrepareTarget, PublishStartup, Reload, StopSource, PublishTarget, StartTarget,
      FinishSubscription, RemoveTarget]"
    by (simp add: effects_from_def checkpoint_order_def effects_at_def)
  then show "case res1 of
        Inl fault \<Rightarrow> \<exists>e. fault = Fault e
      | Inr out \<Rightarrow> if approved
          then out = Rotated \<and> completed L (mt_target_sha256 (pn_material p)) log1
            \<and> performed log1 = [PrepareTarget, PublishStartup, Reload, StopSource, PublishTarget, StartTarget,
                 FinishSubscription, RemoveTarget]
          else out = RotationDeclined \<and> log1 = []"
    using secureD [OF json_text.secure_execute [OF assms(1,2), of "[]" H approved], of h] assms(3)
    by (auto simp: is_fault_def rotated_def finished_def split: sum.splits if_splits)
  show "case res2 of
        Inl fault \<Rightarrow> \<exists>e. fault = Fault e
      | Inr out \<Rightarrow> if approved
          then \<exists>r d. decode_record L (cs_current (pf_snapshot q)) = Some r \<and> rotation_of L r = Some d
            \<and> (out = Finished \<and> completed L (rd_target_sha256 d) log2
                \<or> out = CleanedUp \<and> completed L (rd_source_sha256 d) log2)
          else out = RotationDeclined \<and> log2 = []"
    using secureD [OF json_text.secure_finish [OF assms(1), of "[]" H q approved], of h] assms(4)
    by (auto simp: is_fault_def rotated_def finished_def split: sum.splits if_splits)
qed

theorem rotation_outcomes_witness:
  "\<exists>h1 log res. execute_rotation example_lib (logged (keeping_host example_lib)) example_prepared True
       (pn_snapshot example_prepared, []) = ((h1, log), res)
     \<and> (case res of Inl fault \<Rightarrow> \<exists>e. fault = Fault e
        | Inr out \<Rightarrow> out = Rotated \<and> completed example_lib (replicate 64 CHR ''d'') log)"
proof -
  let ?H = "keeping_host example_lib"
  let ?q = "\<lparr>pf_snapshot = pn_snapshot example_prepared, pf_release = example_release\<rparr>"
  obtain h1 l1 r1 where 1: "execute_rotation example_lib (logged ?H) example_prepared True (pn_snapshot example_prepared, []) = ((h1, l1), r1)"
    by (metis surj_pair)
  obtain h2 l2 r2 where 2: "finish_rotation example_lib (logged ?H) ?q True (pn_snapshot example_prepared, []) = ((h2, l2), r2)"
    by (metis surj_pair)
  have "mt_target_sha256 (pn_material example_prepared) = replicate 64 CHR ''d''"
    by (simp add: example_prepared_def example_material_def)
  with rotation_outcomes [OF text_layer.json_text_axioms example_reviewed 1 2] 1 show ?thesis
    by (auto split: sum.splits simp del: replicate.simps)
qed

end
