(* ===== verification/Disclosure.thy ===== *)
theory Disclosure
  imports Client_Rotation
begin

text \<open>
  Disclosure of the Client Configuration and of the Subscription Link, and the record that a link is compromised
  (\<open>src/disclosure.rs\<close>).  A session owns the host; a prepared action carries the session's token of the time and
  is good for one execution.  The trait \<open>Host\<close> is a record of functions on an arbitrary state, the output is a
  writer on the same state, and cancellation is read off it.
\<close>

section \<open>Results\<close>

datatype disclosure_error =
    DisclosureAuthority | DisclosureStale | DisclosureRefused | DisclosureInterrupted | DisclosureOutput
  | DisclosurePublication

datatype disclosure_action = ShowClientConfiguration | MarkSubscriptionCompromised

datatype disclosure_outcome = DisclosureDeclined | ClientConfigurationDisclosed | SubscriptionCompromised

section \<open>Observations\<close>

record running_facts =
  rf_host :: bool
  rf_public_ipv4_matches :: bool
  rf_ownership :: bool
  rf_transaction_files_absent :: bool
  rf_apt_key :: bool
  rf_apt_source :: bool
  rf_package :: bool
  rf_hold :: bool
  rf_package_identity :: bool
  rf_configuration :: bool
  rf_state :: bool
  rf_validation :: bool
  rf_service_provenance :: bool
  rf_lock_provisioning :: bool
  rf_service_enabled :: bool
  rf_service_active :: bool
  rf_listener :: bool
  rf_fingerprint :: string

definition facts_accepted :: "running_facts \<Rightarrow> bool" where
  "facts_accepted f =
     (rf_host f \<and> rf_public_ipv4_matches f \<and> rf_ownership f \<and> rf_transaction_files_absent f
      \<and> rf_apt_key f \<and> rf_apt_source f \<and> rf_package f \<and> rf_hold f \<and> rf_package_identity f
      \<and> rf_configuration f \<and> rf_state f \<and> rf_validation f \<and> rf_service_provenance f \<and> rf_lock_provisioning f
      \<and> rf_service_enabled f \<and> rf_service_active f \<and> rf_listener f \<and> rf_fingerprint f \<noteq> [])"

record inspection =
  in_release :: release_identity
  in_configuration_gid :: u32
  in_running :: running_facts
  in_serving_surface_safe :: bool

record file_proof =
  fp_regular :: bool
  fp_uid :: u32
  fp_gid :: u32
  fp_mode :: u32
  fp_links :: u64
  fp_protected_ancestry :: bool

definition proof_accepted :: "file_proof \<Rightarrow> u32 \<Rightarrow> u32 \<Rightarrow> u32 \<Rightarrow> bool" where
  "proof_accepted p mode uid gid =
     (fp_regular p \<and> fp_uid p = uid \<and> fp_gid p = gid \<and> fp_mode p = mode \<and> fp_links p = 1 \<and> fp_protected_ancestry p)"

record protected_file =
  pf_bytes :: bytes
  pf_proof :: file_proof

definition checked_file :: "protected_file \<Rightarrow> u32 \<Rightarrow> u32 \<Rightarrow> u32 \<Rightarrow> disclosure_error + bytes" where
  "checked_file f mode uid gid =
     (if proof_accepted (pf_proof f) mode uid gid then Inr (pf_bytes f) else Inl DisclosureAuthority)"

datatype disclosure_material = ConfigurationFile | SubscriptionToken | ServingState

section \<open>The host and the session\<close>

record ('h, 'g) disclosure_host =
  dh_cancelled :: "'h \<Rightarrow> bool"
  dh_owner_uid :: "'h \<Rightarrow> u32"
  dh_owner_gid :: "'h \<Rightarrow> u32"
  dh_acquire :: "(disclosure_error, 'h, 'g) comp"
  dh_drop :: "'g \<Rightarrow> 'h \<Rightarrow> 'h"
  dh_verify_guard :: "'g \<Rightarrow> (disclosure_error, 'h, unit) comp"
  dh_snapshot :: "'g \<Rightarrow> (disclosure_error, 'h, ci_snapshot) comp"
  dh_inspect :: "'g \<Rightarrow> wire_ownership \<Rightarrow> (disclosure_error, 'h, inspection) comp"
  dh_read :: "'g \<Rightarrow> disclosure_material \<Rightarrow> (disclosure_error, 'h, protected_file) comp"
  dh_publish :: "'g \<Rightarrow> bytes \<Rightarrow> wire_ownership \<Rightarrow> (disclosure_error, 'h, unit) comp"

text \<open>An output (\<open>io::Write\<close>); its errors carry nothing that is used.\<close>

record 'h writer =
  w_write_all :: "bytes \<Rightarrow> (unit, 'h, unit) comp"
  w_flush :: "(unit, 'h, unit) comp"

record summary =
  sm_client_configuration_available :: bool
  sm_mark_compromise_available :: bool
  sm_has_subscription :: bool
  sm_compromised :: bool

record details =
  dt_subscription_link :: "string option"
  dt_compromised :: bool

text \<open>
  \<open>Rc::ptr_eq\<close> of tokens: a token is the identity of its session with the number of the allocation, and a
  prepared action keeps its token alive, so a new allocation is a different one.
\<close>

type_synonym session_token = "nat \<times> nat"

record prepared_disclosure =
  pd_owner :: session_token
  pd_action :: disclosure_action
  pd_snapshot :: ci_snapshot
  pd_inspection :: inspection

definition expire :: "session_token \<Rightarrow> session_token" where
  "expire t = (fst t, Suc (snd t))"

definition check_stop :: "('h, 'g) disclosure_host \<Rightarrow> (disclosure_error, 'h, unit) comp" where
  "check_stop H h = (h, if dh_cancelled H h then Inl DisclosureInterrupted else Inr ())"

definition guarded_by ::
  "('h, 'g) disclosure_host \<Rightarrow> ('g \<Rightarrow> (disclosure_error, 'h, 'a) comp) \<Rightarrow> (disclosure_error, 'h, 'a) comp" where
  "guarded_by H body =
     bnd (dh_acquire H) (\<lambda>g h. case body g h of (h', r) \<Rightarrow> (dh_drop H g h', r))"

definition owner_checked ::
  "('h, 'g) disclosure_host \<Rightarrow> protected_file \<Rightarrow> u32 \<Rightarrow> u32 option \<Rightarrow> (disclosure_error, 'h, bytes) comp" where
  "owner_checked H f mode gid h =
     (h, checked_file f mode (dh_owner_uid H h) (case gid of Some g \<Rightarrow> g | None \<Rightarrow> dh_owner_gid H h))"

section \<open>Loading\<close>

definition load_current ::
  "lib \<Rightarrow> ('h, 'g) disclosure_host \<Rightarrow> 'g \<Rightarrow> (disclosure_error, 'h, ci_snapshot \<times> wire_ownership \<times> inspection) comp" where
  "load_current L H g =
     bnd (check_stop H) (\<lambda>_.
     bnd (dh_verify_guard H g) (\<lambda>_.
     bnd (dh_snapshot H g) (\<lambda>snapshot.
     bnd (option_or DisclosureAuthority (decode_record L (cs_current snapshot))) (\<lambda>record.
     bnd (ensure DisclosurePublication (\<not> is_some_and (\<lambda>s. s \<noteq> cs_current snapshot) (cs_staged snapshot))) (\<lambda>_.
     bnd (dh_inspect H g record) (\<lambda>inspection.
     bnd (dh_verify_guard H g) (\<lambda>_.
     bnd (check_stop H) (\<lambda>_.
     ret (snapshot, record, inspection)))))))))"

definition summary_of :: "ci_snapshot \<Rightarrow> wire_ownership \<Rightarrow> inspection \<Rightarrow> summary" where
  "summary_of snapshot record inspection =
     (let ready = cs_staged snapshot = None \<and> phase record = Running \<and> unfinished_direction record = Idle
            \<and> pending_change record = None \<and> facts_accepted (in_running inspection)
            \<and> (serving record = None \<or> in_serving_surface_safe inspection)
      in \<lparr>sm_client_configuration_available = ready,
          sm_mark_compromise_available = ready \<and> \<not> subscription_compromised record \<and> is_some_and sv_http (serving record),
          sm_has_subscription = serving record \<noteq> None,
          sm_compromised = subscription_compromised record\<rparr>)"

fun available :: "disclosure_action \<Rightarrow> summary \<Rightarrow> bool" where
  "available ShowClientConfiguration s = sm_client_configuration_available s"
| "available MarkSubscriptionCompromised s = sm_mark_compromise_available s"

section \<open>Reading operations\<close>

definition disclosure_status ::
  "lib \<Rightarrow> ('h, 'g) disclosure_host \<Rightarrow> session_token \<Rightarrow> session_token \<times> (disclosure_error, 'h, summary) comp" where
  "disclosure_status L H t =
     (expire t, guarded_by H (\<lambda>g.
        bnd (load_current L H g) (\<lambda>(snapshot, record, inspection). ret (summary_of snapshot record inspection))))"

definition review_disclosure ::
  "lib \<Rightarrow> ('h, 'g) disclosure_host \<Rightarrow> session_token \<Rightarrow> disclosure_action
     \<Rightarrow> session_token \<times> (disclosure_error, 'h, prepared_disclosure) comp" where
  "review_disclosure L H t action =
     (expire t, guarded_by H (\<lambda>g.
        bnd (load_current L H g) (\<lambda>(snapshot, record, inspection).
        bnd (ensure DisclosureRefused (available action (summary_of snapshot record inspection))) (\<lambda>_.
        ret \<lparr>pd_owner = expire t, pd_action = action, pd_snapshot = snapshot, pd_inspection = inspection\<rparr>))))"

text \<open>The token has to be UTF-8 first; what \<open>parse_credential\<close> accepts is, and both errors are the same.\<close>

definition link_of :: "wire_ownership \<Rightarrow> wire_serving \<Rightarrow> string \<Rightarrow> string" where
  "link_of record sv credential =
     (if sv_http sv then ''http'' else ''https'') @ ''://'' @ public_ipv4_of record @ '':8443/s/'' @ credential"

definition view_details_locked ::
  "lib \<Rightarrow> ('h, 'g) disclosure_host \<Rightarrow> 'g \<Rightarrow> (disclosure_error, 'h, details) comp" where
  "view_details_locked L H g =
     bnd (load_current L H g) (\<lambda>(snapshot, record, _).
     case serving record of
       None \<Rightarrow> ret \<lparr>dt_subscription_link = None, dt_compromised = subscription_compromised record\<rparr>
     | Some sv \<Rightarrow>
         bnd (dh_read H g SubscriptionToken) (\<lambda>f.
         bnd (owner_checked H f 0x180 None) (\<lambda>token.
         bnd (ensure DisclosureAuthority (length token = 44 \<and> token ! 43 = newline
                \<and> sha256_hex L (take 43 token) = sv_credential_sha256 sv)) (\<lambda>_.
         bnd (option_or DisclosureAuthority (parse_credential (take 43 token))) (\<lambda>credential.
         bnd (dh_read H g ServingState) (\<lambda>f.
         bnd (owner_checked H f 0x180 None) (\<lambda>state.
         bnd (option_or DisclosureAuthority (state_bytes L sv)) (\<lambda>expected.
         bnd (ensure DisclosureAuthority (state = expected)) (\<lambda>_.
         bnd (load_current L H g) (\<lambda>(fresh, _, _).
         bnd (ensure DisclosureStale (cs_current fresh = cs_current snapshot \<and> cs_staged fresh = cs_staged snapshot)) (\<lambda>_.
         ret \<lparr>dt_subscription_link = Some (link_of record sv credential),
              dt_compromised = subscription_compromised record\<rparr>)))))))))))"

definition view_details ::
  "lib \<Rightarrow> ('h, 'g) disclosure_host \<Rightarrow> session_token \<Rightarrow> session_token \<times> (disclosure_error, 'h, details) comp" where
  "view_details L H t = (expire t, guarded_by H (view_details_locked L H))"

section \<open>Execution\<close>

definition revalidate_disclosure ::
  "lib \<Rightarrow> ('h, 'g) disclosure_host \<Rightarrow> 'g \<Rightarrow> prepared_disclosure
     \<Rightarrow> (disclosure_error, 'h, ci_snapshot \<times> wire_ownership \<times> inspection) comp" where
  "revalidate_disclosure L H g p =
     bnd (load_current L H g) (\<lambda>(snapshot, record, inspection).
     bnd (ensure DisclosureStale (cs_current snapshot = cs_current (pd_snapshot p)
            \<and> cs_staged snapshot = cs_staged (pd_snapshot p) \<and> inspection = pd_inspection p)) (\<lambda>_.
     ret (snapshot, record, inspection)))"

definition BEGIN_CLIENT :: bytes where
  "BEGIN_CLIENT = ''----- BEGIN SBXR CLIENT CONFIGURATION -----'' @ [newline]"

definition END_CLIENT :: bytes where
  "END_CLIENT = ''----- END SBXR CLIENT CONFIGURATION -----'' @ [newline]"

definition framed :: "bytes \<Rightarrow> bytes" where
  "framed client =
     (let out = BEGIN_CLIENT @ client in (if last out = newline then out else out @ [newline]) @ END_CLIENT)"

definition show_client ::
  "lib \<Rightarrow> crypto \<Rightarrow> ('h, 'g) disclosure_host \<Rightarrow> 'h writer option \<Rightarrow> 'g \<Rightarrow> prepared_disclosure
     \<Rightarrow> ci_snapshot \<times> wire_ownership \<times> inspection \<Rightarrow> (disclosure_error, 'h, disclosure_outcome) comp" where
  "show_client L C H output g p = (\<lambda>(snapshot, record, inspection).
     bnd (ensure DisclosureRefused (sm_client_configuration_available (summary_of snapshot record inspection))) (\<lambda>_.
     bnd (dh_read H g ConfigurationFile) (\<lambda>f.
     bnd (owner_checked H f 0x1A0 (Some (in_configuration_gid inspection))) (\<lambda>bytes.
     bnd (ensure DisclosureAuthority (sha256_hex L bytes = configuration_sha256 record)) (\<lambda>_.
     bnd (option_or DisclosureAuthority (decode_supported L bytes)) (\<lambda>configuration.
     bnd (option_or DisclosureAuthority (config_connection_facts L C configuration (public_ipv4_of record))) (\<lambda>facts.
     bnd (revalidate_disclosure L H g p) (\<lambda>_.
     bnd (option_or DisclosureRefused output) (\<lambda>w.
     bnd (map_err (\<lambda>_. DisclosureOutput) (w_write_all w (framed (client_configuration L facts)))) (\<lambda>_.
     bnd (map_err (\<lambda>_. DisclosureOutput) (w_flush w)) (\<lambda>_.
     ret ClientConfigurationDisclosed)))))))))))"

definition mark_compromised ::
  "lib \<Rightarrow> ('h, 'g) disclosure_host \<Rightarrow> 'g \<Rightarrow> ci_snapshot \<times> wire_ownership \<times> inspection
     \<Rightarrow> (disclosure_error, 'h, disclosure_outcome) comp" where
  "mark_compromised L H g = (\<lambda>(snapshot, record, inspection).
     bnd (ensure DisclosureRefused (sm_mark_compromise_available (summary_of snapshot record inspection))) (\<lambda>_.
     bnd (option_or DisclosureAuthority (mark_subscription_compromised L record)) (\<lambda>next.
     bnd (check_stop H) (\<lambda>_.
     bnd (map_err (\<lambda>_. DisclosurePublication) (dh_publish H g (cs_current snapshot) next)) (\<lambda>_.
     bnd (map_err (\<lambda>_. DisclosurePublication) (dh_verify_guard H g)) (\<lambda>_.
     bnd (map_err (\<lambda>_. DisclosurePublication) (dh_snapshot H g)) (\<lambda>fresh.
     bnd (option_or DisclosureAuthority (encode_record L next)) (\<lambda>content.
     bnd (ensure DisclosurePublication (cs_current fresh = content \<and> cs_staged fresh = None)) (\<lambda>_.
     ret SubscriptionCompromised)))))))))"

definition execute_disclosure ::
  "lib \<Rightarrow> crypto \<Rightarrow> ('h, 'g) disclosure_host \<Rightarrow> session_token \<Rightarrow> prepared_disclosure \<Rightarrow> bool \<Rightarrow> 'h writer option
     \<Rightarrow> session_token \<times> (disclosure_error, 'h, disclosure_outcome) comp" where
  "execute_disclosure L C H t p approved output =
     (expire t,
      if pd_owner p \<noteq> t then throw DisclosureStale
      else if \<not> approved then ret DisclosureDeclined
      else
        bnd (check_stop H) (\<lambda>_.
        bnd (ensure DisclosureRefused (\<not> (pd_action p = ShowClientConfiguration \<and> output = None))) (\<lambda>_.
        guarded_by H (\<lambda>g.
          bnd (revalidate_disclosure L H g p) (\<lambda>seen.
          case pd_action p of
            ShowClientConfiguration \<Rightarrow> show_client L C H output g p seen
          | MarkSubscriptionCompromised \<Rightarrow> mark_compromised L H g seen)))))"

section \<open>Writing a link\<close>

definition LINK_WARNING :: bytes where
  "LINK_WARNING = ''This link is a reusable credential. Anyone with it can obtain your proxy connection details. Keep it private. It will remain in terminal scrollback.'' @ [newline]"

definition write_link :: "'h writer \<Rightarrow> string \<Rightarrow> (disclosure_error, 'h, unit) comp" where
  "write_link w link =
     bnd (map_err (\<lambda>_. DisclosureOutput) (w_write_all w LINK_WARNING)) (\<lambda>_.
     bnd (map_err (\<lambda>_. DisclosureOutput) (w_write_all w link)) (\<lambda>_.
     bnd (map_err (\<lambda>_. DisclosureOutput) (w_write_all w [newline])) (\<lambda>_.
     map_err (\<lambda>_. DisclosureOutput) (w_flush w))))"

end
