(* ===== verification/Disclosure_Laws.thy ===== *)
theory Disclosure_Laws
  imports Disclosure
begin

text \<open>
  What disclosure reveals and changes.  As for rotations, the host and the output are observed; \<open>disclosure_ok\<close> is the
  condition on the log of an execution, relative to the prepared action that was reviewed.
\<close>

section \<open>Observation\<close>

datatype disclosure_event =
    SawSnapshot ci_snapshot
  | SawInspection wire_ownership inspection
  | SawFile disclosure_material protected_file
  | MarkedCompromised bytes wire_ownership
  | WroteOutput bytes

definition watched :: "('h, 'g) disclosure_host \<Rightarrow> ('h \<times> disclosure_event list, 'g) disclosure_host" where
  "watched H = \<lparr>dh_cancelled = dh_cancelled H \<circ> fst, dh_owner_uid = dh_owner_uid H \<circ> fst,
     dh_owner_gid = dh_owner_gid H \<circ> fst, dh_acquire = silent (dh_acquire H),
     dh_drop = (\<lambda>g (h, l). (dh_drop H g h, l)),
     dh_verify_guard = (\<lambda>g. silent (dh_verify_guard H g)),
     dh_snapshot = (\<lambda>g. noting SawSnapshot (dh_snapshot H g)),
     dh_inspect = (\<lambda>g r. noting (SawInspection r) (dh_inspect H g r)),
     dh_read = (\<lambda>g m. noting (SawFile m) (dh_read H g m)),
     dh_publish = (\<lambda>g b r. acting (MarkedCompromised b r) (dh_publish H g b r))\<rparr>"

definition watching :: "'h writer \<Rightarrow> ('h \<times> disclosure_event list) writer" where
  "watching w = \<lparr>w_write_all = (\<lambda>b. acting (WroteOutput b) (w_write_all w b)), w_flush = silent (w_flush w)\<rparr>"

fun reveals :: "disclosure_event \<Rightarrow> bool" where
  "reveals (MarkedCompromised b r) = True"
| "reveals (WroteOutput b) = True"
| "reveals _ = False"

text \<open>The last observations are the reviewed snapshot and, for its record, the reviewed inspection.\<close>

definition seen_again :: "lib \<Rightarrow> prepared_disclosure \<Rightarrow> disclosure_event list \<Rightarrow> wire_ownership \<Rightarrow> bool" where
  "seen_again L p past r = (decode_record L (cs_current (pd_snapshot p)) = Some r
     \<and> (\<exists>rest. past = SawInspection r (pd_inspection p) # SawSnapshot (pd_snapshot p) # rest))"

definition marking_allowed :: "lib \<Rightarrow> prepared_disclosure \<Rightarrow> disclosure_event list \<Rightarrow> bytes \<Rightarrow> wire_ownership \<Rightarrow> bool" where
  "marking_allowed L p past b next = (pd_action p = MarkSubscriptionCompromised \<and> b = cs_current (pd_snapshot p)
     \<and> (\<exists>r. seen_again L p past r \<and> sm_mark_compromise_available (summary_of (pd_snapshot p) r (pd_inspection p))
          \<and> mark_subscription_compromised L r = Some next))"

definition output_allowed ::
  "lib \<Rightarrow> crypto \<Rightarrow> ('h, 'g) disclosure_host \<Rightarrow> prepared_disclosure \<Rightarrow> disclosure_event list \<Rightarrow> bytes \<Rightarrow> bool" where
  "output_allowed L C H p past x = (pd_action p = ShowClientConfiguration
     \<and> (\<exists>r f facts h. seen_again L p past r
          \<and> sm_client_configuration_available (summary_of (pd_snapshot p) r (pd_inspection p))
          \<and> SawFile ConfigurationFile f \<in> set past
          \<and> proof_accepted (pf_proof f) 0x1A0 (dh_owner_uid H h) (in_configuration_gid (pd_inspection p))
          \<and> sha256_hex L (pf_bytes f) = configuration_sha256 r
          \<and> config_connection_facts L C (pf_bytes f) (public_ipv4_of r) = Some facts
          \<and> x = framed (client_configuration L facts)))"

fun disclosure_ok ::
  "lib \<Rightarrow> crypto \<Rightarrow> ('h, 'g) disclosure_host \<Rightarrow> prepared_disclosure \<Rightarrow> disclosure_event list \<Rightarrow> bool" where
  "disclosure_ok L C H p [] = True"
| "disclosure_ok L C H p (MarkedCompromised b r # past) =
     (marking_allowed L p past b r \<and> list_all (\<lambda>e. \<not> reveals e) past \<and> disclosure_ok L C H p past)"
| "disclosure_ok L C H p (WroteOutput x # past) =
     (output_allowed L C H p past x \<and> list_all (\<lambda>e. \<not> reveals e) past \<and> disclosure_ok L C H p past)"
| "disclosure_ok L C H p (e # past) = disclosure_ok L C H p past"

lemma authorized_reading: "list_all (\<lambda>e. \<not> reveals e) l \<Longrightarrow> disclosure_ok L C H p l"
proof (induction l)
  case (Cons e l)
  then show ?case by (cases e) simp_all
qed simp

section \<open>Rules\<close>

lemma watched_fields:
  "dh_acquire (watched H) = silent (dh_acquire H)"
  "dh_verify_guard (watched H) g = silent (dh_verify_guard H g)"
  "dh_snapshot (watched H) g = noting SawSnapshot (dh_snapshot H g)"
  "dh_inspect (watched H) g r = noting (SawInspection r) (dh_inspect H g r)"
  "dh_read (watched H) g m = noting (SawFile m) (dh_read H g m)"
  "dh_publish (watched H) g b r = acting (MarkedCompromised b r) (dh_publish H g b r)"
  "w_write_all (watching w) b = acting (WroteOutput b) (w_write_all w b)"
  "w_flush (watching w) = silent (w_flush w)"
  by (simp_all add: watched_def watching_def)

abbreviation discreet ::
  "(disclosure_event list \<Rightarrow> bool) \<Rightarrow> (disclosure_error, 'h \<times> disclosure_event list, 'a) comp \<Rightarrow> disclosure_event list
     \<Rightarrow> ('a \<Rightarrow> disclosure_event list \<Rightarrow> bool) \<Rightarrow> bool" where
  "discreet ok \<equiv> secure ok (\<lambda>_. True)"

lemma map_err_observed:
  "map_err c (acting e m) = acting e (map_err c m)" "map_err c (silent m) = silent (map_err c m)"
  "map_err c (noting note m) = noting note (map_err c m)"
  by (auto simp: map_err_def acting_def silent_def noting_def fun_eq_iff split: prod.splits sum.splits)

lemma discreet_check_stop: "ok l \<Longrightarrow> Q () l \<Longrightarrow> discreet ok (check_stop H) l Q"
  by (auto simp: secure_def check_stop_def)

lemma discreet_owner_checked:
  "ok l \<Longrightarrow> (\<And>h. proof_accepted (pf_proof f) mode (dh_owner_uid H h) (case gid of Some g \<Rightarrow> g | None \<Rightarrow> dh_owner_gid H h)
      \<Longrightarrow> Q (pf_bytes f) l) \<Longrightarrow> discreet ok (owner_checked (watched H) f mode gid) l Q"
  by (cases gid) (auto simp: secure_def owner_checked_def checked_file_def watched_def)

lemma discreet_guarded:
  assumes "ok l" "\<And>g. discreet ok (body g) l Q"
  shows "discreet ok (guarded_by (watched H) body) l Q"
  unfolding guarded_by_def
proof (rule secure_bnd)
  have "discreet ok (\<lambda>s. case body g s of (h', r) \<Rightarrow> (dh_drop (watched H) g h', r)) l Q" for g
    using assms(2) [of g] by (auto simp: secure_def watched_def split: prod.splits)
  then show "discreet ok (dh_acquire (watched H)) l
      (\<lambda>x l'. discreet ok (\<lambda>s. case body x s of (h', r) \<Rightarrow> (dh_drop (watched H) x h', r)) l' Q)"
    using assms(1) by (auto simp: watched_def intro!: secure_observed(2))
qed

definition loaded :: "ci_snapshot \<Rightarrow> wire_ownership \<Rightarrow> inspection \<Rightarrow> disclosure_event list \<Rightarrow> disclosure_event list" where
  "loaded s r i l = SawInspection r i # SawSnapshot s # l"

text \<open>Reading keeps a log in order.\<close>

definition reading_ok :: "(disclosure_event list \<Rightarrow> bool) \<Rightarrow> bool" where
  "reading_ok ok = (\<forall>e l. ok l \<longrightarrow> \<not> reveals e \<longrightarrow> ok (e # l))"

lemma discreet_load:
  assumes "reading_ok ok" "ok l"
    and Q: "\<And>s r i. decode_record L (cs_current s) = Some r \<Longrightarrow> ok (loaded s r i l) \<Longrightarrow> Q (s, r, i) (loaded s r i l)"
  shows "discreet ok (load_current L (watched H) g) l Q"
proof -
  have k: "ok (SawSnapshot s # l)" "ok (loaded s r i l)" for s r i
    using assms(1,2) by (simp_all add: reading_ok_def loaded_def)
  show ?thesis
    unfolding load_current_def watched_fields
    using assms(2) k Q
    by (intro secure_bnd secure_pure secure_observed discreet_check_stop) (auto simp: loaded_def)
qed

lemma discreet_revalidate:
  assumes "reading_ok ok" "ok l"
    and Q: "\<And>r i. decode_record L (cs_current (pd_snapshot p)) = Some r \<Longrightarrow> ok (loaded (pd_snapshot p) r (pd_inspection p) l) \<Longrightarrow>
      Q (pd_snapshot p, r, pd_inspection p) (loaded (pd_snapshot p) r (pd_inspection p) l)"
  shows "discreet ok (revalidate_disclosure L (watched H) g p) l Q"
  unfolding revalidate_disclosure_def
proof (rule secure_bnd, rule discreet_load [OF assms(1,2)], unfold prod.case)
  fix s r i
  assume s: "decode_record L (cs_current s) = Some r" "ok (loaded s r i l)"
  show "discreet ok (bnd (ensure DisclosureStale (cs_current s = cs_current (pd_snapshot p)
            \<and> cs_staged s = cs_staged (pd_snapshot p) \<and> i = pd_inspection p)) (\<lambda>_. ret (s, r, i))) (loaded s r i l) Q"
  proof (intro secure_bnd secure_pure)
    assume e: "cs_current s = cs_current (pd_snapshot p) \<and> cs_staged s = cs_staged (pd_snapshot p) \<and> i = pd_inspection p"
    then have eq: "s = pd_snapshot p" "i = pd_inspection p" by (cases s; cases "pd_snapshot p"; simp)+
    show "Q (s, r, i) (loaded s r i l)" using Q s unfolding eq by blast
  qed (use s in simp_all)
qed

section \<open>Executions\<close>

lemma reading_authorized: "reading_ok (disclosure_ok L C H p)"
  unfolding reading_ok_def
proof (intro allI impI)
  fix e l
  assume "disclosure_ok L C H p l" "\<not> reveals e"
  then show "disclosure_ok L C H p (e # l)" by (cases e) simp_all
qed

definition quiet_log :: "disclosure_event list \<Rightarrow> bool" where
  "quiet_log l = list_all (\<lambda>e. \<not> reveals e) l"

lemma quiet_simps [simp]:
  "quiet_log (SawSnapshot s # l) = quiet_log l" "quiet_log (SawInspection r i # l) = quiet_log l"
  "quiet_log (SawFile m f # l) = quiet_log l" "quiet_log (loaded s r i l) = quiet_log l"
  "quiet_log []"
  by (simp_all add: quiet_log_def loaded_def)

lemma authorized_simps [simp]:
  "disclosure_ok L C H p (loaded s r i l) = disclosure_ok L C H p l"
  by (simp add: loaded_def)

lemma decode_supported_same: "decode_supported L b = Some c \<Longrightarrow> c = b"
  by (auto simp: decode_supported_def split: Option.bind_splits if_splits)

text \<open>What an outcome means: the output was written, or the marked record was read back as current.\<close>

definition execution_done :: "lib \<Rightarrow> prepared_disclosure \<Rightarrow> disclosure_outcome \<Rightarrow> disclosure_event list \<Rightarrow> bool" where
  "execution_done L p x l = (case x of
      DisclosureDeclined \<Rightarrow> False
    | ClientConfigurationDisclosed \<Rightarrow> pd_action p = ShowClientConfiguration \<and> (\<exists>b past. l = WroteOutput b # past)
    | SubscriptionCompromised \<Rightarrow> pd_action p = MarkSubscriptionCompromised
        \<and> (\<exists>s n past. l = SawSnapshot s # MarkedCompromised (cs_current (pd_snapshot p)) n # past
             \<and> encode_record L n = Some (cs_current s) \<and> cs_staged s = None))"

lemma discreet_show_client:
  assumes l: "disclosure_ok L C H p l" "quiet_log l" and a: "pd_action p = ShowClientConfiguration"
    and r: "decode_record L (cs_current (pd_snapshot p)) = Some r"
  shows "discreet (disclosure_ok L C H p)
    (show_client L C (watched H) (map_option watching output) g p (pd_snapshot p, r, pd_inspection p)) l (execution_done L p)"
proof -
  have out: "disclosure_ok L C H p (WroteOutput (framed (client_configuration L facts)) # loaded (pd_snapshot p) r (pd_inspection p) (SawFile ConfigurationFile f # l))"
    if "sm_client_configuration_available (summary_of (pd_snapshot p) r (pd_inspection p))"
      "proof_accepted (pf_proof f) 0x1A0 (dh_owner_uid H h) (in_configuration_gid (pd_inspection p))"
      "sha256_hex L (pf_bytes f) = configuration_sha256 r"
      "config_connection_facts L C (pf_bytes f) (public_ipv4_of r) = Some facts" for f facts h
  proof -
    have "output_allowed L C H p (loaded (pd_snapshot p) r (pd_inspection p) (SawFile ConfigurationFile f # l))
        (framed (client_configuration L facts))"
      using that a r unfolding output_allowed_def seen_again_def loaded_def
      by (intro conjI exI [of _ r] exI [of _ f] exI [of _ facts] exI [of _ h]) auto
    then show ?thesis using l by (simp add: quiet_log_def [symmetric])
  qed
  show ?thesis
  proof (cases "output")
    case None
    show ?thesis
      unfolding show_client_def prod.case watched_fields None option.map option_or_def [of _ None] option.case bnd_pure
      using l
      by (intro secure_bnd secure_pure secure_observed discreet_owner_checked discreet_revalidate reading_authorized) auto
  next
    case (Some w)
    show ?thesis
      unfolding show_client_def prod.case watched_fields Some option.map option_or_def [of _ "Some (watching w)"] option.case
        bnd_pure map_err_observed
      using l out r a
      by (intro secure_bnd secure_pure secure_observed discreet_owner_checked discreet_revalidate reading_authorized)
        (auto simp: execution_done_def dest: decode_supported_same)
  qed
qed

lemma discreet_mark_compromised:
  assumes l: "disclosure_ok L C H p l" "quiet_log l" and a: "pd_action p = MarkSubscriptionCompromised"
    and r: "decode_record L (cs_current (pd_snapshot p)) = Some r"
  shows "discreet (disclosure_ok L C H p) (mark_compromised L (watched H) g (pd_snapshot p, r, pd_inspection p))
    (loaded (pd_snapshot p) r (pd_inspection p) l) (execution_done L p)"
proof -
  let ?l = "loaded (pd_snapshot p) r (pd_inspection p) l"
  have "disclosure_ok L C H p (MarkedCompromised (cs_current (pd_snapshot p)) n # ?l)"
    if "sm_mark_compromise_available (summary_of (pd_snapshot p) r (pd_inspection p))"
      "mark_subscription_compromised L r = Some n" for n
  proof -
    have "marking_allowed L p ?l (cs_current (pd_snapshot p)) n"
      using that a r unfolding marking_allowed_def seen_again_def loaded_def by auto
    then show ?thesis using l by (simp add: quiet_log_def [symmetric])
  qed
  then show ?thesis
    unfolding mark_compromised_def prod.case watched_fields map_err_observed
    using l a
    by (intro secure_bnd secure_pure secure_observed discreet_check_stop) (auto simp: execution_done_def)
qed

lemma discreet_execute:
  "discreet (disclosure_ok L C H p) (snd (execute_disclosure L C (watched H) t p approved (map_option watching w))) []
     (\<lambda>x l. pd_owner p = t \<and> (if approved then execution_done L p x l else x = DisclosureDeclined \<and> l = []))"
proof -
  have run: "discreet (disclosure_ok L C H p) (guarded_by (watched H) (\<lambda>g.
      bnd (revalidate_disclosure L (watched H) g p) (\<lambda>seen.
      case pd_action p of
        ShowClientConfiguration \<Rightarrow> show_client L C (watched H) (map_option watching w) g p seen
      | MarkSubscriptionCompromised \<Rightarrow> mark_compromised L (watched H) g seen))) [] (execution_done L p)"
    by (rule discreet_guarded, simp, rule secure_bnd, rule discreet_revalidate [OF reading_authorized])
      (auto intro!: discreet_show_client discreet_mark_compromised split: disclosure_action.split)
  then show ?thesis
    unfolding execute_disclosure_def snd_conv
    by (auto intro!: secure_bnd secure_pure discreet_check_stop elim!: secure_weaken)
qed

section \<open>Details\<close>

text \<open>The log of a reading operation reveals nothing.\<close>

lemma reading_quiet: "reading_ok quiet_log"
  by (simp add: reading_ok_def quiet_log_def)

definition link_authorized :: "lib \<Rightarrow> string \<Rightarrow> disclosure_event list \<Rightarrow> bool" where
  "link_authorized L link l = (\<exists>s r sv f g c. SawSnapshot s \<in> set l \<and> decode_record L (cs_current s) = Some r
     \<and> serving r = Some sv \<and> SawFile SubscriptionToken f \<in> set l \<and> pf_bytes f = c @ [newline]
     \<and> sha256_hex L c = sv_credential_sha256 sv \<and> parse_credential c = Some c
     \<and> SawFile ServingState g \<in> set l \<and> state_bytes L sv = Some (pf_bytes g) \<and> link = link_of r sv c)"

lemma token_split:
  assumes "length t = 44" "t ! 43 = c"
  shows "t = take 43 t @ [c]"
  using assms take_Suc_conv_app_nth [of 43 t] by simp

text \<open>The part of \<open>view_details\<close> that reads the link.\<close>

definition read_link ::
  "lib \<Rightarrow> ('h, 'g) disclosure_host \<Rightarrow> 'g \<Rightarrow> ci_snapshot \<Rightarrow> wire_ownership \<Rightarrow> wire_serving
     \<Rightarrow> (disclosure_error, 'h, details) comp" where
  "read_link L H g s r sv =
     bnd (dh_read H g SubscriptionToken) (\<lambda>f.
     bnd (owner_checked H f 0x180 None) (\<lambda>token.
     bnd (ensure DisclosureAuthority (length token = 44 \<and> token ! 43 = newline
            \<and> sha256_hex L (take 43 token) = sv_credential_sha256 sv)) (\<lambda>_.
     bnd (option_or DisclosureAuthority (parse_credential (take 43 token))) (\<lambda>credential.
     bnd (dh_read H g ServingState) (\<lambda>f.
     bnd (owner_checked H f 0x180 None) (\<lambda>state.
     bnd (option_or DisclosureAuthority (state_bytes L sv)) (\<lambda>expected.
     bnd (ensure DisclosureAuthority (state = expected)) (\<lambda>_.
     bnd (load_current L H g) (\<lambda>(fresh, _, _).
     bnd (ensure DisclosureStale (cs_current fresh = cs_current s \<and> cs_staged fresh = cs_staged s)) (\<lambda>_.
     ret \<lparr>dt_subscription_link = Some (link_of r sv credential),
          dt_compromised = subscription_compromised r\<rparr>))))))))))"

abbreviation link_shown :: "lib \<Rightarrow> details \<Rightarrow> disclosure_event list \<Rightarrow> bool" where
  "link_shown L d l \<equiv> \<forall>link. dt_subscription_link d = Some link \<longrightarrow> link_authorized L link l"

lemma discreet_read_link:
  assumes s: "decode_record L (cs_current s) = Some r" "quiet_log (loaded s r i [])" and sv: "serving r = Some sv"
  shows "discreet quiet_log (read_link L (watched H) g s r sv) (loaded s r i []) (link_shown L)"
proof -
  have ok: "link_authorized L (link_of r sv c) (loaded x y z (SawFile ServingState h # SawFile SubscriptionToken f # loaded s r i []))"
    if f: "length (pf_bytes f) = 44" "pf_bytes f ! 43 = newline" "sha256_hex L (take 43 (pf_bytes f)) = sv_credential_sha256 sv"
      "parse_credential (take 43 (pf_bytes f)) = Some c" "state_bytes L sv = Some (pf_bytes h)" for f h c x y z
  proof -
    have "c = take 43 (pf_bytes f)" using f(4) by (simp add: parse_credential_def split: if_splits)
    then show ?thesis
      using f s(1) sv token_split [OF f(1,2)] unfolding link_authorized_def loaded_def
      by (intro exI [of _ s] exI [of _ r] exI [of _ sv] exI [of _ f] exI [of _ h] exI [of _ c]) auto
  qed
  show ?thesis
    unfolding read_link_def watched_fields
    using s ok
    by (intro secure_bnd secure_pure secure_observed discreet_owner_checked discreet_load reading_quiet)
      (auto intro!: secure_bnd secure_pure)
qed

lemma discreet_view_details:
  "discreet quiet_log (snd (view_details L (watched H) t)) [] (link_shown L)"
proof -
  have "discreet quiet_log (view_details_locked L (watched H) g) [] (link_shown L)" for g
    unfolding view_details_locked_def read_link_def [symmetric]
  proof (rule secure_bnd, rule discreet_load [OF reading_quiet], simp, unfold prod.case)
    fix s r i
    assume s: "decode_record L (cs_current s) = Some r" "quiet_log (loaded s r i [])"
    show "discreet quiet_log (case serving r of
       None \<Rightarrow> ret \<lparr>dt_subscription_link = None, dt_compromised = subscription_compromised r\<rparr>
     | Some sv \<Rightarrow> read_link L (watched H) g s r sv) (loaded s r i []) (link_shown L)"
      using s by (cases "serving r") (auto intro!: secure_pure discreet_read_link)
  qed
  then show ?thesis unfolding view_details_def snd_conv by (rule discreet_guarded [rotated]) simp
qed

text \<open>An HTTP link that is disclosed is one that the link parser accepts.\<close>

lemma http_link_parses:
  assumes v: "valid L r" and s: "serving r = Some sv" "sv_http sv" and c: "parse_credential c = Some c"
  shows "parse_link (link_of r sv c) = Some (link_of r sv c)"
proof -
  obtain res where res: "subscription_resources r = Some res" "sr_http res"
    using validD(5) [OF v] s by (auto simp: guard_serving_def is_some_and_def split: option.splits)
  then have "canonical_ipv4 (public_ipv4_of r)"
    using validD(12) [OF v] by (auto simp: guard_subscription_resources_def valid_subscription_resources_def)
  then obtain ip where ip: "canonical_ipv4_addr (public_ipv4_of r) = Some ip" by (auto simp: canonical_ipv4_addr_iff)
  then have "new_link (public_ipv4_of r) c = Some (link_of r sv c)"
    using s(2) by (auto simp: new_link_def link_of_def canonical_ipv4_addr_Some)
  from new_link_parses [OF this] c show ?thesis by (simp add: parse_credential_Some)
qed

section \<open>Watching changes nothing\<close>

lemma mirrors_check_stop: "mirrors (check_stop (watched H)) (check_stop H)"
  by (simp add: mirrors_def check_stop_def watched_def)

lemma mirrors_owner_checked: "mirrors (owner_checked (watched H) f mode gid) (owner_checked H f mode gid)"
  by (cases gid) (simp_all add: mirrors_def owner_checked_def watched_def)

lemma mirrors_guarded:
  assumes "\<And>g. mirrors (f' g) (f g)"
  shows "mirrors (guarded_by (watched H) f') (guarded_by H f)"
proof -
  have "mirrors (\<lambda>h. case f' g h of (h', r) \<Rightarrow> (dh_drop (watched H) g h', r))
      (\<lambda>h. case f g h of (h', r) \<Rightarrow> (dh_drop H g h', r))" for g
    unfolding mirrors_def
  proof (intro allI)
    fix h l
    obtain l' where "f' g (h, l) = ((fst (f g h), l'), snd (f g h))" using mirrorsD [OF assms] by blast
    then show "\<exists>l'. (case f' g (h, l) of (h', r) \<Rightarrow> (dh_drop (watched H) g h', r)) =
      ((fst (case f g h of (h', r) \<Rightarrow> (dh_drop H g h', r)), l'), snd (case f g h of (h', r) \<Rightarrow> (dh_drop H g h', r)))"
      by (auto simp: watched_def split: prod.splits)
  qed
  then show ?thesis unfolding guarded_by_def watched_fields by (intro mirror_pure_rules)
qed

lemma mirrors_load: "mirrors (load_current L (watched H) g) (load_current L H g)"
  unfolding load_current_def watched_fields by (intro mirror_pure_rules mirrors_check_stop)

lemma mirrors_revalidate: "mirrors (revalidate_disclosure L (watched H) g p) (revalidate_disclosure L H g p)"
  unfolding revalidate_disclosure_def by (intro mirror_pure_rules mirrors_load mirrors_pair)

lemma mirrors_show_client:
  "mirrors (show_client L C (watched H) (map_option watching w) g p x) (show_client L C H w g p x)"
proof -
  have o: "mirrors (bnd (option_or e (map_option watching w)) (\<lambda>w. bnd (map_err c (w_write_all w b)) (\<lambda>_. bnd (map_err c (w_flush w)) (\<lambda>_. ret y))))
      (bnd (option_or e w) (\<lambda>w. bnd (map_err c (w_write_all w b)) (\<lambda>_. bnd (map_err c (w_flush w)) (\<lambda>_. ret y))))" for e c b y
    by (cases w) (auto simp: option_or_def watched_fields map_err_observed intro!: mirror_pure_rules)
  obtain s r i where x: "x = (s, r, i)" by (cases x)
  show ?thesis
    unfolding show_client_def x prod.case watched_fields
    by (intro mirrors_bnd [where m = "ensure _ _"] mirrors_bnd [where m = "dh_read _ _ _"]
        mirrors_bnd [where m = "owner_checked _ _ _ _"] mirrors_bnd [where m = "revalidate_disclosure _ _ _ _"]
        mirrors_bnd [where m = "option_or DisclosureAuthority _"] o mirrors_pure mirrors_observed mirrors_owner_checked mirrors_revalidate)
qed

lemma mirrors_mark: "mirrors (mark_compromised L (watched H) g x) (mark_compromised L H g x)"
proof -
  obtain s r i where x: "x = (s, r, i)" by (cases x)
  show ?thesis
    unfolding mark_compromised_def x prod.case watched_fields map_err_observed
    by (intro mirror_pure_rules mirrors_check_stop)
qed

lemma mirrors_execute_disclosure:
  "mirrors (snd (execute_disclosure L C (watched H) t p approved (map_option watching w)))
     (snd (execute_disclosure L C H t p approved w))"
proof -
  have "mirrors (guarded_by (watched H) (\<lambda>g.
      bnd (revalidate_disclosure L (watched H) g p) (\<lambda>seen.
      case pd_action p of
        ShowClientConfiguration \<Rightarrow> show_client L C (watched H) (map_option watching w) g p seen
      | MarkSubscriptionCompromised \<Rightarrow> mark_compromised L (watched H) g seen)))
    (guarded_by H (\<lambda>g.
      bnd (revalidate_disclosure L H g p) (\<lambda>seen.
      case pd_action p of
        ShowClientConfiguration \<Rightarrow> show_client L C H w g p seen
      | MarkSubscriptionCompromised \<Rightarrow> mark_compromised L H g seen)))"
    by (cases "pd_action p")
      (auto intro!: mirrors_guarded mirrors_bnd mirrors_revalidate mirrors_show_client mirrors_mark)
  then show ?thesis
    unfolding execute_disclosure_def snd_conv
    by (simp add: mirrors_if mirror_pure_rules mirrors_check_stop)
qed

lemma mirrors_view_details: "mirrors (snd (view_details L (watched H) t)) (snd (view_details L H t))"
  unfolding view_details_def view_details_locked_def snd_conv watched_fields
  by (intro mirrors_guarded mirror_pure_rules mirrors_load mirrors_pair mirrors_option mirrors_owner_checked)

lemma link_authorized_parses:
  assumes "link_authorized L link l" "starts_with ''http://'' link"
  shows "parse_link link = Some link"
proof -
  obtain s :: ci_snapshot and r sv c where r: "decode_record L (cs_current s) = Some r" "serving r = Some sv" "parse_credential c = Some c"
      "link = link_of r sv c"
    using assms(1) unfolding link_authorized_def by blast
  have "sv_http sv" using assms(2) r(4) by (auto simp: link_of_def split: if_splits)
  then show ?thesis using http_link_parses [OF decode_record_valid [OF r(1)] r(2)] r(3,4) by simp
qed

end
