(* ===== verification/Disclosure_Properties.thy ===== *)
theory Disclosure_Properties
  imports Disclosure_Laws Rotation_Properties
begin

text \<open>
  The property of disclosure: what is revealed or recorded is exactly what was reviewed, once.
\<close>

section \<open>An example\<close>

definition example_inspection :: inspection where
  "example_inspection = \<lparr>in_release = example_release, in_configuration_gid = 100,
     in_running = \<lparr>rf_host = True, rf_public_ipv4_matches = True, rf_ownership = True, rf_transaction_files_absent = True,
       rf_apt_key = True, rf_apt_source = True, rf_package = True, rf_hold = True, rf_package_identity = True,
       rf_configuration = True, rf_state = True, rf_validation = True, rf_service_provenance = True,
       rf_lock_provisioning = True, rf_service_enabled = True, rf_service_active = True, rf_listener = True,
       rf_fingerprint = ''facts''\<rparr>,
     in_serving_surface_safe = True\<rparr>"

definition example_disclosure_host :: "(ci_snapshot, unit) disclosure_host" where
  "example_disclosure_host = \<lparr>dh_cancelled = (\<lambda>_. False), dh_owner_uid = (\<lambda>_. 0), dh_owner_gid = (\<lambda>_. 0),
     dh_acquire = (\<lambda>h. (h, Inr ())), dh_drop = (\<lambda>_ h. h), dh_verify_guard = (\<lambda>_ h. (h, Inr ())),
     dh_snapshot = (\<lambda>_ h. (h, Inr h)), dh_inspect = (\<lambda>_ _ h. (h, Inr example_inspection)),
     dh_read = (\<lambda>_ _ h. (h, Inl DisclosureAuthority)), dh_publish = (\<lambda>_ _ _ h. (h, Inl DisclosurePublication))\<rparr>"

definition example_disclosure :: prepared_disclosure where
  "example_disclosure = \<lparr>pd_owner = (0, 1), pd_action = ShowClientConfiguration,
     pd_snapshot = pn_snapshot example_prepared, pd_inspection = example_inspection\<rparr>"

lemma example_review_disclosure:
  "snd (review_disclosure example_lib example_disclosure_host (0, 0) ShowClientConfiguration) (pn_snapshot example_prepared)
     = (pn_snapshot example_prepared, Inr example_disclosure)"
proof -
  obtain b where b: "encode_record example_lib example_running = Some b" using example_running_encodes(1) by auto
  have d: "decode_record example_lib b = Some example_running"
    by (rule json_text.decode_encode_record [OF text_layer.json_text_axioms example_running_valid b])
  show ?thesis
    using example_fields example_running_idle b d
    by (simp add: review_disclosure_def guarded_by_def load_current_def bnd_def ret_def ensure_def option_or_def check_stop_def
        example_disclosure_host_def example_prepared_def example_disclosure_def expire_def summary_of_def Let_def
        facts_accepted_def example_inspection_def)
qed

section \<open>Disclosure\<close>

text \<open>
  C40. An execution reveals and records only what was reviewed.  Whatever the host and the output do, output is
  written at most once, for a show action, and is the framed client configuration derived from a protected file with
  the recorded digest and a supported profile; a record is published at most once, for a mark action, and is the
  compromised successor of the reviewed record; in both cases the last observations before it repeat the reviewed
  snapshot and inspection.  A prepared action is good for one execution only, declined ones included.  Viewing
  details writes and publishes nothing, and a link it shows is made of the current record and the token with its
  recorded digest, next to the exact serving state; an HTTP link is one that the link parser accepts.
\<close>

theorem disclosure_authorized:
  "(let run = snd (execute_disclosure L C H t p approved w) h in
     \<exists>log. snd (execute_disclosure L C (watched H) t p approved (map_option watching w)) (h, [])
            = ((fst run, log), snd run)
          \<and> disclosure_ok L C H p log
          \<and> (\<forall>x. snd run = Inr x \<longrightarrow> pd_owner p = t
               \<and> (if approved then execution_done L p x log else x = DisclosureDeclined \<and> log = [])))
   \<and> (pd_owner p = t \<longrightarrow>
       snd (execute_disclosure L C H (fst (execute_disclosure L C H t p approved w)) p approved' w') h'
         = (h', Inl DisclosureStale))
   \<and> (let run = snd (view_details L H t) h in
     \<exists>log. snd (view_details L (watched H) t) (h, []) = ((fst run, log), snd run) \<and> list_all (\<lambda>e. \<not> reveals e) log
          \<and> (\<forall>d link. snd run = Inr d \<and> dt_subscription_link d = Some link \<longrightarrow>
               link_authorized L link log \<and> (starts_with ''http://'' link \<longrightarrow> parse_link link = Some link)))"
proof (intro conjI)
  obtain l1 where 1: "snd (execute_disclosure L C (watched H) t p approved (map_option watching w)) (h, [])
      = ((fst (snd (execute_disclosure L C H t p approved w) h), l1), snd (snd (execute_disclosure L C H t p approved w) h))"
    by (rule mirrorsD [OF mirrors_execute_disclosure, THEN exE])
  show "let run = snd (execute_disclosure L C H t p approved w) h in
     \<exists>log. snd (execute_disclosure L C (watched H) t p approved (map_option watching w)) (h, [])
            = ((fst run, log), snd run)
          \<and> disclosure_ok L C H p log
          \<and> (\<forall>x. snd run = Inr x \<longrightarrow> pd_owner p = t
               \<and> (if approved then execution_done L p x log else x = DisclosureDeclined \<and> log = []))"
    using secureD [OF discreet_execute [of L C H p t approved w], of h] 1 unfolding Let_def
    by (intro exI [of _ l1]) (auto split: sum.splits)
  show "pd_owner p = t \<longrightarrow>
       snd (execute_disclosure L C H (fst (execute_disclosure L C H t p approved w)) p approved' w') h'
         = (h', Inl DisclosureStale)"
    by (cases t) (simp add: execute_disclosure_def expire_def throw_def)
  obtain l2 where 2: "snd (view_details L (watched H) t) (h, [])
      = ((fst (snd (view_details L H t) h), l2), snd (snd (view_details L H t) h))"
    by (rule mirrorsD [OF mirrors_view_details, THEN exE])
  show "let run = snd (view_details L H t) h in
     \<exists>log. snd (view_details L (watched H) t) (h, []) = ((fst run, log), snd run) \<and> list_all (\<lambda>e. \<not> reveals e) log
          \<and> (\<forall>d link. snd run = Inr d \<and> dt_subscription_link d = Some link \<longrightarrow>
               link_authorized L link log \<and> (starts_with ''http://'' link \<longrightarrow> parse_link link = Some link))"
    using secureD [OF discreet_view_details [of L H t], of h] 2 link_authorized_parses unfolding Let_def
    by (intro exI [of _ l2]) (auto simp: quiet_log_def split: sum.splits)
qed

theorem disclosure_authorized_witness:
  "snd (review_disclosure example_lib example_disclosure_host (0, 0) ShowClientConfiguration) (pn_snapshot example_prepared)
     = (pn_snapshot example_prepared, Inr example_disclosure)
   \<and> snd (execute_disclosure example_lib example_crypto example_disclosure_host
       (fst (execute_disclosure example_lib example_crypto example_disclosure_host (0, 1) example_disclosure False None))
       example_disclosure True None) (pn_snapshot example_prepared)
     = (pn_snapshot example_prepared, Inl DisclosureStale)"
  using disclosure_authorized [where L = example_lib and C = example_crypto and H = example_disclosure_host and t = "(0, 1)"
      and p = example_disclosure and approved = False and w = None and approved' = True and w' = None
      and h' = "pn_snapshot example_prepared", THEN conjunct2, THEN conjunct1] example_review_disclosure
  by (simp add: example_disclosure_def)

end
