(* ===== verification/Binary64.thy ===== *)
theory Binary64
  imports Prelude Complex_Main
begin

text \<open>
  The \<open>f64\<close> of Rust as far as the repository computes with it: positive quantities far from the ends of the
  exponent range.  A value is the rational number it denotes, and every operation is the exact one followed by
  \<open>f64_of\<close>, rounding to the nearest number of 53 significant bits with ties to even.  The one law the development
  needs of rounding is its relative error.
\<close>

section \<open>Rounding\<close>

fun bit_length :: "nat \<Rightarrow> nat" where
  "bit_length n = (if n = 0 then 0 else Suc (bit_length (n div 2)))"

declare bit_length.simps [simp del]

definition pow2 :: "int \<Rightarrow> rat" where
  "pow2 e = (if e \<ge> 0 then 2 ^ nat e else 1 / 2 ^ nat (- e))"

text \<open>The exponent of a positive number: the power of two at or below it.\<close>

definition f64_exponent :: "rat \<Rightarrow> int" where
  "f64_exponent x =
     (case quotient_of x of (p, q) \<Rightarrow>
        let e = int (bit_length (nat p)) - int (bit_length (nat q)) in
        if pow2 e \<le> x then e else e - 1)"

definition round_half_even :: "rat \<Rightarrow> int" where
  "round_half_even m =
     (let f = \<lfloor>m\<rfloor>; d = m - of_int f in
      if d < 1 / 2 then f else if d > 1 / 2 then f + 1 else if even f then f else f + 1)"

definition f64_of :: "rat \<Rightarrow> rat" where
  "f64_of x =
     (if x \<le> 0 then 0
      else let u = pow2 (f64_exponent x - 52) in of_int (round_half_even (x / u)) * u)"

section \<open>The relative error\<close>

lemma bit_length_bounds: "n > 0 \<Longrightarrow> 2 ^ (bit_length n - 1) \<le> n \<and> n < 2 ^ bit_length n \<and> bit_length n > 0"
proof (induction n rule: bit_length.induct)
  case (1 n)
  show ?case
  proof (cases "n div 2 = 0")
    case True
    then have "n = 1" using 1 by auto
    then show ?thesis by (simp add: bit_length.simps [of "Suc 0"] bit_length.simps [of 0])
  next
    case False
    then have ih: "2 ^ (bit_length (n div 2) - 1) \<le> n div 2" "n div 2 < 2 ^ bit_length (n div 2)"
      "bit_length (n div 2) > 0"
      using 1 by auto
    have b: "bit_length n = Suc (bit_length (n div 2))"
      using 1 by (simp add: bit_length.simps [of n])
    have "2 ^ bit_length (n div 2) = 2 * (2 :: nat) ^ (bit_length (n div 2) - 1)"
      using ih(3) by (cases "bit_length (n div 2)") auto
    then show ?thesis using ih b by (simp add: div_less_iff_less_mult less_eq_div_iff_mult_less_eq mult.commute)
  qed
qed

lemma pow2_pos [simp]: "pow2 e > 0"
  by (simp add: pow2_def)

lemma pow2_nonzero [simp]: "pow2 e \<noteq> 0"
  using pow2_pos [of e] by (metis less_irrefl)

lemma pow2_add: "pow2 (a + b) = pow2 a * pow2 b"
proof -
  have pi: "pow2 e = 2 powi e" for e
    unfolding pow2_def power_int_def by (auto simp: power_one_over inverse_eq_divide)
  show ?thesis by (simp add: pi power_int_add)
qed

lemma pow2_nat: "pow2 (int n) = 2 ^ n"
  by (simp add: pow2_def)

lemma pow2_diff: "pow2 (int m - int n) = 2 ^ m / 2 ^ n"
  using pow2_add [of "int m - int n" "int n"] by (simp add: pow2_nat field_simps)

lemma pow2_pred: "2 * pow2 (e - 1) = pow2 e"
  using pow2_add [of "e - 1" 1] by (simp add: pow2_def [of 1])

lemma f64_exponent_le:
  assumes "x > 0"
  shows "pow2 (f64_exponent x) \<le> x"
proof -
  obtain p q where pq: "quotient_of x = (p, q)" by (cases "quotient_of x")
  have q: "q > 0" using pq by (rule quotient_of_denom_pos)
  have x: "x = of_int p / of_int q" using pq by (rule quotient_of_div)
  have p: "p > 0" using assms x q by (simp add: zero_less_divide_iff)
  let ?m = "bit_length (nat p)" and ?n = "bit_length (nat q)"
  have mp: "2 ^ (?m - 1) \<le> nat p" "?m > 0" and nq: "nat q < 2 ^ ?n"
    using bit_length_bounds [of "nat p"] bit_length_bounds [of "nat q"] p q by auto
  have "(2 :: rat) ^ (?m - 1) = of_nat (2 ^ (?m - 1))" by simp
  also have "\<dots> \<le> of_nat (nat p)" using mp(1) by (simp only: of_nat_le_iff)
  finally have lo: "(2 :: rat) ^ (?m - 1) \<le> of_int p" using p by simp
  have "of_nat (nat q) < (of_nat (2 ^ ?n) :: rat)" using nq by (simp only: of_nat_less_iff)
  then have hi: "of_int q < (2 :: rat) ^ ?n" using q by simp
  have "pow2 (int ?m - int ?n - 1) = 2 ^ (?m - 1) / 2 ^ ?n"
    using pow2_diff [of "?m - 1" ?n] mp(2) by (simp add: of_nat_diff algebra_simps)
  also have "\<dots> \<le> of_int p / of_int q"
    using lo hi q p by (intro frac_le) auto
  finally have "pow2 (int ?m - int ?n - 1) \<le> x" by (simp only: x)
  then show ?thesis by (simp add: f64_exponent_def pq Let_def)
qed

lemma round_half_even_error: "\<bar>of_int (round_half_even m) - m\<bar> \<le> 1 / 2"
  proof -
  have "of_int \<lfloor>m\<rfloor> \<le> m" "m < of_int \<lfloor>m\<rfloor> + 1" using floor_correct [of m] by auto
  then show ?thesis by (auto simp: round_half_even_def Let_def abs_le_iff)
qed

lemma f64_error:
  assumes "x \<ge> 0"
  shows "\<bar>f64_of x - x\<bar> \<le> x / 2 ^ 53"
proof (cases "x = 0")
  case False
  then have x: "x > 0" using assms by simp
  let ?u = "pow2 (f64_exponent x - 52)"
  have "pow2 (f64_exponent x) = ?u * 2 ^ 52"
    using pow2_add [of "f64_exponent x - 52" 52] by (simp add: pow2_def [of 52])
  then have u: "?u * 2 ^ 52 \<le> x" using f64_exponent_le [OF x] by simp
  have "f64_of x - x = (of_int (round_half_even (x / ?u)) - x / ?u) * ?u"
    using x by (simp add: f64_of_def Let_def field_simps)
  then have "\<bar>f64_of x - x\<bar> = \<bar>of_int (round_half_even (x / ?u)) - x / ?u\<bar> * ?u"
    by (simp add: abs_mult abs_of_pos [OF pow2_pos])
  also have "\<dots> \<le> 1 / 2 * ?u"
    by (intro mult_right_mono round_half_even_error) (simp add: less_imp_le)
  also have "\<dots> \<le> x / 2 ^ 53" using u by simp
  finally show ?thesis .
qed (simp add: f64_of_def)

lemma f64_zero [simp]: "f64_of 0 = 0"
  by (simp add: f64_of_def)

lemma f64_bounds:
  assumes "x \<ge> 0"
  shows "f64_of x \<le> x * (1 + 1 / 2 ^ 53)" "x * (1 - 1 / 2 ^ 53) \<le> f64_of x" "f64_of x \<ge> 0"
proof -
  have e: "f64_of x - x \<le> x / 2 ^ 53" "x - f64_of x \<le> x / 2 ^ 53"
    using abs_le_D1 [OF f64_error [OF assms]] abs_le_D2 [OF f64_error [OF assms]] by linarith+
  then show "f64_of x \<le> x * (1 + 1 / 2 ^ 53)" "x * (1 - 1 / 2 ^ 53) \<le> f64_of x"
    by (simp_all add: field_simps)
  then show "f64_of x \<ge> 0" using assms e by (simp add: field_simps)
qed

end
