(* ===== verification/Subscription_Serving.thy ===== *)
theory Subscription_Serving
  imports Binary64 Subscription_Artifact "HOL-Library.AList"
begin

text \<open>
  \<open>src/subscription_serving.rs\<close>: the bounded HTTP server of the subscription artifact.  Instants and durations
  are integers of nanoseconds, a socket is its descriptor, a thread is its handle, and \<open>[u8; 32]\<close> digests are
  their lower case hex text, as in \<open>Subscription_Artifact\<close>.  The operating system, the other threads and the
  clock are the record \<open>net_host\<close>: each of its members is one call, a function of the state of the world that
  returns the changed world and the answer.  The crate \<open>httparse\<close> is the argument \<open>parse\<close>.  A poisoned mutex is
  entered all the same (\<open>lock\<close>), so locking always succeeds.
\<close>

section \<open>Constants\<close>

definition MAX_WORKERS :: nat where "MAX_WORKERS = 8"
definition MAX_HEADER_BYTES :: nat where "MAX_HEADER_BYTES = 8192"
definition NANOS_PER_SEC :: int where "NANOS_PER_SEC = 1000000000"
definition CONNECTION_TIMEOUT :: int where "CONNECTION_TIMEOUT = 5 * NANOS_PER_SEC"
definition OVERLOAD_TIMEOUT :: int where "OVERLOAD_TIMEOUT = 1 * NANOS_PER_SEC"
definition ACCEPT_POLL :: int where "ACCEPT_POLL = 10 * 1000000"
definition MAX_SOURCES :: nat where "MAX_SOURCES = 1024"
definition SOURCE_IDLE :: int where "SOURCE_IDLE = 600 * NANOS_PER_SEC"

datatype serving_code = Ready | Refused | Stopped | Failed

definition serving_code_text :: "serving_code \<Rightarrow> string" where
  "serving_code_text c =
     (case c of
        Ready \<Rightarrow> ''SUBSCRIPTION-SERVING-READY''
      | Refused \<Rightarrow> ''SUBSCRIPTION-SERVING-REFUSED''
      | Stopped \<Rightarrow> ''SUBSCRIPTION-SERVING-STOPPED''
      | Failed \<Rightarrow> ''SUBSCRIPTION-SERVING-FAILED'')"

section \<open>Generations and prepared states\<close>

record generation =
  gn_link_id :: string
  gn_credential_sha256 :: string

definition new_generation :: "string \<Rightarrow> string \<Rightarrow> serving_code + generation" where
  "new_generation link_id digest =
     (if length link_id \<noteq> 32 \<or> \<not> list_all lower_hex_byte link_id \<or> digest = replicate 64 CHR ''0''
      then Inl Refused
      else Inr \<lparr>gn_link_id = link_id, gn_credential_sha256 = digest\<rparr>)"

record serving_state =
  sv_ipv4 :: "nat list"
  sv_artifact :: bytes
  sv_generation :: generation

definition prepare_http :: "lib \<Rightarrow> connection_facts \<Rightarrow> generation \<Rightarrow> serving_code + serving_state" where
  "prepare_http L facts generation =
     (case subscription_artifact L facts of
        None \<Rightarrow> Inl Refused
      | Some artifact \<Rightarrow>
          Inr \<lparr>sv_ipv4 = cf_public_ipv4 facts, sv_artifact = artifact, sv_generation = generation\<rparr>)"

section \<open>The limiter of sources\<close>

record source =
  so_tokens :: rat
  so_refill :: int
  so_last :: int

type_synonym source_limiter = "(ip_addr \<times> source) list"

text \<open>\<open>Instant::saturating_duration_since\<close> and \<open>Duration::as_secs_f64\<close>.\<close>

definition saturating_since :: "int \<Rightarrow> int \<Rightarrow> int" where
  "saturating_since now earlier = max 0 (now - earlier)"

definition as_secs_f64 :: "int \<Rightarrow> rat" where
  "as_secs_f64 d =
     f64_of (f64_of (of_int (d div NANOS_PER_SEC)) + f64_of (of_int (d mod NANOS_PER_SEC) / of_int NANOS_PER_SEC))"

definition refilled :: "source \<Rightarrow> int \<Rightarrow> rat" where
  "refilled s now = min (f64_of (so_tokens s + f64_of (as_secs_f64 (saturating_since now (so_refill s)) / 10))) 6"

definition update_source :: "int \<Rightarrow> source \<Rightarrow> bool \<times> source" where
  "update_source now s =
     (let tokens = refilled s now;
          allowed = tokens \<ge> 1
      in (allowed, \<lparr>so_tokens = (if allowed then f64_of (tokens - 1) else tokens),
                    so_refill = max now (so_refill s), so_last = max now (so_last s)\<rparr>))"

text \<open>\<open>HashMap\<close> as its entries: \<open>retain\<close> is \<^const>\<open>filter\<close>, and \<open>entry\<close> finds or adds the key.\<close>

definition entry_or_insert :: "ip_addr \<Rightarrow> source \<Rightarrow> source_limiter \<Rightarrow> source_limiter" where
  "entry_or_insert ip s l = (if map_of l ip = None then (ip, s) # l else l)"

definition set_entry :: "ip_addr \<Rightarrow> source \<Rightarrow> source_limiter \<Rightarrow> source_limiter" where
  "set_entry ip s l = map (\<lambda>(k, v). (k, if k = ip then s else v)) l"

definition retain_sources :: "int \<Rightarrow> source_limiter \<Rightarrow> source_limiter" where
  "retain_sources now l = filter (\<lambda>(_, s). saturating_since now (so_last s) < SOURCE_IDLE) l"

definition allow :: "ip_addr \<Rightarrow> int \<Rightarrow> source_limiter \<Rightarrow> bool \<times> source_limiter" where
  "allow ip now l =
     (let l = retain_sources now l in
      if map_of l ip = None \<and> length l \<ge> MAX_SOURCES then (False, l)
      else let l = entry_or_insert ip \<lparr>so_tokens = 6, so_refill = now, so_last = now\<rparr> l;
               (allowed, s) = update_source now (the (map_of l ip))
           in (allowed, set_entry ip s l))"

text \<open>\<open>IpAddr::to_canonical\<close>.\<close>

definition to_canonical :: "ip_addr \<Rightarrow> ip_addr" where
  "to_canonical a =
     (case a of
        V4 os \<Rightarrow> V4 os
      | V6 gs \<Rightarrow> (case to_ipv4_mapped gs of Some os \<Rightarrow> V4 os | None \<Rightarrow> V6 gs))"

section \<open>Requests\<close>

definition lf :: char where "lf = CHR 0x0A"
definition cr :: char where "cr = CHR 0x0D"

definition windows_any :: "nat \<Rightarrow> (bytes \<Rightarrow> bool) \<Rightarrow> bytes \<Rightarrow> bool" where
  "windows_any n p s = list_ex (\<lambda>i. p (take n (drop i s))) [0 ..< length s + 1 - n]"

definition header_complete :: "bytes \<Rightarrow> bool" where
  "header_complete s = (windows_any 2 (\<lambda>part. part = [lf, lf]) s \<or> windows_any 3 (\<lambda>part. part = [lf, cr, lf]) s)"

text \<open>What \<open>httparse\<close> leaves in a \<open>Request\<close> that it parsed completely, with the offset where the header ends.\<close>

record http_request =
  hr_end :: nat
  hr_method :: "string option"
  hr_version :: "nat option"
  hr_path :: "string option"
  hr_headers :: "(string \<times> bytes) list"

definition to_ascii_lowercase :: "char \<Rightarrow> char" where
  "to_ascii_lowercase c = (if is_ascii_uppercase c then char_of (of_char c + 32 :: nat) else c)"

definition eq_ignore_ascii_case :: "string \<Rightarrow> string \<Rightarrow> bool" where
  "eq_ignore_ascii_case a b = (map to_ascii_lowercase a = map to_ascii_lowercase b)"

definition is_ascii_whitespace :: "char \<Rightarrow> bool" where
  "is_ascii_whitespace c = (c \<in> {CHR '' '', CHR 0x09, CHR 0x0A, CHR 0x0C, CHR 0x0D})"

definition trim_ascii :: "bytes \<Rightarrow> bytes" where
  "trim_ascii s = rev (dropWhile is_ascii_whitespace (rev (dropWhile is_ascii_whitespace s)))"

text \<open>The loop over the headers: \<open>None\<close> is an early \<open>return false\<close>; the state is \<open>host\<close> and \<open>content_length\<close>.\<close>

fun scan_headers ::
  "(string \<times> bytes) list \<Rightarrow> bytes option \<Rightarrow> bytes option \<Rightarrow> (bytes option \<times> bytes option) option" where
  "scan_headers [] host content_length = Some (host, content_length)"
| "scan_headers ((name, raw) # hs) host content_length =
     (let v = trim_ascii raw in
      if eq_ignore_ascii_case name ''Host'' then
        (if host \<noteq> None \<or> v = [] then None else scan_headers hs (Some v) content_length)
      else if eq_ignore_ascii_case name ''Content-Length'' then
        (if v = [] \<or> list_ex (\<lambda>b. b \<noteq> CHR ''0'') v \<or> is_some_and (\<lambda>old. old \<noteq> v) content_length
         then None else scan_headers hs host (Some v))
      else if eq_ignore_ascii_case name ''Transfer-Encoding'' then None
      else scan_headers hs host content_length)"

definition serve_authorized :: "lib \<Rightarrow> (bytes \<Rightarrow> http_request option) \<Rightarrow> bytes \<Rightarrow> serving_state \<Rightarrow> bool" where
  "serve_authorized L parse bytes state =
     (case parse bytes of
        None \<Rightarrow> False
      | Some request \<Rightarrow>
          if \<not> hr_end request \<le> MAX_HEADER_BYTES \<or> hr_method request \<noteq> Some ''GET''
             \<or> hr_version request \<noteq> Some 1
          then False
          else case scan_headers (hr_headers request) None None of
                 None \<Rightarrow> False
               | Some (host, _) \<Rightarrow>
                   if host = None then False
                   else case Option.bind (hr_path request) (strip_prefix ''/s/'') of
                          None \<Rightarrow> False
                        | Some token \<Rightarrow>
                            if parse_credential token = None then False
                            else sha256_hex L token = gn_credential_sha256 (sv_generation state))"

section \<open>The responses\<close>

definition show_usize :: "nat \<Rightarrow> string" where
  "show_usize n = digits_in 10 20 n"

definition status_text :: "nat \<Rightarrow> string" where
  "status_text status =
     (if status = 200 then ''OK''
      else if status = 429 then ''Too Many Requests''
      else if status = 503 then ''Service Unavailable''
      else ''Not Found'')"

definition response_body :: "nat \<Rightarrow> bytes \<Rightarrow> bytes" where
  "response_body status artifact = (if status = 200 then artifact else status_text status @ [lf])"

definition crlf :: string where "crlf = [cr, lf]"

definition response_header :: "nat \<Rightarrow> bytes \<Rightarrow> bytes" where
  "response_header status artifact =
     ''HTTP/1.1 '' @ show_usize status @ '' '' @ status_text status @ crlf
     @ ''Content-Type: text/plain; charset=utf-8'' @ crlf @ ''Cache-Control: no-store'' @ crlf
     @ ''X-Content-Type-Options: nosniff'' @ crlf
     @ (if status = 429 \<or> status = 503 then ''Retry-After: 10'' @ crlf else [])
     @ ''Content-Length: '' @ show_usize (length (response_body status artifact)) @ crlf
     @ ''Connection: close'' @ crlf @ crlf"

section \<open>Cancellation\<close>

record stop_state =
  st_cancelled :: bool
  st_next_id :: u64
  st_sockets :: "(u64 \<times> nat) list"

definition new_stop :: stop_state where
  "new_stop = \<lparr>st_cancelled = False, st_next_id = 0, st_sockets = []\<rparr>"

record connection =
  cn_stream :: nat
  cn_id :: u64

definition checked_succ :: "u64 \<Rightarrow> u64 option" where
  "checked_succ n = (if n = - 1 then None else Some (n + 1))"

text \<open>
  \<open>register\<close> after its two calls: \<open>Ok(None)\<close> and \<open>Err(())\<close> are the two failures; the insertion into the
  \<open>BTreeMap\<close> is at the fresh number \<open>next_id\<close>.
\<close>

datatype registration = Registered connection | AlreadyCancelled | RegistrationError

definition register_state :: "nat \<Rightarrow> nat \<Rightarrow> stop_state \<Rightarrow> registration \<times> stop_state" where
  "register_state stream cloned st =
     (let id = st_next_id st in
      case checked_succ id of
        None \<Rightarrow> (RegistrationError, st)
      | Some n \<Rightarrow>
          (Registered \<lparr>cn_stream = stream, cn_id = id\<rparr>,
           st\<lparr>st_next_id := n, st_sockets := AList.update id cloned (st_sockets st)\<rparr>))"

definition cancel_state :: "stop_state \<Rightarrow> stop_state" where
  "cancel_state st = st\<lparr>st_cancelled := True\<rparr>"

definition drop_state :: "u64 \<Rightarrow> stop_state \<Rightarrow> stop_state" where
  "drop_state i st = st\<lparr>st_sockets := AList.delete i (st_sockets st)\<rparr>"

section \<open>The world\<close>

datatype read_answer = Received bytes | ReadInterrupted | ReadFailed
datatype write_answer = Wrote nat | WriteInterrupted | WriteFailed
datatype accept_answer = Accepted nat ip_addr | WouldBlock | AcceptInterrupted | AcceptFailed

record 'w net_host =
  nh_now :: "'w \<Rightarrow> 'w \<times> int"
  nh_lock_stop :: "'w \<Rightarrow> 'w \<times> stop_state"
  nh_unlock_stop :: "stop_state \<Rightarrow> 'w \<Rightarrow> 'w"
  nh_wait_timeout :: "stop_state \<Rightarrow> int \<Rightarrow> 'w \<Rightarrow> 'w"
  nh_notify :: "'w \<Rightarrow> 'w"
  nh_shutdown :: "nat \<Rightarrow> 'w \<Rightarrow> 'w"
  nh_set_blocking :: "nat \<Rightarrow> 'w \<Rightarrow> 'w \<times> bool"
  nh_try_clone :: "nat \<Rightarrow> 'w \<Rightarrow> 'w \<times> nat option"
  nh_set_read_timeout :: "nat \<Rightarrow> int \<Rightarrow> 'w \<Rightarrow> 'w \<times> bool"
  nh_read :: "nat \<Rightarrow> nat \<Rightarrow> 'w \<Rightarrow> 'w \<times> read_answer"
  nh_set_write_timeout :: "nat \<Rightarrow> int \<Rightarrow> 'w \<Rightarrow> 'w \<times> bool"
  nh_write :: "nat \<Rightarrow> bytes \<Rightarrow> 'w \<Rightarrow> 'w \<times> write_answer"
  nh_lock_limiter :: "'w \<Rightarrow> 'w \<times> source_limiter"
  nh_unlock_limiter :: "source_limiter \<Rightarrow> 'w \<Rightarrow> 'w"
  nh_local_ip :: "'w \<Rightarrow> 'w \<times> ip_addr option"
  nh_set_nonblocking :: "'w \<Rightarrow> 'w \<times> bool"
  nh_accept :: "'w \<Rightarrow> 'w \<times> accept_answer"
  nh_close_listener :: "'w \<Rightarrow> 'w"
  nh_is_finished :: "nat \<Rightarrow> 'w \<Rightarrow> 'w \<times> bool"
  nh_join :: "nat \<Rightarrow> 'w \<Rightarrow> 'w \<times> bool"
  nh_spawn :: "connection \<Rightarrow> serving_state \<Rightarrow> ip_addr \<Rightarrow> int \<Rightarrow> 'w \<Rightarrow> 'w \<times> nat option"

definition is_cancelled :: "'w net_host \<Rightarrow> 'w \<Rightarrow> 'w \<times> bool" where
  "is_cancelled H w = (let (w, st) = nh_lock_stop H w in (nh_unlock_stop H st w, st_cancelled st))"

definition cancel :: "'w net_host \<Rightarrow> 'w \<Rightarrow> 'w" where
  "cancel H w =
     (let (w, st) = nh_lock_stop H w;
          st = cancel_state st;
          w = fold (\<lambda>(_, stream). nh_shutdown H stream) (st_sockets st) w;
          w = nh_notify H w
      in nh_unlock_stop H st w)"

definition register :: "'w net_host \<Rightarrow> nat \<Rightarrow> 'w \<Rightarrow> 'w \<times> registration" where
  "register H stream w =
     (let (w, st) = nh_lock_stop H w in
      if st_cancelled st then (nh_unlock_stop H st w, AlreadyCancelled)
      else let (w, ok) = nh_set_blocking H stream w in
        if \<not> ok then (nh_unlock_stop H st w, RegistrationError)
        else let (w, cloned) = nh_try_clone H stream w in
          case cloned of
            None \<Rightarrow> (nh_unlock_stop H st w, RegistrationError)
          | Some cloned \<Rightarrow>
              let (r, st) = register_state stream cloned st in (nh_unlock_stop H st w, r))"

text \<open>\<open>wait_timeout\<close> takes the guard and gives the lock up while it waits.\<close>

definition stop_wait :: "'w net_host \<Rightarrow> int \<Rightarrow> 'w \<Rightarrow> 'w" where
  "stop_wait H timeout w =
     (let (w, st) = nh_lock_stop H w in
      if \<not> st_cancelled st then nh_wait_timeout H st timeout w else nh_unlock_stop H st w)"

definition drop_connection :: "'w net_host \<Rightarrow> connection \<Rightarrow> 'w \<Rightarrow> 'w" where
  "drop_connection H c w =
     (let w = nh_shutdown H (cn_stream c) w;
          (w, st) = nh_lock_stop H w
      in nh_unlock_stop H (drop_state (cn_id c) st) w)"

section \<open>One connection\<close>

text \<open>\<open>checked_duration_since(now).filter(!is_zero)\<close>: what is left of a deadline, if anything.\<close>

definition remaining_time :: "int \<Rightarrow> int \<Rightarrow> int option" where
  "remaining_time deadline now = (if deadline - now > 0 then Some (deadline - now) else None)"

definition set_read_deadline :: "'w net_host \<Rightarrow> nat \<Rightarrow> int \<Rightarrow> 'w \<Rightarrow> 'w \<times> bool" where
  "set_read_deadline H stream deadline w =
     (let (w, now) = nh_now H w in
      case remaining_time deadline now of
        None \<Rightarrow> (w, False)
      | Some remaining \<Rightarrow> nh_set_read_timeout H stream remaining w)"

text \<open>
  The reading loop of \<open>respond\<close>: the answer is \<open>authenticated\<close>.  The kernel copies at most the rest of the buffer.
  \<open>None\<close> is a loop that never ends.
\<close>

partial_function (option) read_request ::
  "lib \<Rightarrow> (bytes \<Rightarrow> http_request option) \<Rightarrow> 'w net_host \<Rightarrow> nat \<Rightarrow> serving_state \<Rightarrow> int \<Rightarrow> bytes \<Rightarrow> 'w
   \<Rightarrow> ('w \<times> bool) option" where
  "read_request L parse H stream state deadline bytes w =
     (case is_cancelled H w of (w, cancelled) \<Rightarrow>
      if cancelled then Some (w, False)
      else case set_read_deadline H stream deadline w of (w, ok) \<Rightarrow>
        if \<not> ok then Some (w, False)
        else case nh_read H stream (MAX_HEADER_BYTES - length bytes) w of (w, answer) \<Rightarrow>
          (case answer of
             ReadFailed \<Rightarrow> Some (w, False)
           | ReadInterrupted \<Rightarrow> read_request L parse H stream state deadline bytes w
           | Received part \<Rightarrow>
               let part = take (MAX_HEADER_BYTES - length bytes) part; bytes = bytes @ part in
               if part = [] then Some (w, False)
               else if header_complete bytes then Some (w, serve_authorized L parse bytes state)
               else if length bytes = MAX_HEADER_BYTES then Some (w, False)
               else read_request L parse H stream state deadline bytes w))"

text \<open>The inner loop of \<open>write_response\<close>: whether the bytes were all written.\<close>

partial_function (option) write_part :: "'w net_host \<Rightarrow> nat \<Rightarrow> int \<Rightarrow> bytes \<Rightarrow> 'w \<Rightarrow> ('w \<times> bool) option" where
  "write_part H stream deadline bytes w =
     (if bytes = [] then Some (w, True)
      else case nh_now H w of (w, now) \<Rightarrow>
        (case remaining_time deadline now of
           None \<Rightarrow> Some (w, False)
         | Some remaining \<Rightarrow>
             (case is_cancelled H w of (w, cancelled) \<Rightarrow>
              if cancelled then Some (w, False)
              else case nh_set_write_timeout H stream remaining w of (w, ok) \<Rightarrow>
                if \<not> ok then Some (w, False)
                else case nh_write H stream bytes w of (w, answer) \<Rightarrow>
                  (case answer of
                     WriteFailed \<Rightarrow> Some (w, False)
                   | WriteInterrupted \<Rightarrow> write_part H stream deadline bytes w
                   | Wrote n \<Rightarrow>
                       if n = 0 then Some (w, False)
                       else write_part H stream deadline (drop n bytes) w))))"

definition write_response :: "'w net_host \<Rightarrow> nat \<Rightarrow> nat \<Rightarrow> bytes \<Rightarrow> int \<Rightarrow> 'w \<Rightarrow> 'w option" where
  "write_response H stream status artifact deadline w = do {
     (w, ok) \<leftarrow> write_part H stream deadline (response_header status artifact) w;
     (if \<not> ok then Some w
      else do {
        (w, _) \<leftarrow> write_part H stream deadline (response_body status artifact) w;
        Some w
      })
   }"

text \<open>\<open>respond\<close> owns the connection and drops it when it returns.\<close>

definition respond ::
  "lib \<Rightarrow> (bytes \<Rightarrow> http_request option) \<Rightarrow> 'w net_host \<Rightarrow> connection \<Rightarrow> serving_state \<Rightarrow> ip_addr \<Rightarrow> int \<Rightarrow> int
   \<Rightarrow> 'w \<Rightarrow> 'w option" where
  "respond L parse H connection state remote now deadline w = do {
     let stream = cn_stream connection;
     let (w, limiter) = nh_lock_limiter H w;
     let (allowed, limiter) = allow (to_canonical remote) now limiter;
     let w = nh_unlock_limiter H limiter w;
     w \<leftarrow>
       (if \<not> allowed then write_response H stream 429 [] deadline w
        else do {
          (w, authenticated) \<leftarrow> read_request L parse H stream state deadline [] w;
          let (w, cancelled) = (if authenticated then is_cancelled H w else (w, True));
          (if authenticated \<and> \<not> cancelled then write_response H stream 200 (sv_artifact state) deadline w
           else write_response H stream 404 [] deadline w)
        });
     Some (drop_connection H connection w)
   }"

section \<open>The session\<close>

text \<open>
  \<open>join_finished\<close>: finished threads are joined, with \<open>swap_remove\<close> moving the last handle into the gap.
\<close>

definition swap_remove :: "'a list \<Rightarrow> nat \<Rightarrow> 'a list" where
  "swap_remove xs i = (if i = length xs - 1 then butlast xs else (butlast xs)[i := last xs])"

function join_from :: "'w net_host \<Rightarrow> nat \<Rightarrow> nat list \<Rightarrow> bool \<Rightarrow> 'w \<Rightarrow> 'w \<times> bool \<times> nat list" where
  "join_from H i workers success w =
     (if i < length workers then
        (case nh_is_finished H (workers ! i) w of (w, finished) \<Rightarrow>
         if finished then
           (case nh_join H (workers ! i) w of (w, ok) \<Rightarrow>
              join_from H i (swap_remove workers i) (success \<and> ok) w)
         else join_from H (Suc i) workers success w)
      else (w, success, workers))"
  by pat_completeness auto
termination
  by (relation "measure (\<lambda>(H, i, workers, success, w). length workers - i)") (auto simp: swap_remove_def)

declare join_from.simps [simp del]

definition join_finished :: "'w net_host \<Rightarrow> nat list \<Rightarrow> 'w \<Rightarrow> 'w \<times> bool \<times> nat list" where
  "join_finished H workers w = join_from H 0 workers True w"

text \<open>
  The end of a turn of the accept loop: the response to an overload, or a thread for the connection.  A thread that
  cannot be started drops its closure, and the connection with it.
\<close>

definition handle_connection ::
  "'w net_host \<Rightarrow> serving_state \<Rightarrow> connection \<Rightarrow> ip_addr \<Rightarrow> bool \<Rightarrow> int \<Rightarrow> nat list \<Rightarrow> 'w
   \<Rightarrow> ('w \<times> serving_code option \<times> nat list) option" where
  "handle_connection H state connection remote overloaded deadline workers w =
     (if overloaded then do {
        w \<leftarrow> write_response H (cn_stream connection) 503 [] deadline w;
        Some (drop_connection H connection w, None, workers)
      }
      else do {
        let (w, worker) = nh_spawn H connection state remote deadline w;
        (case worker of
           Some worker \<Rightarrow> Some (w, None, workers @ [worker])
         | None \<Rightarrow> Some (drop_connection H connection w, Some Failed, workers))
      })"

text \<open>
  One turn of the loop of \<open>accept\<close>: a final code, or the threads to go on with.  \<open>None\<close> is a turn that never
  ends, which only the response to an overload can be.  \<open>nh_spawn\<close> starts a thread that reads the clock of the
  module and runs \<open>respond\<close> on the connection.
\<close>

definition accept_turn ::
  "'w net_host \<Rightarrow> serving_state \<Rightarrow> nat list \<Rightarrow> 'w \<Rightarrow> ('w \<times> serving_code option \<times> nat list) option" where
  "accept_turn H state workers w = do {
     let (w, cancelled) = is_cancelled H w;
     (if cancelled then Some (w, Some Stopped, workers)
      else do {
        let (w, success, workers) = join_finished H workers w;
        (if \<not> success then Some (w, Some Failed, workers)
         else do {
           let (w, answer) = nh_accept H w;
           (case answer of
              WouldBlock \<Rightarrow> Some (stop_wait H ACCEPT_POLL w, None, workers)
            | AcceptInterrupted \<Rightarrow> Some (w, None, workers)
            | AcceptFailed \<Rightarrow> Some (w, Some Failed, workers)
            | Accepted stream remote \<Rightarrow> do {
                let (w, success, workers) = join_finished H workers w;
                (if \<not> success then Some (w, Some Failed, workers)
                 else do {
                   let overloaded = length workers \<ge> MAX_WORKERS;
                   let (w, now) = nh_now H w;
                   let deadline = now + (if overloaded then OVERLOAD_TIMEOUT else CONNECTION_TIMEOUT);
                   let (w, registration) = register H stream w;
                   (case registration of
                      AlreadyCancelled \<Rightarrow> Some (w, Some Stopped, workers)
                    | RegistrationError \<Rightarrow> Some (w, Some Failed, workers)
                    | Registered connection \<Rightarrow>
                        handle_connection H state connection remote overloaded deadline workers w)
                 })
              })
         })
      })
   }"

partial_function (option) accept ::
  "'w net_host \<Rightarrow> serving_state \<Rightarrow> nat list \<Rightarrow> 'w \<Rightarrow> ('w \<times> serving_code \<times> nat list) option" where
  "accept H state workers w =
     (case accept_turn H state workers w of
        None \<Rightarrow> None
      | Some (w, Some code, workers) \<Rightarrow> Some (w, code, workers)
      | Some (w, None, workers) \<Rightarrow> accept H state workers w)"

fun join_all :: "'w net_host \<Rightarrow> nat list \<Rightarrow> bool \<Rightarrow> 'w \<Rightarrow> 'w \<times> bool" where
  "join_all H [] joined w = (w, joined)"
| "join_all H (t # ts) joined w = (case nh_join H t w of (w, ok) \<Rightarrow> join_all H ts (joined \<and> ok) w)"

text \<open>
  \<open>RuntimeState\<close>: an \<open>Arc<State>\<close> is the number of its allocation and the state behind it, so that
  \<open>Arc::ptr_eq\<close> compares the numbers.
\<close>

record runtime_state =
  rt_loaded :: "(nat \<times> serving_state) option"
  rt_running :: bool

datatype runtime = RuntimeUnknown | RuntimeServing | RuntimeStopped

definition runtime_text :: "runtime \<Rightarrow> string" where
  "runtime_text r =
     (case r of RuntimeUnknown \<Rightarrow> ''cannot be verified'' | RuntimeServing \<Rightarrow> ''serving'' | RuntimeStopped \<Rightarrow> ''stopped'')"

record serving_facts =
  sf_code :: serving_code
  sf_link_id :: string
  sf_runtime :: runtime

definition new_runtime :: runtime_state where
  "new_runtime = \<lparr>rt_loaded = None, rt_running = False\<rparr>"

definition serving_inspect :: "runtime_state \<Rightarrow> nat \<times> serving_state \<Rightarrow> serving_facts" where
  "serving_inspect rt state =
     \<lparr>sf_code = Ready, sf_link_id = gn_link_id (sv_generation (snd state)),
      sf_runtime =
        (if is_some_and (\<lambda>old. fst old = fst state) (rt_loaded rt)
         then (if rt_running rt then RuntimeServing else RuntimeStopped)
         else RuntimeUnknown)\<rparr>"

text \<open>
  \<open>serve\<close> up to the accept loop, the loop, and what follows it.  The first returns the code of a refusal or the
  runtime that was claimed for this session.
\<close>

definition serve_claim ::
  "'w net_host \<Rightarrow> nat \<times> serving_state \<Rightarrow> runtime_state \<Rightarrow> 'w \<Rightarrow> 'w \<times> (serving_code + runtime_state)" where
  "serve_claim H state rt w =
     (let (w, ip) = nh_local_ip H w in
      if ip \<noteq> Some (V4 (sv_ipv4 (snd state))) then (nh_close_listener H w, Inl Refused)
      else let (w, ok) = nh_set_nonblocking H w in
        if \<not> ok then (nh_close_listener H w, Inl Failed)
        else if rt_running rt then (nh_close_listener H w, Inl Refused)
        else (w, Inr (rt\<lparr>rt_loaded := Some state, rt_running := True\<rparr>)))"

definition serve ::
  "'w net_host \<Rightarrow> nat \<times> serving_state \<Rightarrow> runtime_state \<Rightarrow> 'w \<Rightarrow> ('w \<times> runtime_state \<times> serving_code) option" where
  "serve H state rt w =
     (case serve_claim H state rt w of
        (w, Inl code) \<Rightarrow> Some (w, rt, code)
      | (w, Inr rt) \<Rightarrow> do {
          (w, result, workers) \<leftarrow> accept H (snd state) [] w;
          let w = nh_close_listener H w;
          let w = cancel H w;
          let (w, joined) = join_all H workers True w;
          Some (w, rt\<lparr>rt_running := False\<rparr>, if joined then result else Failed)
        })"

end
