(* ===== verification/Limiter_Laws.thy ===== *)
theory Limiter_Laws
  imports Subscription_Serving
begin

text \<open>
  The limiter of \<open>src/subscription_serving.rs\<close>: its invariant, a potential argument for the number of requests
  that one source is admitted in a window of time, and when a source is admitted.  One token is worth ten
  seconds; the rounding of one call is below \<open>rounding\<close>.
\<close>

section \<open>The invariant\<close>

definition source_ok :: "source \<Rightarrow> bool" where
  "source_ok s = (0 \<le> so_tokens s \<and> so_tokens s \<le> 6 \<and> so_refill s = so_last s)"

definition limiter_ok :: "source_limiter \<Rightarrow> bool" where
  "limiter_ok l = (distinct (map fst l) \<and> length l \<le> MAX_SOURCES \<and> list_all (source_ok \<circ> snd) l)"

lemma refilled_bounds: "source_ok s \<Longrightarrow> 0 \<le> refilled s now \<and> refilled s now \<le> 6"
  by (auto simp: refilled_def source_ok_def as_secs_f64_def min_def saturating_since_def NANOS_PER_SEC_def
      intro!: f64_bounds(3) add_nonneg_nonneg divide_nonneg_nonneg)

lemma spend_bounds:
  assumes "1 \<le> t" "t \<le> 6"
  shows "0 \<le> f64_of (t - 1)" "f64_of (t - 1) \<le> t - 1 + 5 / 2 ^ 53"
proof -
  have t: "t - 1 \<ge> 0" using assms by simp
  show "0 \<le> f64_of (t - 1)" using f64_bounds(3) [OF t] .
  have "f64_of (t - 1) - (t - 1) \<le> (t - 1) / 2 ^ 53"
    using abs_le_D1 [OF f64_error [OF t]] .
  also have "\<dots> \<le> 5 / 2 ^ 53" using assms by (intro divide_right_mono) auto
  finally show "f64_of (t - 1) \<le> t - 1 + 5 / 2 ^ 53" by linarith
qed

lemma update_source_ok: "source_ok s \<Longrightarrow> source_ok (snd (update_source now s))"
  using refilled_bounds [of s now] spend_bounds [of "refilled s now"]
  by (auto simp: update_source_def Let_def source_ok_def)

lemma retain_ok: "limiter_ok l \<Longrightarrow> limiter_ok (retain_sources now l)"
  by (auto simp: limiter_ok_def retain_sources_def list_all_iff distinct_map_filter
      intro: le_trans [OF length_filter_le])

lemma set_entry_fst [simp]: "map fst (set_entry ip s l) = map fst l"
  by (induction l) (auto simp: set_entry_def)

lemma length_set_entry [simp]: "length (set_entry ip s l) = length l"
  by (simp add: set_entry_def)

lemma map_of_set_entry:
  "map_of (set_entry ip s l) k = (if k = ip then map_option (\<lambda>_. s) (map_of l k) else map_of l k)"
  by (induction l) (auto simp: set_entry_def)

lemma source_ok_at: "limiter_ok l \<Longrightarrow> map_of l ip = Some s \<Longrightarrow> source_ok s"
  by (auto simp: limiter_ok_def list_all_iff dest!: map_of_SomeD)

lemma set_entry_ok:
  "distinct (map fst l) \<Longrightarrow> length l \<le> MAX_SOURCES \<Longrightarrow> list_all (source_ok \<circ> snd) l \<Longrightarrow> source_ok s
   \<Longrightarrow> limiter_ok (set_entry ip s l)"
  by (auto simp: limiter_ok_def list_all_iff set_entry_def comp_def case_prod_beta)

text \<open>The entry that a call works on.\<close>

definition entry_at :: "ip_addr \<Rightarrow> int \<Rightarrow> source_limiter \<Rightarrow> source" where
  "entry_at ip now l =
     (case map_of (retain_sources now l) ip of
        Some s \<Rightarrow> s | None \<Rightarrow> \<lparr>so_tokens = 6, so_refill = now, so_last = now\<rparr>)"

definition has_room :: "ip_addr \<Rightarrow> int \<Rightarrow> source_limiter \<Rightarrow> bool" where
  "has_room ip now l = (map_of (retain_sources now l) ip \<noteq> None \<or> length (retain_sources now l) < MAX_SOURCES)"

lemma allow_cases:
  "fst (allow ip now l) = (has_room ip now l \<and> refilled (entry_at ip now l) now \<ge> 1)"
  "map_of (snd (allow ip now l)) k =
     (if has_room ip now l \<and> k = ip then Some (snd (update_source now (entry_at ip now l)))
      else map_of (retain_sources now l) k)"
  by (auto simp: allow_def Let_def has_room_def entry_at_def entry_or_insert_def update_source_def map_of_set_entry
      split: option.splits)

lemma entry_ok: "limiter_ok l \<Longrightarrow> source_ok (entry_at ip now l)"
  by (auto simp: entry_at_def source_ok_def split: option.splits dest!: source_ok_at [OF retain_ok])

lemma allow_ok:
  assumes "limiter_ok l"
  shows "limiter_ok (snd (allow ip now l))"
proof (cases "has_room ip now l")
  case True
  let ?l = "entry_or_insert ip \<lparr>so_tokens = 6, so_refill = now, so_last = now\<rparr> (retain_sources now l)"
  have r: "limiter_ok (retain_sources now l)" using assms by (rule retain_ok)
  have l: "distinct (map fst ?l)" "length ?l \<le> MAX_SOURCES" "list_all (source_ok \<circ> snd) ?l"
    using r True
    by (auto simp: entry_or_insert_def limiter_ok_def has_room_def map_of_eq_None_iff source_ok_def)
  have "snd (allow ip now l) = set_entry ip (snd (update_source now (entry_at ip now l))) ?l"
    using True by (auto simp: allow_def Let_def has_room_def entry_at_def entry_or_insert_def case_prod_beta
        split: option.splits)
  then show ?thesis
    using set_entry_ok [OF l update_source_ok [OF entry_ok [OF assms]]] by simp
next
  case False
  then show ?thesis using retain_ok [OF assms, of now] by (auto simp: allow_def Let_def has_room_def)
qed

section \<open>Rounding of one call\<close>

definition TOKEN_NANOS :: rat where "TOKEN_NANOS = 10000000000"
definition rounding :: rat where "rounding = 1 / 2 ^ 44"

lemma as_secs_bound:
  assumes "0 \<le> d"
  shows "0 \<le> as_secs_f64 d" "as_secs_f64 d \<le> of_int d / 1000000000 * (1 + 1 / 2 ^ 53) ^ 2"
    "of_int d / 1000000000 * (1 - 1 / 2 ^ 53) ^ 2 \<le> as_secs_f64 d"
proof -
  let ?s = "of_int (d div NANOS_PER_SEC) :: rat" and ?n = "of_int (d mod NANOS_PER_SEC) / of_int NANOS_PER_SEC :: rat"
  have pos: "?s \<ge> 0" "?n \<ge> 0" using assms by (auto simp: NANOS_PER_SEC_def pos_imp_zdiv_nonneg_iff)
  have "(of_int d :: rat) = of_int (d div NANOS_PER_SEC * NANOS_PER_SEC + d mod NANOS_PER_SEC)" by simp
  then have sum: "?s + ?n = of_int d / 1000000000"
    by (simp only: of_int_add of_int_mult) (simp add: NANOS_PER_SEC_def field_simps)
  let ?t = "f64_of ?s + f64_of ?n"
  have "?t \<le> ?s * (1 + 1 / 2 ^ 53) + ?n * (1 + 1 / 2 ^ 53)"
    using f64_bounds(1) [OF pos(1)] f64_bounds(1) [OF pos(2)] by (rule add_mono)
  then have hi: "?t \<le> of_int d / 1000000000 * (1 + 1 / 2 ^ 53)"
    by (simp only: sum [symmetric] distrib_right)
  have "?s * (1 - 1 / 2 ^ 53) + ?n * (1 - 1 / 2 ^ 53) \<le> ?t"
    using f64_bounds(2) [OF pos(1)] f64_bounds(2) [OF pos(2)] by (rule add_mono)
  then have lo: "of_int d / 1000000000 * (1 - 1 / 2 ^ 53) \<le> ?t"
    by (simp only: sum [symmetric] distrib_right)
  have t: "?t \<ge> 0" using f64_bounds(3) [OF pos(1)] f64_bounds(3) [OF pos(2)] by (rule add_nonneg_nonneg)
  show "0 \<le> as_secs_f64 d" unfolding as_secs_f64_def using f64_bounds(3) [OF t] .
  have "as_secs_f64 d \<le> ?t * (1 + 1 / 2 ^ 53)" unfolding as_secs_f64_def by (rule f64_bounds(1) [OF t])
  also have "\<dots> \<le> of_int d / 1000000000 * (1 + 1 / 2 ^ 53) * (1 + 1 / 2 ^ 53)"
    using hi by (rule mult_right_mono) simp
  finally show "as_secs_f64 d \<le> of_int d / 1000000000 * (1 + 1 / 2 ^ 53) ^ 2"
    by (simp only: power2_eq_square mult.assoc)
  have "of_int d / 1000000000 * (1 - 1 / 2 ^ 53) * (1 - 1 / 2 ^ 53) \<le> ?t * (1 - 1 / 2 ^ 53)"
    using lo by (rule mult_right_mono) simp
  also have "\<dots> \<le> as_secs_f64 d" unfolding as_secs_f64_def by (rule f64_bounds(2) [OF t])
  finally show "of_int d / 1000000000 * (1 - 1 / 2 ^ 53) ^ 2 \<le> as_secs_f64 d"
    by (simp only: power2_eq_square mult.assoc)
qed

lemma refill_bound:
  assumes "source_ok s" "saturating_since now (so_refill s) < SOURCE_IDLE"
  shows "refilled s now \<le> so_tokens s + of_int (saturating_since now (so_refill s)) / TOKEN_NANOS + 400 / 2 ^ 53"
proof -
  let ?d = "saturating_since now (so_refill s)" and ?e = "1 / 2 ^ 53 :: rat"
  have d: "0 \<le> ?d" by (simp add: saturating_since_def)
  let ?x = "of_int ?d / TOKEN_NANOS"
  have x: "0 \<le> ?x" "?x \<le> 60"
    using d assms(2) by (auto simp: TOKEN_NANOS_def SOURCE_IDLE_def NANOS_PER_SEC_def divide_le_eq)
  have a: "0 \<le> as_secs_f64 ?d / 10" "as_secs_f64 ?d / 10 \<le> ?x * (1 + ?e) ^ 2"
    using as_secs_bound(1,2) [OF d] by (auto simp: TOKEN_NANOS_def)
  have "f64_of (as_secs_f64 ?d / 10) \<le> as_secs_f64 ?d / 10 * (1 + ?e)" by (rule f64_bounds(1) [OF a(1)])
  also have "\<dots> \<le> ?x * (1 + ?e) ^ 2 * (1 + ?e)" using a(2) by (rule mult_right_mono) simp
  finally have b: "f64_of (as_secs_f64 ?d / 10) \<le> ?x * (1 + ?e) ^ 3" by (simp only: power3_eq_cube power2_eq_square mult.assoc)
  have t: "so_tokens s + f64_of (as_secs_f64 ?d / 10) \<ge> 0"
    using assms(1) f64_bounds(3) [OF a(1)] by (simp add: source_ok_def)
  have "refilled s now \<le> f64_of (so_tokens s + f64_of (as_secs_f64 ?d / 10))"
    by (simp add: refilled_def)
  also have "\<dots> \<le> (so_tokens s + f64_of (as_secs_f64 ?d / 10)) * (1 + ?e)" by (rule f64_bounds(1) [OF t])
  also have "\<dots> \<le> (so_tokens s + ?x * (1 + ?e) ^ 3) * (1 + ?e)" using b by (intro mult_right_mono add_left_mono) auto
  also have "\<dots> = so_tokens s + ?x + (so_tokens s * ?e + ?x * ((1 + ?e) ^ 4 - 1))"
    by (simp add: algebra_simps eval_nat_numeral)
  also have "so_tokens s * ?e + ?x * ((1 + ?e) ^ 4 - 1) \<le> 6 * ?e + 60 * ((1 + ?e) ^ 4 - 1)"
    using assms(1) x by (intro add_mono mult_right_mono) (auto simp: source_ok_def)
  also have "\<dots> \<le> 400 / 2 ^ 53" by (simp add: eval_nat_numeral)
  finally show ?thesis by (simp only: add.assoc [symmetric] add_left_mono)
qed

section \<open>Admissions in a window of time\<close>

text \<open>
  A run is a list of calls, each with its source and the instant of its worker; workers read the clock before they
  take the lock, so the instants need not be in order.  \<open>steady\<close> bounds how far an instant is behind the highest
  one so far.
\<close>

type_synonym calls = "(ip_addr \<times> int) list"

fun admissions :: "ip_addr \<Rightarrow> calls \<Rightarrow> source_limiter \<Rightarrow> nat" where
  "admissions ip [] l = 0"
| "admissions ip ((k, now) # cs) l =
     (case allow k now l of (allowed, l') \<Rightarrow> (if allowed \<and> k = ip then 1 else 0) + admissions ip cs l')"

fun steady :: "int \<Rightarrow> int \<Rightarrow> calls \<Rightarrow> bool" where
  "steady slack high [] = True"
| "steady slack high ((k, now) # cs) = (high - slack \<le> now \<and> steady slack (max high now) cs)"

definition calls_of :: "ip_addr \<Rightarrow> calls \<Rightarrow> nat" where
  "calls_of ip cs = length (filter (\<lambda>c. fst c = ip) cs)"

definition REVERSAL :: int where "REVERSAL = 540 * NANOS_PER_SEC"

text \<open>
  What the state still owes to the bound, when \<open>k\<close> of \<open>n\<close> calls of the source were admitted since \<open>a\<close> and \<open>high\<close>
  is the highest instant so far.
\<close>

definition owed :: "int \<Rightarrow> int \<Rightarrow> int \<Rightarrow> rat" where
  "owed a b t = (if t \<le> b then of_int (t - a) / TOKEN_NANOS else 0)"

definition within_bound :: "int \<Rightarrow> int \<Rightarrow> int \<Rightarrow> nat \<Rightarrow> nat \<Rightarrow> source option \<Rightarrow> bool" where
  "within_bound a b high k n entry =
     (k = 0 \<or>
      (case entry of
         Some s \<Rightarrow> a \<le> so_last s \<and> of_nat k + so_tokens s \<le> 6 + owed a b (so_last s) + of_nat n * rounding
       | None \<Rightarrow> of_nat k + 54 \<le> of_int (high - a) / TOKEN_NANOS + of_nat n * rounding))"

lemma within_bound_final:
  assumes "within_bound a b b k n entry" "a \<le> b" "is_none_or source_ok entry"
  shows "of_nat k \<le> 6 + of_int (b - a) / TOKEN_NANOS + of_nat n * rounding"
proof -
  have n: "0 \<le> of_nat n * rounding" by (simp add: rounding_def)
  have w: "0 \<le> of_int (b - a) / TOKEN_NANOS" using assms(2) by (simp add: TOKEN_NANOS_def)
  have o: "owed a b t \<le> of_int (b - a) / TOKEN_NANOS" for t
    using w by (auto simp: owed_def TOKEN_NANOS_def divide_right_mono)
  show ?thesis
  proof (cases entry)
    case None
    then show ?thesis using assms(1) n w by (auto simp: within_bound_def)
  next
    case (Some s)
    then show ?thesis using assms(1,3) n w o [of "so_last s"] by (auto simp: within_bound_def source_ok_def)
  qed
qed

text \<open>Idle entries are dropped by every call, whoever makes it.\<close>

lemma map_of_retain:
  "distinct (map fst l) \<Longrightarrow> map_of (retain_sources now l) k =
     (case map_of l k of None \<Rightarrow> None
      | Some s \<Rightarrow> if saturating_since now (so_last s) < SOURCE_IDLE then Some s else None)"
  by (induction l) (auto simp: retain_sources_def map_of_eq_None_iff split: option.splits dest: map_of_SomeD)

lemma retain_within:
  assumes "within_bound a b high k n (map_of l ip)" "limiter_ok l" "now \<le> b" "high \<le> b"
  shows "within_bound a b (max high now) k n (map_of (retain_sources now l) ip)"
proof (cases "map_of l ip")
  case None
  have "of_int (high - a) / TOKEN_NANOS \<le> of_int (max high now - a) / TOKEN_NANOS"
    by (simp add: TOKEN_NANOS_def divide_right_mono)
  then show ?thesis
    using assms None by (auto simp: within_bound_def map_of_retain limiter_ok_def)
next
  case (Some s)
  show ?thesis
  proof (cases "saturating_since now (so_last s) < SOURCE_IDLE \<or> k = 0")
    case True
    then show ?thesis using assms Some by (auto simp: within_bound_def map_of_retain limiter_ok_def)
  next
    case False
    then have idle: "so_last s + SOURCE_IDLE \<le> now"
      by (auto simp: saturating_since_def SOURCE_IDLE_def NANOS_PER_SEC_def)
    have "so_last s \<le> b" using idle assms(3) by (simp add: SOURCE_IDLE_def NANOS_PER_SEC_def)
    then have k: "of_nat k + so_tokens s \<le> 6 + of_int (so_last s - a) / TOKEN_NANOS + of_nat n * rounding"
      using assms(1) Some False by (simp add: within_bound_def owed_def)
    have "of_int (so_last s - a) \<le> (of_int (max high now - a - SOURCE_IDLE) :: rat)"
      using idle by (simp only: of_int_le_iff)
    then have "of_int (so_last s - a) / TOKEN_NANOS \<le> of_int (max high now - a - SOURCE_IDLE) / TOKEN_NANOS"
      by (rule divide_right_mono) (simp add: TOKEN_NANOS_def)
    also have "\<dots> = of_int (max high now - a) / TOKEN_NANOS - 60"
      by (simp add: TOKEN_NANOS_def SOURCE_IDLE_def NANOS_PER_SEC_def diff_divide_distrib)
    finally have "of_nat k + 54 \<le> of_int (max high now - a) / TOKEN_NANOS + of_nat n * rounding"
      using k source_ok_at [OF assms(2) Some] by (simp add: source_ok_def)
    then show ?thesis
      using False Some assms(2) by (simp add: within_bound_def map_of_retain limiter_ok_def)
  qed
qed

text \<open>The entry of a call is within the bound, also when it is new.\<close>

lemma entry_within:
  assumes "within_bound a b high k n (map_of l ip)" "limiter_ok l" "a \<le> now" "now \<le> b" "high \<le> b"
    "high - REVERSAL \<le> now"
  shows "within_bound a b (max high now) k n (Some (entry_at ip now l))"
proof (cases "map_of (retain_sources now l) ip")
  case None
  then have r: "k = 0 \<or> of_nat k + 54 \<le> of_int (max high now - a) / TOKEN_NANOS + of_nat n * rounding"
    using retain_within [OF assms(1,2,4,5)] by (simp add: within_bound_def)
  have "(of_int (max high now - a) :: rat) \<le> of_int (now - a + REVERSAL)"
    using assms(6) by (simp only: of_int_le_iff) (simp add: REVERSAL_def NANOS_PER_SEC_def)
  then have "of_int (max high now - a) / TOKEN_NANOS \<le> of_int (now - a + REVERSAL) / TOKEN_NANOS"
    by (rule divide_right_mono) (simp add: TOKEN_NANOS_def)
  also have "\<dots> = of_int (now - a) / TOKEN_NANOS + 54"
    by (simp add: TOKEN_NANOS_def REVERSAL_def NANOS_PER_SEC_def add_divide_distrib)
  finally show ?thesis using r None assms(3,4) by (auto simp: within_bound_def entry_at_def owed_def)
next
  case (Some s)
  then show ?thesis using retain_within [OF assms(1,2,4,5)] by (simp add: entry_at_def)
qed

lemma owed_advance:
  assumes "now \<le> b"
  shows "owed a b t + of_int (saturating_since now t) / TOKEN_NANOS = owed a b (max now t)"
  using assms by (auto simp: owed_def saturating_since_def max_def TOKEN_NANOS_def diff_divide_distrib)

lemma update_within:
  assumes "within_bound a b high k n (Some s)" "source_ok s" "saturating_since now (so_last s) < SOURCE_IDLE"
    "a \<le> now" "now \<le> b" "update_source now s = (allowed, s')"
  shows "within_bound a b high (k + (if allowed then 1 else 0)) (Suc n) (Some s')"
proof -
  let ?t = "refilled s now"
  have last: "so_last s' = max now (so_last s)" and allowed: "allowed = (?t \<ge> 1)"
    and tokens: "so_tokens s' = (if ?t \<ge> 1 then f64_of (?t - 1) else ?t)"
    using assms(6) by (auto simp: update_source_def Let_def)
  have t: "0 \<le> ?t" "?t \<le> 6" using refilled_bounds [OF assms(2), of now] by auto
  have refill: "so_refill s = so_last s" using assms(2) by (simp add: source_ok_def)
  have grow: "?t \<le> so_tokens s + of_int (saturating_since now (so_last s)) / TOKEN_NANOS + 400 / 2 ^ 53"
    using refill_bound [OF assms(2), of now] assms(3) by (simp only: refill)
  have spend: "of_nat (if allowed then 1 else 0) + so_tokens s' \<le> ?t + 5 / 2 ^ 53"
    using spend_bounds(2) [of ?t] t by (auto simp: allowed tokens)
  have small: "400 / 2 ^ 53 + 5 / 2 ^ 53 \<le> rounding" "5 / 2 ^ 53 \<le> rounding" "0 \<le> rounding" by (simp_all add: rounding_def)
  have n: "of_nat (Suc n) * rounding = of_nat n * rounding + rounding" by (simp add: algebra_simps)
  have nn: "0 \<le> of_nat n * rounding" using small(3) by simp
  show ?thesis
  proof (cases "k = 0")
    case True
    have "0 \<le> owed a b (so_last s')" using assms(4,5) last by (auto simp: owed_def TOKEN_NANOS_def)
    then have "of_nat (if allowed then 1 else 0) + so_tokens s' \<le> 6 + owed a b (so_last s') + of_nat (Suc n) * rounding"
      using spend t small nn unfolding n by linarith
    then show ?thesis using True assms(4) last by (auto simp: within_bound_def)
  next
    case False
    then have "of_nat k + so_tokens s \<le> 6 + owed a b (so_last s) + of_nat n * rounding"
      using assms(1) by (simp add: within_bound_def)
    then have "of_nat k + (of_nat (if allowed then 1 else 0) + so_tokens s')
        \<le> 6 + owed a b (so_last s') + of_nat (Suc n) * rounding"
      using spend grow small owed_advance [OF assms(5), of a "so_last s"] unfolding n last by linarith
    then show ?thesis using assms(4) last by (auto simp: within_bound_def add.assoc)
  qed
qed

lemma entry_fresh: "distinct (map fst l) \<Longrightarrow> saturating_since now (so_last (entry_at ip now l)) < SOURCE_IDLE"
  by (auto simp: entry_at_def map_of_retain saturating_since_def SOURCE_IDLE_def NANOS_PER_SEC_def split: option.splits)

lemma within_bound_more: "within_bound a b h k n e \<Longrightarrow> within_bound a b h k (Suc n) e"
proof -
  have "of_nat n * rounding \<le> of_nat (Suc n) * rounding" by (simp add: rounding_def)
  then show "within_bound a b h k n e \<Longrightarrow> within_bound a b h k (Suc n) e"
    unfolding within_bound_def by (cases e) force+
qed

lemma allow_within:
  assumes "within_bound a b high k n (map_of l ip)" "limiter_ok l" "a \<le> now" "now \<le> b" "high \<le> b"
    "high - REVERSAL \<le> now" "allow source now l = (allowed, l')"
  shows "within_bound a b (max high now) (k + (if allowed \<and> source = ip then 1 else 0))
    (n + (if source = ip then 1 else 0)) (map_of l' ip)"
proof (cases "source = ip \<and> has_room ip now l")
  case True
  let ?s = "entry_at ip now l"
  obtain ok s' where u: "update_source now ?s = (ok, s')" by (cases "update_source now ?s")
  have "map_of l' ip = Some s'" "allowed = ok"
    using allow_cases(2) [of ip now l ip] allow_cases(1) [of ip now l] True assms(7) u
    by (auto simp: update_source_def Let_def)
  moreover have "saturating_since now (so_last ?s) < SOURCE_IDLE"
    using assms(2) by (intro entry_fresh) (simp add: limiter_ok_def)
  ultimately show ?thesis
    using update_within [OF entry_within [OF assms(1-6)] entry_ok [OF assms(2)] _ assms(3,4) u] True by simp
next
  case False
  then have "map_of l' ip = map_of (retain_sources now l) ip" "source = ip \<Longrightarrow> \<not> allowed"
    using allow_cases(2) [of source now l ip] allow_cases(1) [of source now l] assms(7) by auto
  then show ?thesis
    using retain_within [OF assms(1,2,4,5)] by (auto intro: within_bound_more)
qed

lemma admissions_within:
  assumes "within_bound a b high k n (map_of l ip)" "limiter_ok l" "high \<le> b" "a \<le> b" "steady REVERSAL high cs"
    "\<forall>c\<in>set cs. a \<le> snd c \<and> snd c \<le> b"
  shows "of_nat (k + admissions ip cs l) \<le> 6 + of_int (b - a) / TOKEN_NANOS + of_nat (n + calls_of ip cs) * rounding"
  using assms
proof (induction cs arbitrary: high k n l)
  case Nil
  have "of_int (high - a) / TOKEN_NANOS \<le> of_int (b - a) / TOKEN_NANOS"
    using Nil.prems(3) by (simp add: TOKEN_NANOS_def divide_right_mono)
  then have "within_bound a b b k n (map_of l ip)"
    using Nil.prems(1) by (auto simp: within_bound_def split: option.splits)
  moreover have "is_none_or source_ok (map_of l ip)"
    using source_ok_at [OF Nil.prems(2)] by (simp add: is_none_or_iff)
  ultimately show ?case using within_bound_final [OF _ Nil.prems(4)] by (simp add: calls_of_def)
next
  case (Cons c cs)
  obtain source now where c: "c = (source, now)" by (cases c)
  obtain allowed l' where al: "allow source now l = (allowed, l')" by (cases "allow source now l")
  have in_window: "a \<le> now" "now \<le> b" "high - REVERSAL \<le> now" "steady REVERSAL (max high now) cs"
    using Cons.prems(5,6) by (auto simp: c)
  have step: "within_bound a b (max high now) (k + (if allowed \<and> source = ip then 1 else 0))
    (n + (if source = ip then 1 else 0)) (map_of l' ip)"
    using allow_within [OF Cons.prems(1,2) in_window(1,2) Cons.prems(3) in_window(3) al] .
  have ok: "limiter_ok l'" using allow_ok [OF Cons.prems(2), of source now] by (simp add: al)
  have hi: "max high now \<le> b" using Cons.prems(3) in_window(2) by simp
  have rest: "\<forall>c\<in>set cs. a \<le> snd c \<and> snd c \<le> b" using Cons.prems(6) by simp
  have counts: "k + admissions ip (c # cs) l = k + (if allowed \<and> source = ip then 1 else 0) + admissions ip cs l'"
    "n + calls_of ip (c # cs) = n + (if source = ip then 1 else 0) + calls_of ip cs"
    by (simp_all add: c al calls_of_def)
  show ?case
    unfolding counts using Cons.IH [OF step ok hi Cons.prems(4) in_window(4) rest] .
qed

section \<open>When a source is admitted\<close>

lemma refill_lower:
  assumes "source_ok s" "saturating_since now (so_refill s) \<ge> 10 * NANOS_PER_SEC + 1000"
  shows "refilled s now \<ge> 1"
proof -
  let ?d = "saturating_since now (so_refill s)" and ?e = "1 / 2 ^ 53 :: rat"
  have d: "0 \<le> ?d" by (simp add: saturating_since_def)
  let ?y = "of_int ?d / 1000000000 :: rat"
  have "of_int (10 * NANOS_PER_SEC + 1000) \<le> (of_int ?d :: rat)" using assms(2) by (simp only: of_int_le_iff)
  then have y: "?y \<ge> 10 + 1 / 1000000" by (simp add: NANOS_PER_SEC_def)
  have "1 \<le> (10 + 1 / 1000000) / 10 * (1 - ?e) ^ 2 * (1 - ?e) * (1 - ?e)" by (simp add: eval_nat_numeral)
  also have "\<dots> \<le> ?y / 10 * (1 - ?e) ^ 2 * (1 - ?e) * (1 - ?e)"
    using y by (intro mult_right_mono divide_right_mono) auto
  also have "\<dots> \<le> as_secs_f64 ?d / 10 * (1 - ?e) * (1 - ?e)"
    using as_secs_bound(3) [OF d] by (intro mult_right_mono) (auto simp: algebra_simps)
  also have "\<dots> \<le> f64_of (as_secs_f64 ?d / 10) * (1 - ?e)"
    using f64_bounds(2) [of "as_secs_f64 ?d / 10"] as_secs_bound(1) [OF d] by (intro mult_right_mono) auto
  also have "\<dots> \<le> (so_tokens s + f64_of (as_secs_f64 ?d / 10)) * (1 - ?e)"
    using assms(1) by (intro mult_right_mono) (auto simp: source_ok_def)
  also have "\<dots> \<le> f64_of (so_tokens s + f64_of (as_secs_f64 ?d / 10))"
    using assms(1) as_secs_bound(1) [OF d]
    by (intro f64_bounds(2) add_nonneg_nonneg f64_bounds(3)) (auto simp: source_ok_def)
  finally show ?thesis by (simp add: refilled_def)
qed

lemma f64_six [simp]: "f64_of 6 = 6"
  by code_simp

lemma refill_new: "refilled \<lparr>so_tokens = 6, so_refill = now, so_last = now\<rparr> now = 6"
  by (simp add: refilled_def saturating_since_def as_secs_f64_def NANOS_PER_SEC_def)

lemma allow_refused:
  assumes "limiter_ok l" "\<not> fst (allow ip now l)"
  shows "(case map_of (retain_sources now l) ip of
     None \<Rightarrow> length (retain_sources now l) = MAX_SOURCES
   | Some s \<Rightarrow> so_tokens s < 1 + rounding \<and> now < so_last s + 10 * NANOS_PER_SEC + 1000)"
proof (cases "map_of (retain_sources now l) ip")
  case None
  then show ?thesis
    using assms retain_ok [OF assms(1), of now]
    by (auto simp: allow_cases(1) entry_at_def refill_new has_room_def limiter_ok_def)
next
  case (Some s)
  then have s: "source_ok s" "\<not> refilled s now \<ge> 1"
    using assms source_ok_at [OF retain_ok [OF assms(1)]] by (auto simp: allow_cases(1) entry_at_def has_room_def)
  have "saturating_since now (so_refill s) < 10 * NANOS_PER_SEC + 1000"
    using refill_lower [OF s(1)] s(2) by (meson not_le)
  then have late: "now < so_last s + 10 * NANOS_PER_SEC + 1000"
    using s(1) by (auto simp: saturating_since_def source_ok_def)
  let ?x = "so_tokens s + f64_of (as_secs_f64 (saturating_since now (so_refill s)) / 10)"
  have g: "0 \<le> f64_of (as_secs_f64 (saturating_since now (so_refill s)) / 10)"
    by (intro f64_bounds(3) divide_nonneg_nonneg as_secs_bound(1)) (auto simp: saturating_since_def)
  then have "?x \<ge> 0" using s(1) by (simp add: source_ok_def)
  then have "?x * (1 - 1 / 2 ^ 53) \<le> f64_of ?x" by (rule f64_bounds(2))
  also have "\<dots> < 1" using s(2) by (auto simp: refilled_def)
  finally have "so_tokens s * (1 - 1 / 2 ^ 53) < 1"
    using mult_right_mono [of "so_tokens s" ?x "1 - 1 / 2 ^ 53"] g by simp
  then have "so_tokens s < 1 + rounding" using s(1) by (simp add: rounding_def source_ok_def field_simps)
  then show ?thesis using Some late by simp
qed

end
