(* ===== verification/Serving_Laws.thy ===== *)
theory Serving_Laws
  imports Limiter_Laws
begin

text \<open>
  What one connection and one session of \<open>src/subscription_serving.rs\<close> do whatever the operating system answers.
  The locale \<open>wire\<close> observes the bytes that each socket sent and got and the time of the clock; reading and writing
  take time, and nothing else is assumed of their answers.  The locale \<open>session\<close> adds the threads and the listener.
\<close>

section \<open>Requests\<close>

text \<open>The reference for \<open>authorized\<close>: header by header, with no order of evaluation.\<close>

definition headers_named :: "string \<Rightarrow> (string \<times> bytes) list \<Rightarrow> bytes list" where
  "headers_named name hs = map (trim_ascii \<circ> snd) (filter (\<lambda>h. eq_ignore_ascii_case (fst h) name) hs)"

definition acceptable_headers :: "(string \<times> bytes) list \<Rightarrow> bool" where
  "acceptable_headers hs =
     ((\<exists>host. headers_named ''Host'' hs = [host] \<and> host \<noteq> [])
      \<and> (\<exists>n > 0. \<forall>v\<in>set (headers_named ''Content-Length'' hs). v = replicate n CHR ''0'')
      \<and> headers_named ''Transfer-Encoding'' hs = [])"

definition zero_lengths :: "bytes option \<Rightarrow> bytes list \<Rightarrow> bool" where
  "zero_lengths seen vs = (\<exists>n > 0. \<forall>v\<in>set vs \<union> set_option seen. v = replicate n CHR ''0'')"

definition hosts_left :: "bytes option \<Rightarrow> bytes list \<Rightarrow> bool" where
  "hosts_left seen vs =
     (case seen of Some _ \<Rightarrow> vs = [] | None \<Rightarrow> vs = [] \<or> (\<exists>host. vs = [host] \<and> host \<noteq> []))"

lemma case_insensitive_names [simp]:
  "eq_ignore_ascii_case name ''Host'' \<Longrightarrow> \<not> eq_ignore_ascii_case name ''Content-Length''"
  "eq_ignore_ascii_case name ''Host'' \<Longrightarrow> \<not> eq_ignore_ascii_case name ''Transfer-Encoding''"
  "eq_ignore_ascii_case name ''Content-Length'' \<Longrightarrow> \<not> eq_ignore_ascii_case name ''Transfer-Encoding''"
  by (auto simp: eq_ignore_ascii_case_def to_ascii_lowercase_def is_ascii_uppercase_def)

lemma all_zeros: "\<not> list_ex (\<lambda>b. b \<noteq> CHR ''0'') v \<longleftrightarrow> v = replicate (length v) CHR ''0''"
  by (auto simp: list_ex_iff replicate_length_same [symmetric] intro!: replicate_length_same [symmetric]
      dest: arg_cong [where f = set])

lemma zero_lengths_Cons:
  assumes "zero_lengths seen []"
  shows "zero_lengths seen (v # vs) \<longleftrightarrow>
    v \<noteq> [] \<and> \<not> list_ex (\<lambda>b. b \<noteq> CHR ''0'') v \<and> \<not> is_some_and (\<lambda>old. old \<noteq> v) seen \<and> zero_lengths (Some v) vs"
    (is "?l \<longleftrightarrow> ?r")
proof
  assume ?l
  then obtain n where n: "n > 0" "\<forall>u\<in>set (v # vs) \<union> set_option seen. u = replicate n CHR ''0''"
    by (auto simp: zero_lengths_def)
  then have "v = replicate n CHR ''0''" by simp
  then show ?r using n by (auto simp: zero_lengths_def is_some_and_iff list_ex_iff)
next
  assume r: ?r
  then obtain n where "n > 0" "v = replicate n CHR ''0''" "\<forall>u\<in>set vs. u = replicate n CHR ''0''"
    by (auto simp: zero_lengths_def)
  then show ?l using r by (auto simp: zero_lengths_def is_some_and_iff)
qed

lemma scan_headers_iff:
  assumes "zero_lengths content_length []"
  shows "(\<exists>r. scan_headers hs host content_length = Some r) \<longleftrightarrow>
    hosts_left host (headers_named ''Host'' hs)
    \<and> zero_lengths content_length (headers_named ''Content-Length'' hs)
    \<and> headers_named ''Transfer-Encoding'' hs = []"
  using assms
proof (induction hs host content_length rule: scan_headers.induct)
  case (1 host content_length)
  then show ?case by (auto simp: headers_named_def hosts_left_def split: option.splits)
next
  case (2 name raw hs host content_length)
  let ?v = "trim_ascii raw"
  consider (host) "eq_ignore_ascii_case name ''Host''"
    | (length) "\<not> eq_ignore_ascii_case name ''Host''" "eq_ignore_ascii_case name ''Content-Length''"
    | (transfer) "\<not> eq_ignore_ascii_case name ''Host''" "\<not> eq_ignore_ascii_case name ''Content-Length''"
      "eq_ignore_ascii_case name ''Transfer-Encoding''"
    | (other) "\<not> eq_ignore_ascii_case name ''Host''" "\<not> eq_ignore_ascii_case name ''Content-Length''"
      "\<not> eq_ignore_ascii_case name ''Transfer-Encoding''" by blast
  then show ?case
  proof cases
    case host
    then show ?thesis
      using 2 by (cases host) (auto simp: headers_named_def hosts_left_def Let_def)
  next
    case length
    have next_length: "zero_lengths (Some ?v) []"
      if "?v \<noteq> []" "\<not> list_ex (\<lambda>b. b \<noteq> CHR ''0'') ?v"
      using that all_zeros [of ?v] by (auto simp: zero_lengths_def intro!: exI [of _ "length ?v"])
    have named: "headers_named ''Content-Length'' ((name, raw) # hs) = ?v # headers_named ''Content-Length'' hs"
      "headers_named ''Host'' ((name, raw) # hs) = headers_named ''Host'' hs"
      "headers_named ''Transfer-Encoding'' ((name, raw) # hs) = headers_named ''Transfer-Encoding'' hs"
      using length by (simp_all add: headers_named_def)
    show ?thesis
      using 2 length next_length by (auto simp: named Let_def zero_lengths_Cons)
  next
    case transfer
    then show ?thesis by (simp add: headers_named_def Let_def)
  next
    case other
    then show ?thesis using 2 by (simp add: headers_named_def Let_def)
  qed
qed

lemma scan_headers_host:
  "scan_headers hs host content_length = Some (host', content_length') \<Longrightarrow>
    (host' \<noteq> None \<longleftrightarrow> host \<noteq> None \<or> headers_named ''Host'' hs \<noteq> [])"
  by (induction hs host content_length rule: scan_headers.induct)
    (auto simp: headers_named_def Let_def split: if_splits)

lemma acceptable_headers_iff:
  "(\<exists>host cl. scan_headers hs None None = Some (Some host, cl)) \<longleftrightarrow> acceptable_headers hs"
proof -
  have z: "zero_lengths None []" by (auto simp: zero_lengths_def)
  have "(\<exists>host cl. scan_headers hs None None = Some (Some host, cl)) \<longleftrightarrow>
      (\<exists>r. scan_headers hs None None = Some r) \<and> headers_named ''Host'' hs \<noteq> []"
    using scan_headers_host [of hs None None] by fastforce
  also have "\<dots> \<longleftrightarrow> acceptable_headers hs"
    unfolding scan_headers_iff [OF z] acceptable_headers_def by (auto simp: hosts_left_def zero_lengths_def)
  finally show ?thesis .
qed

text \<open>The request that \<open>authorized\<close> answers with the artifact.\<close>

definition valid_request :: "lib \<Rightarrow> http_request \<Rightarrow> string \<Rightarrow> bool" where
  "valid_request L request digest =
     (hr_end request \<le> 8192 \<and> hr_method request = Some ''GET'' \<and> hr_version request = Some 1
      \<and> acceptable_headers (hr_headers request)
      \<and> (\<exists>key. length key = 32 \<and> hr_path request = Some (''/s/'' @ url_encode key)
               \<and> sha256_hex L (url_encode key) = digest))"

lemma strip_s: "Option.bind p (strip_prefix ''/s/'') = Some t \<longleftrightarrow> p = Some (''/s/'' @ t)"
  by (cases p) (auto simp: strip_prefix_def starts_with_iff)

lemma serve_authorized_iff:
  "serve_authorized L parse bytes state \<longleftrightarrow>
    (\<exists>request. parse bytes = Some request \<and> valid_request L request (gn_credential_sha256 (sv_generation state)))"
proof (cases "parse bytes")
  case None
  then show ?thesis by (simp add: serve_authorized_def)
next
  case (Some request)
  have "serve_authorized L parse bytes state \<longleftrightarrow>
      hr_end request \<le> 8192 \<and> hr_method request = Some ''GET'' \<and> hr_version request = Some 1
      \<and> (\<exists>host cl. scan_headers (hr_headers request) None None = Some (Some host, cl))
      \<and> (\<exists>token. Option.bind (hr_path request) (strip_prefix ''/s/'') = Some token
          \<and> parse_credential token \<noteq> None \<and> sha256_hex L token = gn_credential_sha256 (sv_generation state))"
    by (auto simp: serve_authorized_def Some MAX_HEADER_BYTES_def split: option.splits if_splits)
  also have "\<dots> \<longleftrightarrow> valid_request L request (gn_credential_sha256 (sv_generation state))"
    unfolding acceptable_headers_iff valid_request_def strip_s by (auto simp: parse_credential_Some)
  finally show ?thesis using Some by simp
qed

section \<open>One connection\<close>

definition response :: "nat \<Rightarrow> bytes \<Rightarrow> bytes" where
  "response status artifact = response_header status artifact @ response_body status artifact"

definition received :: "nat \<Rightarrow> read_answer \<Rightarrow> bytes" where
  "received room answer = (case answer of Received part \<Rightarrow> take room part | _ \<Rightarrow> [])"

definition written :: "bytes \<Rightarrow> write_answer \<Rightarrow> bytes" where
  "written bytes answer = (case answer of Wrote n \<Rightarrow> take n bytes | _ \<Rightarrow> [])"

locale wire =
  fixes H :: "'w net_host"
    and sent :: "'w \<Rightarrow> nat \<Rightarrow> bytes"
    and got :: "'w \<Rightarrow> nat \<Rightarrow> bytes"
    and time :: "'w \<Rightarrow> int"
  assumes now: "nh_now H w = (w', t) \<Longrightarrow>
      sent w' = sent w \<and> got w' = got w \<and> time w \<le> t \<and> t \<le> time w'"
    and lock_stop: "nh_lock_stop H w = (w', st) \<Longrightarrow> sent w' = sent w \<and> got w' = got w \<and> time w \<le> time w'"
    and unlock_stop: "sent (nh_unlock_stop H st w) = sent w \<and> got (nh_unlock_stop H st w) = got w
      \<and> time w \<le> time (nh_unlock_stop H st w)"
    and lock_limiter: "nh_lock_limiter H w = (w', l) \<Longrightarrow>
      sent w' = sent w \<and> got w' = got w \<and> time w \<le> time w'"
    and unlock_limiter: "sent (nh_unlock_limiter H l w) = sent w \<and> got (nh_unlock_limiter H l w) = got w
      \<and> time w \<le> time (nh_unlock_limiter H l w)"
    and shutdown: "sent (nh_shutdown H s w) = sent w \<and> got (nh_shutdown H s w) = got w
      \<and> time w \<le> time (nh_shutdown H s w)"
    and set_read_timeout: "nh_set_read_timeout H s d w = (w', ok) \<Longrightarrow>
      sent w' = sent w \<and> got w' = got w \<and> time w \<le> time w'"
    and set_write_timeout: "nh_set_write_timeout H s d w = (w', ok) \<Longrightarrow>
      sent w' = sent w \<and> got w' = got w \<and> time w \<le> time w'"
    and read_bytes: "nh_read H s room w = (w', answer) \<Longrightarrow>
      sent w' = sent w \<and> got w' = (got w)(s := got w s @ received room answer) \<and> time w < time w'"
    and write_bytes: "nh_write H s bytes w = (w', result) \<Longrightarrow>
      got w' = got w \<and> sent w' = (sent w)(s := sent w s @ written bytes result) \<and> time w < time w'"
begin

lemma is_cancelled_quiet:
  "is_cancelled H w = (w', c) \<Longrightarrow> sent w' = sent w \<and> got w' = got w \<and> time w \<le> time w'"
  by (auto simp: is_cancelled_def Let_def split: prod.splits dest!: lock_stop)
    (metis unlock_stop order.trans)+

lemma set_read_deadline_quiet:
  assumes "set_read_deadline H s deadline w = (w', ok)"
  shows "sent w' = sent w \<and> got w' = got w \<and> time w \<le> time w' \<and> (ok \<longrightarrow> time w < deadline)"
proof -
  obtain w1 t where n: "nh_now H w = (w1, t)" by (cases "nh_now H w")
  then have "time w \<le> t" "t \<le> time w1" using now by blast+
  then show ?thesis
    using assms now [OF n] n
    by (auto simp: set_read_deadline_def remaining_time_def split: if_splits dest!: set_read_timeout)
qed

text \<open>The reading loop ends and authenticates only what was read.\<close>

lemma read_request_ends:
  assumes "length bytes \<le> MAX_HEADER_BYTES"
  shows "\<exists>w' ok part. read_request L parse H s state deadline bytes w = Some (w', ok)
    \<and> sent w' = sent w \<and> got w' = (got w)(s := got w s @ part) \<and> length (bytes @ part) \<le> MAX_HEADER_BYTES
    \<and> (ok \<longrightarrow> header_complete (bytes @ part) \<and> serve_authorized L parse (bytes @ part) state)"
  using assms
proof (induction "nat (deadline - time w)" arbitrary: w bytes rule: less_induct)
  case less
  have stop: ?case if "read_request L parse H s state deadline bytes w = Some (w', False)"
    "sent w' = sent w" "got w' = (got w)(s := got w s @ part)" "length (bytes @ part) \<le> MAX_HEADER_BYTES" for w' part
    using that by blast
  note unfolded = read_request.simps [of L parse H s state deadline bytes w]
  obtain w1 c where c: "is_cancelled H w = (w1, c)" by (cases "is_cancelled H w")
  note q1 = is_cancelled_quiet [OF c]
  obtain w2 ok where d: "set_read_deadline H s deadline w1 = (w2, ok)" by (cases "set_read_deadline H s deadline w1")
  note q2 = set_read_deadline_quiet [OF d]
  let ?room = "MAX_HEADER_BYTES - length bytes"
  obtain w3 answer where r: "nh_read H s ?room w2 = (w3, answer)" by (cases "nh_read H s ?room w2")
  note q3 = read_bytes [OF r]
  show ?case
  proof (cases "c \<or> \<not> ok")
    case True
    then show ?thesis
      using unfolded c d q1 q2 less.prems by (intro stop [of "if c then w1 else w2" "[]"]) auto
  next
    case False
    then have earlier: "nat (deadline - time w3) < nat (deadline - time w)" using q1 q2 q3 by auto
    have loop: ?thesis if same: "read_request L parse H s state deadline bytes w =
        read_request L parse H s state deadline (bytes @ part) w3"
      "got w3 = (got w)(s := got w s @ part)" "length (bytes @ part) \<le> MAX_HEADER_BYTES" for part
    proof -
      obtain w' a more where m: "read_request L parse H s state deadline (bytes @ part) w3 = Some (w', a)"
        "sent w' = sent w3" "got w' = (got w3)(s := got w3 s @ more)"
        "length ((bytes @ part) @ more) \<le> MAX_HEADER_BYTES"
        "a \<longrightarrow> header_complete ((bytes @ part) @ more) \<and> serve_authorized L parse ((bytes @ part) @ more) state"
        using less.hyps [OF earlier same(3)] by blast
      then show ?thesis
        using same q1 q2 q3 by (intro exI [of _ w'] exI [of _ a] exI [of _ "part @ more"]) simp
    qed
    show ?thesis
    proof (cases answer)
      case (Received part)
      let ?part = "take ?room part"
      have g: "got w3 = (got w)(s := got w s @ ?part)" using q1 q2 q3 Received by (simp add: received_def)
      have l: "length (bytes @ ?part) \<le> MAX_HEADER_BYTES" using less.prems by simp
      have u: "read_request L parse H s state deadline bytes w =
          (if ?part = [] then Some (w3, False)
           else if header_complete (bytes @ ?part) then Some (w3, serve_authorized L parse (bytes @ ?part) state)
           else if length (bytes @ ?part) = MAX_HEADER_BYTES then Some (w3, False)
           else read_request L parse H s state deadline (bytes @ ?part) w3)"
        using unfolded False c d r Received by (simp add: Let_def)
      show ?thesis
        using u g l q1 q2 q3 loop [of ?part] by (cases "header_complete (bytes @ ?part)") (fastforce split: if_splits)+
    next
      case ReadInterrupted
      then show ?thesis
        using unfolded False c d r q1 q2 q3 less.prems by (intro loop [of "[]"]) (auto simp: received_def)
    next
      case ReadFailed
      then show ?thesis
        using unfolded False c d r q1 q2 q3 less.prems by (intro stop [of w3 "[]"]) (auto simp: received_def)
    qed
  qed
qed

text \<open>The writing loop ends after a prefix of its bytes, all of them when it says so.\<close>

lemma write_part_ends:
  "\<exists>w' ok n. write_part H s deadline bytes w = Some (w', ok) \<and> got w' = got w
    \<and> sent w' = (sent w)(s := sent w s @ take n bytes) \<and> (ok \<longrightarrow> n = length bytes)"
proof (induction "nat (deadline - time w)" arbitrary: w bytes rule: less_induct)
  case less
  note unfolded = write_part.simps [of H s deadline bytes w]
  have stop: ?case if "write_part H s deadline bytes w = Some (w', False)" "sent w' = sent w" "got w' = got w" for w'
    using that by (intro exI [of _ w'] exI [of _ False] exI [of _ 0]) simp
  obtain w1 t where n: "nh_now H w = (w1, t)" by (cases "nh_now H w")
  note q1 = now [OF n]
  obtain w2 c where c: "is_cancelled H w1 = (w2, c)" by (cases "is_cancelled H w1")
  note q2 = is_cancelled_quiet [OF c]
  obtain w3 ok where o: "nh_set_write_timeout H s (deadline - t) w2 = (w3, ok)"
    by (cases "nh_set_write_timeout H s (deadline - t) w2")
  note q3 = set_write_timeout [OF o]
  obtain w4 result where wr: "nh_write H s bytes w3 = (w4, result)" by (cases "nh_write H s bytes w3")
  note q4 = write_bytes [OF wr]
  consider (empty) "bytes = []" | (late) "bytes \<noteq> []" "\<not> deadline - t > 0"
    | (cancelled) "bytes \<noteq> []" "deadline - t > 0" "c" | (failed) "bytes \<noteq> []" "deadline - t > 0" "\<not> c" "\<not> ok"
    | (go) "bytes \<noteq> []" "deadline - t > 0" "\<not> c" "ok" by blast
  then show ?case
  proof cases
    case empty
    then show ?thesis using unfolded by (intro exI [of _ w] exI [of _ True] exI [of _ 0]) simp
  next
    case late
    then show ?thesis using unfolded n q1 by (intro stop [of w1]) (auto simp: remaining_time_def)
  next
    case cancelled
    then show ?thesis using unfolded n c q1 q2 by (intro stop [of w2]) (auto simp: remaining_time_def)
  next
    case failed
    then show ?thesis using unfolded n c o q1 q2 q3 by (intro stop [of w3]) (auto simp: remaining_time_def)
  next
    case go
    then have earlier: "nat (deadline - time w4) < nat (deadline - time w)" using q1 q2 q3 q4 by auto
    have u: "write_part H s deadline bytes w =
        (case result of WriteFailed \<Rightarrow> Some (w4, False) | WriteInterrupted \<Rightarrow> write_part H s deadline bytes w4
         | Wrote m \<Rightarrow> if m = 0 then Some (w4, False) else write_part H s deadline (drop m bytes) w4)"
      using unfolded n c o wr go by (simp add: remaining_time_def)
    show ?thesis
    proof (cases result)
      case (Wrote m)
      show ?thesis
      proof (cases "m = 0")
        case True
        then show ?thesis using u Wrote q1 q2 q3 q4 by (intro stop [of w4]) (auto simp: written_def)
      next
        case False
        obtain w' ok' k where k: "write_part H s deadline (drop m bytes) w4 = Some (w', ok')" "got w' = got w4"
          "sent w' = (sent w4)(s := sent w4 s @ take k (drop m bytes))" "ok' \<longrightarrow> k = length (drop m bytes)"
          using less.hyps [OF earlier] by blast
        have "sent w' = (sent w)(s := sent w s @ take (min m (length bytes) + k) bytes)"
          using k q1 q2 q3 q4 Wrote by (auto simp: written_def take_add min_def)
        then show ?thesis using u Wrote False k q1 q2 q3 q4
          by (intro exI [of _ w'] exI [of _ ok'] exI [of _ "min m (length bytes) + k"]) (auto simp: min_def)
      qed
    next
      case WriteInterrupted
      have "sent w4 = sent w" "got w4 = got w" using q1 q2 q3 q4 WriteInterrupted by (auto simp: written_def)
      then show ?thesis using less.hyps [OF earlier, of bytes] u WriteInterrupted by simp
    next
      case WriteFailed
      then show ?thesis using u q1 q2 q3 q4 by (intro stop [of w4]) (auto simp: written_def)
    qed
  qed
qed

lemma write_response_ends:
  "\<exists>w' n. write_response H s status artifact deadline w = Some w' \<and> got w' = got w
    \<and> sent w' = (sent w)(s := sent w s @ take n (response status artifact))"
proof -
  let ?h = "response_header status artifact" and ?b = "response_body status artifact"
  obtain w1 ok n where h: "write_part H s deadline ?h w = Some (w1, ok)" "got w1 = got w"
    "sent w1 = (sent w)(s := sent w s @ take n ?h)" "ok \<longrightarrow> n = length ?h"
    using write_part_ends by blast
  obtain w2 ok' m where b: "write_part H s deadline ?b w1 = Some (w2, ok')" "got w2 = got w1"
    "sent w2 = (sent w1)(s := sent w1 s @ take m ?b)"
    using write_part_ends by blast
  show ?thesis
  proof (cases ok)
    case True
    then show ?thesis
      using h b by (intro exI [of _ w2] exI [of _ "length ?h + m"]) (simp add: write_response_def response_def)
  next
    case False
    then show ?thesis
      using h by (intro exI [of _ w1] exI [of _ "min n (length ?h)"])
        (auto simp: write_response_def response_def min_def)
  qed
qed

lemma drop_connection_quiet:
  "sent (drop_connection H c w) = sent w \<and> got (drop_connection H c w) = got w"
  by (auto simp: drop_connection_def Let_def unlock_stop split: prod.splits dest!: lock_stop)
    (simp_all add: shutdown)

text \<open>What a connection sends: a refusal, or the artifact after an authorized request.\<close>

lemma respond_ends:
  "\<exists>w' n part. respond L parse H c state remote instant deadline w = Some w'
    \<and> got w' = (got w)(cn_stream c := got w (cn_stream c) @ part) \<and> length part \<le> MAX_HEADER_BYTES
    \<and> (if fst (allow (to_canonical remote) instant (snd (nh_lock_limiter H w))) then
         sent w' = (sent w)(cn_stream c := sent w (cn_stream c) @ take n (response 404 []))
         \<or> header_complete part \<and> serve_authorized L parse part state
           \<and> sent w' = (sent w)(cn_stream c := sent w (cn_stream c) @ take n (response 200 (sv_artifact state)))
       else part = [] \<and> sent w' = (sent w)(cn_stream c := sent w (cn_stream c) @ take n (response 429 [])))"
proof -
  let ?s = "cn_stream c"
  obtain w0 l where l: "nh_lock_limiter H w = (w0, l)" by (cases "nh_lock_limiter H w")
  obtain allowed l' where a: "allow (to_canonical remote) instant l = (allowed, l')"
    by (cases "allow (to_canonical remote) instant l")
  let ?w1 = "nh_unlock_limiter H l' w0"
  have q: "sent ?w1 = sent w" "got ?w1 = got w" using lock_limiter [OF l] unlock_limiter by simp_all
  show ?thesis
  proof (cases allowed)
    case False
    obtain w2 n where "write_response H ?s 429 [] deadline ?w1 = Some w2" "got w2 = got ?w1"
      "sent w2 = (sent ?w1)(?s := sent ?w1 ?s @ take n (response 429 []))"
      using write_response_ends by blast
    then show ?thesis
      using False l a q by (intro exI [of _ "drop_connection H c w2"] exI [of _ n] exI [of _ "[]"])
        (simp add: respond_def drop_connection_quiet)
  next
    case True
    obtain w2 ok part where r: "read_request L parse H ?s state deadline [] ?w1 = Some (w2, ok)"
      "sent w2 = sent ?w1" "got w2 = (got ?w1)(?s := got ?w1 ?s @ part)" "length part \<le> MAX_HEADER_BYTES"
      "ok \<longrightarrow> header_complete part \<and> serve_authorized L parse part state"
      using read_request_ends [of "[]"] by (metis append_Nil bot_nat_0.extremum list.size(3))
    define w3c where "w3c = (if ok then is_cancelled H w2 else (w2, True))"
    obtain w3 cancelled where c3: "w3c = (w3, cancelled)" by (cases w3c)
    have q3: "sent w3 = sent w2" "got w3 = got w2"
      using c3 is_cancelled_quiet [of w2] by (auto simp: w3c_def split: if_splits)
    let ?status = "if ok \<and> \<not> cancelled then 200 else 404"
      and ?body = "if ok \<and> \<not> cancelled then sv_artifact state else []"
    obtain w4 n where w4: "write_response H ?s ?status ?body deadline w3 = Some w4" "got w4 = got w3"
      "sent w4 = (sent w3)(?s := sent w3 ?s @ take n (response ?status ?body))"
      using write_response_ends by blast
    have "respond L parse H c state remote instant deadline w = Some (drop_connection H c w4)"
      using True l a r(1) w4(1) c3
      by (simp add: respond_def Let_def w3c_def [symmetric]) (cases "ok \<and> \<not> cancelled", auto)
    then show ?thesis
      using True l a q r q3 w4
      by (intro exI [of _ "drop_connection H c w4"] exI [of _ n] exI [of _ part])
        (auto simp: drop_connection_quiet split: if_splits)
  qed
qed

end

end
