(* ===== verification/Serving_Session.thy ===== *)
theory Serving_Session
  imports Serving_Laws "HOL-Library.Multiset"
begin

text \<open>
  Sessions of \<open>src/subscription_serving.rs\<close>: \<open>join_finished\<close> against its reference, the registry of sockets behind
  \<open>Cancellation\<close> under any interleaving of its operations (the locale \<open>registry_os\<close>), and the locale \<open>session\<close>
  for the accept loop and \<open>serve\<close>.
\<close>

section \<open>Joining finished threads\<close>

lemma mset_swap_remove:
  assumes "i < length xs"
  shows "mset (swap_remove xs i) = mset xs - {#xs ! i#}"
proof (cases "i = length xs - 1")
  case True
  moreover have "xs \<noteq> []" using assms by auto
  ultimately have "xs ! i = last xs" by (simp add: last_conv_nth)
  moreover have "mset xs = mset (butlast xs) + {#last xs#}"
    using assms by (metis append_butlast_last_id list.size(3) mset.simps mset_append not_less_zero add_mset_add_single)
  ultimately show ?thesis using True by (simp add: swap_remove_def)
next
  case False
  then have i: "i < length (butlast xs)" using assms by simp
  have "mset xs = mset (butlast xs) + {#last xs#}"
    using assms by (metis append_butlast_last_id list.size(3) mset.simps mset_append not_less_zero add_mset_add_single)
  moreover have "butlast xs ! i = xs ! i" using i by (simp add: nth_butlast)
  moreover have "xs ! i \<in># mset (butlast xs)" using i by (metis calculation(2) nth_mem set_mset_mset)
  ultimately show ?thesis using False i by (simp add: swap_remove_def mset_update)
qed

lemma set_swap_remove:
  assumes "distinct xs" "i < length xs"
  shows "distinct (swap_remove xs i)" "set (swap_remove xs i) = set xs - {xs ! i}"
proof -
  have m: "mset (swap_remove xs i) = mset (remove1 (xs ! i) xs)" using assms(2) by (simp add: mset_swap_remove)
  show "distinct (swap_remove xs i)" using mset_eq_imp_distinct_iff [OF m] assms(1) by simp
  show "set (swap_remove xs i) = set xs - {xs ! i}" using mset_eq_setD [OF m] assms(1) by (simp add: set_remove1_eq)
qed

lemma length_swap_remove [simp]: "i < length xs \<Longrightarrow> length (swap_remove xs i) = length xs - 1"
  by (simp add: swap_remove_def)

section \<open>The registry of sockets\<close>

text \<open>
  An operating system whose lock works: \<open>stop\<close> is the state behind the lock, which its holder gets and which only
  unlocking replaces.  \<open>shut\<close> are the sockets that were shut down; \<open>socket\<close> is the socket behind a handle, and a clone
  is a handle of the same socket.
\<close>

locale registry_os =
  fixes H :: "'w net_host" and stop :: "'w \<Rightarrow> stop_state" and shut :: "'w \<Rightarrow> 's set" and socket :: "nat \<Rightarrow> 's"
  assumes o_lock: "nh_lock_stop H w = (w', st) \<Longrightarrow> st = stop w \<and> stop w' = stop w \<and> shut w \<subseteq> shut w'"
    and o_unlock: "stop (nh_unlock_stop H st w) = st \<and> shut w \<subseteq> shut (nh_unlock_stop H st w)"
    and o_notify: "stop (nh_notify H w) = stop w \<and> shut w \<subseteq> shut (nh_notify H w)"
    and o_shutdown: "stop (nh_shutdown H s w) = stop w \<and> insert (socket s) (shut w) \<subseteq> shut (nh_shutdown H s w)"
    and o_blocking: "nh_set_blocking H s w = (w', ok) \<Longrightarrow> stop w' = stop w \<and> shut w \<subseteq> shut w'"
    and o_clone: "nh_try_clone H s w = (w', c) \<Longrightarrow>
      stop w' = stop w \<and> shut w \<subseteq> shut w' \<and> (\<forall>k. c = Some k \<longrightarrow> socket k = socket s)"

text \<open>
  The threads of a session as steps of a world and its live connections: a connection is registered, a live one is
  dropped, the owner cancels, or anything else happens that leaves the state alone and opens no socket again.
\<close>

inductive registry_step ::
  "'w net_host \<Rightarrow> ('w \<Rightarrow> stop_state) \<Rightarrow> ('w \<Rightarrow> 's set) \<Rightarrow> 'w \<times> connection list \<Rightarrow> 'w \<times> connection list \<Rightarrow> bool"
  for H stop shut where
  registering: "register H stream w = (w', r) \<Longrightarrow>
    registry_step H stop shut (w, live) (w', case r of Registered c \<Rightarrow> c # live | _ \<Rightarrow> live)"
| dropping: "c \<in> set live \<Longrightarrow> registry_step H stop shut (w, live) (drop_connection H c w, remove1 c live)"
| cancelling: "registry_step H stop shut (w, live) (cancel H w, live)"
| elsewhere: "stop w' = stop w \<Longrightarrow> shut w \<subseteq> shut w' \<Longrightarrow> registry_step H stop shut (w, live) (w', live)"

inductive reachable_registry ::
  "'w net_host \<Rightarrow> ('w \<Rightarrow> stop_state) \<Rightarrow> ('w \<Rightarrow> 's set) \<Rightarrow> 'w \<times> connection list \<Rightarrow> bool"
  for H stop shut where
  start: "stop w = new_stop \<Longrightarrow> reachable_registry H stop shut (w, [])"
| step: "reachable_registry H stop shut g \<Longrightarrow> registry_step H stop shut g g' \<Longrightarrow> reachable_registry H stop shut g'"

text \<open>Every live connection is registered under its own number below the next one, and nothing else is.\<close>

definition registered :: "(nat \<Rightarrow> 's) \<Rightarrow> stop_state \<Rightarrow> (u64 \<times> 's) set" where
  "registered socket st = (\<lambda>(i, k). (i, socket k)) ` set (st_sockets st)"

definition streams :: "(nat \<Rightarrow> 's) \<Rightarrow> connection list \<Rightarrow> 's set" where
  "streams socket live = (\<lambda>c. socket (cn_stream c)) ` set live"

definition registry_ok :: "(nat \<Rightarrow> 's) \<Rightarrow> stop_state \<Rightarrow> 's set \<Rightarrow> connection list \<Rightarrow> bool" where
  "registry_ok socket st down live =
     (distinct (map cn_id live) \<and> distinct (map fst (st_sockets st))
      \<and> registered socket st = (\<lambda>c. (cn_id c, socket (cn_stream c))) ` set live
      \<and> (\<forall>c\<in>set live. cn_id c < st_next_id st)
      \<and> (st_cancelled st \<longrightarrow> streams socket live \<subseteq> down))"

lemma checked_succ_Some: "checked_succ n = Some m \<longleftrightarrow> n \<noteq> - 1 \<and> m = n + 1"
  by (auto simp: checked_succ_def)

lemma succ_greater: "(n :: u64) \<noteq> - 1 \<Longrightarrow> n < n + 1"
proof -
  assume "n \<noteq> - 1"
  then have "1 + n \<noteq> 0" by (metis add.commute eq_neg_iff_add_eq_0)
  then have "unat (1 + n) = Suc (unat n)" by (rule unatSuc)
  then show ?thesis by (simp add: word_less_nat_alt add.commute)
qed

lemma update_fresh: "k \<notin> fst ` set al \<Longrightarrow> set (AList.update k v al) = insert (k, v) (set al)"
  by (induction al) auto

lemma registry_ok_ids:
  assumes "registry_ok socket st down live"
  shows "fst ` set (st_sockets st) = cn_id ` set live"
proof -
  have "fst ` registered socket st = cn_id ` set live" using assms by (simp add: registry_ok_def image_image)
  then show ?thesis by (simp add: registered_def image_image split_beta)
qed

lemma registry_ok_more:
  "registry_ok socket st down live \<Longrightarrow> down \<subseteq> down' \<Longrightarrow> registry_ok socket st down' live"
  by (auto simp: registry_ok_def)

lemma registry_ok_add:
  assumes "registry_ok socket st down live" "\<not> st_cancelled st" "st_next_id st \<noteq> - 1" "socket k = socket s"
  shows "registry_ok socket (st\<lparr>st_next_id := st_next_id st + 1, st_sockets := AList.update (st_next_id st) k (st_sockets st)\<rparr>)
    down' (\<lparr>cn_stream = s, cn_id = st_next_id st\<rparr> # live)"
proof -
  let ?n = "st_next_id st"
  have fresh: "?n \<notin> cn_id ` set live" using assms(1) by (auto simp: registry_ok_def)
  then have u: "set (AList.update ?n k (st_sockets st)) = insert (?n, k) (set (st_sockets st))"
    using registry_ok_ids [OF assms(1)] by (intro update_fresh) simp
  have "\<forall>c\<in>set live. cn_id c < ?n + 1"
    using assms(1) succ_greater [OF assms(3)] by (auto simp: registry_ok_def intro: order.strict_trans)
  then show ?thesis
    using assms fresh u succ_greater [OF assms(3)]
    by (auto simp: registry_ok_def registered_def distinct_update)
qed

lemma registry_ok_drop:
  assumes ok: "registry_ok socket st down live" and c: "c \<in> set live"
  shows "registry_ok socket (st\<lparr>st_sockets := AList.delete (cn_id c) (st_sockets st)\<rparr>) down (remove1 c live)"
proof -
  have d: "distinct (map cn_id live)" "distinct (map fst (st_sockets st))"
    and r: "registered socket st = (\<lambda>c. (cn_id c, socket (cn_stream c))) ` set live"
    using ok by (simp_all add: registry_ok_def)
  have live: "set (remove1 c live) = set live - {c}" using d by (simp add: distinct_map set_remove1_eq)
  have other: "x \<in> set live \<Longrightarrow> cn_id x = cn_id c \<longleftrightarrow> x = c" for x
    using d c by (auto simp: distinct_map dest: inj_onD)
  have "registered socket (st\<lparr>st_sockets := AList.delete (cn_id c) (st_sockets st)\<rparr>)
      = {p \<in> registered socket st. fst p \<noteq> cn_id c}"
    by (auto simp: registered_def AList.delete_eq)
  also have "\<dots> = (\<lambda>c. (cn_id c, socket (cn_stream c))) ` set (remove1 c live)"
    unfolding r live using other by auto
  moreover have "distinct (map cn_id (remove1 c live))"
    using d by (metis distinct_map distinct_remove1 inj_on_subset set_remove1_subset)
  ultimately show ?thesis
    using ok live d by (auto simp: registry_ok_def streams_def distinct_delete)
qed

lemma registry_ok_cancel:
  assumes "registry_ok socket st down live" "down \<union> socket ` snd ` set (st_sockets st) \<subseteq> down'"
  shows "registry_ok socket (st\<lparr>st_cancelled := True\<rparr>) down' live"
proof -
  have "snd ` registered socket st = streams socket live"
    using assms(1) by (simp add: registry_ok_def streams_def image_image)
  then have "streams socket live = socket ` snd ` set (st_sockets st)"
    by (simp add: registered_def image_image split_beta)
  then show ?thesis using assms by (auto simp: registry_ok_def registered_def)
qed

context registry_os
begin

lemma o_register:
  assumes "register H s w = (w', r)"
  shows "shut w \<subseteq> shut w' \<and> (r = AlreadyCancelled \<longleftrightarrow> st_cancelled (stop w))
    \<and> (case r of
         Registered c \<Rightarrow> st_next_id (stop w) \<noteq> - 1 \<and> c = \<lparr>cn_stream = s, cn_id = st_next_id (stop w)\<rparr>
           \<and> (\<exists>k. socket k = socket s \<and> stop w' = (stop w)\<lparr>st_next_id := st_next_id (stop w) + 1,
                 st_sockets := AList.update (st_next_id (stop w)) k (st_sockets (stop w))\<rparr>)
       | _ \<Rightarrow> stop w' = stop w)"
proof -
  obtain w1 st where l: "nh_lock_stop H w = (w1, st)" by (cases "nh_lock_stop H w")
  obtain w2 ok where b: "nh_set_blocking H s w1 = (w2, ok)" by (cases "nh_set_blocking H s w1")
  obtain w3 c where c: "nh_try_clone H s w2 = (w3, c)" by (cases "nh_try_clone H s w2")
  note f = o_lock [OF l] o_blocking [OF b] o_clone [OF c]
  have u: "stop (nh_unlock_stop H x v) = x" "shut v \<subseteq> shut (nh_unlock_stop H x v)" for x v using o_unlock by auto
  have shut: "shut w \<subseteq> shut (nh_unlock_stop H x w1)" "shut w \<subseteq> shut (nh_unlock_stop H x w2)"
    "shut w \<subseteq> shut (nh_unlock_stop H x w3)" for x
    using f u(2) by blast+
  have "(\<exists>x. w' = nh_unlock_stop H x w1) \<or> (\<exists>x. w' = nh_unlock_stop H x w2) \<or> (\<exists>x. w' = nh_unlock_stop H x w3)"
    using assms by (auto simp: register_def l b c split: if_splits option.splits prod.splits)
  then have "shut w \<subseteq> shut w'" using shut by (elim disjE exE) simp_all
  then show ?thesis
    using assms f
    by (auto simp: register_def register_state_def Let_def l b c checked_succ_Some u split: if_splits option.splits prod.splits)
qed

lemma o_fold:
  "stop (fold (\<lambda>(_, s). nh_shutdown H s) ss w) = stop w
   \<and> shut w \<union> socket ` snd ` set ss \<subseteq> shut (fold (\<lambda>(_, s). nh_shutdown H s) ss w)"
proof (induction ss arbitrary: w)
  case (Cons p ss)
  obtain i s where p: "p = (i, s)" by (cases p)
  show ?case using Cons.IH [of "nh_shutdown H s w"] o_shutdown [of s w] by (auto simp: p)
qed simp

lemma o_cancel:
  "stop (cancel H w) = (stop w)\<lparr>st_cancelled := True\<rparr>
   \<and> shut w \<union> socket ` snd ` set (st_sockets (stop w)) \<subseteq> shut (cancel H w)"
proof -
  obtain w1 st where l: "nh_lock_stop H w = (w1, st)" by (cases "nh_lock_stop H w")
  let ?w = "fold (\<lambda>(_, s). nh_shutdown H s) (st_sockets (stop w)) w1"
  have "shut w \<union> socket ` snd ` set (st_sockets (stop w)) \<subseteq> shut ?w" using o_lock [OF l] o_fold by blast
  also have "\<dots> \<subseteq> shut (nh_notify H ?w)" using o_notify by blast
  also have "\<dots> \<subseteq> shut (cancel H w)"
    using o_lock [OF l] o_unlock by (simp add: cancel_def l cancel_state_def)
  finally show ?thesis using o_lock [OF l] o_unlock by (simp add: cancel_def l cancel_state_def)
qed

lemma o_drop:
  "stop (drop_connection H c w) = (stop w)\<lparr>st_sockets := AList.delete (cn_id c) (st_sockets (stop w))\<rparr>
   \<and> insert (socket (cn_stream c)) (shut w) \<subseteq> shut (drop_connection H c w)"
proof -
  obtain w1 st where l: "nh_lock_stop H (nh_shutdown H (cn_stream c) w) = (w1, st)"
    by (cases "nh_lock_stop H (nh_shutdown H (cn_stream c) w)")
  have "insert (socket (cn_stream c)) (shut w) \<subseteq> shut w1" using o_lock [OF l] o_shutdown by blast
  also have "\<dots> \<subseteq> shut (drop_connection H c w)" using o_unlock by (simp add: drop_connection_def l)
  finally show ?thesis using o_lock [OF l] o_shutdown o_unlock by (simp add: drop_connection_def l drop_state_def)
qed

lemma registry_step_ok:
  assumes "registry_step H stop shut (w, live) (w', live')" "registry_ok socket (stop w) (shut w) live"
  shows "registry_ok socket (stop w') (shut w') live'"
  using assms(1)
proof cases
  case (registering stream r)
  note f = o_register [OF registering(2)]
  show ?thesis
  proof (cases r)
    case (Registered c)
    then show ?thesis using f registering(1) registry_ok_add [OF assms(2)] by auto
  qed (use f registering(1) registry_ok_more [OF assms(2)] in auto)
next
  case (dropping c)
  then show ?thesis
    using o_drop [of c w] registry_ok_more [OF registry_ok_drop [OF assms(2) dropping(3)], of "shut w'"] by auto
next
  case cancelling
  then show ?thesis using o_cancel [of w] registry_ok_cancel [OF assms(2)] by simp
next
  case elsewhere
  then show ?thesis using registry_ok_more [OF assms(2)] by simp
qed

lemma reachable_ok: "reachable_registry H stop shut (w, live) \<Longrightarrow> registry_ok socket (stop w) (shut w) live"
proof (induction "(w, live)" arbitrary: w live rule: reachable_registry.induct)
  case (start w)
  then show ?case by (simp add: registry_ok_def new_stop_def registered_def)
next
  case (step g)
  then show ?case by (cases g) (use registry_step_ok in blast)
qed

lemma cancelled_step:
  assumes "registry_step H stop shut (w, live) (w', live')" "st_cancelled (stop w)"
  shows "st_cancelled (stop w') \<and> set live' \<subseteq> set live"
  using assms(1)
proof cases
  case (registering stream r)
  then show ?thesis using o_register [OF registering(2)] assms(2) by auto
next
  case (dropping c)
  then show ?thesis using o_drop [of c w] assms(2) set_remove1_subset by force
next
  case cancelling
  then show ?thesis using o_cancel [of w] by simp
next
  case elsewhere
  then show ?thesis using assms(2) by simp
qed

lemma cancelled_stays:
  assumes "(registry_step H stop shut)\<^sup>*\<^sup>* (w, live) (w', live')" "st_cancelled (stop w)"
  shows "st_cancelled (stop w') \<and> set live' \<subseteq> set live"
  using assms
proof (induction "(w', live')" arbitrary: w' live' rule: rtranclp_induct)
  case (step y)
  then show ?case by (cases y) (use cancelled_step in blast)
qed simp

end

lemma reachable_registry_steps:
  "(registry_step H stop shut)\<^sup>*\<^sup>* g g' \<Longrightarrow> reachable_registry H stop shut g \<Longrightarrow> reachable_registry H stop shut g'"
  by (induction rule: rtranclp_induct) (auto intro: reachable_registry.step)

section \<open>Sessions\<close>

text \<open>What is seen of a session: its threads, the most there were at a time, and whether it listens.\<close>

record session_view =
  vw_threads :: "nat set"
  vw_peak :: nat
  vw_listening :: bool

definition undisturbed :: "('w \<Rightarrow> session_view) \<Rightarrow> ('w \<Rightarrow> nat) \<Rightarrow> 'w \<Rightarrow> 'w \<Rightarrow> bool" where
  "undisturbed view patience w w' = (view w' = view w \<and> patience w' \<le> patience w)"

definition owns :: "('w \<Rightarrow> session_view) \<Rightarrow> nat list \<Rightarrow> 'w \<Rightarrow> bool" where
  "owns view workers w = (distinct workers \<and> vw_threads (view w) = set workers)"

definition kept :: "('w \<Rightarrow> session_view) \<Rightarrow> ('w \<Rightarrow> nat) \<Rightarrow> nat list \<Rightarrow> 'w \<Rightarrow> 'w \<Rightarrow> bool" where
  "kept view patience workers w w' =
     (owns view workers w' \<and> length workers \<le> MAX_WORKERS \<and> patience w' \<le> patience w
      \<and> vw_peak (view w') \<le> max (vw_peak (view w)) MAX_WORKERS \<and> vw_listening (view w') = vw_listening (view w))"

text \<open>
  The operating system as a session sees it.  Started threads have fresh handles and are gone once they are
  joined; the session is cancelled after finitely many connections and timeouts, which \<open>patience\<close> counts.
\<close>

locale session = wire H sent got time
  for H :: "'w net_host" and sent got :: "'w \<Rightarrow> nat \<Rightarrow> bytes" and time :: "'w \<Rightarrow> int" +
  fixes view :: "'w \<Rightarrow> session_view" and patience :: "'w \<Rightarrow> nat"
  assumes s_now: "nh_now H w = (w', instant) \<Longrightarrow> undisturbed view patience w w'"
    and s_lock: "nh_lock_stop H w = (w', st) \<Longrightarrow> undisturbed view patience w w' \<and> (patience w = 0 \<longrightarrow> st_cancelled st)"
    and s_unlock: "undisturbed view patience w (nh_unlock_stop H st w)"
    and s_wait: "undisturbed view patience w (nh_wait_timeout H st d w)"
    and s_notify: "undisturbed view patience w (nh_notify H w)"
    and s_shutdown: "undisturbed view patience w (nh_shutdown H s w)"
    and s_blocking: "nh_set_blocking H s w = (w', ok) \<Longrightarrow> undisturbed view patience w w'"
    and s_clone: "nh_try_clone H s w = (w', cloned) \<Longrightarrow> undisturbed view patience w w'"
    and s_timeout: "nh_set_write_timeout H s d w = (w', ok) \<Longrightarrow> undisturbed view patience w w'"
    and s_write: "nh_write H s bytes w = (w', result) \<Longrightarrow> undisturbed view patience w w'"
    and s_local: "nh_local_ip H w = (w', address) \<Longrightarrow> undisturbed view patience w w'"
    and s_nonblocking: "nh_set_nonblocking H w = (w', ok) \<Longrightarrow> undisturbed view patience w w'"
    and s_finished: "nh_is_finished H t w = (w', ok) \<Longrightarrow> undisturbed view patience w w'"
    and s_accept: "nh_accept H w = (w', answer) \<Longrightarrow>
      undisturbed view patience w w' \<and> (patience w \<noteq> 0 \<longrightarrow> patience w' < patience w)"
    and s_close: "view (nh_close_listener H w) = (view w)\<lparr>vw_listening := False\<rparr>"
    and s_join: "nh_join H t w = (w', ok) \<Longrightarrow>
      view w' = (view w)\<lparr>vw_threads := vw_threads (view w) - {t}\<rparr> \<and> patience w' \<le> patience w"
    and s_spawn: "nh_spawn H c state ip d w = (w', Some t) \<Longrightarrow>
      t \<notin> vw_threads (view w) \<and> patience w' \<le> patience w
      \<and> view w' = (view w)\<lparr>vw_threads := insert t (vw_threads (view w)),
            vw_peak := max (vw_peak (view w)) (card (insert t (vw_threads (view w))))\<rparr>"
    and s_unspawned: "nh_spawn H c state ip d w = (w', None) \<Longrightarrow> undisturbed view patience w w'"
begin

lemma calm_trans:
  "undisturbed view patience w1 w2 \<Longrightarrow> undisturbed view patience w2 w3 \<Longrightarrow> undisturbed view patience w1 w3"
  by (auto simp: undisturbed_def)

lemma s_cancelled:
  "is_cancelled H w = (w', c) \<Longrightarrow> undisturbed view patience w w' \<and> (patience w = 0 \<longrightarrow> c)"
  by (auto simp: is_cancelled_def Let_def split: prod.splits dest!: s_lock intro: calm_trans [OF _ s_unlock])

lemma s_register: "register H s w = (w', r) \<Longrightarrow> undisturbed view patience w w'"
  by (auto simp: register_def Let_def split: prod.splits if_splits option.splits dest!: s_lock s_blocking s_clone
      intro: calm_trans [OF _ s_unlock] calm_trans)

lemma s_drop: "undisturbed view patience w (drop_connection H c w)"
  by (auto simp: drop_connection_def Let_def split: prod.splits dest!: s_lock
      intro: calm_trans [OF _ s_unlock] calm_trans [OF s_shutdown])

lemma s_stop_wait: "undisturbed view patience w (stop_wait H d w)"
  by (auto simp: stop_wait_def Let_def split: prod.splits dest!: s_lock
      intro: calm_trans [OF _ s_unlock] calm_trans [OF _ s_wait])

lemma s_fold: "undisturbed view patience w (fold (\<lambda>(_, s). nh_shutdown H s) ss w)"
proof (induction ss arbitrary: w)
  case Nil
  then show ?case by (simp add: undisturbed_def)
next
  case (Cons p ss)
  then show ?case using calm_trans [OF s_shutdown] by (cases p) auto
qed

lemma s_cancel: "undisturbed view patience w (cancel H w)"
  unfolding cancel_def Let_def
  by (auto split: prod.splits dest!: s_lock intro: calm_trans [OF calm_trans [OF calm_trans [OF _ s_fold] s_notify] s_unlock])

lemma s_write_part:
  "write_part H s deadline bytes w = Some r \<Longrightarrow> undisturbed view patience w (fst r)"
proof (induction "nat (deadline - time w)" arbitrary: w bytes r rule: less_induct)
  case less
  obtain w1 t where n: "nh_now H w = (w1, t)" by (cases "nh_now H w")
  obtain w2 c where c: "is_cancelled H w1 = (w2, c)" by (cases "is_cancelled H w1")
  obtain w3 ok where o: "nh_set_write_timeout H s (deadline - t) w2 = (w3, ok)"
    by (cases "nh_set_write_timeout H s (deadline - t) w2")
  obtain w4 result where wr: "nh_write H s bytes w3 = (w4, result)" by (cases "nh_write H s bytes w3")
  have q: "undisturbed view patience w w" "undisturbed view patience w w1" "undisturbed view patience w w2"
    "undisturbed view patience w w3" "undisturbed view patience w w4"
    using s_now [OF n] s_cancelled [OF c] s_timeout [OF o] s_write [OF wr] by (auto simp: undisturbed_def)
  have again: "undisturbed view patience w (fst r)"
    if "deadline - t > 0" "write_part H s deadline bytes' w4 = Some r" for bytes'
  proof -
    have "nat (deadline - time w4) < nat (deadline - time w)"
      using that(1) now [OF n] is_cancelled_quiet [OF c] set_write_timeout [OF o] write_bytes [OF wr] by auto
    from less.hyps [OF this that(2)] show ?thesis using q(5) by (rule calm_trans [rotated])
  qed
  from less.prems show ?case
    unfolding write_part.simps [of H s deadline bytes w] n c o wr
    using q again
    by (auto simp: remaining_time_def c o wr split: if_splits write_answer.splits)
qed

lemma s_write_response:
  "write_response H s status artifact deadline w = Some w' \<Longrightarrow> undisturbed view patience w w'"
  by (auto simp: write_response_def undisturbed_def split: bind_splits if_splits dest!: s_write_part)

text \<open>Threads are joined or kept, and a joined thread is gone.\<close>

lemma s_join_from:
  assumes "join_from H i workers success w = (w', success', workers')" "owns view workers w"
  shows "owns view workers' w' \<and> length workers' \<le> length workers \<and> patience w' \<le> patience w
    \<and> vw_peak (view w') = vw_peak (view w) \<and> vw_listening (view w') = vw_listening (view w)"
  using assms
proof (induction "length workers - i" arbitrary: i workers success w rule: less_induct)
  case less
  show ?case
  proof (cases "i < length workers")
    case False
    then show ?thesis using less.prems by (simp add: join_from.simps [of H i])
  next
    case True
    obtain w1 fin where f: "nh_is_finished H (workers ! i) w = (w1, fin)" by (cases "nh_is_finished H (workers ! i) w")
    note q1 = s_finished [OF f]
    obtain w2 ok where j: "nh_join H (workers ! i) w1 = (w2, ok)" by (cases "nh_join H (workers ! i) w1")
    note q2 = s_join [OF j]
    have joined: "owns view (swap_remove workers i) w2"
      using less.prems(2) q1 q2 set_swap_remove [of workers i] True by (simp add: owns_def undisturbed_def)
    show ?thesis
    proof (cases fin)
      case True
      with \<open>i < length workers\<close> have "join_from H i (swap_remove workers i) (success \<and> ok) w2 = (w', success', workers')"
        using less.prems(1) f j by (simp add: join_from.simps [of H i workers])
      moreover have "length (swap_remove workers i) - i < length workers - i" using \<open>i < length workers\<close> by simp
      ultimately show ?thesis
        using less.hyps [OF _ _ joined] \<open>i < length workers\<close> q1 q2 by (fastforce simp: undisturbed_def)
    next
      case False
      with \<open>i < length workers\<close> have "join_from H (Suc i) workers success w1 = (w', success', workers')"
        using less.prems(1) f by (simp add: join_from.simps [of H i workers])
      moreover have "owns view workers w1" using less.prems(2) q1 by (simp add: owns_def undisturbed_def)
      moreover have "length workers - Suc i < length workers - i" using \<open>i < length workers\<close> by simp
      ultimately show ?thesis
        using less.hyps [of workers "Suc i" success w1] q1 by (fastforce simp: undisturbed_def)
    qed
  qed
qed

lemma s_join_finished:
  assumes "join_finished H workers w = (w', success', workers')" "owns view workers w"
  shows "owns view workers' w'" "length workers' \<le> length workers" "patience w' \<le> patience w"
    "vw_peak (view w') = vw_peak (view w)" "vw_listening (view w') = vw_listening (view w)"
  using s_join_from [of 0] assms by (auto simp: join_finished_def)

text \<open>One turn ends; patience goes down unless it ends the session.\<close>

lemma turn_ends: "accept_turn H state workers w \<noteq> None"
proof -
  have "write_response H s status artifact deadline w \<noteq> None" for s status artifact deadline w
    using write_response_ends [of s status artifact deadline w] by auto
  then have "handle_connection H state c remote over deadline workers w \<noteq> None"
    for c remote over deadline workers w
    by (auto simp: handle_connection_def split: prod.splits option.splits bind_splits)
      (metis option.distinct(1))+
  then show ?thesis
    by (auto simp: accept_turn_def Let_def split: prod.splits accept_answer.splits registration.splits)
qed

lemma admitted_kept:
  assumes "owns view workers w" "length workers \<le> MAX_WORKERS"
    "register H s w1 = (w2, Registered c)" "undisturbed view patience w w1"
    "handle_connection H state c remote (length workers \<ge> MAX_WORKERS) deadline workers w2 = Some (w', code, workers')"
  shows "kept view patience workers' w w'"
proof (cases "length workers \<ge> MAX_WORKERS")
  case True
  then obtain w3 where "write_response H (cn_stream c) 503 [] deadline w2 = Some w3" "workers' = workers"
    "w' = drop_connection H c w3"
    using assms(5) by (auto simp: handle_connection_def split: bind_splits)
  then have "undisturbed view patience w w'"
    using s_write_response s_drop s_register [OF assms(3)] assms(4) by (blast intro: calm_trans)
  then show ?thesis
    using assms(1,2) \<open>workers' = workers\<close> by (auto simp: kept_def owns_def undisturbed_def)
next
  case False
  obtain w3 worker where sp: "nh_spawn H c state remote deadline w2 = (w3, worker)"
    by (cases "nh_spawn H c state remote deadline w2")
  have q: "undisturbed view patience w w2" using s_register [OF assms(3)] assms(4) by (blast intro: calm_trans)
  show ?thesis
  proof (cases worker)
    case None
    then have "w' = drop_connection H c w3" "workers' = workers" "undisturbed view patience w w3"
      using assms(5) False sp s_unspawned [of c state remote deadline w2 w3] q
      by (auto simp: handle_connection_def intro: calm_trans)
    then have "undisturbed view patience w w'" "workers' = workers" using s_drop by (blast intro: calm_trans)+
    then show ?thesis using assms(1,2) by (auto simp: kept_def owns_def undisturbed_def)
  next
    case (Some t)
    then have t: "w' = w3" "workers' = workers @ [t]" using assms(5) False sp by (auto simp: handle_connection_def)
    have "card (insert t (set workers)) \<le> MAX_WORKERS"
      using False card_length [of "t # workers"] by (auto simp: insert_absorb)
    then show ?thesis
      using assms(1) False t s_spawn [of c state remote deadline w2 w3 t] sp Some q
      by (auto simp: kept_def owns_def undisturbed_def)
  qed
qed

lemma s_accept_turn:
  assumes "accept_turn H state workers w = Some (w', code, workers')" "owns view workers w"
    "length workers \<le> MAX_WORKERS"
  shows "kept view patience workers' w w' \<and> (code = None \<longrightarrow> patience w' < patience w)"
proof -
  obtain w1 c where c: "is_cancelled H w = (w1, c)" by (cases "is_cancelled H w")
  note q1 = s_cancelled [OF c]
  obtain w2 ok2 ws2 where j2: "join_finished H workers w1 = (w2, ok2, ws2)"
    by (cases "join_finished H workers w1") auto
  have o1: "owns view workers w1" using assms(2) q1 by (auto simp: owns_def undisturbed_def)
  note q2 = s_join_finished [OF j2 o1]
  obtain w3 answer where a: "nh_accept H w2 = (w3, answer)" by (cases "nh_accept H w2")
  note q3 = s_accept [OF a]
  obtain w4 ok4 ws4 where j4: "join_finished H ws2 w3 = (w4, ok4, ws4)"
    by (cases "join_finished H ws2 w3") auto
  have o3: "owns view ws2 w3" using q2 q3 by (auto simp: owns_def undisturbed_def)
  note q4 = s_join_finished [OF j4 o3]
  obtain w5 t where n: "nh_now H w4 = (w5, t)" by (cases "nh_now H w4")
  note q5 = s_now [OF n]
  have upto: "kept view patience workers w w1" "kept view patience ws2 w w2" "kept view patience ws2 w w3"
    "kept view patience ws4 w w4"
    using assms(2,3) q1 q2 q3 q4 by (auto simp: kept_def owns_def undisturbed_def)
  have down: "\<not> c \<Longrightarrow> patience w3 < patience w"
    using q1 q2(3) q3 by (auto simp: undisturbed_def)
  let ?over = "length ws4 \<ge> MAX_WORKERS"
  let ?deadline = "t + (if ?over then OVERLOAD_TIMEOUT else CONNECTION_TIMEOUT)"
  have admitted: ?thesis if "answer = Accepted stream remote" "\<not> c" "ok2" "ok4" for stream remote
  proof -
    obtain w6 reg where rg: "register H stream w5 = (w6, reg)" by (cases "register H stream w5")
    have w6: "undisturbed view patience w4 w6" using q5 s_register [OF rg] by (rule calm_trans)
    have o4: "owns view ws4 w4" "length ws4 \<le> MAX_WORKERS" using upto(4) by (simp_all add: kept_def)
    have turn: "(case reg of AlreadyCancelled \<Rightarrow> Some (w6, Some Stopped, ws4)
        | RegistrationError \<Rightarrow> Some (w6, Some Failed, ws4)
        | Registered k \<Rightarrow> handle_connection H state k remote ?over ?deadline ws4 w6) = Some (w', code, workers')"
      using assms(1) that c j2 a j4 n rg by (simp add: accept_turn_def Let_def)
    have "kept view patience workers' w4 w'"
    proof (cases reg)
      case (Registered k)
      then show ?thesis using admitted_kept [OF o4 _ q5] rg turn by simp
    qed (use turn w6 o4 in \<open>auto simp: kept_def owns_def undisturbed_def\<close>)
    then show ?thesis
      using upto(4) down [OF that(2)] q4(3) by (auto simp: kept_def)
  qed
  show ?thesis
  proof (cases "c \<or> \<not> ok2")
    case True
    then show ?thesis using assms(1) upto c j2 by (auto simp: accept_turn_def Let_def split: if_splits)
  next
    case False
    show ?thesis
    proof (cases answer)
      case (Accepted stream remote)
      then show ?thesis
        using admitted False assms(1) upto c j2 a j4 by (cases ok4) (auto simp: accept_turn_def Let_def)
    next
      case WouldBlock
      then have "w' = stop_wait H ACCEPT_POLL w3" "workers' = ws2"
        using assms(1) False c j2 a by (simp_all add: accept_turn_def Let_def)
      then show ?thesis
        using upto(3) down False s_stop_wait [of w3 ACCEPT_POLL] by (auto simp: kept_def owns_def undisturbed_def)
    qed (use assms(1) False upto down c j2 a in \<open>auto simp: accept_turn_def Let_def\<close>)
  qed
qed

text \<open>The loop ends, by patience, and its codes are \<open>Stopped\<close> and \<open>Failed\<close>.\<close>

lemma turn_codes: "accept_turn H state workers w = Some (w', Some code, workers') \<Longrightarrow> code = Stopped \<or> code = Failed"
  by (auto simp: accept_turn_def handle_connection_def Let_def split: prod.splits if_splits accept_answer.splits
      registration.splits option.splits bind_splits)

lemma accept_ends:
  assumes "owns view workers w" "length workers \<le> MAX_WORKERS"
  shows "\<exists>w' code workers'. accept H state workers w = Some (w', code, workers')
    \<and> kept view patience workers' w w' \<and> (code = Stopped \<or> code = Failed)"
  using assms
proof (induction "patience w" arbitrary: workers w rule: less_induct)
  case less
  obtain w1 code ws1 where t: "accept_turn H state workers w = Some (w1, code, ws1)"
    using turn_ends [of state workers w] by auto
  have k: "kept view patience ws1 w w1" "code = None \<longrightarrow> patience w1 < patience w"
    using s_accept_turn [OF t less.prems] by auto
  show ?case
  proof (cases code)
    case (Some c)
    then show ?thesis using t k turn_codes [of state workers w w1 c ws1] accept.simps [of H state workers w] by auto
  next
    case None
    then have "\<exists>w' code workers'. accept H state ws1 w1 = Some (w', code, workers')
        \<and> kept view patience workers' w1 w' \<and> (code = Stopped \<or> code = Failed)"
      using less.hyps [of w1 ws1] k by (simp add: kept_def)
    then obtain w' c' ws' where "accept H state ws1 w1 = Some (w', c', ws')"
      "kept view patience ws' w1 w'" "c' = Stopped \<or> c' = Failed" by blast
    then show ?thesis using t None k accept.simps [of H state workers w] by (auto simp: kept_def)
  qed
qed

lemma s_join_all:
  "join_all H ts joined w = (w', joined') \<Longrightarrow> view w' = (view w)\<lparr>vw_threads := vw_threads (view w) - set ts\<rparr>"
proof (induction ts arbitrary: joined w)
  case Nil
  then show ?case by simp
next
  case (Cons t ts)
  obtain w1 ok where j: "nh_join H t w = (w1, ok)" by (cases "nh_join H t w")
  then have "view w' = (view w1)\<lparr>vw_threads := vw_threads (view w1) - set ts\<rparr>" using Cons by simp
  moreover have "vw_threads (view w) - {t} - set ts = vw_threads (view w) - set (t # ts)" by auto
  ultimately show ?case using s_join [OF j] by simp
qed

lemma serve_ends:
  assumes "vw_threads (view w) = {}"
  shows "\<exists>w' rt' code. serve H state rt w = Some (w', rt', code)
    \<and> vw_threads (view w') = {} \<and> \<not> vw_listening (view w')
    \<and> vw_peak (view w') \<le> max (vw_peak (view w)) MAX_WORKERS
    \<and> (rt' = rt \<and> (code = Refused \<or> code = Failed)
       \<or> \<not> rt_running rt \<and> rt' = rt\<lparr>rt_loaded := Some state, rt_running := False\<rparr> \<and> (code = Stopped \<or> code = Failed))"
proof -
  obtain w1 ip where l: "nh_local_ip H w = (w1, ip)" by (cases "nh_local_ip H w")
  obtain w2 ok where n: "nh_set_nonblocking H w1 = (w2, ok)" by (cases "nh_set_nonblocking H w1")
  have q: "view w1 = view w" "view w2 = view w"
    using s_local [OF l] s_nonblocking [OF n] by (auto simp: undisturbed_def)
  show ?thesis
  proof (cases "ip \<noteq> Some (V4 (sv_ipv4 (snd state))) \<or> \<not> ok \<or> rt_running rt")
    case True
    let ?other = "ip \<noteq> Some (V4 (sv_ipv4 (snd state)))"
    let ?v = "if ?other then w1 else w2" and ?code = "if ?other then Refused else if \<not> ok then Failed else Refused"
    have "serve_claim H state rt w = (nh_close_listener H ?v, Inl ?code)"
      using True l n by (auto simp: serve_claim_def)
    then have "serve H state rt w = Some (nh_close_listener H ?v, rt, ?code)" by (simp add: serve_def)
    moreover have "view ?v = view w" using q by simp
    ultimately show ?thesis using assms s_close [of ?v] by (auto simp: le_max_iff_disj)
  next
    case False
    let ?rt = "rt\<lparr>rt_loaded := Some state, rt_running := True\<rparr>"
    have claim: "serve_claim H state rt w = (w2, Inr ?rt)" using False l n by (simp add: serve_claim_def)
    obtain w3 code ws where a: "accept H (snd state) [] w2 = Some (w3, code, ws)"
      "kept view patience ws w2 w3" "code = Stopped \<or> code = Failed"
      using accept_ends [of "[]" w2 "snd state"] assms q by (auto simp: owns_def)
    let ?w4 = "cancel H (nh_close_listener H w3)"
    obtain w5 joined where j: "join_all H ws True ?w4 = (w5, joined)" by (cases "join_all H ws True ?w4")
    have v4: "view ?w4 = (view w3)\<lparr>vw_listening := False\<rparr>"
      using s_cancel [of "nh_close_listener H w3"] s_close [of w3] by (simp add: undisturbed_def)
    have "serve H state rt w = Some (w5, ?rt\<lparr>rt_running := False\<rparr>, if joined then code else Failed)"
      using claim a(1) j by (simp add: serve_def)
    then show ?thesis
      using s_join_all [OF j] v4 a q False by (auto simp: kept_def owns_def)
  qed
qed

end

end
