(* ===== verification/Serving_Simulation.thy ===== *)
theory Serving_Simulation
  imports Serving_Session
begin

text \<open>
  A simulated operating system: one peer whose request arrives in the given pieces, a kernel that takes a fixed
  number of bytes at a time, connections that wait in a queue, and an owner who cancels when the queue is empty.
  It satisfies the locales \<open>wire\<close> and \<open>session\<close>, and a peer who is not cut off gets a whole response from it.
  A kernel with a lock satisfies \<open>registry_os\<close>.
\<close>

section \<open>The simulation\<close>

record sim =
  sm_time :: int
  sm_inbox :: "bytes list"
  sm_sent :: "nat \<Rightarrow> bytes"
  sm_got :: "nat \<Rightarrow> bytes"
  sm_stop :: stop_state
  sm_limiter :: source_limiter
  sm_peers :: "(nat \<times> ip_addr) list"
  sm_view :: session_view
  sm_next :: nat
  sm_ip :: "nat list"
  sm_chunk :: nat

definition sim_read :: "nat \<Rightarrow> nat \<Rightarrow> sim \<Rightarrow> sim \<times> read_answer" where
  "sim_read s room w =
     (let w = w\<lparr>sm_time := sm_time w + 1\<rparr> in
      case sm_inbox w of
        [] \<Rightarrow> (w, ReadFailed)
      | part # parts \<Rightarrow>
          (w\<lparr>sm_inbox := (if length part \<le> room then parts else drop room part # parts),
             sm_got := (sm_got w)(s := sm_got w s @ take room part)\<rparr>,
           Received (take room part)))"

definition sim_write :: "nat \<Rightarrow> bytes \<Rightarrow> sim \<Rightarrow> sim \<times> write_answer" where
  "sim_write s bytes w =
     (let n = min (sm_chunk w) (length bytes) in
      (w\<lparr>sm_time := sm_time w + 1, sm_sent := (sm_sent w)(s := sm_sent w s @ take n bytes)\<rparr>, Wrote n))"

definition sim_spawn :: "sim \<Rightarrow> sim \<times> nat option" where
  "sim_spawn w =
     (let v = sm_view w; t = sm_next w in
      if t \<in> vw_threads v then (w, None)
      else (w\<lparr>sm_next := Suc t, sm_view := v\<lparr>vw_threads := insert t (vw_threads v),
                vw_peak := max (vw_peak v) (card (insert t (vw_threads v)))\<rparr>\<rparr>, Some t))"

definition sim_accept :: "sim \<Rightarrow> sim \<times> accept_answer" where
  "sim_accept w =
     (case sm_peers w of
        [] \<Rightarrow> (w, WouldBlock)
      | (s, ip) # ps \<Rightarrow> (w\<lparr>sm_peers := ps\<rparr>, Accepted s ip))"

definition sim_host :: "sim net_host" where
  "sim_host = \<lparr>
     nh_now = (\<lambda>w. (w, sm_time w)),
     nh_lock_stop = (\<lambda>w. (w, (sm_stop w)\<lparr>st_cancelled := st_cancelled (sm_stop w) \<or> sm_peers w = []\<rparr>)),
     nh_unlock_stop = (\<lambda>st w. w\<lparr>sm_stop := st\<rparr>),
     nh_wait_timeout = (\<lambda>st d w. w\<lparr>sm_stop := st, sm_time := sm_time w + max 0 d\<rparr>),
     nh_notify = (\<lambda>w. w),
     nh_shutdown = (\<lambda>s w. w),
     nh_set_blocking = (\<lambda>s w. (w, True)),
     nh_try_clone = (\<lambda>s w. (w, Some s)),
     nh_set_read_timeout = (\<lambda>s d w. (w, True)),
     nh_read = sim_read,
     nh_set_write_timeout = (\<lambda>s d w. (w, True)),
     nh_write = sim_write,
     nh_lock_limiter = (\<lambda>w. (w, sm_limiter w)),
     nh_unlock_limiter = (\<lambda>l w. w\<lparr>sm_limiter := l\<rparr>),
     nh_local_ip = (\<lambda>w. (w, Some (V4 (sm_ip w)))),
     nh_set_nonblocking = (\<lambda>w. (w, True)),
     nh_accept = sim_accept,
     nh_close_listener = (\<lambda>w. w\<lparr>sm_view := (sm_view w)\<lparr>vw_listening := False\<rparr>\<rparr>),
     nh_is_finished = (\<lambda>t w. (w, even t)),
     nh_join = (\<lambda>t w. (w\<lparr>sm_view := (sm_view w)\<lparr>vw_threads := vw_threads (sm_view w) - {t}\<rparr>\<rparr>, True)),
     nh_spawn = (\<lambda>c state ip d. sim_spawn)\<rparr>"

interpretation sim: session sim_host sm_sent sm_got sm_time sm_view "\<lambda>w. length (sm_peers w)"
  by unfold_locales
    (auto simp: sim_host_def sim_read_def sim_write_def sim_spawn_def sim_accept_def received_def written_def
      undisturbed_def Let_def min_def split: list.splits if_splits)

section \<open>A kernel with a lock\<close>

text \<open>The state behind the lock and the sockets that were shut down; a handle is the number of its socket.\<close>

record kernel =
  kn_stop :: stop_state
  kn_shut :: "nat set"

definition kernel_host :: "kernel net_host" where
  "kernel_host = \<lparr>
     nh_now = (\<lambda>w. (w, 0)),
     nh_lock_stop = (\<lambda>w. (w, kn_stop w)),
     nh_unlock_stop = (\<lambda>st w. w\<lparr>kn_stop := st\<rparr>),
     nh_wait_timeout = (\<lambda>st d w. w\<lparr>kn_stop := st\<rparr>),
     nh_notify = (\<lambda>w. w),
     nh_shutdown = (\<lambda>s w. w\<lparr>kn_shut := insert s (kn_shut w)\<rparr>),
     nh_set_blocking = (\<lambda>s w. (w, True)),
     nh_try_clone = (\<lambda>s w. (w, Some s)),
     nh_set_read_timeout = (\<lambda>s d w. (w, True)),
     nh_read = (\<lambda>s n w. (w, ReadFailed)),
     nh_set_write_timeout = (\<lambda>s d w. (w, True)),
     nh_write = (\<lambda>s b w. (w, WriteFailed)),
     nh_lock_limiter = (\<lambda>w. (w, [])),
     nh_unlock_limiter = (\<lambda>l w. w),
     nh_local_ip = (\<lambda>w. (w, None)),
     nh_set_nonblocking = (\<lambda>w. (w, True)),
     nh_accept = (\<lambda>w. (w, WouldBlock)),
     nh_close_listener = (\<lambda>w. w),
     nh_is_finished = (\<lambda>t w. (w, True)),
     nh_join = (\<lambda>t w. (w, True)),
     nh_spawn = (\<lambda>c state ip d w. (w, None))\<rparr>"

interpretation kernel: registry_os kernel_host kn_stop kn_shut "\<lambda>s. s"
  by unfold_locales (auto simp: kernel_host_def)

section \<open>A whole exchange\<close>

lemma sim_cancelled:
  "sm_peers w \<noteq> [] \<Longrightarrow> \<not> st_cancelled (sm_stop w) \<Longrightarrow> is_cancelled sim_host w = (w, False)"
  by (simp add: is_cancelled_def sim_host_def)

lemma sim_deadline: "sm_time w < deadline \<Longrightarrow> set_read_deadline sim_host s deadline w = (w, True)"
  by (simp add: set_read_deadline_def sim_host_def remaining_time_def)

text \<open>The pieces of a request that is complete with its last piece and not before.\<close>

definition arriving :: "bytes \<Rightarrow> bytes list \<Rightarrow> bool" where
  "arriving bytes parts =
     (parts \<noteq> [] \<and> [] \<notin> set parts \<and> length (bytes @ concat parts) \<le> MAX_HEADER_BYTES
      \<and> header_complete (bytes @ concat parts)
      \<and> (\<forall>i < length parts. 0 < i \<longrightarrow> \<not> header_complete (bytes @ concat (take i parts))))"

lemma sim_read_request:
  assumes "arriving bytes (sm_inbox w)" "sm_peers w \<noteq> []" "\<not> st_cancelled (sm_stop w)"
    "sm_time w + int (length (sm_inbox w)) \<le> deadline"
  shows "read_request L parse sim_host s state deadline bytes w =
    Some (w\<lparr>sm_inbox := [], sm_got := (sm_got w)(s := sm_got w s @ concat (sm_inbox w)),
            sm_time := sm_time w + int (length (sm_inbox w))\<rparr>,
          serve_authorized L parse (bytes @ concat (sm_inbox w)) state)"
  using assms
proof (induction "sm_inbox w" arbitrary: w bytes)
  case Nil
  then show ?case by (simp add: arriving_def)
next
  case (Cons part parts)
  note inbox = Cons.hyps(2) [symmetric]
  let ?room = "MAX_HEADER_BYTES - length bytes"
  let ?w = "w\<lparr>sm_time := sm_time w + 1, sm_inbox := parts, sm_got := (sm_got w)(s := sm_got w s @ part)\<rparr>"
  have part: "part \<noteq> []" "length part \<le> ?room" using Cons.prems(1) by (auto simp: arriving_def inbox)
  have "nh_read sim_host s ?room w = (?w, Received part)"
    using part by (simp add: sim_host_def sim_read_def inbox)
  then have step: "read_request L parse sim_host s state deadline bytes w =
      (if header_complete (bytes @ part) then Some (?w, serve_authorized L parse (bytes @ part) state)
       else if length (bytes @ part) = MAX_HEADER_BYTES then Some (?w, False)
       else read_request L parse sim_host s state deadline (bytes @ part) ?w)"
    using part(1) take_all [OF part(2)] Cons.prems
    by (subst read_request.simps) (simp add: sim_cancelled sim_deadline inbox Let_def del: take_eq_Nil)
  show ?case
  proof (cases "parts = []")
    case True
    then have "header_complete (bytes @ part)" using Cons.prems(1) by (simp add: arriving_def inbox)
    then show ?thesis using step True by (simp add: inbox)
  next
    case False
    have later: "\<not> header_complete (bytes @ part)"
      using Cons.prems(1) False by (auto simp: arriving_def inbox dest!: spec [of _ 1])
    have "[] \<notin> set parts" using Cons.prems(1) by (auto simp: arriving_def inbox)
    then have "length (concat parts) > 0" using False by (cases parts) auto
    then have short: "length (bytes @ part) \<noteq> MAX_HEADER_BYTES"
      using Cons.prems(1) by (simp add: arriving_def inbox del: concat_eq_Nil_conv length_greater_0_conv)
    have "arriving (bytes @ part) parts"
      unfolding arriving_def
    proof (intro conjI allI impI)
      fix i assume "i < length parts" "0 < i"
      then show "\<not> header_complete ((bytes @ part) @ concat (take i parts))"
        using Cons.prems(1) by (auto simp: arriving_def inbox dest!: spec [of _ "Suc i"])
    qed (use False Cons.prems(1) in \<open>auto simp: arriving_def inbox\<close>)
    then have "read_request L parse sim_host s state deadline (bytes @ part) ?w =
        Some (?w\<lparr>sm_inbox := [], sm_got := (sm_got ?w)(s := sm_got ?w s @ concat (sm_inbox ?w)),
            sm_time := sm_time ?w + int (length (sm_inbox ?w))\<rparr>,
          serve_authorized L parse ((bytes @ part) @ concat (sm_inbox ?w)) state)"
      using Cons.prems by (intro Cons.hyps(1)) (auto simp: inbox)
    then show ?thesis using step later short by (simp add: inbox)
  qed
qed

lemma sim_write_part:
  assumes "sm_chunk w > 0" "sm_peers w \<noteq> []" "\<not> st_cancelled (sm_stop w)"
    "sm_time w + int (length bytes) \<le> deadline"
  shows "\<exists>w'. write_part sim_host s deadline bytes w = Some (w', True)
    \<and> sm_sent w' = (sm_sent w)(s := sm_sent w s @ bytes) \<and> sm_time w' \<le> sm_time w + int (length bytes)
    \<and> sm_chunk w' = sm_chunk w \<and> sm_peers w' = sm_peers w \<and> sm_stop w' = sm_stop w"
  using assms
proof (induction bytes arbitrary: w rule: length_induct)
  case (1 bytes)
  show ?case
  proof (cases "bytes = []")
    case True
    then show ?thesis by (simp add: write_part.simps [of sim_host s deadline "[]"])
  next
    case False
    let ?n = "min (sm_chunk w) (length bytes)"
    have n: "?n > 0" using 1(2) False by simp
    let ?w = "w\<lparr>sm_time := sm_time w + 1, sm_sent := (sm_sent w)(s := sm_sent w s @ take ?n bytes)\<rparr>"
    have step: "write_part sim_host s deadline bytes w = write_part sim_host s deadline (drop ?n bytes) ?w"
    proof -
      have d: "nh_now sim_host w = (w, sm_time w)" "nh_set_write_timeout sim_host s r w = (w, True)"
        "nh_write sim_host s bytes w = (?w, Wrote ?n)" for r
        by (simp_all add: sim_host_def sim_write_def Let_def)
      have "deadline - sm_time w > 0" using 1(5) False by (cases bytes) auto
      then show ?thesis
        using n False 1(3,4) by (subst write_part.simps) (simp add: d sim_cancelled remaining_time_def del: min_less_iff_conj)
    qed
    have less: "length (drop ?n bytes) < length bytes" using n False by auto
    then have one: "int (length (drop ?n bytes)) + 1 \<le> int (length bytes)" by linarith
    then have dl: "sm_time ?w + int (length (drop ?n bytes)) \<le> deadline" using 1(5) by (simp del: length_drop)
    obtain w' where "write_part sim_host s deadline (drop ?n bytes) ?w = Some (w', True)"
      "sm_sent w' = (sm_sent ?w)(s := sm_sent ?w s @ drop ?n bytes)"
      "sm_time w' \<le> sm_time ?w + int (length (drop ?n bytes))"
      "sm_chunk w' = sm_chunk w" "sm_peers w' = sm_peers w" "sm_stop w' = sm_stop w"
      using 1(1) [rule_format, OF less, of ?w] 1(2-4) dl by auto
    then show ?thesis using step one by (intro exI [of _ w']) (simp del: length_drop)
  qed
qed

lemma sim_write_response:
  assumes "sm_chunk w > 0" "sm_peers w \<noteq> []" "\<not> st_cancelled (sm_stop w)"
    "sm_time w + int (length (response status artifact)) \<le> deadline"
  shows "\<exists>w'. write_response sim_host s status artifact deadline w = Some w'
    \<and> sm_sent w' = (sm_sent w)(s := sm_sent w s @ response status artifact)"
proof -
  let ?h = "response_header status artifact" and ?b = "response_body status artifact"
  obtain w1 where w1: "write_part sim_host s deadline ?h w = Some (w1, True)"
    "sm_sent w1 = (sm_sent w)(s := sm_sent w s @ ?h)" "sm_time w1 \<le> sm_time w + int (length ?h)"
    "sm_chunk w1 = sm_chunk w" "sm_peers w1 = sm_peers w" "sm_stop w1 = sm_stop w"
    using sim_write_part [OF assms(1-3), of ?h deadline s] assms(4) by (auto simp: response_def)
  obtain w2 where "write_part sim_host s deadline ?b w1 = Some (w2, True)"
    "sm_sent w2 = (sm_sent w1)(s := sm_sent w1 s @ ?b)"
    using sim_write_part [of w1 ?b deadline s] assms w1 by (auto simp: response_def)
  then show ?thesis using w1 by (intro exI [of _ w2]) (simp add: write_response_def response_def)
qed

end
