(* ===== verification/Serving_Properties.thy ===== *)
theory Serving_Properties
  imports Serving_Simulation Json_Text
begin

text \<open>The properties of subscription serving, with the inputs at which they are applied.\<close>

section \<open>The limiter\<close>

text \<open>
  C5.  In any window of time \<open>a .. b\<close>, from any state the limiter can be in and whatever other sources do, one source
  is admitted at most six times plus once for every ten seconds of the window, up to the rounding of \<open>f64\<close>, which is
  less than \<open>2 ^ -44\<close> of a request for each call of that source.  This holds although workers may take the lock in
  another order than they read the clock in, as long as no instant is more than nine minutes behind the latest.
\<close>

theorem limiter_rate_bound:
  assumes "limiter_ok l" "a \<le> b" "steady (540 * NANOS_PER_SEC) a cs" "\<forall>c\<in>set cs. a \<le> snd c \<and> snd c \<le> b"
  shows "of_nat (admissions ip cs l)
    \<le> 6 + of_int (b - a) / (10 * of_int NANOS_PER_SEC) + of_nat (calls_of ip cs) / (2 ^ 44 :: rat)"
proof -
  have "within_bound a b a 0 0 (map_of l ip)" by (simp add: within_bound_def)
  from admissions_within [OF this assms(1,2,2)] assms(3,4) show ?thesis
    by (simp add: REVERSAL_def TOKEN_NANOS_def rounding_def NANOS_PER_SEC_def)
qed

definition burst :: calls where
  "burst = replicate 7 (V4 [203, 0, 113, 9], 100) @ [(V4 [203, 0, 113, 9], 10000000100), (V4 [203, 0, 113, 9], 100)]"

theorem limiter_rate_bound_witness:
  "admissions (V4 [203, 0, 113, 9]) burst [] = 7
   \<and> of_nat (admissions (V4 [203, 0, 113, 9]) burst []) \<le> (7 + 9 / 2 ^ 44 :: rat)"
proof -
  have n: "calls_of (V4 [203, 0, 113, 9]) burst = 9" by (simp add: calls_of_def burst_def)
  have "limiter_ok []" by (simp add: limiter_ok_def)
  moreover have "steady (540 * NANOS_PER_SEC) 100 burst"
    by (simp add: burst_def NANOS_PER_SEC_def eval_nat_numeral)
  moreover have "\<forall>c\<in>set burst. 100 \<le> snd c \<and> snd c \<le> 10000000100" by (auto simp: burst_def)
  ultimately have "of_nat (admissions (V4 [203, 0, 113, 9]) burst [])
      \<le> 6 + of_int (10000000100 - 100) / (10 * of_int NANOS_PER_SEC) + of_nat (calls_of (V4 [203, 0, 113, 9]) burst) / (2 ^ 44 :: rat)"
    by (intro limiter_rate_bound) auto
  moreover have "admissions (V4 [203, 0, 113, 9]) burst [] = 7" by code_simp
  ultimately show ?thesis by (simp add: n NANOS_PER_SEC_def)
qed

text \<open>
  C7.  The states of the limiter: at most 1024 sources, each once, with between no and six tokens.  Every call keeps
  this, and a refused call has a reason: either all 1024 places are taken by other sources that called less than ten
  minutes ago, or the source has less than one token (up to rounding) and called within the last ten seconds (and a
  microsecond).
\<close>

theorem limiter_states:
  assumes "limiter_ok l"
  shows "limiter_ok (snd (allow ip now l))
    \<and> (\<not> fst (allow ip now l) \<longrightarrow>
      (case map_of (retain_sources now l) ip of
         None \<Rightarrow> length (retain_sources now l) = 1024
       | Some s \<Rightarrow> so_tokens s < 1 + 1 / 2 ^ 44 \<and> now < so_last s + 10 * NANOS_PER_SEC + 1000))"
  using allow_ok [OF assms, of ip now] allow_refused [OF assms, of ip now]
  unfolding MAX_SOURCES_def rounding_def by blast

definition spent :: source_limiter where
  "spent = [(V4 [203, 0, 113, 9], \<lparr>so_tokens = 0, so_refill = 100, so_last = 100\<rparr>)]"

lemma spent_refused: "\<not> fst (allow (V4 [203, 0, 113, 9]) 100 spent)"
  by code_simp

theorem limiter_states_witness:
  "limiter_ok (snd (allow (V4 [203, 0, 113, 9]) 100 spent)) \<and> \<not> fst (allow (V4 [203, 0, 113, 9]) 100 spent)
   \<and> (100 :: int) < 100 + 10 * NANOS_PER_SEC + 1000"
proof -
  have ok: "limiter_ok spent" by (simp add: limiter_ok_def spent_def source_ok_def MAX_SOURCES_def)
  have "map_of (retain_sources 100 spent) (V4 [203, 0, 113, 9]) = Some \<lparr>so_tokens = 0, so_refill = 100, so_last = 100\<rparr>"
    by (simp add: spent_def retain_sources_def saturating_since_def SOURCE_IDLE_def NANOS_PER_SEC_def)
  then show ?thesis using limiter_states [OF ok, of "V4 [203, 0, 113, 9]" 100] spent_refused by simp
qed

section \<open>Requests and responses\<close>

text \<open>
  C8.  \<open>authorized\<close> accepts exactly the bytes that parse completely, within 8192 bytes, as an HTTP/1.1 GET of
  \<open>/s/\<close> and the canonical encoding of 32 bytes whose SHA-256 is the one of the generation, with exactly one Host header
  that is not blank, Content-Length headers that are all the same sequence of zeros, and no Transfer-Encoding.
\<close>

theorem request_authorized_iff:
  "serve_authorized L parse bytes state \<longleftrightarrow>
    (\<exists>request key. parse bytes = Some request
      \<and> hr_end request \<le> 8192 \<and> hr_method request = Some ''GET'' \<and> hr_version request = Some 1
      \<and> acceptable_headers (hr_headers request)
      \<and> length key = 32 \<and> hr_path request = Some (''/s/'' @ url_encode key)
      \<and> sha256_hex L (url_encode key) = gn_credential_sha256 (sv_generation state))"
  unfolding serve_authorized_iff valid_request_def by blast

text \<open>
  C17.  Whatever the operating system, the peer and the other threads do, a connection comes to an end, reads at most
  8192 bytes and sends a prefix of one response: of 429 when the limiter refuses the source, of 200 with the artifact
  only after a complete and authorized request, and of 404 otherwise.  Nothing is sent on another socket.
\<close>

theorem connection_outcome:
  assumes "wire H sent got time"
  shows "\<exists>w' n part. respond L parse H c state remote now deadline w = Some w'
    \<and> got w' = (got w)(cn_stream c := got w (cn_stream c) @ part) \<and> length part \<le> 8192
    \<and> (if fst (allow (to_canonical remote) now (snd (nh_lock_limiter H w))) then
         sent w' = (sent w)(cn_stream c := sent w (cn_stream c) @ take n (response 404 []))
         \<or> header_complete part \<and> serve_authorized L parse part state
           \<and> sent w' = (sent w)(cn_stream c := sent w (cn_stream c) @ take n (response 200 (sv_artifact state)))
       else part = [] \<and> sent w' = (sent w)(cn_stream c := sent w (cn_stream c) @ take n (response 429 [])))"
  using wire.respond_ends [OF assms, of L parse c state remote now deadline w] by (simp add: MAX_HEADER_BYTES_def)

definition demo_token :: string where
  "demo_token = url_encode (replicate 32 0)"

definition demo_request :: bytes where
  "demo_request = ''GET /s/'' @ demo_token @ '' HTTP/1.1'' @ crlf @ ''Host: vps'' @ crlf @ crlf"

definition demo_parse :: "bytes \<Rightarrow> http_request option" where
  "demo_parse bytes =
     (if bytes = demo_request
      then Some \<lparr>hr_end = length demo_request, hr_method = Some ''GET'', hr_version = Some 1,
                 hr_path = Some (''/s/'' @ demo_token), hr_headers = [(''Host'', ''vps'')]\<rparr>
      else None)"

definition demo_state :: serving_state where
  "demo_state = \<lparr>sv_ipv4 = [8, 8, 8, 8], sv_artifact = ''vless://demo'' @ [lf],
     sv_generation = \<lparr>gn_link_id = replicate 32 CHR ''a'', gn_credential_sha256 = sha256_hex example_lib demo_token\<rparr>\<rparr>"

definition demo_world :: sim where
  "demo_world = \<lparr>sm_time = 0, sm_inbox = [take 20 demo_request, drop 20 demo_request], sm_sent = (\<lambda>_. []),
     sm_got = (\<lambda>_. []), sm_stop = new_stop, sm_limiter = [], sm_peers = [(7, V4 [203, 0, 113, 9])],
     sm_view = \<lparr>vw_threads = {}, vw_peak = 0, vw_listening = True\<rparr>, sm_next = 1, sm_ip = [8, 8, 8, 8], sm_chunk = 100\<rparr>"

definition demo_connection :: connection where
  "demo_connection = \<lparr>cn_stream = 7, cn_id = 0\<rparr>"

theorem connection_outcome_witness:
  "\<exists>w' n. respond example_lib demo_parse sim_host demo_connection demo_state (V4 [203, 0, 113, 9]) 100 5000000000
      (demo_world\<lparr>sm_limiter := spent\<rparr>) = Some w'
    \<and> sm_sent w' = (\<lambda>_. [])(7 := take n (response 429 []))"
proof -
  have "\<not> fst (allow (to_canonical (V4 [203, 0, 113, 9])) 100 spent)" using spent_refused by (simp add: to_canonical_def)
  then show ?thesis
    using connection_outcome [OF sim.wire_axioms, of example_lib demo_parse demo_connection demo_state
        "V4 [203, 0, 113, 9]" 100 5000000000 "demo_world\<lparr>sm_limiter := spent\<rparr>"]
    by (auto simp: sim_host_def demo_world_def demo_connection_def)
qed

text \<open>
  C25.  On the simulated operating system, a peer who is admitted, sends its request in any pieces, the header complete
  with the last of them and within 8192 bytes, and is neither cancelled nor out of time, is sent one whole response:
  200 with the artifact if the request is authorized, and 404 otherwise.  The kernel may take any number of bytes at a
  time.
\<close>

theorem exchange_delivered:
  assumes "arriving [] (sm_inbox w)" "sm_chunk w > 0" "sm_peers w \<noteq> []" "\<not> st_cancelled (sm_stop w)"
    "fst (allow (to_canonical remote) now (sm_limiter w))"
    "reply = (if serve_authorized L parse (concat (sm_inbox w)) state
              then response 200 (sv_artifact state) else response 404 [])"
    "sm_time w + int (length (sm_inbox w)) + int (length reply) \<le> deadline"
  shows "\<exists>w'. respond L parse sim_host c state remote now deadline w = Some w'
    \<and> sm_sent w' = (sm_sent w)(cn_stream c := sm_sent w (cn_stream c) @ reply)"
proof -
  let ?s = "cn_stream c" and ?ok = "serve_authorized L parse (concat (sm_inbox w)) state"
  obtain l' where a: "allow (to_canonical remote) now (sm_limiter w) = (True, l')"
    using assms(5) by (cases "allow (to_canonical remote) now (sm_limiter w)") auto
  let ?w1 = "w\<lparr>sm_limiter := l'\<rparr>"
  let ?w2 = "?w1\<lparr>sm_inbox := [], sm_got := (sm_got ?w1)(?s := sm_got ?w1 ?s @ concat (sm_inbox ?w1)),
      sm_time := sm_time ?w1 + int (length (sm_inbox ?w1))\<rparr>"
  have read: "read_request L parse sim_host ?s state deadline [] ?w1 = Some (?w2, ?ok)"
    using sim_read_request [of "[]" ?w1 deadline L parse ?s state] assms(1,3,4,7) by simp
  have c: "is_cancelled sim_host ?w2 = (?w2, False)" using assms(3,4) by (simp add: sim_cancelled)
  let ?status = "if ?ok then 200 else 404" and ?body = "if ?ok then sv_artifact state else []"
  obtain w3 where w3: "write_response sim_host ?s ?status ?body deadline ?w2 = Some w3"
    "sm_sent w3 = (sm_sent ?w2)(?s := sm_sent ?w2 ?s @ response ?status ?body)"
    using sim_write_response [of ?w2 ?status ?body deadline ?s] assms(2-4,6,7) by (auto split: if_splits)
  have lim: "nh_lock_limiter sim_host w = (w, sm_limiter w)" "nh_unlock_limiter sim_host l' w = ?w1"
    by (simp_all add: sim_host_def)
  have "respond L parse sim_host c state remote now deadline w = Some (drop_connection sim_host c w3)"
    using read c w3(1) by (cases ?ok) (simp_all add: respond_def Let_def lim a)
  then show ?thesis
    using w3(2) assms(6) by (intro exI [of _ "drop_connection sim_host c w3"]) (auto simp: sim.drop_connection_quiet)
qed

lemma demo_token_text: "demo_token = replicate 43 CHR ''A''"
  by code_simp

lemma demo_authorized: "serve_authorized example_lib demo_parse demo_request demo_state"
proof -
  have "eq_ignore_ascii_case ''Host'' ''Host''" "\<not> eq_ignore_ascii_case ''Host'' ''Content-Length''"
    "\<not> eq_ignore_ascii_case ''Host'' ''Transfer-Encoding''" "trim_ascii ''vps'' = ''vps''"
    by (simp_all add: eq_ignore_ascii_case_def to_ascii_lowercase_def is_ascii_uppercase_def trim_ascii_def
        is_ascii_whitespace_def)
  then have "acceptable_headers [(''Host'', ''vps'')]" by (auto simp: acceptable_headers_def headers_named_def)
  moreover have "length demo_request \<le> 8192"
    by (simp add: demo_request_def demo_token_text crlf_def)
  ultimately show ?thesis
    unfolding serve_authorized_iff valid_request_def demo_parse_def
    by (auto simp: demo_state_def demo_token_def intro!: exI [of _ "replicate 32 0 :: u8 list"])
qed

theorem exchange_delivered_witness:
  "\<exists>w'. respond example_lib demo_parse sim_host demo_connection demo_state (V4 [203, 0, 113, 9]) 100 5000000000 demo_world
      = Some w' \<and> sm_sent w' = (\<lambda>_. [])(7 := response 200 (''vless://demo'' @ [lf]))"
proof -
  let ?reply = "response 200 (''vless://demo'' @ [lf])"
  have "arriving [] (sm_inbox demo_world)"
    unfolding arriving_def demo_world_def demo_request_def demo_token_text by code_simp
  moreover have "fst (allow (to_canonical (V4 [203, 0, 113, 9])) 100 (sm_limiter demo_world))" by code_simp
  moreover have "concat (sm_inbox demo_world) = demo_request" by (simp add: demo_world_def)
  moreover have "int (length ?reply) \<le> 1000" by code_simp
  ultimately show ?thesis
    using exchange_delivered [of demo_world "V4 [203, 0, 113, 9]" 100 ?reply example_lib demo_parse demo_state
        5000000000 demo_connection] demo_authorized
    by (simp add: demo_world_def new_stop_def demo_connection_def) (simp add: demo_state_def)
qed

section \<open>Sessions\<close>

text \<open>
  C31.  A session ends once it is cancelled, with every thread it started joined and the listener closed on every
  path; there are never more than eight of its threads at a time.  It runs only if no other session of the module
  does, and afterwards the module knows its state and is not running; when it is refused, nothing of the module changes.
\<close>

theorem session_ends:
  assumes "session H sent got time view patience" "vw_threads (view w) = {}"
  shows "\<exists>w' rt' code. serve H state rt w = Some (w', rt', code)
    \<and> vw_threads (view w') = {} \<and> \<not> vw_listening (view w') \<and> vw_peak (view w') \<le> max (vw_peak (view w)) 8
    \<and> (rt' = rt \<and> (code = Refused \<or> code = Failed)
       \<or> \<not> rt_running rt \<and> rt' = rt\<lparr>rt_loaded := Some state, rt_running := False\<rparr> \<and> (code = Stopped \<or> code = Failed))
    \<and> (serving_inspect rt' state = serving_inspect rt state \<or> sf_runtime (serving_inspect rt' state) = RuntimeStopped)"
proof -
  obtain w' rt' code where "serve H state rt w = Some (w', rt', code)"
    "vw_threads (view w') = {}" "\<not> vw_listening (view w')" "vw_peak (view w') \<le> max (vw_peak (view w)) 8"
    "rt' = rt \<and> (code = Refused \<or> code = Failed)
     \<or> \<not> rt_running rt \<and> rt' = rt\<lparr>rt_loaded := Some state, rt_running := False\<rparr> \<and> (code = Stopped \<or> code = Failed)"
    using session.serve_ends [OF assms, of state rt] by (auto simp: MAX_WORKERS_def)
  then show ?thesis by (auto simp: serving_inspect_def)
qed

definition crowd :: sim where
  "crowd = demo_world\<lparr>sm_peers := map (\<lambda>i. (i, V4 [203, 0, 113, 9])) [1 ..< 20]\<rparr>"

theorem session_ends_witness:
  "\<exists>w' rt' code. serve sim_host (1, demo_state) new_runtime crowd = Some (w', rt', code)
    \<and> vw_threads (sm_view w') = {} \<and> \<not> vw_listening (sm_view w') \<and> vw_peak (sm_view w') \<le> 8"
proof -
  have "vw_threads (sm_view crowd) = {}" "vw_peak (sm_view crowd) = 0" by (simp_all add: crowd_def demo_world_def)
  then show ?thesis
    using session_ends [OF sim.session_axioms, of crowd "(1, demo_state)" new_runtime] by auto
qed

text \<open>
  C35.  Under every interleaving of \<open>register\<close>, \<open>drop\<close> and \<open>cancel\<close> by the threads of a session, on any operating
  system whose lock works, the sockets of a \<open>Cancellation\<close> are exactly those of the live connections, each under a
  number of its own below the next one (the number never wraps).  \<open>cancel\<close> shuts all of them down, and from then on, for
  ever, every registration is refused as cancelled, no connection is added and every one that is left is shut down.  Only
  a cancelled registry refuses in this way.
\<close>

theorem registry_exact:
  assumes "registry_os H stop shut socket" "reachable_registry H stop shut (w, live)"
  shows "(\<lambda>(i, k). (i, socket k)) ` set (st_sockets (stop w)) = (\<lambda>c. (cn_id c, socket (cn_stream c))) ` set live
    \<and> distinct (map fst (st_sockets (stop w))) \<and> distinct (map cn_id live)
    \<and> (\<forall>c. c \<in> set live \<longrightarrow> cn_id c < st_next_id (stop w))
    \<and> st_cancelled (stop (cancel H w)) \<and> (\<lambda>c. socket (cn_stream c)) ` set live \<subseteq> shut (cancel H w)
    \<and> (snd (register H stream w) = AlreadyCancelled \<longleftrightarrow> st_cancelled (stop w))
    \<and> (st_cancelled (stop w) \<and> (registry_step H stop shut)\<^sup>*\<^sup>* (w, live) (w', live') \<longrightarrow>
         snd (register H stream w') = AlreadyCancelled \<and> set live' \<subseteq> set live
         \<and> (\<lambda>c. socket (cn_stream c)) ` set live' \<subseteq> shut w')"
proof -
  note ok = registry_os.reachable_ok [OF assms(1)]
  have refused: "snd (register H s v) = AlreadyCancelled \<longleftrightarrow> st_cancelled (stop v)" for s v
    using registry_os.o_register [OF assms(1), of s v] by (cases "register H s v") auto
  have g: "registry_ok socket (stop w) (shut w) live" using ok [OF assms(2)] .
  have c: "registry_ok socket (stop (cancel H w)) (shut (cancel H w)) live" "st_cancelled (stop (cancel H w))"
    using registry_os.registry_step_ok [OF assms(1) registry_step.cancelling g] registry_os.o_cancel [OF assms(1), of w]
    by simp_all
  have "snd (register H stream w') = AlreadyCancelled \<and> set live' \<subseteq> set live
      \<and> (\<lambda>c. socket (cn_stream c)) ` set live' \<subseteq> shut w'"
    if "st_cancelled (stop w)" "(registry_step H stop shut)\<^sup>*\<^sup>* (w, live) (w', live')"
  proof -
    note s = registry_os.cancelled_stays [OF assms(1) that(2,1)]
    have "registry_ok socket (stop w') (shut w') live'"
      by (rule ok [OF reachable_registry_steps [OF that(2) assms(2)]])
    then show ?thesis using s refused [of stream w'] by (simp add: registry_ok_def streams_def)
  qed
  then show ?thesis
    using g c refused [of stream w] by (auto simp: registry_ok_def registered_def streams_def)
qed

definition kernel_started :: kernel where
  "kernel_started = \<lparr>kn_stop = new_stop, kn_shut = {}\<rparr>"

definition kernel_registered :: kernel where
  "kernel_registered = fst (register kernel_host 7 kernel_started)"

lemma kernel_registering: "register kernel_host 7 kernel_started = (kernel_registered, Registered demo_connection)"
  by (simp add: kernel_registered_def kernel_started_def register_def kernel_host_def new_stop_def register_state_def
      checked_succ_def demo_connection_def)

lemma kernel_reachable:
  "reachable_registry kernel_host kn_stop kn_shut (kernel_registered, [demo_connection])"
  "reachable_registry kernel_host kn_stop kn_shut (cancel kernel_host kernel_registered, [demo_connection])"
proof -
  have "reachable_registry kernel_host kn_stop kn_shut (kernel_started, [])"
    by (rule reachable_registry.start) (simp add: kernel_started_def)
  from reachable_registry.step [OF this registry_step.registering [OF kernel_registering]]
  show r: "reachable_registry kernel_host kn_stop kn_shut (kernel_registered, [demo_connection])" by simp
  from reachable_registry.step [OF r registry_step.cancelling]
  show "reachable_registry kernel_host kn_stop kn_shut (cancel kernel_host kernel_registered, [demo_connection])" .
qed

theorem registry_exact_witness:
  "7 \<in> kn_shut (cancel kernel_host kernel_registered)
   \<and> snd (register kernel_host 8 (cancel kernel_host kernel_registered)) = AlreadyCancelled
   \<and> (\<lambda>(i, k). (i, k)) ` set (st_sockets (kn_stop kernel_registered)) = {(0, 7)}"
  using registry_exact [OF kernel.registry_os_axioms kernel_reachable(1), of 8]
    registry_exact [OF kernel.registry_os_axioms kernel_reachable(2), of 8]
  by (simp add: demo_connection_def)

end
