(* ===== verification/Release_Index.thy ===== *)
theory Release_Index
  imports Release_Identity Net_Addr
begin

text \<open>
  \<open>src/release_identity.rs\<close>, its first half: release indexes, asset proofs and the identity trailer of an executable.
  \<open>Err(ReleaseError)\<close> is \<open>None\<close>.  \<open>SourceIdentity\<close> and \<open>ReleaseIdentity\<close> have the fields of the release identity of
  the records, whose record type and encoding they share; their tags are the stable ones, major zero included.
  A raw SHA-256 digest is the 32 bytes that the hex text of the library stands for.
\<close>

section \<open>Constants\<close>

definition MAX_INDEX_BYTES :: nat where "MAX_INDEX_BYTES = 2 ^ 20"
definition MAX_EXECUTABLE_BYTES :: nat where "MAX_EXECUTABLE_BYTES = 256 * 2 ^ 20"
definition MAX_IDENTITY_BYTES :: nat where "MAX_IDENTITY_BYTES = 4 * 2 ^ 10"
definition IDENTITY_MAGIC :: bytes where "IDENTITY_MAGIC = ''SBXR-IDENTITY-V1''"

definition INDEXED_ASSET_NAMES :: "string list" where
  "INDEXED_ASSET_NAMES = [''install.sh'', ''sbxr-linux-amd64.tar.gz'', ''sbxr-linux-arm64.tar.gz'']"

definition RELEASE_ASSET_NAMES :: "string list" where
  "RELEASE_ASSET_NAMES =
     [''install.sh'', ''release-index.json'', ''sbxr-linux-amd64.tar.gz'', ''sbxr-linux-arm64.tar.gz'']"

definition SUBSCRIPTION_UPDATE_CONTRACT :: string where
  "SUBSCRIPTION_UPDATE_CONTRACT = ''sbxr-subscription-update-v1''"

datatype architecture = Amd64 | Arm64

definition arch_text :: "architecture \<Rightarrow> string" where
  "arch_text a = (case a of Amd64 \<Rightarrow> ''amd64'' | Arm64 \<Rightarrow> ''arm64'')"

definition rust_target :: "architecture \<Rightarrow> string" where
  "rust_target a = (case a of Amd64 \<Rightarrow> ''x86_64-unknown-linux-musl'' | Arm64 \<Rightarrow> ''aarch64-unknown-linux-musl'')"

definition tag_number :: "string \<Rightarrow> bool" where
  "tag_number part = (part \<noteq> [] \<and> list_all is_ascii_digit part \<and> (length part = 1 \<or> \<not> starts_with ''0'' part))"

definition stable_tag :: "string \<Rightarrow> bool" where
  "stable_tag tag =
     (case strip_prefix ''v'' tag of
        None \<Rightarrow> False
      | Some version \<Rightarrow>
          let parts = split_char CHR ''.'' version in length parts = 3 \<and> list_all tag_number parts)"

definition stable_release :: "string \<Rightarrow> string \<Rightarrow> u64 \<Rightarrow> bool" where
  "stable_release tag commit sequence = (stable_tag tag \<and> lower_hex commit 40 \<and> sequence > 0)"

section \<open>The codec\<close>

definition release_decode :: "lib \<Rightarrow> (json \<Rightarrow> 'a option) \<Rightarrow> bytes \<Rightarrow> nat \<Rightarrow> 'a option" where
  "release_decode L de bytes limit =
     (if bytes = [] \<or> length bytes > limit then None
      else case from_slice L bytes of None \<Rightarrow> None | Some j \<Rightarrow> de j)"

text \<open>
  A unit variant of an enumeration is read from its name, or from an object with the name as its only member and null
  as its value.
\<close>

definition de_variant :: "(string \<times> 'a) list \<Rightarrow> json \<Rightarrow> 'a option" where
  "de_variant names j =
     (case j of
        JStr s \<Rightarrow> map_of names s
      | JObj [(s, JNull)] \<Rightarrow> map_of names s
      | _ \<Rightarrow> None)"

section \<open>Asset proofs\<close>

record asset_proof =
  ap_name :: string
  ap_size :: u64
  ap_sha256 :: string

definition asset_limit :: "string \<Rightarrow> nat" where
  "asset_limit name =
     (if name = ''install.sh'' \<or> name = ''release-index.json'' then MAX_INDEX_BYTES else MAX_EXECUTABLE_BYTES)"

definition asset_valid :: "asset_proof \<Rightarrow> bool" where
  "asset_valid p =
     (ap_name p \<in> set RELEASE_ASSET_NAMES \<and> ap_size p > 0 \<and> ap_size p \<le> of_nat (asset_limit (ap_name p))
      \<and> lower_hex (ap_sha256 p) 64)"

definition new_asset_proof :: "string \<Rightarrow> u64 \<Rightarrow> string \<Rightarrow> asset_proof option" where
  "new_asset_proof name n sha256 =
     (let p = \<lparr>ap_name = name, ap_size = n, ap_sha256 = sha256\<rparr> in if \<not> asset_valid p then None else Some p)"

definition asset_for_bytes :: "lib \<Rightarrow> string \<Rightarrow> bytes \<Rightarrow> asset_proof option" where
  "asset_for_bytes L name bytes = new_asset_proof name (of_nat (length bytes)) (sha256_hex L bytes)"

definition asset_names :: "string list" where
  "asset_names = [''name'', ''size'', ''sha256'']"

definition asset_fields :: "asset_proof \<Rightarrow> (string \<times> json option) list" where
  "asset_fields p =
     [(''name'', Some (JStr (ap_name p))), (''size'', Some (ser_u64 (ap_size p))), (''sha256'', Some (JStr (ap_sha256 p)))]"

definition ser_asset :: "asset_proof \<Rightarrow> json" where
  "ser_asset p = mk_obj (asset_fields p)"

definition de_asset :: "json \<Rightarrow> asset_proof option" where
  "de_asset j = do {
     m \<leftarrow> de_object asset_names j;
     name \<leftarrow> de_req m ''name'' de_str;
     size \<leftarrow> de_req m ''size'' de_u64;
     sha256 \<leftarrow> de_req m ''sha256'' de_str;
     new_asset_proof name size sha256
   }"

section \<open>Supported sources\<close>

datatype support_scope = FirstCleanInstall | CleanInstallRepair | CleanInstallOnly | RecurringUpgrade

definition scope_text :: "support_scope \<Rightarrow> string" where
  "scope_text s =
     (case s of
        FirstCleanInstall \<Rightarrow> ''first-subscription-clean-install''
      | CleanInstallRepair \<Rightarrow> ''subscription-clean-install-repair''
      | CleanInstallOnly \<Rightarrow> ''subscription-clean-install-only''
      | RecurringUpgrade \<Rightarrow> ''recurring-subscription-upgrade'')"

definition scope_names :: "(string \<times> support_scope) list" where
  "scope_names =
     map (\<lambda>s. (scope_text s, s)) [FirstCleanInstall, CleanInstallRepair, CleanInstallOnly, RecurringUpgrade]"

text \<open>\<open>ReleaseIdentity::new\<close> and \<open>SourceIdentity::identity\<close>.\<close>

definition new_stable_identity :: "string \<Rightarrow> string \<Rightarrow> string \<Rightarrow> release_identity option" where
  "new_stable_identity tag commit index_sha256 =
     (if \<not> stable_release tag commit 1 \<or> \<not> lower_hex index_sha256 64 then None
      else Some \<lparr>ri_repository = REPOSITORY, ri_tag = tag, ri_commit = commit, ri_index_sha256 = index_sha256\<rparr>)"

definition source_identity :: "release_identity \<Rightarrow> release_identity option" where
  "source_identity s =
     (if ri_repository s \<noteq> REPOSITORY \<or> \<not> stable_tag (ri_tag s) then None
      else new_stable_identity (ri_tag s) (ri_commit s) (ri_index_sha256 s))"

record release_support =
  sp_scope :: support_scope
  sp_sources :: "release_identity list"
  sp_contract :: string

text \<open>The loop over the sources, with the set \<open>seen\<close>.\<close>

fun sources_valid :: "release_identity list \<Rightarrow> release_identity list \<Rightarrow> bool" where
  "sources_valid seen [] = True"
| "sources_valid seen (s # ss) =
     (if source_identity s = None then False
      else if s \<in> set seen then False
      else sources_valid (s # seen) ss)"

definition support_valid :: "release_support \<Rightarrow> bool" where
  "support_valid s =
     (if sp_contract s \<noteq> SUBSCRIPTION_UPDATE_CONTRACT \<or> length (sp_sources s) > 32
         \<or> (sp_scope s = RecurringUpgrade) = (sp_sources s = [])
      then False else sources_valid [] (sp_sources s))"

definition new_support :: "support_scope \<Rightarrow> release_identity list \<Rightarrow> release_support option" where
  "new_support scope sources =
     (let s = \<lparr>sp_scope = scope, sp_sources = sources, sp_contract = SUBSCRIPTION_UPDATE_CONTRACT\<rparr>
      in if \<not> support_valid s then None else Some s)"

definition support_names :: "string list" where
  "support_names = [''scope'', ''sources'', ''contract'']"

definition support_fields :: "release_support \<Rightarrow> (string \<times> json option) list" where
  "support_fields s =
     [(''scope'', Some (JStr (scope_text (sp_scope s)))), (''sources'', Some (JArr (map ser_release (sp_sources s)))),
      (''contract'', Some (JStr (sp_contract s)))]"

definition ser_support :: "release_support \<Rightarrow> json" where
  "ser_support s = mk_obj (support_fields s)"

definition de_support :: "json \<Rightarrow> release_support option" where
  "de_support j = do {
     m \<leftarrow> de_object support_names j;
     scope \<leftarrow> de_req m ''scope'' (de_variant scope_names);
     sources \<leftarrow> de_req m ''sources'' (de_list de_release);
     contract \<leftarrow> de_req m ''contract'' de_str;
     (let s = \<lparr>sp_scope = scope, sp_sources = sources, sp_contract = contract\<rparr>
      in if \<not> support_valid s then None else Some s)
   }"

section \<open>The index\<close>

record index_document =
  xd_schema :: u32
  xd_repository :: string
  xd_tag :: string
  xd_commit :: string
  xd_sequence :: u64
  xd_assets :: "asset_proof list"
  xd_support :: "release_support option"

definition document_valid :: "index_document \<Rightarrow> bool" where
  "document_valid d =
     (if xd_repository d \<noteq> REPOSITORY \<or> \<not> stable_release (xd_tag d) (xd_commit d) (xd_sequence d)
         \<or> \<not> (xd_schema d = 1 \<and> xd_support d = None \<or> xd_schema d = 2 \<and> xd_support d \<noteq> None)
         \<or> length (xd_assets d) \<noteq> length INDEXED_ASSET_NAMES
      then False
      else list_all (\<lambda>(asset, expected). asset_valid asset \<and> ap_name asset = expected)
             (zip (xd_assets d) INDEXED_ASSET_NAMES)
           \<and> is_none_or support_valid (xd_support d))"

definition document_names :: "string list" where
  "document_names = [''schema'', ''repository'', ''tag'', ''commit'', ''sequence'', ''assets'', ''support'']"

definition document_fields :: "index_document \<Rightarrow> (string \<times> json option) list" where
  "document_fields d =
     [(''schema'', Some (ser_u32 (xd_schema d))), (''repository'', Some (JStr (xd_repository d))),
      (''tag'', Some (JStr (xd_tag d))), (''commit'', Some (JStr (xd_commit d))),
      (''sequence'', Some (ser_u64 (xd_sequence d))), (''assets'', Some (JArr (map ser_asset (xd_assets d)))),
      (''support'', map_option ser_support (xd_support d))]"

definition ser_document :: "index_document \<Rightarrow> json" where
  "ser_document d = mk_obj (document_fields d)"

definition de_document :: "json \<Rightarrow> index_document option" where
  "de_document j = do {
     m \<leftarrow> de_object document_names j;
     schema \<leftarrow> de_req m ''schema'' de_u32;
     repository \<leftarrow> de_req m ''repository'' de_str;
     tag \<leftarrow> de_req m ''tag'' de_str;
     commit \<leftarrow> de_req m ''commit'' de_str;
     sequence \<leftarrow> de_req m ''sequence'' de_u64;
     assets \<leftarrow> de_req m ''assets'' (de_list de_asset);
     support \<leftarrow> de_opt m ''support'' de_support;
     Some \<lparr>xd_schema = schema, xd_repository = repository, xd_tag = tag, xd_commit = commit,
       xd_sequence = sequence, xd_assets = assets, xd_support = support\<rparr>
   }"

record release_index =
  ix_document :: index_document
  ix_bytes :: bytes

definition decode_index :: "lib \<Rightarrow> bytes \<Rightarrow> release_index option" where
  "decode_index L bytes = do {
     document \<leftarrow> release_decode L de_document bytes MAX_INDEX_BYTES;
     (if \<not> document_valid document then None
      else Some \<lparr>ix_document = document, ix_bytes = bytes\<rparr>)
   }"

definition canonical_bytes :: "lib \<Rightarrow> release_index \<Rightarrow> bytes" where
  "canonical_bytes L ix = to_vec L (ser_document (ix_document ix))"

definition build_index ::
  "lib \<Rightarrow> string \<Rightarrow> string \<Rightarrow> u64 \<Rightarrow> asset_proof list \<Rightarrow> release_support option \<Rightarrow> release_index option" where
  "build_index L tag commit sequence assets support =
     (let d = \<lparr>xd_schema = (if support \<noteq> None then 2 else 1), xd_repository = REPOSITORY, xd_tag = tag,
        xd_commit = commit, xd_sequence = sequence, xd_assets = assets, xd_support = support\<rparr>
      in if \<not> document_valid d then None else decode_index L (to_vec L (ser_document d)))"

text \<open>\<open>identity\<close> panics (\<open>None\<close>) on an index that was not validated.\<close>

definition index_identity :: "lib \<Rightarrow> release_index \<Rightarrow> release_identity option" where
  "index_identity L ix =
     new_stable_identity (xd_tag (ix_document ix)) (xd_commit (ix_document ix)) (sha256_hex L (ix_bytes ix))"

text \<open>The loop that collects the proofs by name; \<open>None\<close> is an invalid or a repeated proof.\<close>

fun proofs_by_name :: "(string \<times> asset_proof) list \<Rightarrow> asset_proof list \<Rightarrow> (string \<times> asset_proof) list option" where
  "proofs_by_name by_name [] = Some by_name"
| "proofs_by_name by_name (p # ps) =
     (if \<not> asset_valid p \<or> map_of by_name (ap_name p) \<noteq> None then None
      else proofs_by_name (bt_insert (ap_name p) p by_name) ps)"

definition verify_asset_proofs :: "lib \<Rightarrow> release_index \<Rightarrow> release_identity \<Rightarrow> asset_proof list \<Rightarrow> bool" where
  "verify_asset_proofs L ix expected proofs =
     (if index_identity L ix \<noteq> Some expected \<or> length proofs \<noteq> length RELEASE_ASSET_NAMES then False
      else case proofs_by_name [] proofs of
             None \<Rightarrow> False
           | Some by_name \<Rightarrow>
               (case asset_for_bytes L ''release-index.json'' (ix_bytes ix) of
                  None \<Rightarrow> False
                | Some index_proof \<Rightarrow>
                    if map_of by_name ''release-index.json'' \<noteq> Some index_proof then False
                    else list_all (\<lambda>asset. map_of by_name (ap_name asset) = Some asset) (xd_assets (ix_document ix))))"

definition verify_release_index ::
  "lib \<Rightarrow> string \<Rightarrow> string \<Rightarrow> string \<Rightarrow> bytes \<Rightarrow> asset_proof list \<Rightarrow> release_index option" where
  "verify_release_index L repository tag commit bytes proofs = do {
     ix \<leftarrow> decode_index L bytes;
     (if repository \<noteq> REPOSITORY \<or> xd_tag (ix_document ix) \<noteq> tag \<or> xd_commit (ix_document ix) \<noteq> commit then None
      else do {
        i \<leftarrow> index_identity L ix;
        (if verify_asset_proofs L ix i proofs then Some ix else None)
      })
   }"

section \<open>The identity trailer\<close>

record embedded_identity =
  ei_schema :: u32
  ei_repository :: string
  ei_tag :: string
  ei_commit :: string
  ei_sequence :: u64
  ei_architecture :: architecture
  ei_payload_sha256 :: string

definition embedded_valid :: "embedded_identity \<Rightarrow> bool" where
  "embedded_valid i =
     (\<not> (ei_schema i \<noteq> 1 \<or> ei_repository i \<noteq> REPOSITORY
         \<or> \<not> stable_release (ei_tag i) (ei_commit i) (ei_sequence i) \<or> \<not> lower_hex (ei_payload_sha256 i) 64))"

definition arch_names :: "(string \<times> architecture) list" where
  "arch_names = [(''amd64'', Amd64), (''arm64'', Arm64)]"

definition embedded_names :: "string list" where
  "embedded_names =
     [''schema'', ''repository'', ''tag'', ''commit'', ''sequence'', ''architecture'', ''payload_sha256'']"

definition embedded_fields :: "embedded_identity \<Rightarrow> (string \<times> json option) list" where
  "embedded_fields i =
     [(''schema'', Some (ser_u32 (ei_schema i))), (''repository'', Some (JStr (ei_repository i))),
      (''tag'', Some (JStr (ei_tag i))), (''commit'', Some (JStr (ei_commit i))),
      (''sequence'', Some (ser_u64 (ei_sequence i))), (''architecture'', Some (JStr (arch_text (ei_architecture i)))),
      (''payload_sha256'', Some (JStr (ei_payload_sha256 i)))]"

definition ser_embedded :: "embedded_identity \<Rightarrow> json" where
  "ser_embedded i = mk_obj (embedded_fields i)"

definition de_embedded :: "json \<Rightarrow> embedded_identity option" where
  "de_embedded j = do {
     m \<leftarrow> de_object embedded_names j;
     schema \<leftarrow> de_req m ''schema'' de_u32;
     repository \<leftarrow> de_req m ''repository'' de_str;
     tag \<leftarrow> de_req m ''tag'' de_str;
     commit \<leftarrow> de_req m ''commit'' de_str;
     sequence \<leftarrow> de_req m ''sequence'' de_u64;
     architecture \<leftarrow> de_req m ''architecture'' (de_variant arch_names);
     payload_sha256 \<leftarrow> de_req m ''payload_sha256'' de_str;
     Some \<lparr>ei_schema = schema, ei_repository = repository, ei_tag = tag, ei_commit = commit,
       ei_sequence = sequence, ei_architecture = architecture, ei_payload_sha256 = payload_sha256\<rparr>
   }"

text \<open>The bytes of a digest, \<open>u64::to_le_bytes\<close> and \<open>u64::from_le_bytes\<close>.\<close>

fun unhex :: "string \<Rightarrow> bytes" where
  "unhex (a # b # s) = char_of (16 * (case digit_value a of Some d \<Rightarrow> d | None \<Rightarrow> 0)
     + (case digit_value b of Some d \<Rightarrow> d | None \<Rightarrow> 0) :: nat) # unhex s"
| "unhex _ = []"

definition sha256_raw :: "lib \<Rightarrow> bytes \<Rightarrow> bytes" where
  "sha256_raw L bytes = unhex (sha256_hex L bytes)"

definition to_le_bytes :: "nat \<Rightarrow> u64 \<Rightarrow> bytes" where
  "to_le_bytes k n = map (\<lambda>i. char_of (unat n div 256 ^ i)) [0 ..< k]"

fun le_value :: "bytes \<Rightarrow> nat" where
  "le_value [] = 0"
| "le_value (b # bs) = of_char b + 256 * le_value bs"

definition ends_with :: "bytes \<Rightarrow> bytes \<Rightarrow> bool" where
  "ends_with suffix s = (length suffix \<le> length s \<and> drop (length s - length suffix) s = suffix)"

definition byte_array :: "nat \<Rightarrow> bytes \<Rightarrow> nat \<Rightarrow> bytes option" where
  "byte_array n bytes offset = (if offset + n \<le> length bytes then Some (take n (drop offset bytes)) else None)"

definition u64_at :: "bytes \<Rightarrow> nat \<Rightarrow> nat option" where
  "u64_at bytes offset = map_option le_value (byte_array 8 bytes offset)"

definition trailer_size :: nat where
  "trailer_size = 32 + 8 + length IDENTITY_MAGIC"

definition stamp_executable :: "lib \<Rightarrow> bytes \<Rightarrow> string \<Rightarrow> string \<Rightarrow> u64 \<Rightarrow> architecture \<Rightarrow> bytes option" where
  "stamp_executable L payload tag commit sequence architecture =
     (if payload = [] \<or> length payload > MAX_EXECUTABLE_BYTES \<or> ends_with IDENTITY_MAGIC payload then None
      else let i = \<lparr>ei_schema = 1, ei_repository = REPOSITORY, ei_tag = tag, ei_commit = commit,
                 ei_sequence = sequence, ei_architecture = architecture, ei_payload_sha256 = sha256_hex L payload\<rparr>
           in if \<not> embedded_valid i then None
              else let document = to_vec L (ser_embedded i); total = length payload + (length document + trailer_size)
                in if length document > MAX_IDENTITY_BYTES \<or> total > MAX_EXECUTABLE_BYTES then None
                   else Some (payload @ document @ sha256_raw L document
                          @ to_le_bytes 8 (of_nat (length document)) @ IDENTITY_MAGIC))"

definition read_executable_identity :: "lib \<Rightarrow> bytes \<Rightarrow> (embedded_identity \<times> bytes) option" where
  "read_executable_identity L executable =
     (if length executable \<le> trailer_size \<or> length executable > MAX_EXECUTABLE_BYTES
         \<or> \<not> ends_with IDENTITY_MAGIC executable
      then None
      else do {
        let length_offset = length executable - length IDENTITY_MAGIC - 8;
        len \<leftarrow> u64_at executable length_offset;
        (if len = 0 \<or> len > MAX_IDENTITY_BYTES \<or> len + trailer_size \<ge> length executable then None
         else do {
           let document_offset = length executable - trailer_size - len;
           let document = take len (drop document_offset executable);
           (if take (length_offset - (document_offset + len)) (drop (document_offset + len) executable)
               \<noteq> sha256_raw L document
            then None
            else do {
              i \<leftarrow> release_decode L de_embedded document MAX_IDENTITY_BYTES;
              (if \<not> embedded_valid i then None
               else let payload = take document_offset executable in
                    if ends_with IDENTITY_MAGIC payload \<or> sha256_hex L payload \<noteq> ei_payload_sha256 i then None
                    else Some (i, payload))
            })
         })
      })"

text \<open>
  \<open>verify_installed_pair\<close>: the hasher that continues through the trailer gives the digest of the whole executable.
\<close>

definition verify_installed_pair :: "lib \<Rightarrow> installed_record \<Rightarrow> bytes \<Rightarrow> (embedded_identity \<times> bytes) option" where
  "verify_installed_pair L installed executable = do {
     (i, payload) \<leftarrow> read_executable_identity L executable;
     let release = installed_release_identity installed;
     (if ei_repository i \<noteq> ri_repository release \<or> ei_tag i \<noteq> ri_tag release \<or> ei_commit i \<noteq> ri_commit release
         \<or> ei_sequence i \<noteq> ir_sequence installed \<or> arch_text (ei_architecture i) \<noteq> ir_architecture installed
         \<or> sha256_hex L executable \<noteq> ir_executable_sha256 installed
      then None else Some (i, payload))
   }"

end
