(* ===== verification/Elf_Inspection.thy ===== *)
theory Elf_Inspection
  imports Release_Index
begin

text \<open>
  \<open>src/release_identity.rs\<close>, its second half, and \<open>src/build_metadata.rs\<close>: inspection of the Linux executable behind
  the identity trailer.  Offsets and sizes are natural numbers; where the code checks a 64-bit addition the bound is
  written out.  A Rust string slice is its bytes, and \<open>str::from_utf8\<close> is \<open>utf8_chars\<close>, which decodes them.
\<close>

unbundle bit_operations_syntax

section \<open>Text\<close>

definition continuation :: "nat \<Rightarrow> bool" where
  "continuation b = (128 \<le> b \<and> b < 192)"

text \<open>The scalar values of well-formed UTF-8: the table of the Unicode standard, as \<open>str::from_utf8\<close> checks it.\<close>

fun utf8_scalars :: "nat list \<Rightarrow> nat list option" where
  "utf8_scalars [] = Some []"
| "utf8_scalars (a # rest) =
     (if a < 128 then map_option (Cons a) (utf8_scalars rest)
      else case rest of
        [] \<Rightarrow> None
      | b # rest2 \<Rightarrow>
          if 194 \<le> a \<and> a \<le> 223 then
            (if continuation b then map_option (Cons ((a - 192) * 64 + (b - 128))) (utf8_scalars rest2) else None)
          else case rest2 of
            [] \<Rightarrow> None
          | c # rest3 \<Rightarrow>
              if 224 \<le> a \<and> a \<le> 239 then
                (if continuation b \<and> continuation c \<and> (a = 224 \<longrightarrow> 160 \<le> b) \<and> (a = 237 \<longrightarrow> b < 160)
                 then map_option (Cons ((a - 224) * 4096 + (b - 128) * 64 + (c - 128))) (utf8_scalars rest3) else None)
              else case rest3 of
                [] \<Rightarrow> None
              | d # rest4 \<Rightarrow>
                  if 240 \<le> a \<and> a \<le> 244 then
                    (if continuation b \<and> continuation c \<and> continuation d \<and> (a = 240 \<longrightarrow> 144 \<le> b) \<and> (a = 244 \<longrightarrow> b < 144)
                     then map_option (Cons ((a - 240) * 262144 + (b - 128) * 4096 + (c - 128) * 64 + (d - 128)))
                            (utf8_scalars rest4)
                     else None)
                  else None)"

definition utf8_chars :: "bytes \<Rightarrow> nat list option" where
  "utf8_chars s = utf8_scalars (map of_char s)"

definition from_utf8 :: "bytes \<Rightarrow> bytes option" where
  "from_utf8 s = (if utf8_chars s = None then None else Some s)"

text \<open>\<open>char::encode_utf8\<close> and \<open>char::from_u32\<close>.\<close>

definition encode_utf8 :: "nat \<Rightarrow> bytes" where
  "encode_utf8 n =
     map char_of
       (if n < 128 then [n]
        else if n < 2048 then [192 + n div 64, 128 + n mod 64]
        else if n < 65536 then [224 + n div 4096, 128 + n div 64 mod 64, 128 + n mod 64]
        else [240 + n div 262144, 128 + n div 4096 mod 64, 128 + n div 64 mod 64, 128 + n mod 64])"

definition char_from_u32 :: "nat \<Rightarrow> nat option" where
  "char_from_u32 n = (if n \<ge> 1114112 \<or> 55296 \<le> n \<and> n < 57344 then None else Some n)"

definition is_whitespace :: "nat \<Rightarrow> bool" where
  "is_whitespace n =
     (9 \<le> n \<and> n \<le> 13 \<or> n = 32 \<or> n = 133 \<or> n = 160 \<or> n = 5760 \<or> 8192 \<le> n \<and> n \<le> 8202
      \<or> n = 8232 \<or> n = 8233 \<or> n = 8239 \<or> n = 8287 \<or> n = 12288)"

section \<open>Build metadata\<close>

definition COMPILER :: string where "COMPILER = ''rustc 1.90.0''"

definition COMPILER_COMMENT :: bytes where
  "COMPILER_COMMENT = ''rustc version 1.90.0 (1159e78c4 2025-09-14)''"

definition dq :: char where "dq = CHR 0x22"

definition quoted :: "string \<Rightarrow> string" where
  "quoted s = dq # s @ [dq]"

definition build_metadata :: "string \<Rightarrow> string \<Rightarrow> bytes option" where
  "build_metadata commit target =
     (if length commit \<noteq> 40 \<or> \<not> list_all lower_hex_byte commit
         \<or> \<not> (target = ''x86_64-unknown-linux-musl'' \<or> target = ''aarch64-unknown-linux-musl'')
      then None
      else Some (''{'' @ quoted ''schema'' @ '':'' @ quoted ''sbxr-rust-artifact-v1'' @ '','' @ quoted ''repository'' @ '':''
        @ quoted ''albertloky/SBXR'' @ '','' @ quoted ''package'' @ '':'' @ quoted ''sbxr'' @ '','' @ quoted ''compiler'' @ '':''
        @ quoted COMPILER @ '','' @ quoted ''target'' @ '':'' @ quoted target @ '','' @ quoted ''profile'' @ '':''
        @ quoted ''release'' @ '','' @ quoted ''commit'' @ '':'' @ quoted commit @ ''}''))"

definition rust_artifact_metadata :: "string \<Rightarrow> architecture \<Rightarrow> bytes option" where
  "rust_artifact_metadata commit architecture = build_metadata commit (rust_target architecture)"

definition RUST_ARTIFACT_SECTION :: string where "RUST_ARTIFACT_SECTION = ''.sbxr.rust''"

text \<open>\<open>RustArtifactMetadata\<close> as the list of its seven strings, in the order of its fields.\<close>

definition metadata_names :: "string list" where
  "metadata_names = [''schema'', ''repository'', ''package'', ''compiler'', ''target'', ''profile'', ''commit'']"

definition de_metadata :: "json \<Rightarrow> string list option" where
  "de_metadata j = do {
     m \<leftarrow> de_object metadata_names j;
     those (map (\<lambda>name. de_req m name de_str) metadata_names)
   }"

section \<open>Fields of the file\<close>

definition byte_range :: "bytes \<Rightarrow> nat \<Rightarrow> nat \<Rightarrow> bytes option" where
  "byte_range bytes offset count =
     (if offset + count \<le> length bytes then Some (take count (drop offset bytes)) else None)"

definition u16_at :: "bytes \<Rightarrow> nat \<Rightarrow> nat option" where
  "u16_at bytes offset = map_option le_value (byte_array 2 bytes offset)"

definition u32_at :: "bytes \<Rightarrow> nat \<Rightarrow> nat option" where
  "u32_at bytes offset = map_option le_value (byte_array 4 bytes offset)"

definition chunks_exact :: "nat \<Rightarrow> bytes \<Rightarrow> bytes list" where
  "chunks_exact n s = map (\<lambda>i. take n (drop (i * n) s)) [0 ..< length s div n]"

definition nonzero :: "bytes \<Rightarrow> bool" where
  "nonzero s = list_ex (\<lambda>b. b \<noteq> CHR 0x00) s"

definition is_power_of_two :: "nat \<Rightarrow> bool" where
  "is_power_of_two n = (n > 0 \<and> n AND (n - 1) = 0)"

definition guard :: "bool \<Rightarrow> unit option" where
  "guard b = (if b then Some () else None)"

definition try_is :: "nat option \<Rightarrow> (nat \<Rightarrow> bool) \<Rightarrow> unit option" where
  "try_is v p = Option.bind v (\<lambda>n. guard (p n))"

record elf_section =
  es_kind :: nat
  es_bytes :: bytes
  es_flags :: nat
  es_address :: nat
  es_offset :: nat

section \<open>Dynamic tables\<close>

text \<open>Tags that name a library or a filter, and entries after the terminator, are refused.\<close>

definition dynamic_tag_refused :: "nat \<Rightarrow> bool" where
  "dynamic_tag_refused tag = (tag \<in> {1, 0x7ffffffd, 0x7fffffff, 0x6ffffefb, 0x6ffffefc})"

fun dynamic_entries :: "bool \<Rightarrow> bytes list \<Rightarrow> bool option" where
  "dynamic_entries terminated [] = Some terminated"
| "dynamic_entries terminated (entry # es) =
     (case u64_at entry 0 of
        None \<Rightarrow> None
      | Some tag \<Rightarrow>
          if dynamic_tag_refused tag \<or> terminated \<and> nonzero entry then None
          else dynamic_entries (terminated \<or> tag = 0) es)"

definition inspect_dynamic :: "bytes \<Rightarrow> unit option" where
  "inspect_dynamic bytes = do {
     guard (bytes \<noteq> [] \<and> length bytes mod 16 = 0);
     terminated \<leftarrow> dynamic_entries False (chunks_exact 16 bytes);
     guard terminated
   }"

section \<open>Executable files\<close>

definition elf_machine :: "architecture \<Rightarrow> nat" where
  "elf_machine a = (case a of Amd64 \<Rightarrow> 62 | Arm64 \<Rightarrow> 183)"

definition ELF_IDENT :: bytes where
  "ELF_IDENT = [CHR 0x7F, CHR ''E'', CHR ''L'', CHR ''F'', CHR 0x02, CHR 0x01, CHR 0x01]"

definition elf_header :: "bytes \<Rightarrow> architecture \<Rightarrow> unit option" where
  "elf_header bytes architecture = do {
     guard (\<not> (length bytes < 64 \<or> take 7 bytes \<noteq> ELF_IDENT \<or> \<not> (bytes ! 7 = CHR 0x00 \<or> bytes ! 7 = CHR 0x03)
       \<or> bytes ! 8 \<noteq> CHR 0x00 \<or> nonzero (take 7 (drop 9 bytes))));
     try_is (u16_at bytes 16) (\<lambda>n. n = 2 \<or> n = 3);
     try_is (u32_at bytes 20) (\<lambda>n. n = 1);
     try_is (u32_at bytes 48) (\<lambda>n. n = 0);
     try_is (u16_at bytes 52) (\<lambda>n. n = 64);
     try_is (u16_at bytes 54) (\<lambda>n. n = 56);
     try_is (u16_at bytes 58) (\<lambda>n. n = 64);
     try_is (u16_at bytes 18) (\<lambda>n. n = elf_machine architecture)
   }"

text \<open>One program header: whether it is the executable segment of the entry point.\<close>

definition inspect_program :: "bytes \<Rightarrow> nat \<Rightarrow> bytes \<Rightarrow> bool option" where
  "inspect_program bytes entry program = do {
     kind \<leftarrow> u32_at program 0;
     guard (kind \<noteq> 3);
     offset \<leftarrow> u64_at program 8;
     file_size \<leftarrow> u64_at program 32;
     data \<leftarrow> byte_range bytes offset file_size;
     (if kind = 2 then inspect_dynamic data else Some ());
     (if kind = 1 then do {
        memory_size \<leftarrow> u64_at program 40;
        address \<leftarrow> u64_at program 16;
        align \<leftarrow> u64_at program 48;
        guard (\<not> (file_size > memory_size \<or> address + memory_size \<ge> 2 ^ 64
          \<or> align > 1 \<and> (\<not> is_power_of_two align \<or> address mod align \<noteq> offset mod align)));
        flags \<leftarrow> u32_at program 4;
        Some (odd flags \<and> entry \<ge> address \<and> entry - address < file_size)
      }
      else Some False)
   }"

fun inspect_programs :: "bytes \<Rightarrow> nat \<Rightarrow> bytes list \<Rightarrow> bool \<Rightarrow> bool option" where
  "inspect_programs bytes entry [] found = Some found"
| "inspect_programs bytes entry (p # ps) found =
     (case inspect_program bytes entry p of
        None \<Rightarrow> None
      | Some here \<Rightarrow> inspect_programs bytes entry ps (found \<or> here))"

text \<open>One section header, inserted under its name.\<close>

definition section_name :: "bytes \<Rightarrow> nat \<Rightarrow> bytes option" where
  "section_name names offset = do {
     guard (offset \<le> length names);
     let suffix = drop offset names;
     n \<leftarrow> position (\<lambda>b. b = CHR 0x00) suffix;
     name \<leftarrow> from_utf8 (take n suffix);
     guard (name \<noteq> []);
     Some name
   }"

definition read_section :: "bytes \<Rightarrow> bytes \<Rightarrow> bytes \<Rightarrow> (bytes \<times> elf_section) option" where
  "read_section bytes names header = do {
     kind \<leftarrow> u32_at header 4;
     flags \<leftarrow> u64_at header 8;
     name_offset \<leftarrow> u32_at header 0;
     name \<leftarrow> section_name names name_offset;
     offset \<leftarrow> u64_at header 24;
     count \<leftarrow> u64_at header 32;
     data \<leftarrow> (if kind = 8 then Some [] else byte_range bytes offset count);
     (if kind = 6 then inspect_dynamic data else Some ());
     address \<leftarrow> u64_at header 16;
     Some (name, \<lparr>es_kind = kind, es_bytes = data, es_flags = flags, es_address = address, es_offset = offset\<rparr>)
   }"

fun read_sections :: "bytes \<Rightarrow> bytes \<Rightarrow> bytes list \<Rightarrow> (bytes \<times> elf_section) list \<Rightarrow> (bytes \<times> elf_section) list option" where
  "read_sections bytes names [] sections = Some sections"
| "read_sections bytes names (h # hs) sections =
     (case read_section bytes names h of
        None \<Rightarrow> None
      | Some (name, s) \<Rightarrow>
          if map_of sections name \<noteq> None then None
          else read_sections bytes names hs (bt_insert name s sections))"

definition require_section :: "(bytes \<times> elf_section) list \<Rightarrow> string \<Rightarrow> nat \<Rightarrow> elf_section option" where
  "require_section sections name required_flags = do {
     s \<leftarrow> map_of sections name;
     guard (\<not> (es_kind s \<noteq> 1 \<or> es_flags s AND required_flags \<noteq> required_flags \<or> es_bytes s = []));
     Some s
   }"

text \<open>Whether an executable segment maps the text section where its address says.\<close>

fun text_mapped :: "elf_section \<Rightarrow> bytes list \<Rightarrow> bool \<Rightarrow> bool option" where
  "text_mapped text [] mapped = Some mapped"
| "text_mapped text (p # ps) mapped = do {
     kind \<leftarrow> u32_at p 0;
     flags \<leftarrow> (if kind \<noteq> 1 then Some 0 else u32_at p 4);
     (if kind \<noteq> 1 \<or> even flags then text_mapped text ps mapped
      else do {
        address \<leftarrow> u64_at p 16;
        offset \<leftarrow> u64_at p 8;
        file_size \<leftarrow> u64_at p 32;
        text_mapped text ps
          (mapped \<or> es_address text \<ge> address \<and> es_offset text \<ge> offset
            \<and> es_address text - address = es_offset text - offset
            \<and> es_offset text - offset + length (es_bytes text) < 2 ^ 64
            \<and> es_offset text - offset + length (es_bytes text) \<le> file_size)
      })
   }"

definition parse_elf :: "bytes \<Rightarrow> architecture \<Rightarrow> (bytes \<times> elf_section) list option" where
  "parse_elf bytes architecture = do {
     elf_header bytes architecture;
     entry \<leftarrow> u64_at bytes 24;
     phnum \<leftarrow> u16_at bytes 56;
     shnum \<leftarrow> u16_at bytes 60;
     shstrndx \<leftarrow> u16_at bytes 62;
     guard (\<not> (entry = 0 \<or> phnum = 0 \<or> phnum > 4096 \<or> \<not> (2 \<le> shnum \<and> shnum \<le> 4096)
       \<or> shstrndx = 0 \<or> shstrndx \<ge> shnum));
     phoff \<leftarrow> u64_at bytes 32;
     programs \<leftarrow> byte_range bytes phoff (phnum * 56);
     shoff \<leftarrow> u64_at bytes 40;
     table \<leftarrow> byte_range bytes shoff (shnum * 64);
     guard (\<not> nonzero (take 64 table));
     executable_entry \<leftarrow> inspect_programs bytes entry (chunks_exact 56 programs) False;
     guard executable_entry;
     let names_header = take 64 (drop (shstrndx * 64) table);
     names_kind \<leftarrow> u32_at names_header 4;
     guard (names_kind = 3);
     names_offset \<leftarrow> u64_at names_header 24;
     names_size \<leftarrow> u64_at names_header 32;
     names \<leftarrow> byte_range bytes names_offset names_size;
     guard (names \<noteq> [] \<and> hd names = CHR 0x00 \<and> last names = CHR 0x00);
     sections \<leftarrow> read_sections bytes names (drop 1 (chunks_exact 64 table)) [];
     text \<leftarrow> require_section sections ''.text'' 6;
     require_section sections ''.rodata'' 2;
     guard (\<not> (entry < es_address text \<or> entry - es_address text \<ge> length (es_bytes text)));
     mapped \<leftarrow> text_mapped text (chunks_exact 56 programs) False;
     guard mapped;
     Some sections
   }"

section \<open>Go build information\<close>

text \<open>\<open>varstring\<close>: a variable-length count of at most ten bytes and the bytes it counts; the cursor is returned.\<close>

fun varint :: "nat \<Rightarrow> nat \<Rightarrow> bytes \<Rightarrow> nat \<Rightarrow> nat \<Rightarrow> (nat \<times> nat) option" where
  "varint 0 i bytes cursor n = None"
| "varint (Suc k) i bytes cursor n =
     (case nth_opt bytes cursor of
        None \<Rightarrow> None
      | Some b \<Rightarrow>
          let byte = of_char b :: nat in
          if i = 9 \<and> byte > 1 then None
          else let n = n OR push_bit (7 * i) (byte AND 127) in
            if byte < 128 then (if i > 0 \<and> byte = 0 then None else Some (n, cursor + 1))
            else varint k (i + 1) bytes (cursor + 1) n)"

definition varstring :: "bytes \<Rightarrow> nat \<Rightarrow> (bytes \<times> nat) option" where
  "varstring bytes cursor = do {
     (n, cursor) \<leftarrow> varint 10 0 bytes cursor 0;
     v \<leftarrow> byte_range bytes cursor n;
     Some (v, cursor + length v)
   }"

definition backquote :: char where "backquote = CHR 0x60"

text \<open>\<open>u32::from_str_radix\<close> on at most eight digits: a plus sign may precede at least one digit.\<close>

definition from_str_radix :: "nat \<Rightarrow> string \<Rightarrow> nat option" where
  "from_str_radix radix s =
     (let ds = (case s of c # cs \<Rightarrow> if c = CHR ''+'' then cs else s | [] \<Rightarrow> []) in
      if ds = [] \<or> list_ex (\<lambda>c. to_digit radix c = None) ds then None
      else Some (digits_value radix ds))"

definition simple_escape :: "nat \<Rightarrow> nat option" where
  "simple_escape e =
     map_of [(97, 7), (98, 8), (102, 12), (110, 10), (114, 13), (116, 9), (118, 11), (92, 92), (34, 34)] e"

text \<open>An escape with digits: what it writes and where it ends.  The position is behind the escape character.\<close>

definition digit_escape :: "nat \<Rightarrow> bytes \<Rightarrow> nat \<Rightarrow> (bytes \<times> nat) option" where
  "digit_escape e bytes i = do {
     guard (e = 120 \<or> e = 117 \<or> e = 85 \<or> 48 \<le> e \<and> e \<le> 55);
     let (count, radix, start) =
       (if e = 120 then (2, 16, i) else if e = 117 then (4, 16, i) else if e = 85 then (8, 16, i) else (3, 8, i - 1));
     digits \<leftarrow> byte_range bytes start count;
     digits \<leftarrow> from_utf8 digits;
     v \<leftarrow> from_str_radix radix digits;
     (if radix = 8 \<or> e = 120 then do { guard (v < 256); Some ([char_of v], start + count) }
      else do { ch \<leftarrow> char_from_u32 v; Some (encode_utf8 ch, start + count) })
   }"

lemma digit_escape_end: "digit_escape e bytes i = Some (w, j) \<Longrightarrow> i < j"
  by (auto simp: digit_escape_def Let_def split: bind_splits if_splits)

function go_unquote :: "bytes \<Rightarrow> nat \<Rightarrow> bytes \<Rightarrow> (bytes \<times> nat) option" where
  "go_unquote bytes i out =
     (if i < length bytes then
        (let byte = of_char (bytes ! i) :: nat in
         if byte = 34 then map_option (\<lambda>s. (s, i + 1)) (from_utf8 out)
         else if byte = 10 \<or> byte = 13 \<or> byte \<le> 8 \<or> 11 \<le> byte \<and> byte \<le> 31 then None
         else if byte = 92 then
           (case nth_opt bytes (i + 1) of
              None \<Rightarrow> None
            | Some e \<Rightarrow>
                (case simple_escape (of_char e) of
                   Some v \<Rightarrow> go_unquote bytes (i + 2) (out @ [char_of v])
                 | None \<Rightarrow>
                     (case digit_escape (of_char e) bytes (i + 2) of
                        None \<Rightarrow> None
                      | Some (w, j) \<Rightarrow> go_unquote bytes j (out @ w))))
         else go_unquote bytes (i + 1) (out @ [bytes ! i]))
      else None)"
  by pat_completeness auto
termination
  by (relation "measure (\<lambda>(bytes, i, out). length bytes - i)") (auto dest!: digit_escape_end)

declare go_unquote.simps [simp del]

definition go_quoted :: "bytes \<Rightarrow> (bytes \<times> nat) option" where
  "go_quoted text = do {
     quote \<leftarrow> nth_opt text 0;
     (if quote = backquote then do {
        n \<leftarrow> position (\<lambda>b. b = backquote) (drop 1 text);
        Some (filter (\<lambda>b. b \<noteq> CHR 0x0D) (take n (drop 1 text)), n + 2)
      }
      else if quote \<noteq> dq then None
      else go_unquote text 1 [])
   }"

definition starts_quoted :: "bytes \<Rightarrow> bool" where
  "starts_quoted text = (text \<noteq> [] \<and> (hd text = dq \<or> hd text = backquote))"

text \<open>Text with white space or quotes; the text was checked to be UTF-8 before.\<close>

definition unquotable :: "bytes \<Rightarrow> bool" where
  "unquotable text =
     is_some_and (list_ex (\<lambda>ch. is_whitespace ch \<or> ch = 34 \<or> ch = 96)) (utf8_chars text)"

definition go_setting :: "bytes \<Rightarrow> (bytes \<times> bytes) option" where
  "go_setting text = do {
     (key, remaining) \<leftarrow>
       (if starts_quoted text then do {
          (word, consumed) \<leftarrow> go_quoted text;
          guard (consumed \<le> length text);
          rest \<leftarrow> strip_prefix ''='' (drop consumed text);
          Some (word, rest)
        }
        else do {
          (key, v) \<leftarrow> split_once CHR ''='' text;
          guard (\<not> (key = [] \<or> unquotable key));
          Some (key, v)
        });
     guard (key \<noteq> []);
     v \<leftarrow>
       (if starts_quoted remaining then do {
          (v, consumed) \<leftarrow> go_quoted remaining;
          guard (consumed = length remaining);
          Some v
        }
        else do {
          guard (\<not> unquotable remaining);
          Some remaining
        });
     Some (key, v)
   }"

definition tab_prefixed :: "string \<Rightarrow> bytes \<Rightarrow> bytes option" where
  "tab_prefixed name line = strip_prefix (name @ [CHR 0x09]) line"

text \<open>The loop over the lines: the settings so far, and whether a replacement may follow.\<close>

fun go_lines :: "bytes list \<Rightarrow> (bytes \<times> bytes) list \<Rightarrow> bool \<Rightarrow> (bytes \<times> bytes) list option" where
  "go_lines [] settings replacement = Some settings"
| "go_lines (line # ls) settings replacement =
     (case tab_prefixed ''build'' line of
        Some setting \<Rightarrow>
          (case go_setting setting of
             None \<Rightarrow> None
           | Some (key, v) \<Rightarrow>
               if map_of settings key \<noteq> None then None else go_lines ls (bt_insert key v settings) replacement)
      | None \<Rightarrow>
          (case (case tab_prefixed ''mod'' line of Some m \<Rightarrow> Some m | None \<Rightarrow> tab_prefixed ''dep'' line) of
             Some m \<Rightarrow>
               if length (split_char CHR 0x09 m) \<notin> {2, 3} then None else go_lines ls settings True
           | None \<Rightarrow>
               (case tab_prefixed ''=>'' line of
                  Some m \<Rightarrow>
                    if \<not> replacement \<or> length (split_char CHR 0x09 m) \<noteq> 3 then None else go_lines ls settings False
                | None \<Rightarrow> if tab_prefixed ''path'' line = None then None else go_lines ls settings replacement)))"

text \<open>\<open>str::split_terminator\<close>: no piece after the last separator when nothing follows it.\<close>

definition split_terminator :: "char \<Rightarrow> bytes \<Rightarrow> bytes list" where
  "split_terminator d s = (let parts = split_char d s in if last parts = [] then butlast parts else parts)"

definition GO_MAGIC :: bytes where
  "GO_MAGIC = CHR 0xFF # '' Go buildinf:''"

definition GO_START :: bytes where
  "GO_START = map char_of [0x30, 0x77, 0xaf, 0x0c, 0x92, 0x74, 0x08, 0x02, 0x41, 0xe1, 0xc1, 0x07, 0xe6, 0xd6, 0x18,
     0xe6 :: nat]"

definition GO_END :: bytes where
  "GO_END = map char_of [0xf9, 0x32, 0x43, 0x31, 0x86, 0x18, 0x20, 0x72, 0x00, 0x82, 0x42, 0x10, 0x41, 0x16, 0xd8,
     0xf2 :: nat]"

definition inspect_go_build_info :: "bytes \<Rightarrow> architecture \<Rightarrow> unit option" where
  "inspect_go_build_info bytes architecture = do {
     guard (\<not> (length bytes < 32 \<or> length bytes > MAX_INDEX_BYTES \<or> take 14 bytes \<noteq> GO_MAGIC
       \<or> bytes ! 14 \<noteq> CHR 0x08 \<or> bytes ! 15 \<noteq> CHR 0x02 \<or> nonzero (take 16 (drop 16 bytes))));
     (version, cursor) \<leftarrow> varstring bytes 32;
     guard (version = ''go1.26.6'');
     (module, cursor) \<leftarrow> varstring bytes cursor;
     guard (\<not> (nonzero (drop cursor bytes) \<or> length module < 33 \<or> module ! (length module - 17) \<noteq> newline));
     guard (\<not> (take 16 module \<noteq> GO_START \<or> drop (length module - 16) module \<noteq> GO_END));
     text \<leftarrow> from_utf8 (take (length module - 32) (drop 16 module));
     settings \<leftarrow> go_lines (split_terminator newline text) [] False;
     guard (list_all (\<lambda>(key, v). map_of settings key = Some v)
       [(''GOOS'', ''linux''), (''GOARCH'', arch_text architecture), (''CGO_ENABLED'', ''0'')])
   }"

section \<open>Artifacts\<close>

datatype artifact_kind = RustArtifact | HistoricalGo

record artifact_inspection =
  ai_kind :: artifact_kind
  ai_architecture :: architecture

text \<open>The compiler comments: every entry that names a \<open>rustc\<close> version is the pinned one, and there is one.\<close>

definition compiler_comments :: "bytes \<Rightarrow> bytes list" where
  "compiler_comments comment = filter (starts_with ''rustc version '') (split_char CHR 0x00 comment)"

definition inspect_rust :: "lib \<Rightarrow> (bytes \<times> elf_section) list \<Rightarrow> elf_section \<Rightarrow> string \<Rightarrow> architecture \<Rightarrow> unit option" where
  "inspect_rust L sections table_section commit architecture = do {
     guard (es_kind table_section = 1);
     metadata \<leftarrow> release_decode L de_metadata (es_bytes table_section) MAX_IDENTITY_BYTES;
     expected \<leftarrow> rust_artifact_metadata commit architecture;
     expected_metadata \<leftarrow> release_decode L de_metadata expected MAX_IDENTITY_BYTES;
     guard (es_bytes table_section = expected \<and> metadata = expected_metadata);
     comment \<leftarrow> map_of sections ''.comment'';
     guard (es_kind comment = 1);
     guard (list_all (\<lambda>entry. entry = COMPILER_COMMENT) (compiler_comments (es_bytes comment)));
     guard (length (compiler_comments (es_bytes comment)) = 1)
   }"

definition inspect_go :: "(bytes \<times> elf_section) list \<Rightarrow> elf_section \<Rightarrow> architecture \<Rightarrow> unit option" where
  "inspect_go sections table_section architecture = do {
     guard (\<not> (es_kind table_section \<noteq> 1 \<or> es_address table_section mod 16 \<noteq> 0
       \<or> is_none_or (\<lambda>s. es_kind s \<noteq> 1 \<or> es_bytes s = []) (map_of sections ''.gopclntab'')));
     inspect_go_build_info (es_bytes table_section) architecture
   }"

definition inspect_linux_identity ::
  "lib \<Rightarrow> embedded_identity \<times> bytes \<Rightarrow> architecture \<Rightarrow> artifact_inspection option" where
  "inspect_linux_identity L identity architecture = do {
     guard (ei_architecture (fst identity) = architecture);
     sections \<leftarrow> parse_elf (snd identity) architecture;
     kind \<leftarrow>
       (case (map_of sections RUST_ARTIFACT_SECTION, map_of sections ''.go.buildinfo'') of
          (Some s, None) \<Rightarrow>
            if map_of sections ''.gopclntab'' \<noteq> None then None
            else do { inspect_rust L sections s (ei_commit (fst identity)) architecture; Some RustArtifact }
        | (None, Some s) \<Rightarrow> do { inspect_go sections s architecture; Some HistoricalGo }
        | _ \<Rightarrow> None);
     Some \<lparr>ai_kind = kind, ai_architecture = architecture\<rparr>
   }"

definition inspect_linux_artifact :: "lib \<Rightarrow> bytes \<Rightarrow> architecture \<Rightarrow> artifact_inspection option" where
  "inspect_linux_artifact L executable architecture = do {
     identity \<leftarrow> read_executable_identity L executable;
     inspect_linux_identity L identity architecture
   }"

definition verify_installed_linux_pair ::
  "lib \<Rightarrow> installed_record \<Rightarrow> bytes \<Rightarrow> architecture \<Rightarrow> artifact_inspection option" where
  "verify_installed_linux_pair L installed executable architecture = do {
     identity \<leftarrow> verify_installed_pair L installed executable;
     inspect_linux_identity L identity architecture
   }"

definition inspect_release_executable ::
  "lib \<Rightarrow> release_index \<Rightarrow> bytes \<Rightarrow> architecture \<Rightarrow> artifact_inspection option" where
  "inspect_release_executable L ix executable architecture = do {
     identity \<leftarrow> read_executable_identity L executable;
     let i = fst identity;
     let d = ix_document ix;
     guard (\<not> (ei_repository i \<noteq> xd_repository d \<or> ei_tag i \<noteq> xd_tag d \<or> ei_commit i \<noteq> xd_commit d
       \<or> ei_sequence i \<noteq> xd_sequence d \<or> ei_architecture i \<noteq> architecture));
     inspect_linux_identity L identity architecture
   }"

end
