(* ===== verification/Release_Laws.thy ===== *)
theory Release_Laws
  imports Release_Index
begin

text \<open>
  Laws of release indexes and executable trailers: what was encoded is decoded, what is decoded is valid, and a
  trailer is read from exactly the bytes that stamping writes.  The locale \<open>release_text\<close> adds to the text layer that
  a digest is 64 lower case hex digits.
\<close>

section \<open>Codecs\<close>

lemma de_variant_text:
  "de_variant scope_names (JStr (scope_text s)) = Some s" "de_variant arch_names (JStr (arch_text a)) = Some a"
  by (cases s; simp add: de_variant_def scope_names_def scope_text_def)
    (cases a; simp add: de_variant_def arch_names_def arch_text_def)

lemma field_lists:
  "distinct (map fst (asset_fields p))" "fst ` set (asset_fields p) \<subseteq> set asset_names"
  "distinct (map fst (support_fields s))" "fst ` set (support_fields s) \<subseteq> set support_names"
  "distinct (map fst (document_fields d))" "fst ` set (document_fields d) \<subseteq> set document_names"
  "distinct (map fst (embedded_fields i))" "fst ` set (embedded_fields i) \<subseteq> set embedded_names"
  by (simp_all add: asset_fields_def asset_names_def support_fields_def support_names_def document_fields_def
      document_names_def embedded_fields_def embedded_names_def)

lemma new_asset_proof_Some: "new_asset_proof n z h = Some p \<longleftrightarrow> asset_valid p \<and> p = \<lparr>ap_name = n, ap_size = z, ap_sha256 = h\<rparr>"
  by (auto simp: new_asset_proof_def Let_def)

lemma de_ser_asset: "asset_valid p \<Longrightarrow> de_asset (ser_asset p) = Some p"
  by (simp add: de_asset_def ser_asset_def de_object_mk_obj field_lists)
    (simp add: asset_fields_def serde_simps de_req_def new_asset_proof_Some)

lemma de_asset_valid: "de_asset j = Some p \<Longrightarrow> asset_valid p"
  by (auto simp: de_asset_def new_asset_proof_Some split: bind_splits)

lemma de_ser_support: "support_valid s \<Longrightarrow> de_support (ser_support s) = Some s"
  by (simp add: de_support_def ser_support_def de_object_mk_obj field_lists)
    (cases s; simp add: support_fields_def serde_simps de_req_def de_variant_text Let_def)

lemma de_support_valid: "de_support j = Some s \<Longrightarrow> support_valid s"
  by (auto simp: de_support_def Let_def split: bind_splits if_splits)

lemma those_assets: "list_all asset_valid ps \<Longrightarrow> de_list de_asset (JArr (map ser_asset ps)) = Some ps"
  using those_map_Some [of ps de_asset ser_asset id] by (auto simp: de_list_def list_all_iff de_ser_asset)

lemma document_valid_parts:
  assumes "document_valid d"
  shows "list_all asset_valid (xd_assets d)" "is_none_or support_valid (xd_support d)"
    "map ap_name (xd_assets d) = INDEXED_ASSET_NAMES"
proof -
  have l: "length (xd_assets d) = length INDEXED_ASSET_NAMES"
    and z: "list_all (\<lambda>(asset, expected). asset_valid asset \<and> ap_name asset = expected)
      (zip (xd_assets d) INDEXED_ASSET_NAMES)"
    and s: "is_none_or support_valid (xd_support d)"
    using assms by (auto simp: document_valid_def split: if_splits)
  show "is_none_or support_valid (xd_support d)" by (rule s)
  show "list_all asset_valid (xd_assets d)" "map ap_name (xd_assets d) = INDEXED_ASSET_NAMES"
    using z l by (auto simp: list_all_length intro!: nth_equalityI)
qed

lemma de_ser_document: "document_valid d \<Longrightarrow> de_document (ser_document d) = Some d"
  using document_valid_parts [of d]
  by (simp add: de_document_def ser_document_def de_object_mk_obj field_lists)
    (cases "xd_support d"; simp add: document_fields_def serde_simps de_req_def de_opt_def those_assets de_ser_support)

lemma de_ser_embedded: "de_embedded (ser_embedded i) = Some i"
  by (simp add: de_embedded_def ser_embedded_def de_object_mk_obj field_lists)
    (simp add: embedded_fields_def serde_simps de_req_def de_variant_text)

section \<open>Indexes\<close>

lemma decode_index_Some:
  "decode_index L bytes = Some ix \<longleftrightarrow>
    ix_bytes ix = bytes \<and> bytes \<noteq> [] \<and> length bytes \<le> MAX_INDEX_BYTES \<and> document_valid (ix_document ix)
    \<and> (\<exists>j. from_slice L bytes = Some j \<and> de_document j = Some (ix_document ix))"
  by (cases ix) (auto simp: decode_index_def release_decode_def split: bind_splits if_splits option.splits)

lemma index_identity_valid:
  assumes "document_valid (ix_document ix)" "lower_hex (sha256_hex L (ix_bytes ix)) 64"
  shows "index_identity L ix = Some \<lparr>ri_repository = REPOSITORY, ri_tag = xd_tag (ix_document ix),
    ri_commit = xd_commit (ix_document ix), ri_index_sha256 = sha256_hex L (ix_bytes ix)\<rparr>"
  using assms by (auto simp: index_identity_def new_stable_identity_def document_valid_def stable_release_def
      split: if_splits)

lemma proofs_by_name_Some:
  assumes "proofs_by_name by_name ps = Some m"
  shows "list_all asset_valid ps" "distinct (map ap_name ps)"
    "map_of m n = Some p \<longleftrightarrow> map_of by_name n = Some p \<or> p \<in> set ps \<and> ap_name p = n"
proof -
  have "list_all asset_valid ps \<and> distinct (map ap_name ps) \<and> (\<forall>p\<in>set ps. map_of by_name (ap_name p) = None)
    \<and> (map_of m n = Some p \<longleftrightarrow> map_of by_name n = Some p \<or> p \<in> set ps \<and> ap_name p = n)"
    using assms
  proof (induction ps arbitrary: by_name)
    case (Cons q ps)
    then have q: "asset_valid q" "map_of by_name (ap_name q) = None"
      and rest: "proofs_by_name (bt_insert (ap_name q) q by_name) ps = Some m" by (auto split: if_splits)
    from Cons.IH [OF rest] show ?case using q by (auto simp: map_of_bt_insert split: if_splits)
  qed simp
  then show "list_all asset_valid ps" "distinct (map ap_name ps)"
    "map_of m n = Some p \<longleftrightarrow> map_of by_name n = Some p \<or> p \<in> set ps \<and> ap_name p = n" by auto
qed

lemma proofs_by_name_defined:
  "list_all asset_valid ps \<Longrightarrow> distinct (map ap_name ps) \<Longrightarrow> \<forall>p\<in>set ps. map_of by_name (ap_name p) = None
   \<Longrightarrow> \<exists>m. proofs_by_name by_name ps = Some m"
proof (induction ps arbitrary: by_name)
  case (Cons p ps)
  have "\<forall>q\<in>set ps. map_of (bt_insert (ap_name p) p by_name) (ap_name q) = None"
    using Cons.prems(2,3) by (auto simp: map_of_bt_insert dest: sym [THEN image_eqI])
  then show ?case using Cons by simp
qed simp

text \<open>The proofs that an index accepts: its own, those of its three assets, and no other.\<close>

lemma verify_asset_proofs_iff:
  assumes "document_valid (ix_document ix)"
  shows "verify_asset_proofs L ix expected proofs \<longleftrightarrow>
    index_identity L ix = Some expected
    \<and> (\<exists>p. asset_for_bytes L ''release-index.json'' (ix_bytes ix) = Some p
        \<and> distinct proofs \<and> set proofs = insert p (set (xd_assets (ix_document ix))))"
    (is "_ \<longleftrightarrow> _ \<and> (\<exists>p. ?own p \<and> distinct proofs \<and> set proofs = insert p (set ?assets))")
proof
  have names: "map ap_name ?assets = INDEXED_ASSET_NAMES" and valid: "list_all asset_valid ?assets"
    using document_valid_parts [OF assms] by auto
  have own_name: "?own p \<Longrightarrow> ap_name p = ''release-index.json'' \<and> asset_valid p" for p
    by (auto simp: asset_for_bytes_def new_asset_proof_Some)
  have da: "distinct (map ap_name ?assets)" unfolding names by (simp add: INDEXED_ASSET_NAMES_def)
  have fresh: "?own p \<Longrightarrow> ap_name p \<notin> ap_name ` set ?assets" for p
    using own_name [of p] arg_cong [OF names, of set] by (auto simp: INDEXED_ASSET_NAMES_def)
  have la: "length ?assets = 3" using arg_cong [OF names, of length] by (simp add: INDEXED_ASSET_NAMES_def)
  {
    assume "verify_asset_proofs L ix expected proofs"
    then obtain m p where v: "index_identity L ix = Some expected" "length proofs = 4"
      "proofs_by_name [] proofs = Some m" "?own p" "map_of m ''release-index.json'' = Some p"
      "list_all (\<lambda>asset. map_of m (ap_name asset) = Some asset) ?assets"
      by (auto simp: verify_asset_proofs_def RELEASE_ASSET_NAMES_def split: if_splits option.splits)
    note by_name = proofs_by_name_Some [OF v(3)]
    have sub: "insert p (set ?assets) \<subseteq> set proofs"
      using v(5,6) by_name(3) by (auto simp: list_all_iff)
    have d: "distinct proofs" using by_name(2) by (simp add: distinct_map)
    have "p \<notin> set ?assets" using fresh [OF v(4)] by auto
    then have "card (insert p (set ?assets)) = 4"
      using da la by (simp add: distinct_card distinct_map)
    moreover have "card (set proofs) = 4" using d v(2) by (simp add: distinct_card)
    ultimately have "insert p (set ?assets) = set proofs" using sub by (intro card_subset_eq) auto
    then show "index_identity L ix = Some expected \<and> (\<exists>p. ?own p \<and> distinct proofs \<and> set proofs = insert p (set ?assets))"
      using v d by auto
  }
  {
    assume "index_identity L ix = Some expected \<and> (\<exists>p. ?own p \<and> distinct proofs \<and> set proofs = insert p (set ?assets))"
    then obtain p where p: "index_identity L ix = Some expected" "?own p" "distinct proofs"
      "set proofs = insert p (set ?assets)" by auto
    have inj: "inj_on ap_name (set proofs)"
      using da fresh [OF p(2)] unfolding p(4) inj_on_insert by (simp add: distinct_map) blast
    have "list_all asset_valid proofs" using p(4) valid own_name [OF p(2)] by (auto simp: list_all_iff)
    then obtain m where m: "proofs_by_name [] proofs = Some m"
      using proofs_by_name_defined [of proofs "[]"] inj p(3) by (auto simp: distinct_map)
    have "card (set proofs) = 4"
      using da la fresh [OF p(2)] unfolding p(4) by (subst card_insert_disjoint) (auto simp: distinct_card distinct_map)
    then have "length proofs = 4" using p(3) by (simp add: distinct_card)
    then show "verify_asset_proofs L ix expected proofs"
      using p m own_name [OF p(2)] proofs_by_name_Some(3) [OF m]
      by (auto simp: verify_asset_proofs_def RELEASE_ASSET_NAMES_def list_all_iff)
  }
qed

section \<open>Trailers\<close>

lemma le_value_to_le_bytes: "le_value (map (\<lambda>i. char_of (n div 256 ^ i)) [0 ..< k]) = n mod 256 ^ k"
proof (induction k arbitrary: n)
  case (Suc k)
  have "map (\<lambda>i. char_of (n div 256 ^ i)) [0 ..< Suc k]
      = char_of n # map (\<lambda>i. char_of (n div 256 div 256 ^ i)) [0 ..< k]"
    by (simp add: upt_conv_Cons map_Suc_upt [symmetric] div_mult2_eq del: upt_Suc)
  then have "le_value (map (\<lambda>i. char_of (n div 256 ^ i)) [0 ..< Suc k]) = n mod 256 + 256 * (n div 256 mod 256 ^ k)"
    using Suc [of "n div 256"] by simp
  then show ?case using mod_mult2_eq [of n 256 "256 ^ k"] by simp
qed simp

lemma le_value_length:
  assumes "n < 2 ^ 64"
  shows "le_value (to_le_bytes 8 (of_nat n)) = n"
proof -
  have "unat (of_nat n :: u64) = n" using assms by (simp add: unat_of_nat take_bit_nat_eq_self)
  then show ?thesis using assms by (simp add: to_le_bytes_def le_value_to_le_bytes)
qed

lemma length_to_le_bytes [simp]: "length (to_le_bytes k n) = k"
  by (simp add: to_le_bytes_def)

lemma le_value_bound: "le_value bs < 256 ^ length bs"
proof (induction bs)
  case (Cons b bs)
  have "of_char b < (256 :: nat)" by simp
  then have "of_char b + 256 * le_value bs < 256 * Suc (le_value bs)" by simp
  also have "\<dots> \<le> 256 * 256 ^ length bs" using Cons by (intro mult_le_mono2) simp
  finally show ?case by simp
qed simp

lemma length_unhex: "length (unhex s) = length s div 2"
  by (induction s rule: unhex.induct) auto

text \<open>The bytes of a stamped executable, and what is found in them.\<close>

definition stamped :: "lib \<Rightarrow> bytes \<Rightarrow> bytes \<Rightarrow> bytes" where
  "stamped L payload document =
     payload @ document @ sha256_raw L document @ to_le_bytes 8 (of_nat (length document)) @ IDENTITY_MAGIC"

lemma length_magic: "length IDENTITY_MAGIC = 16"
  by (simp add: IDENTITY_MAGIC_def)

lemma ends_with_append [simp]: "ends_with s (t @ s)"
  by (simp add: ends_with_def)

lemma ends_with_iff: "ends_with s x \<longleftrightarrow> (\<exists>t. x = t @ s)"
  by (auto simp: ends_with_def) (metis append_take_drop_id)

locale release_text = json_text +
  assumes digest_text: "lower_hex (sha256_hex L bytes) 64"
begin

lemma length_raw [simp]: "length (sha256_raw L bytes) = 32"
  using digest_text [of bytes] by (simp add: sha256_raw_def length_unhex lower_hex_def)

lemma length_stamped: "length (stamped L payload document) = length payload + length document + 56"
  by (simp add: stamped_def length_magic)

lemma read_stamped:
  assumes "payload \<noteq> []" "document \<noteq> []" "length document \<le> MAX_IDENTITY_BYTES"
    "length (stamped L payload document) \<le> MAX_EXECUTABLE_BYTES"
  shows "read_executable_identity L (stamped L payload document) = do {
    i \<leftarrow> release_decode L de_embedded document MAX_IDENTITY_BYTES;
    (if \<not> embedded_valid i \<or> ends_with IDENTITY_MAGIC payload \<or> sha256_hex L payload \<noteq> ei_payload_sha256 i
     then None else Some (i, payload))
  }"
proof -
  let ?e = "stamped L payload document"
  let ?front = "payload @ document @ sha256_raw L document"
  have e: "?e = ?front @ to_le_bytes 8 (of_nat (length document)) @ IDENTITY_MAGIC" by (simp add: stamped_def)
  have magic: "ends_with IDENTITY_MAGIC ?e" unfolding e by (simp add: ends_with_iff)
  have off: "length ?e - length IDENTITY_MAGIC - 8 = length ?front" unfolding e by (simp add: length_magic)
  have small: "length document < 2 ^ 64" using assms(3) by (simp add: MAX_IDENTITY_BYTES_def)
  have at: "u64_at ?e (length ?front) = Some (length document)"
    unfolding u64_at_def byte_array_def e by (simp add: le_value_length [OF small] length_magic)
  have doc_off: "length ?e - trailer_size - length document = length payload"
    by (simp add: length_stamped trailer_size_def length_magic)
  have doc: "take (length document) (drop (length payload) ?e) = document" by (simp add: stamped_def)
  have sum: "take (length ?front - (length payload + length document)) (drop (length payload + length document) ?e)
      = sha256_raw L document" by (simp add: stamped_def)
  have pay: "take (length payload) ?e = payload" by (simp add: stamped_def)
  have bounds: "\<not> length ?e \<le> trailer_size" "\<not> length document + trailer_size \<ge> length ?e"
    using assms(1) by (auto simp: length_stamped trailer_size_def length_magic)
  show ?thesis
    unfolding read_executable_identity_def Let_def off at Option.bind.bind_lunit doc_off doc pay sum
    using assms magic bounds by (auto split: bind_splits)
qed

lemma read_executable_identity_shape:
  assumes "read_executable_identity L e = Some (i, payload)"
  obtains document where "length document \<le> MAX_IDENTITY_BYTES" "document \<noteq> []" "payload \<noteq> []"
    "e = payload @ document @ sha256_raw L document @ take 8 (drop (length e - 24) e) @ IDENTITY_MAGIC"
    "le_value (take 8 (drop (length e - 24) e)) = length document" "length e \<le> MAX_EXECUTABLE_BYTES"
    "release_decode L de_embedded document MAX_IDENTITY_BYTES = Some i" "embedded_valid i"
    "\<not> ends_with IDENTITY_MAGIC payload" "sha256_hex L payload = ei_payload_sha256 i"
proof -
  define len where "len = le_value (take 8 (drop (length e - 24) e))"
  define off where "off = length e - trailer_size - len"
  define document where "document = take len (drop off e)"
  have t: "trailer_size = 56" by (simp add: trailer_size_def length_magic)
  have facts: "length e > 56" "length e \<le> MAX_EXECUTABLE_BYTES" "ends_with IDENTITY_MAGIC e"
    "len \<noteq> 0" "len \<le> MAX_IDENTITY_BYTES" "len + 56 < length e"
    "take (length e - 24 - (off + len)) (drop (off + len) e) = sha256_raw L document"
    "release_decode L de_embedded document MAX_IDENTITY_BYTES = Some i" "embedded_valid i"
    "payload = take off e" "\<not> ends_with IDENTITY_MAGIC payload" "sha256_hex L payload = ei_payload_sha256 i"
    using assms
    by (auto simp: read_executable_identity_def Let_def u64_at_def byte_array_def length_magic t len_def off_def document_def
        split: bind_splits if_splits)
  have offs: "off + len + 32 = length e - 24" "off > 0" using facts(1,6) by (auto simp: off_def t)
  have "length e - 24 - (off + len) = 32" using offs(1) by simp
  then have raw: "take 32 (drop (off + len) e) = sha256_raw L document" using facts(7) by (simp only:)
  have magic: "drop (length e - 16) e = IDENTITY_MAGIC"
    using facts(3) by (simp add: ends_with_def length_magic)
  have "e = take off e @ take len (drop off e) @ take 32 (drop (off + len) e)
      @ take 8 (drop (length e - 24) e) @ drop (length e - 16) e"
  proof -
    have "drop (off + len) e = take 32 (drop (off + len) e) @ drop (length e - 24) e"
      using append_take_drop_id [of 32 "drop (off + len) e"] offs(1) by (simp add: add.commute)
    moreover have "drop (length e - 24) e = take 8 (drop (length e - 24) e) @ drop (length e - 16) e"
      using append_take_drop_id [of 8 "drop (length e - 24) e"] facts(1) by simp
    moreover have "drop off e = take len (drop off e) @ drop (off + len) e"
      using append_take_drop_id [of len "drop off e"] by (simp add: add.commute)
    ultimately show ?thesis using append_take_drop_id [of off e] by (metis append_assoc)
  qed
  then have whole: "e = payload @ document @ sha256_raw L document @ take 8 (drop (length e - 24) e) @ IDENTITY_MAGIC"
    by (simp only: facts(10) document_def [symmetric] raw magic)
  have len: "length document = len" using offs(1) facts(1) by (simp add: document_def)
  have "payload \<noteq> []" using facts(1,10) offs(2) by auto
  moreover have "document \<noteq> []" "length document \<le> MAX_IDENTITY_BYTES" using len facts(4,5) by auto
  moreover have "le_value (take 8 (drop (length e - 24) e)) = length document" by (simp only: len len_def)
  ultimately show ?thesis by (intro that [OF _ _ _ whole _ facts(2,8,9,11,12)])
qed

lemma le_bytes_unique: "length xs = 8 \<Longrightarrow> to_le_bytes 8 (of_nat (le_value xs)) = xs"
proof -
  have *: "map (\<lambda>i. char_of (le_value xs div 256 ^ i)) [0 ..< length xs] = xs" for xs
  proof (induction xs)
    case (Cons x xs)
    have "(of_char x + 256 * le_value xs) div 256 = le_value xs" "char_of (of_char x + 256 * le_value xs) = x"
      by (simp_all add: char_of_eq_iff take_bit_eq_mod)
    then show ?case
      using Cons by (simp add: upt_conv_Cons map_Suc_upt [symmetric] div_mult2_eq comp_def del: upt_Suc)
  qed simp
  assume "length xs = 8"
  then have "unat (of_nat (le_value xs) :: u64) = le_value xs"
    using le_value_bound [of xs] by (simp add: unat_of_nat take_bit_nat_eq_self)
  then show ?thesis using * [of xs] \<open>length xs = 8\<close> by (simp add: to_le_bytes_def)
qed

text \<open>Reading succeeds on exactly the stamped bytes.\<close>

lemma read_executable_identity_iff:
  "read_executable_identity L e = Some (i, payload) \<longleftrightarrow>
    (\<exists>document. e = stamped L payload document \<and> payload \<noteq> [] \<and> document \<noteq> []
      \<and> length document \<le> MAX_IDENTITY_BYTES \<and> length e \<le> MAX_EXECUTABLE_BYTES
      \<and> release_decode L de_embedded document MAX_IDENTITY_BYTES = Some i \<and> embedded_valid i
      \<and> \<not> ends_with IDENTITY_MAGIC payload \<and> sha256_hex L payload = ei_payload_sha256 i)"
proof
  assume "read_executable_identity L e = Some (i, payload)"
  then obtain document where d: "length document \<le> MAX_IDENTITY_BYTES" "document \<noteq> []" "payload \<noteq> []"
    "e = payload @ document @ sha256_raw L document @ take 8 (drop (length e - 24) e) @ IDENTITY_MAGIC"
    "le_value (take 8 (drop (length e - 24) e)) = length document" "length e \<le> MAX_EXECUTABLE_BYTES"
    "release_decode L de_embedded document MAX_IDENTITY_BYTES = Some i" "embedded_valid i"
    "\<not> ends_with IDENTITY_MAGIC payload" "sha256_hex L payload = ei_payload_sha256 i"
    by (rule read_executable_identity_shape)
  have "length (take 8 (drop (length e - 24) e)) = 8"
    using arg_cong [OF d(4), of length] by (simp add: length_magic)
  then have "to_le_bytes 8 (of_nat (length document)) = take 8 (drop (length e - 24) e)"
    using le_bytes_unique d(5) by metis
  then have "e = stamped L payload document" using d(4) by (simp only: stamped_def)
  then show "\<exists>document. e = stamped L payload document \<and> payload \<noteq> [] \<and> document \<noteq> []
      \<and> length document \<le> MAX_IDENTITY_BYTES \<and> length e \<le> MAX_EXECUTABLE_BYTES
      \<and> release_decode L de_embedded document MAX_IDENTITY_BYTES = Some i \<and> embedded_valid i
      \<and> \<not> ends_with IDENTITY_MAGIC payload \<and> sha256_hex L payload = ei_payload_sha256 i"
    using d by blast
qed (auto simp: read_stamped)

lemma stamp_executable_Some:
  assumes "stamp_executable L payload tag commit sequence architecture = Some e"
  shows "read_executable_identity L e = Some (\<lparr>ei_schema = 1, ei_repository = REPOSITORY, ei_tag = tag,
    ei_commit = commit, ei_sequence = sequence, ei_architecture = architecture,
    ei_payload_sha256 = sha256_hex L payload\<rparr>, payload)"
proof -
  let ?i = "\<lparr>ei_schema = 1, ei_repository = REPOSITORY, ei_tag = tag, ei_commit = commit, ei_sequence = sequence,
    ei_architecture = architecture, ei_payload_sha256 = sha256_hex L payload\<rparr>"
  let ?d = "to_vec L (ser_embedded ?i)"
  have f: "payload \<noteq> []" "\<not> ends_with IDENTITY_MAGIC payload" "embedded_valid ?i" "length ?d \<le> MAX_IDENTITY_BYTES"
    "length payload + (length ?d + trailer_size) \<le> MAX_EXECUTABLE_BYTES" "e = stamped L payload ?d"
    using assms by (auto simp: stamp_executable_def Let_def stamped_def split: if_splits)
  have "release_decode L de_embedded ?d MAX_IDENTITY_BYTES = Some ?i"
    using f(4) by (simp add: release_decode_def from_to to_vec_nonempty de_ser_embedded)
  then show ?thesis
    unfolding read_executable_identity_iff
    using f by (intro exI [of _ ?d]) (auto simp: to_vec_nonempty length_stamped trailer_size_def length_magic)
qed

end

end
