(* ===== verification/Elf_Laws.thy ===== *)
theory Elf_Laws
  imports Elf_Inspection Release_Laws
begin

unbundle bit_operations_syntax

text \<open>
  What an accepted executable is, in the terms of the ELF specification: a statically linked file whose sections lie in
  it and whose entry point is in its mapped text section, bound to the commit and architecture of its trailer.
\<close>

section \<open>Headers\<close>

text \<open>The program headers of a file, as the header of the file locates them.\<close>

definition program_headers :: "bytes \<Rightarrow> bytes list" where
  "program_headers bytes =
     (case (u64_at bytes 32, u16_at bytes 56) of
        (Some offset, Some n) \<Rightarrow> map (\<lambda>i. take 56 (drop (offset + i * 56) bytes)) [0 ..< n]
      | _ \<Rightarrow> [])"

lemma guard_Some [simp]: "guard b = Some u \<longleftrightarrow> b"
  by (simp add: guard_def)

lemma chunks_range:
  assumes "byte_range bytes offset (k * n) = Some s" "n > 0"
  shows "chunks_exact n s = map (\<lambda>i. take n (drop (offset + i * n) bytes)) [0 ..< k]"
proof -
  have s: "s = take (k * n) (drop offset bytes)" "length s = k * n"
    using assms(1) by (auto simp: byte_range_def split: if_splits)
  have "take n (drop (i * n) s) = take n (drop (offset + i * n) bytes)" if "i < k" for i
  proof -
    have "Suc i * n \<le> k * n" using that by (intro mult_le_mono1) simp
    then have "n \<le> k * n - i * n" by simp
    then show ?thesis by (simp add: s(1) drop_take min_def add.commute)
  qed
  then show ?thesis using assms(2) s(2) by (simp add: chunks_exact_def)
qed

lemma inspect_programs_all:
  "inspect_programs bytes entry ps found = Some r \<Longrightarrow> p \<in> set ps \<Longrightarrow> inspect_program bytes entry p \<noteq> None"
  by (induction ps arbitrary: found) (auto split: option.splits)

lemma inspect_programs_found:
  "inspect_programs bytes entry ps found = Some True \<Longrightarrow> found \<or> (\<exists>p\<in>set ps. inspect_program bytes entry p = Some True)"
  by (induction ps arbitrary: found) (auto split: option.splits)

section \<open>Dynamic tables\<close>

text \<open>
  A dynamic table of a statically linked file, as the ELF specification numbers its tags: whole entries, none of them
  \<open>DT_NEEDED\<close> (1), \<open>DT_AUXILIARY\<close>, \<open>DT_FILTER\<close>, \<open>DT_DEPAUDIT\<close> or \<open>DT_AUDIT\<close>, one of them \<open>DT_NULL\<close> (0), and only
  zeros behind it.
\<close>

definition dynamic_entry :: "bytes \<Rightarrow> nat \<Rightarrow> bytes" where
  "dynamic_entry data i = take 16 (drop (i * 16) data)"

definition static_table :: "bytes \<Rightarrow> bool" where
  "static_table data =
     (length data mod 16 = 0
      \<and> (\<forall>i < length data div 16. \<exists>tag. u64_at (dynamic_entry data i) 0 = Some tag
           \<and> tag \<noteq> 1 \<and> tag \<noteq> 0x7ffffffd \<and> tag \<noteq> 0x7fffffff \<and> tag \<noteq> 0x6ffffefb \<and> tag \<noteq> 0x6ffffefc)
      \<and> (\<exists>n < length data div 16. u64_at (dynamic_entry data n) 0 = Some 0
           \<and> (\<forall>i < length data div 16. n < i \<longrightarrow> set (dynamic_entry data i) \<subseteq> {CHR 0x00})))"

lemma dynamic_entries_all:
  "dynamic_entries t es = Some r \<Longrightarrow> e \<in> set es \<Longrightarrow> \<exists>tag. u64_at e 0 = Some tag \<and> tag \<noteq> 1 \<and> tag \<noteq> 0x7ffffffd
     \<and> tag \<noteq> 0x7fffffff \<and> tag \<noteq> 0x6ffffefb \<and> tag \<noteq> 0x6ffffefc"
  by (induction es arbitrary: t) (auto simp: dynamic_tag_refused_def split: option.splits if_splits)

lemma dynamic_entries_zeros:
  "dynamic_entries True es = Some r \<Longrightarrow> e \<in> set es \<Longrightarrow> set e \<subseteq> {CHR 0x00}"
  by (induction es) (auto simp: nonzero_def list_ex_iff split: option.splits if_splits)

lemma dynamic_entries_ended:
  "dynamic_entries False es = Some True \<Longrightarrow>
    \<exists>n < length es. u64_at (es ! n) 0 = Some 0 \<and> (\<forall>i < length es. n < i \<longrightarrow> set (es ! i) \<subseteq> {CHR 0x00})"
proof (induction es)
  case (Cons e es)
  then obtain tag where t: "u64_at e 0 = Some tag" and rest: "dynamic_entries (tag = 0) es = Some True"
    by (auto split: option.splits if_splits)
  show ?case
  proof (cases "tag = 0")
    case True
    then have "\<forall>x\<in>set es. set x \<subseteq> {CHR 0x00}" using rest dynamic_entries_zeros by auto
    then show ?thesis using t True by (intro exI [of _ 0]) (auto simp: nth_Cons split: nat.splits)
  next
    case False
    then obtain n where "n < length es" "u64_at (es ! n) 0 = Some 0" "\<forall>i < length es. n < i \<longrightarrow> set (es ! i) \<subseteq> {CHR 0x00}"
      using Cons.IH rest by auto
    then show ?thesis by (intro exI [of _ "Suc n"]) (auto simp: nth_Cons split: nat.splits)
  qed
qed simp

lemma inspect_dynamic_static:
  assumes "inspect_dynamic data = Some u"
  shows "static_table data"
proof -
  have d: "length data mod 16 = 0" "dynamic_entries False (chunks_exact 16 data) = Some True"
    using assms by (auto simp: inspect_dynamic_def split: bind_splits)
  have c: "length (chunks_exact 16 data) = length data div 16"
    "\<And>i. i < length data div 16 \<Longrightarrow> chunks_exact 16 data ! i = dynamic_entry data i"
    by (simp_all add: chunks_exact_def dynamic_entry_def)
  have "\<exists>tag. u64_at (dynamic_entry data i) 0 = Some tag
           \<and> tag \<noteq> 1 \<and> tag \<noteq> 0x7ffffffd \<and> tag \<noteq> 0x7fffffff \<and> tag \<noteq> 0x6ffffefb \<and> tag \<noteq> 0x6ffffefc"
    if "i < length data div 16" for i
    using dynamic_entries_all [OF d(2), of "dynamic_entry data i"] nth_mem [of i "chunks_exact 16 data"] c that by auto
  then show ?thesis unfolding static_table_def using d(1) dynamic_entries_ended [OF d(2)] c by auto
qed

text \<open>
  A program header of a statically linked file: its part of the file exists, it is no \<open>PT_INTERP\<close> (3), a \<open>PT_DYNAMIC\<close>
  (2) is static, and a \<open>PT_LOAD\<close> (1) fits its memory, does not wrap around and is congruent to its page.
\<close>

definition static_program :: "bytes \<Rightarrow> bytes \<Rightarrow> bool" where
  "static_program bytes p =
     (\<exists>kind offset count. u32_at p 0 = Some kind \<and> u64_at p 8 = Some offset \<and> u64_at p 32 = Some count
        \<and> offset + count \<le> length bytes \<and> kind \<noteq> 3
        \<and> (kind = 2 \<longrightarrow> static_table (take count (drop offset bytes)))
        \<and> (kind = 1 \<longrightarrow> (\<exists>memory address align. u64_at p 40 = Some memory \<and> u64_at p 16 = Some address
             \<and> u64_at p 48 = Some align \<and> count \<le> memory \<and> address + memory < 2 ^ 64
             \<and> (align > 1 \<longrightarrow> (\<exists>k. align = 2 ^ k) \<and> address mod align = offset mod align))))"

lemma power_of_two_iff: "is_power_of_two n \<Longrightarrow> \<exists>k. n = 2 ^ k"
proof (induction n rule: less_induct)
  case (less n)
  have n: "n > 0" "n AND (n - 1) = 0" using less.prems by (simp_all add: is_power_of_two_def)
  show ?case
  proof (cases "even n")
    case True
    then obtain m where m: "n = 2 * m" by (elim evenE)
    have "n - 1 = 1 + 2 * (m - 1)" using m n(1) by simp
    then have "n AND (n - 1) = 2 * (m AND (m - 1))" using m by (simp add: and_nat_rec [of "2 * m"])
    then have "is_power_of_two m" "m < n" using n m by (simp_all add: is_power_of_two_def)
    then obtain k where "m = 2 ^ k" using less.IH by blast
    then show ?thesis using m by (intro exI [of _ "Suc k"]) simp
  next
    case False
    then obtain m where m: "n = 2 * m + 1" by (elim oddE)
    then have "n AND (n - 1) = 2 * m" by (simp add: and_nat_rec [of "Suc (2 * m)"])
    then show ?thesis using n(2) m by (intro exI [of _ 0]) simp
  qed
qed

lemma inspect_program_static: "inspect_program bytes entry p \<noteq> None \<Longrightarrow> static_program bytes p"
  by (auto simp: inspect_program_def static_program_def byte_range_def split: bind_splits if_splits
      dest!: inspect_dynamic_static intro: power_of_two_iff)

text \<open>An executable segment: a \<open>PT_LOAD\<close> with \<open>PF_X\<close>, its file offset, its address and its size in the file.\<close>

definition executable_segment :: "bytes \<Rightarrow> nat \<Rightarrow> nat \<Rightarrow> nat \<Rightarrow> bool" where
  "executable_segment p offset address count =
     (u32_at p 0 = Some 1 \<and> (\<exists>flags. u32_at p 4 = Some flags \<and> odd flags)
      \<and> u64_at p 8 = Some offset \<and> u64_at p 16 = Some address \<and> u64_at p 32 = Some count)"

lemma inspect_program_entry:
  assumes "inspect_program bytes entry p = Some True"
  shows "\<exists>offset address count. executable_segment p offset address count \<and> address \<le> entry \<and> entry < address + count"
  using assms by (auto simp: inspect_program_def executable_segment_def split: bind_splits if_splits)

lemma text_mapped_segment:
  assumes "text_mapped tx ps mapped = Some True"
  shows "mapped \<or> (\<exists>p\<in>set ps. \<exists>offset address count. executable_segment p offset address count
    \<and> address \<le> es_address tx \<and> es_address tx + offset = address + es_offset tx
    \<and> es_offset tx + length (es_bytes tx) \<le> offset + count)"
  using assms
proof (induction ps arbitrary: mapped)
  case (Cons p ps)
  show ?case
    using Cons.prems Cons.IH
    by (fastforce simp: executable_segment_def split: bind_splits if_splits)
qed simp

section \<open>Sections\<close>

text \<open>The section headers of a file, as the header of the file locates them, and the section that one describes.\<close>

definition section_headers :: "bytes \<Rightarrow> bytes list" where
  "section_headers bytes =
     (case (u64_at bytes 40, u16_at bytes 60) of
        (Some offset, Some n) \<Rightarrow> map (\<lambda>i. take 64 (drop (offset + i * 64) bytes)) [0 ..< n]
      | _ \<Rightarrow> [])"

definition section_of :: "bytes \<Rightarrow> bytes \<Rightarrow> elf_section \<Rightarrow> bool" where
  "section_of bytes h s =
     (u32_at h 4 = Some (es_kind s) \<and> u64_at h 8 = Some (es_flags s) \<and> u64_at h 16 = Some (es_address s)
      \<and> u64_at h 24 = Some (es_offset s)
      \<and> (if es_kind s = 8 then es_bytes s = []
         else u64_at h 32 = Some (length (es_bytes s)) \<and> es_offset s + length (es_bytes s) \<le> length bytes
              \<and> es_bytes s = take (length (es_bytes s)) (drop (es_offset s) bytes))
      \<and> (es_kind s = 6 \<longrightarrow> static_table (es_bytes s)))"

lemma read_section_of: "read_section bytes names h = Some (n, s) \<Longrightarrow> section_of bytes h s"
  by (auto simp: read_section_def section_of_def byte_range_def split: bind_splits if_splits
      dest!: inspect_dynamic_static)

lemma read_sections_of:
  assumes "read_sections bytes names hs sections = Some m"
  shows "(\<forall>n s. map_of m n = Some s \<longrightarrow> map_of sections n = Some s \<or> (\<exists>h\<in>set hs. section_of bytes h s))
    \<and> (\<forall>n s. map_of sections n = Some s \<longrightarrow> map_of m n = Some s)
    \<and> (\<forall>h\<in>set hs. \<exists>n s. map_of m n = Some s \<and> section_of bytes h s)"
  using assms
proof (induction hs arbitrary: sections)
  case (Cons h hs)
  then obtain name x where h: "read_section bytes names h = Some (name, x)" and fresh: "map_of sections name = None"
    and rest: "read_sections bytes names hs (bt_insert name x sections) = Some m"
    by (auto split: option.splits if_splits)
  note ins = map_of_bt_insert [of name x sections] and ih = Cons.IH [OF rest] and here = read_section_of [OF h]
  show ?case
  proof (intro conjI allI impI ballI)
    fix n s assume "map_of m n = Some s"
    then have "map_of (bt_insert name x sections) n = Some s \<or> (\<exists>h\<in>set hs. section_of bytes h s)" using ih by blast
    then show "map_of sections n = Some s \<or> (\<exists>k\<in>set (h # hs). section_of bytes k s)"
      using here by (auto simp: ins split: if_splits)
  next
    fix n s assume "map_of sections n = Some s"
    then have "map_of (bt_insert name x sections) n = Some s" using fresh by (auto simp: ins)
    then show "map_of m n = Some s" using ih by blast
  next
    fix k assume "k \<in> set (h # hs)"
    moreover have "map_of m name = Some x" using ih ins by simp
    ultimately show "\<exists>n s. map_of m n = Some s \<and> section_of bytes k s" using ih here by auto
  qed
qed simp

section \<open>Files\<close>

text \<open>
  What a statically linked executable for an architecture is: an ELF64 file of that machine, every program header static,
  its sections exactly those of the section headers after the first, with an executable text and read-only data, the
  entry point in the text and in an executable segment, and the text mapped by an executable segment from where it lies
  in the file.
\<close>

definition machine_of :: "architecture \<Rightarrow> nat" where
  "machine_of a = (case a of Amd64 \<Rightarrow> 62 | Arm64 \<Rightarrow> 183)"

definition static_executable :: "bytes \<Rightarrow> architecture \<Rightarrow> (bytes \<times> elf_section) list \<Rightarrow> bool" where
  "static_executable bytes a sections =
     (take 6 bytes = [CHR 0x7F, CHR ''E'', CHR ''L'', CHR ''F'', CHR 0x02, CHR 0x01]
      \<and> (u16_at bytes 16 = Some 2 \<or> u16_at bytes 16 = Some 3) \<and> u16_at bytes 18 = Some (machine_of a)
      \<and> program_headers bytes \<noteq> [] \<and> (\<forall>p\<in>set (program_headers bytes). static_program bytes p)
      \<and> (\<forall>n s. map_of sections n = Some s \<longrightarrow> (\<exists>h\<in>set (tl (section_headers bytes)). section_of bytes h s))
      \<and> (\<forall>h\<in>set (tl (section_headers bytes)). \<exists>n s. map_of sections n = Some s \<and> section_of bytes h s)
      \<and> (\<exists>data. map_of sections ''.rodata'' = Some data \<and> es_kind data = 1 \<and> es_bytes data \<noteq> [])
      \<and> (\<exists>tx entry. map_of sections ''.text'' = Some tx \<and> es_kind tx = 1 \<and> es_flags tx AND 6 = 6
           \<and> u64_at bytes 24 = Some entry \<and> es_address tx \<le> entry \<and> entry < es_address tx + length (es_bytes tx)
           \<and> (\<exists>p\<in>set (program_headers bytes). \<exists>offset address count. executable_segment p offset address count
                \<and> address \<le> entry \<and> entry < address + count)
           \<and> (\<exists>p\<in>set (program_headers bytes). \<exists>offset address count. executable_segment p offset address count
                \<and> address \<le> es_address tx \<and> es_address tx + offset = address + es_offset tx
                \<and> es_offset tx + length (es_bytes tx) \<le> offset + count)))"

lemma elf_header_Some:
  assumes "elf_header bytes a = Some u"
  shows "take 6 bytes = [CHR 0x7F, CHR ''E'', CHR ''L'', CHR ''F'', CHR 0x02, CHR 0x01]"
    "u16_at bytes 16 = Some 2 \<or> u16_at bytes 16 = Some 3" "u16_at bytes 18 = Some (machine_of a)"
proof -
  have "take 7 bytes = ELF_IDENT" using assms by (auto simp: elf_header_def split: bind_splits)
  then have "take 6 (take 7 bytes) = take 6 ELF_IDENT" by (rule arg_cong)
  then show "take 6 bytes = [CHR 0x7F, CHR ''E'', CHR ''L'', CHR ''F'', CHR 0x02, CHR 0x01]" by (simp add: ELF_IDENT_def min_def)
  show "u16_at bytes 16 = Some 2 \<or> u16_at bytes 16 = Some 3" "u16_at bytes 18 = Some (machine_of a)"
    using assms by (auto simp: elf_header_def try_is_def elf_machine_def machine_of_def split: bind_splits)
qed

lemma parse_elf_static:
  assumes "parse_elf bytes a = Some sections"
  shows "static_executable bytes a sections"
proof -
  obtain entry phnum phoff programs shnum shoff table names tx ro where
    h: "elf_header bytes a = Some ()" "u64_at bytes 24 = Some entry"
    and p: "u16_at bytes 56 = Some phnum" "u64_at bytes 32 = Some phoff" "byte_range bytes phoff (phnum * 56) = Some programs"
      "inspect_programs bytes entry (chunks_exact 56 programs) False = Some True" "phnum \<noteq> 0"
    and t: "u16_at bytes 60 = Some shnum" "u64_at bytes 40 = Some shoff" "byte_range bytes shoff (shnum * 64) = Some table"
      "read_sections bytes names (drop 1 (chunks_exact 64 table)) [] = Some sections"
    and x: "require_section sections ''.text'' 6 = Some tx" "require_section sections ''.rodata'' 2 = Some ro"
      "es_address tx \<le> entry" "entry - es_address tx < length (es_bytes tx)"
      "text_mapped tx (chunks_exact 56 programs) False = Some True"
    using assms by (auto simp: parse_elf_def Let_def split: bind_splits)
  have ph: "program_headers bytes = chunks_exact 56 programs"
    using chunks_range [OF p(3)] p(1,2) by (simp add: program_headers_def)
  have "length programs = phnum * 56" using p(3) by (auto simp: byte_range_def split: if_splits)
  then have some: "program_headers bytes \<noteq> []" using p(5) by (simp add: ph chunks_exact_def)
  have sh: "tl (section_headers bytes) = drop 1 (chunks_exact 64 table)"
    using chunks_range [OF t(3)] t(1,2) by (simp add: section_headers_def drop_Suc)
  have static: "\<forall>p\<in>set (program_headers bytes). static_program bytes p"
    using inspect_programs_all [OF p(4)] inspect_program_static by (metis ph)
  have sections: "\<forall>n s. map_of sections n = Some s \<longrightarrow> (\<exists>h\<in>set (tl (section_headers bytes)). section_of bytes h s)"
    "\<forall>h\<in>set (tl (section_headers bytes)). \<exists>n s. map_of sections n = Some s \<and> section_of bytes h s"
    using read_sections_of [OF t(4)] by (auto simp: sh)
  have data: "map_of sections ''.rodata'' = Some ro" "es_kind ro = 1" "es_bytes ro \<noteq> []"
    "map_of sections ''.text'' = Some tx" "es_kind tx = 1" "es_flags tx AND 6 = 6"
    using x(1,2) by (auto simp: require_section_def split: bind_splits)
  have entry: "\<exists>p\<in>set (program_headers bytes). \<exists>offset address count. executable_segment p offset address count
      \<and> address \<le> entry \<and> entry < address + count"
    using inspect_programs_found [OF p(4)] inspect_program_entry unfolding ph by blast
  have mapped: "\<exists>p\<in>set (program_headers bytes). \<exists>offset address count. executable_segment p offset address count
      \<and> address \<le> es_address tx \<and> es_address tx + offset = address + es_offset tx
      \<and> es_offset tx + length (es_bytes tx) \<le> offset + count"
    using text_mapped_segment [OF x(5)] by (simp add: ph)
  have "entry < es_address tx + length (es_bytes tx)" using x(3,4) by simp
  then show ?thesis
    unfolding static_executable_def
    using elf_header_Some [OF h(1)] some static sections data h(2) x(3) entry mapped by blast
qed

lemma inspect_linux_identity_Some:
  assumes "inspect_linux_identity L (i, payload) a = Some r"
  obtains sections where "ei_architecture i = a" "ai_architecture r = a" "parse_elf payload a = Some sections"
    "ai_kind r = RustArtifact \<Longrightarrow>
      (\<exists>s. map_of sections RUST_ARTIFACT_SECTION = Some s \<and> rust_artifact_metadata (ei_commit i) a = Some (es_bytes s))"
    "ai_kind r = RustArtifact \<Longrightarrow>
      (\<exists>c. map_of sections ''.comment'' = Some c \<and> compiler_comments (es_bytes c) = [COMPILER_COMMENT])"
    "ai_kind r = HistoricalGo \<Longrightarrow>
      (\<exists>s. map_of sections ''.go.buildinfo'' = Some s \<and> inspect_go_build_info (es_bytes s) a = Some ())"
proof -
  obtain sections where p: "ei_architecture i = a" "ai_architecture r = a" "parse_elf payload a = Some sections"
    and k: "ai_kind r = RustArtifact \<and> map_of sections ''.go.buildinfo'' = None
        \<and> (\<exists>s. map_of sections RUST_ARTIFACT_SECTION = Some s \<and> inspect_rust L sections s (ei_commit i) a = Some ())
      \<or> ai_kind r = HistoricalGo
        \<and> (\<exists>s. map_of sections ''.go.buildinfo'' = Some s \<and> inspect_go sections s a = Some ())"
    using assms by (auto simp: inspect_linux_identity_def split: bind_splits option.splits if_splits)
  have one: "list_all (\<lambda>e. e = x) xs \<Longrightarrow> length xs = Suc 0 \<Longrightarrow> xs = [x]" for x and xs :: "bytes list"
    by (cases xs) auto
  show ?thesis
  proof (rule that [OF p])
    assume "ai_kind r = RustArtifact"
    then obtain s where s: "map_of sections RUST_ARTIFACT_SECTION = Some s"
      "inspect_rust L sections s (ei_commit i) a = Some ()" using k by auto
    then show "\<exists>s. map_of sections RUST_ARTIFACT_SECTION = Some s
        \<and> rust_artifact_metadata (ei_commit i) a = Some (es_bytes s)"
      and "\<exists>c. map_of sections ''.comment'' = Some c \<and> compiler_comments (es_bytes c) = [COMPILER_COMMENT]"
      by (auto simp: inspect_rust_def split: bind_splits intro: one)
  next
    assume "ai_kind r = HistoricalGo"
    then show "\<exists>s. map_of sections ''.go.buildinfo'' = Some s \<and> inspect_go_build_info (es_bytes s) a = Some ()"
      using k by (auto simp: inspect_go_def split: bind_splits)
  qed
qed

end
