(* ===== verification/Release_Examples.thy ===== *)
theory Release_Examples
  imports Elf_Laws Json_Text
begin

text \<open>
  A small executable that passes the inspection: 812 bytes with the sections that a release build has, stamped with
  an identity.  It is evaluated piece by piece: the fields of the headers, the sections, the whole file.
\<close>

section \<open>The file\<close>

definition elf_demo_head :: bytes where
  "elf_demo_head = [CHR 0x7F, CHR 0x45, CHR 0x4C, CHR 0x46, CHR 0x02, CHR 0x01, CHR 0x01, CHR 0x00, CHR 0x00, CHR 0x00, 
     CHR 0x00, CHR 0x00, CHR 0x00, CHR 0x00, CHR 0x00, CHR 0x00, CHR 0x02, CHR 0x00, CHR 0x3E, CHR 0x00, 
     CHR 0x01, CHR 0x00, CHR 0x00, CHR 0x00, CHR 0x78, CHR 0x00, CHR 0x40, CHR 0x00, CHR 0x00, CHR 0x00, 
     CHR 0x00, CHR 0x00, CHR 0x40, CHR 0x00, CHR 0x00, CHR 0x00, CHR 0x00, CHR 0x00, CHR 0x00, CHR 0x00, 
     CHR 0xAC, CHR 0x01, CHR 0x00, CHR 0x00, CHR 0x00, CHR 0x00, CHR 0x00, CHR 0x00, CHR 0x00, CHR 0x00, 
     CHR 0x00, CHR 0x00, CHR 0x40, CHR 0x00, CHR 0x38, CHR 0x00, CHR 0x01, CHR 0x00, CHR 0x40, CHR 0x00, 
     CHR 0x06, CHR 0x00, CHR 0x05, CHR 0x00]"

definition elf_demo_program :: bytes where
  "elf_demo_program = [CHR 0x01, CHR 0x00, CHR 0x00, CHR 0x00, CHR 0x05, CHR 0x00, CHR 0x00, CHR 0x00, CHR 0x00, CHR 0x00, 
     CHR 0x00, CHR 0x00, CHR 0x00, CHR 0x00, CHR 0x00, CHR 0x00, CHR 0x00, CHR 0x00, CHR 0x40, CHR 0x00, 
     CHR 0x00, CHR 0x00, CHR 0x00, CHR 0x00, CHR 0x00, CHR 0x00, CHR 0x00, CHR 0x00, CHR 0x00, CHR 0x00, 
     CHR 0x00, CHR 0x00, CHR 0x2C, CHR 0x03, CHR 0x00, CHR 0x00, CHR 0x00, CHR 0x00, CHR 0x00, CHR 0x00, 
     CHR 0x2C, CHR 0x03, CHR 0x00, CHR 0x00, CHR 0x00, CHR 0x00, CHR 0x00, CHR 0x00, CHR 0x00, CHR 0x10, 
     CHR 0x00, CHR 0x00, CHR 0x00, CHR 0x00, CHR 0x00, CHR 0x00]"

definition elf_demo_metadata :: bytes where
  "elf_demo_metadata = ''{'' @ quoted ''schema'' @ '':'' @ quoted ''sbxr-rust-artifact-v1'' @ '','' @ quoted ''repository'' @ '':''
        @ quoted ''albertloky/SBXR'' @ '','' @ quoted ''package'' @ '':'' @ quoted ''sbxr'' @ '','' @ quoted ''compiler'' @ '':''
        @ quoted ''rustc 1.90.0'' @ '','' @ quoted ''target'' @ '':'' @ quoted ''x86_64-unknown-linux-musl'' @ '','' @ quoted ''profile'' @ '':''
        @ quoted ''release'' @ '','' @ quoted ''commit'' @ '':'' @ quoted ''aaaaaaaaaaaaaaaaaaaaaaaaaaaaaaaaaaaaaaaa'' @ ''}''"

definition elf_demo_names :: bytes where
  "elf_demo_names = [CHR 0x00, CHR 0x2E, CHR 0x74, CHR 0x65, CHR 0x78, CHR 0x74, CHR 0x00, CHR 0x2E, CHR 0x72, CHR 0x6F, 
     CHR 0x64, CHR 0x61, CHR 0x74, CHR 0x61, CHR 0x00, CHR 0x2E, CHR 0x73, CHR 0x62, CHR 0x78, CHR 0x72, 
     CHR 0x2E, CHR 0x72, CHR 0x75, CHR 0x73, CHR 0x74, CHR 0x00, CHR 0x2E, CHR 0x63, CHR 0x6F, CHR 0x6D, 
     CHR 0x6D, CHR 0x65, CHR 0x6E, CHR 0x74, CHR 0x00, CHR 0x2E, CHR 0x73, CHR 0x68, CHR 0x73, CHR 0x74, 
     CHR 0x72, CHR 0x74, CHR 0x61, CHR 0x62, CHR 0x00]"

definition elf_demo_comment :: bytes where
  "elf_demo_comment = ''rustc version 1.90.0 (1159e78c4 2025-09-14)'' @ [CHR 0x00]"

definition elf_demo_section :: "nat \<Rightarrow> bytes" where
  "elf_demo_section i = (if i = 0 then [CHR 0x01, CHR 0x00, CHR 0x00, CHR 0x00, CHR 0x01, CHR 0x00, CHR 0x00, CHR 0x00, CHR 0x06, CHR 0x00, 
     CHR 0x00, CHR 0x00, CHR 0x00, CHR 0x00, CHR 0x00, CHR 0x00, CHR 0x78, CHR 0x00, CHR 0x40, CHR 0x00, 
     CHR 0x00, CHR 0x00, CHR 0x00, CHR 0x00, CHR 0x78, CHR 0x00, CHR 0x00, CHR 0x00, CHR 0x00, CHR 0x00, 
     CHR 0x00, CHR 0x00, CHR 0x01, CHR 0x00, CHR 0x00, CHR 0x00, CHR 0x00, CHR 0x00, CHR 0x00, CHR 0x00, 
     CHR 0x00, CHR 0x00, CHR 0x00, CHR 0x00, CHR 0x00, CHR 0x00, CHR 0x00, CHR 0x00, CHR 0x00, CHR 0x00, 
     CHR 0x00, CHR 0x00, CHR 0x00, CHR 0x00, CHR 0x00, CHR 0x00, CHR 0x00, CHR 0x00, CHR 0x00, CHR 0x00, 
     CHR 0x00, CHR 0x00, CHR 0x00, CHR 0x00]
   else if i = 1 then [CHR 0x07, CHR 0x00, CHR 0x00, CHR 0x00, CHR 0x01, CHR 0x00, CHR 0x00, CHR 0x00, CHR 0x02, CHR 0x00, 
     CHR 0x00, CHR 0x00, CHR 0x00, CHR 0x00, CHR 0x00, CHR 0x00, CHR 0x79, CHR 0x00, CHR 0x40, CHR 0x00, 
     CHR 0x00, CHR 0x00, CHR 0x00, CHR 0x00, CHR 0x79, CHR 0x00, CHR 0x00, CHR 0x00, CHR 0x00, CHR 0x00, 
     CHR 0x00, CHR 0x00, CHR 0x01, CHR 0x00, CHR 0x00, CHR 0x00, CHR 0x00, CHR 0x00, CHR 0x00, CHR 0x00, 
     CHR 0x00, CHR 0x00, CHR 0x00, CHR 0x00, CHR 0x00, CHR 0x00, CHR 0x00, CHR 0x00, CHR 0x00, CHR 0x00, 
     CHR 0x00, CHR 0x00, CHR 0x00, CHR 0x00, CHR 0x00, CHR 0x00, CHR 0x00, CHR 0x00, CHR 0x00, CHR 0x00, 
     CHR 0x00, CHR 0x00, CHR 0x00, CHR 0x00]
   else if i = 2 then [CHR 0x0F, CHR 0x00, CHR 0x00, CHR 0x00, CHR 0x01, CHR 0x00, CHR 0x00, CHR 0x00, CHR 0x02, CHR 0x00, 
     CHR 0x00, CHR 0x00, CHR 0x00, CHR 0x00, CHR 0x00, CHR 0x00, CHR 0x7A, CHR 0x00, CHR 0x40, CHR 0x00, 
     CHR 0x00, CHR 0x00, CHR 0x00, CHR 0x00, CHR 0x7A, CHR 0x00, CHR 0x00, CHR 0x00, CHR 0x00, CHR 0x00, 
     CHR 0x00, CHR 0x00, CHR 0xD9, CHR 0x00, CHR 0x00, CHR 0x00, CHR 0x00, CHR 0x00, CHR 0x00, CHR 0x00, 
     CHR 0x00, CHR 0x00, CHR 0x00, CHR 0x00, CHR 0x00, CHR 0x00, CHR 0x00, CHR 0x00, CHR 0x00, CHR 0x00, 
     CHR 0x00, CHR 0x00, CHR 0x00, CHR 0x00, CHR 0x00, CHR 0x00, CHR 0x00, CHR 0x00, CHR 0x00, CHR 0x00, 
     CHR 0x00, CHR 0x00, CHR 0x00, CHR 0x00]
   else if i = 3 then [CHR 0x1A, CHR 0x00, CHR 0x00, CHR 0x00, CHR 0x01, CHR 0x00, CHR 0x00, CHR 0x00, CHR 0x00, CHR 0x00, 
     CHR 0x00, CHR 0x00, CHR 0x00, CHR 0x00, CHR 0x00, CHR 0x00, CHR 0x00, CHR 0x00, CHR 0x00, CHR 0x00, 
     CHR 0x00, CHR 0x00, CHR 0x00, CHR 0x00, CHR 0x53, CHR 0x01, CHR 0x00, CHR 0x00, CHR 0x00, CHR 0x00, 
     CHR 0x00, CHR 0x00, CHR 0x2C, CHR 0x00, CHR 0x00, CHR 0x00, CHR 0x00, CHR 0x00, CHR 0x00, CHR 0x00, 
     CHR 0x00, CHR 0x00, CHR 0x00, CHR 0x00, CHR 0x00, CHR 0x00, CHR 0x00, CHR 0x00, CHR 0x00, CHR 0x00, 
     CHR 0x00, CHR 0x00, CHR 0x00, CHR 0x00, CHR 0x00, CHR 0x00, CHR 0x00, CHR 0x00, CHR 0x00, CHR 0x00, 
     CHR 0x00, CHR 0x00, CHR 0x00, CHR 0x00]
   else [CHR 0x23, CHR 0x00, CHR 0x00, CHR 0x00, CHR 0x03, CHR 0x00, CHR 0x00, CHR 0x00, CHR 0x00, CHR 0x00, 
     CHR 0x00, CHR 0x00, CHR 0x00, CHR 0x00, CHR 0x00, CHR 0x00, CHR 0x00, CHR 0x00, CHR 0x00, CHR 0x00, 
     CHR 0x00, CHR 0x00, CHR 0x00, CHR 0x00, CHR 0x7F, CHR 0x01, CHR 0x00, CHR 0x00, CHR 0x00, CHR 0x00, 
     CHR 0x00, CHR 0x00, CHR 0x2D, CHR 0x00, CHR 0x00, CHR 0x00, CHR 0x00, CHR 0x00, CHR 0x00, CHR 0x00, 
     CHR 0x00, CHR 0x00, CHR 0x00, CHR 0x00, CHR 0x00, CHR 0x00, CHR 0x00, CHR 0x00, CHR 0x00, CHR 0x00, 
     CHR 0x00, CHR 0x00, CHR 0x00, CHR 0x00, CHR 0x00, CHR 0x00, CHR 0x00, CHR 0x00, CHR 0x00, CHR 0x00, 
     CHR 0x00, CHR 0x00, CHR 0x00, CHR 0x00])"

definition elf_demo :: bytes where
  "elf_demo = elf_demo_head @ elf_demo_program @ [CHR 0xC3] @ [CHR ''!''] @ elf_demo_metadata @ elf_demo_comment @ elf_demo_names
     @ replicate 64 (CHR 0x00) @ elf_demo_section 0 @ elf_demo_section 1 @ elf_demo_section 2 @ elf_demo_section 3 @ elf_demo_section 4"

lemma elf_demo_lengths [simp]: "length elf_demo_head = 64" "length elf_demo_program = 56" "length elf_demo_metadata = 217"
  "length elf_demo_names = 45" "length elf_demo_comment = 44"
  "i < 5 \<Longrightarrow> length (elf_demo_section i) = 64"
  by (simp_all add: elf_demo_head_def elf_demo_program_def elf_demo_metadata_def elf_demo_names_def elf_demo_comment_def quoted_def elf_demo_section_def)

lemma elf_demo_length: "length elf_demo = 812" by (simp add: elf_demo_def)

lemma elf_demo_in_head: "offset + n \<le> 64 \<Longrightarrow> byte_array n elf_demo offset = byte_array n elf_demo_head offset"
  by (simp add: byte_array_def elf_demo_def)

lemma elf_demo_fields: "u64_at elf_demo 24 = Some 4194424" "u16_at elf_demo 56 = Some 1" "u16_at elf_demo 60 = Some 6" "u16_at elf_demo 62 = Some 5"
  "u64_at elf_demo 32 = Some 64" "u64_at elf_demo 40 = Some 428"
  by (simp_all add: u64_at_def u16_at_def elf_demo_in_head) (simp_all add: elf_demo_head_def byte_array_def)

lemma elf_demo_header: "elf_header elf_demo Amd64 = Some ()"
  by (simp add: elf_header_def elf_demo_length u16_at_def u32_at_def elf_demo_in_head) (simp add: elf_demo_def elf_demo_head_def byte_array_def try_is_def guard_def ELF_IDENT_def nonzero_def elf_machine_def)

lemma elf_demo_programs: "byte_range elf_demo 64 56 = Some elf_demo_program"
  by (simp add: byte_range_def elf_demo_def)

lemma elf_demo_table_range: "byte_range elf_demo 428 384 = Some (replicate 64 (CHR 0x00) @ concat (map elf_demo_section [0,1,2,3,4]))"
  by (simp add: byte_range_def elf_demo_def)

lemma elf_demo_names_range: "byte_range elf_demo 383 45 = Some elf_demo_names"
  by (simp add: byte_range_def elf_demo_def)

lemma elf_demo_section_fields:
  "u32_at (elf_demo_section 0) 0 = Some 1" "u32_at (elf_demo_section 0) 4 = Some 1" "u64_at (elf_demo_section 0) 8 = Some 6"
  "u64_at (elf_demo_section 0) 16 = Some 4194424" "u64_at (elf_demo_section 0) 24 = Some 120" "u64_at (elf_demo_section 0) 32 = Some 1"
  "u32_at (elf_demo_section 1) 0 = Some 7" "u32_at (elf_demo_section 1) 4 = Some 1" "u64_at (elf_demo_section 1) 8 = Some 2"
  "u64_at (elf_demo_section 1) 16 = Some 4194425" "u64_at (elf_demo_section 1) 24 = Some 121" "u64_at (elf_demo_section 1) 32 = Some 1"
  "u32_at (elf_demo_section 2) 0 = Some 15" "u32_at (elf_demo_section 2) 4 = Some 1" "u64_at (elf_demo_section 2) 8 = Some 2"
  "u64_at (elf_demo_section 2) 16 = Some 4194426" "u64_at (elf_demo_section 2) 24 = Some 122" "u64_at (elf_demo_section 2) 32 = Some 217"
  "u32_at (elf_demo_section 3) 0 = Some 26" "u32_at (elf_demo_section 3) 4 = Some 1" "u64_at (elf_demo_section 3) 8 = Some 0"
  "u64_at (elf_demo_section 3) 16 = Some 0" "u64_at (elf_demo_section 3) 24 = Some 339" "u64_at (elf_demo_section 3) 32 = Some 44"
  "u32_at (elf_demo_section 4) 0 = Some 35" "u32_at (elf_demo_section 4) 4 = Some 3" "u64_at (elf_demo_section 4) 8 = Some 0"
  "u64_at (elf_demo_section 4) 16 = Some 0" "u64_at (elf_demo_section 4) 24 = Some 383" "u64_at (elf_demo_section 4) 32 = Some 45"
  by (simp_all add: elf_demo_section_def u32_at_def u64_at_def byte_array_def)

lemma elf_demo_program_fields:
  "u32_at elf_demo_program 0 = Some 1" "u32_at elf_demo_program 4 = Some 5" "u64_at elf_demo_program 8 = Some 0"
  "u64_at elf_demo_program 16 = Some 4194304" "u64_at elf_demo_program 32 = Some 812" "u64_at elf_demo_program 40 = Some 812"
  "u64_at elf_demo_program 48 = Some 4096"
  by (simp_all add: elf_demo_program_def u32_at_def u64_at_def byte_array_def)

lemma elf_demo_ranges:
  "byte_range elf_demo 120 1 = Some [CHR 0xC3]" "byte_range elf_demo 121 1 = Some ''!''"
  "byte_range elf_demo 122 217 = Some elf_demo_metadata" "byte_range elf_demo 339 44 = Some elf_demo_comment"
  by (simp_all add: byte_range_def elf_demo_def)

lemma elf_demo_section_names:
  "section_name elf_demo_names 1 = Some ''.text''" "section_name elf_demo_names 7 = Some ''.rodata''"
  "section_name elf_demo_names 15 = Some ''.sbxr.rust''" "section_name elf_demo_names 26 = Some ''.comment''"
  "section_name elf_demo_names 35 = Some ''.shstrtab''"
  by (simp_all add: section_name_def guard_def elf_demo_names_def from_utf8_def utf8_chars_def)

lemma elf_demo_chunks: "chunks_exact 56 elf_demo_program = [elf_demo_program]" by (simp add: chunks_exact_def)

lemma elf_demo_headers: "drop 1 (chunks_exact 64 (replicate 64 (CHR 0x00) @ concat (map elf_demo_section [0,1,2,3,4]))) = map elf_demo_section [0,1,2,3,4]"
  by (simp add: chunks_exact_def upt_rec)

lemma elf_demo_page: "is_power_of_two 4096" by (simp add: is_power_of_two_def)

lemma elf_demo_inspected: "inspect_programs elf_demo 4194424 [elf_demo_program] False = Some True"
  by (simp add: inspect_program_def elf_demo_program_fields byte_range_def elf_demo_length guard_def elf_demo_page)

definition elf_demo_sections :: "(bytes \<times> elf_section) list" where
 "elf_demo_sections = [
   (''.comment'', \<lparr>es_kind = 1, es_bytes = elf_demo_comment, es_flags = 0, es_address = 0, es_offset = 339\<rparr>),
   (''.rodata'', \<lparr>es_kind = 1, es_bytes = ''!'', es_flags = 2, es_address = 4194425, es_offset = 121\<rparr>),
   (''.sbxr.rust'', \<lparr>es_kind = 1, es_bytes = elf_demo_metadata, es_flags = 2, es_address = 4194426, es_offset = 122\<rparr>),
   (''.shstrtab'', \<lparr>es_kind = 3, es_bytes = elf_demo_names, es_flags = 0, es_address = 0, es_offset = 383\<rparr>),
   (''.text'', \<lparr>es_kind = 1, es_bytes = [CHR 0xC3], es_flags = 6, es_address = 4194424, es_offset = 120\<rparr>)]"

lemma elf_demo_read: "read_sections elf_demo elf_demo_names (map elf_demo_section [0,1,2,3,4]) [] = Some elf_demo_sections"
  by (simp add: read_section_def elf_demo_section_fields elf_demo_section_names elf_demo_ranges elf_demo_names_range elf_demo_sections_def del: One_nat_def)

lemma elf_demo_ends: "elf_demo_names \<noteq> []" "hd elf_demo_names = CHR 0x00" "last elf_demo_names = CHR 0x00"
  by (simp_all add: elf_demo_names_def)

lemma elf_demo_required: "require_section elf_demo_sections ''.text'' 6
    = Some \<lparr>es_kind = 1, es_bytes = [CHR 0xC3], es_flags = 6, es_address = 4194424, es_offset = 120\<rparr>"
  "require_section elf_demo_sections ''.rodata'' 2
    = Some \<lparr>es_kind = 1, es_bytes = ''!'', es_flags = 2, es_address = 4194425, es_offset = 121\<rparr>"
  by (simp_all add: require_section_def elf_demo_sections_def guard_def)

lemma elf_demo_mapped: "text_mapped \<lparr>es_kind = 1, es_bytes = [CHR 0xC3], es_flags = 6, es_address = 4194424, es_offset = 120\<rparr>
    [elf_demo_program] False = Some True"
  by (simp add: elf_demo_program_fields)

definition elf_demo_table :: bytes where
  "elf_demo_table = replicate 64 (CHR 0x00) @ concat (map elf_demo_section [0, 1, 2, 3, 4])"

lemma elf_demo_table_parts: "take 64 elf_demo_table = replicate 64 (CHR 0x00)" "take 64 (drop 320 elf_demo_table) = elf_demo_section 4"
  by (simp_all add: elf_demo_table_def)

lemma elf_demo_parsed: "parse_elf elf_demo Amd64 = Some elf_demo_sections"
proof -
  have z: "\<not> nonzero (replicate 64 (CHR 0x00))" by (simp add: nonzero_def list_ex_iff)
  show ?thesis
    unfolding parse_elf_def elf_demo_header elf_demo_fields
    by (simp add: elf_demo_programs elf_demo_table_range [folded elf_demo_table_def] guard_def elf_demo_chunks elf_demo_inspected elf_demo_section_fields elf_demo_names_range
        elf_demo_ends elf_demo_table_parts z
      elf_demo_headers [folded elf_demo_table_def, unfolded One_nat_def] elf_demo_read [unfolded One_nat_def] elf_demo_required [unfolded One_nat_def] elf_demo_mapped [unfolded One_nat_def]
        del: list.map drop_Suc text_mapped.simps read_sections.simps inspect_programs.simps)
qed
section \<open>The stamped executable\<close>

definition demo_commit :: string where
  "demo_commit = ''aaaaaaaaaaaaaaaaaaaaaaaaaaaaaaaaaaaaaaaa''"

definition demo_tree :: json where
  "demo_tree = JObj [(''schema'', JStr ''sbxr-rust-artifact-v1''), (''repository'', JStr ''albertloky/SBXR''),
     (''package'', JStr ''sbxr''), (''compiler'', JStr ''rustc 1.90.0''), (''target'', JStr ''x86_64-unknown-linux-musl''),
     (''profile'', JStr ''release''), (''commit'', JStr demo_commit)]"

lemma demo_metadata_text: "elf_demo_metadata = pr demo_tree"
  by (simp add: elf_demo_metadata_def demo_tree_def pr_member_def pr_str_def quoted_def quote_def dq_def escape_def
      backslash_def demo_commit_def)

lemma demo_metadata_decoded:
  "release_decode example_lib de_metadata elf_demo_metadata MAX_IDENTITY_BYTES =
    Some [''sbxr-rust-artifact-v1'', ''albertloky/SBXR'', ''sbxr'', ''rustc 1.90.0'', ''x86_64-unknown-linux-musl'',
      ''release'', demo_commit]"
proof -
  have "elf_demo_metadata \<noteq> []" "length elf_demo_metadata \<le> MAX_IDENTITY_BYTES"
    by (simp_all add: elf_demo_metadata_def MAX_IDENTITY_BYTES_def quoted_def)
  then have "release_decode example_lib de_metadata elf_demo_metadata MAX_IDENTITY_BYTES = de_metadata demo_tree"
    by (simp add: release_decode_def example_lib_def demo_metadata_text parse_json_pr)
  also have "\<dots> = Some [''sbxr-rust-artifact-v1'', ''albertloky/SBXR'', ''sbxr'', ''rustc 1.90.0'',
      ''x86_64-unknown-linux-musl'', ''release'', demo_commit]"
    by (simp add: de_metadata_def demo_tree_def de_object_def metadata_names_def de_req_def)
  finally show ?thesis .
qed

lemma demo_metadata_built: "rust_artifact_metadata demo_commit Amd64 = Some elf_demo_metadata"
  by (simp add: rust_artifact_metadata_def rust_target_def build_metadata_def elf_demo_metadata_def COMPILER_def
      demo_commit_def lower_hex_byte_def)

lemma demo_comment_entries: "compiler_comments elf_demo_comment = [COMPILER_COMMENT]"
  by (simp add: compiler_comments_def elf_demo_comment_def COMPILER_COMMENT_def)

lemma demo_rust:
  "inspect_rust example_lib elf_demo_sections
    \<lparr>es_kind = 1, es_bytes = elf_demo_metadata, es_flags = 2, es_address = 4194426, es_offset = 122\<rparr> demo_commit Amd64 = Some ()"
  by (simp add: inspect_rust_def demo_metadata_decoded demo_metadata_built guard_def)
    (simp add: elf_demo_sections_def demo_comment_entries)

definition demo_embedded :: embedded_identity where
  "demo_embedded = \<lparr>ei_schema = 1, ei_repository = REPOSITORY, ei_tag = ''v1.2.3'', ei_commit = demo_commit,
     ei_sequence = 7, ei_architecture = Amd64, ei_payload_sha256 = sha256_hex example_lib elf_demo\<rparr>"

lemma demo_identity_inspected:
  "inspect_linux_identity example_lib (demo_embedded, elf_demo) Amd64
    = Some \<lparr>ai_kind = RustArtifact, ai_architecture = Amd64\<rparr>"
proof -
  have "map_of elf_demo_sections RUST_ARTIFACT_SECTION
      = Some \<lparr>es_kind = 1, es_bytes = elf_demo_metadata, es_flags = 2, es_address = 4194426, es_offset = 122\<rparr>"
    "map_of elf_demo_sections ''.go.buildinfo'' = None" "map_of elf_demo_sections ''.gopclntab'' = None"
    by (simp_all add: elf_demo_sections_def RUST_ARTIFACT_SECTION_def)
  then show ?thesis
    using demo_rust by (simp add: inspect_linux_identity_def guard_def demo_embedded_def elf_demo_parsed)
qed

interpretation example_release: release_text example_lib
  by unfold_locales (simp add: example_lib_def example_digest_def lower_hex_def lower_hex_byte_def list_all_iff is_ascii_digit_def)

end
