(* ===== verification/Release_Properties.thy ===== *)
theory Release_Properties
  imports Release_Examples
begin

text \<open>The properties of release indexes, executable trailers and inspected executables.\<close>

section \<open>Indexes\<close>

text \<open>
  C13.  Every release index that is decoded is well formed: it keeps its bytes, its document passes all checks, and its
  identity exists (the \<open>expect\<close> in \<open>identity\<close> never panics) and names those bytes.  An index is built exactly for a
  valid document whose text fits, and decoding its bytes gives it back.
\<close>

theorem release_index_wellformed:
  assumes "release_text L"
  shows "(decode_index L bytes = Some ix \<longrightarrow>
      ix_bytes ix = bytes \<and> document_valid (ix_document ix) \<and> length bytes \<le> 2 ^ 20
      \<and> index_identity L ix = Some \<lparr>ri_repository = ''albertloky/SBXR'', ri_tag = xd_tag (ix_document ix),
          ri_commit = xd_commit (ix_document ix), ri_index_sha256 = sha256_hex L bytes\<rparr>)
    \<and> (build_index L tag commit sequence assets support = Some ix \<longleftrightarrow>
      document_valid (ix_document ix) \<and> xd_tag (ix_document ix) = tag \<and> xd_commit (ix_document ix) = commit
      \<and> xd_sequence (ix_document ix) = sequence \<and> xd_assets (ix_document ix) = assets
      \<and> xd_support (ix_document ix) = support
      \<and> ix_bytes ix = canonical_bytes L ix \<and> length (ix_bytes ix) \<le> 2 ^ 20)
    \<and> (build_index L tag commit sequence assets support = Some ix \<longrightarrow> decode_index L (ix_bytes ix) = Some ix)"
    (is "?decoded \<and> ?built \<and> ?reread")
proof (intro conjI)
  show ?decoded
    using index_identity_valid [of ix L] release_text.digest_text [OF assms]
    by (auto simp: decode_index_Some MAX_INDEX_BYTES_def REPOSITORY_def)
  let ?d = "\<lparr>xd_schema = (if support \<noteq> None then 2 else 1), xd_repository = REPOSITORY, xd_tag = tag,
    xd_commit = commit, xd_sequence = sequence, xd_assets = assets, xd_support = support\<rparr>"
  have layer: "json_text L" using assms by (rule release_text.axioms)
  have built: "build_index L tag commit sequence assets support = Some ix \<longleftrightarrow>
      document_valid ?d \<and> ix = \<lparr>ix_document = ?d, ix_bytes = to_vec L (ser_document ?d)\<rparr>
      \<and> length (to_vec L (ser_document ?d)) \<le> 2 ^ 20"
    using de_ser_document [of ?d] json_text.from_to [OF layer] json_text.to_vec_nonempty [OF layer]
    by (cases ix) (auto simp: build_index_def Let_def decode_index_Some MAX_INDEX_BYTES_def)
  have only: "document_valid d \<and> xd_tag d = tag \<and> xd_commit d = commit \<and> xd_sequence d = sequence
      \<and> xd_assets d = assets \<and> xd_support d = support \<longleftrightarrow> document_valid ?d \<and> d = ?d" for d
  proof -
    have "document_valid d \<Longrightarrow> xd_repository d = REPOSITORY \<and> xd_schema d = (if xd_support d \<noteq> None then 2 else 1)"
      by (auto simp: document_valid_def split: if_splits)
    then show ?thesis by (cases d) auto
  qed
  have "document_valid (ix_document ix) \<and> xd_tag (ix_document ix) = tag \<and> xd_commit (ix_document ix) = commit
      \<and> xd_sequence (ix_document ix) = sequence \<and> xd_assets (ix_document ix) = assets
      \<and> xd_support (ix_document ix) = support \<and> ix_bytes ix = canonical_bytes L ix \<and> length (ix_bytes ix) \<le> 2 ^ 20
    \<longleftrightarrow> (document_valid ?d \<and> ix_document ix = ?d) \<and> ix_bytes ix = canonical_bytes L ix \<and> length (ix_bytes ix) \<le> 2 ^ 20"
    using only [of "ix_document ix"] by blast
  then show ?built
    unfolding built by (cases ix) (auto simp: canonical_bytes_def)
  show ?reread
    unfolding built using de_ser_document [of ?d] json_text.from_to [OF layer] json_text.to_vec_nonempty [OF layer]
    by (auto simp: decode_index_Some MAX_INDEX_BYTES_def)
qed

definition demo_asset :: "string \<Rightarrow> asset_proof" where
  "demo_asset name = \<lparr>ap_name = name, ap_size = 9, ap_sha256 = ''cccccccccccccccccccccccccccccccccccccccccccccccccccccccccccccccc''\<rparr>"

definition demo_assets :: "asset_proof list" where
  "demo_assets = map demo_asset [''install.sh'', ''sbxr-linux-amd64.tar.gz'', ''sbxr-linux-arm64.tar.gz'']"

definition demo_document :: index_document where
  "demo_document = \<lparr>xd_schema = 1, xd_repository = ''albertloky/SBXR'', xd_tag = ''v1.2.3'', xd_commit = demo_commit,
     xd_sequence = 7, xd_assets = demo_assets, xd_support = None\<rparr>"

definition demo_index :: release_index where
  "demo_index = \<lparr>ix_document = demo_document, ix_bytes = to_vec example_lib (ser_document demo_document)\<rparr>"

lemma demo_tag: "stable_tag ''v1.2.3''"
  by (simp add: stable_tag_def strip_prefix_def tag_number_def is_ascii_digit_def)

lemma demo_document_valid: "document_valid demo_document"
proof -
  have "lower_hex demo_commit 40" "lower_hex ''cccccccccccccccccccccccccccccccccccccccccccccccccccccccccccccccc'' 64"
    by (simp_all add: lower_hex_def demo_commit_def lower_hex_byte_def)
  then show ?thesis
    using demo_tag
    by (simp add: document_valid_def demo_document_def REPOSITORY_def stable_release_def demo_assets_def demo_asset_def
        INDEXED_ASSET_NAMES_def asset_valid_def RELEASE_ASSET_NAMES_def asset_limit_def MAX_INDEX_BYTES_def
        MAX_EXECUTABLE_BYTES_def)
qed

lemma demo_index_length: "length (ix_bytes demo_index) \<le> 2 ^ 20"
  by (simp add: demo_index_def example_lib_def demo_document_def ser_document_def document_fields_def mk_obj_def
      demo_assets_def demo_asset_def ser_asset_def asset_fields_def pr_member_def pr_str_def ser_u32_def ser_u64_def
      show_int_def show_nat.simps escape_def quote_def backslash_def demo_commit_def)

theorem release_index_wellformed_witness:
  "build_index example_lib ''v1.2.3'' demo_commit 7 demo_assets None = Some demo_index
   \<and> decode_index example_lib (ix_bytes demo_index) = Some demo_index
   \<and> index_identity example_lib demo_index \<noteq> None"
proof -
  have "xd_tag demo_document = ''v1.2.3''" "xd_commit demo_document = demo_commit" "xd_sequence demo_document = 7"
    "xd_assets demo_document = demo_assets" "xd_support demo_document = None"
    by (simp_all add: demo_document_def)
  then have b: "build_index example_lib ''v1.2.3'' demo_commit 7 demo_assets None = Some demo_index"
    using release_index_wellformed [OF example_release.release_text_axioms, of _ demo_index "''v1.2.3''" demo_commit 7 demo_assets None]
      demo_document_valid demo_index_length by (simp add: demo_index_def canonical_bytes_def)
  then have "decode_index example_lib (ix_bytes demo_index) = Some demo_index"
    using release_index_wellformed [OF example_release.release_text_axioms] by blast
  then show ?thesis
    using b release_index_wellformed [OF example_release.release_text_axioms, of "ix_bytes demo_index" demo_index] by blast
qed

text \<open>
  The proofs that a release index accepts are determined by it: \<open>verify_release_index\<close> succeeds exactly when the
  bytes decode to an index of this repository, tag and commit and the proofs are, in any order and without repetition,
  the proof of the index bytes themselves and those of its three assets.
\<close>

lemma release_proofs_exact:
  assumes "release_text L"
  shows "verify_release_index L repository tag commit bytes proofs = Some ix \<longleftrightarrow>
    repository = ''albertloky/SBXR'' \<and> decode_index L bytes = Some ix
    \<and> xd_tag (ix_document ix) = tag \<and> xd_commit (ix_document ix) = commit
    \<and> (\<exists>p. asset_for_bytes L ''release-index.json'' bytes = Some p
        \<and> distinct proofs \<and> set proofs = insert p (set (xd_assets (ix_document ix))))"
proof -
  have d: "document_valid (ix_document ix) \<and> ix_bytes ix = bytes" if "decode_index L bytes = Some ix" for ix
    using that by (simp add: decode_index_Some)
  have i: "\<exists>i. index_identity L ix = Some i" if "decode_index L bytes = Some ix" for ix
    using index_identity_valid [of ix L] release_text.digest_text [OF assms] d [OF that] by auto
  show ?thesis
    using d i verify_asset_proofs_iff [of _ L _ proofs]
    by (auto simp: verify_release_index_def REPOSITORY_def split: bind_splits if_splits)
qed

definition demo_index_proof :: asset_proof where
  "demo_index_proof = \<lparr>ap_name = ''release-index.json'', ap_size = of_nat (length (ix_bytes demo_index)),
     ap_sha256 = sha256_hex example_lib (ix_bytes demo_index)\<rparr>"

lemma demo_index_decoded: "decode_index example_lib (ix_bytes demo_index) = Some demo_index"
  using demo_document_valid demo_index_length text_layer.from_to text_layer.to_vec_nonempty de_ser_document
  by (simp add: decode_index_Some demo_index_def MAX_INDEX_BYTES_def)

lemma demo_index_proof_made: "asset_for_bytes example_lib ''release-index.json'' (ix_bytes demo_index) = Some demo_index_proof"
proof -
  let ?n = "length (ix_bytes demo_index)"
  have n: "0 < ?n" "?n \<le> 2 ^ 20"
    using demo_index_length text_layer.to_vec_nonempty by (auto simp: demo_index_def)
  then have "unat (of_nat ?n :: u64) = ?n" by (simp add: unat_of_nat take_bit_nat_eq_self)
  then have "(of_nat ?n :: u64) > 0" "(of_nat ?n :: u64) \<le> of_nat MAX_INDEX_BYTES"
    using n by (simp_all add: word_less_nat_alt word_le_nat_alt MAX_INDEX_BYTES_def)
  then show ?thesis
    using example_release.digest_text
    by (simp add: asset_for_bytes_def new_asset_proof_Some asset_valid_def demo_index_proof_def RELEASE_ASSET_NAMES_def
        asset_limit_def)
qed

lemma release_proofs_example:
  "verify_release_index example_lib ''albertloky/SBXR'' ''v1.2.3'' demo_commit (ix_bytes demo_index)
     (demo_assets @ [demo_index_proof]) = Some demo_index"
proof -
  have "xd_tag (ix_document demo_index) = ''v1.2.3'' \<and> xd_commit (ix_document demo_index) = demo_commit
    \<and> xd_assets (ix_document demo_index) = demo_assets" by (simp add: demo_index_def demo_document_def)
  moreover have "distinct (demo_assets @ [demo_index_proof])"
    by (simp add: demo_assets_def demo_asset_def demo_index_proof_def)
  ultimately show ?thesis
    unfolding release_proofs_exact [OF example_release.release_text_axioms]
    using demo_index_decoded demo_index_proof_made by auto
qed

section \<open>Executables\<close>

text \<open>
  C29.  The identity of an executable is read from exactly the bytes that a stamp has: a payload that is not stamped
  itself, a document that decodes to a valid identity with the digest of the payload, the digest of the document, its
  length and the mark.  Reading a stamped executable gives the payload and what it was stamped with.
\<close>

theorem executable_trailer_exact:
  assumes "release_text L"
  shows "(read_executable_identity L e = Some (i, payload) \<longleftrightarrow>
      (\<exists>document. e = payload @ document @ sha256_raw L document @ to_le_bytes 8 (of_nat (length document)) @ ''SBXR-IDENTITY-V1''
        \<and> payload \<noteq> [] \<and> document \<noteq> [] \<and> length document \<le> 4096 \<and> length e \<le> 256 * 2 ^ 20
        \<and> release_decode L de_embedded document 4096 = Some i \<and> embedded_valid i
        \<and> \<not> ends_with ''SBXR-IDENTITY-V1'' payload \<and> sha256_hex L payload = ei_payload_sha256 i))
    \<and> (stamp_executable L payload tag commit sequence architecture = Some e \<longrightarrow>
      read_executable_identity L e = Some (\<lparr>ei_schema = 1, ei_repository = ''albertloky/SBXR'', ei_tag = tag,
        ei_commit = commit, ei_sequence = sequence, ei_architecture = architecture,
        ei_payload_sha256 = sha256_hex L payload\<rparr>, payload))"
  using release_text.read_executable_identity_iff [OF assms, of e i payload]
    release_text.stamp_executable_Some [OF assms, of payload tag commit sequence architecture e]
  by (simp add: stamped_def MAX_IDENTITY_BYTES_def MAX_EXECUTABLE_BYTES_def IDENTITY_MAGIC_def REPOSITORY_def)

lemma demo_stamp_ends: "\<not> ends_with ''SBXR-IDENTITY-V1'' elf_demo"
proof
  assume "ends_with ''SBXR-IDENTITY-V1'' elf_demo"
  then obtain t where "elf_demo = t @ ''SBXR-IDENTITY-V1''" by (auto simp only: ends_with_iff)
  then have "last elf_demo = last (t @ ''SBXR-IDENTITY-V1'')" by (rule arg_cong)
  moreover have "last elf_demo = CHR 0x00" by (simp add: elf_demo_def elf_demo_section_def)
  ultimately show False by simp
qed

definition demo_stamped :: bytes where
  "demo_stamped = stamped example_lib elf_demo (to_vec example_lib (ser_embedded demo_embedded))"

lemma demo_embedded_valid: "embedded_valid demo_embedded"
  using demo_tag example_release.digest_text
  by (simp add: embedded_valid_def demo_embedded_def stable_release_def lower_hex_def demo_commit_def lower_hex_byte_def)

lemma demo_embedded_length: "length (to_vec example_lib (ser_embedded demo_embedded)) \<le> 4096"
proof -
  have "sha256_hex example_lib elf_demo = ''aaaaaaaaaaaaaaaaaaaaaaaaaaaaaaaaaaaaaaaaaaaaaaaaaaaaaaaaaaaaaaaa''"
    by (simp add: example_lib_def example_digest_def elf_demo_def elf_demo_head_def numeral_eq_Suc)
  then show ?thesis
    by (simp add: demo_embedded_def example_lib_def ser_embedded_def embedded_fields_def mk_obj_def pr_member_def
        pr_str_def ser_u32_def ser_u64_def show_int_def show_nat.simps escape_def quote_def backslash_def
        demo_commit_def REPOSITORY_def arch_text_def)
qed

lemma demo_stamping: "stamp_executable example_lib elf_demo ''v1.2.3'' demo_commit 7 Amd64 = Some demo_stamped"
proof -
  have "elf_demo \<noteq> []" using elf_demo_length by auto
  then show ?thesis
    using demo_stamp_ends demo_embedded_valid demo_embedded_length
    by (simp add: stamp_executable_def Let_def demo_embedded_def [symmetric] demo_stamped_def stamped_def
        elf_demo_length MAX_EXECUTABLE_BYTES_def MAX_IDENTITY_BYTES_def trailer_size_def IDENTITY_MAGIC_def)
qed

theorem executable_trailer_exact_witness:
  "stamp_executable example_lib elf_demo ''v1.2.3'' demo_commit 7 Amd64 = Some demo_stamped
   \<and> read_executable_identity example_lib demo_stamped = Some (demo_embedded, elf_demo)"
  using executable_trailer_exact [OF example_release.release_text_axioms] demo_stamping
  by (auto simp: demo_embedded_def REPOSITORY_def)

text \<open>
  C32.  An executable that passes the inspection against an index is bound to it and linked statically: its trailer has
  the index's repository, tag, commit and sequence and the given architecture, and covers its payload.  The payload is an
  ELF64 file of that machine; no program header names an interpreter, no dynamic table a library or a filter, and every
  loadable segment is sound; the sections are exactly those the section headers describe; the entry point lies in the
  executable text section and in an executable segment, and an executable segment maps the text section from its place
  in the file (\<open>static_executable\<close>).  A Rust artifact carries exactly the build statement of that commit and target and
  one compiler comment, the pinned one.
\<close>

theorem inspected_executable:
  assumes "release_text L" "inspect_release_executable L ix e a = Some r"
  shows "\<exists>(i :: embedded_identity) payload document sections.
    e = stamped L payload document \<and> sha256_hex L payload = ei_payload_sha256 i
    \<and> ei_repository i = xd_repository (ix_document ix) \<and> ei_tag i = xd_tag (ix_document ix)
    \<and> ei_commit i = xd_commit (ix_document ix) \<and> ei_sequence i = xd_sequence (ix_document ix) \<and> ei_architecture i = a
    \<and> parse_elf payload a = Some sections \<and> static_executable payload a sections
    \<and> (ai_kind r = RustArtifact \<longrightarrow>
        (\<exists>s c. map_of sections ''.sbxr.rust'' = Some s \<and> build_metadata (ei_commit i) (rust_target a) = Some (es_bytes s)
           \<and> map_of sections ''.comment'' = Some c \<and> filter (starts_with ''rustc version '') (split_char CHR 0x00 (es_bytes c))
             = [''rustc version 1.90.0 (1159e78c4 2025-09-14)'']))"
proof -
  obtain i payload where rd: "read_executable_identity L e = Some (i, payload)"
    and same: "ei_repository i = xd_repository (ix_document ix)" "ei_tag i = xd_tag (ix_document ix)"
      "ei_commit i = xd_commit (ix_document ix)" "ei_sequence i = xd_sequence (ix_document ix)" "ei_architecture i = a"
    and insp: "inspect_linux_identity L (i, payload) a = Some r"
    using assms(2) by (auto simp: inspect_release_executable_def Let_def split: bind_splits)
  obtain document where st: "e = stamped L payload document" "sha256_hex L payload = ei_payload_sha256 i"
    using rd release_text.read_executable_identity_iff [OF assms(1)] by blast
  obtain sections where sec: "parse_elf payload a = Some sections"
    "ai_kind r = RustArtifact \<Longrightarrow>
      (\<exists>s. map_of sections RUST_ARTIFACT_SECTION = Some s \<and> rust_artifact_metadata (ei_commit i) a = Some (es_bytes s))"
    "ai_kind r = RustArtifact \<Longrightarrow>
      (\<exists>c. map_of sections ''.comment'' = Some c \<and> compiler_comments (es_bytes c) = [COMPILER_COMMENT])"
    by (rule inspect_linux_identity_Some [OF insp]) blast
  have rust: "ai_kind r = RustArtifact \<longrightarrow>
      (\<exists>s c. map_of sections ''.sbxr.rust'' = Some s \<and> build_metadata (ei_commit i) (rust_target a) = Some (es_bytes s)
         \<and> map_of sections ''.comment'' = Some c \<and> filter (starts_with ''rustc version '') (split_char CHR 0x00 (es_bytes c))
             = [''rustc version 1.90.0 (1159e78c4 2025-09-14)''])"
    using sec(2,3) unfolding RUST_ARTIFACT_SECTION_def rust_artifact_metadata_def compiler_comments_def COMPILER_COMMENT_def by blast
  show ?thesis
    by (intro exI conjI) (rule st same sec(1) parse_elf_static [OF sec(1)] rust)+
qed

lemma demo_inspected:
  "inspect_release_executable example_lib demo_index demo_stamped Amd64
    = Some \<lparr>ai_kind = RustArtifact, ai_architecture = Amd64\<rparr>"
proof -
  have "read_executable_identity example_lib demo_stamped = Some (demo_embedded, elf_demo)"
    using example_release.stamp_executable_Some [OF demo_stamping] by (simp add: demo_embedded_def)
  then show ?thesis
    using demo_identity_inspected
    by (simp add: inspect_release_executable_def guard_def demo_embedded_def demo_index_def demo_document_def REPOSITORY_def)
qed

theorem inspected_executable_witness:
  "\<exists>(i :: embedded_identity) payload document sections. demo_stamped = stamped example_lib payload document
    \<and> ei_tag i = ''v1.2.3'' \<and> ei_commit i = demo_commit \<and> static_executable payload Amd64 sections
    \<and> (\<exists>s. map_of sections ''.sbxr.rust'' = Some s
        \<and> build_metadata demo_commit ''x86_64-unknown-linux-musl'' = Some (es_bytes s))"
  using inspected_executable [OF example_release.release_text_axioms demo_inspected]
  by (auto simp: demo_index_def demo_document_def rust_target_def) blast

end
