(* ===== verification/Artifact_Trust.thy ===== *)
theory Artifact_Trust
  imports Elf_Inspection Server_Configuration Removal_Record Host_Monad
begin

text \<open>
  \<open>src/artifact_trust.rs\<close>: the budget of a selection, the pinned policies, the verification of signed bundles, the
  claims of a release, the requests and the bounded reader of responses.  \<open>Err(TrustError::Refused)\<close> of code that
  cannot fail otherwise is \<open>None\<close>.  Code that checks the budget or calls the transport is written in the
  state-and-error monad; the clock, the cancellation flags, the transport and the crates \<open>sigstore_verify\<close> and
  \<open>snap\<close> are the record \<open>trust_env\<close>, whose functions may answer differently at every call.  The two pinned roots are
  data files of the repository, so their bytes are a field of it.
\<close>

section \<open>Constants and errors\<close>

definition MAX_BUNDLE_BYTES :: nat where "MAX_BUNDLE_BYTES = 8 * 2 ^ 20"
definition MAX_NATIVE_PROOFS :: nat where "MAX_NATIVE_PROOFS = 99"
definition SELECTION_TIMEOUT :: int where "SELECTION_TIMEOUT = 30 * 1000000000"
definition NATIVE_SIGNER :: string where "NATIVE_SIGNER = ''https://dotcom.releases.github.com''"

definition CANDIDATE_SIGNER :: string where
  "CANDIDATE_SIGNER = ''https://github.com/albertloky/SBXR/.github/workflows/candidate.yml@refs/heads/main''"

definition CANDIDATE_ISSUER :: string where
  "CANDIDATE_ISSUER = ''https://token.actions.githubusercontent.com''"

datatype trust_error = TrustRefused | TrustUnavailable | TrustInterrupted

datatype pinned_root = NativeRelease | CandidateWorkflow

record verification_policy =
  vp_root :: pinned_root
  vp_digest :: string

section \<open>The environment\<close>

record acquisition_request =
  aq_url :: string
  aq_limit :: nat
  aq_json :: bool

text \<open>A response; its body is a handle to the reader.\<close>

record acquisition_response =
  rs_status :: nat
  rs_body :: nat
  rs_link_header_present :: bool

text \<open>The policy given to \<open>sigstore_verify\<close> and what its result tells.\<close>

record signer_policy =
  gp_identity :: string
  gp_issuer :: "string option"
  gp_skip_sct :: bool
  gp_skip_tlog :: bool

record verification =
  vf_certificate_verified :: bool
  vf_identity_policy_checked :: bool
  vf_identity :: "string option"
  vf_issuer :: "string option"
  vf_timestamps :: nat
  vf_tlog_verified :: bool

text \<open>
  \<open>te_read\<close> is \<open>Read::read\<close> on a buffer of the given length: an error, or the bytes it put at the start of the buffer
  and the count it reports, which need not agree.  \<open>te_decompress\<close> fills a buffer in the same way.
\<close>

record ('w, 'r, 'b) trust_env =
  te_cancelled :: "'w \<Rightarrow> 'w \<times> bool"
  te_store_cancelled :: "'w \<Rightarrow> 'w"
  te_parent_cancelled :: "nat \<Rightarrow> 'w \<Rightarrow> 'w \<times> bool"
  te_now :: "'w \<Rightarrow> 'w \<times> int"
  te_get :: "acquisition_request \<Rightarrow> (trust_error, 'w, acquisition_response) comp"
  te_read :: "nat \<Rightarrow> nat \<Rightarrow> 'w \<Rightarrow> 'w \<times> (bytes \<times> nat) option"
  te_root_bytes :: "pinned_root \<Rightarrow> bytes"
  te_root :: "bytes \<Rightarrow> 'r option"
  te_bundle :: "bytes \<Rightarrow> 'b option"
  te_envelope :: "'b \<Rightarrow> (string \<times> bytes) option"
  te_rfc3161_timestamps :: "'b \<Rightarrow> nat"
  te_tlog_entries :: "'b \<Rightarrow> nat"
  te_verifier :: "'r \<Rightarrow> bool"
  te_hash :: "string \<Rightarrow> bytes option"
  te_verify :: "'r \<Rightarrow> bytes \<Rightarrow> 'b \<Rightarrow> signer_policy \<Rightarrow> 'w \<Rightarrow> 'w \<times> verification option"
  te_decompress_len :: "bytes \<Rightarrow> nat option"
  te_decompress :: "bytes \<Rightarrow> nat \<Rightarrow> (bytes \<times> nat) option"

abbreviation refused :: "'a option \<Rightarrow> (trust_error, 'w, 'a) comp" where
  "refused x \<equiv> option_or TrustRefused x"

abbreviation demand :: "bool \<Rightarrow> (trust_error, 'w, unit) comp" where
  "demand b \<equiv> ensure TrustRefused b"

section \<open>The budget\<close>

record selection_budget =
  sb_deadline :: int
  sb_parent :: "nat option"

definition budget_until :: "('w, 'r, 'b) trust_env \<Rightarrow> int \<Rightarrow> 'w \<Rightarrow> 'w \<times> selection_budget" where
  "budget_until E deadline w =
     (let (w, now) = te_now E w in (w, \<lparr>sb_deadline = min deadline (now + SELECTION_TIMEOUT), sb_parent = None\<rparr>))"

definition budget_new :: "('w, 'r, 'b) trust_env \<Rightarrow> 'w \<Rightarrow> 'w \<times> selection_budget" where
  "budget_new E w = (let (w, now) = te_now E w in budget_until E (now + SELECTION_TIMEOUT) w)"

definition with_cancellation :: "selection_budget \<Rightarrow> nat \<Rightarrow> selection_budget" where
  "with_cancellation budget stop = budget\<lparr>sb_parent := Some stop\<rparr>"

definition budget_cancel :: "('w, 'r, 'b) trust_env \<Rightarrow> 'w \<Rightarrow> 'w" where
  "budget_cancel E w = te_store_cancelled E w"

definition parent_cancelled :: "('w, 'r, 'b) trust_env \<Rightarrow> selection_budget \<Rightarrow> 'w \<Rightarrow> 'w \<times> bool" where
  "parent_cancelled E budget w = (case sb_parent budget of None \<Rightarrow> (w, False) | Some stop \<Rightarrow> te_parent_cancelled E stop w)"

definition check :: "('w, 'r, 'b) trust_env \<Rightarrow> selection_budget \<Rightarrow> (trust_error, 'w, unit) comp" where
  "check E budget w =
     (case te_cancelled E w of (w, cancelled) \<Rightarrow>
      if cancelled then (w, Inl TrustInterrupted)
      else case parent_cancelled E budget w of (w, cancelled) \<Rightarrow>
        if cancelled then (w, Inl TrustInterrupted)
        else case te_now E w of (w, now) \<Rightarrow>
          if now \<ge> sb_deadline budget then (w, Inl TrustInterrupted) else (w, Inr ()))"

section \<open>Policies\<close>

definition fingerprint :: "pinned_root \<Rightarrow> string" where
  "fingerprint root =
     (case root of
        NativeRelease \<Rightarrow> ''26b3382d5700afbcd84f980d1d5b6c52bff743dc2a8ee86b8b44c8e1245ce485''
      | CandidateWorkflow \<Rightarrow> ''3c2cc7f357dc064ec527fdcd78da6e9245c21a381e1abaa0f2b62b186bcac1a1'')"

definition root_bytes :: "lib \<Rightarrow> ('w, 'r, 'b) trust_env \<Rightarrow> pinned_root \<Rightarrow> bytes option" where
  "root_bytes L E root = do {
     let bytes = te_root_bytes E root;
     guard (sha256_hex L bytes = fingerprint root);
     _ \<leftarrow> json_object L bytes MAX_BUNDLE_BYTES;
     Some bytes
   }"

definition native_release :: "string \<Rightarrow> verification_policy option" where
  "native_release commit = (if \<not> lower_hex commit 40 then None else Some \<lparr>vp_root = NativeRelease, vp_digest = commit\<rparr>)"

definition candidate_manifest :: "string \<Rightarrow> verification_policy option" where
  "candidate_manifest sha256 =
     (if \<not> lower_hex sha256 64 then None else Some \<lparr>vp_root = CandidateWorkflow, vp_digest = sha256\<rparr>)"

definition signer :: "verification_policy \<Rightarrow> string" where
  "signer p = (case vp_root p of NativeRelease \<Rightarrow> NATIVE_SIGNER | CandidateWorkflow \<Rightarrow> CANDIDATE_SIGNER)"

definition issuer :: "verification_policy \<Rightarrow> string option" where
  "issuer p = (if vp_root p = CandidateWorkflow then Some CANDIDATE_ISSUER else None)"

definition digest_algorithm :: "verification_policy \<Rightarrow> string" where
  "digest_algorithm p = (case vp_root p of NativeRelease \<Rightarrow> ''sha1'' | CandidateWorkflow \<Rightarrow> ''sha256'')"

definition signed_timestamp_threshold :: "verification_policy \<Rightarrow> nat" where
  "signed_timestamp_threshold p = (if vp_root p = NativeRelease then 1 else 0)"

definition transparency_log_threshold :: "verification_policy \<Rightarrow> nat" where
  "transparency_log_threshold p = (if vp_root p = CandidateWorkflow then 1 else 0)"

definition observer_timestamp_threshold :: "verification_policy \<Rightarrow> nat" where
  "observer_timestamp_threshold p = transparency_log_threshold p"

section \<open>Strict objects\<close>

definition as_array :: "json \<Rightarrow> json list option" where
  "as_array j = (case j of JArr xs \<Rightarrow> Some xs | _ \<Rightarrow> None)"

definition as_object :: "json \<Rightarrow> (string \<times> json) list option" where
  "as_object j = (case j of JObj kvs \<Rightarrow> Some kvs | _ \<Rightarrow> None)"

definition json_fields :: "json \<Rightarrow> string list \<Rightarrow> string list \<Rightarrow> (string \<times> json) list option" where
  "json_fields value required optional = do {
     object \<leftarrow> as_object value;
     (if \<not> list_all (\<lambda>name. map_of object name \<noteq> None) required
         \<or> \<not> list_all (\<lambda>(name, _). name \<in> set required \<or> name \<in> set optional) object
      then None else Some object)
   }"

text \<open>\<open>object[name]\<close> of a required member, and \<open>object.get(name).filter(not null)\<close>.\<close>

definition member_of :: "(string \<times> json) list \<Rightarrow> string \<Rightarrow> json" where
  "member_of object name = (case map_of object name of None \<Rightarrow> JNull | Some v \<Rightarrow> v)"

definition non_null :: "(string \<times> json) list \<Rightarrow> string \<Rightarrow> json option" where
  "non_null object name = (case map_of object name of Some JNull \<Rightarrow> None | v \<Rightarrow> v)"

definition digest_of :: "json \<Rightarrow> string \<Rightarrow> nat \<Rightarrow> string option" where
  "digest_of value algorithm len = do {
     object \<leftarrow> json_fields value [algorithm] [];
     digest \<leftarrow> as_str (member_of object algorithm);
     (if \<not> lower_hex digest len then None else Some digest)
   }"

text \<open>Loops that only check every element, and checks of a member that may be absent.\<close>

definition each :: "('a \<Rightarrow> 'b option) \<Rightarrow> 'a list \<Rightarrow> unit option" where
  "each f xs = guard (list_all (\<lambda>x. f x \<noteq> None) xs)"

definition if_some :: "('a \<Rightarrow> 'b option) \<Rightarrow> 'a option \<Rightarrow> unit option" where
  "if_some f x = (case x of None \<Rightarrow> Some () | Some v \<Rightarrow> Option.bind (f v) (\<lambda>_. Some ()))"

definition chain_fields :: "json \<Rightarrow> unit option" where
  "chain_fields value = do {
     chain \<leftarrow> json_fields value [''certificates''] [];
     certificates \<leftarrow> as_array (member_of chain ''certificates'');
     each (\<lambda>c. json_fields c [''rawBytes''] []) certificates
   }"

definition timestamp_fields :: "json \<Rightarrow> unit option" where
  "timestamp_fields value = do {
     timestamps \<leftarrow> json_fields value [] [''rfc3161Timestamps''];
     if_some (\<lambda>tokens. do {
       tokens \<leftarrow> as_array tokens;
       each (\<lambda>t. json_fields t [''signedTimestamp''] []) tokens
     }) (non_null timestamps ''rfc3161Timestamps'')
   }"

definition proof_fields :: "json \<Rightarrow> unit option" where
  "proof_fields value = do {
     p \<leftarrow> json_fields value [] [''logIndex'', ''rootHash'', ''treeSize'', ''hashes'', ''checkpoint''];
     if_some (\<lambda>c. json_fields c [] [''envelope'']) (non_null p ''checkpoint'')
   }"

definition entry_fields :: "json \<Rightarrow> unit option" where
  "entry_fields value = do {
     entry \<leftarrow> json_fields value []
       [''logIndex'', ''logId'', ''kindVersion'', ''integratedTime'', ''inclusionPromise'', ''inclusionProof'',
        ''canonicalizedBody''];
     each (\<lambda>(name, allowed). if_some (\<lambda>object. json_fields object [] allowed) (non_null entry name))
       [(''logId'', [''keyId'']), (''kindVersion'', [''kind'', ''version'']),
        (''inclusionPromise'', [''signedEntryTimestamp''])];
     if_some proof_fields (non_null entry ''inclusionProof'')
   }"

definition bundle_fields :: "json \<Rightarrow> unit option" where
  "bundle_fields value = do {
     bundle \<leftarrow> json_fields value [''mediaType'', ''verificationMaterial'', ''dsseEnvelope''] [];
     envelope \<leftarrow> json_fields (member_of bundle ''dsseEnvelope'') [''payload'', ''payloadType'', ''signatures''] [];
     signatures \<leftarrow> as_array (member_of envelope ''signatures'');
     each (\<lambda>s. json_fields s [''sig''] [''keyid'']) signatures;
     material \<leftarrow> json_fields (member_of bundle ''verificationMaterial'') []
       [''certificate'', ''x509CertificateChain'', ''tlogEntries'', ''timestampVerificationData''];
     let certificate = non_null material ''certificate'';
     let chain = non_null material ''x509CertificateChain'';
     guard ((certificate \<noteq> None) \<noteq> (chain \<noteq> None));
     if_some (\<lambda>c. json_fields c [''rawBytes''] []) certificate;
     if_some chain_fields chain;
     if_some timestamp_fields (non_null material ''timestampVerificationData'');
     if_some (\<lambda>entries. do {
       entries \<leftarrow> as_array entries;
       each entry_fields entries
     }) (non_null material ''tlogEntries'')
   }"

section \<open>Signed bundles\<close>

record verified_statement =
  vs_payload :: bytes
  vs_policy :: verification_policy
  vs_bundle_sha256 :: string

fun find_map :: "('a \<Rightarrow> 'b option) \<Rightarrow> 'a list \<Rightarrow> 'b option" where
  "find_map f [] = None"
| "find_map f (x # xs) = (case f x of None \<Rightarrow> find_map f xs | Some y \<Rightarrow> Some y)"

definition subject_digest :: "string \<Rightarrow> json \<Rightarrow> string option" where
  "subject_digest algorithm subject = do {
     digest \<leftarrow> jget ''digest'' subject;
     value \<leftarrow> jget algorithm digest;
     as_str value
   }"

text \<open>The digest that the backend binds: of any signed asset, or the digest of the policy.\<close>

definition binding_of :: "('w, 'r, 'b) trust_env \<Rightarrow> verification_policy \<Rightarrow> 'b \<Rightarrow> json list \<Rightarrow> string option" where
  "binding_of E policy bundle subjects =
     (case vp_root policy of
        NativeRelease \<Rightarrow>
          if te_rfc3161_timestamps E bundle = 0 then None else find_map (subject_digest ''sha256'') subjects
      | CandidateWorkflow \<Rightarrow> if te_tlog_entries E bundle = 0 then None else Some (vp_digest policy))"

text \<open>What \<open>verify_bundle\<close> does before it calls the backend: the root, the bundle, its payload and the binding.\<close>

definition bundle_claim ::
  "lib \<Rightarrow> ('w, 'r, 'b) trust_env \<Rightarrow> bytes \<Rightarrow> verification_policy \<Rightarrow> ('r \<times> 'b \<times> bytes \<times> string) option" where
  "bundle_claim L E body policy = do {
     document \<leftarrow> json_object L body MAX_BUNDLE_BYTES;
     bundle_fields document;
     bytes \<leftarrow> root_bytes L E (vp_root policy);
     bytes \<leftarrow> from_utf8 bytes;
     root \<leftarrow> te_root E bytes;
     body \<leftarrow> from_utf8 body;
     bundle \<leftarrow> te_bundle E body;
     (payload_type, payload) \<leftarrow> te_envelope E bundle;
     guard (payload_type = ''application/vnd.in-toto+json'');
     statement \<leftarrow> json_object L payload MAX_BUNDLE_BYTES;
     guard (Option.bind (jget ''_type'' statement) as_str = Some ''https://in-toto.io/Statement/v1'');
     subjects \<leftarrow> Option.bind (jget ''subject'' statement) as_array;
     guard (list_ex (\<lambda>subject. subject_digest (digest_algorithm policy) subject = Some (vp_digest policy)) subjects);
     binding \<leftarrow> binding_of E policy bundle subjects;
     guard (lower_hex binding 64);
     Some (root, bundle, payload, binding)
   }"

definition signer_policy_for :: "verification_policy \<Rightarrow> signer_policy" where
  "signer_policy_for policy =
     \<lparr>gp_identity = signer policy, gp_issuer = issuer policy, gp_skip_sct = True,
      gp_skip_tlog = (vp_root policy = NativeRelease)\<rparr>"

definition verification_accepted :: "verification_policy \<Rightarrow> verification \<Rightarrow> bool" where
  "verification_accepted policy v =
     (vf_certificate_verified v \<and> vf_identity_policy_checked v \<and> vf_identity v = Some (signer policy)
      \<and> is_none_or (\<lambda>i. vf_issuer v = Some i) (issuer policy) \<and> vf_timestamps v \<noteq> 0
      \<and> (vp_root policy = CandidateWorkflow \<longrightarrow> vf_tlog_verified v))"

definition backend_verify ::
  "('w, 'r, 'b) trust_env \<Rightarrow> 'r \<Rightarrow> 'b \<Rightarrow> string \<Rightarrow> verification_policy \<Rightarrow> (trust_error, 'w, verification) comp" where
  "backend_verify E root bundle binding policy =
     bnd (demand (te_verifier E root)) (\<lambda>_.
     bnd (refused (te_hash E binding)) (\<lambda>hash w.
       case te_verify E root hash bundle (signer_policy_for policy) w of (w, answer) \<Rightarrow> refused answer w))"

definition verify_bundle ::
  "lib \<Rightarrow> ('w, 'r, 'b) trust_env \<Rightarrow> bytes \<Rightarrow> verification_policy \<Rightarrow> selection_budget
   \<Rightarrow> (trust_error, 'w, verified_statement) comp" where
  "verify_bundle L E body policy budget =
     bnd (check E budget) (\<lambda>_.
     bnd (refused (bundle_claim L E body policy)) (\<lambda>(root, bundle, payload, binding).
     bnd (check E budget) (\<lambda>_.
     bnd (backend_verify E root bundle binding policy) (\<lambda>verified.
     bnd (check E budget) (\<lambda>_.
     bnd (demand (verification_accepted policy verified)) (\<lambda>_.
     bnd (check E budget) (\<lambda>_.
     ret \<lparr>vs_payload = payload, vs_policy = policy, vs_bundle_sha256 = sha256_hex L body\<rparr>)))))))"

definition inspect_candidate_statement :: "lib \<Rightarrow> bytes \<Rightarrow> bytes \<Rightarrow> unit option" where
  "inspect_candidate_statement L body manifest = do {
     guard (manifest \<noteq> [] \<and> length manifest \<le> 2 ^ 20);
     value \<leftarrow> json_object L body MAX_BUNDLE_BYTES;
     guard (Option.bind (jget ''_type'' value) as_str = Some ''https://in-toto.io/Statement/v1'');
     subjects \<leftarrow> Option.bind (jget ''subject'' value) as_array;
     guard (length subjects = 1);
     subject \<leftarrow> as_object (hd subjects);
     guard (Option.bind (map_of subject ''name'') as_str = Some ''qualification-manifest.json'');
     value \<leftarrow> map_of subject ''digest'';
     digest \<leftarrow> digest_of value ''sha256'' 64;
     guard (digest = sha256_hex L manifest)
   }"

definition verify_candidate_manifest ::
  "lib \<Rightarrow> ('w, 'r, 'b) trust_env \<Rightarrow> bytes \<Rightarrow> bytes \<Rightarrow> selection_budget
   \<Rightarrow> (trust_error, 'w, verified_statement) comp" where
  "verify_candidate_manifest L E body manifest budget =
     bnd (demand (manifest \<noteq> [] \<and> length manifest \<le> 2 ^ 20)) (\<lambda>_.
     bnd (refused (json_object L manifest (2 ^ 20))) (\<lambda>_.
     bnd (refused (candidate_manifest (sha256_hex L manifest))) (\<lambda>policy.
     bnd (verify_bundle L E body policy budget) (\<lambda>verified.
     bnd (refused (inspect_candidate_statement L (vs_payload verified) manifest)) (\<lambda>_.
     bnd (check E budget) (\<lambda>_.
     ret verified))))))"

section \<open>Claims of a release\<close>

record expected_release =
  er_identity :: release_identity
  er_assets :: "(string \<times> asset_proof) list"

fun exact_assets :: "(string \<times> asset_proof) list \<Rightarrow> asset_proof list \<Rightarrow> (string \<times> asset_proof) list option" where
  "exact_assets exact [] = Some exact"
| "exact_assets exact (p # ps) =
     (if map_of exact (ap_name p) \<noteq> None then None else exact_assets (bt_insert (ap_name p) p exact) ps)"

definition new_expected :: "release_identity \<Rightarrow> asset_proof list \<Rightarrow> expected_release option" where
  "new_expected identity assets = do {
     exact \<leftarrow> exact_assets [] assets;
     guard (length exact = length RELEASE_ASSET_NAMES
       \<and> list_all (\<lambda>name. map_of exact name \<noteq> None) RELEASE_ASSET_NAMES);
     index \<leftarrow> map_of exact ''release-index.json'';
     guard (ap_sha256 index = ri_index_sha256 identity);
     Some \<lparr>er_identity = identity, er_assets = exact\<rparr>
   }"

text \<open>\<open>object.get(name).is_some_and(|v| v.as_str() != Some(""))\<close> is refused.\<close>

definition absent_or_empty :: "(string \<times> json) list \<Rightarrow> string \<Rightarrow> bool" where
  "absent_or_empty object name = is_none_or (\<lambda>v. as_str v = Some []) (map_of object name)"

fun asset_subjects :: "(string \<times> string) list \<Rightarrow> json list \<Rightarrow> (string \<times> string) list option" where
  "asset_subjects assets [] = Some assets"
| "asset_subjects assets (subject # subjects) = do {
     asset \<leftarrow> json_fields subject [''name'', ''digest''] [''uri''];
     name \<leftarrow> as_str (member_of asset ''name'');
     digest \<leftarrow> digest_of (member_of asset ''digest'') ''sha256'' 64;
     (if name \<notin> set RELEASE_ASSET_NAMES \<or> \<not> absent_or_empty asset ''uri'' \<or> map_of assets name \<noteq> None then None
      else asset_subjects (bt_insert name digest assets) subjects)
   }"

definition statement_predicate :: "json \<Rightarrow> string \<Rightarrow> string option" where
  "statement_predicate value commit = do {
     predicate \<leftarrow> json_fields value
       [''databaseId'', ''ownerId'', ''packageId'', ''purl'', ''repository'', ''repositoryId'', ''tag''] [];
     each (\<lambda>name. do {
       field \<leftarrow> as_str (member_of predicate name);
       guard (field \<noteq> [])
     }) [''databaseId'', ''ownerId'', ''packageId'', ''repositoryId''];
     tag \<leftarrow> as_str (member_of predicate ''tag'');
     _ \<leftarrow> new_stable_identity tag commit (replicate 64 CHR ''0'');
     repository \<leftarrow> as_str (member_of predicate ''repository'');
     guard (repository = REPOSITORY);
     purl \<leftarrow> as_str (member_of predicate ''purl'');
     guard (purl = ''pkg:github/'' @ REPOSITORY @ ''@'' @ tag);
     Some tag
   }"

definition native_statement :: "lib \<Rightarrow> bytes \<Rightarrow> string \<Rightarrow> (string \<times> (string \<times> string) list) option" where
  "native_statement L body commit = do {
     value \<leftarrow> json_object L body MAX_BUNDLE_BYTES;
     statement \<leftarrow> json_fields value [''_type'', ''predicateType'', ''subject'', ''predicate''] [];
     type \<leftarrow> as_str (member_of statement ''_type'');
     guard (type = ''https://in-toto.io/Statement/v1'');
     predicate_type \<leftarrow> as_str (member_of statement ''predicateType'');
     guard (predicate_type = ''https://in-toto.io/attestation/release/v0.2'');
     tag \<leftarrow> statement_predicate (member_of statement ''predicate'') commit;
     subjects \<leftarrow> as_array (member_of statement ''subject'');
     guard (length subjects = length RELEASE_ASSET_NAMES + 1);
     release \<leftarrow> json_fields (hd subjects) [''uri'', ''digest''] [''name''];
     guard (absent_or_empty release ''name'');
     uri \<leftarrow> as_str (member_of release ''uri'');
     guard (uri = ''pkg:github/'' @ REPOSITORY @ ''@'' @ tag);
     digest \<leftarrow> digest_of (member_of release ''digest'') ''sha1'' 40;
     guard (digest = commit);
     assets \<leftarrow> asset_subjects [] (tl subjects);
     Some (tag, assets)
   }"

definition native_claim_matches :: "lib \<Rightarrow> bytes \<Rightarrow> expected_release \<Rightarrow> bool option" where
  "native_claim_matches L body expected = do {
     (tag, assets) \<leftarrow> native_statement L body (ri_commit (er_identity expected));
     let matched = (tag = ri_tag (er_identity expected));
     (if matched \<and> list_ex (\<lambda>(name, asset). map_of assets name \<noteq> Some (ap_sha256 asset)) (er_assets expected) then None
      else Some matched)
   }"

record release_claims =
  rc_identity :: release_identity
  rc_proof_count :: nat

fun inspect_statements ::
  "lib \<Rightarrow> ('w, 'r, 'b) trust_env \<Rightarrow> expected_release \<Rightarrow> selection_budget \<Rightarrow> bytes list \<Rightarrow> bool
   \<Rightarrow> (trust_error, 'w, bool) comp" where
  "inspect_statements L E expected budget [] matched = ret matched"
| "inspect_statements L E expected budget (body # statements) matched =
     bnd (check E budget) (\<lambda>_.
     bnd (refused (native_claim_matches L body expected)) (\<lambda>m.
     bnd (check E budget) (\<lambda>_.
     inspect_statements L E expected budget statements (matched \<or> m))))"

definition inspect_native_claim_set ::
  "lib \<Rightarrow> ('w, 'r, 'b) trust_env \<Rightarrow> bytes list \<Rightarrow> expected_release \<Rightarrow> selection_budget
   \<Rightarrow> (trust_error, 'w, release_claims) comp" where
  "inspect_native_claim_set L E statements expected budget =
     bnd (check E budget) (\<lambda>_.
     bnd (demand (statements \<noteq> [] \<and> length statements \<le> MAX_NATIVE_PROOFS)) (\<lambda>_.
     bnd (inspect_statements L E expected budget statements False) (\<lambda>matched.
     bnd (demand matched) (\<lambda>_.
     bnd (check E budget) (\<lambda>_.
     ret \<lparr>rc_identity = er_identity expected, rc_proof_count = length statements\<rparr>)))))"

section \<open>Requests\<close>

definition API :: string where "API = ''https://api.github.com/repos/'' @ REPOSITORY"

definition latest_metadata :: acquisition_request where
  "latest_metadata = \<lparr>aq_url = API @ ''/releases/latest'', aq_limit = MAX_INDEX_BYTES, aq_json = True\<rparr>"

definition release_metadata :: "string \<Rightarrow> acquisition_request option" where
  "release_metadata tag = do {
     _ \<leftarrow> new_stable_identity tag (replicate 40 CHR ''a'') (replicate 64 CHR ''b'');
     Some \<lparr>aq_url = API @ ''/releases/tags/'' @ tag, aq_limit = MAX_INDEX_BYTES, aq_json = True\<rparr>
   }"

definition accept_header :: "acquisition_request \<Rightarrow> string" where
  "accept_header r = (if aq_json r then ''application/vnd.github+json'' else ''application/octet-stream'')"

definition strip_suffix :: "string \<Rightarrow> string \<Rightarrow> string option" where
  "strip_suffix p s = (if ends_with p s then Some (take (length s - length p) s) else None)"

definition host_label :: "string \<Rightarrow> bool" where
  "host_label label =
     (label \<noteq> [] \<and> length label \<le> 63 \<and> \<not> starts_with ''-'' label \<and> \<not> ends_with ''-'' label
      \<and> list_all (\<lambda>b. is_ascii_alphanumeric b \<or> b = CHR ''-'') label)"

definition url_authority :: "string \<Rightarrow> string" where
  "url_authority tail = takeWhile (\<lambda>c. c \<notin> set ''/?#'') tail"

definition permits_redirect :: "string \<Rightarrow> nat \<Rightarrow> bool" where
  "permits_redirect url hops =
     (if hops > 4 then False
      else case strip_prefix ''https://'' url of
        None \<Rightarrow> False
      | Some tail \<Rightarrow>
          let authority = url_authority tail;
              host = (case strip_suffix '':443'' authority of None \<Rightarrow> authority | Some h \<Rightarrow> h)
          in \<not> list_ex (\<lambda>b. b \<le> CHR '' '' \<or> b = CHR 0x7F \<or> b = CHR 0x5C) url
             \<and> CHR ''#'' \<notin> set tail \<and> host \<noteq> []
             \<and> (host = ''release-assets.githubusercontent.com''
                \<or> is_some_and (\<lambda>prefix. list_all host_label (split_char CHR ''.'' prefix))
                     (strip_suffix ''.githubusercontent.com'' host)))"

section \<open>Reading a response\<close>

text \<open>What a reader puts at the start of a buffer.\<close>

definition overwrite :: "bytes \<Rightarrow> bytes \<Rightarrow> bytes" where
  "overwrite data buffer = take (length buffer) data @ drop (length data) buffer"

lemma length_overwrite [simp]: "length (overwrite data buffer) = length buffer"
  by (simp add: overwrite_def)

text \<open>
  The loop of \<open>read_response\<close>; the bound on the body is checked after every extension, which is before the next round.
\<close>

function read_body ::
  "('w, 'r, 'b) trust_env \<Rightarrow> nat \<Rightarrow> nat \<Rightarrow> selection_budget \<Rightarrow> bytes \<Rightarrow> bytes \<Rightarrow> (trust_error, 'w, bytes) comp" where
  "read_body E source limit budget chunk body w =
     (if length body > limit then (w, Inl TrustRefused)
      else case check E budget w of
        (w, Inl e) \<Rightarrow> (w, Inl e)
      | (w, Inr _) \<Rightarrow>
          let available = min (length chunk) (limit + 1 - length body) in
          case te_read E source available w of
            (w, None) \<Rightarrow> (w, Inl TrustUnavailable)
          | (w, Some (data, count)) \<Rightarrow>
              let chunk = overwrite data (take available chunk) @ drop available chunk in
              case check E budget w of
                (w, Inl e) \<Rightarrow> (w, Inl e)
              | (w, Inr _) \<Rightarrow>
                  if count > available then (w, Inl TrustRefused)
                  else if count = 0 then (w, Inr body)
                  else read_body E source limit budget chunk (body @ take count chunk) w)"
  by pat_completeness auto
termination
proof (relation "measure (\<lambda>(E, source, limit, budget, chunk, body, w). Suc limit - length body)", goal_cases)
  case 1
  show ?case by simp
next
  case 2
  then show ?case by (auto simp: min_def neq_Nil_conv split: if_splits)
qed

declare read_body.simps [simp del]

definition empty_chunk :: bytes where "empty_chunk = replicate 8192 CHR 0x00"

definition read_response ::
  "('w, 'r, 'b) trust_env \<Rightarrow> acquisition_response \<Rightarrow> nat \<Rightarrow> selection_budget \<Rightarrow> (trust_error, 'w, bytes) comp" where
  "read_response E response limit budget =
     bnd (check E budget) (\<lambda>_.
     bnd (ensure TrustUnavailable (\<not> (rs_status response = 408 \<or> rs_status response = 429 \<or> rs_status response \<ge> 500))) (\<lambda>_.
     bnd (demand (rs_status response = 200)) (\<lambda>_.
     bnd (read_body E (rs_body response) limit budget empty_chunk []) (\<lambda>body.
     bnd (demand (body \<noteq> [])) (\<lambda>_.
     ret body)))))"

definition read_complete_json_response ::
  "('w, 'r, 'b) trust_env \<Rightarrow> acquisition_response \<Rightarrow> nat \<Rightarrow> selection_budget \<Rightarrow> (trust_error, 'w, bytes) comp" where
  "read_complete_json_response E response limit budget =
     bnd (check E budget) (\<lambda>_.
     bnd (demand (\<not> rs_link_header_present response)) (\<lambda>_.
     read_response E response limit budget))"

definition show_u64 :: "u64 \<Rightarrow> string" where
  "show_u64 n = digits_in 10 20 (unat n)"

definition acquire_digest_checked_asset ::
  "lib \<Rightarrow> ('w, 'r, 'b) trust_env \<Rightarrow> u64 \<Rightarrow> asset_proof \<Rightarrow> selection_budget \<Rightarrow> (trust_error, 'w, bytes) comp" where
  "acquire_digest_checked_asset L E asset_id p budget =
     bnd (demand (asset_id \<noteq> 0)) (\<lambda>_.
     bnd (check E budget) (\<lambda>_.
     bnd (te_get E \<lparr>aq_url = API @ ''/releases/assets/'' @ show_u64 asset_id, aq_limit = unat (ap_size p), aq_json = False\<rparr>) (\<lambda>response.
     bnd (read_response E response (unat (ap_size p)) budget) (\<lambda>body.
     bnd (demand (length body = unat (ap_size p) \<and> sha256_hex L body = ap_sha256 p)) (\<lambda>_.
     bnd (check E budget) (\<lambda>_.
     ret body))))))"

section \<open>Attestations\<close>

datatype unverified_bundle = Inline bytes | SnappyUrl string

definition bundle_url :: "string \<Rightarrow> string option" where
  "bundle_url url = do {
     path \<leftarrow> strip_prefix ''https://tmaproduction.blob.core.windows.net/'' url;
     guard (path \<noteq> [] \<and> list_all (\<lambda>b. of_char b < (128 :: nat)) url
       \<and> \<not> list_ex (\<lambda>b. b \<le> CHR '' '' \<or> b = CHR 0x5C \<or> b = CHR ''#'' \<or> b = CHR 0x7F) url);
     Some url
   }"

definition attestation_bundle :: "lib \<Rightarrow> json \<Rightarrow> unverified_bundle option" where
  "attestation_bundle L entry = do {
     entry \<leftarrow> as_object entry;
     guard (Option.bind (map_of entry ''initiator'') as_str = Some ''github'');
     (case non_null entry ''bundle'' of
        Some inline \<Rightarrow> do {
          guard (is_object inline);
          let bytes = to_vec L inline;
          guard (length bytes \<le> MAX_BUNDLE_BYTES);
          Some (Inline bytes)
        }
      | None \<Rightarrow> do {
          value \<leftarrow> map_of entry ''bundle_url'';
          url \<leftarrow> as_str value;
          url \<leftarrow> bundle_url url;
          Some (SnappyUrl url)
        })
   }"

fun attestation_bundles ::
  "lib \<Rightarrow> ('w, 'r, 'b) trust_env \<Rightarrow> selection_budget \<Rightarrow> json list \<Rightarrow> (trust_error, 'w, unverified_bundle list) comp" where
  "attestation_bundles L E budget [] = ret []"
| "attestation_bundles L E budget (entry # entries) =
     bnd (check E budget) (\<lambda>_.
     bnd (refused (attestation_bundle L entry)) (\<lambda>bundle.
     bnd (attestation_bundles L E budget entries) (\<lambda>bundles.
     ret (bundle # bundles))))"

definition decode_attestations ::
  "lib \<Rightarrow> ('w, 'r, 'b) trust_env \<Rightarrow> bytes \<Rightarrow> bool \<Rightarrow> selection_budget
   \<Rightarrow> (trust_error, 'w, unverified_bundle list) comp" where
  "decode_attestations L E body link_header_present budget =
     bnd (check E budget) (\<lambda>_.
     bnd (demand (\<not> link_header_present)) (\<lambda>_.
     bnd (refused (json_object L body MAX_BUNDLE_BYTES)) (\<lambda>response.
     bnd (refused (Option.bind (jget ''attestations'' response) as_array)) (\<lambda>entries.
     bnd (demand (entries \<noteq> [] \<and> length entries \<le> MAX_NATIVE_PROOFS)) (\<lambda>_.
     bnd (attestation_bundles L E budget entries) (\<lambda>bundles.
     bnd (check E budget) (\<lambda>_.
     ret bundles)))))))"

definition acquire_native_attestations ::
  "lib \<Rightarrow> ('w, 'r, 'b) trust_env \<Rightarrow> string \<Rightarrow> selection_budget \<Rightarrow> (trust_error, 'w, unverified_bundle list) comp" where
  "acquire_native_attestations L E commit budget =
     bnd (refused (native_release commit)) (\<lambda>_.
     bnd (check E budget) (\<lambda>_.
     bnd (te_get E \<lparr>aq_url = API @ ''/attestations/sha1:'' @ commit @ ''?predicate_type=release&per_page=100'',
                    aq_limit = MAX_BUNDLE_BYTES, aq_json = True\<rparr>) (\<lambda>response.
     bnd (read_response E response MAX_BUNDLE_BYTES budget) (\<lambda>body.
     decode_attestations L E body (rs_link_header_present response) budget))))"

definition decompressed :: "('w, 'r, 'b) trust_env \<Rightarrow> bytes \<Rightarrow> bytes option" where
  "decompressed E compressed = do {
     size \<leftarrow> te_decompress_len E compressed;
     guard (size \<noteq> 0 \<and> size \<le> MAX_BUNDLE_BYTES);
     (data, written) \<leftarrow> te_decompress E compressed size;
     guard (written = size);
     Some (overwrite data (replicate size CHR 0x00))
   }"

definition bundle_body ::
  "('w, 'r, 'b) trust_env \<Rightarrow> unverified_bundle \<Rightarrow> selection_budget \<Rightarrow> (trust_error, 'w, bytes) comp" where
  "bundle_body E source budget =
     (case source of
        Inline bytes \<Rightarrow> ret bytes
      | SnappyUrl url \<Rightarrow>
          bnd (te_get E \<lparr>aq_url = url, aq_limit = MAX_BUNDLE_BYTES, aq_json = False\<rparr>) (\<lambda>response.
          bnd (read_response E response MAX_BUNDLE_BYTES budget) (\<lambda>compressed.
          refused (decompressed E compressed))))"

definition resolve_bundle ::
  "lib \<Rightarrow> ('w, 'r, 'b) trust_env \<Rightarrow> unverified_bundle \<Rightarrow> selection_budget \<Rightarrow> (trust_error, 'w, bytes) comp" where
  "resolve_bundle L E source budget =
     bnd (check E budget) (\<lambda>_.
     bnd (bundle_body E source budget) (\<lambda>body.
     bnd (check E budget) (\<lambda>_.
     bnd (refused (json_object L body MAX_BUNDLE_BYTES)) (\<lambda>_.
     bnd (check E budget) (\<lambda>_.
     ret body)))))"

definition acquire_bundle ::
  "lib \<Rightarrow> ('w, 'r, 'b) trust_env \<Rightarrow> unverified_bundle list \<Rightarrow> nat \<Rightarrow> selection_budget \<Rightarrow> (trust_error, 'w, bytes) comp" where
  "acquire_bundle L E bundles i budget =
     bnd (refused (nth_opt bundles i)) (\<lambda>source. resolve_bundle L E source budget)"

section \<open>Native releases\<close>

record verified_claims =
  vc_identity :: release_identity
  vc_proof_count :: nat
  vc_assets :: "(string \<times> asset_proof) list"

definition claimed_asset :: "verified_claims \<Rightarrow> string \<Rightarrow> asset_proof option" where
  "claimed_asset claims name = map_of (vc_assets claims) name"

fun verify_proofs ::
  "lib \<Rightarrow> ('w, 'r, 'b) trust_env \<Rightarrow> unverified_bundle list \<Rightarrow> verification_policy \<Rightarrow> expected_release \<Rightarrow> selection_budget
   \<Rightarrow> nat list \<Rightarrow> bool \<Rightarrow> (trust_error, 'w, bool) comp" where
  "verify_proofs L E bundles policy expected budget [] matched = ret matched"
| "verify_proofs L E bundles policy expected budget (i # indices) matched =
     bnd (check E budget) (\<lambda>_.
     bnd (acquire_bundle L E bundles i budget) (\<lambda>body.
     bnd (verify_bundle L E body policy budget) (\<lambda>statement.
     bnd (refused (native_claim_matches L (vs_payload statement) expected)) (\<lambda>m.
     bnd (check E budget) (\<lambda>_.
     verify_proofs L E bundles policy expected budget indices (matched \<or> m))))))"

definition verify_native_release ::
  "lib \<Rightarrow> ('w, 'r, 'b) trust_env \<Rightarrow> expected_release \<Rightarrow> selection_budget \<Rightarrow> (trust_error, 'w, verified_claims) comp" where
  "verify_native_release L E expected budget =
     bnd (acquire_native_attestations L E (ri_commit (er_identity expected)) budget) (\<lambda>bundles.
     bnd (refused (native_release (ri_commit (er_identity expected)))) (\<lambda>policy.
     bnd (verify_proofs L E bundles policy expected budget [0 ..< length bundles] False) (\<lambda>matched.
     bnd (demand matched) (\<lambda>_.
     bnd (check E budget) (\<lambda>_.
     ret \<lparr>vc_identity = er_identity expected, vc_proof_count = length bundles, vc_assets = er_assets expected\<rparr>)))))"

end
