(* ===== verification/Trust_Laws.thy ===== *)
theory Trust_Laws
  imports Artifact_Trust
begin

text \<open>
  Laws of the trust policy: what a successful run tells about the calls it made, what a signed statement has to say,
  and that the bounded reader returns exactly what a well-behaved reader gives.
\<close>

lemma guard_bind: "Option.bind (guard b) f = Some y \<longleftrightarrow> b \<and> f () = Some y"
  by (simp add: guard_def)

section \<open>Signatures\<close>

text \<open>
  The payload of a bundle is authentic under a policy: the bundle parses and carries it, and the backend, started with
  the pinned root and the policy, gave a result that the code accepts.
\<close>

definition authentic ::
  "lib \<Rightarrow> ('w, 'r, 'b) trust_env \<Rightarrow> verification_policy \<Rightarrow> bytes \<Rightarrow> bytes \<Rightarrow> bool" where
  "authentic L E policy body payload =
     (\<exists>root bundle binding hash v w w'.
        bundle_claim L E body policy = Some (root, bundle, payload, binding) \<and> te_verifier E root
        \<and> te_hash E binding = Some hash \<and> te_verify E root hash bundle (signer_policy_for policy) w = (w', Some v)
        \<and> verification_accepted policy v)"

lemma refused_answer: "(case p of (w, answer) \<Rightarrow> refused answer w) = (w', Inr v) \<longleftrightarrow> p = (w', Some v)"
  by (cases p) (auto simp: pure_Inr)

lemma backend_verify_Inr:
  "backend_verify E root bundle binding policy w = (w', Inr v) \<longleftrightarrow>
    te_verifier E root \<and> (\<exists>hash. te_hash E binding = Some hash
      \<and> te_verify E root hash bundle (signer_policy_for policy) w = (w', Some v))"
  by (auto simp: backend_verify_def run_simps refused_answer)

lemma verify_bundle_Inr:
  assumes "verify_bundle L E body policy budget w = (w', Inr s)"
  shows "authentic L E policy body (vs_payload s) \<and> vs_policy s = policy \<and> vs_bundle_sha256 s = sha256_hex L body"
proof -
  obtain root bun payload binding v w1 w2 where
    "bundle_claim L E body policy = Some (root, bun, payload, binding)"
    "backend_verify E root bun binding policy w1 = (w2, Inr v)" "verification_accepted policy v"
    "s = \<lparr>vs_payload = payload, vs_policy = policy, vs_bundle_sha256 = sha256_hex L body\<rparr>"
    using assms by (auto simp: verify_bundle_def run_simps)
  then show ?thesis by (auto simp: authentic_def backend_verify_Inr)
qed

lemma bundle_claim_Some:
  assumes "bundle_claim L E body policy = Some (root, bundle, payload, binding)"
  shows "te_bundle E body = Some bundle \<and> te_envelope E bundle = Some (''application/vnd.in-toto+json'', payload)
    \<and> te_root E (te_root_bytes E (vp_root policy)) = Some root
    \<and> sha256_hex L (te_root_bytes E (vp_root policy)) = fingerprint (vp_root policy)
    \<and> lower_hex binding 64"
  using assms
  by (auto simp: bundle_claim_def root_bytes_def guard_bind from_utf8_def Let_def split: bind_splits if_splits)

section \<open>Statements\<close>

lemma asset_subjects_Some:
  assumes "asset_subjects assets subjects = Some r"
  shows "map_of assets \<subseteq>\<^sub>m map_of r \<and> card (dom (map_of r)) = card (dom (map_of assets)) + length subjects
    \<and> dom (map_of r) \<subseteq> dom (map_of assets) \<union> set RELEASE_ASSET_NAMES
    \<and> (\<forall>name digest. map_of r name = Some digest \<longrightarrow> map_of assets name = Some digest \<or> lower_hex digest 64)"
  using assms
proof (induction assets subjects rule: asset_subjects.induct)
  case (2 assets subject subjects)
  obtain name digest where n: "name \<in> set RELEASE_ASSET_NAMES" "map_of assets name = None" "lower_hex digest 64"
    "asset_subjects (bt_insert name digest assets) subjects = Some r"
    and ih: "map_of (bt_insert name digest assets) \<subseteq>\<^sub>m map_of r
      \<and> card (dom (map_of r)) = card (dom (map_of (bt_insert name digest assets))) + length subjects
      \<and> dom (map_of r) \<subseteq> dom (map_of (bt_insert name digest assets)) \<union> set RELEASE_ASSET_NAMES
      \<and> (\<forall>n d. map_of r n = Some d \<longrightarrow> map_of (bt_insert name digest assets) n = Some d \<or> lower_hex d 64)"
    using 2 by (auto simp: digest_of_def split: bind_splits if_splits)
  have "name \<notin> dom (map_of assets)" "finite (dom (map_of assets))" using n(2) by (auto simp: finite_dom_map_of)
  then show ?case
    using ih n(1-3) by (auto simp: map_of_bt_insert map_le_def split: if_splits) (metis option.inject)
qed simp

lemma native_statement_Some:
  assumes "native_statement L body commit = Some (tag, assets)"
  shows "stable_release tag commit 1 \<and> dom (map_of assets) = set RELEASE_ASSET_NAMES
    \<and> (\<forall>name digest. map_of assets name = Some digest \<longrightarrow> lower_hex digest 64)"
proof -
  obtain subjects where s: "length subjects = length RELEASE_ASSET_NAMES + 1" "asset_subjects [] (tl subjects) = Some assets"
    and t: "stable_release tag commit 1"
    using assms
    by (auto simp: native_statement_def statement_predicate_def new_stable_identity_def guard_bind
        split: bind_splits if_splits)
  have c: "card (set RELEASE_ASSET_NAMES) = length RELEASE_ASSET_NAMES" by (simp add: RELEASE_ASSET_NAMES_def)
  have "dom (map_of assets) = set RELEASE_ASSET_NAMES"
    using asset_subjects_Some [OF s(2)] s(1) c by (intro card_subset_eq) auto
  then show ?thesis using asset_subjects_Some [OF s(2)] t by auto
qed

lemma native_claim_matches_Some:
  assumes "native_claim_matches L payload expected = Some m"
  obtains tag assets where "native_statement L payload (ri_commit (er_identity expected)) = Some (tag, assets)"
    "m \<longleftrightarrow> tag = ri_tag (er_identity expected)"
    "\<And>name p. m \<Longrightarrow> map_of (er_assets expected) name = Some p \<Longrightarrow> map_of assets name = Some (ap_sha256 p)"
proof -
  obtain tag assets where s: "native_statement L payload (ri_commit (er_identity expected)) = Some (tag, assets)"
    and m: "m \<longleftrightarrow> tag = ri_tag (er_identity expected)"
    and n: "m \<Longrightarrow> \<not> list_ex (\<lambda>(name, asset). map_of assets name \<noteq> Some (ap_sha256 asset)) (er_assets expected)"
    using assms by (auto simp: native_claim_matches_def Let_def split: bind_splits if_splits)
  show ?thesis
  proof (rule that [OF s m])
    show "map_of assets name = Some (ap_sha256 p)" if "m" "map_of (er_assets expected) name = Some p" for name p
      using n [OF that(1)] map_of_SomeD [OF that(2)] by (auto simp: list_ex_iff)
  qed
qed

section \<open>Native releases\<close>

lemma resolve_bundle_Inr:
  assumes "resolve_bundle L E source budget w = (w', Inr body)"
  shows "(\<forall>bytes. source = Inline bytes \<longrightarrow> body = bytes) \<and> json_object L body MAX_BUNDLE_BYTES \<noteq> None"
  using assms by (auto simp: resolve_bundle_def bundle_body_def run_simps)

text \<open>One proof: where its bytes came from, what was signed, and whether it is about the expected tag.\<close>

definition proof_checked ::
  "lib \<Rightarrow> ('w, 'r, 'b) trust_env \<Rightarrow> verification_policy \<Rightarrow> expected_release \<Rightarrow> unverified_bundle \<Rightarrow> bytes \<times> bytes \<times> bool \<Rightarrow> bool" where
  "proof_checked L E policy expected source = (\<lambda>(body, payload, m).
     (\<forall>bytes. source = Inline bytes \<longrightarrow> body = bytes) \<and> authentic L E policy body payload
     \<and> native_claim_matches L payload expected = Some m)"

lemma verify_proofs_Inr:
  assumes "verify_proofs L E bundles policy expected budget indices matched w = (w', Inr r)"
  shows "\<exists>proofs. list_all2 (\<lambda>i. proof_checked L E policy expected (bundles ! i)) indices proofs
    \<and> r = (matched \<or> list_ex (\<lambda>p. snd (snd p)) proofs)"
  using assms
proof (induction indices arbitrary: matched w)
  case Nil
  then show ?case by (simp add: pure_Inr)
next
  case (Cons i indices)
  obtain w1 w2 w3 body s m where b: "acquire_bundle L E bundles i budget w1 = (w2, Inr body)"
    and v: "verify_bundle L E body policy budget w2 = (w3, Inr s)"
    and m: "native_claim_matches L (vs_payload s) expected = Some m"
    and rest: "\<exists>w4. verify_proofs L E bundles policy expected budget indices (matched \<or> m) w4 = (w', Inr r)"
    using Cons.prems by (auto simp: run_simps) blast
  obtain proofs where p: "list_all2 (\<lambda>i. proof_checked L E policy expected (bundles ! i)) indices proofs"
    "r = ((matched \<or> m) \<or> list_ex (\<lambda>p. snd (snd p)) proofs)"
    using rest Cons.IH by blast
  have "proof_checked L E policy expected (bundles ! i) (body, vs_payload s, m)"
    using b verify_bundle_Inr [OF v] m resolve_bundle_Inr
    by (fastforce simp: proof_checked_def acquire_bundle_def run_simps)
  then show ?case using p by (intro exI [of _ "(body, vs_payload s, m) # proofs"]) auto
qed

lemma attestation_bundles_Inr:
  "attestation_bundles L E budget entries w = (w', Inr bundles) \<Longrightarrow>
    list_all2 (\<lambda>e b. attestation_bundle L e = Some b) entries bundles"
  by (induction entries arbitrary: w w' bundles) (auto simp: run_simps)

lemma acquire_native_attestations_Inr:
  assumes "acquire_native_attestations L E commit budget w = (w', Inr bundles)"
  shows "lower_hex commit 40 \<and> bundles \<noteq> [] \<and> length bundles \<le> 99"
proof -
  obtain entries w1 w2 where "entries \<noteq> []" "length entries \<le> MAX_NATIVE_PROOFS" "lower_hex commit 40"
    "attestation_bundles L E budget entries w1 = (w2, Inr bundles)"
    using assms
    by (auto simp: acquire_native_attestations_def decode_attestations_def run_simps native_release_def split: if_splits)
  then show ?thesis
    using list_all2_lengthD [OF attestation_bundles_Inr] by (fastforce simp: MAX_NATIVE_PROOFS_def)
qed

lemma verify_native_release_Inr:
  assumes "verify_native_release L E expected budget w = (w', Inr claims)"
  obtains proofs sources where
    "claims = \<lparr>vc_identity = er_identity expected, vc_proof_count = length proofs, vc_assets = er_assets expected\<rparr>"
    "lower_hex (ri_commit (er_identity expected)) 40" "proofs \<noteq> []" "length proofs \<le> 99"
    "list_all2 (proof_checked L E \<lparr>vp_root = NativeRelease, vp_digest = ri_commit (er_identity expected)\<rparr> expected) sources proofs"
    "list_ex (\<lambda>p. snd (snd p)) proofs"
proof -
  let ?policy = "\<lparr>vp_root = NativeRelease, vp_digest = ri_commit (er_identity expected)\<rparr>"
  obtain bundles w1 w2 w3 where a: "acquire_native_attestations L E (ri_commit (er_identity expected)) budget w = (w1, Inr bundles)"
    and v: "verify_proofs L E bundles ?policy expected budget [0 ..< length bundles] False w2 = (w3, Inr True)"
    and c: "claims = \<lparr>vc_identity = er_identity expected, vc_proof_count = length bundles, vc_assets = er_assets expected\<rparr>"
    using assms by (auto simp: verify_native_release_def run_simps native_release_def split: if_splits)
  obtain proofs where p: "list_all2 (\<lambda>i. proof_checked L E ?policy expected (bundles ! i)) [0 ..< length bundles] proofs"
    "list_ex (\<lambda>p. snd (snd p)) proofs"
    using verify_proofs_Inr [OF v] by auto
  have l: "length proofs = length bundles" using list_all2_lengthD [OF p(1)] by simp
  have "list_all2 (proof_checked L E ?policy expected) bundles proofs"
    using p(1) l by (auto simp: list_all2_conv_all_nth)
  moreover have "lower_hex (ri_commit (er_identity expected)) 40" "proofs \<noteq> []" "length proofs \<le> 99"
    using acquire_native_attestations_Inr [OF a] l by auto
  ultimately show ?thesis using that [OF _ _ _ _ _ p(2)] c l by auto
qed

text \<open>What an authentic bundle of a native release is, spelled out.\<close>

lemma authentic_native:
  assumes "authentic L E \<lparr>vp_root = NativeRelease, vp_digest = c\<rparr> body payload"
  shows "\<exists>bundle hash v t t'. te_bundle E body = Some bundle
    \<and> te_envelope E bundle = Some (''application/vnd.in-toto+json'', payload)
    \<and> sha256_hex L (te_root_bytes E NativeRelease) = fingerprint NativeRelease
    \<and> te_verify E (the (te_root E (te_root_bytes E NativeRelease))) hash bundle
        \<lparr>gp_identity = ''https://dotcom.releases.github.com'', gp_issuer = None, gp_skip_sct = True, gp_skip_tlog = True\<rparr> t
      = (t', Some v)
    \<and> vf_certificate_verified v \<and> vf_identity v = Some ''https://dotcom.releases.github.com'' \<and> vf_timestamps v \<noteq> 0"
proof -
  let ?policy = "\<lparr>vp_root = NativeRelease, vp_digest = c\<rparr>"
  obtain root bun binding hash v t t' where b: "bundle_claim L E body ?policy = Some (root, bun, payload, binding)"
    "te_verify E root hash bun (signer_policy_for ?policy) t = (t', Some v)" "verification_accepted ?policy v"
    using assms by (auto simp: authentic_def)
  have s: "signer_policy_for ?policy = \<lparr>gp_identity = ''https://dotcom.releases.github.com'', gp_issuer = None,
      gp_skip_sct = True, gp_skip_tlog = True\<rparr>"
    by (simp add: signer_policy_for_def signer_def issuer_def NATIVE_SIGNER_def)
  have v: "vf_certificate_verified v \<and> vf_identity v = Some ''https://dotcom.releases.github.com'' \<and> vf_timestamps v \<noteq> 0"
    using b(3) by (simp add: verification_accepted_def signer_def NATIVE_SIGNER_def)
  show ?thesis using bundle_claim_Some [OF b(1)] b(2) v unfolding s by (intro exI [of _ bun] exI [of _ hash] exI) auto
qed

lemma checked_proofs:
  assumes "list_all2 (proof_checked L E policy expected) sources proofs" "(body, payload, m) \<in> set proofs"
  shows "authentic L E policy body payload \<and> native_claim_matches L payload expected = Some m"
  using assms by (induction rule: list_all2_induct) (auto simp: proof_checked_def)

section \<open>Assets\<close>

text \<open>The loop as a computation, and one successful round of it.\<close>

lemma read_body_unfold:
  assumes "length body \<le> limit" "n = min (length chunk) (limit + 1 - length body)"
  shows "read_body E source limit budget chunk body =
    bnd (check E budget) (\<lambda>_.
    bnd (\<lambda>w. case te_read E source n w of (w, answer) \<Rightarrow> option_or TrustUnavailable answer w) (\<lambda>(data, count).
    bnd (check E budget) (\<lambda>_.
    bnd (demand (\<not> count > n)) (\<lambda>_.
    if count = 0 then ret body
    else read_body E source limit budget (overwrite data (take n chunk) @ drop n chunk)
      (body @ take count (overwrite data (take n chunk) @ drop n chunk))))))"
proof
  fix w
  show "read_body E source limit budget chunk body w = bnd (check E budget) (\<lambda>_.
    bnd (\<lambda>w. case te_read E source n w of (w, answer) \<Rightarrow> option_or TrustUnavailable answer w) (\<lambda>(data, count).
    bnd (check E budget) (\<lambda>_.
    bnd (demand (\<not> count > n)) (\<lambda>_.
    if count = 0 then ret body
    else read_body E source limit budget (overwrite data (take n chunk) @ drop n chunk)
      (body @ take count (overwrite data (take n chunk) @ drop n chunk)))))) w"
  proof (cases "check E budget w")
    case (Pair w1 c)
    obtain w2 a where t: "te_read E source n w1 = (w2, a)" by fastforce
    obtain w3 d where d: "check E budget w2 = (w3, d)" by fastforce
    show ?thesis
      using assms Pair t d
      by (cases c; cases a; cases d)
        (simp_all add: read_body.simps [of E source limit budget chunk body w] bnd_def ret_def throw_def ensure_def
          option_or_def case_prod_beta Let_def)
  qed
qed

lemma read_body_round:
  assumes "read_body E source limit budget chunk body w = (w', Inr r)"
  shows "length body \<le> limit \<and> (r = body \<or> (\<exists>chunk' more w1. more \<noteq> []
    \<and> read_body E source limit budget chunk' (body @ more) w1 = (w', Inr r)))"
proof -
  let ?n = "min (length chunk) (limit + 1 - length body)"
  have l: "length body \<le> limit"
    using assms by (cases "length body \<le> limit") (simp_all add: read_body.simps [of E source limit budget chunk body w])
  obtain data count w3 where c: "\<not> count > ?n" and step: "(if count = 0 then ret body
      else read_body E source limit budget (overwrite data (take ?n chunk) @ drop ?n chunk)
        (body @ take count (overwrite data (take ?n chunk) @ drop ?n chunk))) w3 = (w', Inr r)"
    using assms unfolding read_body_unfold [OF l refl] by (auto simp only: bnd_Inr pure_Inr split_paired_Ex prod.case)
  show ?thesis
  proof (cases "count = 0")
    case True
    then show ?thesis using step l by (simp add: pure_Inr)
  next
    case False
    moreover have "length (take count (overwrite data (take ?n chunk) @ drop ?n chunk)) = count" using c by simp
    ultimately have "take count (overwrite data (take ?n chunk) @ drop ?n chunk) \<noteq> []" by (metis list.size(3))
    then show ?thesis using step l unfolding if_not_P [OF False] by blast
  qed
qed

lemma read_body_Inr:
  "read_body E source limit budget chunk body w = (w', Inr r) \<Longrightarrow> length r \<le> limit"
proof (induction "Suc limit - length body" arbitrary: chunk body w rule: less_induct)
  case less
  then consider "r = body" "length body \<le> limit"
    | chunk' more w1 where "length body \<le> limit" "more \<noteq> []" "read_body E source limit budget chunk' (body @ more) w1 = (w', Inr r)"
    using read_body_round [OF less.prems] by blast
  then show ?case
  proof cases
    case 2
    then have "Suc limit - length (body @ more) < Suc limit - length body" by (cases more) auto
    then show ?thesis using 2(3) by (rule less.hyps)
  qed simp
qed

lemma read_response_Inr:
  assumes "read_response E response limit budget w = (w', Inr body)"
  shows "rs_status response = 200 \<and> body \<noteq> [] \<and> length body \<le> limit"
proof -
  obtain w1 w2 where r: "rs_status response = 200" "body \<noteq> []"
    "read_body E (rs_body response) limit budget empty_chunk [] w1 = (w2, Inr body)"
    using assms by (auto simp: read_response_def run_simps)
  show ?thesis using r(1,2) read_body_Inr [OF r(3)] by simp
qed

lemma acquire_digest_checked_asset_Inr:
  assumes "acquire_digest_checked_asset L E asset_id p budget w = (w', Inr body)"
  shows "body \<noteq> [] \<and> length body = unat (ap_size p) \<and> sha256_hex L body = ap_sha256 p"
  using assms by (auto simp: acquire_digest_checked_asset_def run_simps dest: read_response_Inr)

section \<open>Well-behaved readers\<close>

text \<open>
  The documented behaviour of \<open>Read::read\<close>, while the budget lasts: the bytes reported are the next bytes of the
  stream, no more than fit, and none only at its end or when there is no room.
\<close>

locale reader =
  fixes E :: "('w, 'r, 'b) trust_env" and budget :: selection_budget and stream :: "'w \<Rightarrow> nat \<Rightarrow> bytes"
  assumes check_passes: "\<exists>w'. check E budget w = (w', Inr ()) \<and> stream w' = stream w"
    and read_gives: "\<exists>w' count. te_read E source n w = (w', Some (take count (stream w source), count))
      \<and> count \<le> n \<and> count \<le> length (stream w source) \<and> (count = 0 \<longleftrightarrow> n = 0 \<or> stream w source = [])
      \<and> stream w' = (stream w)(source := drop count (stream w source))"
begin

lemma read_body_exact:
  assumes "chunk \<noteq> []"
  shows "snd (read_body E source limit budget chunk body w) =
    (if length body + length (stream w source) \<le> limit then Inr (body @ stream w source) else Inl TrustRefused)"
  using assms
proof (induction "length (stream w source)" arbitrary: chunk body w rule: less_induct)
  case less
  show ?case
  proof (cases "length body \<le> limit")
    case False
    then show ?thesis by (simp add: read_body.simps [of E source limit budget chunk body w])
  next
    case True
    define n where "n = min (length chunk) (limit + 1 - length body)"
    obtain w1 where c: "check E budget w = (w1, Inr ())" "stream w1 = stream w" using check_passes by blast
    obtain w2 count where r: "te_read E source n w1 = (w2, Some (take count (stream w source), count))" "count \<le> n"
      "count \<le> length (stream w source)" "count = 0 \<longleftrightarrow> n = 0 \<or> stream w source = []"
      "stream w2 = (stream w)(source := drop count (stream w source))"
      using read_gives [of source n w1] unfolding c(2) by blast
    obtain w3 where d: "check E budget w2 = (w3, Inr ())" "stream w3 = stream w2" using check_passes by blast
    have n: "0 < n" using True less.prems by (auto simp: n_def)
    let ?chunk = "overwrite (take count (stream w source)) (take n chunk) @ drop n chunk"
    have data: "take count ?chunk = take count (stream w source)"
      using r(2,3) n_def by (simp add: overwrite_def)
    have eq: "snd (read_body E source limit budget chunk body w) =
        snd ((if count = 0 then ret body else read_body E source limit budget ?chunk (body @ take count ?chunk)) w3)"
      using r(1,2) c(1) d(1) unfolding read_body_unfold [OF True n_def]
      by (simp add: bnd_def option_or_def ret_def ensure_def)
    show ?thesis
    proof (cases "stream w source = []")
      case True
      then show ?thesis using eq r(4) \<open>length body \<le> limit\<close> by (simp add: ret_def)
    next
      case False
      then have pos: "count \<noteq> 0" using r(4) n by simp
      have rest: "stream w3 source = drop count (stream w source)" using d(2) r(5) by simp
      have "snd (read_body E source limit budget ?chunk (body @ take count ?chunk) w3) =
          (if length (body @ take count ?chunk) + length (stream w3 source) \<le> limit
           then Inr ((body @ take count ?chunk) @ stream w3 source) else Inl TrustRefused)"
        using n pos r(3) less.prems by (intro less.hyps) (auto simp: rest overwrite_def)
      then show ?thesis using eq pos r(3) unfolding data rest by simp
    qed
  qed
qed

lemma read_response_exact:
  "snd (read_response E response limit budget w) =
    (if rs_status response = 408 \<or> rs_status response = 429 \<or> rs_status response \<ge> 500 then Inl TrustUnavailable
     else if rs_status response = 200 \<and> stream w (rs_body response) \<noteq> []
             \<and> length (stream w (rs_body response)) \<le> limit
     then Inr (stream w (rs_body response)) else Inl TrustRefused)"
proof -
  obtain w1 where c: "check E budget w = (w1, Inr ())" "stream w1 = stream w" using check_passes by blast
  have "empty_chunk \<noteq> []" by (simp add: empty_chunk_def)
  from read_body_exact [OF this, of "rs_body response" limit "[]" w1]
  show ?thesis
    using c
    by (cases "read_body E (rs_body response) limit budget empty_chunk [] w1")
      (auto simp: read_response_def bnd_def ensure_def ret_def throw_def)
qed

end

end
