(* ===== verification/Trust_Properties.thy ===== *)
theory Trust_Properties
  imports Trust_Laws Json_Text
begin

text \<open>
  Properties of the trust policy, with a small simulated transport: pages by address, readers that give a bounded
  number of bytes at a time, a clock that stands still and a verifier that knows one bundle.
\<close>

section \<open>A simulated transport\<close>

record trust_world =
  tw_pages :: "(string \<times> bytes) list"
  tw_streams :: "nat \<Rightarrow> bytes"
  tw_next :: nat
  tw_chunk :: nat

definition sim_get :: "acquisition_request \<Rightarrow> (trust_error, trust_world, acquisition_response) comp" where
  "sim_get request w =
     (case map_of (tw_pages w) (aq_url request) of
        None \<Rightarrow> (w, Inl TrustUnavailable)
      | Some page \<Rightarrow>
          (w\<lparr>tw_streams := (tw_streams w)(tw_next w := page), tw_next := Suc (tw_next w)\<rparr>,
           Inr \<lparr>rs_status = 200, rs_body = tw_next w, rs_link_header_present = False\<rparr>))"

definition sim_fill :: "nat \<Rightarrow> nat \<Rightarrow> trust_world \<Rightarrow> trust_world \<times> (bytes \<times> nat) option" where
  "sim_fill source n w =
     (let count = min (min n (Suc (tw_chunk w))) (length (tw_streams w source)) in
      (w\<lparr>tw_streams := (tw_streams w)(source := drop count (tw_streams w source))\<rparr>,
       Some (take count (tw_streams w source), count)))"

text \<open>Roots are trusted as they are; a bundle stands for the payload it carries.\<close>

definition sim_env :: "bytes \<Rightarrow> bytes \<Rightarrow> bytes \<Rightarrow> (trust_world, unit, bytes) trust_env" where
  "sim_env root bundle_bytes payload =
     \<lparr>te_cancelled = (\<lambda>w. (w, False)), te_store_cancelled = id, te_parent_cancelled = (\<lambda>_ w. (w, False)),
      te_now = (\<lambda>w. (w, 0)), te_get = sim_get, te_read = sim_fill, te_root_bytes = (\<lambda>_. root),
      te_root = (\<lambda>_. Some ()), te_bundle = (\<lambda>b. if b = bundle_bytes then Some payload else None),
      te_envelope = (\<lambda>p. Some (''application/vnd.in-toto+json'', p)), te_rfc3161_timestamps = (\<lambda>_. 1),
      te_tlog_entries = (\<lambda>_. 0), te_verifier = (\<lambda>_. True), te_hash = Some,
      te_verify = (\<lambda>_ _ _ policy w. (w, Some \<lparr>vf_certificate_verified = True, vf_identity_policy_checked = True,
        vf_identity = Some (gp_identity policy), vf_issuer = None, vf_timestamps = 1, vf_tlog_verified = False\<rparr>)),
      te_decompress_len = (\<lambda>_. None), te_decompress = (\<lambda>_ _. None)\<rparr>"

definition sim_budget :: selection_budget where
  "sim_budget = \<lparr>sb_deadline = 1, sb_parent = None\<rparr>"

lemma sim_check: "check (sim_env root b p) sim_budget w = (w, Inr ())"
  by (simp add: check_def sim_env_def sim_budget_def parent_cancelled_def)

interpretation sim_reader: reader "sim_env root b p" sim_budget tw_streams
proof
  show "\<exists>w'. check (sim_env root b p) sim_budget w = (w', Inr ()) \<and> tw_streams w' = tw_streams w" for w
    by (simp add: sim_check)
  show "\<exists>w' count. te_read (sim_env root b p) source n w = (w', Some (take count (tw_streams w source), count))
      \<and> count \<le> n \<and> count \<le> length (tw_streams w source) \<and> (count = 0 \<longleftrightarrow> n = 0 \<or> tw_streams w source = [])
      \<and> tw_streams w' = (tw_streams w)(source := drop count (tw_streams w source))" for source n w
    by (intro exI conjI) (auto simp: sim_env_def sim_fill_def Let_def min_def split: if_splits)
qed

section \<open>Reading\<close>

text \<open>
  C9.  While the budget lasts and the reader keeps its contract, a response is read exactly: whatever pieces the
  reader gives, the result is the whole body if the status is 200 and the body is not empty and within the limit;
  overload and server errors are unavailable, everything else is refused.  An asset is acquired only with exactly the
  size and the digest of its proof, whatever the transport does.
\<close>

theorem response_read_exactly:
  assumes "reader E budget stream"
  shows "snd (read_response E response limit budget w) =
      (if rs_status response = 408 \<or> rs_status response = 429 \<or> rs_status response \<ge> 500 then Inl TrustUnavailable
       else if rs_status response = 200 \<and> stream w (rs_body response) \<noteq> []
               \<and> length (stream w (rs_body response)) \<le> limit
       then Inr (stream w (rs_body response)) else Inl TrustRefused)
    \<and> (snd (acquire_digest_checked_asset L F n p b v) = Inr body \<longrightarrow>
        body \<noteq> [] \<and> length body = unat (ap_size p) \<and> sha256_hex L body = ap_sha256 p)"
proof -
  have "body \<noteq> [] \<and> length body = unat (ap_size p) \<and> sha256_hex L body = ap_sha256 p"
    if "snd (acquire_digest_checked_asset L F n p b v) = Inr body"
  proof -
    obtain v' r where v: "acquire_digest_checked_asset L F n p b v = (v', r)" by fastforce
    with that have "r = Inr body" by simp
    with v show ?thesis by (simp add: acquire_digest_checked_asset_Inr)
  qed
  then show ?thesis using reader.read_response_exact [OF assms, of response limit w] by blast
qed

theorem response_read_exactly_witness:
  "snd (read_response (sim_env [] [] []) \<lparr>rs_status = 200, rs_body = 3, rs_link_header_present = False\<rparr> 5 sim_budget
     \<lparr>tw_pages = [], tw_streams = (\<lambda>_. []) (3 := ''abcde''), tw_next = 4, tw_chunk = 1\<rparr>) = Inr ''abcde''
   \<and> snd (read_response (sim_env [] [] []) \<lparr>rs_status = 200, rs_body = 3, rs_link_header_present = False\<rparr> 4 sim_budget
     \<lparr>tw_pages = [], tw_streams = (\<lambda>_. []) (3 := ''abcde''), tw_next = 4, tw_chunk = 1\<rparr>) = Inl TrustRefused"
proof -
  have "reader (sim_env [] [] []) sim_budget tw_streams" by (rule sim_reader.reader_axioms)
  from response_read_exactly [OF this, THEN conjunct1] show ?thesis by simp
qed

section \<open>Release claims\<close>

text \<open>
  One proof of a native release: the backend verified its bundle for GitHub's release signer under the pinned root, with
  a timestamp, and the signed statement is about the commit, names exactly the four assets, and has the digests of the
  expected ones if it is about the expected tag.
\<close>

definition native_proof :: "lib \<Rightarrow> ('w, 'r, 'b) trust_env \<Rightarrow> expected_release \<Rightarrow> bytes \<Rightarrow> bytes \<Rightarrow> bool" where
  "native_proof L E expected body payload =
     ((\<exists>bundle hash v t t'. te_bundle E body = Some bundle
         \<and> te_envelope E bundle = Some (''application/vnd.in-toto+json'', payload)
         \<and> sha256_hex L (te_root_bytes E NativeRelease) = fingerprint NativeRelease
         \<and> te_verify E (the (te_root E (te_root_bytes E NativeRelease))) hash bundle
             \<lparr>gp_identity = ''https://dotcom.releases.github.com'', gp_issuer = None, gp_skip_sct = True, gp_skip_tlog = True\<rparr> t
           = (t', Some v)
         \<and> vf_certificate_verified v \<and> vf_identity v = Some ''https://dotcom.releases.github.com'' \<and> vf_timestamps v \<noteq> 0)
      \<and> (\<exists>tag assets. native_statement L payload (ri_commit (er_identity expected)) = Some (tag, assets)
         \<and> dom (map_of assets) = {''install.sh'', ''release-index.json'', ''sbxr-linux-amd64.tar.gz'', ''sbxr-linux-arm64.tar.gz''}
         \<and> (tag = ri_tag (er_identity expected) \<longrightarrow>
             (\<forall>name p. map_of (er_assets expected) name = Some p \<longrightarrow> map_of assets name = Some (ap_sha256 p)))))"

lemma proof_checked_native:
  assumes "authentic L E \<lparr>vp_root = NativeRelease, vp_digest = ri_commit (er_identity expected)\<rparr> body payload"
    and "native_claim_matches L payload expected = Some m"
  shows "native_proof L E expected body payload
    \<and> (m \<longrightarrow> (\<exists>assets. native_statement L payload (ri_commit (er_identity expected)) = Some (ri_tag (er_identity expected), assets)))"
proof -
  obtain tag assets where n: "native_statement L payload (ri_commit (er_identity expected)) = Some (tag, assets)"
    "m \<longleftrightarrow> tag = ri_tag (er_identity expected)"
    "\<And>name p. m \<Longrightarrow> map_of (er_assets expected) name = Some p \<Longrightarrow> map_of assets name = Some (ap_sha256 p)"
    using native_claim_matches_Some [OF assms(2)] by metis
  have "dom (map_of assets) = {''install.sh'', ''release-index.json'', ''sbxr-linux-amd64.tar.gz'', ''sbxr-linux-arm64.tar.gz''}"
    using native_statement_Some [OF n(1)] by (auto simp: RELEASE_ASSET_NAMES_def)
  then show ?thesis using authentic_native [OF assms(1)] n unfolding native_proof_def by blast
qed

lemma native_claims:
  assumes "verify_native_release L E expected budget w = (w', Inr claims)"
  shows "vc_identity claims = er_identity expected \<and> vc_assets claims = er_assets expected
    \<and> (\<exists>proofs. length proofs = vc_proof_count claims \<and> 0 < length proofs \<and> length proofs \<le> 99
      \<and> (\<forall>body payload. (body, payload) \<in> set proofs \<longrightarrow> native_proof L E expected body payload)
      \<and> (\<exists>body payload assets. (body, payload) \<in> set proofs
          \<and> native_statement L payload (ri_commit (er_identity expected)) = Some (ri_tag (er_identity expected), assets)))"
proof -
  let ?policy = "\<lparr>vp_root = NativeRelease, vp_digest = ri_commit (er_identity expected)\<rparr>"
  obtain proofs sources where p: "claims = \<lparr>vc_identity = er_identity expected, vc_proof_count = length proofs, vc_assets = er_assets expected\<rparr>"
      "proofs \<noteq> []" "length proofs \<le> 99" "list_all2 (proof_checked L E ?policy expected) sources proofs"
      "list_ex (\<lambda>p. snd (snd p)) proofs"
    using verify_native_release_Inr [OF assms] by metis
  have checked: "native_proof L E expected body payload
      \<and> (m \<longrightarrow> (\<exists>assets. native_statement L payload (ri_commit (er_identity expected)) = Some (ri_tag (er_identity expected), assets)))"
    if "(body, payload, m) \<in> set proofs" for body payload m
    using proof_checked_native checked_proofs [OF p(4) that] by blast
  obtain body payload where m: "(body, payload, True) \<in> set proofs"
    using p(5) by (auto simp: list_ex_iff)
  let ?pairs = "map (\<lambda>(b, p, _). (b, p)) proofs"
  obtain assets where a: "native_statement L payload (ri_commit (er_identity expected)) = Some (ri_tag (er_identity expected), assets)"
    using checked [OF m] by auto
  show ?thesis
  proof (intro conjI exI [of _ ?pairs])
    show "\<forall>body payload. (body, payload) \<in> set ?pairs \<longrightarrow> native_proof L E expected body payload" using checked by auto
    have "(body, payload) \<in> set ?pairs" using m by force
    then show "\<exists>body payload assets. (body, payload) \<in> set ?pairs
        \<and> native_statement L payload (ri_commit (er_identity expected)) = Some (ri_tag (er_identity expected), assets)"
      using a by blast
  qed (use p(1-3) in auto)
qed

text \<open>
  C34.  The claims of a native release are authenticated, whatever the transport answers.  When \<open>verify_native_release\<close>
  returns, it looked at one to 99 proofs, and every one of them was verified for GitHub's release signer and signs
  exactly the four assets of this commit.  At least one is about the expected tag, and each of those has exactly the
  digests of the expected assets, so no two of them disagree.
\<close>

theorem native_claims_authenticated:
  assumes "verify_native_release L E expected budget w = (w', Inr claims)"
  shows "vc_identity claims = er_identity expected \<and> vc_assets claims = er_assets expected
    \<and> (\<exists>proofs. length proofs = vc_proof_count claims \<and> 0 < length proofs \<and> length proofs \<le> 99
      \<and> (\<forall>body payload. (body, payload) \<in> set proofs \<longrightarrow> native_proof L E expected body payload)
      \<and> (\<exists>body payload assets. (body, payload) \<in> set proofs
          \<and> native_statement L payload (ri_commit (er_identity expected)) = Some (ri_tag (er_identity expected), assets)))"
  using assms by (rule native_claims)

section \<open>A release that is accepted\<close>

definition claim_lib :: lib where
  "claim_lib = example_lib\<lparr>sha256_hex := (\<lambda>b. if b = ''{}'' then fingerprint NativeRelease else example_digest b)\<rparr>"

lemma claim_lib_reads: "from_slice claim_lib (to_vec claim_lib j) = Some j"
  by (simp add: claim_lib_def example_lib_def parse_json_pr)

lemma claim_lib_texts: "to_vec claim_lib j = pr j" "from_slice claim_lib ''{}'' = Some (JObj [])"
proof -
  have "pr (JObj []) = ''{}''" by (simp add: members_pr_kv)
  then show "from_slice claim_lib ''{}'' = Some (JObj [])" using claim_lib_reads [of "JObj []"] by (simp add: claim_lib_def example_lib_def)
  show "to_vec claim_lib j = pr j" by (simp add: claim_lib_def example_lib_def)
qed

definition claim_digest :: string where
  "claim_digest = ''cccccccccccccccccccccccccccccccccccccccccccccccccccccccccccccccc''"

definition claim_commit :: string where
  "claim_commit = ''aaaaaaaaaaaaaaaaaaaaaaaaaaaaaaaaaaaaaaaa''"

definition claim_release :: expected_release where
  "claim_release = \<lparr>er_identity = \<lparr>ri_repository = REPOSITORY, ri_tag = ''v1.2.3'', ri_commit = claim_commit, ri_index_sha256 = claim_digest\<rparr>,
     er_assets = map (\<lambda>n. (n, \<lparr>ap_name = n, ap_size = 9, ap_sha256 = claim_digest\<rparr>)) RELEASE_ASSET_NAMES\<rparr>"

definition claim_statement :: json where
  "claim_statement = JObj
     [(''_type'', JStr ''https://in-toto.io/Statement/v1''),
      (''predicate'', JObj [(''databaseId'', JStr ''1''), (''ownerId'', JStr ''2''), (''packageId'', JStr ''3''),
        (''purl'', JStr ''pkg:github/albertloky/SBXR@v1.2.3''), (''repository'', JStr ''albertloky/SBXR''),
        (''repositoryId'', JStr ''4''), (''tag'', JStr ''v1.2.3'')]),
      (''predicateType'', JStr ''https://in-toto.io/attestation/release/v0.2''),
      (''subject'', JArr (JObj [(''digest'', JObj [(''sha1'', JStr claim_commit)]), (''uri'', JStr ''pkg:github/albertloky/SBXR@v1.2.3'')]
        # map (\<lambda>n. JObj [(''digest'', JObj [(''sha256'', JStr claim_digest)]), (''name'', JStr n)]) RELEASE_ASSET_NAMES))]"

definition claim_bundle :: json where
  "claim_bundle = JObj
     [(''dsseEnvelope'', JObj [(''payload'', JStr ''x''), (''payloadType'', JStr ''y''), (''signatures'', JArr [JObj [(''sig'', JStr ''z'')]])]),
      (''mediaType'', JStr ''m''),
      (''verificationMaterial'', JObj [(''certificate'', JObj [(''rawBytes'', JStr ''c'')]),
        (''timestampVerificationData'', JObj [(''rfc3161Timestamps'', JArr [JObj [(''signedTimestamp'', JStr ''t'')]])])])]"

definition claim_page :: json where
  "claim_page = JObj [(''attestations'', JArr [JObj [(''bundle'', claim_bundle), (''initiator'', JStr ''github'')]])]"

abbreviation claim_env :: "(trust_world, unit, bytes) trust_env" where
  "claim_env \<equiv> sim_env ''{}'' (pr claim_bundle) (pr claim_statement)"

definition claim_world :: trust_world where
  "claim_world = \<lparr>tw_pages = [(API @ ''/attestations/sha1:'' @ claim_commit @ ''?predicate_type=release&per_page=100'', pr claim_page)],
     tw_streams = (\<lambda>_. []), tw_next = 0, tw_chunk = 10\<rparr>"

lemmas claim_defs = claim_statement_def claim_bundle_def claim_page_def claim_commit_def claim_digest_def RELEASE_ASSET_NAMES_def

lemma claim_lengths: "length (pr claim_statement) \<le> 2000" "length (pr claim_bundle) \<le> 2000" "length (pr claim_page) \<le> 2000"
  by code_simp+

lemma claim_values: "value_of claim_statement = claim_statement" "value_of claim_bundle = claim_bundle" "value_of claim_page = claim_page"
  by code_simp+

lemma claim_trees: "unique_json claim_statement" "unique_json claim_bundle" "unique_json claim_page"
  by code_simp+

lemma claim_nodes: "json_nodes claim_statement \<le> MAX_JSON_NODES" "json_nodes claim_bundle \<le> MAX_JSON_NODES"
  "json_nodes claim_page \<le> MAX_JSON_NODES"
  by (simp_all add: claim_defs MAX_JSON_NODES_def)

lemma claim_utf8: "from_utf8 (pr claim_bundle) = Some (pr claim_bundle)" "from_utf8 ''{}'' = Some ''{}''"
  by code_simp+

lemma claim_objects:
  "json_object claim_lib (pr claim_statement) MAX_BUNDLE_BYTES = Some claim_statement"
  "json_object claim_lib (pr claim_bundle) MAX_BUNDLE_BYTES = Some claim_bundle"
  "json_object claim_lib (pr claim_page) MAX_BUNDLE_BYTES = Some claim_page"
  "json_object claim_lib ''{}'' MAX_BUNDLE_BYTES = Some (JObj [])"
proof -
  have r: "from_slice claim_lib (pr j) = Some j" "pr j \<noteq> []" for j
    using claim_lib_reads [of j] pr_head [of j] by (auto simp: claim_lib_texts)
  have o: "is_object claim_statement" "is_object claim_bundle" "is_object claim_page"
    by (simp_all add: claim_defs is_object_def)
  show "json_object claim_lib (pr claim_statement) MAX_BUNDLE_BYTES = Some claim_statement"
    "json_object claim_lib (pr claim_bundle) MAX_BUNDLE_BYTES = Some claim_bundle"
    "json_object claim_lib (pr claim_page) MAX_BUNDLE_BYTES = Some claim_page"
    using claim_lengths claim_trees claim_nodes claim_values o
    by (simp_all add: json_object_def r MAX_BUNDLE_BYTES_def)
  show "json_object claim_lib ''{}'' MAX_BUNDLE_BYTES = Some (JObj [])"
    by (simp add: json_object_def claim_lib_texts MAX_BUNDLE_BYTES_def MAX_JSON_NODES_def is_object_def bt_of_def)
qed

lemma claim_fields: "bundle_fields claim_bundle = Some ()"
  by code_simp

abbreviation claim_policy :: verification_policy where
  "claim_policy \<equiv> \<lparr>vp_root = NativeRelease, vp_digest = claim_commit\<rparr>"

lemma claim_bundle_checked:
  "bundle_claim claim_lib claim_env (pr claim_bundle) claim_policy = Some ((), pr claim_statement, pr claim_statement, claim_digest)"
proof -
  have "Option.bind (jget ''_type'' claim_statement) as_str = Some ''https://in-toto.io/Statement/v1''"
    "lower_hex claim_digest 64"
    by code_simp+
  moreover have "\<exists>v subjects. jget ''subject'' claim_statement = Some v \<and> as_array v = Some subjects
      \<and> list_ex (\<lambda>subject. subject_digest ''sha1'' subject = Some claim_commit) subjects
      \<and> find_map (subject_digest ''sha256'') subjects = Some claim_digest"
    by (simp add: claim_statement_def jget_def as_array_def subject_digest_def as_str_def RELEASE_ASSET_NAMES_def)
  moreover have "sha256_hex claim_lib ''{}'' = fingerprint NativeRelease" by (simp add: claim_lib_def)
  ultimately show ?thesis
    by (auto simp: bundle_claim_def root_bytes_def claim_objects claim_fields claim_utf8 guard_def sim_env_def Let_def
        binding_of_def digest_algorithm_def)
qed

lemma claim_matches: "native_claim_matches claim_lib (pr claim_statement) claim_release = Some True"
proof -
  have t: "new_stable_identity ''v1.2.3'' claim_commit (replicate 64 CHR ''0'') \<noteq> None" by code_simp
  have h: "lower_hex claim_commit 40" "lower_hex claim_digest 64" by code_simp+
  have "native_statement claim_lib (pr claim_statement) claim_commit = Some (''v1.2.3'', map (\<lambda>n. (n, claim_digest)) RELEASE_ASSET_NAMES)"
    using t h unfolding native_statement_def claim_objects
    by (auto simp: claim_statement_def json_fields_def as_object_def member_of_def as_str_def guard_def statement_predicate_def
        each_def REPOSITORY_def as_array_def RELEASE_ASSET_NAMES_def absent_or_empty_def digest_of_def)
  then show ?thesis
    by (simp add: native_claim_matches_def claim_release_def RELEASE_ASSET_NAMES_def)
qed

lemma claim_verified:
  "verify_bundle claim_lib claim_env (pr claim_bundle) claim_policy sim_budget w =
    (w, Inr \<lparr>vs_payload = pr claim_statement, vs_policy = claim_policy, vs_bundle_sha256 = sha256_hex claim_lib (pr claim_bundle)\<rparr>)"
proof -
  have "verification_accepted claim_policy \<lparr>vf_certificate_verified = True, vf_identity_policy_checked = True,
      vf_identity = Some (gp_identity (signer_policy_for claim_policy)), vf_issuer = None, vf_timestamps = 1, vf_tlog_verified = False\<rparr>"
    by (simp add: verification_accepted_def signer_policy_for_def issuer_def)
  then show ?thesis
    by (simp add: verify_bundle_def bnd_def sim_check claim_bundle_checked option_or_def ret_def backend_verify_def ensure_def)
      (simp add: sim_env_def bnd_def option_or_def ret_def ensure_def)
qed

lemma claim_attestations:
  "\<exists>w. acquire_native_attestations claim_lib claim_env claim_commit sim_budget claim_world = (w, Inr [Inline (pr claim_bundle)])"
proof -
  let ?r = "\<lparr>rs_status = 200, rs_body = 0, rs_link_header_present = False\<rparr>"
  let ?w = "claim_world\<lparr>tw_streams := (tw_streams claim_world)(0 := pr claim_page), tw_next := 1\<rparr>"
  have n: "pr claim_page \<noteq> []" using pr_head [of claim_page] by auto
  have "snd (read_response claim_env ?r MAX_BUNDLE_BYTES sim_budget ?w) = Inr (pr claim_page)"
    using claim_lengths(3) n by (simp add: sim_reader.read_response_exact MAX_BUNDLE_BYTES_def)
  then obtain w where w: "read_response claim_env ?r MAX_BUNDLE_BYTES sim_budget ?w = (w, Inr (pr claim_page))"
    by (cases "read_response claim_env ?r MAX_BUNDLE_BYTES sim_budget ?w") auto
  have p: "native_release claim_commit = Some claim_policy" by code_simp
  have g: "te_get claim_env \<lparr>aq_url = API @ ''/attestations/sha1:'' @ claim_commit @ ''?predicate_type=release&per_page=100'',
      aq_limit = MAX_BUNDLE_BYTES, aq_json = True\<rparr> claim_world = (?w, Inr ?r)"
    by (simp add: sim_env_def sim_get_def claim_world_def)
  have a: "Option.bind (jget ''attestations'' claim_page) as_array = Some [JObj [(''bundle'', claim_bundle), (''initiator'', JStr ''github'')]]"
    by (simp add: claim_page_def jget_def as_array_def)
  have b: "attestation_bundle claim_lib (JObj [(''bundle'', claim_bundle), (''initiator'', JStr ''github'')]) = Some (Inline (pr claim_bundle))"
  proof -
    have "non_null [(''bundle'', claim_bundle), (''initiator'', JStr ''github'')] ''bundle'' = Some claim_bundle" "is_object claim_bundle"
      by (simp_all add: non_null_def claim_bundle_def is_object_def)
    then show ?thesis
      using claim_lengths(2)
      by (simp add: attestation_bundle_def as_object_def as_str_def guard_def claim_lib_texts MAX_BUNDLE_BYTES_def)
  qed
  have "decode_attestations claim_lib claim_env (pr claim_page) False sim_budget w = (w, Inr [Inline (pr claim_bundle)])"
    by (simp add: decode_attestations_def bnd_def sim_check claim_objects a b option_or_def ensure_def ret_def MAX_NATIVE_PROOFS_def)
  then show ?thesis using w g p by (simp add: acquire_native_attestations_def bnd_def sim_check option_or_def ret_def)
qed

lemma claim_accepted:
  "\<exists>w. verify_native_release claim_lib claim_env claim_release sim_budget claim_world
    = (w, Inr \<lparr>vc_identity = er_identity claim_release, vc_proof_count = 1, vc_assets = er_assets claim_release\<rparr>)"
proof -
  obtain w where w: "acquire_native_attestations claim_lib claim_env claim_commit sim_budget claim_world = (w, Inr [Inline (pr claim_bundle)])"
    using claim_attestations by blast
  have c: "ri_commit (er_identity claim_release) = claim_commit" by (simp add: claim_release_def)
  have p: "native_release claim_commit = Some claim_policy" by code_simp
  have "resolve_bundle claim_lib claim_env (Inline (pr claim_bundle)) sim_budget w = (w, Inr (pr claim_bundle))"
    by (simp add: resolve_bundle_def bundle_body_def bnd_def sim_check claim_objects option_or_def ret_def)
  then have "verify_proofs claim_lib claim_env [Inline (pr claim_bundle)] claim_policy claim_release sim_budget [0] False w = (w, Inr True)"
    by (simp add: bnd_def sim_check acquire_bundle_def nth_opt_def option_or_def ret_def claim_verified claim_matches)
  then show ?thesis
    using w by (simp add: verify_native_release_def bnd_def c p sim_check option_or_def ret_def ensure_def)
qed

theorem native_claims_authenticated_witness:
  "\<exists>w claims. verify_native_release claim_lib claim_env claim_release sim_budget claim_world = (w, Inr claims)
    \<and> (\<exists>body payload assets. native_proof claim_lib claim_env claim_release body payload
        \<and> native_statement claim_lib payload claim_commit = Some (''v1.2.3'', assets))"
proof -
  obtain w where w: "verify_native_release claim_lib claim_env claim_release sim_budget claim_world
      = (w, Inr \<lparr>vc_identity = er_identity claim_release, vc_proof_count = 1, vc_assets = er_assets claim_release\<rparr>)"
    using claim_accepted by blast
  from native_claims_authenticated [OF w] have "\<exists>body payload assets. native_proof claim_lib claim_env claim_release body payload
        \<and> native_statement claim_lib payload claim_commit = Some (''v1.2.3'', assets)"
    by (auto simp: claim_release_def)
  then show ?thesis using w by blast
qed

end
