(* ===== verification/Release_Archive.thy ===== *)
theory Release_Archive
  imports Artifact_Trust
begin

text \<open>
  \<open>src/release_archive.rs\<close>, the bounded decoder of an archive with one member, and
  \<open>src/release_acquisition/acceptance.rs\<close>, the Acceptance Record of a release.  The gzip decoder of \<open>flate2\<close> and the
  padded base64 engine of the base64 crate are the record \<open>archive_env\<close>.
\<close>

section \<open>Archives\<close>

record 'z archive_env =
  gz_new :: "bytes \<Rightarrow> 'z"
  gz_read :: "nat \<Rightarrow> 'z \<Rightarrow> ('z \<times> bytes) option"
  gz_rest :: "'z \<Rightarrow> bytes"
  std_decode :: "string \<Rightarrow> bytes option"
  std_encode :: "bytes \<Rightarrow> string"

text \<open>The loop that inflates: the decoder fills at most its buffer of 8192 bytes and is at the end when it gives none.\<close>

function inflate ::
  "('w, 'r, 'b) trust_env \<Rightarrow> 'z archive_env \<Rightarrow> selection_budget \<Rightarrow> nat \<Rightarrow> 'z \<Rightarrow> bytes \<Rightarrow> (trust_error, 'w, 'z \<times> bytes) comp" where
  "inflate E G budget limit decoder tar w =
     (case check E budget w of
        (w, Inl e) \<Rightarrow> (w, Inl e)
      | (w, Inr _) \<Rightarrow>
          (case gz_read G 8192 decoder of
             None \<Rightarrow> (w, Inl TrustRefused)
           | Some (decoder, part) \<Rightarrow>
               let part = take 8192 part in
               (case check E budget w of
                  (w, Inl e) \<Rightarrow> (w, Inl e)
                | (w, Inr _) \<Rightarrow>
                    if part = [] then (w, Inr (decoder, tar))
                    else if length tar + length part > limit + 2048 then (w, Inl TrustRefused)
                    else inflate E G budget limit decoder (tar @ part) w)))"
  by pat_completeness auto
termination
proof (relation "measure (\<lambda>(E, G, budget, limit, decoder, tar, w). limit + 2048 - length tar)", goal_cases)
  case 1
  show ?case by simp
next
  case 2
  then show ?case by (auto simp: neq_Nil_conv)
qed

declare inflate.simps [simp del]

definition trim_matches :: "char set \<Rightarrow> string \<Rightarrow> string" where
  "trim_matches cs s = rev (dropWhile (\<lambda>c. c \<in> cs) (rev (dropWhile (\<lambda>c. c \<in> cs) s)))"

definition octal :: "bytes \<Rightarrow> nat option" where
  "octal bytes = do {
     s \<leftarrow> from_utf8 bytes;
     let value = trim_matches {CHR 0x00, CHR '' ''} s;
     (if value = [] \<or> \<not> list_all (\<lambda>b. CHR ''0'' \<le> b \<and> b \<le> CHR ''7'') value then None
      else from_str_radix 8 value)
   }"

definition header_text :: "bytes \<Rightarrow> string option" where
  "header_text bytes =
     (let n = (case position (\<lambda>b. b = CHR 0x00) bytes of None \<Rightarrow> length bytes | Some n \<Rightarrow> n) in
      if list_ex (\<lambda>b. b \<noteq> CHR 0x00) (drop n bytes) then None else from_utf8 (take n bytes))"

definition slice :: "bytes \<Rightarrow> nat \<Rightarrow> nat \<Rightarrow> bytes" where
  "slice bytes from to = take (to - from) (drop from bytes)"

definition tar_checksum :: "bytes \<Rightarrow> nat" where
  "tar_checksum header =
     sum_list (map (\<lambda>(i, b). if 148 \<le> i \<and> i < 156 then 32 else of_char b) (enumerate 0 header))"

definition div_ceil :: "nat \<Rightarrow> nat \<Rightarrow> nat" where
  "div_ceil n d = (n + d - 1) div d"

text \<open>The checks of the inflated bytes and the member they hold.\<close>

definition tar_member :: "bytes \<Rightarrow> nat \<Rightarrow> bytes option" where
  "tar_member tar limit = do {
     guard (512 \<le> length tar);
     let header = take 512 tar;
     checksum \<leftarrow> octal (slice header 148 156);
     size \<leftarrow> octal (slice header 124 136);
     guard (checksum = tar_checksum header);
     name \<leftarrow> header_text (slice header 0 100);
     guard (name = ''sbxr'');
     guard (header ! 156 = CHR ''0'');
     link \<leftarrow> header_text (slice header 157 257);
     guard (link = []);
     mode \<leftarrow> octal (slice header 100 108);
     guard (mode = 493);
     uid \<leftarrow> octal (slice header 108 116);
     guard (uid = 0);
     gid \<leftarrow> octal (slice header 116 124);
     guard (gid = 0);
     uname \<leftarrow> header_text (slice header 265 297);
     guard (uname = [] \<or> uname = ''root'');
     gname \<leftarrow> header_text (slice header 297 329);
     guard (gname = [] \<or> gname = ''root'');
     prefix \<leftarrow> header_text (slice header 345 500);
     guard (prefix = []);
     guard (slice header 257 265 = ''ustar'' @ [CHR 0x00] @ ''00'');
     guard (size \<noteq> 0 \<and> size \<le> limit \<and> length tar = div_ceil (512 + size) 512 * 512 + 1024
       \<and> \<not> list_ex (\<lambda>b. b \<noteq> CHR 0x00) (drop (512 + size) tar));
     Some (slice tar 512 (512 + size))
   }"

definition unpack_limit ::
  "('w, 'r, 'b) trust_env \<Rightarrow> 'z archive_env \<Rightarrow> bytes \<Rightarrow> selection_budget \<Rightarrow> nat \<Rightarrow> (trust_error, 'w, bytes) comp" where
  "unpack_limit E G archive budget limit =
     bnd (check E budget) (\<lambda>_.
     bnd (demand (archive \<noteq> [] \<and> length archive \<le> MAX_EXECUTABLE_BYTES)) (\<lambda>_.
     bnd (inflate E G budget limit (gz_new G archive) []) (\<lambda>(decoder, tar).
     bnd (demand (gz_rest G decoder = [])) (\<lambda>_.
     bnd (refused (tar_member tar limit)) (\<lambda>member.
     bnd (check E budget) (\<lambda>_.
     ret member))))))"

definition unpack ::
  "('w, 'r, 'b) trust_env \<Rightarrow> 'z archive_env \<Rightarrow> bytes \<Rightarrow> selection_budget \<Rightarrow> (trust_error, 'w, bytes) comp" where
  "unpack E G archive budget = unpack_limit E G archive budget MAX_EXECUTABLE_BYTES"

section \<open>Acceptance Records\<close>

definition SUPPORT :: string where
  "SUPPORT =
     ''{'' @ quoted ''scope'' @ '':'' @ quoted ''subscription-clean-install-only'' @ '','' @ quoted ''sources'' @ '':[],''
     @ quoted ''contract'' @ '':'' @ quoted ''sbxr-subscription-update-v1'' @ ''}''"

text \<open>\<open>body.matches(p).count()\<close>: the places where the pattern occurs, searched on behind each of them.\<close>

fun count_from :: "nat \<Rightarrow> string \<Rightarrow> string \<Rightarrow> nat" where
  "count_from k p [] = 0"
| "count_from (Suc k) p (c # cs) = count_from k p cs"
| "count_from 0 p (c # cs) =
     (if starts_with p (c # cs) then Suc (count_from (length p - 1) p cs) else count_from 0 p cs)"

text \<open>\<open>body.lines()\<close> of a body without carriage returns that ends with a newline.\<close>

definition body_lines :: "string \<Rightarrow> string list" where
  "body_lines body = split_terminator newline body"

definition value_of_key :: "string \<Rightarrow> string \<Rightarrow> string option" where
  "value_of_key body key =
     (case List.map_filter (strip_prefix key) (body_lines body) of [v] \<Rightarrow> Some v | _ \<Rightarrow> None)"

fun split_on :: "(char \<Rightarrow> bool) \<Rightarrow> string \<Rightarrow> string list" where
  "split_on p [] = [[]]"
| "split_on p (c # cs) =
     (if p c then [] # split_on p cs else (case split_on p cs of [] \<Rightarrow> [[c]] | x # xs \<Rightarrow> (c # x) # xs))"

definition version_parts :: "string \<Rightarrow> char list \<Rightarrow> nat \<Rightarrow> nat \<Rightarrow> bool" where
  "version_parts version pattern least greatest =
     (let parts = split_on (\<lambda>c. c \<in> set pattern) version in
      least \<le> length parts \<and> length parts \<le> greatest \<and> list_all (\<lambda>p. p \<noteq> [] \<and> list_all is_ascii_digit p) parts)"

definition workflow_url :: "string \<Rightarrow> bool" where
  "workflow_url s =
     is_some_and (\<lambda>run. \<not> starts_with ''0'' run \<and> run \<noteq> [] \<and> list_all is_ascii_digit run)
       (strip_prefix ''https://github.com/albertloky/SBXR/actions/runs/'' s)"

text \<open>\<open>str::split_whitespace\<close> on the characters of a text.\<close>

fun split_spaces :: "nat list \<Rightarrow> nat list \<Rightarrow> nat list list" where
  "split_spaces word [] = (if word = [] then [] else [word])"
| "split_spaces word (c # cs) =
     (if is_whitespace c then (if word = [] then split_spaces [] cs else word # split_spaces [] cs)
      else split_spaces (word @ [c]) cs)"

definition split_whitespace :: "string \<Rightarrow> string list" where
  "split_whitespace s =
     (case utf8_chars s of None \<Rightarrow> [] | Some cs \<Rightarrow> map (\<lambda>w. concat (map encode_utf8 w)) (split_spaces [] cs))"

definition parse_u64 :: "string \<Rightarrow> u64 option" where
  "parse_u64 s = do {
     n \<leftarrow> from_str_radix 10 s;
     (if n < 2 ^ 64 then Some (of_nat n) else None)
   }"

definition required_values :: "release_identity \<Rightarrow> (string \<times> string) list" where
  "required_values identity =
     [(''Status: '', ''Qualified''),
      (''Repository: '', REPOSITORY),
      (''Tag: '', ri_tag identity),
      (''Commit: '', ri_commit identity),
      (''Module Verification: '', ''Passed''),
      (''Seam Verification: '', ''Passed''),
      (''Integrated Verification: '', ''Passed on live Ubuntu Server 24.04 amd64 and Karing macOS''),
      (''Codex Live Acceptance: '', ''Passed''),
      (''Owner Acceptance: '', ''Not required''),
      (''Stable result code: '', ''RELEASE-V3-SUBSCRIPTION-CLEAN-INSTALL-QUALIFICATION''),
      (''Runner: '', ''Ubuntu Server 24.04 linux/amd64''),
      (''Public verifier: '', ''1.3.0 26B3382D5700AFBCD84F980D1D5B6C52BFF743DC2A8EE86B8B44C8E1245CE485''),
      (''Secret-safe result: '', ''Passed''),
      (''Qualification role: '', ''Clean-installed subscription-capable V3 release''),
      (''Karing macOS: '', ''Passed''),
      (''Natural timer firing and naturally due certificate renewal: '', ''Not observed''),
      (''Unsupported new or renamed renewal route: '', ''May execute before detection; historical outcomes unknown''),
      (''Release index SHA-256: '', ri_index_sha256 identity),
      (''Release support: '', SUPPORT),
      (''Evidence policy: '', ''mvp-http-live-v1''),
      (''Incoming source upgrades: '', ''Not applicable''),
      (''Two-release update/recovery: '', ''Not applicable''),
      (''Live acceptance coverage: '',
       ''Five normal product journeys; interruption, contention, drift, forced outage and scheduled-refresh variants not observed live''),
      (''Karing connectivity evidence: '',
       ''Real subscription import, one node, fresh per-node latency and manual refresh; selected connection preserved; no Karing browsing or automatic-refresh timing claim''),
      (''Subscription transport: '',
       ''HTTP; subscription credentials and configuration are exposed to interception and tampering'')]"

definition proxy_packages :: "string list" where
  "proxy_packages =
     [''sing-box 1.13.19 amd64 fb628b8cedf3e4c7cb32aa9c5103e0457e65ebb35ef510d041118836ef3b33bf'',
      ''sing-box 1.14.3 amd64 ed7feaa6c2083d58a7195866bf25a2693abc2beaf5c0d192c9370ffa39e0fd6e'']"

definition refused_prefixes :: "string list" where
  "refused_prefixes =
     [''Owner exception: '', ''Automated-only scenarios (not live): '', ''Automated-only result: '',
      ''Automated-only checks (not live): '', ''Karing checks not performed: '', ''Recurring evidence policy: '',
      ''Recurring live acceptance coverage: '', ''Recurring Karing evidence: '', ''Journey: '']"

definition expected_scenarios :: "string list" where
  "expected_scenarios = [''mvp-install'', ''mvp-subscription'', ''mvp-credentials'', ''mvp-serving'', ''mvp-removal'']"

fun scenarios :: "string list \<Rightarrow> string list \<Rightarrow> string list option" where
  "scenarios seen [] = Some seen"
| "scenarios seen (line # ls) =
     (case split_whitespace line of
        [name, digest, evidence] \<Rightarrow>
          if name \<notin> set expected_scenarios \<or> name \<in> set seen \<or> \<not> lower_hex digest 64
             \<or> \<not> is_some_and workflow_url (strip_suffix ''#artifacts'' evidence) then None
          else scenarios (name # seen) ls
      | _ \<Rightarrow> None)"

definition karing_package :: "string list \<Rightarrow> bool" where
  "karing_package karing =
     (length karing = 4 \<and> karing ! 0 = ''karing'' \<and> (karing ! 2 = ''macos-arm64'' \<or> karing ! 2 = ''macos-amd64'')
      \<and> lower_hex (karing ! 3) 64 \<and> version_parts (karing ! 1) ''.-'' 1 6)"

definition acceptance_check :: "string \<Rightarrow> release_identity \<Rightarrow> asset_proof list \<Rightarrow> u64 option" where
  "acceptance_check body identity assets = do {
     guard (body \<noteq> [] \<and> length body \<le> 64 * 1024 \<and> CHR 0x0D \<notin> set body \<and> CHR 0x00 \<notin> set body
       \<and> ends_with [newline] body \<and> count_from 0 (''# SBXR Acceptance Record'' @ [newline]) body = 1
       \<and> \<not> str_contains (''# SBXR Installer-Updater Acceptance Record'' @ [newline]) body);
     guard (list_all (\<lambda>(key, wanted). value_of_key body key = Some wanted) (required_values identity));
     package \<leftarrow> value_of_key body ''Proxy package: '';
     guard (package \<in> set proxy_packages);
     evidence \<leftarrow> value_of_key body ''Workflow evidence: '';
     guard (workflow_url evidence);
     detailed \<leftarrow> value_of_key body ''Detailed evidence SHA-256: '';
     guard (lower_hex detailed 64);
     toolchain \<leftarrow> value_of_key body ''Go toolchain: '';
     version \<leftarrow> strip_prefix ''go'' toolchain;
     guard (version_parts version ''.'' 3 3);
     karing \<leftarrow> value_of_key body ''Karing package: '';
     guard (karing_package (split_char CHR '' '' karing));
     guard (list_all (\<lambda>prefix. \<not> list_ex (starts_with prefix) (body_lines body)) refused_prefixes);
     seen \<leftarrow> scenarios [] (List.map_filter (strip_prefix ''Scenario: '') (body_lines body));
     guard (length seen = 5);
     guard (list_all (\<lambda>asset. value_of_key body (''Asset: '' @ ap_name asset @ '' '')
       = Some (show_u64 (ap_size asset) @ '' '' @ ap_sha256 asset)) assets);
     sequence \<leftarrow> value_of_key body ''Sequence: '';
     guard (list_all is_ascii_digit sequence);
     n \<leftarrow> parse_u64 sequence;
     guard (n > 0);
     Some n
   }"

end
