(* ===== verification/Release_Acquisition.thy ===== *)
theory Release_Acquisition
  imports Release_Archive
begin

text \<open>
  \<open>src/release_acquisition.rs\<close> and \<open>src/release_acquisition/candidate.rs\<close>: from the metadata of a release over its
  authenticated claims or its signed manifest to the bytes of one executable, and the binding of installed bytes to
  it.  Structs without \<open>deny_unknown_fields\<close> ignore members they do not know.  A struct that is read from a \<open>Value\<close>
  may also be an array with its fields in order.
\<close>

section \<open>Release metadata\<close>

definition de_loose :: "string list \<Rightarrow> json \<Rightarrow> (string \<rightharpoonup> json) option" where
  "de_loose names j =
     (case j of
        JObj kvs \<Rightarrow> Some (map_of kvs)
      | JArr xs \<Rightarrow> if length xs = length names then Some (map_of (zip names xs)) else None
      | _ \<Rightarrow> None)"

definition de_strict :: "string list \<Rightarrow> json \<Rightarrow> (string \<rightharpoonup> json) option" where
  "de_strict names j =
     (case j of
        JArr xs \<Rightarrow> if length xs = length names then Some (map_of (zip names xs)) else None
      | _ \<Rightarrow> de_object names j)"

record wire_asset =
  wa_name :: string
  wa_size :: u64
  wa_digest :: string
  wa_state :: string
  wa_url :: string

definition de_wire_asset :: "json \<Rightarrow> wire_asset option" where
  "de_wire_asset j = do {
     m \<leftarrow> de_loose [''name'', ''size'', ''digest'', ''state'', ''url''] j;
     name \<leftarrow> de_req m ''name'' de_str;
     size \<leftarrow> de_req m ''size'' de_u64;
     digest \<leftarrow> de_req m ''digest'' de_str;
     state \<leftarrow> de_req m ''state'' de_str;
     url \<leftarrow> de_req m ''url'' de_str;
     Some \<lparr>wa_name = name, wa_size = size, wa_digest = digest, wa_state = state, wa_url = url\<rparr>
   }"

record wire_release =
  wr_tag_name :: string
  wr_target_commitish :: string
  wr_body :: string
  wr_draft :: bool
  wr_prerelease :: bool
  wr_immutable :: bool
  wr_assets :: "wire_asset list"
  wr_qualification :: "json option"

text \<open>\<open>from_value\<close> of what \<open>json_object\<close> returned, which is an object.\<close>

definition de_wire_release :: "json \<Rightarrow> wire_release option" where
  "de_wire_release j = do {
     kvs \<leftarrow> as_object j;
     let m = map_of kvs;
     tag_name \<leftarrow> de_req m ''tag_name'' de_str;
     target_commitish \<leftarrow> de_req m ''target_commitish'' de_str;
     body \<leftarrow> de_req m ''body'' de_str;
     draft \<leftarrow> de_req m ''draft'' de_bool;
     prerelease \<leftarrow> de_req m ''prerelease'' de_bool;
     immutable \<leftarrow> de_req m ''immutable'' de_bool;
     assets \<leftarrow> de_req m ''assets'' (de_list de_wire_asset);
     Some \<lparr>wr_tag_name = tag_name, wr_target_commitish = target_commitish, wr_body = body, wr_draft = draft,
       wr_prerelease = prerelease, wr_immutable = immutable, wr_assets = assets,
       wr_qualification = non_null kvs ''sbxr_qualification''\<rparr>
   }"

record release_asset =
  ra_id :: u64
  ra_proof :: asset_proof

record metadata =
  md_identity :: release_identity
  md_sequence :: u64
  md_assets :: "(string \<times> release_asset) list"

definition wire_asset_bound :: "wire_asset \<Rightarrow> release_asset option" where
  "wire_asset_bound asset = do {
     guard (wa_name asset \<in> set RELEASE_ASSET_NAMES \<and> wa_state asset = ''uploaded'');
     guard (wa_size asset \<noteq> 0 \<and> wa_size asset \<le> of_nat (asset_limit (wa_name asset)));
     hash \<leftarrow> strip_prefix ''sha256:'' (wa_digest asset);
     p \<leftarrow> new_asset_proof (wa_name asset) (wa_size asset) hash;
     ident \<leftarrow> strip_prefix (API @ ''/releases/assets/'') (wa_url asset);
     number \<leftarrow> parse_u64 ident;
     guard (number \<noteq> 0 \<and> show_u64 number = ident);
     Some \<lparr>ra_id = number, ra_proof = p\<rparr>
   }"

fun collect_assets :: "(string \<times> release_asset) list \<Rightarrow> wire_asset list \<Rightarrow> (string \<times> release_asset) list option" where
  "collect_assets assets [] = Some assets"
| "collect_assets assets (a # as) = do {
     bound \<leftarrow> wire_asset_bound a;
     (if map_of assets (wa_name a) \<noteq> None then None else collect_assets (bt_insert (wa_name a) bound assets) as)
   }"

definition metadata_assets :: "wire_release \<Rightarrow> release_identity \<Rightarrow> (string \<times> release_asset) list option" where
  "metadata_assets published selected = do {
     guard (\<not> wr_draft published \<and> \<not> wr_prerelease published \<and> wr_immutable published \<and> wr_tag_name published = ri_tag selected
       \<and> wr_target_commitish published = ri_commit selected \<and> length (wr_assets published) = 4);
     assets \<leftarrow> collect_assets [] (wr_assets published);
     index \<leftarrow> map_of assets ''release-index.json'';
     guard (ap_sha256 (ra_proof index) = ri_index_sha256 selected);
     Some assets
   }"

definition decode_exact :: "lib \<Rightarrow> bytes \<Rightarrow> release_identity \<Rightarrow> metadata option" where
  "decode_exact L bytes selected = do {
     value \<leftarrow> json_object L bytes MAX_INDEX_BYTES;
     published \<leftarrow> de_wire_release value;
     guard (wr_qualification published = None);
     assets \<leftarrow> metadata_assets published selected;
     sequence \<leftarrow> acceptance_check (wr_body published) selected (map (ra_proof \<circ> snd) assets);
     Some \<lparr>md_identity = selected, md_sequence = sequence, md_assets = assets\<rparr>
   }"

definition decode_metadata :: "lib \<Rightarrow> bytes \<Rightarrow> installed_record \<Rightarrow> metadata option" where
  "decode_metadata L bytes r = do {
     selected \<leftarrow> new_stable_identity (ir_tag r) (ir_commit r) (ir_release_index_sha256 r);
     result \<leftarrow> decode_exact L bytes selected;
     guard (md_sequence result = ir_sequence r);
     Some result
   }"

definition metadata_expected :: "metadata \<Rightarrow> expected_release option" where
  "metadata_expected m = new_expected (md_identity m) (map (ra_proof \<circ> snd) (md_assets m))"

section \<open>Archives\<close>

record authenticated_archive =
  aa_record :: installed_record
  aa_index :: release_index
  aa_executable :: bytes

record authenticated_installed =
  an_record :: installed_record
  an_index :: release_index

record verified_manifest =
  vm_metadata :: metadata
  vm_index :: bytes
  vm_statement :: verified_statement

datatype archive_proof = StableProof verified_claims | CandidateProof verified_manifest

definition proof_identity :: "archive_proof \<Rightarrow> release_identity" where
  "proof_identity p = (case p of StableProof c \<Rightarrow> vc_identity c | CandidateProof m \<Rightarrow> md_identity (vm_metadata m))"

definition proof_asset :: "archive_proof \<Rightarrow> string \<Rightarrow> asset_proof option" where
  "proof_asset p name =
     (case p of
        StableProof c \<Rightarrow> claimed_asset c name
      | CandidateProof m \<Rightarrow> map_option ra_proof (map_of (md_assets (vm_metadata m)) name))"

definition check_index :: "archive_proof \<Rightarrow> bytes \<Rightarrow> unit option" where
  "check_index p bytes = (case p of StableProof _ \<Rightarrow> Some () | CandidateProof m \<Rightarrow> guard (bytes = vm_index m))"

definition clean_install_only :: "release_index \<Rightarrow> bool" where
  "clean_install_only ix =
     is_some_and (\<lambda>s. sp_scope s = CleanInstallOnly \<and> sp_sources s = []) (xd_support (ix_document ix))"

definition archive_name :: "architecture \<Rightarrow> string" where
  "archive_name a = (case a of Amd64 \<Rightarrow> ''sbxr-linux-amd64.tar.gz'' | Arm64 \<Rightarrow> ''sbxr-linux-arm64.tar.gz'')"

definition index_checked :: "lib \<Rightarrow> metadata \<Rightarrow> archive_proof \<Rightarrow> bytes \<Rightarrow> release_index option" where
  "index_checked L m authority bytes = do {
     proofs \<leftarrow> those (map (proof_asset authority) RELEASE_ASSET_NAMES);
     ix \<leftarrow> verify_release_index L REPOSITORY (ri_tag (md_identity m)) (ri_commit (md_identity m)) bytes proofs;
     guard (xd_sequence (ix_document ix) = md_sequence m \<and> clean_install_only ix);
     check_index authority bytes;
     Some ix
   }"

text \<open>\<open>index.identity()\<close> is defined for every index that was decoded.\<close>

definition archive_record :: "lib \<Rightarrow> release_index \<Rightarrow> architecture \<Rightarrow> bytes \<Rightarrow> installed_record option" where
  "archive_record L ix architecture executable = do {
     identity \<leftarrow> index_identity L ix;
     release \<leftarrow> new_release (ri_tag identity) (ri_commit identity) (ri_index_sha256 identity);
     new_installed L release (xd_sequence (ix_document ix)) (arch_text architecture) (sha256_hex L executable)
   }"

definition acquire_with_proof ::
  "lib \<Rightarrow> ('w, 'r, 'b) trust_env \<Rightarrow> 'z archive_env \<Rightarrow> metadata \<Rightarrow> archive_proof \<Rightarrow> architecture \<Rightarrow> selection_budget
   \<Rightarrow> (trust_error, 'w, authenticated_archive) comp" where
  "acquire_with_proof L E G m authority architecture budget =
     bnd (check E budget) (\<lambda>_.
     bnd (demand (proof_identity authority = md_identity m)) (\<lambda>_.
     bnd (refused (map_of (md_assets m) ''release-index.json'')) (\<lambda>asset.
     bnd (refused (proof_asset authority ''release-index.json'')) (\<lambda>p.
     bnd (acquire_digest_checked_asset L E (ra_id asset) p budget) (\<lambda>bytes.
     bnd (refused (index_checked L m authority bytes)) (\<lambda>ix.
     bnd (refused (map_of (md_assets m) (archive_name architecture))) (\<lambda>asset.
     bnd (refused (proof_asset authority (archive_name architecture))) (\<lambda>p.
     bnd (acquire_digest_checked_asset L E (ra_id asset) p budget) (\<lambda>bytes.
     bnd (unpack E G bytes budget) (\<lambda>executable.
     bnd (refused (inspect_release_executable L ix executable architecture)) (\<lambda>_.
     bnd (check E budget) (\<lambda>_.
     bnd (refused (archive_record L ix architecture executable)) (\<lambda>r.
     bnd (check E budget) (\<lambda>_.
     ret \<lparr>aa_record = r, aa_index = ix, aa_executable = executable\<rparr>))))))))))))))"

definition acquire_archive ::
  "lib \<Rightarrow> ('w, 'r, 'b) trust_env \<Rightarrow> 'z archive_env \<Rightarrow> metadata \<Rightarrow> verified_claims \<Rightarrow> architecture \<Rightarrow> selection_budget
   \<Rightarrow> (trust_error, 'w, authenticated_archive) comp" where
  "acquire_archive L E G m claims architecture budget = acquire_with_proof L E G m (StableProof claims) architecture budget"

text \<open>What every acquisition of a stable release ends with: the claims of the metadata, and the archive.\<close>

definition acquire_claimed ::
  "lib \<Rightarrow> ('w, 'r, 'b) trust_env \<Rightarrow> 'z archive_env \<Rightarrow> metadata \<Rightarrow> architecture \<Rightarrow> selection_budget
   \<Rightarrow> (trust_error, 'w, authenticated_archive) comp" where
  "acquire_claimed L E G m architecture budget =
     bnd (refused (metadata_expected m)) (\<lambda>expected.
     bnd (verify_native_release L E expected budget) (\<lambda>claims.
     acquire_archive L E G m claims architecture budget))"

definition fetch_metadata ::
  "('w, 'r, 'b) trust_env \<Rightarrow> acquisition_request \<Rightarrow> selection_budget \<Rightarrow> (trust_error, 'w, bytes) comp" where
  "fetch_metadata E request budget =
     bnd (te_get E request) (\<lambda>response. read_complete_json_response E response (aq_limit request) budget)"

text \<open>\<open>AuthenticatedArchive::acquire\<close> of a reviewed identity.\<close>

definition acquire_selected ::
  "lib \<Rightarrow> ('w, 'r, 'b) trust_env \<Rightarrow> 'z archive_env \<Rightarrow> release_identity \<Rightarrow> architecture \<Rightarrow> selection_budget
   \<Rightarrow> (trust_error, 'w, authenticated_archive) comp" where
  "acquire_selected L E G selected architecture budget =
     bnd (check E budget) (\<lambda>_.
     bnd (refused (new_stable_identity (ri_tag selected) (ri_commit selected) (ri_index_sha256 selected))) (\<lambda>expected.
     bnd (refused (release_metadata (ri_tag selected))) (\<lambda>request.
     bnd (fetch_metadata E request budget) (\<lambda>bytes.
     bnd (refused (decode_exact L bytes expected)) (\<lambda>m.
     acquire_claimed L E G m architecture budget)))))"

text \<open>The identity that public metadata names.\<close>

definition public_identity :: "lib \<Rightarrow> bytes \<Rightarrow> string option \<Rightarrow> release_identity option" where
  "public_identity L bytes tag = do {
     value \<leftarrow> json_object L bytes MAX_INDEX_BYTES;
     published \<leftarrow> de_wire_release value;
     guard (is_none_or (\<lambda>t. t = wr_tag_name published) tag);
     asset \<leftarrow> find (\<lambda>a. wa_name a = ''release-index.json'') (wr_assets published);
     digest \<leftarrow> strip_prefix ''sha256:'' (wa_digest asset);
     new_stable_identity (wr_tag_name published) (wr_target_commitish published) digest
   }"

definition acquire_public_request ::
  "lib \<Rightarrow> ('w, 'r, 'b) trust_env \<Rightarrow> 'z archive_env \<Rightarrow> acquisition_request \<Rightarrow> string option \<Rightarrow> architecture
   \<Rightarrow> selection_budget \<Rightarrow> (trust_error, 'w, authenticated_archive) comp" where
  "acquire_public_request L E G request tag architecture budget =
     bnd (check E budget) (\<lambda>_.
     bnd (fetch_metadata E request budget) (\<lambda>bytes.
     bnd (refused (public_identity L bytes tag)) (\<lambda>selected.
     bnd (refused (decode_exact L bytes selected)) (\<lambda>m.
     acquire_claimed L E G m architecture budget))))"

definition acquire_latest ::
  "lib \<Rightarrow> ('w, 'r, 'b) trust_env \<Rightarrow> 'z archive_env \<Rightarrow> architecture \<Rightarrow> selection_budget
   \<Rightarrow> (trust_error, 'w, authenticated_archive) comp" where
  "acquire_latest L E G architecture budget = acquire_public_request L E G latest_metadata None architecture budget"

definition acquire_public_tag ::
  "lib \<Rightarrow> ('w, 'r, 'b) trust_env \<Rightarrow> 'z archive_env \<Rightarrow> string \<Rightarrow> architecture \<Rightarrow> selection_budget
   \<Rightarrow> (trust_error, 'w, authenticated_archive) comp" where
  "acquire_public_tag L E G tag architecture budget =
     bnd (check E budget) (\<lambda>_.
     bnd (refused (release_metadata tag)) (\<lambda>request.
     acquire_public_request L E G request (Some tag) architecture budget))"

section \<open>Installed bytes\<close>

definition bind_current ::
  "('w, 'r, 'b) trust_env \<Rightarrow> authenticated_archive \<Rightarrow> bytes \<Rightarrow> bytes \<Rightarrow> selection_budget
   \<Rightarrow> (trust_error, 'w, authenticated_installed) comp" where
  "bind_current E archive installed current budget =
     bnd (check E budget) (\<lambda>_.
     bnd (demand (installed = aa_executable archive \<and> current = aa_executable archive)) (\<lambda>_.
     bnd (check E budget) (\<lambda>_.
     ret \<lparr>an_record = aa_record archive, an_index = aa_index archive\<rparr>)))"

definition complete ::
  "lib \<Rightarrow> ('w, 'r, 'b) trust_env \<Rightarrow> 'z archive_env \<Rightarrow> installed_record \<Rightarrow> bytes \<Rightarrow> metadata \<Rightarrow> verified_claims
   \<Rightarrow> architecture \<Rightarrow> selection_budget \<Rightarrow> (trust_error, 'w, authenticated_installed) comp" where
  "complete L E G r installed m claims architecture budget =
     bnd (acquire_archive L E G m claims architecture budget) (\<lambda>archive.
     bnd (demand (aa_record archive = r)) (\<lambda>_.
     bind_current E archive installed installed budget))"

definition record_architecture :: "installed_record \<Rightarrow> architecture option" where
  "record_architecture r =
     (if ir_architecture r = ''amd64'' then Some Amd64 else if ir_architecture r = ''arm64'' then Some Arm64 else None)"

definition acquire_installed ::
  "lib \<Rightarrow> ('w, 'r, 'b) trust_env \<Rightarrow> 'z archive_env \<Rightarrow> installed_record \<Rightarrow> bytes \<Rightarrow> bytes \<Rightarrow> selection_budget
   \<Rightarrow> (trust_error, 'w, authenticated_installed) comp" where
  "acquire_installed L E G r installed current budget =
     bnd (check E budget) (\<lambda>_.
     bnd (demand (installed = current)) (\<lambda>_.
     bnd (refused (record_architecture r)) (\<lambda>architecture.
     bnd (refused (verify_installed_linux_pair L r installed architecture)) (\<lambda>_.
     bnd (refused (release_metadata (ir_tag r))) (\<lambda>request.
     bnd (fetch_metadata E request budget) (\<lambda>bytes.
     bnd (refused (decode_metadata L bytes r)) (\<lambda>m.
     bnd (refused (metadata_expected m)) (\<lambda>expected.
     bnd (verify_native_release L E expected budget) (\<lambda>claims.
     complete L E G r installed m claims architecture budget)))))))))"

end
