(* ===== verification/Candidate_Acquisition.thy ===== *)
theory Candidate_Acquisition
  imports Release_Acquisition
begin

text \<open>
  \<open>src/release_acquisition/candidate.rs\<close>: releases that a candidate workflow signed.  The manifest is authenticated
  before anything in it is believed; its inspection alone grants nothing.
\<close>

section \<open>The manifest\<close>

record workflow_claim =
  wf_path :: string
  wf_ref :: string
  wf_commit :: string
  wf_run_id :: string
  wf_run_url :: string

definition de_workflow :: "json \<Rightarrow> workflow_claim option" where
  "de_workflow j = do {
     m \<leftarrow> de_strict [''path'', ''ref'', ''commit'', ''run_id'', ''run_url''] j;
     path \<leftarrow> de_req m ''path'' de_str;
     r \<leftarrow> de_req m ''ref'' de_str;
     commit \<leftarrow> de_req m ''commit'' de_str;
     run_id \<leftarrow> de_req m ''run_id'' de_str;
     run_url \<leftarrow> de_req m ''run_url'' de_str;
     Some \<lparr>wf_path = path, wf_ref = r, wf_commit = commit, wf_run_id = run_id, wf_run_url = run_url\<rparr>
   }"

record decision =
  dc_stage :: string
  dc_outcome :: string
  dc_facts_sha256 :: string
  dc_decision_sha256 :: string

definition de_decision :: "json \<Rightarrow> decision option" where
  "de_decision j = do {
     m \<leftarrow> de_strict [''stage'', ''outcome'', ''facts_sha256'', ''decision_sha256''] j;
     stage \<leftarrow> de_req m ''stage'' de_str;
     outcome \<leftarrow> de_req m ''outcome'' de_str;
     facts_sha256 \<leftarrow> de_req m ''facts_sha256'' de_str;
     decision_sha256 \<leftarrow> de_req m ''decision_sha256'' de_str;
     Some \<lparr>dc_stage = stage, dc_outcome = outcome, dc_facts_sha256 = facts_sha256, dc_decision_sha256 = decision_sha256\<rparr>
   }"

definition de_environment :: "json \<Rightarrow> string option" where
  "de_environment j = do {
     m \<leftarrow> de_strict [''name''] j;
     de_req m ''name'' de_str
   }"

record approval =
  av_state :: string
  av_environments :: "string list"
  av_decision_chain :: "decision list"

definition de_approval :: "json \<Rightarrow> approval option" where
  "de_approval j = do {
     m \<leftarrow> de_strict [''state'', ''environments'', ''decision_chain''] j;
     state \<leftarrow> de_req m ''state'' de_str;
     environments \<leftarrow> de_req m ''environments'' (de_list de_environment);
     decision_chain \<leftarrow> de_req m ''decision_chain'' (de_list de_decision);
     Some \<lparr>av_state = state, av_environments = environments, av_decision_chain = decision_chain\<rparr>
   }"

definition decode_identity :: "json \<Rightarrow> release_identity option" where
  "decode_identity j = do {
     m \<leftarrow> de_strict [''repository'', ''tag'', ''commit'', ''release_index_sha256''] j;
     repository \<leftarrow> de_req m ''repository'' de_str;
     tag \<leftarrow> de_req m ''tag'' de_str;
     commit \<leftarrow> de_req m ''commit'' de_str;
     index \<leftarrow> de_req m ''release_index_sha256'' de_str;
     guard (repository = REPOSITORY);
     new_stable_identity tag commit index
   }"

record candidate_release =
  cr_tag :: string
  cr_commit :: string
  cr_sequence :: u64
  cr_release_id :: u64
  cr_identity :: release_identity
  cr_assets :: "asset_proof list"

definition de_candidate_release :: "json \<Rightarrow> candidate_release option" where
  "de_candidate_release j = do {
     m \<leftarrow> de_strict [''tag'', ''commit'', ''sequence'', ''release_id'', ''release_identity'', ''assets''] j;
     tag \<leftarrow> de_req m ''tag'' de_str;
     commit \<leftarrow> de_req m ''commit'' de_str;
     sequence \<leftarrow> de_req m ''sequence'' de_u64;
     release_id \<leftarrow> de_req m ''release_id'' de_u64;
     identity \<leftarrow> de_req m ''release_identity'' decode_identity;
     assets \<leftarrow> de_req m ''assets'' (de_list de_asset);
     Some \<lparr>cr_tag = tag, cr_commit = commit, cr_sequence = sequence, cr_release_id = release_id, cr_identity = identity,
       cr_assets = assets\<rparr>
   }"

definition de_evidence :: "json \<Rightarrow> (string \<times> string) option" where
  "de_evidence j = do {
     m \<leftarrow> de_strict [''path'', ''sha256''] j;
     path \<leftarrow> de_req m ''path'' de_str;
     sha256 \<leftarrow> de_req m ''sha256'' de_str;
     Some (path, sha256)
   }"

record manifest =
  mf_schema :: string
  mf_repository :: string
  mf_mode :: string
  mf_source_state :: string
  mf_workflow :: workflow_claim
  mf_approval :: approval
  mf_releases :: "candidate_release list"
  mf_native_evidence :: "(string \<times> string) list"
  mf_checklist_sha256 :: string
  mf_failure_state_sha256 :: string
  mf_pinned_actions :: "string list"
  mf_rescue :: "json option"
  mf_attempt :: json

definition manifest_names :: "string list" where
  "manifest_names =
     [''schema'', ''repository'', ''mode'', ''source_state'', ''workflow'', ''approval'', ''releases'', ''native_evidence'',
      ''acceptance_vps_checklist_sha256'', ''candidate_failure_state_sha256'', ''pinned_actions'', ''rescue'', ''v3_attempt'']"

definition de_manifest :: "json \<Rightarrow> manifest option" where
  "de_manifest j = do {
     m \<leftarrow> de_object manifest_names j;
     schema \<leftarrow> de_req m ''schema'' de_str;
     repository \<leftarrow> de_req m ''repository'' de_str;
     mode \<leftarrow> de_req m ''mode'' de_str;
     source_state \<leftarrow> de_req m ''source_state'' de_str;
     workflow \<leftarrow> de_req m ''workflow'' de_workflow;
     approval \<leftarrow> de_req m ''approval'' de_approval;
     releases \<leftarrow> de_req m ''releases'' (de_list de_candidate_release);
     native_evidence \<leftarrow> de_req m ''native_evidence'' (de_list de_evidence);
     checklist \<leftarrow> de_req m ''acceptance_vps_checklist_sha256'' de_str;
     failure_state \<leftarrow> de_req m ''candidate_failure_state_sha256'' de_str;
     pinned_actions \<leftarrow> de_req m ''pinned_actions'' (de_list de_str);
     rescue \<leftarrow> de_nullable m ''rescue'' Some;
     attempt \<leftarrow> de_req m ''v3_attempt'' Some;
     Some \<lparr>mf_schema = schema, mf_repository = repository, mf_mode = mode, mf_source_state = source_state,
       mf_workflow = workflow, mf_approval = approval, mf_releases = releases, mf_native_evidence = native_evidence,
       mf_checklist_sha256 = checklist, mf_failure_state_sha256 = failure_state, mf_pinned_actions = pinned_actions,
       mf_rescue = rescue, mf_attempt = attempt\<rparr>
   }"

section \<open>Its inspection\<close>

definition positive :: "string \<Rightarrow> bool" where
  "positive s = is_some_and (\<lambda>n. n > 0 \<and> show_u64 n = s) (parse_u64 s)"

definition candidate_valid :: "candidate_release \<Rightarrow> bool" where
  "candidate_valid r =
     (cr_sequence r > 0 \<and> cr_release_id r > 0 \<and> cr_tag r = ri_tag (cr_identity r) \<and> cr_commit r = ri_commit (cr_identity r)
      \<and> length (cr_assets r) = 4
      \<and> list_all (\<lambda>name. length (filter (\<lambda>a. ap_name a = name) (cr_assets r)) = 1) RELEASE_ASSET_NAMES
      \<and> is_some_and (\<lambda>a. ap_sha256 a = ri_index_sha256 (cr_identity r))
          (find (\<lambda>a. ap_name a = ''release-index.json'') (cr_assets r)))"

definition attempt_names :: "string list" where
  "attempt_names =
     [''after_snap_refresh'', ''attempt_id'', ''attended_finish_by'', ''automated_only_scenarios'', ''baseline'',
      ''candidate_index'', ''evidence_policy'', ''karing_latest_checked_at'', ''karing_limit_seconds'',
      ''karing_response_limit_seconds'', ''late_confirmation_review'', ''live89_correction_review'', ''mac_runner_id'',
      ''macos_version'', ''outside_runner_id'', ''owner_exception'', ''packages'', ''proxy_package'', ''proxy_profile'',
      ''required_scenarios'', ''run_attempt'', ''runner'', ''scenario_limit_seconds'', ''schema'', ''sources'',
      ''started_at'', ''support'', ''validation_limit_seconds'', ''vps_id'', ''vps_identity_sha256'']"

definition attempt_support :: json where
  "attempt_support =
     JObj [(''contract'', JStr ''sbxr-subscription-update-v1''), (''scope'', JStr ''subscription-clean-install-only''),
           (''sources'', JArr [])]"

definition attempt_fields_valid :: "json \<Rightarrow> (string \<times> json) list \<Rightarrow> bool" where
  "attempt_fields_valid attempt kvs =
     (list_all (\<lambda>(k, _). k \<in> set attempt_names) kvs
      \<and> jindex ''schema'' attempt = JStr ''sbxr-v3-qualification-attempt-v3''
      \<and> jindex ''evidence_policy'' attempt = JStr ''mvp-http-live-v1'' \<and> jindex ''sources'' attempt = JArr []
      \<and> jindex ''support'' attempt = attempt_support
      \<and> jindex ''required_scenarios'' attempt = JArr (map JStr expected_scenarios)
      \<and> non_null kvs ''late_confirmation_review'' = None \<and> non_null kvs ''live89_correction_review'' = None
      \<and> is_none_or (\<lambda>v. v = JStr []) (map_of kvs ''owner_exception'')
      \<and> is_none_or (\<lambda>v. v = JNull \<or> v = JArr []) (map_of kvs ''automated_only_scenarios'')
      \<and> is_none_or (\<lambda>v. v = JStr [] \<or> v = JStr ''vless-vmess'') (map_of kvs ''proxy_profile'')
      \<and> \<not> (jindex ''proxy_profile'' attempt = JStr ''vless-vmess'' \<and> non_null kvs ''automated_only_scenarios'' \<noteq> None))"

definition attempt_index :: "lib \<Rightarrow> json \<Rightarrow> workflow_claim \<Rightarrow> candidate_release \<Rightarrow> bytes option" where
  "attempt_index L attempt workflow release = do {
     kvs \<leftarrow> as_object attempt;
     guard (attempt_fields_valid attempt kvs);
     run \<leftarrow> de_u64 (jindex ''run_attempt'' attempt);
     guard (run > 0);
     guard (jindex ''attempt_id'' attempt = JStr (''run-'' @ wf_run_id workflow @ ''-attempt-'' @ show_u64 run));
     value \<leftarrow> map_of kvs ''baseline'';
     baseline \<leftarrow> de_candidate_release value;
     guard (candidate_valid baseline \<and> cr_sequence baseline < cr_sequence release \<and> cr_tag baseline \<noteq> cr_tag release
       \<and> cr_release_id baseline \<noteq> cr_release_id release);
     index \<leftarrow> as_str (jindex ''candidate_index'' attempt);
     guard (index \<noteq> [] \<and> length index \<le> MAX_INDEX_BYTES \<and> sha256_hex L index = ri_index_sha256 (cr_identity release));
     ix \<leftarrow> verify_release_index L REPOSITORY (cr_tag release) (cr_commit release) index (cr_assets release);
     guard (xd_sequence (ix_document ix) = cr_sequence release \<and> clean_install_only ix);
     Some (ix_bytes ix)
   }"

definition workflow_valid :: "workflow_claim \<Rightarrow> string \<Rightarrow> bool" where
  "workflow_valid w commit =
     (wf_path w = ''.github/workflows/candidate.yml''
      \<and> wf_ref w = REPOSITORY @ ''/.github/workflows/candidate.yml@refs/heads/main''
      \<and> wf_commit w = commit \<and> positive (wf_run_id w)
      \<and> wf_run_url w = ''https://github.com/'' @ REPOSITORY @ ''/actions/runs/'' @ wf_run_id w)"

definition decision_stages :: "(string \<times> string) list" where
  "decision_stages =
     [(''candidate-preflight'', ''accepted''), (''candidate-draft-construction'', ''actions-required''),
      (''candidate-draft-verification'', ''accepted'')]"

definition approval_valid :: "approval \<Rightarrow> bool" where
  "approval_valid a =
     (av_state a = ''approved'' \<and> av_environments a = [''acceptance-vps'']
      \<and> length (av_decision_chain a) = length decision_stages
      \<and> list_all (\<lambda>(d, stage, outcome). dc_stage d = stage \<and> dc_outcome d = outcome
            \<and> lower_hex (dc_facts_sha256 d) 64 \<and> lower_hex (dc_decision_sha256 d) 64)
          (zip (av_decision_chain a) decision_stages))"

definition evidence_path :: "string \<Rightarrow> string \<Rightarrow> string" where
  "evidence_path tag arch = ''native/native-'' @ tag @ ''-'' @ arch @ ''/evidence/native-'' @ arch @ ''.json''"

definition evidence_valid :: "manifest \<Rightarrow> candidate_release \<Rightarrow> bool" where
  "evidence_valid m release =
     (length (mf_native_evidence m) = 2
      \<and> list_all (\<lambda>((path, sha256), expected). path = expected \<and> lower_hex sha256 64)
          (zip (mf_native_evidence m) [evidence_path (cr_tag release) ''amd64'', evidence_path (cr_tag release) ''arm64''])
      \<and> mf_pinned_actions m \<noteq> []
      \<and> list_all (\<lambda>p. is_some_and (\<lambda>(name, sha). starts_with ''actions/'' name \<and> lower_hex sha 40) (split_once CHR ''@'' p))
          (mf_pinned_actions m))"

definition inspect_manifest ::
  "lib \<Rightarrow> bytes \<Rightarrow> wire_release \<Rightarrow> release_identity \<Rightarrow> (metadata \<times> bytes) option" where
  "inspect_manifest L bytes published selected = do {
     value \<leftarrow> json_object L bytes MAX_INDEX_BYTES;
     m \<leftarrow> de_manifest value;
     guard (mf_schema m = ''sbxr-qualification-manifest-v3'' \<and> mf_repository m = REPOSITORY \<and> mf_mode m = ''v3''
       \<and> mf_source_state m = ''v3-subscription-clean'' \<and> mf_rescue m = None \<and> length (mf_releases m) = 1
       \<and> workflow_valid (mf_workflow m) (ri_commit selected) \<and> approval_valid (mf_approval m)
       \<and> lower_hex (mf_checklist_sha256 m) 64 \<and> lower_hex (mf_failure_state_sha256 m) 64);
     let release = hd (mf_releases m);
     guard (candidate_valid release \<and> cr_identity release = selected \<and> cr_commit release = wf_commit (mf_workflow m));
     guard (evidence_valid m release);
     assets \<leftarrow> metadata_assets published selected;
     guard (list_all (\<lambda>a. is_some_and (\<lambda>bound. ra_proof bound = a) (map_of assets (ap_name a))) (cr_assets release));
     index \<leftarrow> attempt_index L (mf_attempt m) (mf_workflow m) release;
     Some (\<lparr>md_identity = selected, md_sequence = cr_sequence release, md_assets = assets\<rparr>, index)
   }"

section \<open>Candidates\<close>

definition decode_base64 :: "'z archive_env \<Rightarrow> string \<Rightarrow> nat \<Rightarrow> bytes option" where
  "decode_base64 G s limit = do {
     guard (s \<noteq> [] \<and> length s \<le> div_ceil limit 3 * 4);
     bytes \<leftarrow> std_decode G s;
     guard (bytes \<noteq> [] \<and> length bytes \<le> limit \<and> std_encode G bytes = s);
     Some bytes
   }"

text \<open>The manifest and the bundle that come with the metadata of a candidate.\<close>

definition candidate_wire :: "lib \<Rightarrow> 'z archive_env \<Rightarrow> bytes \<Rightarrow> (wire_release \<times> bytes \<times> bytes) option" where
  "candidate_wire L G bytes = do {
     value \<leftarrow> json_object L bytes MAX_INDEX_BYTES;
     published \<leftarrow> de_wire_release value;
     wrapper \<leftarrow> wr_qualification published;
     w \<leftarrow> de_strict [''manifest'', ''bundle''] wrapper;
     manifest_text \<leftarrow> de_req w ''manifest'' de_str;
     bundle_text \<leftarrow> de_req w ''bundle'' de_str;
     manifest \<leftarrow> decode_base64 G manifest_text MAX_INDEX_BYTES;
     bundle \<leftarrow> decode_base64 G bundle_text MAX_BUNDLE_BYTES;
     Some (published, manifest, bundle)
   }"

definition verify_manifest ::
  "lib \<Rightarrow> ('w, 'r, 'b) trust_env \<Rightarrow> 'z archive_env \<Rightarrow> bytes \<Rightarrow> release_identity \<Rightarrow> selection_budget
   \<Rightarrow> (trust_error, 'w, verified_manifest) comp" where
  "verify_manifest L E G bytes selected budget =
     bnd (check E budget) (\<lambda>_.
     bnd (refused (candidate_wire L G bytes)) (\<lambda>(published, manifest, bundle).
     bnd (verify_candidate_manifest L E bundle manifest budget) (\<lambda>statement.
     bnd (refused (inspect_manifest L manifest published selected)) (\<lambda>(m, index).
     bnd (check E budget) (\<lambda>_.
     ret \<lparr>vm_metadata = m, vm_index = index, vm_statement = statement\<rparr>)))))"

record candidate_archive =
  ca_archive :: authenticated_archive
  ca_manifest_sha256 :: string

record candidate_installed =
  ci_installed :: authenticated_installed
  ci_manifest_sha256 :: string

definition acquire_candidate ::
  "lib \<Rightarrow> ('w, 'r, 'b) trust_env \<Rightarrow> 'z archive_env \<Rightarrow> release_identity \<Rightarrow> architecture \<Rightarrow> selection_budget
   \<Rightarrow> (trust_error, 'w, candidate_archive) comp" where
  "acquire_candidate L E G selected architecture budget =
     bnd (check E budget) (\<lambda>_.
     bnd (refused (new_stable_identity (ri_tag selected) (ri_commit selected) (ri_index_sha256 selected))) (\<lambda>selected.
     bnd (fetch_metadata E latest_metadata budget) (\<lambda>bytes.
     bnd (verify_manifest L E G bytes selected budget) (\<lambda>p.
     bnd (acquire_with_proof L E G (vm_metadata p) (CandidateProof p) architecture budget) (\<lambda>archive.
     bnd (refused (inspect_linux_artifact L (aa_executable archive) architecture)) (\<lambda>inspection.
     bnd (demand (ai_kind inspection = RustArtifact)) (\<lambda>_.
     bnd (check E budget) (\<lambda>_.
     ret \<lparr>ca_archive = archive, ca_manifest_sha256 = vp_digest (vs_policy (vm_statement p))\<rparr>))))))))"

definition bind_candidate ::
  "('w, 'r, 'b) trust_env \<Rightarrow> candidate_archive \<Rightarrow> bytes \<Rightarrow> bytes \<Rightarrow> selection_budget
   \<Rightarrow> (trust_error, 'w, candidate_installed) comp" where
  "bind_candidate E candidate installed current budget =
     bnd (bind_current E (ca_archive candidate) installed current budget) (\<lambda>bound.
     ret \<lparr>ci_installed = bound, ci_manifest_sha256 = ca_manifest_sha256 candidate\<rparr>)"

text \<open>\<open>handoff_identity\<close>: the inspection of a manifest alone, with metadata made up from it.\<close>

definition handoff_asset :: "candidate_release \<Rightarrow> nat \<times> string \<Rightarrow> wire_asset option" where
  "handoff_asset release = (\<lambda>(i, name). do {
     p \<leftarrow> find (\<lambda>p. ap_name p = name) (cr_assets release);
     Some \<lparr>wa_name = name, wa_size = ap_size p, wa_digest = ''sha256:'' @ ap_sha256 p, wa_state = ''uploaded'',
       wa_url = API @ ''/releases/assets/'' @ show_u64 (of_nat (i + 1))\<rparr>
   })"

definition handoff_identity :: "lib \<Rightarrow> bytes \<Rightarrow> (release_identity \<times> u64) option" where
  "handoff_identity L bytes = do {
     value \<leftarrow> json_object L bytes MAX_INDEX_BYTES;
     m \<leftarrow> de_manifest value;
     guard (length (mf_releases m) = 1);
     let release = hd (mf_releases m);
     let selected = cr_identity release;
     assets \<leftarrow> those (map (handoff_asset release) (enumerate 0 RELEASE_ASSET_NAMES));
     _ \<leftarrow> inspect_manifest L bytes \<lparr>wr_tag_name = ri_tag selected, wr_target_commitish = ri_commit selected, wr_body = [],
       wr_draft = False, wr_prerelease = False, wr_immutable = True, wr_assets = assets, wr_qualification = None\<rparr> selected;
     identity \<leftarrow> new_release (ri_tag selected) (ri_commit selected) (ri_index_sha256 selected);
     Some (identity, cr_sequence release)
   }"

section \<open>Installed evidence\<close>

text \<open>The sealed trait \<open>InstalledEvidence\<close> has two implementations, and each keeps its role.\<close>

datatype delivery_role = StableRole | CandidateRole

datatype evidence = StableEvidence authenticated_installed | CandidateEvidence candidate_installed

definition evidence_record :: "evidence \<Rightarrow> installed_record" where
  "evidence_record e = (case e of StableEvidence i \<Rightarrow> an_record i | CandidateEvidence c \<Rightarrow> an_record (ci_installed c))"

definition evidence_index :: "evidence \<Rightarrow> release_index" where
  "evidence_index e = (case e of StableEvidence i \<Rightarrow> an_index i | CandidateEvidence c \<Rightarrow> an_index (ci_installed c))"

definition evidence_role :: "evidence \<Rightarrow> delivery_role" where
  "evidence_role e = (case e of StableEvidence _ \<Rightarrow> StableRole | CandidateEvidence _ \<Rightarrow> CandidateRole)"

end
