(* ===== verification/Acquisition_Laws.thy ===== *)
theory Acquisition_Laws
  imports Candidate_Acquisition Trust_Properties
begin

text \<open>
  From the signature to the installed bytes: what an acquired archive rests on.  The theorems hold for every transport,
  backend and decoder; they say which facts were established on the way to a successful result.
\<close>

section \<open>Steps\<close>

lemma index_checked_Some:
  assumes "index_checked L m authority bytes = Some ix"
  shows "decode_index L bytes = Some ix \<and> ix_bytes ix = bytes \<and> xd_tag (ix_document ix) = ri_tag (md_identity m)
    \<and> xd_commit (ix_document ix) = ri_commit (md_identity m) \<and> xd_sequence (ix_document ix) = md_sequence m
    \<and> clean_install_only ix \<and> check_index authority bytes = Some ()"
  using assms
  by (auto simp: index_checked_def verify_release_index_def guard_bind decode_index_def split: bind_splits if_splits)

lemma new_expected_Some:
  assumes "new_expected identity assets = Some expected"
  shows "er_identity expected = identity
    \<and> (\<exists>p. map_of (er_assets expected) ''release-index.json'' = Some p \<and> ap_sha256 p = ri_index_sha256 identity)"
  using assms by (auto simp: new_expected_def guard_bind split: bind_splits)

lemma decode_exact_Some: "decode_exact L bytes selected = Some m \<Longrightarrow> md_identity m = selected"
  by (auto simp: decode_exact_def guard_bind split: bind_splits)

lemma new_stable_identity_Some:
  "new_stable_identity tag commit index = Some i \<longleftrightarrow> stable_release tag commit 1 \<and> lower_hex index 64
    \<and> i = \<lparr>ri_repository = REPOSITORY, ri_tag = tag, ri_commit = commit, ri_index_sha256 = index\<rparr>"
  by (auto simp: new_stable_identity_def)

lemma new_installed_Some:
  assumes "json_text L" "new_installed L release n arch executable = Some r"
  shows "ir_tag r = ri_tag release \<and> ir_commit r = ri_commit release \<and> ir_release_index_sha256 r = ri_index_sha256 release
    \<and> ir_sequence r = n \<and> ir_architecture r = arch \<and> ir_executable_sha256 r = executable"
proof -
  let ?w = "\<lparr>ir_schema = 1, ir_repository = ri_repository release, ir_tag = ri_tag release, ir_commit = ri_commit release,
    ir_release_index_sha256 = ri_index_sha256 release, ir_sequence = n, ir_architecture = arch, ir_executable_sha256 = executable\<rparr>"
  obtain bs where b: "encode L (ser_installed ?w) = Some bs" "decode_installed L bs = Some r"
    using assms(2) by (auto simp: new_installed_def Let_def split: option.splits)
  have "decode L de_installed bs = Some ?w"
    using json_text.decode_encode [OF assms(1) b(1), of de_installed] by (simp add: de_ser_installed)
  then have "r = ?w" using b(2) by (auto simp: decode_installed_def split: if_splits)
  then show ?thesis by simp
qed

lemma archive_record_Some:
  assumes "json_text L" "archive_record L ix architecture executable = Some r"
  shows "ir_tag r = xd_tag (ix_document ix) \<and> ir_commit r = xd_commit (ix_document ix)
    \<and> ir_release_index_sha256 r = sha256_hex L (ix_bytes ix) \<and> ir_sequence r = xd_sequence (ix_document ix)
    \<and> ir_architecture r = arch_text architecture \<and> ir_executable_sha256 r = sha256_hex L executable"
proof -
  obtain i release where i: "index_identity L ix = Some i"
    "new_release (ri_tag i) (ri_commit i) (ri_index_sha256 i) = Some release"
    "new_installed L release (xd_sequence (ix_document ix)) (arch_text architecture) (sha256_hex L executable) = Some r"
    using assms(2) by (auto simp: archive_record_def split: bind_splits)
  then show ?thesis
    using new_installed_Some [OF assms(1) i(3)] by (simp add: new_release_Some index_identity_def new_stable_identity_Some)
qed

text \<open>
  What every archive has, under a stable or a candidate authority: the archive and the index have the digests of the
  authority, and the executable is the member of the archive and passed the inspection against the index.
\<close>

definition archive_rests ::
  "lib \<Rightarrow> ('w, 'r, 'b) trust_env \<Rightarrow> 'z archive_env \<Rightarrow> selection_budget \<Rightarrow> metadata \<Rightarrow> archive_proof \<Rightarrow> architecture
   \<Rightarrow> authenticated_archive \<Rightarrow> bytes \<Rightarrow> bool" where
  "archive_rests L E G budget m authority architecture a archive =
     ((\<exists>p. proof_asset authority ''release-index.json'' = Some p \<and> sha256_hex L (ix_bytes (aa_index a)) = ap_sha256 p)
      \<and> (\<exists>p. proof_asset authority (archive_name architecture) = Some p \<and> sha256_hex L archive = ap_sha256 p)
      \<and> (\<exists>w w'. unpack E G archive budget w = (w', Inr (aa_executable a)))
      \<and> inspect_release_executable L (aa_index a) (aa_executable a) architecture \<noteq> None
      \<and> index_checked L m authority (ix_bytes (aa_index a)) = Some (aa_index a)
      \<and> archive_record L (aa_index a) architecture (aa_executable a) = Some (aa_record a))"

lemma acquire_with_proof_Inr:
  assumes "acquire_with_proof L E G m authority architecture budget w = (w', Inr a)"
  shows "proof_identity authority = md_identity m \<and> (\<exists>archive. archive_rests L E G budget m authority architecture a archive)"
proof -
  obtain p bytes q archive w1 w2 w3 w4 w5 n k where
    i: "proof_identity authority = md_identity m" "proof_asset authority ''release-index.json'' = Some p"
      "acquire_digest_checked_asset L E n p budget w1 = (w2, Inr bytes)" "index_checked L m authority bytes = Some (aa_index a)"
    and x: "proof_asset authority (archive_name architecture) = Some q"
      "acquire_digest_checked_asset L E k q budget w2 = (w3, Inr archive)"
      "unpack E G archive budget w3 = (w4, Inr (aa_executable a))"
    and r: "inspect_release_executable L (aa_index a) (aa_executable a) architecture \<noteq> None"
      "archive_record L (aa_index a) architecture (aa_executable a) = Some (aa_record a)"
    using assms by (auto simp: acquire_with_proof_def run_simps)
  have "ix_bytes (aa_index a) = bytes" using index_checked_Some [OF i(4)] by simp
  then have "archive_rests L E G budget m authority architecture a archive"
    using i x r acquire_digest_checked_asset_Inr [OF i(3)] acquire_digest_checked_asset_Inr [OF x(2)]
    unfolding archive_rests_def by blast
  then show ?thesis using i(1) by blast
qed

section \<open>Stable releases\<close>

text \<open>
  Everything that stands behind the archive of a stable release: a native proof of this tag and commit signs the digest
  of the archive and of the index; the executable is the member of that archive; the record names both.
\<close>

definition archive_signed ::
  "lib \<Rightarrow> ('w, 'r, 'b) trust_env \<Rightarrow> 'z archive_env \<Rightarrow> selection_budget \<Rightarrow> release_identity \<Rightarrow> architecture
   \<Rightarrow> authenticated_archive \<Rightarrow> bool" where
  "archive_signed L E G budget identity architecture a =
     (\<exists>expected body payload assets archive w w'. er_identity expected = identity
        \<and> native_proof L E expected body payload
        \<and> native_statement L payload (ri_commit identity) = Some (ri_tag identity, assets)
        \<and> map_of assets (archive_name architecture) = Some (sha256_hex L archive)
        \<and> map_of assets ''release-index.json'' = Some (sha256_hex L (ix_bytes (aa_index a)))
        \<and> sha256_hex L (ix_bytes (aa_index a)) = ri_index_sha256 identity
        \<and> unpack E G archive budget w = (w', Inr (aa_executable a))
        \<and> inspect_release_executable L (aa_index a) (aa_executable a) architecture \<noteq> None
        \<and> clean_install_only (aa_index a)
        \<and> ir_tag (aa_record a) = ri_tag identity \<and> ir_commit (aa_record a) = ri_commit identity
        \<and> ir_release_index_sha256 (aa_record a) = ri_index_sha256 identity
        \<and> ir_executable_sha256 (aa_record a) = sha256_hex L (aa_executable a))"

lemma acquire_claimed_Inr:
  assumes L: "json_text L" and run: "acquire_claimed L E G m architecture budget w = (w', Inr a)"
  shows "archive_signed L E G budget (md_identity m) architecture a"
proof -
  obtain expected claims w1 w2 where e: "metadata_expected m = Some expected"
    and v: "verify_native_release L E expected budget w1 = (w2, Inr claims)"
    and r: "acquire_with_proof L E G m (StableProof claims) architecture budget w2 = (w', Inr a)"
    using run by (auto simp: acquire_claimed_def acquire_archive_def run_simps)
  have i: "er_identity expected = md_identity m"
    "\<exists>p. map_of (er_assets expected) ''release-index.json'' = Some p \<and> ap_sha256 p = ri_index_sha256 (md_identity m)"
    using new_expected_Some e by (auto simp: metadata_expected_def)
  obtain archive where x: "archive_rests L E G budget m (StableProof claims) architecture a archive"
    using acquire_with_proof_Inr [OF r] by blast
  obtain body payload assets where p: "native_proof L E expected body payload"
    "native_statement L payload (ri_commit (md_identity m)) = Some (ri_tag (md_identity m), assets)"
    and c: "vc_assets claims = er_assets expected"
    using native_claims [OF v] unfolding i(1) by blast
  have signed: "map_of assets name = Some (ap_sha256 p)" if "map_of (er_assets expected) name = Some p" for name p
    using p that i(1) by (auto simp: native_proof_def)
  have at: "proof_asset (StableProof claims) name = map_of (er_assets expected) name" for name
    by (simp add: proof_asset_def claimed_asset_def c)
  obtain w3 w4 where
    d: "map_of assets ''release-index.json'' = Some (sha256_hex L (ix_bytes (aa_index a)))"
      "map_of assets (archive_name architecture) = Some (sha256_hex L archive)"
      "sha256_hex L (ix_bytes (aa_index a)) = ri_index_sha256 (md_identity m)"
    and u: "unpack E G archive budget w3 = (w4, Inr (aa_executable a))"
      "inspect_release_executable L (aa_index a) (aa_executable a) architecture \<noteq> None"
    and k: "index_checked L m (StableProof claims) (ix_bytes (aa_index a)) = Some (aa_index a)"
      "archive_record L (aa_index a) architecture (aa_executable a) = Some (aa_record a)"
    using x i(2) signed unfolding archive_rests_def at by auto
  show ?thesis
    unfolding archive_signed_def
    using i(1) p d u index_checked_Some [OF k(1)] archive_record_Some [OF L k(2)]
    by (intro exI [of _ expected] exI [of _ body] exI [of _ payload] exI [of _ assets] exI [of _ archive]
        exI [of _ w3] exI [of _ w4]) simp
qed

text \<open>
  The archive that \<open>AuthenticatedArchive::acquire\<close> returns for a reviewed identity is the signed one of that identity,
  whatever the transport, the decoder and the metadata server do.
\<close>

theorem acquired_archive_signed:
  assumes "json_text L" "acquire_selected L E G selected architecture budget w = (w', Inr a)"
  shows "archive_signed L E G budget
    \<lparr>ri_repository = ''albertloky/SBXR'', ri_tag = ri_tag selected, ri_commit = ri_commit selected,
     ri_index_sha256 = ri_index_sha256 selected\<rparr> architecture a"
proof -
  obtain expected bytes m w1 where "new_stable_identity (ri_tag selected) (ri_commit selected) (ri_index_sha256 selected) = Some expected"
    "decode_exact L bytes expected = Some m" "acquire_claimed L E G m architecture budget w1 = (w', Inr a)"
    using assms(2) by (auto simp: acquire_selected_def run_simps)
  then show ?thesis
    using acquire_claimed_Inr [OF assms(1)] decode_exact_Some by (fastforce simp: new_stable_identity_Some REPOSITORY_def)
qed

text \<open>
  The same for public metadata: the identity comes from the server, but what is returned is signed for it, and it has
  the requested tag when one was requested.
\<close>

theorem public_archive_signed:
  assumes "json_text L" "acquire_public_request L E G request tag architecture budget w = (w', Inr a)"
  shows "\<exists>identity. archive_signed L E G budget identity architecture a
    \<and> stable_release (ri_tag identity) (ri_commit identity) 1 \<and> (tag = None \<or> tag = Some (ri_tag identity))"
proof -
  obtain bytes selected m w1 where s: "public_identity L bytes tag = Some selected" "decode_exact L bytes selected = Some m"
    "acquire_claimed L E G m architecture budget w1 = (w', Inr a)"
    using assms(2) by (auto simp: acquire_public_request_def run_simps)
  have "archive_signed L E G budget selected architecture a"
    using acquire_claimed_Inr [OF assms(1) s(3)] decode_exact_Some [OF s(2)] by simp
  moreover have "stable_release (ri_tag selected) (ri_commit selected) 1 \<and> (tag = None \<or> tag = Some (ri_tag selected))"
    using s(1) by (cases tag) (auto simp: public_identity_def guard_bind new_stable_identity_Some split: bind_splits)
  ultimately show ?thesis by blast
qed

text \<open>
  Installed bytes are bound only to themselves: the executable that was read twice is the signed executable of the
  release that the Installed Record names.
\<close>

theorem installed_bytes_signed:
  assumes "json_text L" "acquire_installed L E G r installed current budget w = (w', Inr i)"
  shows "an_record i = r \<and> installed = current
    \<and> (\<exists>a identity architecture. archive_signed L E G budget identity architecture a \<and> aa_executable a = installed
        \<and> aa_record a = r \<and> an_index i = aa_index a \<and> ri_tag identity = ir_tag r \<and> ri_commit identity = ir_commit r
        \<and> ri_index_sha256 identity = ir_release_index_sha256 r)"
proof -
  obtain architecture m expected claims bytes w1 w2 where
    "installed = current" and d: "decode_metadata L bytes r = Some m"
    and e: "metadata_expected m = Some expected" "verify_native_release L E expected budget w1 = (w2, Inr claims)"
    and c: "complete L E G r installed m claims architecture budget w2 = (w', Inr i)"
    using assms(2) by (auto simp: acquire_installed_def run_simps)
  obtain a w3 where a: "acquire_archive L E G m claims architecture budget w2 = (w3, Inr a)" "aa_record a = r"
    "aa_executable a = installed" "i = \<lparr>an_record = aa_record a, an_index = aa_index a\<rparr>"
    using c by (auto simp: complete_def bind_current_def run_simps)
  have "acquire_claimed L E G m architecture budget w1 = (w3, Inr a)"
    using e a(1) by (simp add: acquire_claimed_def bnd_def option_or_def ret_def)
  then have "archive_signed L E G budget (md_identity m) architecture a" by (rule acquire_claimed_Inr [OF assms(1)])
  moreover have "ri_tag (md_identity m) = ir_tag r" "ri_commit (md_identity m) = ir_commit r"
      "ri_index_sha256 (md_identity m) = ir_release_index_sha256 r"
    using d decode_exact_Some by (auto simp: decode_metadata_def guard_bind new_stable_identity_Some split: bind_splits)
  ultimately show ?thesis using a \<open>installed = current\<close> by auto
qed

section \<open>Candidates\<close>

text \<open>
  A candidate never counts as stable, and its archive rests on a manifest that the candidate workflow signed: the exact
  manifest bytes are the only subject of the statement, the manifest names the reviewed identity and every asset proof,
  and the executable is a Rust artifact.
\<close>

theorem candidate_archive_signed:
  assumes "acquire_candidate L E G selected architecture budget w = (w', Inr c)"
  shows "\<exists>body manifest published index statement m archive.
    authentic L E \<lparr>vp_root = CandidateWorkflow, vp_digest = sha256_hex L manifest\<rparr> body (vs_payload statement)
    \<and> inspect_candidate_statement L (vs_payload statement) manifest = Some ()
    \<and> inspect_manifest L manifest published
        \<lparr>ri_repository = ''albertloky/SBXR'', ri_tag = ri_tag selected, ri_commit = ri_commit selected,
         ri_index_sha256 = ri_index_sha256 selected\<rparr> = Some (m, index)
    \<and> archive_rests L E G budget m (CandidateProof \<lparr>vm_metadata = m, vm_index = index, vm_statement = statement\<rparr>)
        architecture (ca_archive c) archive
    \<and> ca_manifest_sha256 c = sha256_hex L manifest
    \<and> (\<exists>r. inspect_linux_artifact L (aa_executable (ca_archive c)) architecture = Some r \<and> ai_kind r = RustArtifact)"
proof -
  obtain identity bytes p archive r w1 w2 w3 where
    i: "new_stable_identity (ri_tag selected) (ri_commit selected) (ri_index_sha256 selected) = Some identity"
    and v: "verify_manifest L E G bytes identity budget w1 = (w2, Inr p)"
    and a: "acquire_with_proof L E G (vm_metadata p) (CandidateProof p) architecture budget w2 = (w3, Inr archive)"
    and r: "inspect_linux_artifact L (aa_executable archive) architecture = Some r" "ai_kind r = RustArtifact"
    and c: "c = \<lparr>ca_archive = archive, ca_manifest_sha256 = vp_digest (vs_policy (vm_statement p))\<rparr>"
    using assms by (auto simp: acquire_candidate_def run_simps)
  obtain published manifest body statement m index w4 w5 where
    s: "verify_candidate_manifest L E body manifest budget w4 = (w5, Inr statement)"
    and m: "inspect_manifest L manifest published identity = Some (m, index)"
      "p = \<lparr>vm_metadata = m, vm_index = index, vm_statement = statement\<rparr>"
    using v by (auto simp: verify_manifest_def run_simps)
  obtain policy w6 w7 where y: "candidate_manifest (sha256_hex L manifest) = Some policy"
    "verify_bundle L E body policy budget w6 = (w7, Inr statement)"
    "inspect_candidate_statement L (vs_payload statement) manifest = Some ()"
    using s by (auto simp: verify_candidate_manifest_def run_simps)
  have q: "policy = \<lparr>vp_root = CandidateWorkflow, vp_digest = sha256_hex L manifest\<rparr>"
    using y(1) by (simp add: candidate_manifest_def split: if_splits)
  have n: "identity = \<lparr>ri_repository = ''albertloky/SBXR'', ri_tag = ri_tag selected, ri_commit = ri_commit selected,
      ri_index_sha256 = ri_index_sha256 selected\<rparr>"
    using i by (simp add: new_stable_identity_Some REPOSITORY_def)
  obtain x where x: "archive_rests L E G budget (vm_metadata p) (CandidateProof p) architecture archive x"
    using acquire_with_proof_Inr [OF a] by blast
  have b: "authentic L E policy body (vs_payload statement)" "vs_policy statement = policy"
    using verify_bundle_Inr [OF y(2)] by simp_all
  show ?thesis
    using b y(3) m x r
    by (intro exI [of _ body] exI [of _ manifest] exI [of _ published] exI [of _ index] exI [of _ statement]
        exI [of _ m] exI [of _ x]) (simp add: c q n)
qed

end
