(* ===== verification/Spec2Isabelle.thy ===== *)
theory Spec2Isabelle
  imports Record_Properties Store_Properties Removal_Properties Access_Properties Rotation_Properties
    Disclosure_Properties Serving_Properties Release_Properties Trust_Properties Acquisition_Laws
begin

text \<open>
  \<^bold>\<open>SBXR: records, durable authority, removal, access artifacts, client identity rotation, subscription serving and
  release trust.\<close>

  SBXR installs, changes and removes a proxy on a server that it does not own alone.  Everything it may
  touch is written down first, in an Ownership Record, and every step is a replacement of that record by an
  admitted successor; whatever is interrupted is recovered from the record.  The development models the parts
  of the Rust implementation (under \<open>src/src/\<close>) that carry this logic, in the order the code has them.

  \<^bold>\<open>Layers and their theories.\<close>

  \<^item> \<open>Prelude\<close>: machine integers, bytes, and the pieces of the standard library that the code calls.
    Strings are byte lists.  \<open>Json\<close>: documents as trees, \<open>serde_json::Value\<close> as trees with sorted
    objects, derived (de)serializers.  \<open>Json_Text\<close>: an executable text layer that satisfies the laws assumed
    of \<open>serde_json\<close>.  \<open>Net_Addr\<close>: the address parser of the standard library.
  \<^item> \<open>Release_Identity\<close> (\<open>records.rs\<close>, \<open>records/identity.rs\<close>), \<open>Authority\<close> (\<open>records/authority.rs\<close>,
    \<open>records/retirement.rs\<close>), \<open>Operations\<close> (\<open>records/operations.rs\<close>), \<open>Ownership\<close> and \<open>Validation\<close>
    (\<open>records/ownership.rs\<close>, \<open>records/resources.rs\<close>, \<open>records/validation.rs\<close>), \<open>Codec\<close> (the codec of
    \<open>records/ownership.rs\<close>) and \<open>Transitions\<close> (\<open>records/transitions.rs\<close>, \<open>records/http.rs\<close>): the
    Ownership Record, its validation, its bytes and its pure transitions.  Every Rust struct is a record, every
    enum a datatype, and \<open>Err(RecordError)\<close> is \<open>None\<close>.
  \<^item> \<open>Staged\<close>, \<open>Record_Laws\<close>, \<open>Setup_Progress\<close>, \<open>Http_Operations\<close>, \<open>Successors\<close>: the laws of these
    transitions.  The locale \<^emph>\<open>staged\<close> is the contract that all checkpointed operations share; setup, cleanup,
    enablement, rotation, repair and removal interpret it.
  \<^item> \<open>Record_Value\<close>, \<open>Removal_Record\<close>, \<open>Client_Record\<close>: the transitions that edit the record as a JSON value
    (\<open>removal.rs\<close>, first part of \<open>client_identity.rs\<close>), with the proof that each edit is the expected change
    of the typed record.
  \<^item> \<open>Durable\<close> (\<open>durable.rs\<close>): the protected directory and the two files in it, as explicit state with a
    failure predicate for every system call and the injected faults of the code.  A file is read as one consistent
    read: the comparisons of inodes around it are there against other processes, which are not modelled.
    \<open>Staging_Laws\<close>: what a staged record can be that inspection tolerates.
  \<^item> \<open>Removal\<close>, \<open>Removal_Laws\<close>, \<open>Removal_Progress\<close> (\<open>removal.rs\<close>): the review and the execution of a
    complete removal over a host, which is a record of functions on an arbitrary state; its \<open>&self\<close> calls read
    that state, so two of them with no call that changes it in between agree.
  \<^item> \<open>Base64\<close> (the reference codec of RFC 4648), \<open>Subscription_Artifact\<close> (\<open>subscription_artifact.rs\<close>),
    \<open>Server_Configuration\<close> (\<open>server_configuration.rs\<close> and \<open>json_object\<close> of \<open>artifact_trust.rs\<close>) and
    \<open>Identity_Generation\<close> (\<open>identity_generation.rs\<close>): links, credentials and client texts, the rendering and
    the strict reading of the proxy configuration, and the identities both are made of.
  \<^item> \<open>Rotation_Begin\<close>, \<open>Client_Rotation\<close>, \<open>Rotation_Laws\<close> (second part of \<open>client_identity.rs\<close>): the first record
    of a rotation; snapshots, review, execution, completion and the forward loop over a host; and the laws of their
    runs.  \<open>Review_Laws\<close>: reviews observed, with the order of what they ask and what a successful one was told.
    \<open>Disclosure\<close>, \<open>Disclosure_Laws\<close> (\<open>disclosure.rs\<close>): sessions, reviews and executions that show a client
    configuration, mark a link as compromised, or show the link.  \<open>Host_Monad\<close> is shared by both: the state-and-error
    monad, observed hosts (\<open>logged\<close>, \<open>watched\<close>) that keep a log without changing a result (\<open>mirrors\<close>), and the rules
    of \<open>secure\<close> that carry a condition on the log (\<open>safe\<close>, \<open>disclosure_ok\<close>) through the operations.
  \<^item> \<open>Binary64\<close> (the arithmetic of \<open>f64\<close>, as rationals with rounding), \<open>Subscription_Serving\<close>
    (\<open>subscription_serving.rs\<close>): generations and states, the rate limiter, the request check, one exchange with a peer,
    the cancellation registry, the accept loop with its threads, and the module.  \<open>Limiter_Laws\<close>, \<open>Serving_Laws\<close> and
    \<open>Serving_Session\<close> hold their laws, for every operating system that keeps the contracts of the locales \<^emph>\<open>wire\<close>,
    \<^emph>\<open>session\<close> and \<^emph>\<open>registry_os\<close> (the lock of the registry holds what was unlocked last, and a shutdown reaches
    the socket of every clone); \<open>Serving_Simulation\<close> interprets all three on simulated ones.
  \<^item> \<open>Release_Index\<close> (first half of \<open>release_identity.rs\<close>: the release index, its support statement, the
    identity trailer of an executable) and \<open>Elf_Inspection\<close> (its second half and \<open>build_metadata.rs\<close>: the
    inspection of the Linux executable).  \<open>Release_Laws\<close> and \<open>Elf_Laws\<close> hold their laws, the latter
    with the specification of a static executable in literal offsets and tags, \<open>Release_Examples\<close> an index
    and a stamped executable.
  \<^item> \<open>Artifact_Trust\<close> (\<open>artifact_trust.rs\<close>): the budget of a selection, the pinned policies, signed bundles,
    statements and claims, the bounded reader.  \<open>Release_Archive\<close> (\<open>release_archive.rs\<close> and
    \<open>release_acquisition/acceptance.rs\<close>), \<open>Release_Acquisition\<close> (\<open>release_acquisition.rs\<close>) and
    \<open>Candidate_Acquisition\<close> (\<open>release_acquisition/candidate.rs\<close>): from release metadata to an authenticated archive
    and an authenticated installation.  \<open>Trust_Laws\<close> holds the laws of the policy and the locale \<^emph>\<open>reader\<close>;
    \<open>Acquisition_Laws\<close> shows what a returned archive rests on: the archive, public and installed bytes are signed for
    their identity, and a candidate's archive rests on its signed manifest.
  \<^item> \<open>Examples\<close> holds the concrete records of the witnesses; \<open>Record_Properties\<close>, \<open>Store_Properties\<close>,
    \<open>Removal_Properties\<close>, \<open>Access_Properties\<close>, \<open>Rotation_Properties\<close>, \<open>Disclosure_Properties\<close>,
    \<open>Serving_Properties\<close>, \<open>Release_Properties\<close> and \<open>Trust_Properties\<close> the properties C1 to C40.

  \<^bold>\<open>Parameters.\<close>  \<open>serde_json\<close> and SHA-256 are code outside the repository: the record \<^typ>\<open>lib\<close> passes
  them to the definitions, and the locale \<^emph>\<open>json_text\<close> names what is relied upon, that a written document
  reads back (for every tree, which idealizes the limits of \<open>serde_json\<close> on depth, numbers and UTF-8); \<^emph>\<open>json_markup\<close> adds that the bytes Go escapes for HTML appear in a text only where a string has
  them.  \<open>Json_Text\<close> interprets both.  The base64 and x25519 crates are the record \<^typ>\<open>crypto\<close> with the locale
  \<^emph>\<open>crates\<close>, interpreted in \<open>Identity_Generation\<close> with the reference codec; entropy is a function on a state of
  its own.  Cancellation is read off the host state, so it can come between any two calls.  The hosts of the
  orchestration are arguments too; nothing is assumed of them except where a property says so.  Sockets, threads and
  the clock of the serving module are the record \<^typ>\<open>'w net_host\<close>, and the request parser of the httparse crate is a
  function.  The transport, the clock, the cancellation flags, sigstore, snap and the bytes of the two pinned roots are
  the record \<open>trust_env\<close>; the decoders of flate2 and base64 are the record \<open>archive_env\<close>.  Their functions act on an
  arbitrary world, so they may answer differently at every call.

  \<^bold>\<open>What the lemmas show.\<close>

  \<^item> Records, C1 to C4, C6, C26 and C27: the codec round trips, setup, cleanup and HTTP enablement can be carried
    through in exactly their checkpoints, and no permitted sequence of successors crosses the activation barrier
    backwards.  C26 and C27 record two inputs on which the components disagree.
  \<^item> The store, C10 to C12 and C14 to C16: a publication is atomic under all faults and succeeds without them,
    histories of publications are authorized, a staged file tolerated beside an uncommitted record
    commits, serves and begins nothing, the directory is protected, and a revoked
    client identity never returns.
  \<^item> Removal, C18 to C24: the commitment refines its abstract specification, every effect was inspected first,
    outcomes mean what they say, actions are used once, and on a cooperating host a removal completes from every
    checkpoint.
  \<^item> Access, C28, C30 and C33: links and credentials are exactly the canonical texts, artifacts determine their facts
    and fit, and the supported configurations are exactly the renderings.
  \<^item> Client identity rotation, C36 to C39: the record edits are one typed edit, a review only asks and
    prepares the rotation of exactly what the host told it, every effect and publication rests on evidence gathered since the last change whatever the host
    does, and a rotation ends, with its effects in their order and on the reviewed target when it succeeds.
  \<^item> Disclosure, C40: it reveals or records only what was reviewed and seen again, once, and shows only links of the
    recorded credential.
  \<^item> Serving, C5, C7, C8, C17, C25, C31 and C35: the limiter keeps its bounds and admits a source at its rate, the
    accepted requests are characterized, a connection ends and sends a prefix of one response, a prompt peer gets the
    whole of it, a cancelled session ends with its threads joined, and under every interleaving of
    \<open>register\<close>, \<open>drop\<close> and \<open>cancel\<close> the registry is exact, and once
    cancelled it registers nothing and every live connection is shut down.
  \<^item> Releases, C13, C29 and C32: a decoded index is valid and has the identity of its bytes, the trailer of an
    executable is read exactly as it is stamped, and an executable that passes the inspection is bound to its index,
    linked statically, and entered and mapped in executable segments.
  \<^item> Trust, C9 and C34: a response is read exactly and within its limit, an asset is returned only with its size and
    digest, and the claims of a native release are authenticated whatever the transport answers.

  \<^bold>\<open>Bounds.\<close>  The decimal and octal printers use fuel 11 and 12, enough for the ten and eleven digits of a 32-bit
  number.  Loops over checkpoints are recursions over lists or counted by the checkpoint.  The forward loop of a
  rotation has fuel 11, one round for each checkpoint; C39 shows that it never runs out.  The reader of a response ends
  because it grows its body up to a limit, and so does the inflation of an archive.  The loops of the serving module
  wait for the operating system: they are partial functions into \<open>option\<close>, and C17, C25 and C31 show that they return.
  All other functions are total.

  \<^bold>\<open>Not modelled.\<close>  The native host adapters (\<open>host/linux\<close>, \<open>host/filesystem\<close>, \<open>host/runtime\<close> and the other
  directories of \<open>host\<close>) are system calls and subprocesses.  The HTTPS transport (\<open>release_https.rs\<close>) and the
  acquisition of packages (\<open>package_acquisition.rs\<close>) rest on sockets and on crates outside the repository.  The pinned
  package constants of \<open>server_configuration.rs\<close> are data.  The orchestration of the tunnel, the software lifecycle, the
  setup journey and the terminal are not modelled either.
\<close>

end
